(* ===== verification/Atlaso_Prelude.thy ===== *)
theory Atlaso_Prelude
  imports Main "HOL-Library.Word"
begin

text \<open>
  Shared vocabulary of the development: the result type of fallible Python code with its
  monadic composition, Python's byte strings and text strings, big-endian integers
  (\<open>int.to_bytes\<close>, \<open>int.from_bytes\<close>, \<open>struct.pack\<close>), slices, and the contract
  \<open>strict_codec\<close> that every encoder/decoder pair of the development is shown to meet.
\<close>

named_theorems result_simps \<open>equations of the result monad\<close>

section \<open>Results: errors as values\<close>

text \<open>
  A function that may raise returns \<open>'e + 'a\<close>: \<open>Inl e\<close> is the exception, \<open>Inr x\<close> the
  returned value. \<open>bindE\<close> is sequential composition: the second statement runs only if
  the first one did not raise.
\<close>

definition bindE :: "'e + 'a \<Rightarrow> ('a \<Rightarrow> 'e + 'b) \<Rightarrow> 'e + 'b" where
  "bindE m f = (case m of Inl e \<Rightarrow> Inl e | Inr x \<Rightarrow> f x)"

text \<open>\<open>raise_if c e\<close>: the statement \<open>if c: raise e\<close>.\<close>

definition raise_if :: "bool \<Rightarrow> 'e \<Rightarrow> 'e + unit" where
  "raise_if c e = (if c then Inl e else Inr ())"

text \<open>\<open>catchE m h\<close>: \<open>try: m except ...: h\<close>; the handler re-raises what it does not handle.\<close>

definition catchE :: "'e + 'a \<Rightarrow> ('e \<Rightarrow> 'f + 'a) \<Rightarrow> 'f + 'a" where
  "catchE m h = (case m of Inl e \<Rightarrow> h e | Inr x \<Rightarrow> Inr x)"

text \<open>A comprehension over a list, left to right, that stops at the first exception.\<close>

fun mapE :: "('a \<Rightarrow> 'e + 'b) \<Rightarrow> 'a list \<Rightarrow> 'e + 'b list" where
  "mapE f [] = Inr []"
| "mapE f (x # xs) = bindE (f x) (\<lambda>y. bindE (mapE f xs) (\<lambda>ys. Inr (y # ys)))"

lemma bindE_simps [simp, result_simps]:
  "bindE (Inl e) f = Inl e"
  "bindE (Inr x) f = f x"
  by (simp_all add: bindE_def)

lemma catchE_simps [simp, result_simps]:
  "catchE (Inl e) h = h e"
  "catchE (Inr x) h = Inr x"
  by (simp_all add: catchE_def)

lemma raise_if_simps [simp, result_simps]:
  "raise_if True e = Inl e"
  "raise_if False e = Inr ()"
  by (simp_all add: raise_if_def)

lemma bindE_eq_Inr [result_simps]:
  "bindE m f = Inr y \<longleftrightarrow> (\<exists>x. m = Inr x \<and> f x = Inr y)"
  by (cases m) simp_all

lemma bindE_eq_Inl:
  "bindE m f = Inl e \<longleftrightarrow> m = Inl e \<or> (\<exists>x. m = Inr x \<and> f x = Inl e)"
  by (cases m) simp_all

lemma raise_if_eq_Inr [simp, result_simps]: "raise_if c e = Inr u \<longleftrightarrow> \<not> c"
  by (simp add: raise_if_def)

lemma raise_if_eq_Inl [simp, result_simps]: "raise_if c e = Inl d \<longleftrightarrow> c \<and> d = e"
  by (auto simp add: raise_if_def)

lemma catchE_eq_Inr [result_simps]:
  "catchE m h = Inr y \<longleftrightarrow> m = Inr y \<or> (\<exists>e. m = Inl e \<and> h e = Inr y)"
  by (cases m) auto

lemma bindE_split:
  "P (bindE m f) \<longleftrightarrow> (\<forall>e. m = Inl e \<longrightarrow> P (Inl e)) \<and> (\<forall>x. m = Inr x \<longrightarrow> P (f x))"
  by (cases m) simp_all

lemma bindE_cong [fundef_cong]:
  "m = m' \<Longrightarrow> (\<And>x. m' = Inr x \<Longrightarrow> f x = f' x) \<Longrightarrow> bindE m f = bindE m' f'"
  by (cases m') simp_all

lemma mapE_eq_Inr:
  "mapE f xs = Inr ys \<longleftrightarrow> list_all2 (\<lambda>x y. f x = Inr y) xs ys"
  by (induction xs arbitrary: ys) (auto simp: bindE_eq_Inr list_all2_Cons1)

lemma mapE_length: "mapE f xs = Inr ys \<Longrightarrow> length ys = length xs"
  by (simp add: mapE_eq_Inr list_all2_lengthD)

lemma mapE_cong [fundef_cong]:
  "xs = ys \<Longrightarrow> (\<And>x. x \<in> set ys \<Longrightarrow> f x = g x) \<Longrightarrow> mapE f xs = mapE g ys"
  by (induction xs arbitrary: ys) auto

lemma mapE_Inr_map: "(\<And>x. x \<in> set xs \<Longrightarrow> f x = Inr (g x)) \<Longrightarrow> mapE f xs = Inr (map g xs)"
  by (induction xs) simp_all

lemma mapE_unit: "(\<exists>ys. mapE f xs = Inr ys) \<longleftrightarrow> (\<forall>x \<in> set xs. \<exists>y. f x = Inr y)"
  by (induction xs) (auto simp: bindE_eq_Inr)

section \<open>Stateful programs that may raise\<close>

text \<open>
  A method that changes state and may raise maps the state before the call to its result and
  the state after it: what was changed before an exception stays changed.
\<close>

type_synonym ('s, 'e, 'a) prog = "'s \<Rightarrow> ('e + 'a) \<times> 's"

definition returnS :: "'a \<Rightarrow> ('s, 'e, 'a) prog" where
  "returnS x s = (Inr x, s)"

definition raiseS :: "'e \<Rightarrow> ('s, 'e, 'a) prog" where
  "raiseS e s = (Inl e, s)"

definition liftS :: "'e + 'a \<Rightarrow> ('s, 'e, 'a) prog" where
  "liftS m s = (m, s)"

definition getS :: "('s \<Rightarrow> 'a) \<Rightarrow> ('s, 'e, 'a) prog" where
  "getS f s = (Inr (f s), s)"

definition modifyS :: "('s \<Rightarrow> 's) \<Rightarrow> ('s, 'e, unit) prog" where
  "modifyS f s = (Inr (), f s)"

definition bindS :: "('s, 'e, 'a) prog \<Rightarrow> ('a \<Rightarrow> ('s, 'e, 'b) prog) \<Rightarrow> ('s, 'e, 'b) prog" where
  "bindS m f s = (case m s of (Inl e, s') \<Rightarrow> (Inl e, s') | (Inr x, s') \<Rightarrow> f x s')"

definition catchS :: "('s, 'e, 'a) prog \<Rightarrow> ('e \<Rightarrow> ('s, 'e, 'a) prog) \<Rightarrow> ('s, 'e, 'a) prog" where
  "catchS m h s = (case m s of (Inl e, s') \<Rightarrow> h e s' | (Inr x, s') \<Rightarrow> (Inr x, s'))"

lemmas prog_defs = returnS_def raiseS_def liftS_def getS_def modifyS_def

lemma bindS_simps [simp, result_simps]:
  "bindS (returnS x) f = f x"
  "bindS (raiseS e) f = raiseS e"
  "bindS (liftS (Inr x)) f = f x"
  "bindS (liftS (Inl e)) f = raiseS e"
  "bindS (getS g) f = (\<lambda>s. f (g s) s)"
  "bindS (modifyS h) f' = (\<lambda>s. f' () (h s))"
  by (simp_all add: bindS_def prog_defs fun_eq_iff)

lemma bindS_eq_Inr:
  "bindS m f s = (Inr y, t) \<longleftrightarrow> (\<exists>x s'. m s = (Inr x, s') \<and> f x s' = (Inr y, t))"
  by (auto simp: bindS_def split: prod.splits sum.splits)

lemma bindS_eq_Inl:
  "bindS m f s = (Inl e, t) \<longleftrightarrow>
     m s = (Inl e, t) \<or> (\<exists>x s'. m s = (Inr x, s') \<and> f x s' = (Inl e, t))"
  by (auto simp: bindS_def split: prod.splits sum.splits)

text \<open>
  \<open>keeps P m\<close>: the program re-establishes \<open>P\<close>, whether it returns or raises. This is the
  contract every operation of a stateful component is shown to meet.
\<close>

definition keeps :: "('s \<Rightarrow> bool) \<Rightarrow> ('s, 'e, 'a) prog \<Rightarrow> bool" where
  "keeps P m \<longleftrightarrow> (\<forall>s. P s \<longrightarrow> P (snd (m s)))"

named_theorems keeps_intros \<open>programs that keep an assertion\<close>

lemma keepsI: "(\<And>s. P s \<Longrightarrow> P (snd (m s))) \<Longrightarrow> keeps P m"
  by (simp add: keeps_def)

lemma keepsD: "keeps P m \<Longrightarrow> P s \<Longrightarrow> P (snd (m s))"
  by (simp add: keeps_def)

lemma keeps_basic [keeps_intros]:
  "keeps P (returnS x)" "keeps P (raiseS e)" "keeps P (liftS r)" "keeps P (getS f)"
  by (simp_all add: keeps_def prog_defs)

lemma keeps_bindS [keeps_intros]: "keeps P m \<Longrightarrow> (\<And>x. keeps P (f x)) \<Longrightarrow> keeps P (bindS m f)"
  by (force simp: keeps_def bindS_def split: prod.splits sum.splits)

lemma keeps_catchS [keeps_intros]: "keeps P m \<Longrightarrow> (\<And>x. keeps P (h x)) \<Longrightarrow> keeps P (catchS m h)"
  by (force simp: keeps_def catchS_def split: prod.splits sum.splits)

lemma keeps_if [keeps_intros]: "keeps P m \<Longrightarrow> keeps P n \<Longrightarrow> keeps P (if c then m else n)"
  by simp

text \<open>
  \<open>steps R m\<close>: every run of the program, returning or raising, relates the states before and after
  it by \<open>R\<close>. When \<open>R\<close> is a preorder the contract is closed under composition.
\<close>

definition steps :: "('s \<Rightarrow> 's \<Rightarrow> bool) \<Rightarrow> ('s, 'e, 'a) prog \<Rightarrow> bool" where
  "steps R m \<longleftrightarrow> (\<forall>s. R s (snd (m s)))"

lemma stepsD: "steps R m \<Longrightarrow> m s = (r, s') \<Longrightarrow> R s s'"
  by (metis snd_conv steps_def)

locale transition_preorder =
  fixes R :: "'s \<Rightarrow> 's \<Rightarrow> bool"
  assumes refl: "R s s" and trans: "R s t \<Longrightarrow> R t w \<Longrightarrow> R s w"
begin

lemma basic: "steps R (returnS x)" "steps R (raiseS e)" "steps R (liftS r)" "steps R (getS f)"
  by (simp_all add: steps_def prog_defs refl)

lemma bindS: "steps R m \<Longrightarrow> (\<And>x. steps R (f x)) \<Longrightarrow> steps R (bindS m f)"
  unfolding steps_def bindS_def by (auto intro: trans split: prod.splits sum.splits) (metis snd_conv trans)+

lemma catchS: "steps R m \<Longrightarrow> (\<And>x. steps R (h x)) \<Longrightarrow> steps R (catchS m h)"
  unfolding steps_def catchS_def by (auto intro: trans split: prod.splits sum.splits) (metis snd_conv trans)+

lemma cond: "steps R m \<Longrightarrow> steps R n \<Longrightarrow> steps R (if c then m else n)"
  by simp

lemmas closed = basic bindS catchS cond

end

section \<open>The contract of an encoder and its strict decoder\<close>

text \<open>
  A decoder is \<^emph>\<open>strict\<close> for an encoder when it accepts exactly the encodings of the values
  in its range: whatever it returns encodes back to the very bytes that were read, and every
  encoding of an admissible value is read back.
\<close>

locale strict_codec =
  fixes enc :: "'a \<Rightarrow> 'e + 'b"
    and dec :: "'b \<Rightarrow> 'f + 'a"
    and admissible :: "'a \<Rightarrow> bool"
  assumes dec_iff: "dec y = Inr x \<longleftrightarrow> enc x = Inr y \<and> admissible x"
begin

lemma dec_enc: "enc x = Inr y \<Longrightarrow> admissible x \<Longrightarrow> dec y = Inr x"
  by (simp add: dec_iff)

lemma enc_dec: "dec y = Inr x \<Longrightarrow> enc x = Inr y"
  by (simp add: dec_iff)

lemma dec_admissible: "dec y = Inr x \<Longrightarrow> admissible x"
  by (simp add: dec_iff)

lemma enc_inj:
  assumes "admissible x" "admissible x'" "enc x = Inr y" "enc x' = Inr y"
  shows "x = x'"
proof -
  from assms have "dec y = Inr x" "dec y = Inr x'" by (simp_all add: dec_iff)
  then show ?thesis by simp
qed

lemma dec_inj: "dec y = Inr x \<Longrightarrow> dec y' = Inr x \<Longrightarrow> y = y'"
  by (simp add: dec_iff)

lemma dec_rejects: "(\<forall>x. enc x = Inr y \<longrightarrow> \<not> admissible x) \<Longrightarrow> \<exists>e. dec y = Inl e"
  by (cases "dec y") (auto simp: dec_iff)

end

section \<open>Byte strings, text strings and slices\<close>

type_synonym byte = "8 word"
type_synonym bytes = "byte list"

text \<open>
  A Python \<open>str\<close> is a sequence of code points (lone surrogates included); \<open>u\<close> embeds an
  ASCII literal of the source.
\<close>

type_synonym pystr = "nat list"

definition u :: "string \<Rightarrow> pystr" where
  "u s = map of_char s"

lemma u_eq_iff [simp]: "u s = u t \<longleftrightarrow> s = t"
  by (simp add: u_def inj_map_eq_map inj_on_def)

lemma length_u [simp]: "length (u s) = length s"
  by (simp add: u_def)

lemma u_eq_Nil [simp]: "u s = [] \<longleftrightarrow> s = []" "[] = u s \<longleftrightarrow> s = []"
  by (auto simp: u_def)

text \<open>\<open>xs[i:j]\<close> for \<open>0 \<le> i\<close>: a py_slice clamps at the end of the sequence.\<close>

definition py_slice :: "'a list \<Rightarrow> nat \<Rightarrow> nat \<Rightarrow> 'a list" where
  "py_slice xs i j = take (j - i) (drop i xs)"

lemma length_slice [simp]: "length (py_slice xs i j) = min (j - i) (length xs - i)"
  by (simp add: py_slice_def min.commute)

lemma slice_append_mid:
  "py_slice (pre @ xs @ post) (length pre) (length pre + length xs) = xs"
  by (simp add: py_slice_def)

lemma slice_prefix: "py_slice xs 0 n = take n xs"
  by (simp add: py_slice_def)

lemma slice_join:
  "i \<le> j \<Longrightarrow> j \<le> k \<Longrightarrow> py_slice xs i j @ py_slice xs j k = py_slice xs i k"
proof -
  assume "i \<le> j" "j \<le> k"
  then have eq: "k - i = (j - i) + (k - j)" and dj: "drop j xs = drop (j - i) (drop i xs)"
    by simp_all
  have "py_slice xs i k = take (j - i) (drop i xs) @ take (k - j) (drop (j - i) (drop i xs))"
    by (simp only: py_slice_def eq take_add)
  then show ?thesis by (simp only: py_slice_def dj)
qed

lemma slice_shift: "py_slice (drop n xs) i j = py_slice xs (n + i) (n + j)"
  by (simp add: py_slice_def add.commute)

lemma slice_slice_take: "j \<le> n \<Longrightarrow> py_slice (take n xs) i j = py_slice xs i j"
  by (simp add: py_slice_def drop_take min_def)

section \<open>Single bytes\<close>

text \<open>\<open>byte_of n\<close> is the byte with value \<open>n\<close> (reduced modulo 256).\<close>

definition byte_of :: "nat \<Rightarrow> byte" where
  "byte_of n = word_of_nat n"

lemma unat_byte_less [simp]: "unat (b :: byte) < 256"
  using unsigned_less [of b] by simp

lemma unat_byte_of [simp]: "unat (byte_of n) = n mod 256"
  by (simp add: byte_of_def unat_of_nat)

lemma byte_of_unat [simp]: "byte_of (unat b) = b"
  by (simp add: byte_of_def)

lemma byte_eq_iff: "(a :: byte) = b \<longleftrightarrow> unat a = unat b"
  by (rule word_unat_eq_iff)

lemma byte_of_inj: "m < 256 \<Longrightarrow> n < 256 \<Longrightarrow> byte_of m = byte_of n \<longleftrightarrow> m = n"
  by (simp add: byte_eq_iff)

lemma byte_of_add_mult: "byte_of (a * 256 + n) = byte_of n"
  by (simp add: byte_eq_iff)

lemma byte_of_eq: "unat b = n \<Longrightarrow> byte_of n = b"
  by auto

section \<open>Big-endian integers\<close>

text \<open>\<open>int.from_bytes(bs, "big")\<close> and \<open>n.to_bytes(k, "big")\<close> (for \<open>n < 256 ^ k\<close>).\<close>

definition be_nat :: "bytes \<Rightarrow> nat" where
  "be_nat bs = foldl (\<lambda>a b. a * 256 + unat b) 0 bs"

fun be_bytes :: "nat \<Rightarrow> nat \<Rightarrow> bytes" where
  "be_bytes 0 n = []"
| "be_bytes (Suc k) n = be_bytes k (n div 256) @ [byte_of n]"

lemma be_nat_Nil [simp]: "be_nat [] = 0"
  by (simp add: be_nat_def)

lemma be_nat_snoc [simp]: "be_nat (bs @ [b]) = be_nat bs * 256 + unat b"
  by (simp add: be_nat_def)

lemma length_be_bytes [simp]: "length (be_bytes k n) = k"
  by (induction k n rule: be_bytes.induct) simp_all

lemma be_nat_be_bytes [simp]: "be_nat (be_bytes k n) = n mod 256 ^ k"
proof (induction k n rule: be_bytes.induct)
  case (2 k n)
  have "n mod (256 * 256 ^ k) = 256 * (n div 256 mod 256 ^ k) + n mod 256"
    by (rule mod_mult2_eq)
  with 2 show ?case by simp
qed simp

lemma be_nat_less: "be_nat bs < 256 ^ length bs"
proof (induction bs rule: rev_induct)
  case (snoc b bs)
  have "unat b < 256" by simp
  with snoc have "be_nat bs * 256 + unat b < 256 ^ length bs * 256" by linarith
  then show ?case by (simp add: mult.commute)
qed simp

lemma be_bytes_be_nat [simp]: "length bs = k \<Longrightarrow> be_bytes k (be_nat bs) = bs"
proof (induction bs arbitrary: k rule: rev_induct)
  case (snoc b bs)
  then obtain k' where k: "k = Suc k'" "length bs = k'" by auto
  have "(be_nat bs * 256 + unat b) div 256 = be_nat bs" by simp
  with snoc.IH [of k'] k show ?case
    by (simp only: be_bytes.simps be_nat_snoc byte_of_add_mult byte_of_unat)
qed simp

lemma be_bytes_inj:
  assumes "be_bytes k m = be_bytes k n" "m < 256 ^ k" "n < 256 ^ k"
  shows "m = n"
proof -
  from assms(1) have "be_nat (be_bytes k m) = be_nat (be_bytes k n)" by simp
  with assms(2,3) show ?thesis by simp
qed

subsection \<open>Two's complement (\<open>struct.pack(">i")\<close>, \<open>struct.pack(">q")\<close>)\<close>

text \<open>
  \<open>pack_int k v\<close> is \<open>None\<close> where \<open>struct.pack\<close> raises \<open>struct.error\<close> because the value does
  not fit \<open>k\<close> bytes; \<open>unpack_int\<close> is the total inverse on byte strings.
\<close>

definition fits_int :: "nat \<Rightarrow> int \<Rightarrow> bool" where
  "fits_int k v \<longleftrightarrow> - (2 ^ (8 * k - 1)) \<le> v \<and> v < 2 ^ (8 * k - 1)"

definition pack_int :: "nat \<Rightarrow> int \<Rightarrow> bytes option" where
  "pack_int k v = (if fits_int k v then Some (be_bytes k (nat (v mod 2 ^ (8 * k)))) else None)"

definition unpack_int :: "bytes \<Rightarrow> int" where
  "unpack_int bs =
     (let n = int (be_nat bs); k = length bs
      in if n < 2 ^ (8 * k - 1) then n else n - 2 ^ (8 * k))"

lemma pow256: "(256::nat) ^ k = 2 ^ (8 * k)"
  by (simp add: power_mult)

lemma pow256_int: "(256::int) ^ k = 2 ^ (8 * k)"
  by (simp add: power_mult)

lemma half_pow: "0 < k \<Longrightarrow> (2::int) ^ (8 * k) = 2 * 2 ^ (8 * k - 1)"
  by (simp flip: power_Suc)

lemma unpack_pack_int:
  assumes "0 < k" "pack_int k v = Some bs"
  shows "unpack_int bs = v \<and> length bs = k"
proof -
  let ?H = "(2::int) ^ (8 * k - 1)"
  from assms(2) have fit: "- ?H \<le> v" "v < ?H" and bs: "bs = be_bytes k (nat (v mod 2 ^ (8 * k)))"
    by (auto simp: pack_int_def fits_int_def split: if_splits)
  have M: "(2::int) ^ (8 * k) = 2 * ?H" using assms(1) by (rule half_pow)
  have bnd: "nat (v mod 2 ^ (8 * k)) < 256 ^ k"
    by (simp add: pow256 nat_less_iff)
  have n: "int (be_nat bs) = v mod (2 * ?H)"
    using bnd by (simp add: bs M)
  show ?thesis
  proof (cases "0 \<le> v")
    case True
    with fit have "v mod (2 * ?H) = v" by (intro mod_pos_pos_trivial) auto
    with n fit show ?thesis by (simp add: unpack_int_def bs Let_def)
  next
    case False
    have "v mod (2 * ?H) = (v + 2 * ?H) mod (2 * ?H)" by simp
    also have "\<dots> = v + 2 * ?H" using False fit by (intro mod_pos_pos_trivial) auto
    finally have "int (be_nat bs) = v + 2 * ?H" using n by simp
    with fit show ?thesis by (simp add: unpack_int_def bs M Let_def)
  qed
qed

lemma pack_unpack_int:
  assumes "0 < k" "length bs = k"
  shows "pack_int k (unpack_int bs) = Some bs"
proof -
  let ?H = "(2::int) ^ (8 * k - 1)" and ?n = "int (be_nat bs)"
  have M: "(2::int) ^ (8 * k) = 2 * ?H" using assms(1) by (rule half_pow)
  have "be_nat bs < 2 ^ (8 * k)" using be_nat_less [of bs] assms(2) by (simp add: pow256)
  then have nb: "?n < 2 * ?H" using M by (metis of_nat_less_numeral_power_cancel_iff)
  have u: "unpack_int bs = (if ?n < ?H then ?n else ?n - 2 * ?H)"
    by (simp add: unpack_int_def Let_def assms(2) M)
  have fit: "fits_int k (unpack_int bs)" using nb by (auto simp: fits_int_def u)
  have "unpack_int bs mod (2 * ?H) = ?n mod (2 * ?H)" by (simp add: u)
  also have "\<dots> = ?n" using nb by (intro mod_pos_pos_trivial) auto
  finally have "nat (unpack_int bs mod 2 ^ (8 * k)) = be_nat bs" by (simp add: M)
  with fit assms(2) show ?thesis by (simp add: pack_int_def)
qed

lemma pack_int_eq_Some:
  assumes "0 < k"
  shows "pack_int k v = Some bs \<longleftrightarrow> unpack_int bs = v \<and> length bs = k"
  using assms unpack_pack_int pack_unpack_int by metis

end
