(* ===== verification/Kmip_Exceptions.thy ===== *)
theory Kmip_Exceptions
  imports Atlaso_Prelude
begin

text \<open>
  The exceptions that cross the modules of \<open>src/atlaso/app/kmip\<close>. Handlers of the source
  select by class, so all of them live in one type \<open>exn\<close>; the predicates below are the
  \<open>except\<close> clauses (an \<open>except C\<close> also catches the subclasses of \<open>C\<close>).
\<close>

text \<open>\<open>ttlv.TtlvError\<close>, one constructor per \<open>raise\<close> of \<open>ttlv.py\<close> and \<open>server.py\<close>.\<close>

datatype ttlv_error =
    NotAStructure | DuplicatedTag int | RequiredTag int
  | InvalidStructureValue | Invalid32BitValue | Invalid64BitValue | InvalidBooleanValue
  | InvalidTextValue | InvalidByteValue | NonStandardTag | ValueTooLarge
  | NestingTooDeep | TruncatedHeader | UnsupportedType | TruncatedValue | NonZeroPadding
  | TooManyNodes | BadLength32 | BadLength64 | BadLengthBoolean | BadBoolean | BadUtf8
  | EmptyMessage | MessageTooLarge | TrailingData | UnsupportedTags "int list"
  | ConnectionClosed | RootTagNotRequest | RootNotStructure | RequestTooLarge | RequestTruncated

text \<open>\<open>protocol.ResultReason\<close>.\<close>

datatype result_reason =
    ITEM_NOT_FOUND | INVALID_MESSAGE | OPERATION_NOT_SUPPORTED | MISSING_DATA | INVALID_FIELD
  | KEY_FORMAT_TYPE_NOT_SUPPORTED | GENERAL_FAILURE

fun reason_value :: "result_reason \<Rightarrow> int" where
  "reason_value ITEM_NOT_FOUND = 1"
| "reason_value INVALID_MESSAGE = 4"
| "reason_value OPERATION_NOT_SUPPORTED = 5"
| "reason_value MISSING_DATA = 6"
| "reason_value INVALID_FIELD = 7"
| "reason_value KEY_FORMAT_TYPE_NOT_SUPPORTED = 16"
| "reason_value GENERAL_FAILURE = 256"

text \<open>
  \<open>KeyNotFoundError\<close> and \<open>KeyStateError\<close> are subclasses of \<open>KeyStoreError\<close>; \<open>TtlvError\<close>,
  \<open>TraceValidationError\<close>, \<open>ConfigurationError\<close>, \<open>UnicodeError\<close> and \<open>JSONDecodeError\<close> are subclasses of \<open>ValueError\<close> (the constructor \<open>ValueError\<close>
  stands for a plain one). \<open>InvalidTag\<close> is the authentication
  failure of \<open>cryptography\<close>'s AES-GCM, and \<open>IntegrityError\<close>,
  \<open>OperationalError\<close> are those of \<open>sqlite3\<close>. Messages keep the fixed text of the source; values
  interpolated into them are left out.
\<close>

datatype exn =
    TtlvError ttlv_error
  | ProtocolFailure (failure_reason: result_reason) (failure_message: string)
  | KeyNotFoundError string
  | KeyStateError string
  | KeyStoreError string
  | ValueError string
  | TraceValidationError string
  | ConfigurationError string
  | UnicodeError
  | JSONDecodeError
  | InvalidTag
  | StructError
  | TypeError
  | AssertionError
  | KeyError
  | IntegrityError
  | OperationalError
  | OSError

fun is_ttlv_error :: "exn \<Rightarrow> bool" where
  "is_ttlv_error (TtlvError e) = True"
| "is_ttlv_error e = False"

text \<open>\<open>except KeyStoreError\<close> (and its subclasses).\<close>

fun is_key_store_error :: "exn \<Rightarrow> bool" where
  "is_key_store_error (KeyNotFoundError m) = True"
| "is_key_store_error (KeyStateError m) = True"
| "is_key_store_error (KeyStoreError m) = True"
| "is_key_store_error e = False"

text \<open>\<open>except (InvalidTag, json.JSONDecodeError, OSError, ValueError)\<close>.\<close>

fun is_value_or_os_error :: "exn \<Rightarrow> bool" where
  "is_value_or_os_error (TtlvError e) = True"
| "is_value_or_os_error (ValueError m) = True"
| "is_value_or_os_error (TraceValidationError m) = True"
| "is_value_or_os_error (ConfigurationError m) = True"
| "is_value_or_os_error UnicodeError = True"
| "is_value_or_os_error JSONDecodeError = True"
| "is_value_or_os_error OSError = True"
| "is_value_or_os_error InvalidTag = True"
| "is_value_or_os_error e = False"

text \<open>\<open>try: m except TtlvError: raise f\<close>.\<close>

definition ttlv_guard :: "exn + 'a \<Rightarrow> exn \<Rightarrow> exn + 'a" where
  "ttlv_guard m f = catchE m (\<lambda>e. Inl (if is_ttlv_error e then f else e))"

lemma ttlv_guard_eq_Inr [simp]: "ttlv_guard m f = Inr x \<longleftrightarrow> m = Inr x"
  by (cases m) (simp_all add: ttlv_guard_def)

lemma ttlv_guard_simps [simp]:
  "ttlv_guard (Inr x) f = Inr x"
  "ttlv_guard (Inl (TtlvError e)) f = Inl f"
  by (simp_all add: ttlv_guard_def)

end
