(* ===== verification/Utf8.thy ===== *)
theory Utf8
  imports Atlaso_Prelude
begin

text \<open>
  Python's \<open>str.encode("utf-8")\<close> and strict \<open>bytes.decode("utf-8")\<close>: overlong forms,
  surrogates and code points above U+10FFFF are rejected. The pair is a \<open>strict_codec\<close>.
\<close>

section \<open>Encoding\<close>

datatype utf8_error = UnicodeEncodeError | UnicodeDecodeError

definition is_surrogate :: "nat \<Rightarrow> bool" where
  "is_surrogate c \<longleftrightarrow> 0xD800 \<le> c \<and> c \<le> 0xDFFF"

definition is_scalar :: "nat \<Rightarrow> bool" where
  "is_scalar c \<longleftrightarrow> c < 0x110000 \<and> \<not> is_surrogate c"

definition utf8_encode_char :: "nat \<Rightarrow> bytes" where
  "utf8_encode_char c =
     (if c < 0x80 then [byte_of c]
      else if c < 0x800 then [byte_of (0xC0 + c div 64), byte_of (0x80 + c mod 64)]
      else if c < 0x10000 then
        [byte_of (0xE0 + c div 64 div 64), byte_of (0x80 + c div 64 mod 64),
         byte_of (0x80 + c mod 64)]
      else
        [byte_of (0xF0 + c div 64 div 64 div 64), byte_of (0x80 + c div 64 div 64 mod 64),
         byte_of (0x80 + c div 64 mod 64), byte_of (0x80 + c mod 64)])"

fun utf8_encode :: "pystr \<Rightarrow> utf8_error + bytes" where
  "utf8_encode [] = Inr []"
| "utf8_encode (c # cs) =
     (if is_scalar c
      then bindE (utf8_encode cs) (\<lambda>bs. Inr (utf8_encode_char c @ bs))
      else Inl UnicodeEncodeError)"

section \<open>Strict decoding\<close>

definition is_cont :: "byte \<Rightarrow> bool" where
  "is_cont b \<longleftrightarrow> 0x80 \<le> unat b \<and> unat b < 0xC0"

text \<open>One character: the code point and the rest of the input.\<close>

definition utf8_decode_char :: "bytes \<Rightarrow> (nat \<times> bytes) option" where
  "utf8_decode_char bs = (case bs of
       [] \<Rightarrow> None
     | b # r \<Rightarrow>
        (if unat b < 0x80 then Some (unat b, r)
         else if unat b < 0xC2 then None
         else if unat b < 0xE0 then (case r of
             b1 # r1 \<Rightarrow> if is_cont b1 then Some ((unat b - 0xC0) * 64 + (unat b1 - 0x80), r1) else None
           | _ \<Rightarrow> None)
         else if unat b < 0xF0 then (case r of
             b1 # b2 # r2 \<Rightarrow>
               let c = ((unat b - 0xE0) * 64 + (unat b1 - 0x80)) * 64 + (unat b2 - 0x80)
               in if is_cont b1 \<and> is_cont b2 \<and> 0x800 \<le> c \<and> \<not> is_surrogate c then Some (c, r2) else None
           | _ \<Rightarrow> None)
         else if unat b < 0xF5 then (case r of
             b1 # b2 # b3 # r3 \<Rightarrow>
               let c = (((unat b - 0xF0) * 64 + (unat b1 - 0x80)) * 64 + (unat b2 - 0x80)) * 64
                         + (unat b3 - 0x80)
               in if is_cont b1 \<and> is_cont b2 \<and> is_cont b3 \<and> 0x10000 \<le> c \<and> c < 0x110000
                  then Some (c, r3) else None
           | _ \<Rightarrow> None)
         else None))"

lemma utf8_decode_char_shorter: "utf8_decode_char bs = Some (c, r) \<Longrightarrow> length r < length bs"
  by (auto simp: utf8_decode_char_def Let_def split: list.splits if_splits)

function utf8_decode :: "bytes \<Rightarrow> utf8_error + pystr" where
  "utf8_decode bs =
     (if bs = [] then Inr []
      else case utf8_decode_char bs of
             None \<Rightarrow> Inl UnicodeDecodeError
           | Some (c, r) \<Rightarrow> bindE (utf8_decode r) (\<lambda>cs. Inr (c # cs)))"
  by pat_completeness auto
termination utf8_decode
  by (relation "measure length") (auto dest: utf8_decode_char_shorter)

declare utf8_decode.simps [simp del]

section \<open>The decoder is strict for the encoder\<close>

text \<open>One character at a time: in front of any rest, decoding inverts encoding, and back.\<close>

text \<open>
  The encodings by length, over the base-64 digits of the code point: both directions of the
  character-level round trip are read off these three equations.
\<close>

lemma mult64_divmod:
  "w < 64 \<Longrightarrow> (q * 64 + w) div 64 = q" "w < 64 \<Longrightarrow> (q * 64 + w) mod 64 = (w :: nat)"
  by simp_all

lemma utf8_encode_char_2:
  assumes "2 \<le> x" "x < 32" "w < 64"
  shows "utf8_encode_char (x * 64 + w) = [byte_of (0xC0 + x), byte_of (0x80 + w)]"
proof -
  have "\<not> x * 64 + w < 0x80" "x * 64 + w < 0x800" using assms by linarith+
  with assms(3) show ?thesis by (simp add: utf8_encode_char_def mult64_divmod)
qed

lemma digits3_less:
  assumes "x < 16" "z < 64" "w < (64 :: nat)"
  shows "(x * 64 + z) * 64 + w < 0x10000"
proof -
  obtain q where q: "x * 64 + z = q" by simp
  with assms(1,2) have "q < 1024" by linarith
  with assms(3) show ?thesis unfolding q by linarith
qed

lemma utf8_encode_char_3:
  assumes "x < 16" "z < 64" "w < 64" "0x800 \<le> (x * 64 + z) * 64 + w"
  shows "utf8_encode_char ((x * 64 + z) * 64 + w) =
           [byte_of (0xE0 + x), byte_of (0x80 + z), byte_of (0x80 + w)]"
proof -
  have "\<not> (x * 64 + z) * 64 + w < 0x800" "\<not> (x * 64 + z) * 64 + w < 0x80" using assms by linarith+
  moreover have "(x * 64 + z) * 64 + w < 0x10000" using assms(1-3) by (rule digits3_less)
  ultimately show ?thesis
    by (simp only: utf8_encode_char_def mult64_divmod [OF assms(2)] mult64_divmod [OF assms(3)]
        if_True if_False)
qed

lemma utf8_encode_char_4:
  assumes "y < 64" "z < 64" "w < 64" "0x10000 \<le> ((x * 64 + y) * 64 + z) * 64 + w"
  shows "utf8_encode_char (((x * 64 + y) * 64 + z) * 64 + w) =
           [byte_of (0xF0 + x), byte_of (0x80 + y), byte_of (0x80 + z), byte_of (0x80 + w)]"
proof -
  have "\<not> ((x * 64 + y) * 64 + z) * 64 + w < 0x10000" "\<not> ((x * 64 + y) * 64 + z) * 64 + w < 0x800"
    "\<not> ((x * 64 + y) * 64 + z) * 64 + w < 0x80" using assms by linarith+
  then show ?thesis
    by (simp only: utf8_encode_char_def mult64_divmod [OF assms(1)] mult64_divmod [OF assms(2)]
        mult64_divmod [OF assms(3)] if_False)
qed

lemma divmod64:
  obtains q w where "n = q * 64 + w" "w < (64 :: nat)"
  using div_mod_decomp [of n 64] by (metis mod_less_divisor zero_less_numeral)

lemma utf8_char_decode_encode:
  assumes "is_scalar c"
  shows "utf8_decode_char (utf8_encode_char c @ r) = Some (c, r)"
proof -
  obtain q1 w where 1: "c = q1 * 64 + w" "w < 64" by (rule divmod64)
  obtain q2 z where 2: "q1 = q2 * 64 + z" "z < 64" by (rule divmod64)
  obtain q3 y where 3: "q2 = q3 * 64 + y" "y < 64" by (rule divmod64)
  consider "c < 0x80" | "0x80 \<le> c" "c < 0x800" | "0x800 \<le> c" "c < 0x10000" | "0x10000 \<le> c"
    by linarith
  then show ?thesis
  proof cases
    case a: 1
    then show ?thesis by (simp add: utf8_encode_char_def utf8_decode_char_def)
  next
    case a: 2
    then have q1: "2 \<le> q1" "q1 < 32" using 1 by linarith+
    with 1(2) show ?thesis
      by (simp add: 1(1) utf8_encode_char_2 utf8_decode_char_def is_cont_def)
  next
    case a: 3
    then have "q2 < 16" using 1 2 by linarith
    with a assms 1 2 utf8_encode_char_3 [of q2 z w] show ?thesis
      by (simp add: utf8_decode_char_def is_cont_def is_scalar_def Let_def)
  next
    case a: 4
    with assms have lt: "c < 0x110000" by (simp add: is_scalar_def)
    then have "q3 < 5" using 1 2 3 by linarith
    with a lt 1 2 3 utf8_encode_char_4 [of y z w q3] show ?thesis
      by (simp add: utf8_decode_char_def is_cont_def Let_def)
  qed
qed

text \<open>The converse: a decoded character has the bytes that were read as its only encoding.\<close>

lemma byte_digit:
  assumes "k \<le> unat b"
  obtains d where "unat b = k + d" "b = byte_of (k + d)"
  using assms by (metis byte_of_unat le_Suc_ex)

lemma utf8_char_encode_decode:
  assumes "utf8_decode_char bs = Some (c, r)"
  shows "is_scalar c \<and> bs = utf8_encode_char c @ r"
proof -
  obtain b t where bs: "bs = b # t" using assms by (cases bs) (auto simp: utf8_decode_char_def)
  consider (1) "unat b < 0x80" | (2) "0xC2 \<le> unat b" "unat b < 0xE0"
    | (3) "0xE0 \<le> unat b" "unat b < 0xF0" | (4) "0xF0 \<le> unat b" "unat b < 0xF5"
    | (5) "0x80 \<le> unat b" "unat b < 0xC2" | (6) "0xF5 \<le> unat b"
    by linarith
  then show ?thesis
  proof cases
    case 1
    with assms have "c = unat b" "r = t" by (auto simp: bs utf8_decode_char_def)
    with 1 show ?thesis
      by (simp add: bs utf8_encode_char_def is_scalar_def is_surrogate_def)
  next
    case 2
    with assms obtain b1 where b1: "t = b1 # r" "is_cont b1"
      and c: "c = (unat b - 0xC0) * 64 + (unat b1 - 0x80)"
      by (auto simp: bs utf8_decode_char_def split: list.splits if_splits)
    obtain x where x: "unat b = 0xC0 + x" "b = byte_of (0xC0 + x)" by (rule byte_digit [of "0xC0" b]) (use 2 in simp)
    obtain w where w: "unat b1 = 0x80 + w" "b1 = byte_of (0x80 + w)"
      by (rule byte_digit [of "0x80" b1]) (use b1 in \<open>simp add: is_cont_def\<close>)
    have bnd: "2 \<le> x" "x < 32" "w < 64" using 2 x(1) w(1) b1(2) by (simp_all add: is_cont_def)
    have c': "c = x * 64 + w" by (simp add: c x(1) w(1))
    have "c < 0x800" using c' bnd by linarith
    with utf8_encode_char_2 [OF bnd] show ?thesis
      by (simp add: bs b1 c' x(2) [symmetric] w(2) [symmetric] is_scalar_def is_surrogate_def)
  next
    case 3
    with assms obtain b1 b2 where b1: "t = b1 # b2 # r" "is_cont b1" "is_cont b2"
      and c: "c = ((unat b - 0xE0) * 64 + (unat b1 - 0x80)) * 64 + (unat b2 - 0x80)"
      and lo: "0x800 \<le> c" "\<not> is_surrogate c"
      by (auto simp: bs utf8_decode_char_def Let_def split: list.splits if_splits)
    obtain x where x: "unat b = 0xE0 + x" "b = byte_of (0xE0 + x)" by (rule byte_digit [of "0xE0" b]) (use 3 in simp)
    obtain z where z: "unat b1 = 0x80 + z" "b1 = byte_of (0x80 + z)"
      by (rule byte_digit [of "0x80" b1]) (use b1 in \<open>simp add: is_cont_def\<close>)
    obtain w where w: "unat b2 = 0x80 + w" "b2 = byte_of (0x80 + w)"
      by (rule byte_digit [of "0x80" b2]) (use b1 in \<open>simp add: is_cont_def\<close>)
    have bnd: "x < 16" "z < 64" "w < 64" using 3 x(1) z(1) w(1) b1 by (simp_all add: is_cont_def)
    have c': "c = (x * 64 + z) * 64 + w" by (simp add: c x(1) z(1) w(1))
    have "c < 0x110000" using digits3_less [OF bnd] by (simp only: c')
    moreover have "utf8_encode_char c = [b, b1, b2]"
      unfolding x(2) z(2) w(2) using lo(1) unfolding c' by (rule utf8_encode_char_3 [OF bnd])
    ultimately show ?thesis using lo by (simp add: bs b1(1) is_scalar_def)
  next
    case 4
    with assms obtain b1 b2 b3 where b1: "t = b1 # b2 # b3 # r" "is_cont b1" "is_cont b2" "is_cont b3"
      and c: "c = (((unat b - 0xF0) * 64 + (unat b1 - 0x80)) * 64 + (unat b2 - 0x80)) * 64 + (unat b3 - 0x80)"
      and lo: "0x10000 \<le> c" "c < 0x110000"
      by (auto simp: bs utf8_decode_char_def Let_def split: list.splits if_splits)
    obtain x where x: "unat b = 0xF0 + x" "b = byte_of (0xF0 + x)" by (rule byte_digit [of "0xF0" b]) (use 4 in simp)
    obtain y where y: "unat b1 = 0x80 + y" "b1 = byte_of (0x80 + y)"
      by (rule byte_digit [of "0x80" b1]) (use b1 in \<open>simp add: is_cont_def\<close>)
    obtain z where z: "unat b2 = 0x80 + z" "b2 = byte_of (0x80 + z)"
      by (rule byte_digit [of "0x80" b2]) (use b1 in \<open>simp add: is_cont_def\<close>)
    obtain w where w: "unat b3 = 0x80 + w" "b3 = byte_of (0x80 + w)"
      by (rule byte_digit [of "0x80" b3]) (use b1 in \<open>simp add: is_cont_def\<close>)
    have bnd: "y < 64" "z < 64" "w < 64" using y(1) z(1) w(1) b1 by (simp_all add: is_cont_def)
    have c': "c = ((x * 64 + y) * 64 + z) * 64 + w" by (simp add: c x(1) y(1) z(1) w(1))
    have "\<not> is_surrogate c" using lo by (simp add: is_surrogate_def)
    moreover have "utf8_encode_char c = [b, b1, b2, b3]"
      unfolding x(2) y(2) z(2) w(2) using lo(1) unfolding c' by (rule utf8_encode_char_4 [OF bnd])
    ultimately show ?thesis using lo by (simp add: bs b1(1) is_scalar_def)
  qed (use assms in \<open>simp_all add: bs utf8_decode_char_def\<close>)
qed

lemma utf8_decode_Nil [simp]: "utf8_decode [] = Inr []"
  by (simp add: utf8_decode.simps)

lemma utf8_encode_char_not_Nil [simp]: "utf8_encode_char c \<noteq> []"
  by (simp add: utf8_encode_char_def)

lemma utf8_decode_encode: "utf8_encode s = Inr bs \<Longrightarrow> utf8_decode bs = Inr s"
proof (induction s arbitrary: bs)
  case (Cons c cs)
  then obtain bs' where "is_scalar c" "utf8_encode cs = Inr bs'" "bs = utf8_encode_char c @ bs'"
    by (auto simp: bindE_eq_Inr split: if_splits)
  with Cons.IH [of bs'] show ?case
    by (subst utf8_decode.simps) (simp add: utf8_char_decode_encode)
qed simp

lemma utf8_encode_decode: "utf8_decode bs = Inr s \<Longrightarrow> utf8_encode s = Inr bs"
proof (induction bs arbitrary: s rule: utf8_decode.induct)
  case (1 bs)
  show ?case
  proof (cases "bs = []")
    case True
    with 1 show ?thesis by simp
  next
    case False
    with 1(2) obtain c r cs where d: "utf8_decode_char bs = Some (c, r)"
      and r: "utf8_decode r = Inr cs" and s: "s = c # cs"
      by (subst (asm) utf8_decode.simps) (auto simp: bindE_eq_Inr split: option.splits)
    from 1(1) [OF False d refl r] utf8_char_encode_decode [OF d] s show ?thesis by simp
  qed
qed

interpretation utf8: strict_codec utf8_encode utf8_decode "\<lambda>_. True"
  by unfold_locales (auto dest: utf8_decode_encode utf8_encode_decode)

lemma utf8_encode_ok_iff: "(\<exists>bs. utf8_encode s = Inr bs) \<longleftrightarrow> list_all is_scalar s"
  by (induction s) (auto simp: bindE_eq_Inr)

lemma utf8_encode_ok: "list_all is_scalar s \<Longrightarrow> \<exists>bs. utf8_encode s = Inr bs"
  by (simp add: utf8_encode_ok_iff)

lemma utf8_decode_scalar: "utf8_decode bs = Inr s \<Longrightarrow> list_all is_scalar s"
  using utf8_encode_ok_iff utf8.enc_dec by blast

text \<open>ASCII text is encoded byte for byte.\<close>

lemma utf8_encode_ascii: "list_all (\<lambda>c. c < 128) s \<Longrightarrow> utf8_encode s = Inr (map byte_of s)"
  by (induction s) (auto simp: is_scalar_def is_surrogate_def utf8_encode_char_def)

end
