(* ===== verification/Kmip_Ttlv.thy ===== *)
theory Kmip_Ttlv
  imports Kmip_Exceptions Utf8
begin

text \<open>
  The bounded KMIP 1.4 TTLV codec, \<open>src/atlaso/app/kmip/ttlv.py\<close>: the node type with its
  accessors, the encoder, the decoder with its depth, node-count and size limits, and the
  theorem that the decoder accepts exactly the encodings of bounded nodes.
\<close>

section \<open>Nodes\<close>

definition MAX_MESSAGE_BYTES :: nat where "MAX_MESSAGE_BYTES = 1048576"
definition MAX_NESTING_DEPTH :: nat where "MAX_NESTING_DEPTH = 16"
definition MAX_NODE_COUNT :: nat where "MAX_NODE_COUNT = 4096"

datatype ttlv_type =
    STRUCTURE | INTEGER | LONG_INTEGER | BIG_INTEGER | ENUMERATION | BOOLEAN
  | TEXT_STRING | BYTE_STRING | DATE_TIME | INTERVAL

fun type_code :: "ttlv_type \<Rightarrow> nat" where
  "type_code STRUCTURE = 1"
| "type_code INTEGER = 2"
| "type_code LONG_INTEGER = 3"
| "type_code BIG_INTEGER = 4"
| "type_code ENUMERATION = 5"
| "type_code BOOLEAN = 6"
| "type_code TEXT_STRING = 7"
| "type_code BYTE_STRING = 8"
| "type_code DATE_TIME = 9"
| "type_code INTERVAL = 10"

text \<open>\<open>TtlvType(n)\<close>: \<open>None\<close> is the \<open>ValueError\<close> of the enumeration.\<close>

definition ttlv_type_of :: "nat \<Rightarrow> ttlv_type option" where
  "ttlv_type_of n =
     (if n = 1 then Some STRUCTURE else if n = 2 then Some INTEGER
      else if n = 3 then Some LONG_INTEGER else if n = 4 then Some BIG_INTEGER
      else if n = 5 then Some ENUMERATION else if n = 6 then Some BOOLEAN
      else if n = 7 then Some TEXT_STRING else if n = 8 then Some BYTE_STRING
      else if n = 9 then Some DATE_TIME else if n = 10 then Some INTERVAL else None)"

text \<open>
  \<open>Ttlv.value\<close> is dynamically typed; the encoder checks it against \<open>Ttlv.type\<close>.
\<close>

datatype ttlv = Ttlv (node_tag: int) (node_type: ttlv_type) (node_value: ttlv_value)
and ttlv_value =
    VTuple "ttlv list" | VInt int | VBool bool | VStr pystr | VBytes bytes

text \<open>
  \<open>Ttlv.children\<close>: \<open>list(self.value)\<close> on an integer is a \<open>TypeError\<close>; on a non-empty text
  or byte string its elements fail the \<open>assert\<close>.
\<close>

definition children_all :: "ttlv \<Rightarrow> exn + ttlv list" where
  "children_all n =
     (if node_type n \<noteq> STRUCTURE then Inl (TtlvError NotAStructure)
      else case node_value n of
             VTuple cs \<Rightarrow> Inr cs
           | VInt i \<Rightarrow> Inl TypeError
           | VBool b \<Rightarrow> Inl TypeError
           | VStr s \<Rightarrow> if s = [] then Inr [] else Inl AssertionError
           | VBytes b \<Rightarrow> if b = [] then Inr [] else Inl AssertionError)"

definition children :: "ttlv \<Rightarrow> int \<Rightarrow> exn + ttlv list" where
  "children n t = bindE (children_all n) (\<lambda>cs. Inr (filter (\<lambda>c. node_tag c = t) cs))"

definition child :: "ttlv \<Rightarrow> int \<Rightarrow> bool \<Rightarrow> exn + ttlv option" where
  "child n t required =
     bindE (children n t) (\<lambda>matches.
       if length matches > 1 then Inl (TtlvError (DuplicatedTag t))
       else case matches of
              [] \<Rightarrow> if required then Inl (TtlvError (RequiredTag t)) else Inr None
            | m # _ \<Rightarrow> Inr (Some m))"

definition structure_node :: "int \<Rightarrow> ttlv list \<Rightarrow> ttlv" where
  "structure_node t cs = Ttlv t STRUCTURE (VTuple cs)"

definition integer :: "int \<Rightarrow> int \<Rightarrow> ttlv" where
  "integer t v = Ttlv t INTEGER (VInt v)"

definition enumeration :: "int \<Rightarrow> int \<Rightarrow> ttlv" where
  "enumeration t v = Ttlv t ENUMERATION (VInt v)"

definition boolean :: "int \<Rightarrow> bool \<Rightarrow> ttlv" where
  "boolean t v = Ttlv t BOOLEAN (VBool v)"

definition text_string :: "int \<Rightarrow> pystr \<Rightarrow> ttlv" where
  "text_string t v = Ttlv t TEXT_STRING (VStr v)"

definition byte_string :: "int \<Rightarrow> bytes \<Rightarrow> ttlv" where
  "byte_string t v = Ttlv t BYTE_STRING (VBytes v)"

definition date_time :: "int \<Rightarrow> int \<Rightarrow> ttlv" where
  "date_time t v = Ttlv t DATE_TIME (VInt v)"

lemmas ttlv_constructors = structure_node_def integer_def enumeration_def boolean_def
  text_string_def byte_string_def date_time_def

text \<open>\<open>assert_only_tags\<close>: the unexpected tags, sorted and without duplicates.\<close>

definition assert_only_tags :: "ttlv \<Rightarrow> int list \<Rightarrow> exn + unit" where
  "assert_only_tags n allowed =
     bindE (children_all n) (\<lambda>cs.
       let unexpected = filter (\<lambda>t. t \<notin> set allowed) (remdups (map node_tag cs))
       in raise_if (unexpected \<noteq> []) (TtlvError (UnsupportedTags (sort unexpected))))"

section \<open>The encoder\<close>

definition standard_tag :: "int \<Rightarrow> bool" where
  "standard_tag t \<longleftrightarrow> 0x420000 \<le> t \<and> t \<le> 0x42FFFF"

text \<open>\<open>(8 - n % 8) % 8\<close>: the zero bytes that align a value of \<open>n\<close> bytes.\<close>

definition pad_length :: "nat \<Rightarrow> nat" where
  "pad_length n = (8 - n mod 8) mod 8"

definition frame :: "int \<Rightarrow> ttlv_type \<Rightarrow> bytes \<Rightarrow> bytes" where
  "frame t ty value =
     be_bytes 3 (nat t) @ [byte_of (type_code ty)] @ be_bytes 4 (length value)
       @ value @ replicate (pad_length (length value)) (byte_of 0)"

definition lift_option :: "'e \<Rightarrow> 'a option \<Rightarrow> 'e + 'a" where
  "lift_option e m = (case m of None \<Rightarrow> Inl e | Some x \<Rightarrow> Inr x)"

lemma lift_option_eq_Inr [simp]: "lift_option e m = Inr x \<longleftrightarrow> m = Some x"
  by (auto simp: lift_option_def split: option.splits)

fun encode :: "ttlv \<Rightarrow> exn + bytes"
  and encoded_value :: "ttlv_type \<Rightarrow> ttlv_value \<Rightarrow> exn + bytes"
  and encode_all :: "ttlv list \<Rightarrow> exn + bytes"
where
  "encode (Ttlv t ty v) =
     (if \<not> standard_tag t then Inl (TtlvError NonStandardTag)
      else bindE (encoded_value ty v) (\<lambda>value.
        if length value > MAX_MESSAGE_BYTES then Inl (TtlvError ValueTooLarge)
        else Inr (frame t ty value)))"
| "encoded_value ty v =
     (if ty = STRUCTURE then
        (case v of VTuple cs \<Rightarrow> encode_all cs | _ \<Rightarrow> Inl (TtlvError InvalidStructureValue))
      else if ty \<in> {INTEGER, ENUMERATION, INTERVAL} then
        (case v of VInt i \<Rightarrow> lift_option StructError (pack_int 4 i)
                 | _ \<Rightarrow> Inl (TtlvError Invalid32BitValue))
      else if ty \<in> {LONG_INTEGER, DATE_TIME} then
        (case v of VInt i \<Rightarrow> lift_option StructError (pack_int 8 i)
                 | _ \<Rightarrow> Inl (TtlvError Invalid64BitValue))
      else if ty = BOOLEAN then
        (case v of VBool b \<Rightarrow> lift_option StructError (pack_int 8 (if b then 1 else 0))
                 | _ \<Rightarrow> Inl (TtlvError InvalidBooleanValue))
      else if ty = TEXT_STRING then
        (case v of VStr s \<Rightarrow> catchE (utf8_encode s) (\<lambda>_. Inl UnicodeError)
                 | _ \<Rightarrow> Inl (TtlvError InvalidTextValue))
      else
        (case v of VBytes b \<Rightarrow> Inr b | _ \<Rightarrow> Inl (TtlvError InvalidByteValue)))"
| "encode_all [] = Inr []"
| "encode_all (c # cs) = bindE (encode c) (\<lambda>b. bindE (encode_all cs) (\<lambda>bs. Inr (b @ bs)))"

declare encoded_value.simps [simp del]

section \<open>The decoder\<close>

text \<open>
  The checks of \<open>_decode_one\<close> up to the padding: the tag, the type, the raw value and the
  offset after the padding.
\<close>

definition decode_header :: "bytes \<Rightarrow> nat \<Rightarrow> exn + (int \<times> ttlv_type \<times> bytes \<times> nat)" where
  "decode_header data offset =
     (if offset + 8 > length data then Inl (TtlvError TruncatedHeader)
      else let tag = int (be_nat (py_slice data offset (offset + 3)))
      in if \<not> standard_tag tag then Inl (TtlvError NonStandardTag)
      else case ttlv_type_of (unat (data ! (offset + 3))) of
        None \<Rightarrow> Inl (TtlvError UnsupportedType)
      | Some data_type \<Rightarrow>
         (let len = be_nat (py_slice data (offset + 4) (offset + 8))
          in if len > MAX_MESSAGE_BYTES then Inl (TtlvError ValueTooLarge)
          else let padded_length = len + pad_length len;
                   value_start = offset + 8;
                   value_end = value_start + len;
                   next_offset = value_start + padded_length
          in if next_offset > length data then Inl (TtlvError TruncatedValue)
          else if list_ex (\<lambda>b. b \<noteq> 0) (py_slice data value_end next_offset)
               then Inl (TtlvError NonZeroPadding)
          else Inr (tag, data_type, py_slice data value_start value_end, next_offset)))"

text \<open>The branches of \<open>_decode_one\<close> for the types other than \<open>STRUCTURE\<close>.\<close>

definition decode_scalar :: "ttlv_type \<Rightarrow> bytes \<Rightarrow> exn + ttlv_value" where
  "decode_scalar data_type raw =
     (if data_type \<in> {INTEGER, ENUMERATION, INTERVAL} then
        (if length raw \<noteq> 4 then Inl (TtlvError BadLength32) else Inr (VInt (unpack_int raw)))
      else if data_type \<in> {LONG_INTEGER, DATE_TIME} then
        (if length raw \<noteq> 8 then Inl (TtlvError BadLength64) else Inr (VInt (unpack_int raw)))
      else if data_type = BOOLEAN then
        (if length raw \<noteq> 8 then Inl (TtlvError BadLengthBoolean)
         else if unpack_int raw \<notin> {0, 1} then Inl (TtlvError BadBoolean)
         else Inr (VBool (unpack_int raw = 1)))
      else if data_type = TEXT_STRING then
        bindE (catchE (utf8_decode raw) (\<lambda>_. Inl (TtlvError BadUtf8))) (\<lambda>s. Inr (VStr s))
      else Inr (VBytes raw))"

text \<open>
  \<open>_decode_one\<close> and its loop over the children of a structure. The counter \<open>nodes\<close> is the
  mutable \<open>_DecodeState.nodes\<close>: it is passed in and returned.
\<close>

function decode_one :: "bytes \<Rightarrow> nat \<Rightarrow> nat \<Rightarrow> nat \<Rightarrow> exn + (ttlv \<times> nat \<times> nat)"
  and decode_children :: "bytes \<Rightarrow> nat \<Rightarrow> nat \<Rightarrow> nat \<Rightarrow> exn + (ttlv list \<times> nat)"
where
  "decode_one data offset depth nodes =
     (if depth > MAX_NESTING_DEPTH then Inl (TtlvError NestingTooDeep)
      else case decode_header data offset of
        Inl e \<Rightarrow> Inl e
      | Inr (tag, data_type, raw, next_offset) \<Rightarrow>
          if nodes + 1 > MAX_NODE_COUNT then Inl (TtlvError TooManyNodes)
          else if data_type = STRUCTURE then
            bindE (decode_children raw 0 (depth + 1) (nodes + 1)) (\<lambda>(cs, nodes').
              Inr (Ttlv tag data_type (VTuple cs), next_offset, nodes'))
          else
            bindE (decode_scalar data_type raw) (\<lambda>v.
              Inr (Ttlv tag data_type v, next_offset, nodes + 1)))"
| "decode_children raw child_offset depth nodes =
     (if child_offset < length raw then
        bindE (decode_one raw child_offset depth nodes) (\<lambda>(c, child_offset', nodes').
          bindE (decode_children raw child_offset' depth nodes') (\<lambda>(cs, nodes'').
            Inr (c # cs, nodes'')))
      else Inr ([], nodes))"
  by pat_completeness auto

lemma decode_header_raw_shorter:
  "decode_header data offset = Inr (t, ty, raw, nx) \<Longrightarrow> length raw < length data \<and> offset < nx"
  by (auto simp: decode_header_def Let_def split: if_splits option.splits)

text \<open>
  The loop terminates because a decoded child ends behind its start; this is needed for the
  termination proof itself, so it is shown on the domain of the recursion first.
\<close>

lemma decode_one_progress:
  assumes "decode_one_decode_children_dom (Inl (data, offset, depth, nodes))"
    and "decode_one data offset depth nodes = Inr (n, offset', nodes')"
  shows "offset < offset'"
  using assms decode_header_raw_shorter
  by (auto simp: decode_one.psimps bindE_eq_Inr split: if_splits sum.splits)

termination decode_one
proof (relation "measures [\<lambda>x. case x of Inl (data, _) \<Rightarrow> length data | Inr (raw, _) \<Rightarrow> length raw,
    \<lambda>x. case x of Inl (data, off, _) \<Rightarrow> length data - off | Inr (raw, off, _) \<Rightarrow> length raw - off,
    \<lambda>x. case x of Inl _ \<Rightarrow> 0 | Inr _ \<Rightarrow> 1]", goal_cases)
  case 1
  show ?case by simp
next
  case (2 data offset depth nodes b t b' ty b'' raw nx)
  then show ?case using decode_header_raw_shorter by auto
next
  case (3 raw child_offset depth nodes)
  then show ?case by simp
next
  case (4 raw child_offset depth nodes x c y child_offset' nodes')
  then have "child_offset < child_offset'" using decode_one_progress by auto
  with 4 show ?case by simp
qed

declare decode_one.simps [simp del] decode_children.simps [simp del]

definition decode :: "bytes \<Rightarrow> exn + ttlv" where
  "decode data =
     (if data = [] then Inl (TtlvError EmptyMessage)
      else if length data > MAX_MESSAGE_BYTES + 8 then Inl (TtlvError MessageTooLarge)
      else bindE (decode_one data 0 0 0) (\<lambda>(node, offset, _).
        if offset \<noteq> length data then Inl (TtlvError TrailingData) else Inr node))"

section \<open>Size measures of a node\<close>

text \<open>The nesting depth below a node and the number of nodes of a tree, as the decoder counts them.\<close>

fun height :: "ttlv \<Rightarrow> nat" and heights :: "ttlv list \<Rightarrow> nat" where
  "height (Ttlv t ty (VTuple cs)) = heights cs"
| "height (Ttlv t ty v) = 0"
| "heights [] = 0"
| "heights (c # cs) = max (Suc (height c)) (heights cs)"

fun node_count :: "ttlv \<Rightarrow> nat" and node_counts :: "ttlv list \<Rightarrow> nat" where
  "node_count (Ttlv t ty (VTuple cs)) = Suc (node_counts cs)"
| "node_count (Ttlv t ty v) = 1"
| "node_counts [] = 0"
| "node_counts (c # cs) = node_count c + node_counts cs"

definition bounded_node :: "ttlv \<Rightarrow> bool" where
  "bounded_node n \<longleftrightarrow> height n \<le> MAX_NESTING_DEPTH \<and> node_count n \<le> MAX_NODE_COUNT"

section \<open>Frames\<close>

lemma type_code_bounds: "1 \<le> type_code ty" "type_code ty \<le> 10"
  by (cases ty; simp)+

lemma ttlv_type_of_code [simp]: "ttlv_type_of (type_code ty) = Some ty"
  by (cases ty) (simp_all add: ttlv_type_of_def)

lemma type_code_ttlv_type_of: "ttlv_type_of n = Some ty \<Longrightarrow> type_code ty = n"
  by (auto simp: ttlv_type_of_def split: if_splits)

lemma type_code_mod [simp]: "type_code ty mod 256 = type_code ty"
  by (cases ty) simp_all

lemma length_frame [simp]:
  "length (frame t ty v) = 8 + (length v + pad_length (length v))"
  by (simp add: frame_def)

lemma padded_mod8: "(n + pad_length n) mod 8 = 0"
proof -
  obtain q r where n: "n = 8 * q + r" and r: "r < 8"
    by (metis mod_less_divisor mult_div_mod_eq zero_less_numeral)
  have "n mod 8 = r" using n r by simp
  then have "n + pad_length n = (if r = 0 then 8 * q else 8 * (q + 1))"
    using n r by (auto simp: pad_length_def)
  then show ?thesis by simp
qed

lemma pad_length_less: "pad_length n < 8"
  by (simp add: pad_length_def)

lemma standard_tag_nat: "standard_tag t \<Longrightarrow> int (nat t) = t \<and> nat t < 256 ^ 3"
  by (auto simp: standard_tag_def)

lemma decode_header_frame:
  assumes "standard_tag t" "length raw \<le> MAX_MESSAGE_BYTES"
  shows "decode_header (pre @ frame t ty raw @ post) (length pre) =
           Inr (t, ty, raw, length pre + length (frame t ty raw))"
proof -
  let ?d = "pre @ frame t ty raw @ post" and ?o = "length pre"
  let ?tag = "be_bytes 3 (nat t)" and ?len = "be_bytes 4 (length raw)"
  let ?pad = "replicate (pad_length (length raw)) (byte_of 0)"
  have tag: "py_slice ?d ?o (?o + 3) = ?tag"
    by (simp add: py_slice_def frame_def)
  have code: "(frame t ty raw @ post) ! 3 = byte_of (type_code ty)"
    by (simp add: frame_def nth_append)
  have len: "py_slice ?d (?o + 4) (?o + 8) = ?len"
    by (simp add: py_slice_def frame_def)
  have raw: "py_slice ?d (?o + 8) (?o + 8 + length raw) = raw"
    by (simp add: py_slice_def frame_def)
  have pad: "py_slice ?d (?o + 8 + length raw) (?o + 8 + (length raw + pad_length (length raw))) = ?pad"
    using slice_append_mid [of "pre @ ?tag @ [byte_of (type_code ty)] @ ?len @ raw" ?pad post]
    by (simp add: frame_def add.assoc)
  have l: "length raw < 256 ^ 4" using assms(2) by (simp add: MAX_MESSAGE_BYTES_def)
  have z: "byte_of 0 = 0" by (simp add: byte_of_def)
  show ?thesis using assms standard_tag_nat [OF assms(1)] l
    by (simp add: decode_header_def tag code len raw pad Let_def z list_ex_iff)
qed

lemma decode_header_Inr:
  assumes "decode_header data off = Inr (t, ty, raw, nx)"
  shows "standard_tag t" "length raw \<le> MAX_MESSAGE_BYTES" "py_slice data off nx = frame t ty raw"
    "nx = off + length (frame t ty raw)" "nx \<le> length data"
proof -
  let ?tag = "py_slice data off (off + 3)" and ?code = "data ! (off + 3)"
  let ?len = "py_slice data (off + 4) (off + 8)"
  from assms have o8: "off + 8 \<le> length data" and t: "t = int (be_nat ?tag)" "standard_tag t"
    and ty: "ttlv_type_of (unat ?code) = Some ty" and len: "be_nat ?len \<le> MAX_MESSAGE_BYTES"
    and nx: "nx = off + 8 + (be_nat ?len + pad_length (be_nat ?len))" "nx \<le> length data"
    and pad: "\<forall>b \<in> set (py_slice data (off + 8 + be_nat ?len) nx). b = 0"
    and raw: "raw = py_slice data (off + 8) (off + 8 + be_nat ?len)"
    by (auto simp: decode_header_def Let_def list_ex_iff split: if_splits option.splits)
  have lraw: "length raw = be_nat ?len" using nx by (simp add: raw)
  have tagb: "be_bytes 3 (nat t) = ?tag" using o8 by (simp add: t(1))
  have lenb: "be_bytes 4 (length raw) = ?len" using o8 by (simp add: lraw)
  have codeb: "[byte_of (type_code ty)] = py_slice data (off + 3) (off + 4)"
  proof -
    have "byte_of (type_code ty) = ?code" using type_code_ttlv_type_of [OF ty] by simp
    moreover have "py_slice data (off + 3) (off + 4) = [?code]"
      using o8 by (simp add: py_slice_def take_Suc_conv_app_nth hd_drop_conv_nth take_Suc)
    ultimately show ?thesis by simp
  qed
  have padb: "replicate (pad_length (length raw)) (byte_of 0) = py_slice data (off + 8 + be_nat ?len) nx"
  proof (rule sym, rule replicate_eqI)
    show "length (py_slice data (off + 8 + be_nat ?len) nx) = pad_length (length raw)"
      using nx by (simp add: lraw)
  qed (use pad in \<open>simp add: byte_of_def\<close>)
  show "standard_tag t" by fact
  show "length raw \<le> MAX_MESSAGE_BYTES" using len lraw by simp
  show nxl: "nx = off + length (frame t ty raw)" using nx by (simp add: lraw)
  show "nx \<le> length data" by fact
  have "frame t ty raw = py_slice data off (off + 3) @ py_slice data (off + 3) (off + 4) @
      py_slice data (off + 4) (off + 8) @ py_slice data (off + 8) (off + 8 + be_nat ?len) @
      py_slice data (off + 8 + be_nat ?len) nx"
    by (simp only: frame_def tagb codeb lenb padb raw [symmetric])
  also have "\<dots> = py_slice data off nx" using nx(1) by (simp add: slice_join)
  finally show "py_slice data off nx = frame t ty raw" by (rule sym)
qed

text \<open>The scalar branches of decoder and encoder are inverse to each other.\<close>

lemma decode_scalar_iff:
  "ty \<noteq> STRUCTURE \<Longrightarrow> decode_scalar ty raw = Inr v \<longleftrightarrow> encoded_value ty v = Inr raw"
  by (cases ty; cases v)
    (auto simp: decode_scalar_def encoded_value.simps pack_int_eq_Some bindE_eq_Inr catchE_eq_Inr
      utf8.dec_iff)

section \<open>The decoder accepts exactly the encodings of bounded nodes\<close>

lemma encode_Inr:
  "encode (Ttlv t ty v) = Inr bs \<longleftrightarrow>
     standard_tag t \<and>
     (\<exists>raw. encoded_value ty v = Inr raw \<and> length raw \<le> MAX_MESSAGE_BYTES \<and> bs = frame t ty raw)"
  by (cases "encoded_value ty v") auto

lemma encode_nonempty: "encode n = Inr bs \<Longrightarrow> 8 \<le> length bs"
  by (cases n) (auto simp only: encode_Inr length_frame)

lemma decode_children_encode_all:
  assumes "\<And>c bs pre post d k. c \<in> set cs \<Longrightarrow> encode c = Inr bs \<Longrightarrow>
      d + height c \<le> MAX_NESTING_DEPTH \<Longrightarrow> k + node_count c \<le> MAX_NODE_COUNT \<Longrightarrow>
      decode_one (pre @ bs @ post) (length pre) d k = Inr (c, length pre + length bs, k + node_count c)"
    and "encode_all cs = Inr bs" "d + heights cs \<le> Suc MAX_NESTING_DEPTH"
    and "k + node_counts cs \<le> MAX_NODE_COUNT"
  shows "decode_children (pre @ bs) (length pre) d k = Inr (cs, k + node_counts cs)"
  using assms
proof (induction cs arbitrary: bs pre k)
  case Nil
  then show ?case by (simp add: decode_children.simps)
next
  case (Cons c cs)
  from Cons.prems(2) obtain b bs' where b: "encode c = Inr b" and bs': "encode_all cs = Inr bs'"
    and bs: "bs = b @ bs'" by (auto simp: bindE_eq_Inr)
  have one: "decode_one (pre @ b @ bs') (length pre) d k = Inr (c, length pre + length b, k + node_count c)"
    using Cons.prems by (intro Cons.prems(1) b) auto
  have "decode_children ((pre @ b) @ bs') (length (pre @ b)) d (k + node_count c)
      = Inr (cs, k + node_count c + node_counts cs)"
    using Cons.prems by (intro Cons.IH bs' Cons.prems(1)) auto
  moreover have "b \<noteq> []" using encode_nonempty [OF b] by auto
  ultimately show ?case
    by (subst decode_children.simps) (simp add: bs one add.assoc)
qed

lemma decode_one_encode:
  "encode n = Inr bs \<Longrightarrow> d + height n \<le> MAX_NESTING_DEPTH \<Longrightarrow> k + node_count n \<le> MAX_NODE_COUNT \<Longrightarrow>
   decode_one (pre @ bs @ post) (length pre) d k = Inr (n, length pre + length bs, k + node_count n)"
proof (induction n arbitrary: bs d k pre post rule: measure_induct_rule [of size])
  case (less n)
  obtain t ty v where n: "n = Ttlv t ty v" by (cases n)
  with less.prems(1) obtain raw where t: "standard_tag t" and raw: "encoded_value ty v = Inr raw"
    "length raw \<le> MAX_MESSAGE_BYTES" and bs: "bs = frame t ty raw" by (auto simp only: encode_Inr)
  note hdr = decode_header_frame [OF t raw(2), of pre ty post]
  show ?case
  proof (cases "ty = STRUCTURE")
    case True
    with raw(1) obtain cs where v: "v = VTuple cs" and cs: "encode_all cs = Inr raw"
      by (cases v) (auto simp: encoded_value.simps)
    have "decode_children ([] @ raw) (length ([] :: bytes)) (d + 1) (k + 1) = Inr (cs, k + 1 + node_counts cs)"
    proof (rule decode_children_encode_all [OF _ cs])
      fix c cbs cpre cpost cd ck
      assume "c \<in> set cs" and *: "encode c = Inr cbs" "cd + height c \<le> MAX_NESTING_DEPTH"
        "ck + node_count c \<le> MAX_NODE_COUNT"
      then have "size c < size n" by (auto simp: n v dest!: size_list_estimation' [OF _ order_refl, of _ _ size])
      from less.IH [OF this *] show "decode_one (cpre @ cbs @ cpost) (length cpre) cd ck
        = Inr (c, length cpre + length cbs, ck + node_count c)" .
    qed (use less.prems in \<open>simp_all add: n v\<close>)
    with True less.prems hdr show ?thesis
      by (subst decode_one.simps) (simp add: bs n v)
  next
    case False
    with raw(1) have "decode_scalar ty raw = Inr v" by (simp add: decode_scalar_iff)
    moreover have "node_count n = 1" using False raw(1)
      by (cases v) (auto simp: n encoded_value.simps split: if_splits)
    ultimately show ?thesis using False less.prems hdr
      by (subst decode_one.simps) (simp add: bs n)
  qed
qed

lemma decode_one_Inr:
  "decode_one data off d k = Inr (n, off', k') \<Longrightarrow>
     encode n = Inr (py_slice data off off') \<and> off < off' \<and> off' \<le> length data \<and>
     d + height n \<le> MAX_NESTING_DEPTH \<and> k' = k + node_count n \<and> k' \<le> MAX_NODE_COUNT"
  and decode_children_Inr:
  "decode_children raw off d k = Inr (cs, k') \<Longrightarrow> off \<le> length raw \<Longrightarrow>
     encode_all cs = Inr (drop off raw) \<and> (cs = [] \<or> d + heights cs \<le> Suc MAX_NESTING_DEPTH) \<and>
     k' = k + node_counts cs \<and> (k \<le> MAX_NODE_COUNT \<longrightarrow> k' \<le> MAX_NODE_COUNT)"
proof (induction data off d k and raw off d k arbitrary: n off' k' and cs k'
    rule: decode_one_decode_children.induct)
  case (1 data off d k)
  then obtain t ty raw nx where d: "\<not> d > MAX_NESTING_DEPTH" and hdr: "decode_header data off = Inr (t, ty, raw, nx)"
    and k: "\<not> k + 1 > MAX_NODE_COUNT"
    and res: "(if ty = STRUCTURE then
            bindE (decode_children raw 0 (d + 1) (k + 1)) (\<lambda>(cs, nodes').
              Inr (Ttlv t ty (VTuple cs), nx, nodes'))
          else bindE (decode_scalar ty raw) (\<lambda>v. Inr (Ttlv t ty v, nx, k + 1))) = Inr (n, off', k')"
    by (auto simp: decode_one.simps [of data] split: sum.splits if_splits)
  note h = decode_header_Inr [OF hdr]
  show ?case
  proof (cases "ty = STRUCTURE")
    case True
    with res obtain cs where cs: "decode_children raw 0 (d + 1) (k + 1) = Inr (cs, k')"
      and n: "n = Ttlv t ty (VTuple cs)" "off' = nx" by (auto simp: bindE_eq_Inr)
    from 1(1) [OF d hdr refl refl refl k True cs] d k True h show ?thesis
      by (auto simp: n encode_Inr encoded_value.simps)
  next
    case False
    with res obtain v where v: "decode_scalar ty raw = Inr v" and n: "n = Ttlv t ty v" "off' = nx" "k' = k + 1"
      by (auto simp: bindE_eq_Inr)
    from False v have e: "encoded_value ty v = Inr raw" by (simp add: decode_scalar_iff)
    then have "height n = 0" "node_count n = 1" using False
      by (cases v; auto simp: n encoded_value.simps split: if_splits)+
    with False h d k n e show ?thesis by (auto simp: encode_Inr)
  qed
next
  case (2 raw off d k)
  show ?case
  proof (cases "off < length raw")
    case False
    with 2 show ?thesis by (simp add: decode_children.simps [of raw])
  next
    case True
    with 2(3) obtain c o1 k1 cs' where c: "decode_one raw off d k = Inr (c, o1, k1)"
      and cs': "decode_children raw o1 d k1 = Inr (cs', k')" and cs: "cs = c # cs'"
      by (auto simp: decode_children.simps [of raw] bindE_eq_Inr)
    from 2(1) [OF True c] have one: "encode c = Inr (py_slice raw off o1)" "off < o1" "o1 \<le> length raw"
      "d + height c \<le> MAX_NESTING_DEPTH" "k1 = k + node_count c" "k1 \<le> MAX_NODE_COUNT" by auto
    from 2(2) [OF True c refl refl cs' one(3)] one(6) have
      "encode_all cs' = Inr (drop o1 raw)" "cs' = [] \<or> d + heights cs' \<le> Suc MAX_NESTING_DEPTH"
      "k' = k1 + node_counts cs'" "k' \<le> MAX_NODE_COUNT" by auto
    moreover have "py_slice raw off o1 @ drop o1 raw = drop off raw"
      using one(2,3) by (simp add: py_slice_def) (metis add_diff_cancel_right' append_take_drop_id
        drop_drop le_add_diff_inverse2 less_imp_le)
    ultimately show ?thesis using one by (auto simp: cs)
  qed
qed

lemma aligned_le_max: "n \<le> MAX_MESSAGE_BYTES \<Longrightarrow> n + pad_length n \<le> MAX_MESSAGE_BYTES"
proof -
  assume n: "n \<le> MAX_MESSAGE_BYTES"
  obtain q where q: "n + pad_length n = 8 * q" using padded_mod8 [of n] by (metis mod_0_imp_dvd dvd_def)
  have "8 * q < 8 * 131073" using n pad_length_less [of n] unfolding q [symmetric]
    by (simp add: MAX_MESSAGE_BYTES_def)
  then show ?thesis unfolding q by (simp add: MAX_MESSAGE_BYTES_def)
qed

lemma encode_length:
  assumes "encode n = Inr bs"
  shows "8 \<le> length bs" "length bs \<le> MAX_MESSAGE_BYTES + 8" "length bs mod 8 = 0"
proof -
  obtain t ty v where n: "n = Ttlv t ty v" by (cases n)
  with assms obtain raw where "length raw \<le> MAX_MESSAGE_BYTES" "bs = frame t ty raw"
    by (auto simp only: encode_Inr)
  with aligned_le_max [of "length raw"] padded_mod8 [of "length raw"]
  show "8 \<le> length bs" "length bs \<le> MAX_MESSAGE_BYTES + 8" "length bs mod 8 = 0" by simp_all
qed

lemma decode_iff_encode: "decode bs = Inr n \<longleftrightarrow> encode n = Inr bs \<and> bounded_node n"
proof
  assume "decode bs = Inr n"
  then obtain k where one: "decode_one bs 0 0 0 = Inr (n, length bs, k)"
    by (auto simp: decode_def bindE_eq_Inr split: if_splits)
  from decode_one_Inr [OF one] show "encode n = Inr bs \<and> bounded_node n"
    by (simp add: bounded_node_def slice_prefix)
next
  assume "encode n = Inr bs \<and> bounded_node n"
  then have e: "encode n = Inr bs" and b: "0 + height n \<le> MAX_NESTING_DEPTH" "0 + node_count n \<le> MAX_NODE_COUNT"
    by (simp_all add: bounded_node_def)
  from decode_one_encode [OF e b, of "[]" "[]"] encode_length [OF e]
  show "decode bs = Inr n" by (auto simp: decode_def)
qed

interpretation ttlv: strict_codec encode decode bounded_node
  by unfold_locales (rule decode_iff_encode)

text \<open>
  C10: the TTLV decoder is the exact inverse of the encoder on bounded messages: it accepts a
  byte string if and only if that string is the encoding of a node with at most 16 levels of
  nesting and at most 4096 nodes, and then returns that node. No byte string has two readings and
  no bounded node has two accepted encodings.
\<close>

theorem ttlv_decode_exact: "decode bs = Inr n \<longleftrightarrow> encode n = Inr bs \<and> bounded_node n"
  by (rule ttlv.dec_iff)

end
