(* ===== verification/Json.thy ===== *)
theory Json
  imports Utf8 Complex_Main "HOL-Library.List_Lexorder"
begin

text \<open>
  Python's \<open>json\<close> module as the KMIP modules use it: \<open>json.dumps(x, separators=(",", ":"),
  sort_keys=True)\<close> with the default \<open>ensure_ascii=True\<close>, and \<open>json.loads\<close>. The round trip
  \<open>loads (dumps x) = x\<close> is proved for every float-free value whose strings hold no surrogates.

  A finite \<open>float\<close> is the rational it denotes; its decimal rendering and rounding are the
  parameters \<open>float_repr\<close> and \<open>float_parse\<close> (CPython's correctly rounded C routines), which no
  theorem of the development constrains.
\<close>

section \<open>Values\<close>

datatype json =
    JNull | JBool bool | JInt int | JFloat rat | JNonFinite | JStr pystr
  | JArr "json list" | JObj "(pystr \<times> json) list"

text \<open>
  A dictionary is an association list in insertion order; \<open>jget\<close> is \<open>dict.get\<close> and
  \<open>dict_of\<close> builds a dictionary from pairs (a later value replaces an earlier one in place).
\<close>

definition jget :: "(pystr \<times> json) list \<Rightarrow> pystr \<Rightarrow> json option" where
  "jget o' k = map_of o' k"

fun dict_set :: "(pystr \<times> 'v) list \<Rightarrow> pystr \<Rightarrow> 'v \<Rightarrow> (pystr \<times> 'v) list" where
  "dict_set [] k v = [(k, v)]"
| "dict_set ((k', v') # d) k v = (if k' = k then (k, v) # d else (k', v') # dict_set d k v)"

definition dict_of :: "(pystr \<times> 'v) list \<Rightarrow> (pystr \<times> 'v) list" where
  "dict_of ps = foldl (\<lambda>d (k, v). dict_set d k v) [] ps"

section \<open>Rendering\<close>

fun dec_digits :: "nat \<Rightarrow> pystr" where
  "dec_digits n = (if n < 10 then [48 + n] else dec_digits (n div 10) @ [48 + n mod 10])"

declare dec_digits.simps [simp del]

definition dec_int :: "int \<Rightarrow> pystr" where
  "dec_int i = (if i < 0 then 45 # dec_digits (nat (- i)) else dec_digits (nat i))"

definition hex_digit :: "nat \<Rightarrow> nat" where
  "hex_digit d = (if d < 10 then 48 + d else 87 + d)"

definition hex4 :: "nat \<Rightarrow> pystr" where
  "hex4 n = [hex_digit (n div 4096 mod 16), hex_digit (n div 256 mod 16),
             hex_digit (n div 16 mod 16), hex_digit (n mod 16)]"

text \<open>\<open>py_encode_basestring_ascii\<close>, one character.\<close>

definition escape_char :: "nat \<Rightarrow> pystr" where
  "escape_char c =
     (if c = 34 then [92, 34] else if c = 92 then [92, 92]
      else if c = 10 then [92, 110] else if c = 13 then [92, 114] else if c = 9 then [92, 116]
      else if c = 12 then [92, 102] else if c = 8 then [92, 98]
      else if 32 \<le> c \<and> c \<le> 126 then [c]
      else if c < 0x10000 then [92, 117] @ hex4 c
      else [92, 117] @ hex4 (0xD800 + (c - 0x10000) div 1024)
             @ [92, 117] @ hex4 (0xDC00 + (c - 0x10000) mod 1024))"

definition escape :: "pystr \<Rightarrow> pystr" where
  "escape s = concat (map escape_char s)"

definition render_str :: "pystr \<Rightarrow> pystr" where
  "render_str s = 34 # escape s @ [34]"

fun render :: "(rat \<Rightarrow> pystr) \<Rightarrow> json \<Rightarrow> pystr"
  and render_items :: "(rat \<Rightarrow> pystr) \<Rightarrow> json list \<Rightarrow> pystr"
  and render_members :: "(rat \<Rightarrow> pystr) \<Rightarrow> (pystr \<times> json) list \<Rightarrow> pystr"
where
  "render fr JNull = u ''null''"
| "render fr (JBool b) = (if b then u ''true'' else u ''false'')"
| "render fr (JInt i) = dec_int i"
| "render fr (JFloat q) = fr q"
| "render fr JNonFinite = u ''NaN''"
| "render fr (JStr s) = render_str s"
| "render fr (JArr xs) = 91 # render_items fr xs @ [93]"
| "render fr (JObj ms) = 123 # render_members fr ms @ [125]"
| "render_items fr [] = []"
| "render_items fr (x # xs) = render fr x @ (if xs = [] then [] else 44 # render_items fr xs)"
| "render_members fr [] = []"
| "render_members fr ((k, v) # ms) =
     render_str k @ 58 # render fr v @ (if ms = [] then [] else 44 # render_members fr ms)"

text \<open>\<open>sort_keys=True\<close>: every object sorted by its keys.\<close>

fun sort_keys :: "json \<Rightarrow> json" where
  "sort_keys (JArr xs) = JArr (map sort_keys xs)"
| "sort_keys (JObj ms) = JObj (sort_key fst (map (\<lambda>(k, v). (k, sort_keys v)) ms))"
| "sort_keys j = j"

definition json_dumps :: "(rat \<Rightarrow> pystr) \<Rightarrow> json \<Rightarrow> pystr" where
  "json_dumps fr j = render fr (sort_keys j)"

section \<open>Parsing\<close>

definition is_ws :: "nat \<Rightarrow> bool" where
  "is_ws c \<longleftrightarrow> c = 32 \<or> c = 9 \<or> c = 10 \<or> c = 13"

definition skip_ws :: "pystr \<Rightarrow> pystr" where
  "skip_ws s = dropWhile is_ws s"

definition is_digit :: "nat \<Rightarrow> bool" where
  "is_digit c \<longleftrightarrow> 48 \<le> c \<and> c \<le> 57"

definition nat_of_digits :: "pystr \<Rightarrow> nat" where
  "nat_of_digits s = foldl (\<lambda>a d. a * 10 + (d - 48)) 0 s"

definition hex_value :: "nat \<Rightarrow> nat option" where
  "hex_value c =
     (if 48 \<le> c \<and> c \<le> 57 then Some (c - 48)
      else if 97 \<le> c \<and> c \<le> 102 then Some (c - 87)
      else if 65 \<le> c \<and> c \<le> 70 then Some (c - 55) else None)"

text \<open>Four hexadecimal digits and the rest of the input.\<close>

definition scan_hex4 :: "pystr \<Rightarrow> (nat \<times> pystr) option" where
  "scan_hex4 s = (case s of
       a # b # c # d # r \<Rightarrow>
         (case (hex_value a, hex_value b, hex_value c, hex_value d) of
            (Some w, Some x, Some y, Some z) \<Rightarrow> Some (((w * 16 + x) * 16 + y) * 16 + z, r)
          | _ \<Rightarrow> None)
     | _ \<Rightarrow> None)"

text \<open>The escape after a backslash: the character it denotes and the rest.\<close>

definition scan_escape :: "pystr \<Rightarrow> (nat \<times> pystr) option" where
  "scan_escape s = (case s of
       [] \<Rightarrow> None
     | e # r \<Rightarrow>
        (if e = 34 \<or> e = 92 \<or> e = 47 then Some (e, r)
         else if e = 98 then Some (8, r) else if e = 102 then Some (12, r)
         else if e = 110 then Some (10, r) else if e = 114 then Some (13, r)
         else if e = 116 then Some (9, r)
         else if e = 117 then (case scan_hex4 r of
             None \<Rightarrow> None
           | Some (hi, r1) \<Rightarrow>
              (if 0xD800 \<le> hi \<and> hi \<le> 0xDBFF then
                 (case r1 of
                    b # v # r2 \<Rightarrow>
                      (if b = 92 \<and> v = 117 then (case scan_hex4 r2 of
                           None \<Rightarrow> None
                         | Some (lo, r3) \<Rightarrow>
                             if 0xDC00 \<le> lo \<and> lo \<le> 0xDFFF
                             then Some (0x10000 + (hi - 0xD800) * 1024 + (lo - 0xDC00), r3)
                             else Some (hi, r1))
                       else Some (hi, r1))
                  | _ \<Rightarrow> Some (hi, r1))
               else Some (hi, r1)))
         else None))"

lemma scan_hex4_shorter: "scan_hex4 s = Some (n, r) \<Longrightarrow> length r < length s"
  by (auto simp: scan_hex4_def split: list.splits option.splits)

lemma scan_escape_shorter: "scan_escape s = Some (n, r) \<Longrightarrow> length r < length s"
  by (auto simp: scan_escape_def dest!: scan_hex4_shorter split: list.splits option.splits if_splits)

text \<open>A string body up to and including the closing quote.\<close>

function scan_string :: "pystr \<Rightarrow> (pystr \<times> pystr) option" where
  "scan_string s = (case s of
       [] \<Rightarrow> None
     | c # r \<Rightarrow>
        (if c = 34 then Some ([], r)
         else if c = 92 then (case scan_escape r of
             None \<Rightarrow> None
           | Some (d, r') \<Rightarrow> (case scan_string r' of None \<Rightarrow> None | Some (t, q) \<Rightarrow> Some (d # t, q)))
         else if c < 32 then None
         else (case scan_string r of None \<Rightarrow> None | Some (t, q) \<Rightarrow> Some (c # t, q))))"
  by pat_completeness auto
termination scan_string
  by (relation "measure length") (auto dest: scan_escape_shorter)

declare scan_string.simps [simp del]

lemma scan_string_shorter: "scan_string s = Some (t, q) \<Longrightarrow> length q < length s"
proof (induction s arbitrary: t rule: scan_string.induct)
  case (1 s)
  then show ?case
    by (subst (asm) (3) scan_string.simps)
      (fastforce dest: scan_escape_shorter split: list.splits if_splits option.splits)
qed

text \<open>
  Numbers: an optional minus sign, an integer part without leading zeros, and optional
  fraction and exponent parts; \<open>int()\<close> refuses more than 4300 digits.
\<close>

definition scan_frac :: "pystr \<Rightarrow> pystr" where
  "scan_frac s = (case s of
       p # d # r \<Rightarrow> if p = 46 \<and> is_digit d then dropWhile is_digit (d # r) else s
     | _ \<Rightarrow> s)"

definition scan_exp :: "pystr \<Rightarrow> pystr" where
  "scan_exp s = (case s of
       e # r \<Rightarrow>
         (if e = 101 \<or> e = 69 then
            let r' = (case r of g # r1 \<Rightarrow> if g = 43 \<or> g = 45 then r1 else r | [] \<Rightarrow> r)
            in (case r' of d # _ \<Rightarrow> if is_digit d then dropWhile is_digit r' else s | [] \<Rightarrow> s)
          else s)
     | [] \<Rightarrow> s)"

definition scan_number :: "(pystr \<Rightarrow> json) \<Rightarrow> pystr \<Rightarrow> (json \<times> pystr) option" where
  "scan_number fp s =
     (let neg = (case s of c # _ \<Rightarrow> c = 45 | [] \<Rightarrow> False); s1 = (if neg then tl s else s)
      in case s1 of
           [] \<Rightarrow> None
         | c # r \<Rightarrow>
            (if \<not> is_digit c then None
             else let ds = (if c = 48 then [48] else takeWhile is_digit s1);
                      r1 = (if c = 48 then r else dropWhile is_digit s1);
                      r2 = scan_exp (scan_frac r1)
             in if length r2 = length r1
                then (if length ds > 4300 then None
                      else Some (JInt (if neg then - int (nat_of_digits ds) else int (nat_of_digits ds)), r1))
                else Some (fp (take (length s - length r2) s), r2)))"

definition strip_prefix :: "pystr \<Rightarrow> pystr \<Rightarrow> pystr option" where
  "strip_prefix p s = (if take (length p) s = p then Some (drop (length p) s) else None)"

function parse_value :: "(pystr \<Rightarrow> json) \<Rightarrow> pystr \<Rightarrow> (json \<times> pystr) option"
  and parse_items :: "(pystr \<Rightarrow> json) \<Rightarrow> pystr \<Rightarrow> (json list \<times> pystr) option"
  and parse_members :: "(pystr \<Rightarrow> json) \<Rightarrow> pystr \<Rightarrow> ((pystr \<times> json) list \<times> pystr) option"
where
  "parse_value fp s = (case s of
       [] \<Rightarrow> None
     | c # r \<Rightarrow>
        (if c = 34 then map_option (\<lambda>(t, q). (JStr t, q)) (scan_string r)
         else if c = 123 then
           (case skip_ws r of
              [] \<Rightarrow> None
            | d # r1 \<Rightarrow>
               if d = 125 then Some (JObj [], r1)
               else (case parse_members fp (d # r1) of
                       None \<Rightarrow> None | Some (ms, q) \<Rightarrow> Some (JObj (dict_of ms), q)))
         else if c = 91 then
           (case skip_ws r of
              [] \<Rightarrow> None
            | d # r1 \<Rightarrow>
               if d = 93 then Some (JArr [], r1)
               else (case parse_items fp (d # r1) of
                       None \<Rightarrow> None | Some (xs, q) \<Rightarrow> Some (JArr xs, q)))
         else if c = 110 then map_option (\<lambda>q. (JNull, q)) (strip_prefix (u ''null'') s)
         else if c = 116 then map_option (\<lambda>q. (JBool True, q)) (strip_prefix (u ''true'') s)
         else if c = 102 then map_option (\<lambda>q. (JBool False, q)) (strip_prefix (u ''false'') s)
         else if c = 78 then map_option (\<lambda>q. (JNonFinite, q)) (strip_prefix (u ''NaN'') s)
         else if c = 73 then map_option (\<lambda>q. (JNonFinite, q)) (strip_prefix (u ''Infinity'') s)
         else (case strip_prefix (u ''-Infinity'') s of
                 Some q \<Rightarrow> Some (JNonFinite, q)
               | None \<Rightarrow> scan_number fp s)))"
| "parse_items fp s = (case parse_value fp s of
       None \<Rightarrow> None
     | Some (x, r) \<Rightarrow>
        (case skip_ws r of
           [] \<Rightarrow> None
         | d # r1 \<Rightarrow>
            if d = 93 then Some ([x], r1)
            else if d = 44 then (case parse_items fp (skip_ws r1) of
                   None \<Rightarrow> None | Some (xs, q) \<Rightarrow> Some (x # xs, q))
            else None))"
| "parse_members fp s = (case s of
       [] \<Rightarrow> None
     | c # r0 \<Rightarrow>
        (if c \<noteq> 34 then None
         else case scan_string r0 of
           None \<Rightarrow> None
         | Some (k, r) \<Rightarrow>
            (case skip_ws r of
               [] \<Rightarrow> None
             | e # r1 \<Rightarrow>
                (if e \<noteq> 58 then None
                 else case parse_value fp (skip_ws r1) of
                   None \<Rightarrow> None
                 | Some (v, r2) \<Rightarrow>
                    (case skip_ws r2 of
                       [] \<Rightarrow> None
                     | d # r3 \<Rightarrow>
                        if d = 125 then Some ([(k, v)], r3)
                        else if d = 44 then (case parse_members fp (skip_ws r3) of
                               None \<Rightarrow> None | Some (ms, q) \<Rightarrow> Some ((k, v) # ms, q))
                        else None)))))"
  by pat_completeness auto

lemma length_skip_ws: "length (skip_ws s) \<le> length s"
  by (simp add: skip_ws_def length_dropWhile_le)

lemma skip_ws_Cons_shorter: "skip_ws s = c # r \<Longrightarrow> length r < length s"
  using length_skip_ws [of s] by simp

lemma strip_prefix_shorter: "strip_prefix p s = Some q \<Longrightarrow> p \<noteq> [] \<Longrightarrow> length q < length s"
  by (cases s; cases p) (auto simp: strip_prefix_def split: if_splits)

lemma length_scan_frac: "length (scan_frac s) \<le> length s"
proof (cases s)
  case (Cons p r)
  then show ?thesis using length_dropWhile_le [of is_digit r]
    by (cases r) (auto simp: scan_frac_def simp del: dropWhile.simps)
qed (simp add: scan_frac_def)

lemma length_scan_exp: "length (scan_exp s) \<le> length s"
proof (cases s)
  case (Cons e r)
  have "length (dropWhile is_digit t) \<le> length s" if "length t \<le> length r" for t
    using that length_dropWhile_le [of is_digit t] Cons by simp
  then show ?thesis
    by (cases r) (auto simp: scan_exp_def Cons Let_def simp del: dropWhile.simps split: list.splits)
qed (simp add: scan_exp_def)

lemma scan_number_shorter: "scan_number fp s = Some (v, q) \<Longrightarrow> length q < length s"
proof -
  assume a: "scan_number fp s = Some (v, q)"
  define neg where "neg = (case s of c # _ \<Rightarrow> c = 45 | [] \<Rightarrow> False)"
  define s1 where "s1 = (if neg then tl s else s)"
  have s1: "length s1 \<le> length s" by (simp add: s1_def)
  obtain c r where c: "s1 = c # r" "is_digit c"
    using a unfolding scan_number_def neg_def [symmetric] Let_def s1_def [symmetric]
    by (auto split: list.splits if_splits)
  define r1 where "r1 = (if c = 48 then r else dropWhile is_digit s1)"
  have r1: "length r1 < length s1" using c length_dropWhile_le [of is_digit r] by (simp add: r1_def)
  have "q = r1 \<or> q = scan_exp (scan_frac r1)"
    using a unfolding scan_number_def neg_def [symmetric] Let_def s1_def [symmetric]
    by (auto simp: c r1_def split: if_splits)
  moreover have "length (scan_exp (scan_frac r1)) \<le> length r1"
    using length_scan_exp length_scan_frac le_trans by blast
  ultimately show ?thesis using r1 s1 by auto
qed

lemmas scan_shorter = scan_string_shorter scan_number_shorter strip_prefix_shorter
  skip_ws_Cons_shorter

text \<open>
  Whatever the parser returns is shorter than its input; as for the TTLV decoder this is proved
  on the domain of the recursion and then gives its termination.
\<close>

lemma parse_progress:
  "parse_value_parse_items_parse_members_dom (Inl (fp, s)) \<Longrightarrow>
     parse_value fp s = Some (v, q) \<longrightarrow> length q < length s"
  "parse_value_parse_items_parse_members_dom (Inr (Inl (fp, s))) \<Longrightarrow>
     parse_items fp s = Some (xs, q) \<longrightarrow> length q < length s"
  "parse_value_parse_items_parse_members_dom (Inr (Inr (fp, s))) \<Longrightarrow>
     parse_members fp s = Some (ms, q) \<longrightarrow> length q < length s"
proof (induction fp s and fp s and fp s arbitrary: v q and xs q and ms q
    rule: parse_value_parse_items_parse_members.pinduct)
  case (1 fp s)
  show ?case
  proof (intro impI)
    assume p: "parse_value fp s = Some (v, q)"
    then obtain c r where s: "s = c # r" using 1(1) by (cases s) (auto simp: parse_value.psimps)
    show "length q < length s"
    proof (cases "c = 123 \<or> c = 91")
      case True
      then obtain d r1 where d: "skip_ws r = d # r1"
        using p 1(1) by (cases "skip_ws r") (auto simp: s parse_value.psimps)
      have "length r1 < length r" using d by (rule skip_ws_Cons_shorter)
      with True p d 1(1) 1(2) [OF s] 1(3) [OF s] show ?thesis
        by (fastforce simp: s parse_value.psimps split: if_splits option.splits)
    next
      case False
      with p 1(1) show ?thesis
        by (auto simp: s parse_value.psimps split: if_splits option.splits dest!: scan_shorter)
    qed
  qed
next
  case (2 fp s)
  show ?case
  proof (intro impI)
    assume p: "parse_items fp s = Some (xs, q)"
    then obtain x r d r1 where v: "parse_value fp s = Some (x, r)" and d: "skip_ws r = d # r1"
      and alt: "d = 93 \<and> q = r1 \<or> d \<noteq> 93 \<and> d = 44 \<and> (\<exists>ys. parse_items fp (skip_ws r1) = Some (ys, q))"
      using 2(1) by (auto simp: parse_items.psimps split: option.splits list.splits if_splits)
    have "length r < length s" using 2(2) v by simp
    moreover have "length r1 < length r" using d by (rule skip_ws_Cons_shorter)
    moreover have "length q \<le> length r1"
      using alt 2(3) [OF v refl d] length_skip_ws [of r1] by fastforce
    ultimately show "length q < length s" by simp
  qed
next
  case (3 fp s)
  show ?case
  proof (intro impI)
    assume p: "parse_members fp s = Some (ms, q)"
    then obtain c r0 k r e r1 v r2 d r3 where s: "s = c # r0" "\<not> c \<noteq> 34" and k: "scan_string r0 = Some (k, r)"
      and e: "skip_ws r = e # r1" "\<not> e \<noteq> 58" and v: "parse_value fp (skip_ws r1) = Some (v, r2)"
      and d: "skip_ws r2 = d # r3"
      and alt: "d = 125 \<and> q = r3 \<or> d \<noteq> 125 \<and> d = 44 \<and> (\<exists>ys. parse_members fp (skip_ws r3) = Some (ys, q))"
      using 3(1) by (auto simp: parse_members.psimps split: option.splits list.splits if_splits)
    have "length r < length r0" using k by (rule scan_string_shorter)
    moreover have "length r1 < length r" using e(1) by (rule skip_ws_Cons_shorter)
    moreover have "length r2 < length (skip_ws r1)" using 3(2) [OF s k refl e] v by simp
    moreover have "length (skip_ws r1) \<le> length r1" by (rule length_skip_ws)
    moreover have "length r3 < length r2" using d by (rule skip_ws_Cons_shorter)
    moreover have "length q \<le> length r3"
      using alt 3(3) [OF s k refl e v refl d] length_skip_ws [of r3] by fastforce
    ultimately show "length q < length s" by (simp add: s)
  qed
qed

termination parse_value
proof (relation "measures [\<lambda>x. case x of Inl (fp, s) \<Rightarrow> length s
      | Inr (Inl (fp, s)) \<Rightarrow> length s | Inr (Inr (fp, s)) \<Rightarrow> length s,
    \<lambda>x. case x of Inl _ \<Rightarrow> 0 | Inr _ \<Rightarrow> 1]", goal_cases)
  case 1
  show ?case by simp
next
  case (2 fp s c r d r1)
  then show ?case using skip_ws_Cons_shorter by fastforce
next
  case (3 fp s c r d r1)
  then show ?case using skip_ws_Cons_shorter by fastforce
next
  case (4 fp s)
  then show ?case by simp
next
  case (5 fp s p x r d r1)
  then show ?case using parse_progress(1) [of fp s x r] skip_ws_Cons_shorter [of r d r1] length_skip_ws [of r1]
    by simp
next
  case (6 fp s c r0 p k r e r1)
  then show ?case using scan_string_shorter [of r0 k r] skip_ws_Cons_shorter [of r e r1] length_skip_ws [of r1]
    by simp
next
  case (7 fp s c r0 p k r e r1 p' v r2 d r3)
  then show ?case using scan_string_shorter [of r0 k r] skip_ws_Cons_shorter [of r e r1] length_skip_ws [of r1]
      parse_progress(1) [of fp "skip_ws r1" v r2] skip_ws_Cons_shorter [of r2 d r3] length_skip_ws [of r3]
    by simp
qed

declare parse_value.simps [simp del] parse_items.simps [simp del] parse_members.simps [simp del]

text \<open>\<open>json.loads\<close>: \<open>None\<close> is the \<open>JSONDecodeError\<close> (or the \<open>ValueError\<close> of an oversized integer).\<close>

definition json_loads :: "(pystr \<Rightarrow> json) \<Rightarrow> pystr \<Rightarrow> json option" where
  "json_loads fp s =
     (if take 1 s = [0xFEFF] then None
      else case parse_value fp (skip_ws s) of
             None \<Rightarrow> None
           | Some (v, r) \<Rightarrow> if skip_ws r = [] then Some v else None)"

section \<open>Round trip\<close>

text \<open>Values without floats whose strings hold scalar values only, with distinct keys.\<close>

fun plain :: "json \<Rightarrow> bool" where
  "plain JNull = True"
| "plain (JBool b) = True"
| "plain (JInt i) = (length (dec_digits (nat \<bar>i\<bar>)) \<le> 4300)"
| "plain (JFloat q) = False"
| "plain JNonFinite = False"
| "plain (JStr s) = list_all is_scalar s"
| "plain (JArr xs) = (\<forall>x \<in> set xs. plain x)"
| "plain (JObj ms) =
     (distinct (map fst ms) \<and> (\<forall>m \<in> set ms. list_all is_scalar (fst m) \<and> plain (snd m)))"

definition delim :: "pystr \<Rightarrow> bool" where
  "delim r \<longleftrightarrow> r = [] \<or> hd r \<in> {10, 44, 93, 125}"

subsection \<open>Strings\<close>

lemma hex_value_digit: "d < 16 \<Longrightarrow> hex_value (hex_digit d) = Some d"
  by (simp add: hex_value_def hex_digit_def)

lemma hex_digits16: "n < 65536 \<Longrightarrow>
   ((n div 4096 mod 16 * 16 + n div 256 mod 16) * 16 + n div 16 mod 16) * 16 + n mod 16 = (n :: nat)"
proof -
  assume "n < 65536"
  then have "n div 4096 < 16" by auto
  moreover have "n div 4096 = n div 16 div 16 div 16" "n div 256 = n div 16 div 16"
    by (simp_all add: div_mult2_eq [symmetric])
  ultimately show ?thesis by (metis div_mult_mod_eq mod_less)
qed

lemma scan_hex4_hex4 [simp]: "n < 65536 \<Longrightarrow> scan_hex4 (hex4 n @ r) = Some (n, r)"
  using hex_digits16 [of n] by (simp add: scan_hex4_def hex4_def hex_value_digit)

lemma scan_escape_u:
  assumes "n < 65536" "\<not> (0xD800 \<le> n \<and> n \<le> 0xDBFF)"
  shows "scan_escape (117 # hex4 n @ r) = Some (n, r)"
  using assms by (auto simp: scan_escape_def)

lemma scan_escape_pair:
  assumes "hi < 1024" "lo < 1024"
  shows "scan_escape (117 # hex4 (0xD800 + hi) @ 92 # 117 # hex4 (0xDC00 + lo) @ r) =
           Some (0x10000 + hi * 1024 + lo, r)"
  using assms by (simp add: scan_escape_def)

lemma scan_string_char:
  assumes "is_scalar c"
  shows "scan_string (escape_char c @ t) = map_option (\<lambda>(x, q). (c # x, q)) (scan_string t)"
proof -
  have simple: "scan_string (92 # e # t) = map_option (\<lambda>(x, q). (d # x, q)) (scan_string t)"
    if "scan_escape (e # t) = Some (d, t)" for e d
    using that by (subst scan_string.simps) (simp add: option.map_comp split: option.split)
  have hexed: "scan_string (92 # z @ t) = map_option (\<lambda>(x, q). (d # x, q)) (scan_string t)"
    if "scan_escape (z @ t) = Some (d, t)" for z d
    using that by (subst scan_string.simps) (simp split: option.split)
  consider (named) "c \<in> {34, 92, 10, 13, 9, 12, 8}"
    | (printable) "32 \<le> c" "c \<le> 126" "c \<noteq> 34" "c \<noteq> 92"
    | (bmp) "c \<notin> {34, 92, 10, 13, 9, 12, 8}" "\<not> (32 \<le> c \<and> c \<le> 126)" "c < 0x10000"
    | (astral) "0x10000 \<le> c"
    by force
  then show ?thesis
  proof cases
    case named
    then show ?thesis by (auto simp: escape_char_def simple scan_escape_def)
  next
    case printable
    then show ?thesis
      by (subst scan_string.simps) (simp add: escape_char_def split: option.split)
  next
    case bmp
    then have "escape_char c = 92 # 117 # hex4 c" by (simp add: escape_char_def)
    moreover have "\<not> (0xD800 \<le> c \<and> c \<le> 0xDBFF)"
      using assms by (auto simp: is_scalar_def is_surrogate_def)
    ultimately show ?thesis using bmp(3) hexed [of "117 # hex4 c" c]
      by (simp add: scan_escape_u)
  next
    case astral
    obtain hi lo where d: "(c - 0x10000) div 1024 = hi" "(c - 0x10000) mod 1024 = lo"
      and e: "c - 0x10000 = hi * 1024 + lo" by (metis div_mult_mod_eq)
    have lo: "lo < 1024" using d(2) by auto
    have c: "c = 0x10000 + hi * 1024 + lo" using astral e by linarith
    have b: "hi < 1024" "lo < 1024" using assms c lo by (simp_all add: is_scalar_def)
    have "escape_char c = 92 # 117 # hex4 (0xD800 + hi) @ 92 # 117 # hex4 (0xDC00 + lo)"
      using astral by (simp add: escape_char_def d)
    moreover have "scan_escape ((117 # hex4 (0xD800 + hi) @ 92 # 117 # hex4 (0xDC00 + lo)) @ t) = Some (c, t)"
      using scan_escape_pair [OF b, of t] unfolding c by simp
    ultimately show ?thesis
      using hexed [of "117 # hex4 (0xD800 + hi) @ 92 # 117 # hex4 (0xDC00 + lo)" c] by simp
  qed
qed

lemma scan_string_escape:
  "list_all is_scalar s \<Longrightarrow> scan_string (escape s @ 34 # r) = Some (s, r)"
proof (induction s)
  case Nil
  show ?case by (subst scan_string.simps) (simp add: escape_def)
next
  case (Cons c s)
  then show ?case by (simp add: escape_def scan_string_char)
qed

subsection \<open>Integers\<close>

lemma dec_digits_not_Nil [simp]: "dec_digits n \<noteq> []"
  by (subst dec_digits.simps) simp

lemma dec_digits_digits: "c \<in> set (dec_digits n) \<Longrightarrow> is_digit c"
proof (induction n rule: dec_digits.induct)
  case (1 n)
  then show ?case
    by (subst (asm) dec_digits.simps) (auto simp: is_digit_def split: if_splits)
qed

lemma nat_of_dec_digits [simp]: "nat_of_digits (dec_digits n) = n"
proof (induction n rule: dec_digits.induct)
  case (1 n)
  then show ?case
    by (subst dec_digits.simps) (auto simp: nat_of_digits_def)
qed

lemma hd_dec_digits: "0 < n \<Longrightarrow> hd (dec_digits n) \<noteq> 48"
proof (induction n rule: dec_digits.induct)
  case (1 n)
  show ?case
  proof (cases "n < 10")
    case True
    with 1 show ?thesis by (subst dec_digits.simps) simp
  next
    case False
    with 1 have "hd (dec_digits (n div 10)) \<noteq> 48" by simp
    with False show ?thesis by (subst dec_digits.simps) simp
  qed
qed

lemma dec_digits_0 [simp]: "dec_digits 0 = [48]"
  by (simp add: dec_digits.simps)

lemma delim_scan:
  assumes "delim r"
  shows "scan_exp (scan_frac r) = r" "takeWhile is_digit r = []" "dropWhile is_digit r = r"
  using assms by (cases r; auto simp: delim_def scan_frac_def scan_exp_def is_digit_def split: list.splits)+

lemma scan_digits:
  assumes "delim r"
  shows "takeWhile is_digit (dec_digits n @ r) = dec_digits n" "dropWhile is_digit (dec_digits n @ r) = r"
proof -
  have "\<And>c. c \<in> set (dec_digits n) \<Longrightarrow> is_digit c" by (rule dec_digits_digits)
  then show "takeWhile is_digit (dec_digits n @ r) = dec_digits n" "dropWhile is_digit (dec_digits n @ r) = r"
    using delim_scan(2,3) [OF assms] by (simp_all add: takeWhile_append2 dropWhile_append2)
qed

lemma scan_number_dec_int:
  assumes "delim r" "length (dec_digits (nat \<bar>i\<bar>)) \<le> 4300"
  shows "scan_number fp (dec_int i @ r) = Some (JInt i, r)"
proof -
  define n where "n = nat \<bar>i\<bar>"
  obtain c cs where ds: "dec_digits n = c # cs" by (cases "dec_digits n") auto
  have dig: "is_digit c" using dec_digits_digits [of c n] ds by simp
  have zero: "c = 48 \<longleftrightarrow> n = 0" using hd_dec_digits [of n] ds by (cases "n = 0") auto
  have cs0: "n = 0 \<Longrightarrow> cs = []" using ds by simp
  have c45: "c \<noteq> 45" using dig by (auto simp: is_digit_def)
  have dd: "nat_of_digits (c # cs) = n" "length (c # cs) \<le> 4300"
    using nat_of_dec_digits [of n] assms(2) by (simp_all add: ds n_def [symmetric])
  have tk: "takeWhile is_digit (c # cs @ r) = c # cs" "dropWhile is_digit (c # cs @ r) = r"
    using scan_digits [OF assms(1), of n] ds by simp_all
  show ?thesis
  proof (cases "i < 0")
    case True
    then have "dec_int i = 45 # c # cs" "n \<noteq> 0" "i = - int n" using ds by (auto simp: dec_int_def n_def)
    with zero dig dd tk delim_scan(1) [OF assms(1)] show ?thesis
      by (simp add: scan_number_def Let_def)
  next
    case False
    then have i: "dec_int i = c # cs" "i = int n" using ds by (auto simp: dec_int_def n_def)
    with zero dig dd tk c45 cs0 delim_scan(1) [OF assms(1)] show ?thesis
      by (cases "n = 0") (auto simp: scan_number_def Let_def)
  qed
qed

subsection \<open>Documents\<close>

lemma dict_set_fresh: "k \<notin> fst ` set d \<Longrightarrow> dict_set d k v = d @ [(k, v)]"
  by (induction d) auto

lemma dict_of_distinct: "distinct (map fst ms) \<Longrightarrow> dict_of ms = ms"
proof -
  have "distinct (map fst (acc @ ms)) \<Longrightarrow> foldl (\<lambda>d (k, v). dict_set d k v) acc ms = acc @ ms" for acc
  proof (induction ms arbitrary: acc)
    case (Cons m ms)
    obtain k v where m: "m = (k, v)" by (cases m)
    from Cons.prems have "k \<notin> fst ` set acc" by (auto simp: m)
    with Cons show ?case by (simp add: m dict_set_fresh)
  qed simp
  from this [of "[]"] show "distinct (map fst ms) \<Longrightarrow> dict_of ms = ms" by (simp add: dict_of_def)
qed

lemma dec_digits_head: "\<exists>c r. dec_digits n = c # r \<and> is_digit c"
  using dec_digits_digits [of _ n] by (cases "dec_digits n") auto

lemma dec_int_shape:
  obtains c r where "dec_int i = c # r" "is_digit c \<or> c = 45 \<and> (\<exists>d t. r = d # t \<and> is_digit d)"
proof (cases "i < 0")
  case True
  with that dec_digits_head [of "nat (- i)"] show thesis by (auto simp: dec_int_def)
next
  case False
  with that dec_digits_head [of "nat i"] show thesis by (auto simp: dec_int_def)
qed

lemma u_Cons: "u (c # s) = of_char c # u s"
  by (simp add: u_def)

lemma render_head:
  assumes "plain j"
  obtains c r where "render fr j = c # r" "\<not> is_ws c" "c \<noteq> 93" "c \<noteq> 125" "c \<noteq> 0xFEFF"
proof (cases j)
  case (JInt i)
  obtain c r where "dec_int i = c # r" "is_digit c \<or> c = 45 \<and> (\<exists>d t. r = d # t \<and> is_digit d)"
    by (rule dec_int_shape)
  with JInt that show ?thesis by (auto simp: is_ws_def is_digit_def)
next
  case (JBool b)
  with that show ?thesis by (cases b) (auto simp: u_Cons is_ws_def)
qed (use assms that in \<open>auto simp: u_Cons render_str_def is_ws_def\<close>)

lemma skip_ws_nonws: "\<not> is_ws c \<Longrightarrow> skip_ws (c # r) = c # r"
  by (simp add: skip_ws_def)

lemma skip_ws_punct [simp]:
  "skip_ws (44 # r) = 44 # r" "skip_ws (58 # r) = 58 # r" "skip_ws (34 # r) = 34 # r"
  "skip_ws (93 # r) = 93 # r" "skip_ws (125 # r) = 125 # r" "skip_ws [] = []"
  by (simp_all add: skip_ws_def is_ws_def)

lemma delim_simps [simp]: "delim []" "delim (10 # r)" "delim (44 # r)" "delim (93 # r)" "delim (125 # r)"
  by (simp_all add: delim_def)

lemma skip_ws_render: "plain j \<Longrightarrow> skip_ws (render fr j @ r) = render fr j @ r"
  by (erule render_head [of j fr]) (simp add: skip_ws_nonws)

definition reads_back :: "(rat \<Rightarrow> pystr) \<Rightarrow> (pystr \<Rightarrow> json) \<Rightarrow> json \<Rightarrow> bool" where
  "reads_back fr fp j \<longleftrightarrow> (\<forall>r. delim r \<longrightarrow> parse_value fp (render fr j @ r) = Some (j, r))"

lemma reads_backD: "reads_back fr fp j \<Longrightarrow> delim r \<Longrightarrow> parse_value fp (render fr j @ r) = Some (j, r)"
  by (simp add: reads_back_def)

lemma parse_items_render:
  assumes "xs \<noteq> []" "\<And>x. x \<in> set xs \<Longrightarrow> plain x \<and> reads_back fr fp x"
  shows "parse_items fp (render_items fr xs @ 93 # r) = Some (xs, r)"
  using assms
proof (induction xs)
  case (Cons x xs)
  then have x: "plain x" "reads_back fr fp x" by auto
  show ?case
  proof (cases xs)
    case Nil
    then show ?thesis using reads_backD [OF x(2), of "93 # r"] by (subst parse_items.simps) simp
  next
    case (Cons y ys)
    then have "plain y" and ys: "render_items fr xs = render fr y @ (if ys = [] then [] else 44 # render_items fr ys)"
      using \<open>\<And>x'. x' \<in> set (x # xs) \<Longrightarrow> plain x' \<and> reads_back fr fp x'\<close> by auto
    then have ws: "skip_ws (render_items fr xs @ 93 # r) = render_items fr xs @ 93 # r"
      by (simp add: skip_ws_render)
    have "parse_items fp (render_items fr xs @ 93 # r) = Some (xs, r)"
      using Cons.IH Cons.prems Cons by auto
    then show ?thesis using reads_backD [OF x(2), of "44 # render_items fr xs @ 93 # r"] Cons ws
      by (subst parse_items.simps) simp
  qed
qed simp

lemma parse_members_render:
  assumes "ms \<noteq> []" "\<And>m. m \<in> set ms \<Longrightarrow> list_all is_scalar (fst m) \<and> plain (snd m) \<and> reads_back fr fp (snd m)"
  shows "parse_members fp (render_members fr ms @ 125 # r) = Some (ms, r)"
  using assms
proof (induction ms)
  case (Cons m ms)
  obtain k v where m: "m = (k, v)" by (cases m)
  have k: "list_all is_scalar k" and v: "plain v" "reads_back fr fp v"
    using Cons.prems(2) [of m] by (simp_all add: m)
  note str = scan_string_escape [OF k]
  show ?case
  proof (cases ms)
    case Nil
    then show ?thesis using reads_backD [OF v(2), of "125 # r"] skip_ws_render [OF v(1)]
      by (subst parse_members.simps) (simp add: m render_str_def str)
  next
    case (Cons m' ms')
    then have ws: "skip_ws (render_members fr ms @ 125 # r) = render_members fr ms @ 125 # r"
      by (cases m') (simp add: render_str_def)
    have "parse_members fp (render_members fr ms @ 125 # r) = Some (ms, r)"
      using Cons.IH Cons.prems Cons by auto
    then show ?thesis
      using reads_backD [OF v(2), of "44 # render_members fr ms @ 125 # r"] skip_ws_render [OF v(1)] ws Cons
      by (subst parse_members.simps) (simp add: m render_str_def str)
  qed
qed simp

lemma strip_prefix_append [simp]: "strip_prefix p (p @ r) = Some r"
  by (simp add: strip_prefix_def)

lemma parse_value_number:
  assumes "is_digit c \<or> c = 45 \<and> (\<exists>d t. r = d # t \<and> is_digit d)"
  shows "parse_value fp (c # r) = scan_number fp (c # r)"
proof -
  have "strip_prefix (u ''-Infinity'') (c # r) = None"
    using assms by (auto simp: strip_prefix_def u_def is_digit_def)
  with assms show ?thesis
    by (subst parse_value.simps) (auto simp: is_digit_def)
qed

lemma plain_reads_back: "plain j \<Longrightarrow> reads_back fr fp j"
proof (induction j)
  case (JInt i)
  show ?case unfolding reads_back_def
  proof (intro allI impI)
    fix r assume r: "delim r"
    obtain c t where "dec_int i = c # t" "is_digit c \<or> c = 45 \<and> (\<exists>d t'. t = d # t' \<and> is_digit d)"
      by (rule dec_int_shape)
    with parse_value_number [of c "t @ r" fp] scan_number_dec_int [OF r, of i fp] JInt
    show "parse_value fp (render fr (JInt i) @ r) = Some (JInt i, r)" by auto
  qed
next
  case (JStr s)
  then show ?case
    by (auto simp: reads_back_def parse_value.simps render_str_def scan_string_escape)
next
  case (JArr xs)
  show ?case unfolding reads_back_def
  proof (intro allI impI)
    fix r assume "delim r"
    show "parse_value fp (render fr (JArr xs) @ r) = Some (JArr xs, r)"
    proof (cases xs)
      case Nil
      then show ?thesis by (simp add: parse_value.simps)
    next
      case (Cons y ys)
      then have "plain y" using JArr by simp
      then obtain c t where c: "render fr y = c # t" "\<not> is_ws c" "c \<noteq> 93" by (rule render_head)
      have "parse_items fp (render_items fr xs @ 93 # r) = Some (xs, r)"
        using Cons JArr by (intro parse_items_render) auto
      with c Cons show ?thesis by (simp add: parse_value.simps skip_ws_nonws)
    qed
  qed
next
  case (JObj ms)
  show ?case unfolding reads_back_def
  proof (intro allI impI)
    fix r assume "delim r"
    have d: "dict_of ms = ms" using JObj by (simp add: dict_of_distinct)
    show "parse_value fp (render fr (JObj ms) @ r) = Some (JObj ms, r)"
    proof (cases ms)
      case Nil
      then show ?thesis by (simp add: parse_value.simps)
    next
      case (Cons m ms')
      have "list_all is_scalar (fst m) \<and> plain (snd m) \<and> reads_back fr fp (snd m)" if "m \<in> set ms" for m
        using JObj.IH [of m "snd m"] JObj.prems that
        by (cases m) (auto simp: list_all_iff intro: snds.intros)
      then have "parse_members fp (render_members fr ms @ 125 # r) = Some (ms, r)"
        using Cons by (intro parse_members_render) auto
      moreover obtain t where "render_members fr ms = 34 # t"
        using Cons by (cases m) (simp add: render_str_def)
      ultimately show ?thesis by (simp add: parse_value.simps skip_ws_nonws is_ws_def d)
    qed
  qed
next
  case (JBool b)
  then show ?case
    by (cases b) (simp_all add: reads_back_def parse_value.simps strip_prefix_def u_def)
qed (simp_all add: reads_back_def parse_value.simps strip_prefix_def u_def)

lemma json_loads_render_ws:
  assumes "plain j" "delim r" "skip_ws r = []"
  shows "json_loads fp (render fr j @ r) = Some j"
proof -
  obtain c t where c: "render fr j = c # t" "\<not> is_ws c" "c \<noteq> 0xFEFF"
    using render_head [OF assms(1), of fr] by metis
  with reads_backD [OF plain_reads_back [OF assms(1)] assms(2), of fp fr] assms(3) show ?thesis
    by (simp add: json_loads_def skip_ws_nonws)
qed

lemma json_loads_render: "plain j \<Longrightarrow> json_loads fp (render fr j) = Some j"
  using json_loads_render_ws [of j "[]"] by simp

lemma distinct_sort_key: "distinct (map fst l) \<Longrightarrow> distinct (map fst (sort_key fst l))"
  by (simp add: distinct_map)

lemma map_of_sort_key:
  "distinct (map fst l) \<Longrightarrow> map_of (sort_key fst l) = map_of l"
  by (rule map_of_eqI) (auto simp: distinct_sort_key)

lemma sort_keys_members:
  "set (map fst (sort_key fst (map (\<lambda>(k, v). (k, f v)) ms))) = fst ` set ms"
  "distinct (map fst ms) \<Longrightarrow> distinct (map fst (sort_key fst (map (\<lambda>(k, v). (k, f v)) ms)))"
proof -
  let ?l = "map (\<lambda>(k, v). (k, f v)) ms"
  have m: "map fst ?l = map fst ms" by (simp add: case_prod_beta)
  show "set (map fst (sort_key fst ?l)) = fst ` set ms"
    using arg_cong [OF m, of set] by (simp only: set_map set_sort)
  assume "distinct (map fst ms)"
  then have "distinct (map fst ?l)" by (simp only: m)
  then show "distinct (map fst (sort_key fst ?l))" by (rule distinct_sort_key)
qed

lemma plain_sort_keys: "plain j \<Longrightarrow> plain (sort_keys j)"
proof (induction j)
  case (JObj ms)
  have "plain (sort_keys v)" if "(k, v) \<in> set ms" for k v
    using JObj.IH [of "(k, v)" v] JObj.prems that by (auto intro: snds.intros)
  with JObj.prems show ?case by (auto simp: sort_keys_members(2))
qed auto

text \<open>The round trip: reading back what was dumped gives the value with its keys sorted.\<close>

theorem json_loads_dumps: "plain j \<Longrightarrow> json_loads fp (json_dumps fr j) = Some (sort_keys j)"
  by (simp add: json_dumps_def json_loads_render plain_sort_keys)

text \<open>\<open>ensure_ascii\<close>: a float-free document is rendered in printable ASCII.\<close>

definition printable :: "nat \<Rightarrow> bool" where
  "printable c \<longleftrightarrow> 32 \<le> c \<and> c < 128"

lemma printable_numeral [simp]:
  "printable (numeral k) \<longleftrightarrow> (32 :: nat) \<le> numeral k \<and> (numeral k :: nat) < 128"
  by (simp add: printable_def)

lemma hex4_ascii: "list_all printable (hex4 n)"
proof -
  have "printable (hex_digit d)" if "d < 16" for d using that unfolding hex_digit_def printable_def by presburger
  then show ?thesis unfolding hex4_def by (simp only: list_all_iff list.set) simp
qed

lemma escape_char_ascii: "list_all printable (escape_char c)"
  by (simp add: escape_char_def hex4_ascii printable_def [of c])

lemma escape_ascii: "list_all printable (escape s)"
  by (induction s) (simp_all add: escape_def escape_char_ascii)

lemma dec_int_ascii: "list_all printable (dec_int i)"
  using dec_digits_digits unfolding dec_int_def
  by (fastforce simp: list_all_iff is_digit_def printable_def)

lemma ascii_u: "list_all printable (u s) \<longleftrightarrow> list_all (\<lambda>c. printable (of_char c)) s"
  by (simp add: u_def list_all_iff)

lemma render_items_ascii:
  "(\<And>x. x \<in> set xs \<Longrightarrow> list_all printable (render fr x)) \<Longrightarrow>
   list_all printable (render_items fr xs)"
  by (induction xs) simp_all

lemma render_members_ascii:
  "(\<And>m. m \<in> set ms \<Longrightarrow> list_all printable (render fr (snd m))) \<Longrightarrow>
   list_all printable (render_members fr ms)"
proof (induction ms)
  case (Cons m ms)
  then show ?case using Cons.prems [of m] by (cases m) (simp add: render_str_def escape_ascii)
qed simp

fun float_free :: "json \<Rightarrow> bool" where
  "float_free (JFloat q) = False"
| "float_free (JArr xs) = (\<forall>x \<in> set xs. float_free x)"
| "float_free (JObj ms) = (\<forall>m \<in> set ms. float_free (snd m))"
| "float_free j = True"

lemma float_free_sort_keys: "float_free j \<Longrightarrow> float_free (sort_keys j)"
proof (induction j)
  case (JObj ms)
  have "float_free (sort_keys v)" if "(k, v) \<in> set ms" for k v
    using JObj.IH [of "(k, v)" v] JObj.prems that by (auto intro: snds.intros)
  then show ?case by auto
qed auto

lemma plain_float_free: "plain j \<Longrightarrow> float_free j"
proof (induction j)
  case (JObj ms)
  then show ?case by (force intro: snds.intros)
qed auto

lemma render_ascii: "float_free j \<Longrightarrow> list_all printable (render fr j)"
proof (induction j)
  case (JObj ms)
  have "list_all printable (render fr (snd m))" if "m \<in> set ms" for m
    using JObj.IH [of m "snd m"] JObj.prems that by (cases m) (auto intro: snds.intros)
  then show ?case by (simp add: render_members_ascii)
next
  case (JArr xs)
  then show ?case by (simp add: render_items_ascii)
qed (simp_all add: dec_int_ascii render_str_def escape_ascii ascii_u)

lemma json_dumps_ascii: "float_free j \<Longrightarrow> list_all printable (json_dumps fr j)"
  by (simp add: json_dumps_def render_ascii float_free_sort_keys)

lemma utf8_encode_printable: "list_all printable s \<Longrightarrow> utf8_encode s = Inr (map byte_of s)"
  by (rule utf8_encode_ascii) (auto simp: list_all_iff printable_def)

lemma utf8_encode_printable_inj:
  assumes "list_all printable s" "utf8_encode s = utf8_encode t"
  shows "s = t"
proof -
  have "utf8_encode s = Inr (map byte_of s)" by (rule utf8_encode_printable [OF assms(1)])
  with assms(2) show ?thesis by (metis utf8.enc_inj)
qed

text \<open>Two documents with the same rendering have the same sorted form.\<close>

lemma json_dumps_inj:
  assumes "plain i" "plain j" "json_dumps fr i = json_dumps fr j"
  shows "sort_keys i = sort_keys j"
  using json_loads_dumps [OF assms(1), of "\<lambda>s. JNull" fr] json_loads_dumps [OF assms(2), of "\<lambda>s. JNull" fr]
    assms(3) by simp

section \<open>Dictionaries\<close>

lemma map_of_dict_set: "map_of (dict_set d k v) = (map_of d)(k \<mapsto> v)"
  by (induction d) (auto simp: fun_eq_iff)

lemma dict_set_keys: "fst ` set (dict_set d k v) = insert k (fst ` set d)"
  by (induction d k v rule: dict_set.induct) auto

lemma dict_set_distinct: "distinct (map fst d) \<Longrightarrow> distinct (map fst (dict_set d k v))"
proof (induction d k v rule: dict_set.induct)
  case (2 k' v' d k v)
  then have "k' \<notin> fst ` set (dict_set d k v)" if "k' \<noteq> k" using that by (simp add: dict_set_keys)
  with 2 show ?case by (auto simp: image_iff)
qed simp

end
