(* ===== verification/Base64.thy ===== *)
theory Base64
  imports Atlaso_Prelude
begin

text \<open>
  Python's \<open>base64.b64encode\<close> and \<open>base64.b64decode(value, validate=True)\<close>. The strict decoder
  accepts whole groups of four alphabet characters, the last of which may end in one or two
  padding characters; the unused bits of the last group are not inspected. Every encoding is
  read back.
\<close>

definition b64_char :: "nat \<Rightarrow> nat" where
  "b64_char n = (if n < 26 then 65 + n else if n < 52 then 71 + n
                 else if n < 62 then n - 4 else if n = 62 then 43 else 47)"

definition b64_val :: "nat \<Rightarrow> nat option" where
  "b64_val c =
     (if 65 \<le> c \<and> c \<le> 90 then Some (c - 65) else if 97 \<le> c \<and> c \<le> 122 then Some (c - 71)
      else if 48 \<le> c \<and> c \<le> 57 then Some (c + 4) else if c = 43 then Some 62
      else if c = 47 then Some 63 else None)"

fun b64encode :: "bytes \<Rightarrow> pystr" where
  "b64encode [] = []"
| "b64encode [a] = [b64_char (unat a div 4), b64_char (unat a mod 4 * 16), 61, 61]"
| "b64encode [a, b] =
     [b64_char (unat a div 4), b64_char (unat a mod 4 * 16 + unat b div 16),
      b64_char (unat b mod 16 * 4), 61]"
| "b64encode (a # b # c # r) =
     b64_char (unat a div 4) # b64_char (unat a mod 4 * 16 + unat b div 16)
     # b64_char (unat b mod 16 * 4 + unat c div 64) # b64_char (unat c mod 64) # b64encode r"

fun b64decode :: "pystr \<Rightarrow> bytes option" where
  "b64decode [] = Some []"
| "b64decode (w # x # y # z # r) =
     (case (b64_val w, b64_val x) of
        (Some i, Some j) \<Rightarrow>
          (if y = 61 \<and> z = 61 \<and> r = [] then Some [byte_of (i * 4 + j div 16)]
           else (case b64_val y of
             None \<Rightarrow> None
           | Some k \<Rightarrow>
              (if z = 61 \<and> r = []
               then Some [byte_of (i * 4 + j div 16), byte_of (j mod 16 * 16 + k div 4)]
               else (case (b64_val z, b64decode r) of
                   (Some l, Some q) \<Rightarrow>
                     Some (byte_of (i * 4 + j div 16) # byte_of (j mod 16 * 16 + k div 4)
                           # byte_of (k mod 4 * 64 + l) # q)
                 | _ \<Rightarrow> None))))
      | _ \<Rightarrow> None)"
| "b64decode _ = None"

lemma b64_val_char: "n < 64 \<Longrightarrow> b64_val (b64_char n) = Some n"
proof -
  assume "n < 64"
  then consider "n < 26" | "26 \<le> n" "n < 52" | "52 \<le> n" "n < 62" | "n = 62" | "n = 63" by linarith
  then show ?thesis by cases (auto simp: b64_val_def b64_char_def)
qed

lemma b64_char_not_pad: "n < 64 \<Longrightarrow> b64_char n \<noteq> 61"
  using b64_val_char [of n] by (auto simp: b64_val_def)

lemma b64_val_less: "b64_val c = Some n \<Longrightarrow> n < 64"
  by (auto simp: b64_val_def split: if_splits)

text \<open>Reassembling a value from its high and low bits.\<close>

lemma join_bits:
  assumes "(q :: nat) < m"
  shows "(p * m + q) div m = p" "(p * m + q) mod m = q"
  using assms by simp_all

lemma b64_sextets:
  fixes a b c :: byte
  shows "unat a div 4 < 64" "unat a mod 4 * 16 + unat b div 16 < 64"
    "unat b mod 16 * 4 + unat c div 64 < 64" "unat c mod 64 < 64"
    "unat a mod 4 * 16 < 64" "unat b mod 16 * 4 < 64"
proof -
  have d: "unat a div 4 < 64" "unat b div 16 < 16" "unat c div 64 < 4"
    by (simp_all add: less_mult_imp_div_less)
  have "unat a mod 4 < 4" "unat b mod 16 < 16" "unat c mod 64 < 64" by simp_all
  with d show "unat a div 4 < 64" "unat a mod 4 * 16 + unat b div 16 < 64"
    "unat b mod 16 * 4 + unat c div 64 < 64" "unat c mod 64 < 64"
    "unat a mod 4 * 16 < 64" "unat b mod 16 * 4 < 64" by linarith+
qed

lemma b64_octets:
  fixes a b c :: byte
  shows "byte_of (unat a div 4 * 4 + (unat a mod 4 * 16 + unat b div 16) div 16) = a"
    "byte_of ((unat a mod 4 * 16 + unat b div 16) mod 16 * 16
        + (unat b mod 16 * 4 + unat c div 64) div 4) = b"
    "byte_of ((unat b mod 16 * 4 + unat c div 64) mod 4 * 64 + unat c mod 64) = c"
    "byte_of (unat a div 4 * 4 + (unat a mod 4 * 16) div 16) = a"
    "byte_of ((unat a mod 4 * 16 + unat b div 16) mod 16 * 16 + (unat b mod 16 * 4) div 4) = b"
proof -
  have d: "unat b div 16 < 16" "unat c div 64 < 4" by (simp_all add: less_mult_imp_div_less)
  show "byte_of (unat a div 4 * 4 + (unat a mod 4 * 16 + unat b div 16) div 16) = a"
    "byte_of ((unat a mod 4 * 16 + unat b div 16) mod 16 * 16
        + (unat b mod 16 * 4 + unat c div 64) div 4) = b"
    "byte_of ((unat b mod 16 * 4 + unat c div 64) mod 4 * 64 + unat c mod 64) = c"
    "byte_of (unat a div 4 * 4 + (unat a mod 4 * 16) div 16) = a"
    "byte_of ((unat a mod 4 * 16 + unat b div 16) mod 16 * 16 + (unat b mod 16 * 4) div 4) = b"
    by (simp_all only: join_bits [OF d(1)] join_bits [OF d(2)] div_mult_mod_eq byte_of_unat
        nonzero_mult_div_cancel_right)
qed

theorem b64decode_encode: "b64decode (b64encode bs) = Some bs"
  by (induction bs rule: b64encode.induct)
    (simp_all only: b64encode.simps b64decode.simps b64_val_char [OF b64_sextets(1)]
      b64_val_char [OF b64_sextets(2)] b64_val_char [OF b64_sextets(3)]
      b64_val_char [OF b64_sextets(4)] b64_val_char [OF b64_sextets(5)]
      b64_val_char [OF b64_sextets(6)] b64_char_not_pad [OF b64_sextets(3)]
      b64_char_not_pad [OF b64_sextets(4)] b64_char_not_pad [OF b64_sextets(6)]
      b64_octets option.case prod.case simp_thms if_True if_False)

lemma b64encode_inj: "b64encode a = b64encode b \<longleftrightarrow> a = b"
  using b64decode_encode by (metis option.inject)

lemma b64_char_printable: "n < 64 \<Longrightarrow> 32 \<le> b64_char n \<and> b64_char n < 128"
  by (auto simp: b64_char_def)

lemma b64encode_printable: "c \<in> set (b64encode bs) \<Longrightarrow> 32 \<le> c \<and> c < 128"
proof (induction bs rule: b64encode.induct)
  case (4 a b d r)
  then show ?case
    using b64_char_printable [OF b64_sextets(1) [of a]] b64_char_printable [OF b64_sextets(2) [of a b]]
      b64_char_printable [OF b64_sextets(3) [of b d]] b64_char_printable [OF b64_sextets(4) [of d]]
    by (simp only: b64encode.simps list.set insert_iff) blast
next
  case (3 a b)
  then show ?case
    using b64_char_printable [OF b64_sextets(1) [of a]] b64_char_printable [OF b64_sextets(2) [of a b]]
      b64_char_printable [OF b64_sextets(6) [of b]] by auto
next
  case (2 a)
  then show ?case
    using b64_char_printable [OF b64_sextets(1) [of a]] b64_char_printable [OF b64_sextets(5) [of a]]
    by auto
qed simp

end
