(* ===== verification/Py_Uuid.thy ===== *)
theory Py_Uuid
  imports Json
begin

unbundle bit_operations_syntax

text \<open>
  The parts of Python's \<open>uuid\<close> module the key store uses: \<open>uuid.UUID(text)\<close>, \<open>str(uuid)\<close> and
  \<open>uuid.uuid4()\<close>. A UUID is its 16 bytes. \<open>uuid.UUID\<close> is as liberal as \<open>int(text, 16)\<close>: white
  space, a sign, an \<open>0x\<close> prefix and single underscores are accepted, and non-ASCII decimal
  digits and spaces are first replaced by their ASCII counterparts (the function \<open>asc\<close>, which
  is read off the Unicode character database and a parameter here).
\<close>

section \<open>Hexadecimal text\<close>

definition hexlify :: "bytes \<Rightarrow> pystr" where
  "hexlify bs = concat (map (\<lambda>b. [hex_digit (unat b div 16), hex_digit (unat b mod 16)]) bs)"

definition is_c_space :: "nat \<Rightarrow> bool" where
  "is_c_space c \<longleftrightarrow> c = 32 \<or> (9 \<le> c \<and> c \<le> 13)"

definition hex_or_underscore :: "nat \<Rightarrow> bool" where
  "hex_or_underscore c \<longleftrightarrow> c = 95 \<or> hex_value c \<noteq> None"

fun double_underscore :: "pystr \<Rightarrow> bool" where
  "double_underscore (a # b # r) = (a = 95 \<and> b = 95 \<or> double_underscore (b # r))"
| "double_underscore _ = False"

definition hex_fold :: "pystr \<Rightarrow> nat" where
  "hex_fold ds = foldl (\<lambda>a c. case hex_value c of Some v \<Rightarrow> a * 16 + v | None \<Rightarrow> a) 0 ds"

text \<open>\<open>int(s, 16)\<close> on ASCII text.\<close>

definition py_int16 :: "pystr \<Rightarrow> int option" where
  "py_int16 s =
     (let s1 = dropWhile is_c_space s;
          neg = (take 1 s1 = [45]);
          s2 = (if take 1 s1 = [43] \<or> neg then drop 1 s1 else s1);
          pre = (take 2 s2 = [48, 120] \<or> take 2 s2 = [48, 88]);
          s3 = (if pre then (if take 1 (drop 2 s2) = [95] then drop 3 s2 else drop 2 s2) else s2);
          ds = takeWhile hex_or_underscore s3;
          rest = dropWhile hex_or_underscore s3
      in if ds = [] \<or> hd ds = 95 \<or> last ds = 95 \<or> double_underscore ds \<or> dropWhile is_c_space rest \<noteq> []
         then None
         else Some (if neg then - int (hex_fold ds) else int (hex_fold ds)))"

section \<open>UUIDs\<close>

text \<open>\<open>s.replace(p, "")\<close> for a non-empty \<open>p\<close>.\<close>

function remove_all :: "pystr \<Rightarrow> pystr \<Rightarrow> pystr" where
  "remove_all p s = (case s of
       [] \<Rightarrow> []
     | c # r \<Rightarrow> if p \<noteq> [] \<and> take (length p) s = p then remove_all p (drop (length p) s)
               else c # remove_all p r)"
  by pat_completeness auto
termination remove_all
  by (relation "measure (\<lambda>(p, s). length s)") auto

declare remove_all.simps [simp del]

definition is_brace :: "nat \<Rightarrow> bool" where
  "is_brace c \<longleftrightarrow> c = 123 \<or> c = 125"

definition strip_braces :: "pystr \<Rightarrow> pystr" where
  "strip_braces s = rev (dropWhile is_brace (rev (dropWhile is_brace s)))"

text \<open>\<open>uuid.UUID(s)\<close>; \<open>None\<close> is \<open>ValueError\<close>.\<close>

definition uuid_of_str :: "(nat \<Rightarrow> nat) \<Rightarrow> pystr \<Rightarrow> bytes option" where
  "uuid_of_str asc s =
     (let t = remove_all (u ''uuid:'') (remove_all (u ''urn:'') s);
          h = remove_all (u ''-'') (strip_braces t)
      in if length h \<noteq> 32 then None
         else case py_int16 (map (\<lambda>c. if c < 128 then c else asc c) h) of
                None \<Rightarrow> None
              | Some n \<Rightarrow> if 0 \<le> n \<and> n < 2 ^ 128 then Some (be_bytes 16 (nat n)) else None)"

text \<open>\<open>str(uuid)\<close>.\<close>

definition uuid_str :: "bytes \<Rightarrow> pystr" where
  "uuid_str bs =
     (let h = hexlify bs
      in py_slice h 0 8 @ [45] @ py_slice h 8 12 @ [45] @ py_slice h 12 16 @ [45]
         @ py_slice h 16 20 @ [45] @ drop 20 h)"

text \<open>\<open>uuid.uuid4()\<close> on 16 random bytes: the version and variant bits are set.\<close>

definition uuid4_of :: "bytes \<Rightarrow> bytes" where
  "uuid4_of r = r[6 := (r ! 6 AND 0x0F) OR 0x40, 8 := (r ! 8 AND 0x3F) OR 0x80]"

section \<open>A canonical UUID reads back as itself\<close>

lemma hexlify_simps [simp]:
  "hexlify [] = []"
  "hexlify (b # bs) = hex_digit (unat b div 16) # hex_digit (unat b mod 16) # hexlify bs"
  "hexlify (as @ bs) = hexlify as @ hexlify bs"
  by (simp_all add: hexlify_def)

lemma length_hexlify [simp]: "length (hexlify bs) = 2 * length bs"
  by (induction bs) simp_all

definition lower_hex :: "nat \<Rightarrow> bool" where
  "lower_hex c \<longleftrightarrow> (48 \<le> c \<and> c \<le> 57) \<or> (97 \<le> c \<and> c \<le> 102)"

lemma lower_hex_digit: "d < 16 \<Longrightarrow> lower_hex (hex_digit d)"
  by (auto simp: lower_hex_def hex_digit_def)

lemma nibbles: "unat (b :: byte) div 16 < 16" "unat b mod 16 < 16"
  by (simp_all add: less_mult_imp_div_less)

lemma hexlify_lower: "c \<in> set (hexlify bs) \<Longrightarrow> lower_hex c"
  by (induction bs) (auto intro: lower_hex_digit nibbles)

lemma lower_hex_facts:
  assumes "lower_hex c"
  shows "hex_or_underscore c" "\<not> is_c_space c" "c \<noteq> 95" "c \<noteq> 120" "c \<noteq> 88" "c \<noteq> 43" "c \<noteq> 45"
    "c < 128" "c \<noteq> 117" "\<not> is_brace c"
  using assms
  by (auto simp: lower_hex_def hex_or_underscore_def hex_value_def is_c_space_def is_brace_def)

lemma hex_value_lower: "d < 16 \<Longrightarrow> hex_value (hex_digit d) = Some d"
  by (auto simp: hex_value_def hex_digit_def)

lemma hex_fold_hexlify: "hex_fold (hexlify bs) = be_nat bs"
proof (induction bs rule: rev_induct)
  case (snoc b bs)
  have "hex_value (hex_digit (unat b div 16)) = Some (unat b div 16)"
    "hex_value (hex_digit (unat b mod 16)) = Some (unat b mod 16)"
    by (simp_all add: hex_value_lower nibbles)
  moreover have "(n * 16 + unat b div 16) * 16 + unat b mod 16 = n * 256 + unat b" for n
  proof -
    obtain q r where "unat b div 16 = q" "unat b mod 16 = r" by simp
    with div_mult_mod_eq [of "unat b" 16] show ?thesis by simp
  qed
  ultimately show ?case using snoc by (simp add: hex_fold_def)
qed (simp add: hex_fold_def)

lemma hexlify_inj: "hexlify a = hexlify b \<Longrightarrow> a = b"
proof -
  assume h: "hexlify a = hexlify b"
  then have "2 * length a = 2 * length b" using length_hexlify by metis
  moreover have "be_nat a = be_nat b" using h hex_fold_hexlify by metis
  ultimately show ?thesis using be_bytes_be_nat by (metis nat_mult_eq_cancel1 zero_less_numeral)
qed

lemma double_underscore_no: "95 \<notin> set s \<Longrightarrow> \<not> double_underscore s"
  by (induction s rule: double_underscore.induct) auto

lemma py_int16_hexlify:
  assumes "2 \<le> length (hexlify bs)"
  shows "py_int16 (hexlify bs) = Some (int (be_nat bs))"
proof -
  obtain c d r where h: "hexlify bs = c # d # r"
    using assms by (metis Suc_le_length_iff numeral_2_eq_2)
  have all: "lower_hex x" if "x \<in> set (c # d # r)" for x using hexlify_lower [of x bs] h that by simp
  have cd: "lower_hex c" "lower_hex d" using all by simp_all
  have tw: "takeWhile hex_or_underscore (c # d # r) = c # d # r"
    "dropWhile hex_or_underscore (c # d # r) = []"
    using all lower_hex_facts(1) by (simp_all add: takeWhile_eq_all_conv dropWhile_eq_Nil_conv del: takeWhile.simps dropWhile.simps)
  have n95: "95 \<notin> set (c # d # r)" using all lower_hex_facts(3) by blast
  then have lst: "last (c # d # r) \<noteq> 95" by (metis last_in_set list.distinct(1))
  have s1: "dropWhile is_c_space (c # d # r) = c # d # r"
    using lower_hex_facts(2) [OF cd(1)] by simp
  show ?thesis
    unfolding py_int16_def h s1 Let_def
    using lower_hex_facts [OF cd(1)] lower_hex_facts [OF cd(2)] lst double_underscore_no [OF n95]
      hex_fold_hexlify [of bs] h
    by (simp add: tw del: takeWhile.simps dropWhile.simps last.simps double_underscore.simps)
qed

lemma remove_all_absent: "p \<noteq> [] \<Longrightarrow> hd p \<notin> set s \<Longrightarrow> remove_all p s = s"
proof (induction s)
  case (Cons c s)
  then have "take (length p) (c # s) \<noteq> p" by (cases p) auto
  with Cons show ?case by (subst remove_all.simps) simp
qed (simp add: remove_all.simps)

lemma remove_all_single: "remove_all [c] s = filter (\<lambda>d. d \<noteq> c) s"
  by (induction s) (simp_all add: remove_all.simps)

lemma strip_braces_id: "s \<noteq> [] \<Longrightarrow> \<not> is_brace (hd s) \<Longrightarrow> \<not> is_brace (last s) \<Longrightarrow> strip_braces s = s"
proof -
  assume s: "s \<noteq> []" "\<not> is_brace (hd s)" "\<not> is_brace (last s)"
  have front: "dropWhile is_brace t = t" if "t \<noteq> []" "\<not> is_brace (hd t)" for t
    using that by (cases t) simp_all
  from s show ?thesis by (simp add: strip_braces_def front hd_rev)
qed

lemma set_uuid_str: "c \<in> set (uuid_str bs) \<Longrightarrow> lower_hex c \<or> c = 45"
  using hexlify_lower [of c bs]
  by (auto simp: uuid_str_def Let_def py_slice_def dest: in_set_takeD in_set_dropD)

lemma uuid_str_dashes: "filter (\<lambda>d. d \<noteq> 45) (uuid_str bs) = hexlify bs"
proof -
  let ?h = "hexlify bs"
  have sub: "filter (\<lambda>d. d \<noteq> 45) t = t" if "set t \<subseteq> set ?h" for t
    using that lower_hex_facts(7) hexlify_lower by (subst filter_id_conv) blast
  have sl: "filter (\<lambda>d. d \<noteq> 45) (py_slice ?h i j) = py_slice ?h i j" for i j
    by (rule sub) (auto simp: py_slice_def dest: in_set_takeD in_set_dropD)
  have dr: "filter (\<lambda>d. d \<noteq> 45) (drop i ?h) = drop i ?h" for i
    by (rule sub) (rule set_drop_subset)
  have "filter (\<lambda>d. d \<noteq> 45) (uuid_str bs) =
      py_slice ?h 0 8 @ py_slice ?h 8 12 @ py_slice ?h 12 16 @ py_slice ?h 16 20 @ drop 20 ?h"
    by (simp add: uuid_str_def Let_def sl dr)
  also have "\<dots> = py_slice ?h 0 20 @ drop 20 ?h"
    using slice_join [of 0 8 12 ?h, symmetric] slice_join [of 0 12 16 ?h, symmetric]
      slice_join [of 0 16 20 ?h, symmetric] by simp
  also have "\<dots> = ?h" by (simp add: py_slice_def)
  finally show ?thesis .
qed

theorem uuid_of_str_uuid_str:
  assumes "length bs = 16"
  shows "uuid_of_str asc (uuid_str bs) = Some bs"
proof -
  let ?s = "uuid_str bs"
  have s: "lower_hex c \<or> c = 45" if "c \<in> set ?s" for c using set_uuid_str that .
  have ne: "?s \<noteq> []" by (simp add: uuid_str_def Let_def)
  have "117 \<notin> set ?s" using s [of 117] by (auto simp: lower_hex_def)
  then have t: "remove_all (u ''uuid:'') (remove_all (u ''urn:'') ?s) = ?s"
    by (simp add: remove_all_absent u_def)
  have nb: "\<not> is_brace c" if "c \<in> set ?s" for c
    using s [OF that] lower_hex_facts(10) by (auto simp: is_brace_def)
  have b: "strip_braces ?s = ?s"
    using nb ne by (intro strip_braces_id) (simp_all add: list.set_sel)
  have h: "remove_all (u ''-'') ?s = hexlify bs"
    using remove_all_single [of 45 ?s] uuid_str_dashes [of bs] by (simp add: u_def)
  have m: "map (\<lambda>c. if c < 128 then c else asc c) (hexlify bs) = hexlify bs"
    by (rule map_idI) (use lower_hex_facts(8) hexlify_lower in auto)
  have "be_nat bs < 2 ^ 128" using be_nat_less [of bs] assms by (simp add: pow256)
  then have "int (be_nat bs) < 2 ^ 128"
    by (metis of_nat_less_numeral_power_cancel_iff)
  then show ?thesis
    unfolding uuid_of_str_def Let_def t b h m
    using py_int16_hexlify [of bs] assms by simp
qed

lemma uuid_of_str_length: "uuid_of_str asc s = Some bs \<Longrightarrow> length bs = 16"
  by (auto simp: uuid_of_str_def Let_def split: if_splits option.splits)

lemma uuid_str_inj: "length a = 16 \<Longrightarrow> length b = 16 \<Longrightarrow> uuid_str a = uuid_str b \<longleftrightarrow> a = b"
  using uuid_of_str_uuid_str [of a] uuid_of_str_uuid_str [of b] by (metis option.inject)

lemma length_remove_all: "length (remove_all p s) \<le> length s"
proof (induction p s rule: remove_all.induct)
  case (1 p s)
  show ?case
  proof (cases s)
    case (Cons c r)
    show ?thesis
    proof (cases "p \<noteq> [] \<and> take (length p) s = p")
      case True
      then have "length (remove_all p (drop (length p) s)) \<le> length (drop (length p) s)" using 1(1) Cons by blast
      with True Cons show ?thesis by (subst remove_all.simps) simp
    next
      case False
      then have "length (remove_all p r) \<le> length r" using 1(2) Cons by blast
      with False Cons show ?thesis by (subst remove_all.simps) auto
    qed
  qed (simp add: remove_all.simps)
qed

lemma length_strip_braces: "length (strip_braces s) \<le> length s"
proof -
  have "length (dropWhile is_brace (rev (dropWhile is_brace s))) \<le> length (rev (dropWhile is_brace s))"
    by (rule length_dropWhile_le)
  also have "\<dots> \<le> length s" by (simp add: length_dropWhile_le)
  finally show ?thesis by (simp add: strip_braces_def)
qed

text \<open>A text of fewer than 32 characters is never a UUID.\<close>

lemma uuid_too_short:
  assumes "length s < 32"
  shows "uuid_of_str asc s = None"
proof -
  let ?t = "remove_all (u ''uuid:'') (remove_all (u ''urn:'') s)"
  have "length (remove_all (u ''-'') (strip_braces ?t)) \<le> length ?t"
    using length_remove_all length_strip_braces order_trans by blast
  also have "\<dots> \<le> length s" using length_remove_all order_trans by blast
  finally have "length (remove_all (u ''-'') (strip_braces ?t)) \<noteq> 32" using assms by simp
  then show ?thesis unfolding uuid_of_str_def Let_def by simp
qed

lemma length_uuid4_of [simp]: "length (uuid4_of r) = length r"
  by (simp add: uuid4_of_def)

lemma uuid_str_printable: "list_all printable (uuid_str bs)"
  using set_uuid_str by (fastforce simp: list_all_iff printable_def lower_hex_def)

lemma printable_scalar: "list_all printable s \<Longrightarrow> list_all is_scalar s"
  by (auto simp: list_all_iff printable_def is_scalar_def is_surrogate_def)

end
