(* ===== verification/Kmip_Store.thy ===== *)
theory Kmip_Store
  imports Kmip_Exceptions Json Base64 Py_Uuid "HOL-Library.Product_Lexorder"
begin

text \<open>
  The operational key store, \<open>src/atlaso/app/kmip/store.py\<close>: a SQLite table of AES-GCM wrapped
  keys beside a file holding the wrapped key-encryption key (KEK) together with a commitment
  (a hash) to the contents of the table, so that a rolled back or edited database is refused.

  The state \<open>store\<close> is what the process and the disk hold: the database and KEK file on disk and
  the fields of the \<open>WrappedKeyStore\<close> object. A \<open>connection\<close> is the database it sees; a mutation
  works on a private copy that becomes the database when the commit succeeds. Every call to the
  platform (random bytes, clock, writing the KEK file, committing) draws the next answer from
  the platform record, indexed by the tick counter, so that the theorems hold for
  every sequence of answers, failures included.
\<close>

section \<open>The platform\<close>

text \<open>
  \<open>Written\<close>: the file was replaced. \<open>FailedBefore\<close>, \<open>FailedAfter\<close>: an \<open>OSError\<close> before or after
  the atomic \<open>os.replace\<close>.
\<close>

datatype write_result = Written | FailedBefore | FailedAfter

record platform =
  aes_encrypt :: "bytes \<Rightarrow> bytes \<Rightarrow> bytes \<Rightarrow> bytes \<Rightarrow> bytes"
  aes_decrypt :: "bytes \<Rightarrow> bytes \<Rightarrow> bytes \<Rightarrow> bytes \<Rightarrow> exn + bytes"
  sha256 :: "bytes \<Rightarrow> bytes"
  os_urandom :: "nat \<Rightarrow> nat \<Rightarrow> bytes"
  utc_now :: "nat \<Rightarrow> pystr"
  write_outcome :: "nat \<Rightarrow> write_result"
  commit_outcome :: "nat \<Rightarrow> exn option"
  ascii_fold :: "nat \<Rightarrow> nat"
  float_repr :: "rat \<Rightarrow> pystr"
  float_parse :: "pystr \<Rightarrow> json"
  iso_epoch :: "pystr \<Rightarrow> exn + int"
  unix_time :: "nat \<Rightarrow> int"

text \<open>What the code relies on: AES-GCM decrypts what it encrypted, and the sizes of its results.\<close>

definition platform_ok :: "platform \<Rightarrow> bool" where
  "platform_ok e \<longleftrightarrow>
     (\<forall>k n p a. length k = 32 \<and> length n = 12 \<longrightarrow>
        aes_decrypt e k n (aes_encrypt e k n p a) a = Inr p)
   \<and> (\<forall>b. length (sha256 e b) = 32)
   \<and> (\<forall>t n. length (os_urandom e t n) = n)
   \<and> (\<forall>t. list_all is_scalar (utc_now e t))"

section \<open>Constants and data\<close>

definition STORE_SCHEMA_VERSION :: int where "STORE_SCHEMA_VERSION = 2"
definition KEK_ENVELOPE_FORMAT :: pystr where "KEK_ENVELOPE_FORMAT = u ''atlaso-kmip-kek-v2''"
definition KEK_AAD :: bytes where "KEK_AAD = map byte_of (u ''atlaso-kmip-kek-v2'')"
definition LEGACY_KEK_ENVELOPE_FORMAT :: pystr where
  "LEGACY_KEK_ENVELOPE_FORMAT = u ''atlaso-kmip-kek-v1''"
definition LEGACY_KEK_AAD :: bytes where "LEGACY_KEK_AAD = map byte_of (u ''atlaso-kmip-kek-v1'')"
definition STORE_COMMITMENT_FORMAT :: pystr where
  "STORE_COMMITMENT_FORMAT = u ''atlaso-kmip-store-commitment-v1''"

record stored_key =
  sk_provider_id :: pystr
  sk_key_id :: pystr
  sk_algorithm :: pystr
  sk_length :: int
  sk_name :: "pystr option"
  sk_state :: pystr
  sk_created_at :: pystr
  sk_activated_at :: "pystr option"

record kek_envelope =
  env_kek :: bytes
  env_generation :: int
  env_commitment :: pystr
  env_pending_generation :: "int option"
  env_pending_commitment :: "pystr option"

text \<open>A row of \<open>wrapped_keys\<close>: the metadata columns followed by the wrapped key.\<close>

record wrapped_row = stored_key +
  row_nonce :: bytes
  row_ciphertext :: bytes
  row_aad_json :: pystr

record db =
  store_metadata :: "(pystr \<times> pystr) list"
  wrapped_keys :: "wrapped_row list"

record store =
  database :: "db option"
  kek_file :: "bytes option"
  tick :: nat
  self_master_key :: bytes
  self_kek :: bytes
  self_envelope :: kek_envelope

type_synonym 'a store_prog = "(store, exn, 'a) prog"

abbreviation PRE_ACTIVE :: pystr where "PRE_ACTIVE \<equiv> u ''Pre-Active''"
abbreviation ACTIVE :: pystr where "ACTIVE \<equiv> u ''Active''"

section \<open>Helpers\<close>

text \<open>The next answer of the platform.\<close>

definition draw :: "(nat \<Rightarrow> 'a) \<Rightarrow> 'a store_prog" where
  "draw f s = (Inr (f (tick s)), s\<lparr>tick := Suc (tick s)\<rparr>)"

text \<open>\<open>text.encode("utf-8")\<close> and \<open>data.decode("utf-8")\<close>.\<close>

definition encode_utf8 :: "pystr \<Rightarrow> exn + bytes" where
  "encode_utf8 s = (case utf8_encode s of Inl e \<Rightarrow> Inl UnicodeError | Inr b \<Rightarrow> Inr b)"

definition decode_utf8 :: "bytes \<Rightarrow> exn + pystr" where
  "decode_utf8 b = (case utf8_decode b of Inl e \<Rightarrow> Inl UnicodeError | Inr s \<Rightarrow> Inr s)"

text \<open>Text mode reading translates \<open>\r\n\<close> and \<open>\r\<close> into \<open>\n\<close>.\<close>

fun newlines_after :: "bool \<Rightarrow> pystr \<Rightarrow> pystr" where
  "newlines_after cr [] = []"
| "newlines_after cr (c # r) =
     (if c = 13 then 10 # newlines_after True r
      else if c = 10 \<and> cr then newlines_after False r else c # newlines_after False r)"

definition universal_newlines :: "pystr \<Rightarrow> pystr" where
  "universal_newlines s = newlines_after False s"

definition loads :: "platform \<Rightarrow> pystr \<Rightarrow> exn + json" where
  "loads e s = (case json_loads (float_parse e) s of None \<Rightarrow> Inl JSONDecodeError | Some j \<Rightarrow> Inr j)"

text \<open>\<open>AESGCM(key)\<close> refuses a key that is not 16, 24 or 32 bytes long.\<close>

definition aesgcm_encrypt :: "platform \<Rightarrow> bytes \<Rightarrow> bytes \<Rightarrow> bytes \<Rightarrow> bytes \<Rightarrow> exn + bytes" where
  "aesgcm_encrypt e k n p a =
     (if length k \<notin> {16, 24, 32} then Inl (ValueError ''AESGCM key must be 128, 192, or 256 bits.'')
      else Inr (aes_encrypt e k n p a))"

definition aesgcm_decrypt :: "platform \<Rightarrow> bytes \<Rightarrow> bytes \<Rightarrow> bytes \<Rightarrow> bytes \<Rightarrow> exn + bytes" where
  "aesgcm_decrypt e k n c a =
     (if length k \<notin> {16, 24, 32} then Inl (ValueError ''AESGCM key must be 128, 192, or 256 bits.'')
      else aes_decrypt e k n c a)"

definition validated_uuid :: "platform \<Rightarrow> pystr \<Rightarrow> string \<Rightarrow> exn + pystr" where
  "validated_uuid e v label =
     (case uuid_of_str (ascii_fold e) v of
        None \<Rightarrow> Inl (ValueError (label @ '' must be a UUID.''))
      | Some b \<Rightarrow> Inr (uuid_str b))"

fun opt_str :: "pystr option \<Rightarrow> json" where
  "opt_str None = JNull"
| "opt_str (Some s) = JStr s"

fun opt_int :: "int option \<Rightarrow> json" where
  "opt_int None = JNull"
| "opt_int (Some i) = JInt i"

definition aad_document :: "'a stored_key_scheme \<Rightarrow> json" where
  "aad_document md = JObj
     [(u ''schema_version'', JInt STORE_SCHEMA_VERSION),
      (u ''provider_id'', JStr (sk_provider_id md)),
      (u ''key_id'', JStr (sk_key_id md)),
      (u ''algorithm'', JStr (sk_algorithm md)),
      (u ''length'', JInt (sk_length md)),
      (u ''name'', opt_str (sk_name md)),
      (u ''state'', JStr (sk_state md)),
      (u ''created_at'', JStr (sk_created_at md)),
      (u ''activated_at'', opt_str (sk_activated_at md))]"

definition canonical_aad :: "platform \<Rightarrow> stored_key \<Rightarrow> exn + bytes" where
  "canonical_aad e md = encode_utf8 (json_dumps (float_repr e) (aad_document md))"

definition master_key :: "platform \<Rightarrow> pystr \<Rightarrow> exn + bytes" where
  "master_key e secrets_key =
     (if secrets_key = []
      then Inl (KeyStoreError ''ATLASO_SECRETS_KEY is required for the KMIP operational store.'')
      else bindE (encode_utf8 secrets_key) (\<lambda>b.
           Inr (sha256 e (map byte_of (u ''atlaso-kmip-master-v1'') @ [0] @ b))))"

definition envelope_invalid :: exn where
  "envelope_invalid = KeyStoreError ''KMIP KEK envelope is invalid.''"

definition decode_envelope_value :: "(pystr \<times> json) list \<Rightarrow> string \<Rightarrow> exn + bytes" where
  "decode_envelope_value envelope field =
     (case jget envelope (u field) of
        Some (JStr v) \<Rightarrow>
          (case b64decode v of None \<Rightarrow> Inl envelope_invalid | Some b \<Rightarrow> Inr b)
      | _ \<Rightarrow> Inl envelope_invalid)"

section \<open>The KEK file\<close>

definition kek_payload :: "kek_envelope \<Rightarrow> json" where
  "kek_payload v = JObj
     [(u ''kek'', JStr (b64encode (env_kek v))),
      (u ''generation'', JInt (env_generation v)),
      (u ''commitment'', JStr (env_commitment v)),
      (u ''pending_generation'', opt_int (env_pending_generation v)),
      (u ''pending_commitment'', opt_str (env_pending_commitment v))]"

definition kek_document :: "bytes \<Rightarrow> bytes \<Rightarrow> json" where
  "kek_document nonce ciphertext = JObj
     [(u ''format'', JStr KEK_ENVELOPE_FORMAT),
      (u ''nonce'', JStr (b64encode nonce)),
      (u ''ciphertext'', JStr (b64encode ciphertext))]"

text \<open>
  \<open>_write_kek_envelope\<close>: the whole document is written to a temporary file, flushed and moved
  over \<open>path\<close>, so the KEK file holds either the old or the new text.
\<close>

definition write_kek_envelope :: "platform \<Rightarrow> bytes \<Rightarrow> kek_envelope \<Rightarrow> unit store_prog" where
  "write_kek_envelope e mkey v =
     bindS (liftS (encode_utf8 (json_dumps (float_repr e) (kek_payload v)))) (\<lambda>plaintext.
     bindS (draw (\<lambda>t. os_urandom e t 12)) (\<lambda>nonce.
     bindS (liftS (aesgcm_encrypt e mkey nonce plaintext KEK_AAD)) (\<lambda>ciphertext.
     bindS (liftS (encode_utf8 (json_dumps (float_repr e) (kek_document nonce ciphertext) @ [10]))) (\<lambda>text.
     bindS (draw (write_outcome e)) (\<lambda>outcome.
       case outcome of
         FailedBefore \<Rightarrow> raiseS OSError
       | FailedAfter \<Rightarrow> bindS (modifyS (kek_file_update (\<lambda>_. Some text))) (\<lambda>_. raiseS OSError)
       | Written \<Rightarrow> modifyS (kek_file_update (\<lambda>_. Some text)))))))"

text \<open>The body of the \<open>try\<close> of \<open>_load_or_create_kek\<close> that reads a version 2 payload.\<close>

definition int_in :: "json option \<Rightarrow> int option" where
  "int_in v = (case v of Some (JInt i) \<Rightarrow> Some i | _ \<Rightarrow> None)"

definition str_in :: "json option \<Rightarrow> pystr option" where
  "str_in v = (case v of Some (JStr s) \<Rightarrow> Some s | _ \<Rightarrow> None)"

definition absent :: "json option \<Rightarrow> bool" where
  "absent v \<longleftrightarrow> v = None \<or> v = Some JNull"

definition read_payload :: "json \<Rightarrow> exn + kek_envelope" where
  "read_payload payload = (case payload of
     JObj p \<Rightarrow> (case jget p (u ''kek'') of
        Some (JStr encoded_kek) \<Rightarrow> (case b64decode encoded_kek of
           None \<Rightarrow> Inl (ValueError ''base64'')
         | Some kek \<Rightarrow>
            (let generation = jget p (u ''generation''); commitment = jget p (u ''commitment'');
                 pg = jget p (u ''pending_generation''); pc = jget p (u ''pending_commitment'')
             in case (int_in generation, str_in commitment) of
                 (Some g, Some c) \<Rightarrow>
                   (if g < 0 \<or> \<not> absent pg \<and> int_in pg \<noteq> Some (g + 1)
                       \<or> \<not> absent pc \<and> str_in pc = None \<or> absent pg \<noteq> absent pc
                    then Inl envelope_invalid
                    else Inr \<lparr>env_kek = kek, env_generation = g, env_commitment = c,
                              env_pending_generation = int_in pg,
                              env_pending_commitment = str_in pc\<rparr>)
               | _ \<Rightarrow> Inl envelope_invalid))
      | _ \<Rightarrow> Inl envelope_invalid)
   | _ \<Rightarrow> Inl envelope_invalid)"

text \<open>An unhashable \<open>format\<close> (a list or an object) makes the membership test raise \<open>TypeError\<close>.\<close>

definition envelope_format :: "(pystr \<times> json) list \<Rightarrow> exn + pystr" where
  "envelope_format envelope = (case jget envelope (u ''format'') of
     Some (JStr f) \<Rightarrow>
       (if f = KEK_ENVELOPE_FORMAT \<or> f = LEGACY_KEK_ENVELOPE_FORMAT then Inr f
        else Inl (KeyStoreError ''KMIP KEK envelope format is unsupported.''))
   | Some (JArr xs) \<Rightarrow> Inl TypeError
   | Some (JObj ms) \<Rightarrow> Inl TypeError
   | _ \<Rightarrow> Inl (KeyStoreError ''KMIP KEK envelope format is unsupported.''))"

definition open_envelope :: "platform \<Rightarrow> bytes \<Rightarrow> json \<Rightarrow> exn + kek_envelope" where
  "open_envelope e mkey doc = (case doc of
     JObj envelope \<Rightarrow>
       bindE (envelope_format envelope) (\<lambda>format.
       bindE (decode_envelope_value envelope ''nonce'') (\<lambda>nonce.
       bindE (decode_envelope_value envelope ''ciphertext'') (\<lambda>ciphertext.
       bindE (if format = LEGACY_KEK_ENVELOPE_FORMAT
              then bindE (aesgcm_decrypt e mkey nonce ciphertext LEGACY_KEK_AAD) (\<lambda>kek.
                   Inr \<lparr>env_kek = kek, env_generation = 0, env_commitment = [],
                        env_pending_generation = None, env_pending_commitment = None\<rparr>)
              else bindE (aesgcm_decrypt e mkey nonce ciphertext KEK_AAD) (\<lambda>plaintext.
                   bindE (decode_utf8 plaintext) (\<lambda>text.
                   bindE (loads e text) read_payload))) (\<lambda>state.
       bindE (raise_if (length (env_kek state) \<noteq> 32) envelope_invalid) (\<lambda>_.
       Inr state)))))
   | _ \<Rightarrow> Inl (KeyStoreError ''KMIP KEK envelope format is unsupported.''))"

definition open_kek_file :: "platform \<Rightarrow> bytes \<Rightarrow> bytes \<Rightarrow> exn + kek_envelope" where
  "open_kek_file e mkey contents =
     catchE (bindE (decode_utf8 contents) (\<lambda>text.
             bindE (loads e (universal_newlines text)) (open_envelope e mkey)))
       (\<lambda>ex. Inl (if is_value_or_os_error ex
                  then KeyStoreError ''KMIP KEK could not be opened with the configured appliance secrets key.''
                  else ex))"

definition load_or_create_kek :: "platform \<Rightarrow> pystr \<Rightarrow> (bytes \<times> kek_envelope) store_prog" where
  "load_or_create_kek e secrets_key =
     bindS (liftS (master_key e secrets_key)) (\<lambda>mkey.
     bindS (getS kek_file) (\<lambda>file.
       case file of
         Some contents \<Rightarrow> bindS (liftS (open_kek_file e mkey contents)) (\<lambda>state. returnS (mkey, state))
       | None \<Rightarrow>
           bindS (draw (\<lambda>t. os_urandom e t 32)) (\<lambda>kek.
           let state = \<lparr>env_kek = kek, env_generation = 0, env_commitment = [],
                        env_pending_generation = None, env_pending_commitment = None\<rparr>
           in bindS (write_kek_envelope e mkey state) (\<lambda>_. returnS (mkey, state)))))"

section \<open>The commitment\<close>

definition row_document :: "wrapped_row \<Rightarrow> json" where
  "row_document r = JObj
     [(u ''provider_id'', JStr (sk_provider_id r)),
      (u ''key_id'', JStr (sk_key_id r)),
      (u ''algorithm'', JStr (sk_algorithm r)),
      (u ''key_length'', JInt (sk_length r)),
      (u ''name'', opt_str (sk_name r)),
      (u ''state'', JStr (sk_state r)),
      (u ''created_at'', JStr (sk_created_at r)),
      (u ''activated_at'', opt_str (sk_activated_at r)),
      (u ''nonce'', JStr (b64encode (row_nonce r))),
      (u ''ciphertext'', JStr (b64encode (row_ciphertext r))),
      (u ''aad_json'', JStr (row_aad_json r))]"

definition ordered_rows :: "db \<Rightarrow> wrapped_row list" where
  "ordered_rows d = sort_key (\<lambda>r. (sk_provider_id r, sk_key_id r)) (wrapped_keys d)"

definition commitment_document :: "db \<Rightarrow> json" where
  "commitment_document d = JObj
     [(u ''format'', JStr STORE_COMMITMENT_FORMAT),
      (u ''metadata'', JArr (map (\<lambda>(n, v). JArr [JStr n, JStr v]) (sort_key fst (store_metadata d)))),
      (u ''keys'', JArr (map row_document (ordered_rows d)))]"

definition store_commitment :: "platform \<Rightarrow> db \<Rightarrow> exn + pystr" where
  "store_commitment e d =
     bindE (encode_utf8 (json_dumps (float_repr e) (commitment_document d))) (\<lambda>b.
     Inr (hexlify (sha256 e b)))"

section \<open>The store object\<close>

definition fresh_envelope :: "bytes \<Rightarrow> int \<Rightarrow> pystr \<Rightarrow> kek_envelope" where
  "fresh_envelope kek generation commitment =
     \<lparr>env_kek = kek, env_generation = generation, env_commitment = commitment,
      env_pending_generation = None, env_pending_commitment = None\<rparr>"

definition write_envelope :: "platform \<Rightarrow> kek_envelope \<Rightarrow> unit store_prog" where
  "write_envelope e v =
     bindS (getS self_master_key) (\<lambda>mkey.
     bindS (write_kek_envelope e mkey v) (\<lambda>_.
     modifyS (self_envelope_update (\<lambda>_. v))))"

definition rollback_detected :: exn where
  "rollback_detected = KeyStoreError ''KMIP operational store rollback or integrity validation failed.''"

definition verify_store_commitment :: "platform \<Rightarrow> db \<Rightarrow> unit store_prog" where
  "verify_store_commitment e connection =
     bindS (liftS (store_commitment e connection)) (\<lambda>observed.
     bindS (getS self_envelope) (\<lambda>v.
     bindS (getS self_kek) (\<lambda>kek.
       if env_commitment v = [] then write_envelope e (fresh_envelope kek (env_generation v) observed)
       else if observed = env_commitment v then
         (if env_pending_commitment v \<noteq> None
          then write_envelope e (fresh_envelope kek (env_generation v) (env_commitment v))
          else returnS ())
       else if Some observed = env_pending_commitment v then
         (case env_pending_generation v of
            None \<Rightarrow> raiseS AssertionError
          | Some g \<Rightarrow> write_envelope e (fresh_envelope kek g observed))
       else raiseS rollback_detected)))"

text \<open>
  \<open>_commit_mutation\<close>: announce the new commitment, commit, confirm it; a failed commit restores
  the old envelope and re-raises.
\<close>

definition commit_mutation :: "platform \<Rightarrow> db \<Rightarrow> unit store_prog" where
  "commit_mutation e connection =
     bindS (getS self_envelope) (\<lambda>v.
     bindS (getS self_kek) (\<lambda>kek.
     bindS (liftS (store_commitment e connection)) (\<lambda>pending_commitment.
     bindS (write_envelope e
              \<lparr>env_kek = kek, env_generation = env_generation v, env_commitment = env_commitment v,
               env_pending_generation = Some (env_generation v + 1),
               env_pending_commitment = Some pending_commitment\<rparr>) (\<lambda>_.
     bindS (draw (commit_outcome e)) (\<lambda>outcome.
       case outcome of
         Some ex \<Rightarrow>
           bindS (write_envelope e (fresh_envelope kek (env_generation v) (env_commitment v))) (\<lambda>_.
           raiseS ex)
       | None \<Rightarrow>
           bindS (modifyS (database_update (\<lambda>_. Some connection))) (\<lambda>_.
           write_envelope e (fresh_envelope kek (env_generation v + 1) pending_commitment)))))))"

text \<open>
  \<open>_connect\<close>: the database a new connection sees. (The tables exist whenever \<open>_initialize\<close> has
  run.)
\<close>

definition connect :: "db store_prog" where
  "connect = bindS (getS database) (\<lambda>d.
     case d of None \<Rightarrow> raiseS OperationalError | Some c \<Rightarrow> returnS c)"

text \<open>
  \<open>_initialize\<close>: the tables are created in a transaction of their own; the row holding the
  schema version is committed when the \<open>with\<close> block ends, and rolled back if it raises.
\<close>

definition schema_version :: pystr where
  "schema_version = dec_int STORE_SCHEMA_VERSION"

definition initialize :: "platform \<Rightarrow> unit store_prog" where
  "initialize e =
     bindS (modifyS (database_update
              (\<lambda>d. case d of None \<Rightarrow> Some \<lparr>store_metadata = [], wrapped_keys = []\<rparr> | Some c \<Rightarrow> Some c))) (\<lambda>_.
     bindS connect (\<lambda>c.
       case map_of (store_metadata c) (u ''schema_version'') of
         None \<Rightarrow>
           (let c' = c\<lparr>store_metadata := store_metadata c @ [(u ''schema_version'', schema_version)]\<rparr>
            in bindS (verify_store_commitment e c') (\<lambda>_.
               bindS (draw (commit_outcome e)) (\<lambda>outcome.
                 case outcome of Some ex \<Rightarrow> raiseS ex
                 | None \<Rightarrow> modifyS (database_update (\<lambda>_. Some c')))))
       | Some v \<Rightarrow>
           if v \<noteq> schema_version
           then raiseS (KeyStoreError ''KMIP operational store schema version is unsupported.'')
           else verify_store_commitment e c))"

text \<open>\<open>WrappedKeyStore.__init__\<close>.\<close>

definition init :: "platform \<Rightarrow> pystr \<Rightarrow> unit store_prog" where
  "init e secrets_key =
     bindS (getS database) (\<lambda>d.
     bindS (getS kek_file) (\<lambda>k.
       if (d \<noteq> None) \<noteq> (k \<noteq> None)
       then raiseS (KeyStoreError ''KMIP operational store and KEK envelope must exist together.'')
       else
         bindS (load_or_create_kek e secrets_key) (\<lambda>(mkey, v).
         bindS (modifyS (\<lambda>s. s\<lparr>self_master_key := mkey, self_kek := env_kek v, self_envelope := v\<rparr>)) (\<lambda>_.
         initialize e))))"

section \<open>Operations\<close>

text \<open>\<open>length(name)\<close> of SQLite counts the characters before the first NUL.\<close>

definition sql_length :: "pystr \<Rightarrow> nat" where
  "sql_length s = length (takeWhile (\<lambda>c. c \<noteq> 0) s)"

definition scalar_opt :: "pystr option \<Rightarrow> bool" where
  "scalar_opt s = (case s of None \<Rightarrow> True | Some t \<Rightarrow> list_all is_scalar t)"

text \<open>The \<open>CHECK\<close> constraints of \<open>wrapped_keys\<close>.\<close>

definition row_checks :: "wrapped_row \<Rightarrow> bool" where
  "row_checks r \<longleftrightarrow>
     sk_algorithm r = u ''AES'' \<and> sk_length r = 256
   \<and> (case sk_name r of None \<Rightarrow> True | Some n \<Rightarrow> 1 \<le> sql_length n \<and> sql_length n \<le> 256)
   \<and> sk_state r \<in> {PRE_ACTIVE, ACTIVE} \<and> length (row_nonce r) = 12"

text \<open>
  \<open>INSERT INTO wrapped_keys\<close>: binding text with lone surrogates fails, then the constraints and
  the primary key are checked.
\<close>

definition same_key :: "pystr \<Rightarrow> pystr \<Rightarrow> 'a stored_key_scheme \<Rightarrow> bool" where
  "same_key p k r \<longleftrightarrow> sk_provider_id r = p \<and> sk_key_id r = k"

definition insert_row :: "wrapped_row \<Rightarrow> db \<Rightarrow> exn + db" where
  "insert_row r d =
     (if \<not> scalar_opt (sk_name r) then Inl UnicodeError
      else if \<not> row_checks r \<or> (\<exists>q \<in> set (wrapped_keys d). same_key (sk_provider_id r) (sk_key_id r) q)
      then Inl IntegrityError
      else Inr (d\<lparr>wrapped_keys := wrapped_keys d @ [r]\<rparr>))"

definition bad_name :: "pystr option \<Rightarrow> bool" where
  "bad_name name = (case name of None \<Rightarrow> False | Some n \<Rightarrow> \<not> (1 \<le> length n \<and> length n \<le> 256))"

definition name_error :: exn where
  "name_error = ValueError ''name must contain 1 to 256 characters.''"

definition extend_row :: "stored_key \<Rightarrow> bytes \<Rightarrow> bytes \<Rightarrow> pystr \<Rightarrow> wrapped_row" where
  "extend_row md nonce ciphertext aad_json = stored_key.extend md
     \<lparr>row_nonce = nonce, row_ciphertext = ciphertext, row_aad_json = aad_json\<rparr>"

definition create_key :: "platform \<Rightarrow> pystr \<Rightarrow> pystr option \<Rightarrow> stored_key store_prog" where
  "create_key e provider_id name =
     bindS (liftS (validated_uuid e provider_id ''provider_id'')) (\<lambda>normalized_provider.
     bindS (liftS (raise_if (bad_name name) name_error)) (\<lambda>_.
     bindS (draw (\<lambda>t. uuid_str (uuid4_of (os_urandom e t 16)))) (\<lambda>key_id.
     bindS (draw (utc_now e)) (\<lambda>created_at.
     let metadata = \<lparr>sk_provider_id = normalized_provider, sk_key_id = key_id,
           sk_algorithm = u ''AES'', sk_length = 256, sk_name = name, sk_state = PRE_ACTIVE,
           sk_created_at = created_at, sk_activated_at = None\<rparr>
     in
     bindS (liftS (canonical_aad e metadata)) (\<lambda>aad.
     bindS (draw (\<lambda>t. os_urandom e t 32)) (\<lambda>plaintext.
     bindS (draw (\<lambda>t. os_urandom e t 12)) (\<lambda>nonce.
     bindS (getS self_kek) (\<lambda>kek.
     bindS (liftS (aesgcm_encrypt e kek nonce plaintext aad)) (\<lambda>ciphertext.
     bindS connect (\<lambda>c.
     bindS (verify_store_commitment e c) (\<lambda>_.
     bindS (liftS (decode_utf8 aad)) (\<lambda>aad_json.
     bindS (liftS (insert_row (extend_row metadata nonce ciphertext aad_json) c)) (\<lambda>c'.
     bindS (commit_mutation e c') (\<lambda>_.
     returnS metadata))))))))))))))"

definition row_of :: "platform \<Rightarrow> db \<Rightarrow> pystr \<Rightarrow> pystr \<Rightarrow> exn + wrapped_row" where
  "row_of e c provider_id key_id =
     bindE (validated_uuid e provider_id ''provider_id'') (\<lambda>normalized_provider.
     bindE (validated_uuid e key_id ''key_id'') (\<lambda>normalized_key.
       case find (same_key normalized_provider normalized_key) (wrapped_keys c) of
         None \<Rightarrow> Inl (KeyNotFoundError ''KMIP key was not found in the authenticated provider.'')
       | Some r \<Rightarrow> Inr r))"

definition metadata :: "wrapped_row \<Rightarrow> stored_key" where
  "metadata r = \<lparr>sk_provider_id = sk_provider_id r, sk_key_id = sk_key_id r,
     sk_algorithm = sk_algorithm r, sk_length = sk_length r, sk_name = sk_name r,
     sk_state = sk_state r, sk_created_at = sk_created_at r, sk_activated_at = sk_activated_at r\<rparr>"

definition decrypt_row :: "platform \<Rightarrow> bytes \<Rightarrow> wrapped_row \<Rightarrow> exn + (stored_key \<times> bytes)" where
  "decrypt_row e kek r =
     bindE (canonical_aad e (metadata r)) (\<lambda>expected_aad.
     bindE (encode_utf8 (row_aad_json r)) (\<lambda>stored_aad.
     bindE (raise_if (stored_aad \<noteq> expected_aad)
              (KeyStoreError ''KMIP key metadata integrity validation failed.'')) (\<lambda>_.
     bindE (catchE (aesgcm_decrypt e kek (row_nonce r) (row_ciphertext r) expected_aad)
              (\<lambda>ex. Inl (if ex = InvalidTag
                         then KeyStoreError ''KMIP wrapped key integrity validation failed.'' else ex))) (\<lambda>plaintext.
     bindE (raise_if (length plaintext \<noteq> 32)
              (KeyStoreError ''KMIP wrapped key length is invalid.'')) (\<lambda>_.
     Inr (metadata r, plaintext))))))"

definition get_key :: "platform \<Rightarrow> pystr \<Rightarrow> pystr \<Rightarrow> (stored_key \<times> bytes) store_prog" where
  "get_key e provider_id key_id =
     bindS connect (\<lambda>c.
     bindS (verify_store_commitment e c) (\<lambda>_.
     bindS (liftS (row_of e c provider_id key_id)) (\<lambda>row.
     bindS (getS self_kek) (\<lambda>kek.
     liftS (decrypt_row e kek row)))))"

definition get_metadata :: "platform \<Rightarrow> pystr \<Rightarrow> pystr \<Rightarrow> stored_key store_prog" where
  "get_metadata e provider_id key_id =
     bindS connect (\<lambda>c.
     bindS (verify_store_commitment e c) (\<lambda>_.
     bindS (liftS (row_of e c provider_id key_id)) (\<lambda>row.
     bindS (getS self_kek) (\<lambda>kek.
     bindS (liftS (decrypt_row e kek row)) (\<lambda>(md, plaintext).
     returnS md)))))"

text \<open>\<open>UPDATE wrapped_keys ... WHERE provider_id = ? AND key_id = ? AND state = 'Pre-Active'\<close>.\<close>

definition update_row :: "stored_key \<Rightarrow> bytes \<Rightarrow> bytes \<Rightarrow> pystr \<Rightarrow> wrapped_row \<Rightarrow> wrapped_row" where
  "update_row updated nonce ciphertext aad_json r =
     (if same_key (sk_provider_id updated) (sk_key_id updated) r \<and> sk_state r = PRE_ACTIVE
      then r\<lparr>sk_state := sk_state updated, sk_activated_at := sk_activated_at updated,
             row_nonce := nonce, row_ciphertext := ciphertext, row_aad_json := aad_json\<rparr>
      else r)"

definition rowcount :: "stored_key \<Rightarrow> db \<Rightarrow> nat" where
  "rowcount updated c = length (filter (\<lambda>r.
     same_key (sk_provider_id updated) (sk_key_id updated) r \<and> sk_state r = PRE_ACTIVE) (wrapped_keys c))"

definition activate_key :: "platform \<Rightarrow> pystr \<Rightarrow> pystr \<Rightarrow> stored_key store_prog" where
  "activate_key e provider_id key_id =
     bindS connect (\<lambda>c.
     bindS (verify_store_commitment e c) (\<lambda>_.
     bindS (liftS (row_of e c provider_id key_id)) (\<lambda>row.
     bindS (getS self_kek) (\<lambda>kek.
     bindS (liftS (decrypt_row e kek row)) (\<lambda>(md, plaintext).
       if sk_state md = ACTIVE then returnS md
       else if sk_state md \<noteq> PRE_ACTIVE
       then raiseS (KeyStateError ''KMIP key cannot be activated from its current state.'')
       else
         bindS (draw (utc_now e)) (\<lambda>activated_at.
         let updated = md\<lparr>sk_state := ACTIVE, sk_activated_at := Some activated_at\<rparr>
         in
         bindS (draw (\<lambda>t. os_urandom e t 12)) (\<lambda>nonce.
         bindS (liftS (canonical_aad e updated)) (\<lambda>new_aad.
         bindS (liftS (aesgcm_encrypt e kek nonce plaintext new_aad)) (\<lambda>ciphertext.
         bindS (liftS (decode_utf8 new_aad)) (\<lambda>aad_json.
         bindS (liftS (raise_if (rowcount updated c \<noteq> 1)
                  (KeyStateError ''KMIP key activation was not applied.''))) (\<lambda>_.
         bindS (commit_mutation e
                  (c\<lparr>wrapped_keys := map (update_row updated nonce ciphertext aad_json) (wrapped_keys c)\<rparr>)) (\<lambda>_.
         returnS updated))))))))))))"

definition located :: "pystr \<Rightarrow> pystr option \<Rightarrow> pystr option \<Rightarrow> wrapped_row \<Rightarrow> bool" where
  "located provider state name r \<longleftrightarrow>
     sk_provider_id r = provider
   \<and> (case state of None \<Rightarrow> True | Some t \<Rightarrow> sk_state r = t)
   \<and> (case name of None \<Rightarrow> True | Some n \<Rightarrow> sk_name r = Some n)"

definition locate_keys :: "platform \<Rightarrow> pystr \<Rightarrow> pystr option \<Rightarrow> pystr option \<Rightarrow> int \<Rightarrow> pystr list store_prog" where
  "locate_keys e provider_id state name limit =
     bindS (liftS (validated_uuid e provider_id ''provider_id'')) (\<lambda>normalized_provider.
     bindS (liftS (raise_if (state \<notin> {None, Some PRE_ACTIVE, Some ACTIVE})
              (ValueError ''state is outside the supported KMIP lifecycle.''))) (\<lambda>_.
     bindS (liftS (raise_if (\<not> (1 \<le> limit \<and> limit \<le> 1024))
              (ValueError ''limit must be between 1 and 1024.''))) (\<lambda>_.
     bindS (liftS (raise_if (bad_name name) name_error)) (\<lambda>_.
     bindS connect (\<lambda>c.
     bindS (verify_store_commitment e c) (\<lambda>_.
     bindS (liftS (raise_if (\<not> scalar_opt name) UnicodeError)) (\<lambda>_.
     returnS (map sk_key_id (take (nat limit)
       (sort_key (\<lambda>r. (sk_created_at r, sk_key_id r))
          (filter (located normalized_provider state name) (wrapped_keys c))))))))))))"

record lifecycle =
  pre_active :: nat
  active :: nat
  total :: nat

definition zero_counts :: lifecycle where
  "zero_counts = \<lparr>pre_active = 0, active = 0, total = 0\<rparr>"

definition count_row :: "(pystr \<times> lifecycle) list \<Rightarrow> stored_key \<Rightarrow> (pystr \<times> lifecycle) list" where
  "count_row counts md =
     (let old = (case map_of counts (sk_provider_id md) of None \<Rightarrow> zero_counts | Some x \<Rightarrow> x);
          new = (if sk_state md = PRE_ACTIVE then old\<lparr>pre_active := pre_active old + 1\<rparr>
                 else old\<lparr>active := active old + 1\<rparr>)
      in dict_set counts (sk_provider_id md) (new\<lparr>total := total new + 1\<rparr>))"

definition lifecycle_counts :: "platform \<Rightarrow> pystr list \<Rightarrow> (pystr \<times> lifecycle) list store_prog" where
  "lifecycle_counts e provider_ids =
     bindS (liftS (mapE (\<lambda>p. validated_uuid e p ''provider_id'') provider_ids)) (\<lambda>ids.
     bindS connect (\<lambda>c.
     bindS (verify_store_commitment e c) (\<lambda>_.
     bindS (getS self_kek) (\<lambda>kek.
     bindS (liftS (mapE (decrypt_row e kek) (ordered_rows c))) (\<lambda>rows.
     returnS (foldl count_row (dict_of (map (\<lambda>p. (p, zero_counts)) ids)) (map fst rows)))))))"

definition close :: "store \<Rightarrow> store" where
  "close s = s\<lparr>self_master_key := [], self_kek := []\<rparr>"

end
