(* ===== verification/Kmip_Protocol.thy ===== *)
theory Kmip_Protocol
  imports Kmip_Ttlv Kmip_Store
begin

text \<open>
  The KMIP 1.4 operation dispatcher, \<open>src/atlaso/app/kmip/protocol.py\<close>: the enumerations, the
  readers of request fields, one definition per operation handler, and \<open>dispatch\<close>, which runs the
  items of a batch one after the other on the key store and turns the failure of an item into a
  response item.
\<close>

section \<open>Enumerations and constants\<close>

datatype tag =
    ACTIVATION_DATE | ATTRIBUTE | ATTRIBUTE_NAME | ATTRIBUTE_VALUE | BATCH_COUNT | BATCH_ITEM
  | CRYPTOGRAPHIC_ALGORITHM | CRYPTOGRAPHIC_LENGTH | CRYPTOGRAPHIC_USAGE_MASK | KEY_BLOCK
  | KEY_FORMAT_TYPE | KEY_MATERIAL | KEY_VALUE | MAXIMUM_RESPONSE_SIZE | NAME | NAME_TYPE
  | NAME_VALUE | OBJECT_TYPE | OPERATION | PROTOCOL_VERSION | PROTOCOL_VERSION_MAJOR
  | PROTOCOL_VERSION_MINOR | QUERY_FUNCTION | REQUEST_HEADER | REQUEST_MESSAGE
  | REQUEST_PAYLOAD | RESPONSE_HEADER | RESPONSE_MESSAGE | RESPONSE_PAYLOAD | RESULT_MESSAGE
  | RESULT_REASON | RESULT_STATUS | STATE | SYMMETRIC_KEY | TEMPLATE_ATTRIBUTE | TIME_STAMP
  | UNIQUE_IDENTIFIER | VENDOR_IDENTIFICATION

fun tag_value :: "tag \<Rightarrow> int" where
  "tag_value ACTIVATION_DATE = 0x420001"
| "tag_value ATTRIBUTE = 0x420008"
| "tag_value ATTRIBUTE_NAME = 0x42000A"
| "tag_value ATTRIBUTE_VALUE = 0x42000B"
| "tag_value BATCH_COUNT = 0x42000D"
| "tag_value BATCH_ITEM = 0x42000F"
| "tag_value CRYPTOGRAPHIC_ALGORITHM = 0x420028"
| "tag_value CRYPTOGRAPHIC_LENGTH = 0x42002A"
| "tag_value CRYPTOGRAPHIC_USAGE_MASK = 0x42002C"
| "tag_value KEY_BLOCK = 0x420040"
| "tag_value KEY_FORMAT_TYPE = 0x420042"
| "tag_value KEY_MATERIAL = 0x420043"
| "tag_value KEY_VALUE = 0x420045"
| "tag_value MAXIMUM_RESPONSE_SIZE = 0x420050"
| "tag_value NAME = 0x420053"
| "tag_value NAME_TYPE = 0x420054"
| "tag_value NAME_VALUE = 0x420055"
| "tag_value OBJECT_TYPE = 0x420057"
| "tag_value OPERATION = 0x42005C"
| "tag_value PROTOCOL_VERSION = 0x420069"
| "tag_value PROTOCOL_VERSION_MAJOR = 0x42006A"
| "tag_value PROTOCOL_VERSION_MINOR = 0x42006B"
| "tag_value QUERY_FUNCTION = 0x420074"
| "tag_value REQUEST_HEADER = 0x420077"
| "tag_value REQUEST_MESSAGE = 0x420078"
| "tag_value REQUEST_PAYLOAD = 0x420079"
| "tag_value RESPONSE_HEADER = 0x42007A"
| "tag_value RESPONSE_MESSAGE = 0x42007B"
| "tag_value RESPONSE_PAYLOAD = 0x42007C"
| "tag_value RESULT_MESSAGE = 0x42007D"
| "tag_value RESULT_REASON = 0x42007E"
| "tag_value RESULT_STATUS = 0x42007F"
| "tag_value STATE = 0x42008D"
| "tag_value SYMMETRIC_KEY = 0x42008F"
| "tag_value TEMPLATE_ATTRIBUTE = 0x420091"
| "tag_value TIME_STAMP = 0x420092"
| "tag_value UNIQUE_IDENTIFIER = 0x420094"
| "tag_value VENDOR_IDENTIFICATION = 0x42009D"

datatype operation =
    CREATE | LOCATE | GET | GET_ATTRIBUTES | GET_ATTRIBUTE_LIST | ACTIVATE | QUERY | DISCOVER_VERSIONS

fun operation_value :: "operation \<Rightarrow> int" where
  "operation_value CREATE = 0x01"
| "operation_value LOCATE = 0x08"
| "operation_value GET = 0x0A"
| "operation_value GET_ATTRIBUTES = 0x0B"
| "operation_value GET_ATTRIBUTE_LIST = 0x0C"
| "operation_value ACTIVATE = 0x12"
| "operation_value QUERY = 0x18"
| "operation_value DISCOVER_VERSIONS = 0x1E"

text \<open>The members of \<open>Operation\<close> in the order of the class body, and \<open>Operation(n)\<close>.\<close>

definition operations :: "operation list" where
  "operations = [CREATE, LOCATE, GET, GET_ATTRIBUTES, GET_ATTRIBUTE_LIST, ACTIVATE, QUERY, DISCOVER_VERSIONS]"

definition operation_of :: "int \<Rightarrow> operation option" where
  "operation_of n = find (\<lambda>op. operation_value op = n) operations"

datatype result_status = SUCCESS | OPERATION_FAILED

fun status_value :: "result_status \<Rightarrow> int" where
  "status_value SUCCESS = 0"
| "status_value OPERATION_FAILED = 1"

datatype query_function = OPERATIONS | OBJECTS | SERVER_INFORMATION

fun query_value :: "query_function \<Rightarrow> int" where
  "query_value OPERATIONS = 1"
| "query_value OBJECTS = 2"
| "query_value SERVER_INFORMATION = 3"

definition OBJECT_TYPE_SYMMETRIC_KEY :: int where "OBJECT_TYPE_SYMMETRIC_KEY = 2"
definition CRYPTOGRAPHIC_ALGORITHM_AES :: int where "CRYPTOGRAPHIC_ALGORITHM_AES = 3"
definition KEY_FORMAT_TYPE_RAW :: int where "KEY_FORMAT_TYPE_RAW = 1"
definition NAME_TYPE_UNINTERPRETED_TEXT_STRING :: int where "NAME_TYPE_UNINTERPRETED_TEXT_STRING = 1"
definition STATE_PRE_ACTIVE :: int where "STATE_PRE_ACTIVE = 1"
definition STATE_ACTIVE :: int where "STATE_ACTIVE = 2"
definition USAGE_ENCRYPT_DECRYPT :: int where "USAGE_ENCRYPT_DECRYPT = 0x0C"
definition MAX_BATCH_ITEMS :: int where "MAX_BATCH_ITEMS = 16"

lemmas protocol_constants = OBJECT_TYPE_SYMMETRIC_KEY_def CRYPTOGRAPHIC_ALGORITHM_AES_def
  KEY_FORMAT_TYPE_RAW_def NAME_TYPE_UNINTERPRETED_TEXT_STRING_def STATE_PRE_ACTIVE_def
  STATE_ACTIVE_def USAGE_ENCRYPT_DECRYPT_def MAX_BATCH_ITEMS_def

definition ATTRIBUTE_TAGS :: "(pystr \<times> tag) list" where
  "ATTRIBUTE_TAGS =
     [(u ''Activation Date'', ACTIVATION_DATE),
      (u ''Cryptographic Algorithm'', CRYPTOGRAPHIC_ALGORITHM),
      (u ''Cryptographic Length'', CRYPTOGRAPHIC_LENGTH),
      (u ''Cryptographic Usage Mask'', CRYPTOGRAPHIC_USAGE_MASK),
      (u ''Name'', NAME),
      (u ''Object Type'', OBJECT_TYPE),
      (u ''State'', STATE),
      (u ''Unique Identifier'', UNIQUE_IDENTIFIER)]"

section \<open>Reading fields\<close>

definition value_of :: "ttlv \<Rightarrow> ttlv_type \<Rightarrow> exn + ttlv_value" where
  "value_of node expected_type =
     bindE (raise_if (node_type node \<noteq> expected_type)
              (ProtocolFailure INVALID_FIELD ''A KMIP field has the wrong TTLV type.'')) (\<lambda>_.
       case node_value node of VTuple cs \<Rightarrow> Inl AssertionError | v \<Rightarrow> Inr v)"

definition integer_value :: "ttlv \<Rightarrow> ttlv_type \<Rightarrow> exn + int" where
  "integer_value node expected_type =
     bindE (value_of node expected_type) (\<lambda>v.
       case v of VInt i \<Rightarrow> Inr i
       | _ \<Rightarrow> Inl (ProtocolFailure INVALID_FIELD ''A KMIP numeric field is invalid.''))"

definition text_value :: "ttlv \<Rightarrow> exn + pystr" where
  "text_value node =
     bindE (value_of node TEXT_STRING) (\<lambda>v.
       case v of VStr s \<Rightarrow> Inr s
       | _ \<Rightarrow> Inl (ProtocolFailure INVALID_FIELD ''A KMIP text field is invalid.''))"

definition required_child :: "ttlv \<Rightarrow> tag \<Rightarrow> exn + ttlv" where
  "required_child node t =
     bindE (ttlv_guard (child node (tag_value t) True)
              (ProtocolFailure MISSING_DATA ''A required KMIP field is missing.'')) (\<lambda>c.
       case c of None \<Rightarrow> Inl AssertionError | Some x \<Rightarrow> Inr x)"

text \<open>\<open>try: assert_only_tags(...) except TtlvError: raise ProtocolFailure(reason, message)\<close>.\<close>

definition only_tags :: "ttlv \<Rightarrow> tag list \<Rightarrow> result_reason \<Rightarrow> string \<Rightarrow> exn + unit" where
  "only_tags node allowed reason message =
     ttlv_guard (assert_only_tags node (map tag_value allowed)) (ProtocolFailure reason message)"

definition require_structure :: "ttlv \<Rightarrow> result_reason \<Rightarrow> string \<Rightarrow> exn + unit" where
  "require_structure node reason message =
     raise_if (node_type node \<noteq> STRUCTURE) (ProtocolFailure reason message)"

definition protocol_version :: "ttlv \<Rightarrow> exn + int \<times> int" where
  "protocol_version node =
     bindE (require_structure node INVALID_FIELD ''Protocol Version must be a structure.'') (\<lambda>_.
     bindE (only_tags node [PROTOCOL_VERSION_MAJOR, PROTOCOL_VERSION_MINOR] INVALID_FIELD
              ''Protocol Version contains unsupported fields.'') (\<lambda>_.
     bindE (bindE (required_child node PROTOCOL_VERSION_MAJOR) (\<lambda>c. integer_value c INTEGER)) (\<lambda>major.
     bindE (bindE (required_child node PROTOCOL_VERSION_MINOR) (\<lambda>c. integer_value c INTEGER)) (\<lambda>minor.
     Inr (major, minor)))))"

definition version_node :: ttlv where
  "version_node = structure_node (tag_value PROTOCOL_VERSION)
     [integer (tag_value PROTOCOL_VERSION_MAJOR) 1, integer (tag_value PROTOCOL_VERSION_MINOR) 4]"

definition attribute_node :: "pystr \<Rightarrow> ttlv \<Rightarrow> ttlv" where
  "attribute_node name v = structure_node (tag_value ATTRIBUTE)
     [text_string (tag_value ATTRIBUTE_NAME) name,
      Ttlv (tag_value ATTRIBUTE_VALUE) (node_type v) (node_value v)]"

definition metadata_attribute :: "platform \<Rightarrow> pystr \<Rightarrow> stored_key \<Rightarrow> exn + ttlv" where
  "metadata_attribute e name md =
     bindE
      (if name = u ''Cryptographic Algorithm''
       then Inr (enumeration (tag_value ATTRIBUTE_VALUE) CRYPTOGRAPHIC_ALGORITHM_AES)
       else if name = u ''Cryptographic Length'' then Inr (integer (tag_value ATTRIBUTE_VALUE) 256)
       else if name = u ''Cryptographic Usage Mask''
       then Inr (integer (tag_value ATTRIBUTE_VALUE) USAGE_ENCRYPT_DECRYPT)
       else if name = u ''Object Type''
       then Inr (enumeration (tag_value ATTRIBUTE_VALUE) OBJECT_TYPE_SYMMETRIC_KEY)
       else if name = u ''State''
       then Inr (enumeration (tag_value ATTRIBUTE_VALUE)
                   (if sk_state md = ACTIVE then STATE_ACTIVE else STATE_PRE_ACTIVE))
       else if name = u ''Unique Identifier''
       then Inr (text_string (tag_value ATTRIBUTE_VALUE) (sk_key_id md))
       else if name = u ''Activation Date''
       then (case sk_activated_at md of
               None \<Rightarrow> Inl (ProtocolFailure INVALID_FIELD ''Activation Date is unavailable for a pre-active key.'')
             | Some t \<Rightarrow> bindE (iso_epoch e t) (\<lambda>n. Inr (date_time (tag_value ATTRIBUTE_VALUE) n)))
       else if name = u ''Name''
       then (case sk_name md of
               None \<Rightarrow> Inl (ProtocolFailure INVALID_FIELD ''Name is unavailable for this key.'')
             | Some n \<Rightarrow> Inr (structure_node (tag_value ATTRIBUTE_VALUE)
                 [text_string (tag_value NAME_VALUE) n,
                  enumeration (tag_value NAME_TYPE) NAME_TYPE_UNINTERPRETED_TEXT_STRING]))
       else Inl (ProtocolFailure INVALID_FIELD ''Requested KMIP attribute is unsupported.''))
      (\<lambda>v. Inr (attribute_node name v))"

definition parse_name :: "ttlv \<Rightarrow> exn + pystr" where
  "parse_name node =
     bindE (require_structure node INVALID_FIELD ''Name must be a structure.'') (\<lambda>_.
     bindE (only_tags node [NAME_VALUE, NAME_TYPE] INVALID_FIELD ''Name contains unsupported fields.'') (\<lambda>_.
     bindE (bindE (required_child node NAME_VALUE) text_value) (\<lambda>name.
     bindE (bindE (required_child node NAME_TYPE) (\<lambda>c. integer_value c ENUMERATION)) (\<lambda>name_type.
     bindE (raise_if (name_type \<noteq> NAME_TYPE_UNINTERPRETED_TEXT_STRING)
              (ProtocolFailure INVALID_FIELD ''Only Uninterpreted Text String names are supported.'')) (\<lambda>_.
     bindE (raise_if (\<not> (1 \<le> length name \<and> length name \<le> 256))
              (ProtocolFailure INVALID_FIELD ''Name must contain 1 to 256 characters.'')) (\<lambda>_.
     Inr name))))))"

text \<open>The values of the dictionary of parsed attributes: \<open>int | str\<close>.\<close>

datatype attr = AInt int | AStr pystr

definition parse_attribute :: "pystr list \<Rightarrow> (pystr \<times> attr) list \<Rightarrow> ttlv \<Rightarrow> exn + (pystr \<times> attr) list" where
  "parse_attribute allowed_names result attribute =
     bindE (require_structure attribute INVALID_FIELD ''Attribute must be a structure.'') (\<lambda>_.
     bindE (only_tags attribute [ATTRIBUTE_NAME, ATTRIBUTE_VALUE] INVALID_FIELD
              ''Attribute contains unsupported fields.'') (\<lambda>_.
     bindE (bindE (required_child attribute ATTRIBUTE_NAME) text_value) (\<lambda>name.
     bindE (raise_if (name \<in> fst ` set result)
              (ProtocolFailure INVALID_FIELD ''Duplicate KMIP attributes are unsupported.'')) (\<lambda>_.
     bindE (raise_if (name \<notin> set allowed_names)
              (ProtocolFailure INVALID_FIELD ''Create attribute is outside the allowlist.'')) (\<lambda>_.
     bindE (required_child attribute ATTRIBUTE_VALUE) (\<lambda>raw_value.
     bindE (if name = u ''Name'' then bindE (parse_name raw_value) (\<lambda>n. Inr (AStr n))
            else bindE (integer_value raw_value
                   (if name \<in> {u ''Cryptographic Algorithm'', u ''Object Type'', u ''State''}
                    then ENUMERATION else INTEGER)) (\<lambda>i. Inr (AInt i))) (\<lambda>v.
     Inr (result @ [(name, v)]))))))))"

fun parse_attributes :: "pystr list \<Rightarrow> (pystr \<times> attr) list \<Rightarrow> ttlv list \<Rightarrow> exn + (pystr \<times> attr) list" where
  "parse_attributes allowed_names result [] = Inr result"
| "parse_attributes allowed_names result (a # as) =
     bindE (parse_attribute allowed_names result a) (\<lambda>result'. parse_attributes allowed_names result' as)"

definition parse_template_attributes :: "ttlv \<Rightarrow> pystr list \<Rightarrow> exn + (pystr \<times> attr) list" where
  "parse_template_attributes template allowed_names =
     bindE (require_structure template INVALID_FIELD ''Template Attribute must be a structure.'') (\<lambda>_.
     bindE (only_tags template [ATTRIBUTE] INVALID_FIELD
              ''Template Attribute contains unsupported fields.'') (\<lambda>_.
     bindE (children template (tag_value ATTRIBUTE)) (\<lambda>attributes.
     parse_attributes allowed_names [] attributes)))"

definition unique_identifier :: "ttlv \<Rightarrow> exn + pystr" where
  "unique_identifier payload =
     bindE (bindE (required_child payload UNIQUE_IDENTIFIER) text_value) (\<lambda>v.
     bindE (raise_if (v = []) (ProtocolFailure INVALID_FIELD ''Unique Identifier must not be empty.'')) (\<lambda>_.
     Inr v))"

section \<open>Operations\<close>

text \<open>The part of \<open>_create\<close> that reads the request: the requested name.\<close>

definition create_request :: "ttlv \<Rightarrow> exn + pystr option" where
  "create_request payload =
     bindE (only_tags payload [OBJECT_TYPE, TEMPLATE_ATTRIBUTE] INVALID_FIELD
              ''Create contains unsupported fields.'') (\<lambda>_.
     bindE (bindE (required_child payload OBJECT_TYPE) (\<lambda>c. integer_value c ENUMERATION)) (\<lambda>object_type.
     bindE (raise_if (object_type \<noteq> OBJECT_TYPE_SYMMETRIC_KEY)
              (ProtocolFailure INVALID_FIELD ''Only Symmetric Key objects are supported.'')) (\<lambda>_.
     bindE (bindE (required_child payload TEMPLATE_ATTRIBUTE) (\<lambda>t. parse_template_attributes t
              [u ''Cryptographic Algorithm'', u ''Cryptographic Length'', u ''Cryptographic Usage Mask'', u ''Name''])) (\<lambda>attributes.
     bindE (raise_if (map_of attributes (u ''Cryptographic Algorithm'') \<noteq> Some (AInt CRYPTOGRAPHIC_ALGORITHM_AES))
              (ProtocolFailure INVALID_FIELD ''Only AES keys are supported.'')) (\<lambda>_.
     bindE (raise_if (map_of attributes (u ''Cryptographic Length'') \<noteq> Some (AInt 256))
              (ProtocolFailure INVALID_FIELD ''Only AES-256 keys are supported.'')) (\<lambda>_.
     bindE (raise_if (map_of attributes (u ''Cryptographic Usage Mask'') \<notin> {None, Some (AInt USAGE_ENCRYPT_DECRYPT)})
              (ProtocolFailure INVALID_FIELD ''Only Encrypt and Decrypt key usage is supported.'')) (\<lambda>_.
       case map_of attributes (u ''Name'') of
         None \<Rightarrow> Inr None | Some (AStr n) \<Rightarrow> Inr (Some n) | Some (AInt i) \<Rightarrow> Inl AssertionError)))))))"

definition create_operation :: "platform \<Rightarrow> pystr \<Rightarrow> ttlv \<Rightarrow> ttlv list store_prog" where
  "create_operation e provider_id payload =
     bindS (liftS (create_request payload)) (\<lambda>name.
     bindS (create_key e provider_id name) (\<lambda>md.
     returnS [enumeration (tag_value OBJECT_TYPE) OBJECT_TYPE_SYMMETRIC_KEY,
              text_string (tag_value UNIQUE_IDENTIFIER) (sk_key_id md)]))"

definition activate_operation :: "platform \<Rightarrow> pystr \<Rightarrow> ttlv \<Rightarrow> ttlv list store_prog" where
  "activate_operation e provider_id payload =
     bindS (liftS (only_tags payload [UNIQUE_IDENTIFIER] INVALID_FIELD
              ''Activate contains unsupported fields.'')) (\<lambda>_.
     bindS (liftS (unique_identifier payload)) (\<lambda>key_id.
     bindS (activate_key e provider_id key_id) (\<lambda>_.
     returnS [text_string (tag_value UNIQUE_IDENTIFIER) key_id])))"

definition symmetric_key_node :: "bytes \<Rightarrow> ttlv" where
  "symmetric_key_node plaintext = structure_node (tag_value SYMMETRIC_KEY)
     [structure_node (tag_value KEY_BLOCK)
       [enumeration (tag_value KEY_FORMAT_TYPE) KEY_FORMAT_TYPE_RAW,
        structure_node (tag_value KEY_VALUE) [byte_string (tag_value KEY_MATERIAL) plaintext],
        enumeration (tag_value CRYPTOGRAPHIC_ALGORITHM) CRYPTOGRAPHIC_ALGORITHM_AES,
        integer (tag_value CRYPTOGRAPHIC_LENGTH) 256]]"

definition get_request :: "ttlv \<Rightarrow> exn + pystr" where
  "get_request payload =
     bindE (only_tags payload [UNIQUE_IDENTIFIER, KEY_FORMAT_TYPE] INVALID_FIELD
              ''Get contains unsupported fields.'') (\<lambda>_.
     bindE (child payload (tag_value KEY_FORMAT_TYPE) False) (\<lambda>format_node.
     bindE (case format_node of
              None \<Rightarrow> Inr ()
            | Some f \<Rightarrow> bindE (integer_value f ENUMERATION) (\<lambda>v.
                raise_if (v \<noteq> KEY_FORMAT_TYPE_RAW)
                  (ProtocolFailure KEY_FORMAT_TYPE_NOT_SUPPORTED ''Only Raw symmetric key format is supported.''))) (\<lambda>_.
     unique_identifier payload)))"

definition get_operation :: "platform \<Rightarrow> pystr \<Rightarrow> ttlv \<Rightarrow> ttlv list store_prog" where
  "get_operation e provider_id payload =
     bindS (liftS (get_request payload)) (\<lambda>key_id.
     bindS (get_key e provider_id key_id) (\<lambda>(md, plaintext).
     bindS (liftS (raise_if (sk_state md \<noteq> ACTIVE)
              (ProtocolFailure INVALID_FIELD ''Only active KMIP keys may be retrieved.''))) (\<lambda>_.
     returnS [enumeration (tag_value OBJECT_TYPE) OBJECT_TYPE_SYMMETRIC_KEY,
              text_string (tag_value UNIQUE_IDENTIFIER) (sk_key_id md),
              symmetric_key_node plaintext])))"

definition attribute_names :: "stored_key \<Rightarrow> pystr list" where
  "attribute_names md =
     [u ''Cryptographic Algorithm'', u ''Cryptographic Length'', u ''Cryptographic Usage Mask'',
      u ''Object Type'', u ''State'', u ''Unique Identifier'']
     @ (if sk_name md \<noteq> None then [u ''Name''] else [])
     @ (if sk_activated_at md \<noteq> None then [u ''Activation Date''] else [])"

definition get_attribute_list_operation :: "platform \<Rightarrow> pystr \<Rightarrow> ttlv \<Rightarrow> ttlv list store_prog" where
  "get_attribute_list_operation e provider_id payload =
     bindS (liftS (only_tags payload [UNIQUE_IDENTIFIER] INVALID_FIELD
              ''Get Attribute List contains unsupported fields.'')) (\<lambda>_.
     bindS (liftS (unique_identifier payload)) (\<lambda>key_id.
     bindS (get_metadata e provider_id key_id) (\<lambda>md.
     returnS (text_string (tag_value UNIQUE_IDENTIFIER) (sk_key_id md)
              # map (text_string (tag_value ATTRIBUTE_NAME)) (attribute_names md)))))"

definition get_attributes_operation :: "platform \<Rightarrow> pystr \<Rightarrow> ttlv \<Rightarrow> ttlv list store_prog" where
  "get_attributes_operation e provider_id payload =
     bindS (liftS (only_tags payload [UNIQUE_IDENTIFIER, ATTRIBUTE_NAME] INVALID_FIELD
              ''Get Attributes contains unsupported fields.'')) (\<lambda>_.
     bindS (liftS (unique_identifier payload)) (\<lambda>key_id.
     bindS (get_metadata e provider_id key_id) (\<lambda>md.
     bindS (liftS (bindE (children payload (tag_value ATTRIBUTE_NAME)) (mapE text_value))) (\<lambda>requested.
     let names = (if requested = [] then attribute_names md else requested)
     in bindS (liftS (raise_if (\<not> distinct names \<or> list_ex (\<lambda>n. n \<notin> fst ` set ATTRIBUTE_TAGS) names)
                 (ProtocolFailure INVALID_FIELD ''Requested attributes are invalid.''))) (\<lambda>_.
     bindS (liftS (mapE (\<lambda>n. metadata_attribute e n md) names)) (\<lambda>attributes.
     returnS (text_string (tag_value UNIQUE_IDENTIFIER) (sk_key_id md) # attributes)))))))"

text \<open>
  The filter of \<open>_locate\<close>: \<open>None\<close> where the request can match no key, otherwise the state and
  name to search for.
\<close>

definition locate_filter :: "ttlv \<Rightarrow> exn + (pystr option \<times> pystr option) option" where
  "locate_filter payload =
     bindE (only_tags payload [MAXIMUM_RESPONSE_SIZE, ATTRIBUTE] INVALID_FIELD
              ''Locate contains unsupported fields.'') (\<lambda>_.
     bindE (children payload (tag_value ATTRIBUTE)) (\<lambda>attributes.
       if attributes = [] then Inr (Some (None, None))
       else
         bindE (parse_template_attributes (structure_node (tag_value TEMPLATE_ATTRIBUTE) attributes)
                  [u ''Cryptographic Algorithm'', u ''Cryptographic Length'', u ''Name'', u ''Object Type'', u ''State'']) (\<lambda>filters.
         if map_of filters (u ''Cryptographic Algorithm'') \<notin> {None, Some (AInt CRYPTOGRAPHIC_ALGORITHM_AES)}
         then Inr None
         else if map_of filters (u ''Cryptographic Length'') \<notin> {None, Some (AInt 256)} then Inr None
         else if map_of filters (u ''Object Type'') \<notin> {None, Some (AInt OBJECT_TYPE_SYMMETRIC_KEY)} then Inr None
         else if map_of filters (u ''State'') \<notin> {None, Some (AInt STATE_PRE_ACTIVE), Some (AInt STATE_ACTIVE)}
         then Inr None
         else
           let raw_state = map_of filters (u ''State'');
               state = (if raw_state = Some (AInt STATE_PRE_ACTIVE) then Some PRE_ACTIVE
                        else if raw_state = Some (AInt STATE_ACTIVE) then Some ACTIVE else None)
           in case map_of filters (u ''Name'') of
                None \<Rightarrow> Inr (Some (state, None))
              | Some (AStr n) \<Rightarrow> Inr (Some (state, Some n))
              | Some (AInt i) \<Rightarrow> Inl AssertionError)))"

definition locate_operation :: "platform \<Rightarrow> pystr \<Rightarrow> ttlv \<Rightarrow> ttlv list store_prog" where
  "locate_operation e provider_id payload =
     bindS (liftS (locate_filter payload)) (\<lambda>f.
       case f of
         None \<Rightarrow> returnS []
       | Some (state, name) \<Rightarrow>
           bindS (locate_keys e provider_id state name 1024) (\<lambda>ids.
           returnS (map (text_string (tag_value UNIQUE_IDENTIFIER)) ids)))"

definition query_answer :: "int \<Rightarrow> exn + ttlv list" where
  "query_answer function =
     (if function = query_value OPERATIONS
      then Inr (map (\<lambda>op. enumeration (tag_value OPERATION) (operation_value op)) operations)
      else if function = query_value OBJECTS
      then Inr [enumeration (tag_value OBJECT_TYPE) OBJECT_TYPE_SYMMETRIC_KEY]
      else if function = query_value SERVER_INFORMATION
      then Inr [text_string (tag_value VENDOR_IDENTIFICATION) (u ''Atlaso'')]
      else Inl (ProtocolFailure OPERATION_NOT_SUPPORTED ''Query Function is outside the supported contract.''))"

definition query_operation :: "ttlv \<Rightarrow> exn + ttlv list" where
  "query_operation payload =
     bindE (only_tags payload [QUERY_FUNCTION] INVALID_FIELD ''Query contains unsupported fields.'') (\<lambda>_.
     bindE (bindE (children payload (tag_value QUERY_FUNCTION)) (mapE (\<lambda>c. integer_value c ENUMERATION))) (\<lambda>requested.
     bindE (raise_if (requested = []) (ProtocolFailure MISSING_DATA ''Query Function is required.'')) (\<lambda>_.
     bindE (raise_if (\<not> distinct requested)
              (ProtocolFailure INVALID_FIELD ''Query Function must not be duplicated.'')) (\<lambda>_.
     bindE (mapE query_answer requested) (\<lambda>answers. Inr (concat answers))))))"

definition discover_versions_operation :: "ttlv \<Rightarrow> exn + ttlv list" where
  "discover_versions_operation payload =
     bindE (only_tags payload [PROTOCOL_VERSION] INVALID_FIELD
              ''Discover Versions contains unsupported fields.'') (\<lambda>_.
     bindE (bindE (children payload (tag_value PROTOCOL_VERSION)) (mapE protocol_version)) (\<lambda>versions.
     bindE (raise_if (versions \<noteq> [] \<and> (1, 4) \<notin> set versions)
              (ProtocolFailure INVALID_FIELD ''No mutually supported KMIP protocol version was offered.'')) (\<lambda>_.
     Inr [version_node])))"

section \<open>Dispatch\<close>

definition dispatch_operation :: "platform \<Rightarrow> pystr \<Rightarrow> operation \<Rightarrow> ttlv \<Rightarrow> ttlv list store_prog" where
  "dispatch_operation e provider_id operation payload =
     bindS (liftS (require_structure payload INVALID_FIELD ''Request Payload must be a structure.'')) (\<lambda>_.
       case operation of
         QUERY \<Rightarrow> liftS (query_operation payload)
       | DISCOVER_VERSIONS \<Rightarrow> liftS (discover_versions_operation payload)
       | CREATE \<Rightarrow> create_operation e provider_id payload
       | ACTIVATE \<Rightarrow> activate_operation e provider_id payload
       | GET \<Rightarrow> get_operation e provider_id payload
       | GET_ATTRIBUTES \<Rightarrow> get_attributes_operation e provider_id payload
       | GET_ATTRIBUTE_LIST \<Rightarrow> get_attribute_list_operation e provider_id payload
       | LOCATE \<Rightarrow> locate_operation e provider_id payload)"

definition failed_batch :: "int \<Rightarrow> result_reason \<Rightarrow> string \<Rightarrow> ttlv" where
  "failed_batch op_value reason message = structure_node (tag_value BATCH_ITEM)
     [enumeration (tag_value OPERATION) op_value,
      enumeration (tag_value RESULT_STATUS) (status_value OPERATION_FAILED),
      enumeration (tag_value RESULT_REASON) (reason_value reason),
      text_string (tag_value RESULT_MESSAGE) (u message)]"

definition success_batch :: "operation \<Rightarrow> ttlv list \<Rightarrow> ttlv" where
  "success_batch op result = structure_node (tag_value BATCH_ITEM)
     [enumeration (tag_value OPERATION) (operation_value op),
      enumeration (tag_value RESULT_STATUS) (status_value SUCCESS),
      structure_node (tag_value RESPONSE_PAYLOAD) result]"

text \<open>
  The \<open>except\<close> clauses around a batch item, in their order: the failure reported for an exception,
  or \<open>None\<close> where the exception leaves \<open>dispatch\<close>.
\<close>

fun item_failure :: "exn \<Rightarrow> (result_reason \<times> string) option" where
  "item_failure (TtlvError x) = Some (INVALID_MESSAGE, ''Batch Item contains invalid TTLV.'')"
| "item_failure (KeyNotFoundError m) =
     Some (ITEM_NOT_FOUND, ''KMIP key was not found in the authenticated provider.'')"
| "item_failure (KeyStateError m) = Some (INVALID_FIELD, ''KMIP key state is invalid.'')"
| "item_failure (KeyStoreError m) = Some (GENERAL_FAILURE, ''KMIP operational store request failed.'')"
| "item_failure (ProtocolFailure reason message) = Some (reason, message)"
| "item_failure ex = None"

definition recover :: "int \<Rightarrow> exn \<Rightarrow> ttlv store_prog" where
  "recover op_value ex =
     (case item_failure ex of
        Some (reason, message) \<Rightarrow> returnS (failed_batch op_value reason message)
      | None \<Rightarrow> raiseS ex)"

text \<open>The operation value of an item; a failure before it is known is reported for operation 0.\<close>

definition item_operation :: "ttlv \<Rightarrow> exn + int" where
  "item_operation item =
     bindE (require_structure item INVALID_MESSAGE ''Batch Item must be a structure.'') (\<lambda>_.
     bindE (assert_only_tags item (map tag_value [OPERATION, REQUEST_PAYLOAD])) (\<lambda>_.
     bindE (required_child item OPERATION) (\<lambda>c. integer_value c ENUMERATION)))"

definition run_item :: "platform \<Rightarrow> pystr \<Rightarrow> ttlv \<Rightarrow> int \<Rightarrow> ttlv store_prog" where
  "run_item e provider_id item op_value =
     (case operation_of op_value of
        None \<Rightarrow> raiseS (ProtocolFailure OPERATION_NOT_SUPPORTED ''Operation is outside the supported contract.'')
      | Some operation \<Rightarrow>
          bindS (liftS (required_child item REQUEST_PAYLOAD)) (\<lambda>payload.
          bindS (dispatch_operation e provider_id operation payload) (\<lambda>result.
          returnS (success_batch operation result))))"

definition dispatch_item :: "platform \<Rightarrow> pystr \<Rightarrow> ttlv \<Rightarrow> ttlv store_prog" where
  "dispatch_item e provider_id item =
     (case item_operation item of
        Inl ex \<Rightarrow> recover 0 ex
      | Inr op_value \<Rightarrow> catchS (run_item e provider_id item op_value) (recover op_value))"

fun dispatch_items :: "platform \<Rightarrow> pystr \<Rightarrow> ttlv list \<Rightarrow> ttlv list store_prog" where
  "dispatch_items e provider_id [] = returnS []"
| "dispatch_items e provider_id (item # items) =
     bindS (dispatch_item e provider_id item) (\<lambda>response.
     bindS (dispatch_items e provider_id items) (\<lambda>responses.
     returnS (response # responses)))"

text \<open>The checks of \<open>dispatch\<close> before the first item: the batch items.\<close>

definition request_items :: "ttlv \<Rightarrow> exn + ttlv list" where
  "request_items request =
     bindE (raise_if (node_tag request \<noteq> tag_value REQUEST_MESSAGE \<or> node_type request \<noteq> STRUCTURE)
              (ProtocolFailure INVALID_MESSAGE ''Root TTLV must be Request Message.'')) (\<lambda>_.
     bindE (only_tags request [REQUEST_HEADER, BATCH_ITEM] INVALID_MESSAGE
              ''Request Message contains unsupported fields.'') (\<lambda>_.
     bindE (required_child request REQUEST_HEADER) (\<lambda>header.
     bindE (require_structure header INVALID_MESSAGE ''Request Header must be a structure.'') (\<lambda>_.
     bindE (only_tags header [PROTOCOL_VERSION, MAXIMUM_RESPONSE_SIZE, BATCH_COUNT] INVALID_MESSAGE
              ''Request Header contains unsupported fields.'') (\<lambda>_.
     bindE (bindE (required_child header PROTOCOL_VERSION) protocol_version) (\<lambda>version.
     bindE (raise_if (version \<noteq> (1, 4)) (ProtocolFailure INVALID_MESSAGE ''Only KMIP 1.4 is supported.'')) (\<lambda>_.
     bindE (children request (tag_value BATCH_ITEM)) (\<lambda>batch_items.
     bindE (bindE (required_child header BATCH_COUNT) (\<lambda>c. integer_value c INTEGER)) (\<lambda>batch_count.
     bindE (raise_if (batch_count \<noteq> int (length batch_items) \<or> \<not> (1 \<le> batch_count \<and> batch_count \<le> MAX_BATCH_ITEMS))
              (ProtocolFailure INVALID_MESSAGE ''KMIP Batch Count is invalid.'')) (\<lambda>_.
     Inr batch_items))))))))))"

definition response_message :: "int \<Rightarrow> ttlv list \<Rightarrow> ttlv" where
  "response_message now responses = structure_node (tag_value RESPONSE_MESSAGE)
     (structure_node (tag_value RESPONSE_HEADER)
        [version_node, date_time (tag_value TIME_STAMP) now,
         integer (tag_value BATCH_COUNT) (int (length responses))]
      # responses)"

definition dispatch :: "platform \<Rightarrow> pystr \<Rightarrow> ttlv \<Rightarrow> ttlv store_prog" where
  "dispatch e provider_id request =
     bindS (liftS (request_items request)) (\<lambda>batch_items.
     bindS (dispatch_items e provider_id batch_items) (\<lambda>responses.
     bindS (draw (unix_time e)) (\<lambda>now.
     returnS (response_message now responses))))"

end
