(* ===== verification/Kmip_Store_Envelope.thy ===== *)
theory Kmip_Store_Envelope
  imports Kmip_Store
begin

text \<open>
  Properties of the serialised forms of the key store: the additional authenticated data of a
  wrapped key and the commitment document determine what they describe, and a KEK file that was
  written is read back.
\<close>

section \<open>Text and bytes\<close>

lemma encode_utf8_printable: "list_all printable s \<Longrightarrow> encode_utf8 s = Inr (map byte_of s)"
  by (simp add: encode_utf8_def utf8_encode_printable)

lemma decode_encode_utf8: "encode_utf8 s = Inr b \<Longrightarrow> decode_utf8 b = Inr s"
  by (auto simp: encode_utf8_def decode_utf8_def utf8.dec_enc split: sum.splits)

lemma decode_utf8_printable: "list_all printable s \<Longrightarrow> decode_utf8 (map byte_of s) = Inr s"
  by (rule decode_encode_utf8) (rule encode_utf8_printable)

lemma byte_text_inj:
  assumes "list_all printable s" "list_all printable t" "map byte_of s = map byte_of t"
  shows "s = t"
proof -
  have "(Inr s :: exn + pystr) = Inr t"
    using decode_utf8_printable [OF assms(1)] decode_utf8_printable [OF assms(2)]
    unfolding assms(3) by (rule trans [OF sym])
  then show ?thesis by simp
qed

lemma newlines_after_id: "13 \<notin> set s \<Longrightarrow> newlines_after False s = s"
  by (induction s) auto

lemma b64encode_all_printable: "list_all printable (b64encode bs)"
  using b64encode_printable by (auto simp: list_all_iff printable_def)

lemma hexlify_printable: "list_all printable (hexlify bs)"
  using hexlify_lower by (fastforce simp: list_all_iff printable_def lower_hex_def)

lemma length_dec_digits: "n < 10 ^ Suc k \<Longrightarrow> length (dec_digits n) \<le> Suc k"
proof (induction k arbitrary: n)
  case 0
  then show ?case by (simp add: dec_digits.simps)
next
  case (Suc k)
  show ?case
  proof (cases "n < 10")
    case False
    have "n div 10 < 10 ^ Suc k" using Suc.prems by (simp add: less_mult_imp_div_less)
    with Suc.IH have "length (dec_digits (n div 10)) \<le> Suc k" .
    with False show ?thesis by (subst dec_digits.simps) simp
  qed (simp add: dec_digits.simps)
qed

text \<open>
  \<open>int()\<close> and \<open>repr\<close> handle at most 4300 decimal digits; numbers below \<open>decimal_bound\<close> are
  safely inside.
\<close>

definition decimal_bound :: nat where
  "decimal_bound = 10 ^ 4000"

lemma decimal_bound_large: "n < 1000 \<Longrightarrow> n < decimal_bound"
proof -
  have "(10 :: nat) ^ 3 \<le> decimal_bound"
    unfolding decimal_bound_def by (rule power_increasing) simp_all
  then show "n < 1000 \<Longrightarrow> n < decimal_bound" by simp
qed

lemma plain_small_int: "nat \<bar>i\<bar> < decimal_bound \<Longrightarrow> plain (JInt i)"
proof -
  assume "nat \<bar>i\<bar> < decimal_bound"
  moreover have "(4000 :: nat) = Suc 3999" by simp
  ultimately have "nat \<bar>i\<bar> < 10 ^ Suc 3999" unfolding decimal_bound_def by (simp only:)
  then have "length (dec_digits (nat \<bar>i\<bar>)) \<le> Suc 3999" by (rule length_dec_digits)
  then show ?thesis by simp
qed

section \<open>Documents as dictionaries\<close>

lemma map_of_map_values: "map_of (map (\<lambda>(k, v). (k, f v)) l) x = map_option f (map_of l x)"
  by (induction l) auto

lemma sort_keys_lookup:
  assumes "distinct (map fst ms)" "sort_keys (JObj ms) = JObj ms'"
  shows "jget ms' k = map_option sort_keys (jget ms k)"
proof -
  have "distinct (map fst (map (\<lambda>(k, v). (k, sort_keys v)) ms))"
    using assms(1) by (simp add: comp_def case_prod_beta)
  with assms(2) show ?thesis by (auto simp: jget_def map_of_sort_key map_of_map_values)
qed

lemma sort_keys_opt [simp]: "sort_keys (opt_str s) = opt_str s" "sort_keys (opt_int i) = opt_int i"
  by (cases s; simp) (cases i; simp)

lemma plain_opt [simp]:
  "plain (opt_str s) \<longleftrightarrow> scalar_opt s"
  "plain (opt_int i) \<longleftrightarrow> (\<forall>n. i = Some n \<longrightarrow> plain (JInt n))"
  by (cases s; simp add: scalar_opt_def) (cases i; simp)

lemma opt_inj [simp]: "opt_str s = opt_str t \<longleftrightarrow> s = t" "opt_int i = opt_int j \<longleftrightarrow> i = j"
  by (cases s; cases t; simp) (cases i; cases j; simp)

text \<open>Objects with the same sorted form agree on every key.\<close>

lemma sort_keys_eq_lookup:
  assumes "sort_keys (JObj ms) = sort_keys (JObj ms')" "distinct (map fst ms)" "distinct (map fst ms')"
  shows "map_option sort_keys (jget ms k) = map_option sort_keys (jget ms' k)"
proof -
  obtain l where l: "sort_keys (JObj ms) = JObj l" by simp
  show ?thesis
    using sort_keys_lookup [OF assms(2) l, of k] sort_keys_lookup [OF assms(3), of l k] l assms(1)
    by simp
qed

section \<open>The additional authenticated data\<close>

definition scalar_key :: "'a stored_key_scheme \<Rightarrow> bool" where
  "scalar_key md \<longleftrightarrow>
     list_all is_scalar (sk_provider_id md) \<and> list_all is_scalar (sk_key_id md)
   \<and> list_all is_scalar (sk_algorithm md) \<and> nat \<bar>sk_length md\<bar> < decimal_bound \<and> scalar_opt (sk_name md)
   \<and> list_all is_scalar (sk_state md) \<and> list_all is_scalar (sk_created_at md)
   \<and> scalar_opt (sk_activated_at md)"

lemma scalar_u [simp]: "list_all is_scalar (u s)"
proof -
  have "is_scalar (of_char c)" for c :: char
  proof -
    have "(of_char c :: nat) < 256" by (rule nat_of_char_less_256)
    then show ?thesis unfolding is_scalar_def is_surrogate_def by linarith
  qed
  then show ?thesis by (simp add: u_def list_all_iff)
qed

lemma plain_JInt_small [simp]: "plain (JInt 2)" "plain (JInt 256)"
  by (rule plain_small_int; simp add: decimal_bound_large)+

lemma plain_aad_document: "scalar_key md \<Longrightarrow> plain (aad_document md)"
  using plain_small_int [of "sk_length md"]
  by (simp add: aad_document_def scalar_key_def STORE_SCHEMA_VERSION_def del: plain.simps(3))

lemma float_free_opt [simp]: "float_free (opt_str s)" "float_free (opt_int i)"
  by (cases s; simp) (cases i; simp)

lemma float_free_aad_document: "float_free (aad_document md)"
  by (simp add: aad_document_def)

lemma canonical_aad_eq:
  "canonical_aad e md = Inr (map byte_of (json_dumps (float_repr e) (aad_document md)))"
  by (simp add: canonical_aad_def encode_utf8_printable json_dumps_ascii float_free_aad_document)

lemma aad_document_inj:
  assumes "sort_keys (aad_document a) = sort_keys (aad_document b)"
  shows "a = (b :: stored_key)"
proof -
  obtain ms ms' where m: "aad_document a = JObj ms" "aad_document b = JObj ms'"
    by (simp add: aad_document_def)
  have "map_option sort_keys (jget ms (u k)) = map_option sort_keys (jget ms' (u k))" for k
    using assms m by (intro sort_keys_eq_lookup) (auto simp: aad_document_def)
  from this [of "''provider_id''"] this [of "''key_id''"] this [of "''algorithm''"]
    this [of "''length''"] this [of "''name''"] this [of "''state''"] this [of "''created_at''"]
    this [of "''activated_at''"] m
  show ?thesis by (simp add: aad_document_def jget_def) (cases a, cases b, auto)
qed

lemma canonical_aad_inj:
  assumes "scalar_key a" "scalar_key b" "canonical_aad e a = canonical_aad e b"
  shows "a = (b :: stored_key)"
proof -
  have "json_dumps (float_repr e) (aad_document a) = json_dumps (float_repr e) (aad_document b)"
    using assms by (intro byte_text_inj) (simp_all add: canonical_aad_eq json_dumps_ascii float_free_aad_document)
  then show ?thesis
    using json_dumps_inj plain_aad_document assms aad_document_inj by metis
qed

section \<open>The commitment\<close>

definition scalar_row :: "wrapped_row \<Rightarrow> bool" where
  "scalar_row r \<longleftrightarrow> scalar_key r \<and> list_all is_scalar (row_aad_json r)"

definition scalar_db :: "db \<Rightarrow> bool" where
  "scalar_db d \<longleftrightarrow>
     (\<forall>(n, v) \<in> set (store_metadata d). list_all is_scalar n \<and> list_all is_scalar v)
   \<and> (\<forall>r \<in> set (wrapped_keys d). scalar_row r)"

lemma plain_b64 [simp]: "list_all is_scalar (b64encode bs)"
  by (rule printable_scalar) (rule b64encode_all_printable)

lemma plain_row_document: "scalar_row r \<Longrightarrow> plain (row_document r)"
  using plain_small_int [of "sk_length r"]
  by (simp add: row_document_def scalar_row_def scalar_key_def del: plain.simps(3))

lemma row_document_inj:
  assumes "sort_keys (row_document a) = sort_keys (row_document b)"
  shows "a = b"
proof -
  obtain ms ms' where m: "row_document a = JObj ms" "row_document b = JObj ms'"
    by (simp add: row_document_def)
  have eq: "map_option sort_keys (jget ms (u k)) = map_option sort_keys (jget ms' (u k))" for k
    using assms m by (intro sort_keys_eq_lookup) (auto simp: row_document_def)
  from eq [of "''provider_id''"] eq [of "''key_id''"] eq [of "''algorithm''"]
    eq [of "''key_length''"] eq [of "''name''"] eq [of "''state''"] eq [of "''created_at''"]
    eq [of "''activated_at''"] eq [of "''nonce''"] eq [of "''ciphertext''"] eq [of "''aad_json''"] m
  show ?thesis
    by (simp add: row_document_def jget_def) (cases a, cases b, auto simp: b64encode_inj)
qed

lemma plain_commitment_document: "scalar_db d \<Longrightarrow> plain (commitment_document d)"
  by (auto simp: commitment_document_def scalar_db_def STORE_COMMITMENT_FORMAT_def
      ordered_rows_def plain_row_document)

lemma commitment_document_inj:
  assumes "sort_keys (commitment_document a) = sort_keys (commitment_document b)"
  shows "sort_key fst (store_metadata a) = sort_key fst (store_metadata b) \<and> ordered_rows a = ordered_rows b"
proof -
  obtain ms ms' where m: "commitment_document a = JObj ms" "commitment_document b = JObj ms'"
    by (simp add: commitment_document_def)
  have eq: "map_option sort_keys (jget ms (u k)) = map_option sort_keys (jget ms' (u k))" for k
    using assms m by (intro sort_keys_eq_lookup) (auto simp: commitment_document_def)
  have k: "map (sort_keys \<circ> row_document) (ordered_rows a) = map (sort_keys \<circ> row_document) (ordered_rows b)"
    using eq [of "''keys''"] m by (auto simp: commitment_document_def jget_def)
  have "inj (sort_keys \<circ> row_document)" by (rule injI) (simp add: row_document_inj)
  with k have rows: "ordered_rows a = ordered_rows b" by (rule map_injective)
  let ?g = "sort_keys \<circ> (\<lambda>(n, v). JArr [JStr n, JStr v])"
  have md: "map ?g (sort_key fst (store_metadata a)) = map ?g (sort_key fst (store_metadata b))"
    using eq [of "''metadata''"] m by (auto simp: commitment_document_def jget_def)
  have "inj ?g" by (rule injI) (auto split: prod.splits)
  with md rows show ?thesis by (blast intro: map_injective)
qed

text \<open>The bytes that are hashed determine the contents of the database up to row order.\<close>

definition commitment_bytes :: "platform \<Rightarrow> db \<Rightarrow> bytes" where
  "commitment_bytes e d = map byte_of (json_dumps (float_repr e) (commitment_document d))"

lemma float_free_commitment_document: "float_free (commitment_document d)"
  by (auto simp: commitment_document_def row_document_def)

lemma store_commitment_eq:
  "store_commitment e d = Inr (hexlify (sha256 e (commitment_bytes e d)))"
  by (simp add: store_commitment_def encode_utf8_printable json_dumps_ascii float_free_commitment_document
      commitment_bytes_def)

lemma commitment_bytes_inj:
  assumes "scalar_db a" "scalar_db b" "commitment_bytes e a = commitment_bytes e b"
  shows "sort_key fst (store_metadata a) = sort_key fst (store_metadata b) \<and> ordered_rows a = ordered_rows b"
proof (rule commitment_document_inj)
  have "json_dumps (float_repr e) (commitment_document a) = json_dumps (float_repr e) (commitment_document b)"
    using assms by (intro byte_text_inj)
      (simp_all add: commitment_bytes_def json_dumps_ascii float_free_commitment_document)
  then show "sort_keys (commitment_document a) = sort_keys (commitment_document b)"
    using json_dumps_inj plain_commitment_document assms by metis
qed

section \<open>The KEK file\<close>

text \<open>
  Envelopes the store writes: the pending fields are both set or both unset, and a pending
  generation is the successor of the current one.
\<close>

definition envelope_wf :: "kek_envelope \<Rightarrow> bool" where
  "envelope_wf v \<longleftrightarrow>
     length (env_kek v) = 32 \<and> 0 \<le> env_generation v \<and> list_all is_scalar (env_commitment v)
   \<and> (env_pending_generation v = None \<and> env_pending_commitment v = None
      \<or> env_pending_generation v = Some (env_generation v + 1)
        \<and> (\<exists>c. env_pending_commitment v = Some c \<and> list_all is_scalar c))"

text \<open>\<open>sealed e m v b\<close>: the file contents \<open>b\<close> were written for the envelope \<open>v\<close> under the key \<open>m\<close>.\<close>

definition kek_plaintext :: "platform \<Rightarrow> kek_envelope \<Rightarrow> bytes" where
  "kek_plaintext e v = map byte_of (json_dumps (float_repr e) (kek_payload v))"

definition kek_text :: "platform \<Rightarrow> bytes \<Rightarrow> bytes \<Rightarrow> pystr" where
  "kek_text e nonce ciphertext = json_dumps (float_repr e) (kek_document nonce ciphertext) @ [10]"

definition sealed :: "platform \<Rightarrow> bytes \<Rightarrow> kek_envelope \<Rightarrow> bytes \<Rightarrow> bool" where
  "sealed e mkey v contents \<longleftrightarrow>
     (\<exists>nonce. length nonce = 12 \<and>
        contents = map byte_of (kek_text e nonce (aes_encrypt e mkey nonce (kek_plaintext e v) KEK_AAD)))"

definition small_generation :: "kek_envelope \<Rightarrow> bool" where
  "small_generation v \<longleftrightarrow> nat (env_generation v + 1) < decimal_bound"

lemma plain_kek_payload:
  assumes "envelope_wf v" "small_generation v"
  shows "plain (kek_payload v)"
proof -
  have "plain (JInt (env_generation v))" "plain (JInt (env_generation v + 1))"
    by (rule plain_small_int; use assms in \<open>simp add: envelope_wf_def small_generation_def\<close>)+
  with assms show ?thesis
    by (auto simp: kek_payload_def envelope_wf_def scalar_opt_def simp del: plain.simps(3))
qed

lemma float_free_kek [simp]: "float_free (kek_payload v)" "float_free (kek_document n c)"
  by (simp_all add: kek_payload_def kek_document_def)

lemma plain_kek_document: "plain (kek_document n c)"
  by (simp add: kek_document_def KEK_ENVELOPE_FORMAT_def)

lemma decode_kek_text: "decode_utf8 (map byte_of (kek_text e n c)) = Inr (kek_text e n c)"
  and newlines_kek_text: "universal_newlines (kek_text e n c) = kek_text e n c"
proof -
  have p: "list_all printable (json_dumps (float_repr e) (kek_document n c))"
    by (simp add: json_dumps_ascii)
  then have "list_all (\<lambda>x. x < 128) (kek_text e n c)"
    by (auto simp: kek_text_def list_all_iff printable_def)
  then have "encode_utf8 (kek_text e n c) = Inr (map byte_of (kek_text e n c))"
    by (simp add: encode_utf8_def utf8_encode_ascii)
  then show "decode_utf8 (map byte_of (kek_text e n c)) = Inr (kek_text e n c)"
    by (rule decode_encode_utf8)
  have "13 \<notin> set (kek_text e n c)" using p by (auto simp: kek_text_def list_all_iff printable_def)
  then show "universal_newlines (kek_text e n c) = kek_text e n c"
    by (simp add: universal_newlines_def newlines_after_id)
qed

lemma encode_kek_text: "encode_utf8 (kek_text e n c) = Inr (map byte_of (kek_text e n c))"
proof -
  have "list_all (\<lambda>x. x < 128) (kek_text e n c)"
    using json_dumps_ascii [OF float_free_kek(2) [of n c], of "float_repr e"]
    by (auto simp: kek_text_def list_all_iff printable_def)
  then show ?thesis by (simp add: encode_utf8_def utf8_encode_ascii)
qed

lemma loads_kek_text: "loads e (kek_text e n c) = Inr (sort_keys (kek_document n c))"
  using json_loads_render_ws [OF plain_sort_keys [OF plain_kek_document [of n c]],
      of "[10]" "float_parse e" "float_repr e"]
  by (simp add: loads_def kek_text_def json_dumps_def skip_ws_def is_ws_def)

lemma read_payload_kek:
  assumes "envelope_wf v"
  shows "read_payload (sort_keys (kek_payload v)) = Inr v"
proof -
  obtain ms where ms: "kek_payload v = JObj ms" "distinct (map fst ms)"
    by (simp add: kek_payload_def)
  obtain ms' where ms': "sort_keys (JObj ms) = JObj ms'" by simp
  have look: "jget ms' (u k) = map_option sort_keys (jget ms (u k))" for k
    by (rule sort_keys_lookup [OF ms(2) ms'])
  have "jget ms' (u ''kek'') = Some (JStr (b64encode (env_kek v)))"
    "jget ms' (u ''generation'') = Some (JInt (env_generation v))"
    "jget ms' (u ''commitment'') = Some (JStr (env_commitment v))"
    "jget ms' (u ''pending_generation'') = Some (opt_int (env_pending_generation v))"
    "jget ms' (u ''pending_commitment'') = Some (opt_str (env_pending_commitment v))"
    using ms(1) unfolding look by (auto simp: kek_payload_def jget_def)
  with ms(1) ms' assms show ?thesis
    by (cases v) (auto simp: read_payload_def b64decode_encode Let_def int_in_def str_in_def absent_def
        envelope_wf_def)
qed

text \<open>A sealed KEK file opens with its key and gives back the envelope.\<close>

theorem open_sealed:
  assumes ok: "platform_ok e" and m: "length mkey = 32" and wf: "envelope_wf v" "small_generation v"
    and s: "sealed e mkey v contents"
  shows "open_kek_file e mkey contents = Inr v"
proof -
  obtain n where n: "length n = 12" and
    c: "contents = map byte_of (kek_text e n (aes_encrypt e mkey n (kek_plaintext e v) KEK_AAD))"
    using s by (auto simp: sealed_def)
  let ?ct = "aes_encrypt e mkey n (kek_plaintext e v) KEK_AAD"
  obtain ms where ms: "kek_document n ?ct = JObj ms" "distinct (map fst ms)"
    by (simp add: kek_document_def)
  obtain ms' where ms': "sort_keys (JObj ms) = JObj ms'" by simp
  have look: "jget ms' (u k) = map_option sort_keys (jget ms (u k))" for k
    by (rule sort_keys_lookup [OF ms(2) ms'])
  have fields: "jget ms' (u ''format'') = Some (JStr KEK_ENVELOPE_FORMAT)"
    "jget ms' (u ''nonce'') = Some (JStr (b64encode n))"
    "jget ms' (u ''ciphertext'') = Some (JStr (b64encode ?ct))"
    using ms(1) unfolding look by (auto simp: kek_document_def jget_def)
  have fmt: "KEK_ENVELOPE_FORMAT \<noteq> LEGACY_KEK_ENVELOPE_FORMAT"
    by (simp add: KEK_ENVELOPE_FORMAT_def LEGACY_KEK_ENVELOPE_FORMAT_def)
  have dec: "aesgcm_decrypt e mkey n ?ct KEK_AAD = Inr (kek_plaintext e v)"
    using ok m n by (simp add: aesgcm_decrypt_def platform_ok_def)
  have p: "plain (kek_payload v)" using wf by (rule plain_kek_payload)
  have pt: "decode_utf8 (kek_plaintext e v) = Inr (json_dumps (float_repr e) (kek_payload v))"
    unfolding kek_plaintext_def by (rule decode_utf8_printable) (rule json_dumps_ascii [OF float_free_kek(1)])
  have ld: "loads e (json_dumps (float_repr e) (kek_payload v)) = Inr (sort_keys (kek_payload v))"
    by (simp add: loads_def json_loads_dumps [OF p])
  have "open_envelope e mkey (JObj ms') = Inr v"
    using wf by (simp add: open_envelope_def envelope_format_def decode_envelope_value_def fields
        b64decode_encode fmt dec pt ld read_payload_kek envelope_wf_def)
  then show ?thesis
    unfolding open_kek_file_def c
    by (simp only: decode_kek_text newlines_kek_text loads_kek_text ms(1) ms' bindE_simps catchE_simps)
qed

end
