(* ===== verification/Kmip_Store_Inv.thy ===== *)
theory Kmip_Store_Inv
  imports Kmip_Store_Envelope
begin

text \<open>
  The invariant of the key store. \<open>consistent e d s\<close>: the database holds \<open>d\<close>, every row of it is
  authentic, and both the KEK file and the envelope the process remembers commit to \<open>d\<close>, either as
  the current or as the pending contents. Every step of the store keeps it, whatever the platform
  answers, so a process that dies at any point leaves a store that opens again.
\<close>

section \<open>The invariant\<close>

definition commitment_of :: "platform \<Rightarrow> db \<Rightarrow> pystr" where
  "commitment_of e d = hexlify (sha256 e (commitment_bytes e d))"

definition commits_to :: "platform \<Rightarrow> db \<Rightarrow> kek_envelope \<Rightarrow> bool" where
  "commits_to e d v \<longleftrightarrow> env_commitment v \<noteq> [] \<and>
     (env_commitment v = commitment_of e d \<or> env_pending_commitment v = Some (commitment_of e d))"

definition envelope_ok :: "platform \<Rightarrow> bytes \<Rightarrow> db \<Rightarrow> nat \<Rightarrow> kek_envelope \<Rightarrow> bool" where
  "envelope_ok e kek d n v \<longleftrightarrow>
     envelope_wf v \<and> env_kek v = kek \<and> env_generation v \<le> int n \<and> commits_to e d v"

definition canonical_uuid :: "pystr \<Rightarrow> bool" where
  "canonical_uuid s \<longleftrightarrow> (\<exists>b. length b = 16 \<and> s = uuid_str b)"

definition row_wf :: "platform \<Rightarrow> bytes \<Rightarrow> wrapped_row \<Rightarrow> bool" where
  "row_wf e kek r \<longleftrightarrow>
     scalar_row r \<and> row_checks r \<and> canonical_uuid (sk_provider_id r) \<and> canonical_uuid (sk_key_id r)
   \<and> (\<exists>key. decrypt_row e kek r = Inr (metadata r, key))"

definition row_id :: "'a stored_key_scheme \<Rightarrow> pystr \<times> pystr" where
  "row_id r = (sk_provider_id r, sk_key_id r)"

definition db_wf :: "platform \<Rightarrow> bytes \<Rightarrow> db \<Rightarrow> bool" where
  "db_wf e kek d \<longleftrightarrow>
     distinct (map row_id (wrapped_keys d)) \<and> (\<forall>r \<in> set (wrapped_keys d). row_wf e kek r)
   \<and> store_metadata d = [(u ''schema_version'', schema_version)]"

definition consistent :: "platform \<Rightarrow> db \<Rightarrow> store \<Rightarrow> bool" where
  "consistent e d s \<longleftrightarrow>
     length (self_master_key s) = 32 \<and> length (self_kek s) = 32
   \<and> database s = Some d \<and> db_wf e (self_kek s) d
   \<and> envelope_ok e (self_kek s) d (tick s) (self_envelope s)
   \<and> (\<exists>f b. kek_file s = Some b \<and> sealed e (self_master_key s) f b
          \<and> envelope_ok e (self_kek s) d (tick s) f)"

definition same_keys :: "store \<Rightarrow> store \<Rightarrow> bool" where
  "same_keys s s' \<longleftrightarrow> self_master_key s' = self_master_key s \<and> self_kek s' = self_kek s
     \<and> tick s \<le> tick s'"

lemma same_keys_refl [simp]: "same_keys s s"
  by (simp add: same_keys_def)

lemma same_keys_trans: "same_keys s t \<Longrightarrow> same_keys t w \<Longrightarrow> same_keys s w"
  by (auto simp: same_keys_def)

lemma consistent_basics:
  assumes "consistent e d s"
  shows "length (self_master_key s) = 32" "length (self_kek s) = 32" "database s = Some d"
    "db_wf e (self_kek s) d" "envelope_ok e (self_kek s) d (tick s) (self_envelope s)"
  using assms by (simp_all add: consistent_def)

lemma consistent_unique: "consistent e d s \<Longrightarrow> consistent e d' s \<Longrightarrow> d' = d"
  by (simp add: consistent_def)

lemma store_commitment_of: "store_commitment e d = Inr (commitment_of e d)"
  by (simp add: store_commitment_eq commitment_of_def)

lemma commitment_of_facts [simp]:
  "list_all is_scalar (commitment_of e d)"
  "platform_ok e \<Longrightarrow> commitment_of e d \<noteq> []"
proof -
  show "list_all is_scalar (commitment_of e d)"
    unfolding commitment_of_def by (rule printable_scalar) (rule hexlify_printable)
  assume "platform_ok e"
  then have "length (sha256 e (commitment_bytes e d)) = 32" by (simp add: platform_ok_def)
  then have "length (commitment_of e d) = 64" by (simp add: commitment_of_def)
  then show "commitment_of e d \<noteq> []" by auto
qed

lemma envelope_ok_mono: "envelope_ok e k d n v \<Longrightarrow> n \<le> m \<Longrightarrow> envelope_ok e k d m v"
  by (simp add: envelope_ok_def)

lemma consistent_tick: "consistent e d s \<Longrightarrow> tick s \<le> n \<Longrightarrow> consistent e d (s\<lparr>tick := n\<rparr>)"
  unfolding consistent_def by (auto intro: envelope_ok_mono)

section \<open>Writing an envelope\<close>

definition kek_contents :: "platform \<Rightarrow> bytes \<Rightarrow> kek_envelope \<Rightarrow> nat \<Rightarrow> bytes" where
  "kek_contents e mkey v t =
     (let n = os_urandom e t 12
      in map byte_of (kek_text e n (aes_encrypt e mkey n (kek_plaintext e v) KEK_AAD)))"

lemma sealed_contents: "platform_ok e \<Longrightarrow> sealed e mkey v (kek_contents e mkey v t)"
  unfolding sealed_def kek_contents_def Let_def platform_ok_def by blast

lemma write_kek_envelope_eq:
  assumes "length mkey = 32"
  shows "write_kek_envelope e mkey v s =
    (let b = Some (kek_contents e mkey v (tick s)); s' = s\<lparr>tick := tick s + 2\<rparr>
     in case write_outcome e (Suc (tick s)) of
          Written \<Rightarrow> (Inr (), s'\<lparr>kek_file := b\<rparr>)
        | FailedBefore \<Rightarrow> (Inl OSError, s')
        | FailedAfter \<Rightarrow> (Inl OSError, s'\<lparr>kek_file := b\<rparr>))"
proof -
  have p: "encode_utf8 (json_dumps (float_repr e) (kek_payload v)) = Inr (kek_plaintext e v)"
    by (simp add: kek_plaintext_def encode_utf8_printable json_dumps_ascii)
  show ?thesis
    unfolding write_kek_envelope_def p kek_text_def [symmetric] encode_kek_text
    using assms
    by (simp add: draw_def bindS_def liftS_def aesgcm_encrypt_def encode_kek_text kek_contents_def
        Let_def modifyS_def raiseS_def split: write_result.split)
qed

text \<open>
  Writing an envelope that commits to the current database keeps the store consistent, whether
  or not the write succeeds.
\<close>

lemma write_envelope_spec:
  assumes "platform_ok e" "consistent e d s" "envelope_ok e (self_kek s) d (tick s + 2) v"
    "write_envelope e v s = (r, s')"
  shows "consistent e d s' \<and> same_keys s s'
    \<and> (r = Inr () \<and> self_envelope s' = v \<and> (\<exists>b. kek_file s' = Some b \<and> sealed e (self_master_key s) v b)
       \<or> r = Inl OSError \<and> self_envelope s' = self_envelope s)"
proof -
  have m: "length (self_master_key s) = 32" using assms(2) by (rule consistent_basics)
  note seal = sealed_contents [OF assms(1), of "self_master_key s" v "tick s"]
  have c: "consistent e d (s\<lparr>tick := tick s + 2\<rparr>)"
    using assms(2) by (rule consistent_tick) simp
  have c': "consistent e d (s\<lparr>tick := tick s + 2, kek_file := Some (kek_contents e (self_master_key s) v (tick s))\<rparr>)"
    using c seal assms(3) unfolding consistent_def by auto
  show ?thesis
    using assms(3,4) c c' seal m
    by (auto simp: write_envelope_def bindS_def [of "write_kek_envelope e m v" for m] write_kek_envelope_eq
        Let_def modifyS_def same_keys_def consistent_def split: write_result.splits)
qed

section \<open>Verification and commit\<close>

lemma fresh_envelope_ok:
  assumes "platform_ok e" "length kek = 32" "0 \<le> g" "g \<le> int n"
  shows "envelope_ok e kek d n (fresh_envelope kek g (commitment_of e d))"
  using assms by (simp add: envelope_ok_def envelope_wf_def fresh_envelope_def commits_to_def)

definition settled :: "platform \<Rightarrow> db \<Rightarrow> store \<Rightarrow> bool" where
  "settled e d s \<longleftrightarrow> env_commitment (self_envelope s) = commitment_of e d
     \<and> env_pending_commitment (self_envelope s) = None"

text \<open>
  In a consistent store the check of the commitment succeeds unless the KEK file cannot be
  rewritten; it then leaves an envelope without pending contents.
\<close>

lemma verify_spec:
  assumes ok: "platform_ok e" and c: "consistent e d s"
    and v: "verify_store_commitment e d s = (r, s')"
  shows "consistent e d s' \<and> same_keys s s' \<and> (r = Inr () \<and> settled e d s' \<or> r = Inl OSError)"
proof -
  let ?v = "self_envelope s" and ?k = "self_kek s"
  have ev: "envelope_ok e ?k d (tick s) ?v" and k: "length ?k = 32"
    using c by (simp_all add: consistent_basics)
  then have com: "env_commitment ?v \<noteq> []" "0 \<le> env_generation ?v" "env_generation ?v \<le> int (tick s)"
    by (simp_all add: envelope_ok_def commits_to_def envelope_wf_def)
  have w: "consistent e d s' \<and> same_keys s s' \<and> (r = Inr () \<and> settled e d s' \<or> r = Inl OSError)"
    if "write_envelope e (fresh_envelope ?k g (commitment_of e d)) s = (r, s')" "0 \<le> g" "g \<le> int (tick s) + 2" for g
  proof -
    have "envelope_ok e ?k d (tick s + 2) (fresh_envelope ?k g (commitment_of e d))"
      using ok k that by (intro fresh_envelope_ok) auto
    from write_envelope_spec [OF ok c this that(1)] show ?thesis
      by (auto simp: settled_def fresh_envelope_def)
  qed
  show ?thesis
  proof (cases "commitment_of e d = env_commitment ?v")
    case True
    show ?thesis
    proof (cases "env_pending_commitment ?v = None")
      case True
      with \<open>commitment_of e d = env_commitment ?v\<close> com v have "r = Inr ()" "s' = s"
        by (auto simp: verify_store_commitment_def store_commitment_of returnS_def)
      with True \<open>commitment_of e d = env_commitment ?v\<close> c show ?thesis by (simp add: settled_def)
    next
      case False
      with True com v w [of "env_generation ?v"] show ?thesis
        by (simp add: verify_store_commitment_def store_commitment_of)
    qed
  next
    case False
    with ev have p: "env_pending_commitment ?v = Some (commitment_of e d)"
      "env_pending_generation ?v = Some (env_generation ?v + 1)"
      by (auto simp: envelope_ok_def commits_to_def envelope_wf_def)
    with False com v w [of "env_generation ?v + 1"] show ?thesis
      by (simp add: verify_store_commitment_def store_commitment_of)
  qed
qed

text \<open>
  A mutation ends in the old or in the new database; it returns only if the new one is in
  place, and whatever happens both the file and the process commit to what is on disk.
\<close>

lemma commit_spec:
  assumes ok: "platform_ok e" and c: "consistent e d s" and st: "settled e d s"
    and wf: "db_wf e (self_kek s) d'" and cm: "commit_mutation e d' s = (r, s')"
  shows "\<exists>d''. consistent e d'' s' \<and> same_keys s s'
    \<and> (r = Inr () \<and> d'' = d' \<or> (\<exists>ex. r = Inl ex) \<and> d'' \<in> {d, d'})"
proof -
  let ?v = "self_envelope s" and ?k = "self_kek s"
  let ?p = "\<lparr>env_kek = ?k, env_generation = env_generation ?v, env_commitment = env_commitment ?v,
     env_pending_generation = Some (env_generation ?v + 1),
     env_pending_commitment = Some (commitment_of e d')\<rparr>"
  have ev: "envelope_ok e ?k d (tick s) ?v" and k: "length ?k = 32"
    using c by (simp_all add: consistent_basics)
  have gen: "0 \<le> env_generation ?v" "env_generation ?v \<le> int (tick s)"
    using ev by (simp_all add: envelope_ok_def envelope_wf_def)
  have com: "env_commitment ?v = commitment_of e d" using st by (simp add: settled_def)
  have p: "envelope_ok e ?k d (tick s + 2) ?p" "\<And>n. tick s \<le> n \<Longrightarrow> envelope_ok e ?k d' n ?p"
    using k gen com ok by (auto simp: envelope_ok_def envelope_wf_def commits_to_def)
  obtain r1 s1 where w1: "write_envelope e ?p s = (r1, s1)" by fastforce
  note sp1 = write_envelope_spec [OF ok c p(1) w1]
  show ?thesis
  proof (cases r1)
    case (Inl ex)
    with w1 cm have "r = Inl ex \<and> s' = s1"
      by (simp add: commit_mutation_def store_commitment_of bindS_def [of "write_envelope e x" for x])
    with sp1 show ?thesis by blast
  next
    case (Inr x)
    define s2 where "s2 = s1\<lparr>tick := Suc (tick s1)\<rparr>"
    have s2: "consistent e d s2" "same_keys s s2" "self_envelope s2 = ?p" "self_kek s2 = ?k"
      "\<exists>b. kek_file s2 = Some b \<and> sealed e (self_master_key s2) ?p b"
      using sp1 Inr by (auto simp: s2_def consistent_tick same_keys_def)
    have rest: "(case commit_outcome e (tick s1) of
         Some ex \<Rightarrow> bindS (write_envelope e (fresh_envelope ?k (env_generation ?v) (env_commitment ?v))) (\<lambda>_. raiseS ex)
       | None \<Rightarrow> bindS (modifyS (database_update (\<lambda>_. Some d')))
           (\<lambda>_. write_envelope e (fresh_envelope ?k (env_generation ?v + 1) (commitment_of e d')))) s2 = (r, s')"
      using cm w1 Inr
      by (simp add: commit_mutation_def store_commitment_of bindS_def [of "write_envelope e ?p"]
          bindS_def [of "draw x" for x] draw_def s2_def split: option.splits)
    show ?thesis
    proof (cases "commit_outcome e (tick s1)")
      case (Some ex)
      obtain r3 s3 where w3: "write_envelope e (fresh_envelope ?k (env_generation ?v) (env_commitment ?v)) s2 = (r3, s3)"
        by fastforce
      have "envelope_ok e (self_kek s2) d (tick s2 + 2) (fresh_envelope ?k (env_generation ?v) (env_commitment ?v))"
        unfolding com s2(4) using ok k gen s2(2) by (intro fresh_envelope_ok) (auto simp: same_keys_def)
      from write_envelope_spec [OF ok s2(1) this w3] s2(2) Some rest w3
      show ?thesis by (auto simp: bindS_def raiseS_def split: sum.splits dest: same_keys_trans)
    next
      case None
      have c3: "consistent e d' (s2\<lparr>database := Some d'\<rparr>)"
        using s2 wf p(2) [of "tick s2"] by (auto simp: consistent_def same_keys_def)
      have "envelope_ok e ?k d' (tick s2 + 2) (fresh_envelope ?k (env_generation ?v + 1) (commitment_of e d'))"
        using ok k gen s2(2) by (intro fresh_envelope_ok) (auto simp: same_keys_def)
      with write_envelope_spec [OF ok c3, of "fresh_envelope ?k (env_generation ?v + 1) (commitment_of e d')" r s']
        rest None s2(2,4)
      show ?thesis by (auto simp: same_keys_def)
    qed
  qed
qed

end
