(* ===== verification/Kmip_Store_Refine.thy ===== *)
theory Kmip_Store_Refine
  imports Kmip_Store_Inv
begin

text \<open>
  The abstract view of the key store and the refinement of every operation to it. A \<open>vault\<close> maps
  a provider and a key identifier to the metadata and the plaintext of the key; encryption,
  the database, the KEK file and the commitments have disappeared. The locale
  \<open>provider_operation\<close> is the contract all operations share: they act on one provider namespace,
  lose no key and move a key only from Pre-Active to Active.
\<close>

type_synonym vault = "(pystr \<times> pystr) \<rightharpoonup> (stored_key \<times> bytes)"

definition view :: "platform \<Rightarrow> bytes \<Rightarrow> db \<Rightarrow> vault" where
  "view e kek d i =
     (case find (\<lambda>r. row_id r = i) (wrapped_keys d) of
        None \<Rightarrow> None
      | Some r \<Rightarrow> (case decrypt_row e kek r of Inl ex \<Rightarrow> None | Inr x \<Rightarrow> Some x))"

definition namespace_of :: "platform \<Rightarrow> pystr \<Rightarrow> pystr option" where
  "namespace_of e p = map_option uuid_str (uuid_of_str (ascii_fold e) p)"

definition advances :: "stored_key \<Rightarrow> stored_key \<Rightarrow> bool" where
  "advances md md' \<longleftrightarrow> md' = md \<or>
     sk_state md = PRE_ACTIVE \<and> (\<exists>t. md' = md\<lparr>sk_state := ACTIVE, sk_activated_at := Some t\<rparr>)"

definition evolves :: "pystr option \<Rightarrow> vault \<Rightarrow> vault \<Rightarrow> bool" where
  "evolves ns V V' \<longleftrightarrow>
     (\<forall>q k. ns \<noteq> Some q \<longrightarrow> V' (q, k) = V (q, k))
   \<and> (\<forall>i md key. V i = Some (md, key) \<longrightarrow> (\<exists>md'. V' i = Some (md', key) \<and> advances md md'))"

section \<open>Vaults\<close>

lemma advances_refl [simp]: "advances md md"
  by (simp add: advances_def)

lemma advances_trans: "advances a b \<Longrightarrow> advances b c \<Longrightarrow> advances a c"
  by (auto simp: advances_def)

lemma evolves_refl [simp]: "evolves ns V V"
  by (auto simp: evolves_def)

lemma evolves_trans:
  assumes "evolves ns U V" "evolves ns V W"
  shows "evolves ns U W"
proof -
  have "\<exists>md'. W i = Some (md', key) \<and> advances md md'" if u: "U i = Some (md, key)" for i md key
  proof -
    obtain md1 where "V i = Some (md1, key)" "advances md md1"
      using u assms(1) unfolding evolves_def by blast
    moreover from this obtain md2 where "W i = Some (md2, key)" "advances md1 md2"
      using assms(2) unfolding evolves_def by blast
    ultimately show ?thesis using advances_trans by blast
  qed
  moreover have "W (q, k) = U (q, k)" if "ns \<noteq> Some q" for q k
    using that assms by (simp add: evolves_def)
  ultimately show ?thesis by (simp add: evolves_def)
qed

lemma evolves_insert: "V (q, k) = None \<Longrightarrow> evolves (Some q) V (V((q, k) \<mapsto> x))"
  by (auto simp: evolves_def)

lemma evolves_advance:
  "V (q, k) = Some (md, key) \<Longrightarrow> advances md md' \<Longrightarrow> evolves (Some q) V (V((q, k) \<mapsto> (md', key)))"
  by (auto simp: evolves_def)

section \<open>Rows\<close>

lemma validated_uuid_eq:
  "validated_uuid e p l =
     (case namespace_of e p of None \<Rightarrow> Inl (ValueError (l @ '' must be a UUID.'')) | Some q \<Rightarrow> Inr q)"
  by (simp add: validated_uuid_def namespace_of_def split: option.split)

lemma namespace_canonical: "namespace_of e p = Some q \<Longrightarrow> canonical_uuid q"
  by (auto simp: namespace_of_def canonical_uuid_def dest: uuid_of_str_length)

lemma namespace_of_canonical: "canonical_uuid q \<Longrightarrow> namespace_of e q = Some q"
  by (auto simp: namespace_of_def canonical_uuid_def uuid_of_str_uuid_str)

lemma canonical_scalar: "canonical_uuid q \<Longrightarrow> list_all is_scalar q"
  by (auto simp: canonical_uuid_def intro: printable_scalar uuid_str_printable)

lemma same_key_row_id: "same_key p k = (\<lambda>r. row_id r = (p, k))"
  by (simp add: same_key_def row_id_def fun_eq_iff)

lemma find_row:
  assumes "distinct (map row_id rs)" "r \<in> set rs"
  shows "find (\<lambda>x. row_id x = row_id r) rs = Some r"
  using assms by (induction rs) force+

lemma find_None: "i \<notin> row_id ` set rs \<Longrightarrow> find (\<lambda>r. row_id r = i) rs = None"
  by (auto simp: find_None_iff)

lemma find_SomeD: "find (\<lambda>r. row_id r = i) rs = Some r \<Longrightarrow> r \<in> set rs \<and> row_id r = i"
  by (auto simp: find_Some_iff)

lemma find_self:
  "find (\<lambda>r. row_id r = i) rs = Some x \<Longrightarrow> find (\<lambda>r. row_id r = row_id x) rs = Some (x :: wrapped_row)"
  using find_SomeD [of i rs x] by simp

lemma view_row:
  assumes "db_wf e kek d" "r \<in> set (wrapped_keys d)" "decrypt_row e kek r = Inr (metadata r, key)"
  shows "view e kek d (row_id r) = Some (metadata r, key)"
  using assms find_row [of "wrapped_keys d" r] by (simp add: view_def db_wf_def)

lemma view_SomeD:
  assumes "view e kek d i = Some x"
  obtains r where "find (\<lambda>r. row_id r = i) (wrapped_keys d) = Some r" "decrypt_row e kek r = Inr x"
  using assms by (auto simp: view_def split: option.splits sum.splits)

lemma decrypt_row_result: "decrypt_row e kek r = Inr (md, key) \<Longrightarrow> md = metadata r \<and> length key = 32"
  by (auto simp: decrypt_row_def bindE_eq_Inr)

text \<open>\<open>_row\<close> followed by \<open>_decrypt_row\<close> is a lookup in the vault.\<close>

definition lookup :: "platform \<Rightarrow> vault \<Rightarrow> pystr \<Rightarrow> pystr \<Rightarrow> exn + (stored_key \<times> bytes)" where
  "lookup e V provider_id key_id =
     bindE (validated_uuid e provider_id ''provider_id'') (\<lambda>p.
     bindE (validated_uuid e key_id ''key_id'') (\<lambda>k.
       case V (p, k) of
         None \<Rightarrow> Inl (KeyNotFoundError ''KMIP key was not found in the authenticated provider.'')
       | Some x \<Rightarrow> Inr x))"

lemma row_decrypt_lookup:
  assumes "db_wf e kek d"
  shows "bindE (row_of e d p k) (decrypt_row e kek) = lookup e (view e kek d) p k"
proof -
  have "bindE (case find (\<lambda>r. row_id r = i) (wrapped_keys d) of None \<Rightarrow> Inl ex | Some r \<Rightarrow> Inr r) (decrypt_row e kek)
      = (case view e kek d i of None \<Rightarrow> Inl ex | Some x \<Rightarrow> Inr x)" for ex i
  proof (cases "find (\<lambda>r. row_id r = i) (wrapped_keys d)")
    case (Some r)
    then have "r \<in> set (wrapped_keys d)" using find_SomeD by blast
    with assms obtain key where "decrypt_row e kek r = Inr (metadata r, key)"
      by (auto simp: db_wf_def row_wf_def)
    with Some show ?thesis by (simp add: view_def)
  qed (simp add: view_def)
  then show ?thesis
    by (cases "namespace_of e p"; cases "namespace_of e k")
      (simp_all add: row_of_def lookup_def same_key_row_id validated_uuid_eq)
qed

section \<open>Reading operations\<close>

lemma connect_consistent: "consistent e d s \<Longrightarrow> connect s = (Inr d, s)"
  by (simp add: connect_def consistent_def returnS_def)

text \<open>Every operation starts by connecting and checking the commitment.\<close>

lemma verified_run:
  assumes ok: "platform_ok e" and c: "consistent e d s"
    and run: "bindS connect (\<lambda>c. bindS (verify_store_commitment e c) (\<lambda>_. f c)) s = (r, s')"
  obtains (failed) "r = Inl OSError" "consistent e d s'" "same_keys s s'"
  | (verified) s1 where "consistent e d s1" "settled e d s1" "same_keys s s1" "f d s1 = (r, s')"
proof -
  obtain r1 s1 where v: "verify_store_commitment e d s = (r1, s1)" by fastforce
  from run have run': "bindS (verify_store_commitment e d) (\<lambda>_. f d) s = (r, s')"
    using connect_consistent [OF c] by (simp add: bindS_def [of connect])
  from verify_spec [OF ok c v] show thesis
  proof (elim conjE disjE)
    assume "r1 = Inr ()" "settled e d s1" "consistent e d s1" "same_keys s s1"
    with run' v show thesis by (intro verified) (simp_all add: bindS_def)
  next
    assume "r1 = Inl OSError" "consistent e d s1" "same_keys s s1"
    with run' v show thesis by (intro failed) (simp_all add: bindS_def)
  qed
qed

lemma get_key_refines:
  assumes ok: "platform_ok e" and c: "consistent e d s" and run: "get_key e p k s = (r, s')"
  shows "consistent e d s' \<and> same_keys s s' \<and> (r = Inl OSError \<or> r = lookup e (view e (self_kek s) d) p k)"
  using ok c run [unfolded get_key_def]
proof (cases rule: verified_run)
  case (verified s1)
  then have "r = bindE (row_of e d p k) (decrypt_row e (self_kek s1)) \<and> s' = s1"
    by (cases "row_of e d p k") (auto simp: raiseS_def liftS_def)
  moreover have "self_kek s1 = self_kek s" using verified by (simp add: same_keys_def)
  ultimately show ?thesis
    using verified consistent_basics(4) [OF c] by (simp add: row_decrypt_lookup)
qed simp

lemma get_metadata_refines:
  assumes ok: "platform_ok e" and c: "consistent e d s" and run: "get_metadata e p k s = (r, s')"
  shows "consistent e d s' \<and> same_keys s s'
    \<and> (r = Inl OSError \<or> r = bindE (lookup e (view e (self_kek s) d) p k) (\<lambda>(md, key). Inr md))"
  using ok c run [unfolded get_metadata_def]
proof (cases rule: verified_run)
  case (verified s1)
  then have "r = bindE (bindE (row_of e d p k) (decrypt_row e (self_kek s1))) (\<lambda>(md, key). Inr md) \<and> s' = s1"
    by (auto simp: bindE_def bindS_def raiseS_def liftS_def returnS_def getS_def split: sum.splits)
  moreover have "self_kek s1 = self_kek s" using verified by (simp add: same_keys_def)
  ultimately show ?thesis
    using verified consistent_basics(4) [OF c] by (simp add: row_decrypt_lookup)
qed simp

section \<open>Creating a key\<close>

lemma metadata_extend_row: "metadata (extend_row md n c a) = md"
  by (simp add: metadata_def extend_row_def stored_key.defs)

lemma extend_row_simps [simp]:
  "row_nonce (extend_row md n c a) = n" "row_ciphertext (extend_row md n c a) = c"
  "row_aad_json (extend_row md n c a) = a" "row_id (extend_row md n c a) = row_id md"
  "sk_provider_id (extend_row md n c a) = sk_provider_id md" "sk_key_id (extend_row md n c a) = sk_key_id md"
  "sk_name (extend_row md n c a) = sk_name md" "sk_state (extend_row md n c a) = sk_state md"
  by (simp_all add: extend_row_def stored_key.defs row_id_def)

lemma decrypt_wrapped:
  assumes "platform_ok e" "length kek = 32" "length n = 12" "length key = 32"
    "canonical_aad e (metadata r) = Inr aad" "decode_utf8 aad = Inr (row_aad_json r)"
    "row_nonce r = n" "row_ciphertext r = aes_encrypt e kek n key aad"
  shows "decrypt_row e kek r = Inr (metadata r, key)"
proof -
  have "encode_utf8 (row_aad_json r) = Inr aad"
    using assms(6) utf8.enc_dec by (auto simp: encode_utf8_def decode_utf8_def split: sum.splits)
  moreover have "aes_decrypt e kek n (aes_encrypt e kek n key aad) aad = Inr key"
    using assms by (simp add: platform_ok_def)
  ultimately show ?thesis using assms by (simp add: decrypt_row_def aesgcm_decrypt_def)
qed

lemma canonical_aad_text:
  "canonical_aad e md = Inr aad \<Longrightarrow> decode_utf8 aad = Inr t \<Longrightarrow> list_all is_scalar t"
proof -
  assume a: "canonical_aad e md = Inr aad" "decode_utf8 aad = Inr t"
  have p: "list_all printable (json_dumps (float_repr e) (aad_document md))"
    by (rule json_dumps_ascii) (rule float_free_aad_document)
  with a have "t = json_dumps (float_repr e) (aad_document md)"
    using decode_utf8_printable [OF p] by (simp add: canonical_aad_eq)
  with p show ?thesis by (simp add: printable_scalar)
qed

lemma view_insert:
  assumes "row_id r \<notin> row_id ` set (wrapped_keys d)" "decrypt_row e kek r = Inr (metadata r, key)"
  shows "view e kek (d\<lparr>wrapped_keys := wrapped_keys d @ [r]\<rparr>) = (view e kek d)(row_id r \<mapsto> (metadata r, key))"
proof
  fix i
  have ap: "find P (xs @ [y]) = (case find P xs of None \<Rightarrow> if P y then Some y else None | Some z \<Rightarrow> Some z)"
    for P :: "wrapped_row \<Rightarrow> bool" and xs y by (induction xs) simp_all
  show "view e kek (d\<lparr>wrapped_keys := wrapped_keys d @ [r]\<rparr>) i =
      ((view e kek d)(row_id r \<mapsto> (metadata r, key))) i"
    using assms find_None [OF assms(1)] by (auto simp: view_def ap split: option.splits)
qed

lemma insert_rowD:
  assumes "insert_row r d = Inr d'"
  shows "d' = d\<lparr>wrapped_keys := wrapped_keys d @ [r]\<rparr>" "row_checks r" "scalar_opt (sk_name r)"
    "row_id r \<notin> row_id ` set (wrapped_keys d)"
  using assms by (auto simp: insert_row_def same_key_row_id row_id_def split: if_splits)

lemma db_wf_insert:
  assumes "db_wf e kek d" "insert_row r d = Inr d'" "row_wf e kek r"
  shows "db_wf e kek d'"
  using assms insert_rowD [OF assms(2)] by (auto simp: db_wf_def)

text \<open>
  The row \<open>create_key\<close> inserts. \<open>new_key\<close> is the metadata it returns.
\<close>

definition new_key :: "pystr \<Rightarrow> pystr \<Rightarrow> pystr option \<Rightarrow> pystr \<Rightarrow> stored_key" where
  "new_key provider key_id name created_at =
     \<lparr>sk_provider_id = provider, sk_key_id = key_id, sk_algorithm = u ''AES'', sk_length = 256,
      sk_name = name, sk_state = PRE_ACTIVE, sk_created_at = created_at, sk_activated_at = None\<rparr>"

lemma new_row_wf:
  assumes ok: "platform_ok e" and k: "length kek = 32" "length n = 12" "length key = 32"
    and md: "md = new_key q kid name t" and q: "canonical_uuid q" "canonical_uuid kid"
    and t: "list_all is_scalar t" and aad: "canonical_aad e md = Inr aad" "decode_utf8 aad = Inr a"
    and r: "r = extend_row md n (aes_encrypt e kek n key aad) a" and ins: "insert_row r d = Inr d'"
  shows "row_wf e kek r" "decrypt_row e kek r = Inr (md, key)"
proof -
  have m: "metadata r = md" by (simp add: r metadata_extend_row)
  show dec: "decrypt_row e kek r = Inr (md, key)"
    using decrypt_wrapped [OF ok k, of r aad] aad m by (simp add: r)
  have "scalar_opt name" using insert_rowD(3) [OF ins] by (simp add: r md new_key_def)
  then have "scalar_row r"
    using q t canonical_aad_text [OF aad] canonical_scalar decimal_bound_large
    by (simp add: r scalar_row_def scalar_key_def extend_row_def stored_key.defs md new_key_def scalar_opt_def)
  with insert_rowD(2) [OF ins] q dec m show "row_wf e kek r"
    by (auto simp: row_wf_def r md new_key_def)
qed

text \<open>A mutation followed by \<open>return\<close>: the shared end of \<open>create_key\<close> and \<open>activate_key\<close>.\<close>

lemma commit_return_spec:
  assumes ok: "platform_ok e" and c: "consistent e d s" "settled e d s" "db_wf e (self_kek s) d'"
    and run: "bindS (commit_mutation e d') (\<lambda>_. returnS x) s = (r, s')"
  obtains (unchanged) ex where "consistent e d s'" "same_keys s s'" "r = Inl ex"
  | (changed) "consistent e d' s'" "same_keys s s'" "r = Inr x \<or> (\<exists>ex. r = Inl ex)"
proof -
  obtain r1 s1 where cm: "commit_mutation e d' s = (r1, s1)" by fastforce
  have "r = bindE r1 (\<lambda>_. Inr x) \<and> s' = s1"
    using run cm by (auto simp: bindS_def returnS_def split: sum.splits)
  with commit_spec [OF ok c cm] unchanged changed show thesis by (auto simp: bindE_def)
qed

text \<open>Up to the database transaction, \<open>create_key\<close> only draws random bytes and the time.\<close>

lemma create_key_prefix:
  assumes "platform_ok e" "length (self_kek s) = 32" "namespace_of e p = Some q" "\<not> bad_name name"
  obtains kid t key n aad a where
    "kid = uuid_str (uuid4_of (os_urandom e (tick s) 16))" "canonical_uuid kid" "list_all is_scalar t" "length key = 32" "length n = 12"
    "canonical_aad e (new_key q kid name t) = Inr aad" "decode_utf8 aad = Inr a"
    "create_key e p name s =
       bindS connect (\<lambda>c. bindS (verify_store_commitment e c) (\<lambda>_.
       bindS (liftS (insert_row (extend_row (new_key q kid name t) n
                (aes_encrypt e (self_kek s) n key aad) a) c)) (\<lambda>c'.
       bindS (commit_mutation e c') (\<lambda>_. returnS (new_key q kid name t))))) (s\<lparr>tick := tick s + 4\<rparr>)"
proof -
  let ?kid = "uuid_str (uuid4_of (os_urandom e (tick s) 16))" and ?t = "utc_now e (Suc (tick s))"
  obtain aad where aad: "canonical_aad e (new_key q ?kid name ?t) = Inr aad"
    by (simp add: canonical_aad_eq)
  obtain a where a: "decode_utf8 aad = Inr a"
    using aad decode_utf8_printable [OF json_dumps_ascii [OF float_free_aad_document]]
    by (auto simp: canonical_aad_eq)
  have kid: "canonical_uuid ?kid"
    unfolding canonical_uuid_def using assms(1)
    by (intro exI [of _ "uuid4_of (os_urandom e (tick s) 16)"]) (simp add: platform_ok_def)
  show thesis
    by (rule that [OF refl kid _ _ _ aad a, of "os_urandom e (tick s + 2) 32" "os_urandom e (tick s + 3) 12"])
      (use assms aad a in \<open>simp_all add: platform_ok_def create_key_def validated_uuid_eq
         bindS_def [of "draw f" for f] draw_def aesgcm_encrypt_def numeral_eq_Suc new_key_def Let_def\<close>)
qed

definition created :: "platform \<Rightarrow> pystr \<Rightarrow> pystr option \<Rightarrow> vault \<Rightarrow> exn + stored_key \<Rightarrow> vault \<Rightarrow> bool" where
  "created e p name V r V' \<longleftrightarrow>
     (\<exists>q kid t key. namespace_of e p = Some q \<and> canonical_uuid kid \<and> length key = 32
        \<and> V (q, kid) = None \<and> V' = V((q, kid) \<mapsto> (new_key q kid name t, key))
        \<and> (r = Inr (new_key q kid name t) \<or> (\<exists>ex. r = Inl ex)))"

lemma create_key_refines:
  assumes ok: "platform_ok e" and c: "consistent e d s" and run: "create_key e p name s = (r, s')"
  shows "\<exists>d'. consistent e d' s' \<and> same_keys s s' \<and>
    ((\<exists>ex. r = Inl ex) \<and> d' = d \<or> created e p name (view e (self_kek s) d) r (view e (self_kek s) d'))"
proof (cases "namespace_of e p = None \<or> bad_name name")
  case True
  with run c show ?thesis
    by (intro exI [of _ d]) (auto simp: create_key_def validated_uuid_eq raiseS_def split: option.splits)
next
  case False
  then obtain q where q: "namespace_of e p = Some q" "\<not> bad_name name" by auto
  let ?kek = "self_kek s" and ?s1 = "s\<lparr>tick := tick s + 4\<rparr>"
  have k: "length ?kek = 32" using c by (rule consistent_basics)
  obtain kid t key n aad a where "kid = uuid_str (uuid4_of (os_urandom e (tick s) 16))"
    and new: "canonical_uuid kid" "list_all is_scalar t" "length key = 32"
    "length n = 12" "canonical_aad e (new_key q kid name t) = Inr aad" "decode_utf8 aad = Inr a"
    and eq: "create_key e p name s = bindS connect (\<lambda>c. bindS (verify_store_commitment e c) (\<lambda>_.
       bindS (liftS (insert_row (extend_row (new_key q kid name t) n (aes_encrypt e ?kek n key aad) a) c)) (\<lambda>c'.
       bindS (commit_mutation e c') (\<lambda>_. returnS (new_key q kid name t))))) ?s1"
    by (rule create_key_prefix [OF ok k q])
  let ?md = "new_key q kid name t"
  let ?r = "extend_row ?md n (aes_encrypt e ?kek n key aad) a"
  have sk1: "same_keys s ?s1" by (simp add: same_keys_def)
  have c1: "consistent e d ?s1" using c by (rule consistent_tick) simp
  from ok c1 run [unfolded eq] show ?thesis
  proof (cases rule: verified_run)
    case failed
    with sk1 same_keys_trans show ?thesis by blast
  next
    case (verified s2)
    then have sk2: "same_keys s s2" using sk1 same_keys_trans by blast
    then have kek2: "self_kek s2 = ?kek" by (simp add: same_keys_def)
    show ?thesis
    proof (cases "insert_row ?r d")
      case (Inl ex)
      with verified sk2 show ?thesis by (auto simp: raiseS_def)
    next
      case (Inr d')
      note row = new_row_wf [OF ok k new(4,3) refl namespace_canonical [OF q(1)] new(1,2,5,6) refl Inr]
      have wf: "db_wf e (self_kek s2) d'"
        using db_wf_insert [OF consistent_basics(4) [OF c] Inr row(1)] kek2 by simp
      have id: "row_id ?r = (q, kid)" by (simp add: row_id_def new_key_def)
      have upd: "view e ?kek d (q, kid) = None"
        "view e ?kek d' = (view e ?kek d)((q, kid) \<mapsto> (?md, key))"
        using view_insert [OF insert_rowD(4) [OF Inr], of e ?kek key] row(2) insert_rowD(1,4) [OF Inr]
          find_None [of "(q, kid)" "wrapped_keys d"] id
        by (simp_all add: metadata_extend_row view_def)
      have run2: "bindS (commit_mutation e d') (\<lambda>_. returnS ?md) s2 = (r, s')"
        using verified(4) Inr by simp
      from ok verified(1,2) wf run2 show ?thesis
      proof (cases rule: commit_return_spec)
        case (unchanged ex)
        then show ?thesis using sk2 same_keys_trans by blast
      next
        case changed
        with upd new(1,3) q(1) have "created e p name (view e ?kek d) r (view e ?kek d')"
          unfolding created_def by blast
        with changed show ?thesis using sk2 same_keys_trans by blast
      qed
    qed
  qed
qed

section \<open>Activating a key\<close>

definition activated :: "stored_key \<Rightarrow> pystr \<Rightarrow> stored_key" where
  "activated md t = md\<lparr>sk_state := ACTIVE, sk_activated_at := Some t\<rparr>"

lemma row_id_simps [simp]:
  "row_id (metadata r) = row_id r" "row_id (activated md t) = row_id md"
  "row_id (update_row upd n c a r) = row_id r"
  by (simp_all add: row_id_def metadata_def activated_def update_row_def)

lemma metadata_update_row:
  assumes "row_id upd = row_id r" "sk_state r = PRE_ACTIVE" "upd = activated (metadata r) t"
  shows "metadata (update_row upd n c a r) = upd" "row_nonce (update_row upd n c a r) = n"
    "row_ciphertext (update_row upd n c a r) = c" "row_aad_json (update_row upd n c a r) = a"
  using assms by (simp_all add: update_row_def metadata_def activated_def same_key_def row_id_def)

lemma update_row_other: "row_id x \<noteq> row_id upd \<Longrightarrow> update_row upd n c a x = x"
  by (auto simp: update_row_def same_key_def row_id_def)

lemma find_map_rows:
  "(\<And>x. row_id (f x) = row_id x) \<Longrightarrow>
   find (\<lambda>x. row_id x = i) (map f rs) = map_option f (find (\<lambda>x. row_id x = i) (rs :: wrapped_row list))"
  by (induction rs) simp_all

lemma view_update:
  assumes wf: "db_wf e kek d" and r: "find (\<lambda>x. row_id x = row_id upd) (wrapped_keys d) = Some r"
    and dec: "decrypt_row e kek (update_row upd n c a r) = Inr (upd, key)"
  shows "view e kek (d\<lparr>wrapped_keys := map (update_row upd n c a) (wrapped_keys d)\<rparr>) =
    (view e kek d)(row_id upd \<mapsto> (upd, key))"
proof
  fix i
  show "view e kek (d\<lparr>wrapped_keys := map (update_row upd n c a) (wrapped_keys d)\<rparr>) i =
    ((view e kek d)(row_id upd \<mapsto> (upd, key))) i"
  proof (cases "i = row_id upd")
    case True
    with r dec show ?thesis by (simp add: view_def find_map_rows)
  next
    case False
    have "update_row upd n c a x = x" if "find (\<lambda>x. row_id x = i) (wrapped_keys d) = Some x" for x
      using find_SomeD [OF that] False by (simp add: update_row_other)
    with False show ?thesis by (auto simp: view_def find_map_rows split: option.splits)
  qed
qed

lemma updated_row_wf:
  assumes ok: "platform_ok e" and k: "length kek = 32" "length n = 12" "length key = 32"
    and r: "row_wf e kek r" "sk_state r = PRE_ACTIVE" and t: "list_all is_scalar t"
    and upd: "upd = activated (metadata r) t"
    and aad: "canonical_aad e upd = Inr aad" "decode_utf8 aad = Inr a"
  defines "r' \<equiv> update_row upd n (aes_encrypt e kek n key aad) a r"
  shows "row_wf e kek r'" "decrypt_row e kek r' = Inr (upd, key)"
proof -
  have id: "row_id upd = row_id r" by (simp add: upd)
  note m = metadata_update_row [OF id r(2) upd]
  show dec: "decrypt_row e kek r' = Inr (upd, key)"
    using decrypt_wrapped [OF ok k, of r' aad] aad by (simp add: r'_def m)
  have "scalar_row r'" "row_checks r'"
    using r t canonical_aad_text [OF aad] k(2)
    by (auto simp: r'_def update_row_def upd row_wf_def scalar_row_def scalar_key_def scalar_opt_def
        row_checks_def activated_def)
  with dec r(1) m show "row_wf e kek r'"
    by (auto simp: row_wf_def r'_def update_row_def activated_def upd)
qed

lemma db_wf_update:
  assumes wf: "db_wf e kek d" and r: "r \<in> set (wrapped_keys d)" "row_id r = row_id upd"
    and new: "row_wf e kek (update_row upd n c a r)"
  shows "db_wf e kek (d\<lparr>wrapped_keys := map (update_row upd n c a) (wrapped_keys d)\<rparr>)"
proof -
  have "row_wf e kek (update_row upd n c a x)" if "x \<in> set (wrapped_keys d)" for x
  proof (cases "row_id x = row_id upd")
    case True
    have "inj_on row_id (set (wrapped_keys d))" using wf by (simp add: db_wf_def distinct_map)
    with True that r have "x = r" by (simp add: inj_on_def)
    with new show ?thesis by simp
  next
    case False
    with wf that show ?thesis by (simp add: update_row_other db_wf_def)
  qed
  with wf show ?thesis by (simp add: db_wf_def comp_def)
qed

definition activation :: "platform \<Rightarrow> pystr \<Rightarrow> pystr \<Rightarrow> vault \<Rightarrow> exn + stored_key \<Rightarrow> vault \<Rightarrow> bool" where
  "activation e p k V r V' \<longleftrightarrow>
     (\<exists>md key t. lookup e V p k = Inr (md, key) \<and> sk_state md = PRE_ACTIVE
        \<and> V' = V(row_id md \<mapsto> (activated md t, key))
        \<and> (r = Inr (activated md t) \<or> (\<exists>ex. r = Inl ex)))"

text \<open>The part of \<open>activate_key\<close> that re-wraps a Pre-Active key.\<close>

definition rewrap :: "platform \<Rightarrow> db \<Rightarrow> bytes \<Rightarrow> stored_key \<Rightarrow> bytes \<Rightarrow> stored_key store_prog" where
  "rewrap e c kek md plaintext =
     bindS (draw (utc_now e)) (\<lambda>activated_at.
     bindS (draw (\<lambda>t. os_urandom e t 12)) (\<lambda>nonce.
     bindS (liftS (canonical_aad e (activated md activated_at))) (\<lambda>new_aad.
     bindS (liftS (aesgcm_encrypt e kek nonce plaintext new_aad)) (\<lambda>ciphertext.
     bindS (liftS (decode_utf8 new_aad)) (\<lambda>aad_json.
     bindS (liftS (raise_if (rowcount (activated md activated_at) c \<noteq> 1)
              (KeyStateError ''KMIP key activation was not applied.''))) (\<lambda>_.
     bindS (commit_mutation e
              (c\<lparr>wrapped_keys := map (update_row (activated md activated_at) nonce ciphertext aad_json) (wrapped_keys c)\<rparr>)) (\<lambda>_.
     returnS (activated md activated_at))))))))"

lemma activate_key_eq:
  "activate_key e p k =
     bindS connect (\<lambda>c.
     bindS (verify_store_commitment e c) (\<lambda>_.
     bindS (liftS (row_of e c p k)) (\<lambda>row.
     bindS (getS self_kek) (\<lambda>kek.
     bindS (liftS (decrypt_row e kek row)) (\<lambda>(md, plaintext).
       if sk_state md = ACTIVE then returnS md
       else if sk_state md \<noteq> PRE_ACTIVE
       then raiseS (KeyStateError ''KMIP key cannot be activated from its current state.'')
       else rewrap e c kek md plaintext)))))"
  unfolding activate_key_def rewrap_def activated_def Let_def ..

lemma rewrap_spec:
  assumes ok: "platform_ok e" and c: "consistent e d s" "settled e d s"
    and r: "find (\<lambda>x. row_id x = row_id md) (wrapped_keys d) = Some row" "decrypt_row e (self_kek s) row = Inr (md, key)"
    and pre: "sk_state md = PRE_ACTIVE" and run: "rewrap e d (self_kek s) md key s = (r, s')"
  shows "\<exists>d'. consistent e d' s' \<and> same_keys s s' \<and> ((\<exists>ex. r = Inl ex) \<and> d' = d \<or>
    (\<exists>t. view e (self_kek s) d' = (view e (self_kek s) d)(row_id md \<mapsto> (activated md t, key))
       \<and> (r = Inr (activated md t) \<or> (\<exists>ex. r = Inl ex))))"
proof -
  let ?t = "utc_now e (tick s)" and ?n = "os_urandom e (Suc (tick s)) 12" and ?kek = "self_kek s"
  let ?upd = "activated md ?t" and ?s1 = "s\<lparr>tick := tick s + 2\<rparr>"
  obtain aad where aad: "canonical_aad e ?upd = Inr aad" by (simp add: canonical_aad_eq)
  obtain a where a: "decode_utf8 aad = Inr a"
    using aad decode_utf8_printable [OF json_dumps_ascii [OF float_free_aad_document]]
    by (auto simp: canonical_aad_eq)
  let ?ct = "aes_encrypt e ?kek ?n key aad"
  let ?d' = "d\<lparr>wrapped_keys := map (update_row ?upd ?n ?ct a) (wrapped_keys d)\<rparr>"
  have wf: "db_wf e ?kek d" "length ?kek = 32" using c by (simp_all add: consistent_basics)
  have len: "length ?n = 12" "list_all is_scalar ?t" using ok by (simp_all add: platform_ok_def)
  have md: "md = metadata row" "length key = 32" using decrypt_row_result [OF r(2)] by simp_all
  have row: "row \<in> set (wrapped_keys d)" "row_id row = row_id md" using find_SomeD [OF r(1)] by simp_all
  have rwf: "row_wf e ?kek row" "sk_state row = PRE_ACTIVE"
    using wf(1) row(1) pre md(1) by (simp_all add: db_wf_def metadata_def)
  have upd: "?upd = activated (metadata row) ?t" using md by simp
  note new = updated_row_wf [OF ok wf(2) len(1) md(2) rwf len(2) upd aad a]
  have c1: "consistent e d ?s1" "settled e d ?s1" "same_keys s ?s1"
    using c consistent_tick [OF c(1)] by (simp_all add: settled_def same_keys_def)
  have wf': "db_wf e (self_kek ?s1) ?d'" using db_wf_update [OF wf(1) row(1) _ new(1)] row(2) by simp
  have v: "view e ?kek ?d' = (view e ?kek d)(row_id md \<mapsto> (?upd, key))"
    using view_update [OF wf(1) _ new(2)] r(1) by simp
  show ?thesis
  proof (cases "rowcount ?upd d = 1")
    case False
    with run aad a wf(2) have "(\<exists>ex. r = Inl ex) \<and> s' = ?s1"
      by (auto simp: rewrap_def bindS_def [of "draw f" for f] draw_def aesgcm_encrypt_def raiseS_def)
    with c1 show ?thesis by blast
  next
    case True
    with run aad a wf(2) have "bindS (commit_mutation e ?d') (\<lambda>_. returnS ?upd) ?s1 = (r, s')"
      by (simp add: rewrap_def bindS_def [of "draw f" for f] draw_def aesgcm_encrypt_def)
    with ok c1(1,2) wf' show ?thesis
      by (cases rule: commit_return_spec) (use c1(3) v same_keys_trans in blast)+
  qed
qed

lemma activate_key_refines:
  assumes ok: "platform_ok e" and c: "consistent e d s" and run: "activate_key e p k s = (r, s')"
  shows "\<exists>d'. consistent e d' s' \<and> same_keys s s' \<and>
    ((\<exists>ex. r = Inl ex) \<and> d' = d
     \<or> (\<exists>md key. lookup e (view e (self_kek s) d) p k = Inr (md, key) \<and> sk_state md = ACTIVE \<and> r = Inr md \<and> d' = d)
     \<or> activation e p k (view e (self_kek s) d) r (view e (self_kek s) d'))"
  using ok c run [unfolded activate_key_eq]
proof (cases rule: verified_run)
  case failed
  then show ?thesis by blast
next
  case (verified s1)
  let ?kek = "self_kek s"
  have kek: "self_kek s1 = ?kek" using verified(3) by (simp add: same_keys_def)
  have lk: "lookup e (view e ?kek d) p k = bindE (row_of e d p k) (decrypt_row e ?kek)"
    using row_decrypt_lookup consistent_basics(4) [OF c] by metis
  show ?thesis
  proof (cases "lookup e (view e ?kek d) p k")
    case (Inl ex)
    with lk have "bindE (row_of e d p k) (decrypt_row e ?kek) = Inl ex" by simp
    with verified kek have "r = Inl ex \<and> s' = s1" by (auto simp: bindE_eq_Inl raiseS_def)
    with verified show ?thesis by blast
  next
    case (Inr x)
    obtain md key where x: "x = (md, key)" by (cases x)
    with Inr lk obtain row where row: "row_of e d p k = Inr row" "decrypt_row e ?kek row = Inr (md, key)"
      by (auto simp: bindE_eq_Inr)
    then have md: "row_id md = row_id row" using decrypt_row_result by force
    then have f: "find (\<lambda>x. row_id x = row_id md) (wrapped_keys d) = Some row"
      using row(1) find_self by (auto simp: row_of_def bindE_eq_Inr same_key_row_id split: option.splits)
    have rest: "(if sk_state md = ACTIVE then returnS md
       else if sk_state md \<noteq> PRE_ACTIVE
       then raiseS (KeyStateError ''KMIP key cannot be activated from its current state.'')
       else rewrap e d ?kek md key) s1 = (r, s')"
      using verified(4) row kek by (simp split: if_splits)
    consider "sk_state md = ACTIVE" | "sk_state md \<noteq> ACTIVE" "sk_state md \<noteq> PRE_ACTIVE" | "sk_state md = PRE_ACTIVE"
      by blast
    then show ?thesis
    proof cases
      case 1
      with rest verified Inr x show ?thesis by (auto simp: returnS_def)
    next
      case 2
      with rest verified show ?thesis by (auto simp: raiseS_def)
    next
      case 3
      then have "rewrap e d (self_kek s1) md key s1 = (r, s')" using rest kek by simp
      from rewrap_spec [OF ok verified(1,2) f _ 3 this] row(2) kek
      obtain d' where d': "consistent e d' s'" "same_keys s1 s'"
        "(\<exists>ex. r = Inl ex) \<and> d' = d \<or> (\<exists>t. view e ?kek d' = (view e ?kek d)(row_id md \<mapsto> (activated md t, key))
           \<and> (r = Inr (activated md t) \<or> (\<exists>ex. r = Inl ex)))"
        by auto
      then have "(\<exists>ex. r = Inl ex) \<and> d' = d \<or> activation e p k (view e ?kek d) r (view e ?kek d')"
        using Inr x 3 unfolding activation_def by blast
      with d'(1,2) same_keys_trans [OF verified(3)] show ?thesis by blast
    qed
  qed
qed

section \<open>Locating and counting keys\<close>

definition matching :: "platform \<Rightarrow> pystr \<Rightarrow> pystr option \<Rightarrow> pystr option \<Rightarrow> db \<Rightarrow> wrapped_row list" where
  "matching e p st name d = filter (\<lambda>r. located (the (namespace_of e p)) st name r) (wrapped_keys d)"

lemma locate_keys_refines:
  assumes ok: "platform_ok e" and c: "consistent e d s" and run: "locate_keys e p st name n s = (r, s')"
  shows "consistent e d s' \<and> same_keys s s' \<and>
    ((\<exists>ex. r = Inl ex)
     \<or> namespace_of e p \<noteq> None \<and> 1 \<le> n \<and> n \<le> 1024
       \<and> r = Inr (map sk_key_id (take (nat n)
              (sort_key (\<lambda>r. (sk_created_at r, sk_key_id r)) (matching e p st name d)))))"
proof (cases "namespace_of e p = None \<or> st \<notin> {None, Some PRE_ACTIVE, Some ACTIVE} \<or> \<not> (1 \<le> n \<and> n \<le> 1024)
    \<or> bad_name name")
  case True
  with run c show ?thesis
    by (auto simp: locate_keys_def validated_uuid_eq raise_if_def raiseS_def split: option.splits if_splits)
next
  case False
  then obtain q where q: "namespace_of e p = Some q" by auto
  from False q run have "bindS connect (\<lambda>c. bindS (verify_store_commitment e c) (\<lambda>_.
     bindS (liftS (raise_if (\<not> scalar_opt name) UnicodeError)) (\<lambda>_.
     returnS (map sk_key_id (take (nat n)
       (sort_key (\<lambda>r. (sk_created_at r, sk_key_id r)) (filter (located q st name) (wrapped_keys c)))))))) s = (r, s')"
    by (auto simp: locate_keys_def validated_uuid_eq)
  with ok c show ?thesis
  proof (cases rule: verified_run)
    case (verified s1)
    with False q show ?thesis
      by (auto simp: raise_if_def returnS_def raiseS_def matching_def split: if_splits)
  qed blast
qed

text \<open>The counts of one provider, read off the rows.\<close>

definition tally :: "pystr \<Rightarrow> stored_key list \<Rightarrow> lifecycle" where
  "tally q mds =
     (let own = filter (\<lambda>md. sk_provider_id md = q) mds
      in \<lparr>pre_active = length (filter (\<lambda>md. sk_state md = PRE_ACTIVE) own),
          active = length (filter (\<lambda>md. sk_state md \<noteq> PRE_ACTIVE) own), total = length own\<rparr>)"

lemma map_of_dict_of: "map_of (dict_of (map (\<lambda>p. (p, z)) ids)) = (\<lambda>q. if q \<in> set ids then Some z else None)"
  by (induction ids rule: rev_induct) (auto simp: dict_of_def map_of_dict_set)

definition bump :: "lifecycle \<Rightarrow> stored_key \<Rightarrow> lifecycle" where
  "bump old md =
     (let new = (if sk_state md = PRE_ACTIVE then old\<lparr>pre_active := pre_active old + 1\<rparr>
                 else old\<lparr>active := active old + 1\<rparr>)
      in new\<lparr>total := total new + 1\<rparr>)"

lemma map_of_count_row:
  "map_of (count_row counts md) = (map_of counts)(sk_provider_id md \<mapsto>
     bump (case map_of counts (sk_provider_id md) of None \<Rightarrow> zero_counts | Some x \<Rightarrow> x) md)"
  unfolding count_row_def Let_def map_of_dict_set bump_def ..

lemma tally_snoc:
  "tally q (mds @ [md]) = (if sk_provider_id md = q then bump (tally q mds) md else tally q mds)"
  by (simp add: tally_def bump_def Let_def)

lemma tally_none: "q \<notin> sk_provider_id ` set mds \<Longrightarrow> tally q mds = zero_counts"
proof -
  assume "q \<notin> sk_provider_id ` set mds"
  then have "filter (\<lambda>md. sk_provider_id md = q) mds = []" by (auto simp: filter_empty_conv)
  then show ?thesis by (simp add: tally_def zero_counts_def)
qed

lemma count_rows:
  "map_of (foldl count_row (dict_of (map (\<lambda>p. (p, zero_counts)) ids)) mds) q =
     (if q \<in> set ids \<union> sk_provider_id ` set mds then Some (tally q mds) else None)"
proof (induction mds rule: rev_induct)
  case Nil
  show ?case by (simp add: map_of_dict_of tally_none)
next
  case (snoc md mds)
  then show ?case by (auto simp: map_of_count_row tally_snoc tally_none)
qed

lemma lifecycle_counts_refines:
  assumes ok: "platform_ok e" and c: "consistent e d s" and run: "lifecycle_counts e ps s = (r, s')"
  shows "consistent e d s' \<and> same_keys s s' \<and>
    ((\<exists>ex. r = Inl ex) \<or> (\<exists>counts ids. r = Inr counts \<and> map (namespace_of e) ps = map Some ids \<and>
       (\<forall>q. map_of counts q = (if q \<in> set ids \<union> sk_provider_id ` set (wrapped_keys d)
          then Some (tally q (map metadata (ordered_rows d))) else None))))"
proof (cases "mapE (\<lambda>p. validated_uuid e p ''provider_id'') ps")
  case (Inl ex)
  with run c show ?thesis by (auto simp: lifecycle_counts_def raiseS_def)
next
  case (Inr ids)
  have ids: "map (namespace_of e) ps = map Some ids"
    using Inr by (induction ps arbitrary: ids) (auto simp: validated_uuid_eq bindE_eq_Inr split: option.splits)
  from run Inr have "bindS connect (\<lambda>c. bindS (verify_store_commitment e c) (\<lambda>_.
      bindS (getS self_kek) (\<lambda>kek. bindS (liftS (mapE (decrypt_row e kek) (ordered_rows c))) (\<lambda>rows.
      returnS (foldl count_row (dict_of (map (\<lambda>p. (p, zero_counts)) ids)) (map fst rows)))))) s = (r, s')"
    by (simp add: lifecycle_counts_def)
  with ok c show ?thesis
  proof (cases rule: verified_run)
    case (verified s1)
    show ?thesis
    proof (cases "mapE (decrypt_row e (self_kek s1)) (ordered_rows d)")
      case (Inl ex)
      with verified show ?thesis by (auto simp: raiseS_def)
    next
      case (Inr rows)
      then have "list_all2 (\<lambda>x y. fst y = metadata x) (ordered_rows d) rows"
        unfolding mapE_eq_Inr by (rule list_all2_mono) (use decrypt_row_result in force)
      then have m: "map fst rows = map metadata (ordered_rows d)"
        by (induction rule: list_all2_induct) simp_all
      have "sk_provider_id ` metadata ` set (wrapped_keys d) = sk_provider_id ` set (wrapped_keys d)"
        by (simp add: image_image metadata_def)
      with verified Inr ids m show ?thesis
        by (auto simp: returnS_def count_rows ordered_rows_def)
    qed
  qed blast
qed

end
