(* ===== verification/Kmip_Store_Live.thy ===== *)
theory Kmip_Store_Live
  imports Kmip_Store_Refine
begin

text \<open>
  Starting and restarting the key store, and success of its operations on a platform that does
  not fail. \<open>reachable\<close> collects every state of the store after a first start, any sequence of
  operations with any platform answers, and any number of restarts; a process that is killed
  between two steps leaves the disk as a platform error at the later step does.
\<close>

section \<open>Starting\<close>

definition calm :: "platform \<Rightarrow> bool" where
  "calm e \<longleftrightarrow> (\<forall>t. write_outcome e t = Written \<and> commit_outcome e t = None)"

lemma master_key_length: "platform_ok e \<Longrightarrow> master_key e sec = Inr m \<Longrightarrow> length m = 32"
  by (auto simp: master_key_def platform_ok_def bindE_eq_Inr split: if_splits)

lemma bindS_connect: "database s = Some c \<Longrightarrow> bindS connect f s = f c s"
  by (simp add: bindS_def connect_def getS_def returnS_def)

lemma write_kek_envelope_Inr:
  assumes "platform_ok e" "length m = 32" "write_kek_envelope e m v s = (Inr x, s')"
  shows "\<exists>b. sealed e m v b \<and> s' = s\<lparr>kek_file := Some b, tick := tick s + 2\<rparr>"
  using assms sealed_contents [OF assms(1), of m v "tick s"]
  by (auto simp: write_kek_envelope_eq Let_def split: write_result.splits)

lemma write_envelope_Inr:
  assumes "platform_ok e" "length (self_master_key s) = 32" "write_envelope e v s = (Inr x, s')"
  shows "\<exists>b. sealed e (self_master_key s) v b \<and>
    s' = s\<lparr>kek_file := Some b, tick := tick s + 2, self_envelope := v\<rparr>"
proof -
  obtain y s1 where "write_kek_envelope e (self_master_key s) v s = (Inr y, s1)" "s' = s1\<lparr>self_envelope := v\<rparr>"
    using assms(3) by (auto simp: write_envelope_def bindS_eq_Inr modifyS_def)
  with write_kek_envelope_Inr [OF assms(1,2)] show ?thesis by fastforce
qed

definition empty_db :: db where
  "empty_db = \<lparr>store_metadata = [(u ''schema_version'', schema_version)], wrapped_keys = []\<rparr>"

lemma db_wf_empty: "db_wf e kek empty_db"
  by (simp add: db_wf_def empty_db_def)

lemma initialize_fresh:
  assumes ok: "platform_ok e" and len: "length (self_master_key s) = 32" "length (self_kek s) = 32"
    and env: "self_envelope s = fresh_envelope (self_kek s) 0 []" and db: "database s = None"
    and run: "initialize e s = (Inr x, s')"
  shows "consistent e empty_db s' \<and> same_keys s s'"
proof -
  let ?s0 = "s\<lparr>database := Some \<lparr>store_metadata = [], wrapped_keys = []\<rparr>\<rparr>"
  let ?v = "fresh_envelope (self_kek s) 0 (commitment_of e empty_db)"
  have v: "verify_store_commitment e empty_db ?s0 = write_envelope e ?v ?s0"
    using env by (simp add: verify_store_commitment_def store_commitment_of fresh_envelope_def)
  have upd: "database_update (case_option (Some \<lparr>store_metadata = [], wrapped_keys = []\<rparr>) Some) s = ?s0"
    using db by (cases s) simp
  have "initialize e s = bindS (verify_store_commitment e empty_db) (\<lambda>_. bindS (draw (commit_outcome e)) (\<lambda>outcome.
      case outcome of Some ex \<Rightarrow> raiseS ex | None \<Rightarrow> modifyS (database_update (\<lambda>_. Some empty_db)))) ?s0"
    unfolding initialize_def empty_db_def bindS_simps upd by (simp add: bindS_connect Let_def)
  with run v have "bindS (write_envelope e ?v) (\<lambda>_. bindS (draw (commit_outcome e)) (\<lambda>outcome.
      case outcome of Some ex \<Rightarrow> raiseS ex | None \<Rightarrow> modifyS (database_update (\<lambda>_. Some empty_db)))) ?s0 = (Inr x, s')"
    by (simp add: bindS_def)
  then obtain y s1 where w: "write_envelope e ?v ?s0 = (Inr y, s1)"
    and rest: "s' = s1\<lparr>tick := Suc (tick s1), database := Some empty_db\<rparr>"
    by (auto simp: bindS_eq_Inr draw_def modifyS_def raiseS_def split: option.splits)
  from write_envelope_Inr [OF ok _ w] len(1) obtain b where
    b: "sealed e (self_master_key s) ?v b" "s1 = ?s0\<lparr>kek_file := Some b, tick := tick s + 2, self_envelope := ?v\<rparr>"
    by auto
  have "envelope_ok e (self_kek s) empty_db (Suc (Suc (Suc (tick s)))) ?v"
    using ok len(2) by (intro fresh_envelope_ok) simp_all
  with b rest len show ?thesis
    by (auto simp: consistent_def same_keys_def db_wf_empty)
qed

lemma init_fresh:
  assumes ok: "platform_ok e" and s: "database s = None" "kek_file s = None"
    and run: "init e sec s = (Inr x, s')"
  shows "consistent e empty_db s' \<and> master_key e sec = Inr (self_master_key s')"
proof -
  obtain m where m: "master_key e sec = Inr m"
    using run s by (cases "master_key e sec") (auto simp: init_def load_or_create_kek_def raiseS_def bindS_def liftS_def getS_def)
  have ml: "length m = 32" using ok m by (rule master_key_length)
  let ?kek = "os_urandom e (tick s) 32"
  let ?v = "fresh_envelope ?kek 0 []" and ?s0 = "s\<lparr>tick := Suc (tick s)\<rparr>"
  have "bindS (write_kek_envelope e m ?v) (\<lambda>_. bindS
      (modifyS (\<lambda>s. s\<lparr>self_master_key := m, self_kek := ?kek, self_envelope := ?v\<rparr>)) (\<lambda>_. initialize e)) ?s0 = (Inr x, s')"
    using run s m
    by (simp add: init_def load_or_create_kek_def bindS_def liftS_def getS_def draw_def returnS_def modifyS_def
        fresh_envelope_def Let_def split: prod.splits sum.splits)
  then obtain y s1 where w: "write_kek_envelope e m ?v ?s0 = (Inr y, s1)"
    and i: "initialize e (s1\<lparr>self_master_key := m, self_kek := ?kek, self_envelope := ?v\<rparr>) = (Inr x, s')"
    by (auto simp: bindS_eq_Inr modifyS_def)
  have s1: "database s1 = None" using write_kek_envelope_Inr [OF ok ml w] s by auto
  have "length ?kek = 32" using ok by (simp add: platform_ok_def)
  with initialize_fresh [OF ok _ _ _ _ i] ml s1 m show ?thesis by (simp add: same_keys_def)
qed

section \<open>Restarting\<close>

text \<open>A new process finds the disk as the old one left it.\<close>

definition same_disk :: "store \<Rightarrow> store \<Rightarrow> bool" where
  "same_disk s s0 \<longleftrightarrow> database s0 = database s \<and> kek_file s0 = kek_file s \<and> tick s \<le> tick s0"

lemma init_again_verify:
  assumes ok: "platform_ok e" and c: "consistent e d s" and disk: "same_disk s s0"
    and m: "master_key e sec = Inr (self_master_key s)" and small: "Suc (tick s) < decimal_bound"
  obtains s1 where "init e sec s0 = verify_store_commitment e d s1" "consistent e d s1" "same_keys s s1"
proof -
  obtain f b where f: "kek_file s = Some b" "sealed e (self_master_key s) f b"
    "envelope_ok e (self_kek s) d (tick s) f"
    using c by (auto simp: consistent_def)
  have "small_generation f" using f(3) small by (auto simp: small_generation_def envelope_ok_def)
  then have op: "open_kek_file e (self_master_key s) b = Inr f"
    using open_sealed [OF ok consistent_basics(1) [OF c] _ _ f(2)] f(3) by (simp add: envelope_ok_def)
  have fk: "env_kek f = self_kek s" using f(3) by (simp add: envelope_ok_def)
  let ?s1 = "s0\<lparr>self_master_key := self_master_key s, self_kek := self_kek s, self_envelope := f\<rparr>"
  have sch: "map_of (store_metadata d) (u ''schema_version'') = Some schema_version"
    using consistent_basics(4) [OF c] by (simp add: db_wf_def)
  have dbs: "database s0 = Some d" "kek_file s0 = Some b"
    using disk f(1) consistent_basics(3) [OF c] by (simp_all add: same_disk_def)
  have sd: "database_update (case_option (Some \<lparr>store_metadata = [], wrapped_keys = []\<rparr>) Some) ?s1 = ?s1"
    using dbs by simp
  have "init e sec s0 = initialize e ?s1"
    using dbs by (simp add: init_def load_or_create_kek_def m op fk bindS_def getS_def liftS_def returnS_def modifyS_def)
  also have "\<dots> = verify_store_commitment e d ?s1"
    using dbs sch by (simp add: initialize_def connect_def bindS_def getS_def returnS_def modifyS_def sd)
  finally have v: "init e sec s0 = verify_store_commitment e d ?s1" .
  have "consistent e d ?s1"
    using c f dbs disk unfolding consistent_def same_disk_def by (auto intro: envelope_ok_mono)
  moreover have "same_keys s ?s1" using disk by (simp add: same_keys_def same_disk_def)
  ultimately show thesis using v that by blast
qed

lemma init_again:
  assumes "platform_ok e" "consistent e d s" "same_disk s s0" "master_key e sec = Inr (self_master_key s)"
    "Suc (tick s) < decimal_bound" "init e sec s0 = (r, s')"
  shows "consistent e d s' \<and> same_keys s s' \<and> (r = Inr () \<or> r = Inl OSError)"
proof -
  obtain s1 where "init e sec s0 = verify_store_commitment e d s1" "consistent e d s1" "same_keys s s1"
    by (rule init_again_verify [OF assms(1-5)])
  with verify_spec [OF assms(1), of d s1 r s'] assms(6) same_keys_trans show ?thesis by metis
qed

section \<open>Reachable states\<close>

inductive reachable :: "platform \<Rightarrow> pystr \<Rightarrow> store \<Rightarrow> bool" for e sec where
  start: "database s = None \<Longrightarrow> kek_file s = None \<Longrightarrow> init e sec s = (Inr x, s') \<Longrightarrow> reachable e sec s'"
| restart: "reachable e sec s \<Longrightarrow> same_disk s s0 \<Longrightarrow> Suc (tick s) < decimal_bound \<Longrightarrow>
    init e sec s0 = (r, s') \<Longrightarrow> reachable e sec s'"
| create: "reachable e sec s \<Longrightarrow> create_key e p name s = (r1, s') \<Longrightarrow> reachable e sec s'"
| activate: "reachable e sec s \<Longrightarrow> activate_key e p k s = (r2, s') \<Longrightarrow> reachable e sec s'"
| get: "reachable e sec s \<Longrightarrow> get_key e p k s = (r3, s') \<Longrightarrow> reachable e sec s'"
| get_meta: "reachable e sec s \<Longrightarrow> get_metadata e p k s = (r4, s') \<Longrightarrow> reachable e sec s'"
| locate: "reachable e sec s \<Longrightarrow> locate_keys e p st name n s = (r5, s') \<Longrightarrow> reachable e sec s'"
| counts: "reachable e sec s \<Longrightarrow> lifecycle_counts e ps s = (r6, s') \<Longrightarrow> reachable e sec s'"

lemma reachable_inv:
  assumes ok: "platform_ok e" and r: "reachable e sec s"
  shows "\<exists>d. consistent e d s \<and> master_key e sec = Inr (self_master_key s)"
  using r
proof (induction rule: reachable.induct)
  case (start s x s')
  then show ?case using init_fresh [OF ok] by blast
next
  case (restart s s0 r s')
  then show ?case using init_again [OF ok] unfolding same_keys_def by metis
next
  case (create s p name r1 s')
  then show ?case using create_key_refines [OF ok] unfolding same_keys_def by metis
next
  case (activate s p k r2 s')
  then show ?case using activate_key_refines [OF ok] unfolding same_keys_def by metis
next
  case (get s p k r3 s')
  then show ?case using get_key_refines [OF ok] unfolding same_keys_def by metis
next
  case (get_meta s p k r4 s')
  then show ?case using get_metadata_refines [OF ok] unfolding same_keys_def by metis
next
  case (locate s p st name n r5 s')
  then show ?case using locate_keys_refines [OF ok] unfolding same_keys_def by metis
next
  case (counts s ps r6 s')
  then show ?case using lifecycle_counts_refines [OF ok] unfolding same_keys_def by metis
qed

section \<open>Success on a platform that does not fail\<close>

lemma write_envelope_calm:
  "calm e \<Longrightarrow> length (self_master_key s) = 32 \<Longrightarrow> write_envelope e v s \<noteq> (Inl ex, s')"
  by (simp add: write_envelope_def bindS_def write_kek_envelope_eq calm_def Let_def modifyS_def getS_def)

lemma verify_calm:
  assumes "calm e" "platform_ok e" "consistent e d s"
  obtains s' where "verify_store_commitment e d s = (Inr (), s')" "consistent e d s'" "settled e d s'" "same_keys s s'"
proof -
  obtain r s' where v: "verify_store_commitment e d s = (r, s')" by fastforce
  have "r \<noteq> Inl OSError"
    using v write_envelope_calm [OF assms(1) consistent_basics(1) [OF assms(3)]]
    by (auto simp: verify_store_commitment_def store_commitment_of returnS_def raiseS_def rollback_detected_def
        split: if_splits option.splits)
  with verify_spec [OF assms(2,3) v] v that show thesis by auto
qed

lemma commit_calm:
  assumes cl: "calm e" and ok: "platform_ok e" and c: "consistent e d s" "settled e d s" "db_wf e (self_kek s) d'"
  shows "\<exists>s'. bindS (commit_mutation e d') (\<lambda>_. returnS x) s = (Inr x, s') \<and> consistent e d' s' \<and> same_keys s s'"
proof -
  obtain r s' where run: "commit_mutation e d' s = (r, s')" by fastforce
  have m: "length (self_master_key s) = 32" using c(1) by (rule consistent_basics)
  have w: "\<exists>s2. write_envelope e v s1 = (Inr (), s2) \<and> length (self_master_key s2) = 32"
    if "length (self_master_key s1) = 32" for v s1
    using that cl by (simp add: write_envelope_def bindS_def write_kek_envelope_eq calm_def Let_def modifyS_def getS_def)
  obtain s1 where s1: "write_envelope e \<lparr>env_kek = self_kek s, env_generation = env_generation (self_envelope s),
      env_commitment = env_commitment (self_envelope s),
      env_pending_generation = Some (env_generation (self_envelope s) + 1),
      env_pending_commitment = Some (commitment_of e d')\<rparr> s = (Inr (), s1)" "length (self_master_key s1) = 32"
    using w [OF m] by blast
  obtain s2 where "write_envelope e (fresh_envelope (self_kek s) (env_generation (self_envelope s) + 1) (commitment_of e d'))
      (s1\<lparr>tick := Suc (tick s1), database := Some d'\<rparr>) = (Inr (), s2)"
    using w [of "s1\<lparr>tick := Suc (tick s1), database := Some d'\<rparr>"] s1(2) by force
  with run s1 cl have "r = Inr ()"
    by (simp add: commit_mutation_def store_commitment_of bindS_def [of "write_envelope e y" for y]
        bindS_def [of "draw f" for f] draw_def calm_def)
  with commit_spec [OF ok c run] run show ?thesis by (auto simp: bindS_def returnS_def)
qed

lemma verified_calm:
  assumes "calm e" "platform_ok e" "consistent e d s"
  obtains s1 where "consistent e d s1" "settled e d s1" "same_keys s s1"
    "\<And>f. bindS connect (\<lambda>c. bindS (verify_store_commitment e c) (\<lambda>_. f c)) s = f d s1"
  using verify_calm [OF assms] connect_consistent [OF assms(3)] that
  by (smt (verit, best) bindS_def old.prod.case old.sum.simps(6))

lemma get_key_succeeds:
  assumes "calm e" "platform_ok e" "consistent e d s"
  shows "\<exists>s'. get_key e p k s = (lookup e (view e (self_kek s) d) p k, s') \<and> consistent e d s' \<and> same_keys s s'"
proof -
  obtain s1 where s1: "consistent e d s1" "same_keys s s1"
    and eq: "\<And>f :: db \<Rightarrow> (stored_key \<times> bytes) store_prog.
      bindS connect (\<lambda>c. bindS (verify_store_commitment e c) (\<lambda>_. f c)) s = f d s1"
    using verified_calm [OF assms] by metis
  have kek: "self_kek s1 = self_kek s" using s1 by (simp add: same_keys_def)
  have "get_key e p k s = (bindE (row_of e d p k) (decrypt_row e (self_kek s)), s1)"
    unfolding get_key_def eq using kek by (cases "row_of e d p k") (simp_all add: raiseS_def liftS_def)
  then show ?thesis using s1 row_decrypt_lookup [OF consistent_basics(4) [OF assms(3)]] by simp
qed

lemma mapE_all: "(\<And>x. x \<in> set xs \<Longrightarrow> \<exists>y. f x = Inr y) \<Longrightarrow> \<exists>ys. mapE f xs = Inr ys"
proof (induction xs)
  case (Cons x xs)
  then obtain y ys where "f x = Inr y" "mapE f xs = Inr ys" by fastforce
  then show ?case by simp
qed simp

lemma lifecycle_counts_succeeds:
  assumes "calm e" "platform_ok e" "consistent e d s" "\<And>p. p \<in> set ps \<Longrightarrow> namespace_of e p \<noteq> None"
  shows "\<exists>counts s'. lifecycle_counts e ps s = (Inr counts, s')"
proof -
  obtain s1 where s1: "consistent e d s1" "same_keys s s1"
    and v: "\<And>f :: db \<Rightarrow> (pystr \<times> lifecycle) list store_prog.
      bindS connect (\<lambda>c. bindS (verify_store_commitment e c) (\<lambda>_. f c)) s = f d s1"
    using verified_calm [OF assms(1-3)] by metis
  have "\<exists>ids. mapE (\<lambda>p. validated_uuid e p ''provider_id'') ps = Inr ids"
  proof (rule mapE_all)
    fix p assume "p \<in> set ps"
    from assms(4) [OF this] show "\<exists>y. validated_uuid e p ''provider_id'' = Inr y" by (auto simp: validated_uuid_eq)
  qed
  then obtain ids where ids: "mapE (\<lambda>p. validated_uuid e p ''provider_id'') ps = Inr ids" by blast
  have "\<exists>rows. mapE (decrypt_row e (self_kek s1)) (ordered_rows d) = Inr rows"
    using consistent_basics(4) [OF s1(1)] by (intro mapE_all) (auto simp: ordered_rows_def db_wf_def row_wf_def)
  then obtain rows where rows: "mapE (decrypt_row e (self_kek s1)) (ordered_rows d) = Inr rows" by blast
  have "lifecycle_counts e ps s = (Inr (foldl count_row (dict_of (map (\<lambda>p. (p, zero_counts)) ids)) (map fst rows)), s1)"
    unfolding lifecycle_counts_def ids bindS_simps v by (simp add: rows returnS_def)
  then show ?thesis by blast
qed

lemma locate_keys_succeeds:
  assumes "calm e" "platform_ok e" "consistent e d s" "namespace_of e p = Some q" "1 \<le> n" "n \<le> 1024"
  shows "\<exists>ids s'. locate_keys e p None None n s = (Inr ids, s')"
proof -
  obtain s1 where v: "\<And>f :: db \<Rightarrow> pystr list store_prog.
      bindS connect (\<lambda>c. bindS (verify_store_commitment e c) (\<lambda>_. f c)) s = f d s1"
    using verified_calm [OF assms(1-3)] by metis
  have "locate_keys e p None None n s = bindS connect (\<lambda>c. bindS (verify_store_commitment e c) (\<lambda>_.
     returnS (map sk_key_id (take (nat n)
       (sort_key (\<lambda>r. (sk_created_at r, sk_key_id r)) (filter (located q None None) (wrapped_keys c))))))) s"
    using assms(4-6) by (simp add: locate_keys_def validated_uuid_eq bad_name_def scalar_opt_def)
  then show ?thesis unfolding v by (auto simp: returnS_def)
qed

lemma create_key_succeeds:
  assumes cl: "calm e" and ok: "platform_ok e" and c: "consistent e d s" and q: "namespace_of e p = Some q"
    and name: "name = None \<or> (\<exists>n. name = Some n \<and> length n \<le> 256 \<and> 1 \<le> sql_length n \<and> list_all is_scalar n)"
    and fresh: "(q, uuid_str (uuid4_of (os_urandom e (tick s) 16))) \<notin> row_id ` set (wrapped_keys d)"
  shows "\<exists>md s'. create_key e p name s = (Inr md, s')"
proof -
  have le: "sql_length n \<le> length n" for n by (simp add: sql_length_def length_takeWhile_le)
  have nm: "\<not> bad_name name" using name order_trans [OF _ le, of "Suc 0"] by (auto simp: bad_name_def)
  have k: "length (self_kek s) = 32" using c by (rule consistent_basics)
  obtain kid t key n aad a where kid: "kid = uuid_str (uuid4_of (os_urandom e (tick s) 16))"
    and new: "canonical_uuid kid" "list_all is_scalar t" "length key = 32"
    "length n = 12" "canonical_aad e (new_key q kid name t) = Inr aad" "decode_utf8 aad = Inr a"
    and eq: "create_key e p name s = bindS connect (\<lambda>c. bindS (verify_store_commitment e c) (\<lambda>_.
       bindS (liftS (insert_row (extend_row (new_key q kid name t) n (aes_encrypt e (self_kek s) n key aad) a) c)) (\<lambda>c'.
       bindS (commit_mutation e c') (\<lambda>_. returnS (new_key q kid name t))))) (s\<lparr>tick := tick s + 4\<rparr>)"
    by (rule create_key_prefix [OF ok k q nm])
  let ?r = "extend_row (new_key q kid name t) n (aes_encrypt e (self_kek s) n key aad) a"
  have "consistent e d (s\<lparr>tick := tick s + 4\<rparr>)" using c by (rule consistent_tick) simp
  from verified_calm [OF cl ok this] obtain s1 where s1: "consistent e d s1" "settled e d s1" "same_keys (s\<lparr>tick := tick s + 4\<rparr>) s1"
    and v: "\<And>f :: db \<Rightarrow> stored_key store_prog. bindS connect (\<lambda>c. bindS (verify_store_commitment e c) (\<lambda>_. f c)) (s\<lparr>tick := tick s + 4\<rparr>) = f d s1"
    by metis
  have chk: "row_checks ?r"
    using name new(4) order_trans [OF le, of _ 256]
    by (auto simp: row_checks_def extend_row_def stored_key.defs new_key_def)
  have "scalar_opt (sk_name ?r)" using name by (auto simp: scalar_opt_def new_key_def)
  moreover have "\<not> (\<exists>x \<in> set (wrapped_keys d). same_key (sk_provider_id ?r) (sk_key_id ?r) x)"
    using fresh kid by (force simp: same_key_row_id new_key_def)
  ultimately obtain d' where ins: "insert_row ?r d = Inr d'" using chk by (simp add: insert_row_def)
  note row = new_row_wf [OF ok k new(4,3) refl namespace_canonical [OF q] new(1,2,5,6) refl ins]
  have "db_wf e (self_kek s1) d'"
    using db_wf_insert [OF consistent_basics(4) [OF c] ins row(1)] s1(3) by (simp add: same_keys_def)
  from commit_calm [OF cl ok s1(1,2) this, of "new_key q kid name t"] show ?thesis
    unfolding eq v using ins by auto
qed

lemma filter_unique:
  assumes "distinct (map f xs)" "x \<in> set xs" "P x" "\<And>y. y \<in> set xs \<Longrightarrow> P y \<Longrightarrow> f y = f x"
  shows "length (filter P xs) = 1"
proof -
  have all: "y = x" if "y \<in> set xs" "P y" for y
    using assms(1,2) assms(4) [OF that] that(1) by (simp add: distinct_map inj_on_def)
  have "set (filter P xs) = {x}"
    unfolding set_filter using all assms(2,3) by blast
  moreover have "distinct (filter P xs)" using assms(1) by (simp add: distinct_map)
  ultimately show ?thesis using distinct_card [of "filter P xs"] by simp
qed

lemma rowcount_one:
  assumes "db_wf e kek d" "row \<in> set (wrapped_keys d)" "row_id upd = row_id row" "sk_state row = PRE_ACTIVE"
  shows "rowcount upd d = 1"
  using assms unfolding rowcount_def
  by (intro filter_unique [of row_id]) (auto simp: db_wf_def same_key_def row_id_def)

lemma activate_key_succeeds:
  assumes cl: "calm e" and ok: "platform_ok e" and c: "consistent e d s"
    and lk: "lookup e (view e (self_kek s) d) p k = Inr (md, key)" "sk_state md = PRE_ACTIVE"
  shows "\<exists>md' s'. activate_key e p k s = (Inr md', s')"
proof -
  obtain s1 where s1: "consistent e d s1" "settled e d s1" "same_keys s s1"
    and v: "\<And>f :: db \<Rightarrow> stored_key store_prog. bindS connect (\<lambda>c. bindS (verify_store_commitment e c) (\<lambda>_. f c)) s = f d s1"
    using verified_calm [OF cl ok c] by metis
  let ?kek = "self_kek s"
  have kek: "self_kek s1 = ?kek" using s1(3) by (simp add: same_keys_def)
  have wf: "db_wf e ?kek d" "length ?kek = 32" using c by (simp_all add: consistent_basics)
  obtain row where row: "row_of e d p k = Inr row" "decrypt_row e ?kek row = Inr (md, key)"
    using lk(1) row_decrypt_lookup [OF wf(1), of p k] by (auto simp: bindE_eq_Inr)
  have md: "md = metadata row" "length key = 32" using decrypt_row_result [OF row(2)] by simp_all
  have mem: "row \<in> set (wrapped_keys d)"
    using row(1) find_SomeD by (fastforce simp: row_of_def bindE_eq_Inr same_key_row_id split: option.splits)
  have st: "sk_state row = PRE_ACTIVE" using lk(2) md by (simp add: metadata_def)
  let ?t = "utc_now e (tick s1)" and ?n = "os_urandom e (Suc (tick s1)) 12"
  let ?upd = "activated md ?t" and ?s2 = "s1\<lparr>tick := tick s1 + 2\<rparr>"
  obtain aad where aad: "canonical_aad e ?upd = Inr aad" by (simp add: canonical_aad_eq)
  obtain a where a: "decode_utf8 aad = Inr a"
    using aad decode_utf8_printable [OF json_dumps_ascii [OF float_free_aad_document]]
    by (auto simp: canonical_aad_eq)
  let ?d' = "d\<lparr>wrapped_keys := map (update_row ?upd ?n (aes_encrypt e ?kek ?n key aad) a) (wrapped_keys d)\<rparr>"
  have "rowcount ?upd d = 1" by (rule rowcount_one [OF wf(1) mem _ st]) (simp add: md)
  then have eq: "activate_key e p k s = bindS (commit_mutation e ?d') (\<lambda>_. returnS ?upd) ?s2"
    unfolding activate_key_eq v using row kek lk(2) aad a wf(2)
    by (simp add: rewrap_def bindS_def [of "draw f" for f] draw_def aesgcm_encrypt_def)
  have len: "length ?n = 12" "list_all is_scalar ?t" using ok by (simp_all add: platform_ok_def)
  have rwf: "row_wf e ?kek row" using wf(1) mem by (simp add: db_wf_def)
  have upd: "?upd = activated (metadata row) ?t" using md by simp
  note new = updated_row_wf [OF ok wf(2) len(1) md(2) rwf st len(2) upd aad a]
  have "db_wf e (self_kek ?s2) ?d'" using db_wf_update [OF wf(1) mem _ new(1)] md(1) kek by simp
  moreover have "consistent e d ?s2" "settled e d ?s2"
    using s1 consistent_tick [OF s1(1)] by (simp_all add: settled_def)
  ultimately show ?thesis using commit_calm [OF cl ok] eq by metis
qed

lemma init_again_succeeds:
  assumes "calm e" "platform_ok e" "consistent e d s" "same_disk s s0"
    "master_key e sec = Inr (self_master_key s)" "Suc (tick s) < decimal_bound"
  shows "\<exists>s'. init e sec s0 = (Inr (), s') \<and> consistent e d s' \<and> same_keys s s'"
proof -
  obtain s1 where s1: "init e sec s0 = verify_store_commitment e d s1" "consistent e d s1" "same_keys s s1"
    by (rule init_again_verify [OF assms(2-6)])
  from verify_calm [OF assms(1,2) s1(2)] s1 same_keys_trans show ?thesis by metis
qed

lemma init_fresh_succeeds:
  assumes cl: "calm e" and m: "master_key e sec = Inr m" "length m = 32"
    and s: "database s = None" "kek_file s = None"
  shows "\<exists>s'. init e sec s = (Inr (), s') \<and> tick s' = tick s + 6"
proof -
  have w: "\<exists>s1. write_kek_envelope e m v s0 = (Inr (), s1) \<and> tick s1 = tick s0 + 2 \<and> database s1 = database s0"
    for v s0 using m(2) cl by (simp add: write_kek_envelope_eq calm_def Let_def)
  let ?kek = "os_urandom e (tick s) 32"
  let ?v = "fresh_envelope ?kek 0 []" and ?s0 = "s\<lparr>tick := Suc (tick s)\<rparr>"
  obtain s1 where s1: "write_kek_envelope e m ?v ?s0 = (Inr (), s1)" "tick s1 = tick s + 3" "database s1 = None"
    using w [of ?v ?s0] s by auto
  let ?s2 = "s1\<lparr>self_master_key := m, self_kek := ?kek, self_envelope := ?v\<rparr>"
  have i: "init e sec s = initialize e ?s2"
    using s s1(1) m(1)
    by (simp add: init_def load_or_create_kek_def bindS_def liftS_def getS_def draw_def returnS_def modifyS_def
        fresh_envelope_def Let_def)
  let ?s3 = "?s2\<lparr>database := Some \<lparr>store_metadata = [], wrapped_keys = []\<rparr>\<rparr>"
  have upd: "database_update (case_option (Some \<lparr>store_metadata = [], wrapped_keys = []\<rparr>) Some) ?s2 = ?s3"
    using s1(3) by (cases s1) simp
  let ?c = "\<lparr>store_metadata = [(u ''schema_version'', schema_version)], wrapped_keys = []\<rparr>"
  obtain s4 where s4: "write_kek_envelope e m (fresh_envelope ?kek 0 (commitment_of e ?c)) ?s3 = (Inr (), s4)"
    "tick s4 = tick s + 5" using w [of _ ?s3] s1(2) by force
  have v: "verify_store_commitment e ?c ?s3 = (Inr (), s4\<lparr>self_envelope := fresh_envelope ?kek 0 (commitment_of e ?c)\<rparr>)"
    using s4(1) by (simp add: verify_store_commitment_def store_commitment_of fresh_envelope_def write_envelope_def
        bindS_def getS_def modifyS_def liftS_def)
  have "initialize e ?s2 = (Inr (), s4\<lparr>self_envelope := fresh_envelope ?kek 0 (commitment_of e ?c),
      tick := tick s + 6, database := Some ?c\<rparr>)"
    unfolding initialize_def bindS_simps upd
    using v s4(2) cl by (simp add: bindS_connect Let_def bindS_def [of "verify_store_commitment e c" for c]
        bindS_def [of "draw f" for f] draw_def calm_def modifyS_def)
  with i show ?thesis by simp
qed

section \<open>Refusal of a rolled back or edited database\<close>

lemma verify_refuses:
  assumes "env_commitment (self_envelope s) \<noteq> []"
    "commitment_of e d \<noteq> env_commitment (self_envelope s)"
    "Some (commitment_of e d) \<noteq> env_pending_commitment (self_envelope s)"
  shows "verify_store_commitment e d s = (Inl rollback_detected, s)"
  using assms by (simp add: verify_store_commitment_def store_commitment_of raiseS_def)

lemma commitment_determines:
  assumes "scalar_db d" "scalar_db d'" "commitment_of e d = commitment_of e d'"
    "sha256 e (commitment_bytes e d) = sha256 e (commitment_bytes e d') \<Longrightarrow> commitment_bytes e d = commitment_bytes e d'"
  shows "sort_key fst (store_metadata d) = sort_key fst (store_metadata d') \<and> ordered_rows d = ordered_rows d'"
  using assms hexlify_inj commitment_bytes_inj unfolding commitment_of_def by metis

lemma db_wf_scalar: "db_wf e kek d \<Longrightarrow> scalar_db d"
  by (auto simp: db_wf_def scalar_db_def row_wf_def schema_version_def STORE_SCHEMA_VERSION_def
      dec_int_def dec_digits.simps is_scalar_def is_surrogate_def)

end
