(* ===== verification/Kmip_Store_Props.thy ===== *)
theory Kmip_Store_Props
  imports Kmip_Store_Live "HOL-Library.Multiset"
begin

text \<open>
  The properties of the key store: the contract its operations share, as a locale, and the
  theorems about storing, activating, retrieving, locating and counting keys, restarts and
  tampering, each with an instance on a concrete platform.
\<close>

section \<open>The contract of an operation\<close>

text \<open>A sequence of operations of one provider; the state is kept when one of them raises.\<close>

fun run_all :: "(platform \<Rightarrow> pystr \<Rightarrow> 'x \<Rightarrow> 'a store_prog) \<Rightarrow> platform \<Rightarrow> pystr \<Rightarrow> 'x list \<Rightarrow> store \<Rightarrow> store" where
  "run_all run e p [] s = s"
| "run_all run e p (x # xs) s = run_all run e p xs (snd (run e p x s))"

locale provider_operation =
  fixes run :: "platform \<Rightarrow> pystr \<Rightarrow> 'x \<Rightarrow> 'a store_prog"
  assumes step: "platform_ok e \<Longrightarrow> consistent e d s \<Longrightarrow> run e p x s = (r, s') \<Longrightarrow>
    \<exists>d'. consistent e d' s' \<and> same_keys s s'
      \<and> evolves (namespace_of e p) (view e (self_kek s) d) (view e (self_kek s) d')"
begin

lemma steps:
  assumes "platform_ok e" "consistent e d s"
  shows "\<exists>d'. consistent e d' (run_all run e p xs s) \<and> same_keys s (run_all run e p xs s)
    \<and> evolves (namespace_of e p) (view e (self_kek s) d) (view e (self_kek s) d')"
  using assms(2)
proof (induction xs arbitrary: s d)
  case Nil
  then show ?case by auto
next
  case (Cons x xs)
  let ?s1 = "snd (run e p x s)"
  obtain d1 where d1: "consistent e d1 ?s1" "same_keys s ?s1"
    "evolves (namespace_of e p) (view e (self_kek s) d) (view e (self_kek s) d1)"
    using step [OF assms(1) Cons.prems, of p x "fst (run e p x s)" ?s1] by auto
  obtain d2 where "consistent e d2 (run_all run e p xs ?s1)" "same_keys ?s1 (run_all run e p xs ?s1)"
    "evolves (namespace_of e p) (view e (self_kek ?s1) d1) (view e (self_kek ?s1) d2)"
    using Cons.IH [OF d1(1)] by blast
  moreover have "self_kek ?s1 = self_kek s" using d1(2) by (simp add: same_keys_def)
  ultimately show ?case using d1 same_keys_trans evolves_trans by (metis run_all.simps(2))
qed

text \<open>What another provider retrieves does not depend on it.\<close>

lemma isolated:
  assumes ok: "platform_ok e" and c: "consistent e d s" and run: "run e p x s = (r, s1)"
    and ns: "namespace_of e p' \<noteq> namespace_of e p"
    and g: "get_key e p' k s = (r0, t0)" "get_key e p' k s1 = (r1, t1)"
      "r0 \<noteq> Inl OSError" "r1 \<noteq> Inl OSError"
  shows "r1 = r0"
proof -
  obtain d1 where d1: "consistent e d1 s1" "same_keys s s1"
    "evolves (namespace_of e p) (view e (self_kek s) d) (view e (self_kek s) d1)"
    using step [OF ok c run] by blast
  have "lookup e (view e (self_kek s) d1) p' k = lookup e (view e (self_kek s) d) p' k"
    using d1(3) ns by (auto simp: lookup_def validated_uuid_eq evolves_def split: option.splits)
  moreover have "self_kek s1 = self_kek s" using d1(2) by (simp add: same_keys_def)
  ultimately show ?thesis using get_key_refines [OF ok c g(1)] get_key_refines [OF ok d1(1) g(2)] g(3,4) by simp
qed

end

lemma evolves_created: "created e p name V r V' \<Longrightarrow> evolves (namespace_of e p) V V'"
  by (auto simp: created_def intro: evolves_insert)

lemma lookup_SomeD:
  assumes "lookup e V p k = Inr x"
  obtains q i where "namespace_of e p = Some q" "namespace_of e k = Some i" "V (q, i) = Some x"
  using assms by (auto simp: lookup_def validated_uuid_eq bindE_eq_Inr split: option.splits)

lemma view_row_id: "view e kek d i = Some (md, key) \<Longrightarrow> row_id md = i"
proof (elim view_SomeD)
  fix r
  assume f: "find (\<lambda>r. row_id r = i) (wrapped_keys d) = Some r" and "decrypt_row e kek r = Inr (md, key)"
  then have "md = metadata r" using decrypt_row_result by blast
  with find_SomeD [OF f] show ?thesis by simp
qed

lemma evolves_activation: "activation e p k (view e kek d) r V' \<Longrightarrow> evolves (namespace_of e p) (view e kek d) V'"
proof -
  assume "activation e p k (view e kek d) r V'"
  then obtain md key t where l: "lookup e (view e kek d) p k = Inr (md, key)" "sk_state md = PRE_ACTIVE"
    and V': "V' = (view e kek d)(row_id md \<mapsto> (activated md t, key))"
    unfolding activation_def by blast
  obtain q i where q: "namespace_of e p = Some q" "view e kek d (q, i) = Some (md, key)"
    using l(1) by (rule lookup_SomeD)
  moreover have "advances md (activated md t)" using l(2) by (auto simp: advances_def activated_def)
  ultimately show ?thesis using V' view_row_id [OF q(2)] by (simp add: evolves_advance)
qed

interpretation create: provider_operation create_key
proof
  fix e d s p x r s'
  assume "platform_ok e" "consistent e d s" "create_key e p x s = (r, s')"
  from create_key_refines [OF this] show "\<exists>d'. consistent e d' s' \<and> same_keys s s'
      \<and> evolves (namespace_of e p) (view e (self_kek s) d) (view e (self_kek s) d')"
    using evolves_created evolves_refl by metis
qed

interpretation activate: provider_operation activate_key
proof
  fix e d s p x r s'
  assume "platform_ok e" "consistent e d s" "activate_key e p x s = (r, s')"
  from activate_key_refines [OF this] show "\<exists>d'. consistent e d' s' \<and> same_keys s s'
      \<and> evolves (namespace_of e p) (view e (self_kek s) d) (view e (self_kek s) d')"
    using evolves_activation evolves_refl by metis
qed

interpretation get: provider_operation get_key
  by unfold_locales (use get_key_refines evolves_refl in blast)

interpretation get_meta: provider_operation get_metadata
  by unfold_locales (use get_metadata_refines evolves_refl in blast)

interpretation locate: provider_operation "\<lambda>e p (st, name, n). locate_keys e p st name n"
proof
  fix e d s p x r s'
  assume "platform_ok e" "consistent e d s" "(case x of (st, name, n) \<Rightarrow> locate_keys e p st name n) s = (r, s')"
  then show "\<exists>d'. consistent e d' s' \<and> same_keys s s'
      \<and> evolves (namespace_of e p) (view e (self_kek s) d) (view e (self_kek s) d')"
    using locate_keys_refines [of e d s p "fst x" "fst (snd x)" "snd (snd x)" r s'] evolves_refl
    by (cases x) auto
qed

section \<open>A concrete platform\<close>

text \<open>
  An instance of the platform on which the theorems below are exercised: a cipher that leaves its
  input unchanged, a digest that tells the empty store from all others, a counter for random bytes, and no failures.
\<close>

definition sample_digest :: "bytes \<Rightarrow> bytes" where
  "sample_digest b =
     replicate 32 (if b = map byte_of (json_dumps (\<lambda>q. []) (commitment_document empty_db)) then 0 else 1)"

definition sample_platform :: platform where
  "sample_platform = \<lparr>aes_encrypt = (\<lambda>k n p a. p), aes_decrypt = (\<lambda>k n c a. Inr c),
     sha256 = sample_digest, os_urandom = (\<lambda>t n. replicate n (byte_of t)),
     utc_now = (\<lambda>t. u ''2026-01-01T00:00:00+00:00''), write_outcome = (\<lambda>t. Written),
     commit_outcome = (\<lambda>t. None), ascii_fold = (\<lambda>c. c), float_repr = (\<lambda>q. []),
     float_parse = (\<lambda>t. JNull), iso_epoch = (\<lambda>t. Inr 0), unix_time = int\<rparr>"


definition blank_store :: store where
  "blank_store = \<lparr>database = None, kek_file = None, tick = 0, self_master_key = [], self_kek = [],
     self_envelope = fresh_envelope [] 0 []\<rparr>"

definition provider_a :: pystr where "provider_a = uuid_str (replicate 16 1)"
definition provider_b :: pystr where "provider_b = uuid_str (replicate 16 2)"
definition sample_secret :: pystr where "sample_secret = u ''secret''"

lemma sample_ok: "platform_ok sample_platform" "calm sample_platform"
  by (simp_all add: platform_ok_def calm_def sample_platform_def sample_digest_def)

lemma sample_namespaces:
  "namespace_of e provider_a = Some provider_a" "namespace_of e provider_b = Some provider_b"
  "provider_a \<noteq> provider_b" "canonical_uuid provider_a" "canonical_uuid provider_b"
proof -
  show ca: "canonical_uuid provider_a" and cb: "canonical_uuid provider_b"
    unfolding canonical_uuid_def provider_a_def provider_b_def by (rule exI, rule conjI [OF _ refl], simp)+
  show "namespace_of e provider_a = Some provider_a" "namespace_of e provider_b = Some provider_b"
    using namespace_of_canonical ca cb by simp_all
  show "provider_a \<noteq> provider_b"
    by (simp add: provider_a_def provider_b_def uuid_str_inj)
qed

lemma sample_master: "\<exists>m. master_key sample_platform sample_secret = Inr m \<and> length m = 32"
proof -
  have "list_all printable (u ''secret'')" by (simp add: u_def)
  then show ?thesis
    by (simp add: master_key_def sample_secret_def encode_utf8_printable) (simp add: sample_platform_def sample_digest_def)
qed

lemma sample_started:
  obtains s where "init sample_platform sample_secret blank_store = (Inr (), s)" "tick s = 6"
    "reachable sample_platform sample_secret s" "consistent sample_platform empty_db s"
    "master_key sample_platform sample_secret = Inr (self_master_key s)"
proof -
  have b: "database blank_store = None" "kek_file blank_store = None" "tick blank_store = 0"
    by (simp_all add: blank_store_def)
  obtain m where "master_key sample_platform sample_secret = Inr m" "length m = 32"
    using sample_master by blast
  from init_fresh_succeeds [OF sample_ok(2) this b(1,2)] b(3) obtain s where
    s: "init sample_platform sample_secret blank_store = (Inr (), s)" "tick s = 6" by auto
  from init_fresh [OF sample_ok(1) b(1,2) s(1)] reachable.start [OF b(1,2) s(1)] s that show thesis by blast
qed

lemma sample_created:
  obtains s md s1 where "reachable sample_platform sample_secret s" "consistent sample_platform empty_db s"
    "create_key sample_platform provider_a (Some (u ''disk'')) s = (Inr md, s1)"
    "reachable sample_platform sample_secret s1"
proof -
  obtain s where s: "reachable sample_platform sample_secret s" "consistent sample_platform empty_db s"
    by (rule sample_started)
  have "\<exists>md s1. create_key sample_platform provider_a (Some (u ''disk'')) s = (Inr md, s1)"
    by (rule create_key_succeeds [OF sample_ok(2,1) s(2) sample_namespaces(1)])
      (simp_all add: empty_db_def sql_length_def u_def is_scalar_def is_surrogate_def)
  with s that reachable.create show thesis by blast
qed

lemma lookup_no_OSError: "lookup e V p k \<noteq> Inl OSError"
  by (auto simp: lookup_def validated_uuid_eq bindE_eq_Inl split: option.splits)

lemma sample_lookup:
  assumes "consistent sample_platform d s" "create_key sample_platform p name s = (Inr md, s1)"
  shows "\<exists>d1 key. consistent sample_platform d1 s1 \<and> sk_state md = PRE_ACTIVE
    \<and> lookup sample_platform (view sample_platform (self_kek s1) d1) p (sk_key_id md) = Inr (md, key)"
proof -
  let ?e = sample_platform
  obtain d1 where d1: "consistent ?e d1 s1" "same_keys s s1"
    "created ?e p name (view ?e (self_kek s) d) (Inr md) (view ?e (self_kek s) d1)"
    using create_key_refines [OF sample_ok(1) assms] by auto
  then obtain q kid t key where c: "namespace_of ?e p = Some q" "canonical_uuid kid"
    "view ?e (self_kek s) d1 (q, kid) = Some (md, key)" "md = new_key q kid name t"
    unfolding created_def by auto
  with d1(1,2) namespace_of_canonical [OF c(2)] show ?thesis
    by (intro exI [of _ d1] exI [of _ key]) (auto simp: lookup_def validated_uuid_eq new_key_def same_keys_def)
qed

section \<open>Properties\<close>

text \<open>
  C1: crash safety. In every reachable state - after any operations, platform failures at any
  write or commit, and restarts - the database is well formed, and both the KEK file and the process
  commit to exactly the database that is on disk.
\<close>

theorem reachable_consistent:
  assumes "platform_ok e" "reachable e sec s"
  shows "\<exists>d. consistent e d s"
  using reachable_inv [OF assms] by blast

theorem reachable_consistent_witness:
  "\<exists>s d. reachable sample_platform sample_secret s \<and> wrapped_keys d \<noteq> [] \<and> consistent sample_platform d s"
proof -
  obtain s md s1 where s: "consistent sample_platform empty_db s"
    "create_key sample_platform provider_a (Some (u ''disk'')) s = (Inr md, s1)"
    "reachable sample_platform sample_secret s1"
    by (rule sample_created)
  obtain d where d: "consistent sample_platform d s1"
    using reachable_consistent [OF sample_ok(1) s(3)] by blast
  obtain d' where d': "consistent sample_platform d' s1"
    "created sample_platform provider_a (Some (u ''disk'')) (view sample_platform (self_kek s) empty_db) (Inr md)
       (view sample_platform (self_kek s) d')"
    using create_key_refines [OF sample_ok(1) s(1,2)] by auto
  then have "wrapped_keys d' \<noteq> []"
    unfolding created_def by (auto simp: view_def fun_eq_iff) (metis option.distinct(1))
  with consistent_unique [OF d'(1) d] d s(3) show ?thesis by blast
qed

text \<open>
  C17: a restart loses nothing. A new process with the same secrets key opens the store that any
  reachable process left on disk, and retrieves for every provider and key exactly what the old
  process would have retrieved.
\<close>

theorem restart_preserves_keys:
  assumes "platform_ok e" "calm e" "reachable e sec s" "same_disk s s0" "Suc (tick s) < decimal_bound"
  shows "\<exists>s'. init e sec s0 = (Inr (), s') \<and> (\<forall>p k. fst (get_key e p k s') = fst (get_key e p k s))"
proof -
  obtain d where d: "consistent e d s" "master_key e sec = Inr (self_master_key s)"
    using reachable_inv [OF assms(1,3)] by blast
  obtain s' where s': "init e sec s0 = (Inr (), s')" "consistent e d s'" "same_keys s s'"
    using init_again_succeeds [OF assms(2,1) d(1) assms(4) d(2) assms(5)] by blast
  have "fst (get_key e p k s') = fst (get_key e p k s)" for p k
    using get_key_succeeds [OF assms(2,1) d(1), of p k] get_key_succeeds [OF assms(2,1) s'(2), of p k] s'(3)
    by (auto simp: same_keys_def)
  with s'(1) show ?thesis by blast
qed

theorem restart_preserves_keys_witness:
  "\<exists>s s'. reachable sample_platform sample_secret s \<and> same_disk s s
     \<and> init sample_platform sample_secret s = (Inr (), s')
     \<and> fst (get_key sample_platform provider_a provider_b s') = fst (get_key sample_platform provider_a provider_b s)"
proof -
  obtain s where s: "tick s = 6" "reachable sample_platform sample_secret s" by (rule sample_started)
  have "same_disk s s" by (simp add: same_disk_def)
  moreover have "Suc (tick s) < decimal_bound" using s(1) by (simp add: decimal_bound_large)
  ultimately show ?thesis using restart_preserves_keys [OF sample_ok s(2)] s(2) by blast
qed

text \<open>
  storing and retrieving. A key that \<open>create_key\<close> returned is Pre-Active, carries the
  requested name, belongs to the provider that created it, and is retrieved by that provider
  together with 32 bytes of key material.
\<close>

theorem create_then_get:
  assumes "platform_ok e" "consistent e d s" "create_key e p name s = (Inr md, s1)"
    "get_key e p (sk_key_id md) s1 = (r, s2)" "r \<noteq> Inl OSError"
  shows "\<exists>key. r = Inr (md, key) \<and> length key = 32 \<and> sk_state md = PRE_ACTIVE \<and> sk_name md = name
    \<and> namespace_of e p = Some (sk_provider_id md)"
proof -
  obtain d1 where d1: "consistent e d1 s1" "same_keys s s1"
    "created e p name (view e (self_kek s) d) (Inr md) (view e (self_kek s) d1)"
    using create_key_refines [OF assms(1-3)] by auto
  then obtain q kid t key where c: "namespace_of e p = Some q" "canonical_uuid kid" "length key = 32"
    "view e (self_kek s) d1 (q, kid) = Some (md, key)" "md = new_key q kid name t"
    unfolding created_def by auto
  have "r = lookup e (view e (self_kek s) d1) p (sk_key_id md)"
    using get_key_refines [OF assms(1) d1(1) assms(4)] assms(5) d1(2) by (simp add: same_keys_def)
  with c namespace_of_canonical [OF c(2)] show ?thesis
    by (auto simp: lookup_def validated_uuid_eq new_key_def)
qed

theorem create_then_get_witness:
  "\<exists>s md s1 key s2. create_key sample_platform provider_a (Some (u ''disk'')) s = (Inr md, s1)
     \<and> get_key sample_platform provider_a (sk_key_id md) s1 = (Inr (md, key), s2) \<and> length key = 32"
proof -
  obtain s md s1 where s: "consistent sample_platform empty_db s"
    "create_key sample_platform provider_a (Some (u ''disk'')) s = (Inr md, s1)"
    "reachable sample_platform sample_secret s1"
    by (rule sample_created)
  obtain d1 where d1: "consistent sample_platform d1 s1" using reachable_inv [OF sample_ok(1) s(3)] by blast
  obtain s2 r where g: "get_key sample_platform provider_a (sk_key_id md) s1 = (r, s2)" by fastforce
  have "r \<noteq> Inl OSError"
    using get_key_succeeds [OF sample_ok(2,1) d1, of provider_a "sk_key_id md"] g lookup_no_OSError by auto
  from create_then_get [OF sample_ok(1) s(1,2) g this] s(2) g show ?thesis by blast
qed

text \<open>
  activation. A successful \<open>activate_key\<close> leaves the key Active; only the state and the
  activation time of its metadata may have changed, and the key material is the same before and
  after.
\<close>

theorem activate_keeps_material:
  assumes "platform_ok e" "consistent e d s"
    "get_key e p k s = (Inr (md, key), s0)" "activate_key e p k s = (Inr md', s1)"
    "get_key e p k s1 = (r, s2)" "r \<noteq> Inl OSError"
  shows "r = Inr (md', key) \<and> sk_state md' = ACTIVE
    \<and> (md' = md \<or> (\<exists>t. md' = md\<lparr>sk_state := ACTIVE, sk_activated_at := Some t\<rparr>))"
proof -
  let ?V = "view e (self_kek s) d"
  have lk: "lookup e ?V p k = Inr (md, key)" using get_key_refines [OF assms(1-3)] by auto
  obtain d1 where d1: "consistent e d1 s1" "same_keys s s1" and
    cases: "sk_state md = ACTIVE \<and> md' = md \<and> d1 = d \<or> activation e p k ?V (Inr md') (view e (self_kek s) d1)"
    using activate_key_refines [OF assms(1,2,4)] lk by auto
  have r: "r = lookup e (view e (self_kek s) d1) p k"
    using get_key_refines [OF assms(1) d1(1) assms(5)] assms(6) d1(2) by (simp add: same_keys_def)
  from cases show ?thesis
  proof
    assume "sk_state md = ACTIVE \<and> md' = md \<and> d1 = d"
    with r lk show ?thesis by simp
  next
    assume "activation e p k ?V (Inr md') (view e (self_kek s) d1)"
    then obtain t where t: "md' = activated md t" "view e (self_kek s) d1 = ?V(row_id md \<mapsto> (activated md t, key))"
      using lk unfolding activation_def by auto
    obtain q i where q: "namespace_of e p = Some q" "namespace_of e k = Some i" "?V (q, i) = Some (md, key)"
      using lk by (rule lookup_SomeD)
    with r t view_row_id [OF q(3)] show ?thesis
      by (auto simp: lookup_def validated_uuid_eq activated_def)
  qed
qed

theorem activate_keeps_material_witness:
  "\<exists>s p k md key s0 md' s1 s2. get_key sample_platform p k s = (Inr (md, key), s0)
     \<and> activate_key sample_platform p k s = (Inr md', s1)
     \<and> get_key sample_platform p k s1 = (Inr (md', key), s2) \<and> sk_state md' = ACTIVE"
proof -
  obtain s md s1 where s: "consistent sample_platform empty_db s"
    "create_key sample_platform provider_a (Some (u ''disk'')) s = (Inr md, s1)"
    "reachable sample_platform sample_secret s1"
    by (rule sample_created)
  let ?e = sample_platform and ?p = provider_a and ?k = "sk_key_id md"
  obtain d1 key where d1: "consistent ?e d1 s1" and lk: "lookup ?e (view ?e (self_kek s1) d1) ?p ?k = Inr (md, key)"
    "sk_state md = PRE_ACTIVE"
    using sample_lookup [OF s(1,2)] by metis
  obtain md' s2 where a: "activate_key ?e ?p ?k s1 = (Inr md', s2)"
    using activate_key_succeeds [OF sample_ok(2,1) d1 lk] by blast
  obtain d2 where d2: "consistent ?e d2 s2" using activate.step [OF sample_ok(1) d1 a] by blast
  obtain s3 where g1: "get_key ?e ?p ?k s1 = (Inr (md, key), s3)"
    using get_key_succeeds [OF sample_ok(2,1) d1, of ?p ?k] lk(1) by auto
  obtain r s4 where g2: "get_key ?e ?p ?k s2 = (r, s4)" by fastforce
  have "r \<noteq> Inl OSError"
    using get_key_succeeds [OF sample_ok(2,1) d2, of ?p ?k] g2 lookup_no_OSError by auto
  from activate_keeps_material [OF sample_ok(1) d1 g1 a g2 this] a g1 g2 show ?thesis by blast
qed

text \<open>
  provider isolation. Whatever one provider creates or activates, successfully or not,
  changes nothing of what a provider with another identifier retrieves.
\<close>

theorem providers_isolated:
  assumes "platform_ok e" "consistent e d s" "namespace_of e p' \<noteq> namespace_of e p"
    "create_key e p name s = (r, s1) \<or> activate_key e p i s = (r, s1)"
    "get_key e p' k s = (r0, t0)" "get_key e p' k s1 = (r1, t1)" "r0 \<noteq> Inl OSError" "r1 \<noteq> Inl OSError"
  shows "r1 = r0"
  using assms(4) create.isolated [OF assms(1,2) _ assms(3) assms(5-8)] activate.isolated [OF assms(1,2) _ assms(3) assms(5-8)]
  by metis

theorem providers_isolated_witness:
  "\<exists>s md s1 r0 t0 r1 t1. create_key sample_platform provider_a (Some (u ''disk'')) s = (Inr md, s1)
     \<and> get_key sample_platform provider_b (sk_key_id md) s = (r0, t0)
     \<and> get_key sample_platform provider_b (sk_key_id md) s1 = (r1, t1) \<and> r1 = r0"
proof -
  obtain s md s1 where s: "consistent sample_platform empty_db s"
    "create_key sample_platform provider_a (Some (u ''disk'')) s = (Inr md, s1)"
    "reachable sample_platform sample_secret s1"
    by (rule sample_created)
  obtain d1 where d1: "consistent sample_platform d1 s1" using reachable_inv [OF sample_ok(1) s(3)] by blast
  obtain t0 r0 t1 r1 where g: "get_key sample_platform provider_b (sk_key_id md) s = (r0, t0)"
    "get_key sample_platform provider_b (sk_key_id md) s1 = (r1, t1)" by fastforce
  have "r0 \<noteq> Inl OSError" "r1 \<noteq> Inl OSError"
    using get_key_succeeds [OF sample_ok(2,1) s(1), of provider_b "sk_key_id md"]
      get_key_succeeds [OF sample_ok(2,1) d1, of provider_b "sk_key_id md"] g lookup_no_OSError by auto
  moreover have "namespace_of sample_platform provider_b \<noteq> namespace_of sample_platform provider_a"
    using sample_namespaces by simp
  ultimately have "r1 = r0" using providers_isolated [OF sample_ok(1) s(1) _ _ g] s(2) by metis
  with s(2) g show ?thesis by blast
qed




section \<open>Locating and counting, over the vault\<close>

text \<open>The keys of provider \<open>q\<close> in the vault that satisfy a condition on their metadata.\<close>

definition keys_of :: "vault \<Rightarrow> pystr \<Rightarrow> (stored_key \<Rightarrow> bool) \<Rightarrow> pystr set" where
  "keys_of V q P = {k. \<exists>md key. V (q, k) = Some (md, key) \<and> P md}"

lemma keys_of_rows:
  assumes wf: "db_wf e kek d"
  shows "keys_of (view e kek d) q P = sk_key_id ` {r \<in> set (wrapped_keys d). sk_provider_id r = q \<and> P (metadata r)}"
proof (intro set_eqI iffI)
  fix k assume "k \<in> keys_of (view e kek d) q P"
  then obtain md key where v: "view e kek d (q, k) = Some (md, key)" "P md" by (auto simp: keys_of_def)
  obtain r where r: "find (\<lambda>r. row_id r = (q, k)) (wrapped_keys d) = Some r" "decrypt_row e kek r = Inr (md, key)"
    using v(1) by (rule view_SomeD)
  from find_SomeD [OF r(1)] decrypt_row_result [OF r(2)] v(2)
  show "k \<in> sk_key_id ` {r \<in> set (wrapped_keys d). sk_provider_id r = q \<and> P (metadata r)}"
    by (auto simp: row_id_def intro!: image_eqI [of _ _ r])
next
  fix k assume "k \<in> sk_key_id ` {r \<in> set (wrapped_keys d). sk_provider_id r = q \<and> P (metadata r)}"
  then obtain r where r: "r \<in> set (wrapped_keys d)" "row_id r = (q, k)" "P (metadata r)" by (auto simp: row_id_def)
  then obtain key where "decrypt_row e kek r = Inr (metadata r, key)" using wf by (auto simp: db_wf_def row_wf_def)
  from view_row [OF wf r(1) this] r show "k \<in> keys_of (view e kek d) q P" by (auto simp: keys_of_def)
qed

lemma distinct_ids_of_provider:
  assumes "db_wf e kek d" "mset rs = mset (wrapped_keys d)"
  shows "distinct (map sk_key_id (filter (\<lambda>r. sk_provider_id r = q \<and> P (metadata r)) rs))"
proof -
  have "mset (map row_id rs) = mset (map row_id (wrapped_keys d))" using assms(2) by simp
  then have "distinct (map row_id rs)" using assms(1) mset_eq_imp_distinct_iff by (metis db_wf_def)
  then have "inj_on row_id (set rs)" "distinct rs" by (simp_all add: distinct_map)
  then show ?thesis by (auto simp: distinct_map inj_on_def row_id_def)
qed

lemma count_ids:
  assumes wf: "db_wf e kek d" and rs: "mset rs = mset (wrapped_keys d)"
  shows "length (filter (\<lambda>r. sk_provider_id r = q \<and> P (metadata r)) rs) = card (keys_of (view e kek d) q P)"
proof -
  let ?l = "map sk_key_id (filter (\<lambda>r. sk_provider_id r = q \<and> P (metadata r)) rs)"
  have "length ?l = card (set ?l)" using distinct_ids_of_provider [OF assms] by (rule distinct_card [symmetric])
  also have "set ?l = keys_of (view e kek d) q P"
    using mset_eq_setD [OF rs] by (auto simp: keys_of_rows [OF wf])
  finally show ?thesis by simp
qed

lemma tally_card:
  assumes wf: "db_wf e kek d"
  shows "tally q (map metadata (ordered_rows d)) =
    \<lparr>pre_active = card (keys_of (view e kek d) q (\<lambda>md. sk_state md = PRE_ACTIVE)),
     active = card (keys_of (view e kek d) q (\<lambda>md. sk_state md \<noteq> PRE_ACTIVE)),
     total = card (keys_of (view e kek d) q (\<lambda>md. True))\<rparr>"
proof -
  have m: "mset (ordered_rows d) = mset (wrapped_keys d)" by (simp add: ordered_rows_def)
  have f: "length (filter P (filter (\<lambda>md. sk_provider_id md = q) (map metadata rs)))
      = length (filter (\<lambda>r. sk_provider_id r = q \<and> P (metadata r)) rs)" for P rs
    by (simp add: filter_map comp_def metadata_def conj_commute)
  have g: "length (filter (\<lambda>md. sk_provider_id md = q) (map metadata rs))
      = length (filter (\<lambda>r. sk_provider_id r = q \<and> True) rs)" for rs
    by (simp add: filter_map comp_def metadata_def)
  show ?thesis
    unfolding tally_def Let_def f g
    using count_ids [OF wf m, of q "\<lambda>md. sk_state md = PRE_ACTIVE"] count_ids [OF wf m, of q "\<lambda>_. True"]
      count_ids [OF wf m, of q "\<lambda>md. sk_state md \<noteq> PRE_ACTIVE"] by simp
qed

text \<open>
  the lifecycle counts. Every configured provider and every provider that owns a key is
  reported, with exactly the numbers of its Pre-Active, Active and all keys; no other provider is.
\<close>

theorem lifecycle_counts_exact:
  assumes "platform_ok e" "consistent e d s" "lifecycle_counts e ps s = (Inr counts, s')"
  shows "\<exists>ids. map (namespace_of e) ps = map Some ids \<and> (\<forall>q.
    map_of counts q = (if q \<in> set ids \<or> keys_of (view e (self_kek s) d) q (\<lambda>md. True) \<noteq> {} then
      Some \<lparr>pre_active = card (keys_of (view e (self_kek s) d) q (\<lambda>md. sk_state md = PRE_ACTIVE)),
            active = card (keys_of (view e (self_kek s) d) q (\<lambda>md. sk_state md \<noteq> PRE_ACTIVE)),
            total = card (keys_of (view e (self_kek s) d) q (\<lambda>md. True))\<rparr> else None))"
proof -
  have wf: "db_wf e (self_kek s) d" using assms(2) by (rule consistent_basics)
  have "q \<in> sk_provider_id ` set (wrapped_keys d) \<longleftrightarrow> keys_of (view e (self_kek s) d) q (\<lambda>md. True) \<noteq> {}" for q
    by (auto simp: keys_of_rows [OF wf])
  with lifecycle_counts_refines [OF assms] tally_card [OF wf] show ?thesis by auto
qed

theorem lifecycle_counts_exact_witness:
  "\<exists>s d counts s'. lifecycle_counts sample_platform [provider_b] s = (Inr counts, s')
     \<and> keys_of (view sample_platform (self_kek s) d) provider_a (\<lambda>md. True) \<noteq> {}
     \<and> map_of counts provider_a \<noteq> None \<and> map_of counts provider_b \<noteq> None"
proof -
  let ?e = sample_platform
  obtain s md s1 where s: "consistent ?e empty_db s" "create_key ?e provider_a (Some (u ''disk'')) s = (Inr md, s1)"
    by (rule sample_created)
  obtain d key where d: "consistent ?e d s1" "lookup ?e (view ?e (self_kek s1) d) provider_a (sk_key_id md) = Inr (md, key)"
    using sample_lookup [OF s] by blast
  obtain q i where "namespace_of ?e provider_a = Some q" "view ?e (self_kek s1) d (q, i) = Some (md, key)"
    using d(2) by (rule lookup_SomeD)
  then have ne: "keys_of (view ?e (self_kek s1) d) provider_a (\<lambda>md. True) \<noteq> {}"
    using sample_namespaces(1) by (auto simp: keys_of_def)
  obtain counts s' where c: "lifecycle_counts ?e [provider_b] s1 = (Inr counts, s')"
    using lifecycle_counts_succeeds [OF sample_ok(2,1) d(1), of "[provider_b]"] sample_namespaces(2) by auto
  obtain ids where ids: "map (namespace_of ?e) [provider_b] = map Some ids" and all: "\<And>q. map_of counts q =
      (if q \<in> set ids \<or> keys_of (view ?e (self_kek s1) d) q (\<lambda>md. True) \<noteq> {} then
        Some \<lparr>pre_active = card (keys_of (view ?e (self_kek s1) d) q (\<lambda>md. sk_state md = PRE_ACTIVE)),
            active = card (keys_of (view ?e (self_kek s1) d) q (\<lambda>md. sk_state md \<noteq> PRE_ACTIVE)),
            total = card (keys_of (view ?e (self_kek s1) d) q (\<lambda>md. True))\<rparr> else None)"
    using lifecycle_counts_exact [OF sample_ok(1) d(1) c] by blast
  have "provider_b \<in> set ids" using ids sample_namespaces(2) by auto
  with all ne have "map_of counts provider_a \<noteq> None" "map_of counts provider_b \<noteq> None" by simp_all
  with ne c show ?thesis by blast
qed

text \<open>
  Locating keys. The identifiers returned are distinct, at most \<open>limit\<close> of them, all of keys
  of the asking provider with the requested state and name, and all of those when fewer than
  \<open>limit\<close> exist.
\<close>

theorem locate_keys_exact:
  assumes "platform_ok e" "consistent e d s" "locate_keys e p st name n s = (Inr ids, s')"
    "namespace_of e p = Some q"
    "P = (\<lambda>md. (st = None \<or> st = Some (sk_state md)) \<and> (name = None \<or> sk_name md = name))"
  shows "distinct ids \<and> int (length ids) \<le> n \<and> n \<le> 1024
    \<and> set ids \<subseteq> keys_of (view e (self_kek s) d) q P
    \<and> (int (length ids) < n \<longrightarrow> set ids = keys_of (view e (self_kek s) d) q P)"
proof -
  have wf: "db_wf e (self_kek s) d" using assms(2) by (rule consistent_basics)
  let ?m = "filter (\<lambda>r. sk_provider_id r = q \<and> P (metadata r)) (wrapped_keys d)"
  let ?o = "sort_key (\<lambda>r. (sk_created_at r, sk_key_id r)) ?m"
  have "located q st name r \<longleftrightarrow> sk_provider_id r = q \<and> P (metadata r)" for r
    by (auto simp: located_def assms(5) metadata_def split: option.splits)
  then have "matching e p st name d = ?m" using assms(4) by (simp add: matching_def)
  with locate_keys_refines [OF assms(1-3)] have ids: "ids = map sk_key_id (take (nat n) ?o)" and n: "1 \<le> n" "n \<le> 1024"
    by auto
  define os where "os = map sk_key_id ?o"
  have "mset os = mset (map sk_key_id ?m)" by (simp add: os_def)
  then have os: "distinct os"
    using mset_eq_imp_distinct_iff distinct_ids_of_provider [OF wf refl] by metis
  have all: "set os = keys_of (view e (self_kek s) d) q P"
    by (auto simp: os_def keys_of_rows [OF wf])
  have "ids = take (nat n) os" by (simp add: ids os_def take_map)
  with os n all set_take_subset [of "nat n" os] show ?thesis by (auto simp: min_def split: if_splits)
qed

theorem locate_keys_exact_witness:
  "\<exists>s d ids s'. locate_keys sample_platform provider_a None None 1024 s = (Inr ids, s') \<and> ids \<noteq> []
     \<and> set ids = keys_of (view sample_platform (self_kek s) d) provider_a (\<lambda>md. True)
     \<and> int (length ids) \<le> 1024"
proof -
  let ?e = sample_platform
  obtain s md s1 where s: "consistent ?e empty_db s" "create_key ?e provider_a (Some (u ''disk'')) s = (Inr md, s1)"
    by (rule sample_created)
  obtain d key where d: "consistent ?e d s1" "lookup ?e (view ?e (self_kek s1) d) provider_a (sk_key_id md) = Inr (md, key)"
    using sample_lookup [OF s] by blast
  obtain d' where d': "consistent ?e d' s1"
    "created ?e provider_a (Some (u ''disk'')) (view ?e (self_kek s) empty_db) (Inr md) (view ?e (self_kek s) d')" "same_keys s s1"
    using create_key_refines [OF sample_ok(1) s] by auto
  have "view ?e k empty_db = Map.empty" for k by (simp add: view_def empty_db_def fun_eq_iff)
  with d' consistent_unique [OF d'(1) d(1)] obtain i x where V: "view ?e (self_kek s1) d = [(provider_a, i) \<mapsto> x]"
    using sample_namespaces(1) unfolding created_def same_keys_def by auto
  then have ks: "keys_of (view ?e (self_kek s1) d) provider_a (\<lambda>md. True) = {i}" by (cases x) (auto simp: keys_of_def)
  obtain ids s' where l: "locate_keys ?e provider_a None None 1024 s1 = (Inr ids, s')"
    using locate_keys_succeeds [OF sample_ok(2,1) d(1) sample_namespaces(1), of 1024] by auto
  have P: "(\<lambda>md. True) = (\<lambda>md. (None = None \<or> None = Some (sk_state md)) \<and> (None = None \<or> sk_name md = None))"
    by simp
  note exact = locate_keys_exact [OF sample_ok(1) d(1) l sample_namespaces(1) P]
  then have "length ids = card (set ids)" "set ids \<subseteq> {i}" unfolding ks by (simp_all add: distinct_card)
  then have "int (length ids) < 1024" using card_mono [of "{i}" "set ids"] by simp
  with exact ks have "set ids = keys_of (view ?e (self_kek s1) d) provider_a (\<lambda>md. True)" "ids \<noteq> []" by auto
  with exact l show ?thesis by blast
qed

section \<open>Serialised forms\<close>

text \<open>
  A wrapped key is bound to its metadata: two different metadata records have different
  additional authenticated data, so a ciphertext cannot be moved to another provider, key, name
  or state without failing authentication.
\<close>

theorem canonical_aad_binds:
  assumes "scalar_key a" "scalar_key b"
  shows "canonical_aad e a = canonical_aad e b \<longleftrightarrow> a = b"
  using canonical_aad_inj [OF assms] by blast

theorem canonical_aad_binds_witness:
  "canonical_aad sample_platform (new_key provider_a provider_a None []) \<noteq>
   canonical_aad sample_platform (new_key provider_b provider_a None [])"
proof -
  have "scalar_key (new_key provider_a provider_a None [])" "scalar_key (new_key provider_b provider_a None [])"
    using sample_namespaces(4,5) canonical_scalar
    by (simp_all add: scalar_key_def new_key_def scalar_opt_def decimal_bound_large)
  from canonical_aad_binds [OF this, of sample_platform] sample_namespaces(3) show ?thesis
    by (simp add: new_key_def)
qed

text \<open>
  The KEK file. What \<open>_write_kek_envelope\<close> wrote is what \<open>_load_or_create_kek\<close> reads with the
  same master key: key, generation, commitment and pending fields.
\<close>

theorem kek_file_round_trip:
  assumes "platform_ok e" "length m = 32" "envelope_wf v" "small_generation v"
    "write_kek_envelope e m v s = (Inr (), s')"
  shows "\<exists>b. kek_file s' = Some b \<and> open_kek_file e m b = Inr v"
  using write_kek_envelope_Inr [OF assms(1,2,5)] open_sealed [OF assms(1-4)] by auto

theorem kek_file_round_trip_witness:
  "\<exists>b s'. write_kek_envelope sample_platform (replicate 32 7) (fresh_envelope (replicate 32 5) 3 (u ''ab'')) blank_store = (Inr (), s')
     \<and> kek_file s' = Some b
     \<and> open_kek_file sample_platform (replicate 32 7) b = Inr (fresh_envelope (replicate 32 5) 3 (u ''ab''))"
proof -
  let ?v = "fresh_envelope (replicate 32 5) 3 (u ''ab'')"
  have v: "envelope_wf ?v" "small_generation ?v"
    by (simp_all add: envelope_wf_def fresh_envelope_def small_generation_def decimal_bound_large)
  have m: "length (replicate 32 7 :: bytes) = 32" by simp
  have "\<exists>s'. write_kek_envelope sample_platform (replicate 32 7) ?v blank_store = (Inr (), s')"
    unfolding write_kek_envelope_eq [OF m] Let_def by (simp add: sample_platform_def)
  then obtain s' where w: "write_kek_envelope sample_platform (replicate 32 7) ?v blank_store = (Inr (), s')" by blast
  from kek_file_round_trip [OF sample_ok(1) m v w] w show ?thesis by blast
qed

text \<open>
  identifiers are normalised once: a validated identifier is its own normal form, whatever
  spelling (\<open>urn:uuid:\<close> prefix, braces, missing dashes, capitals) it was given in.
\<close>

theorem validated_uuid_idempotent:
  assumes "validated_uuid e v l = Inr q"
  shows "validated_uuid e q l' = Inr q \<and> length q = 36"
proof -
  have q: "namespace_of e v = Some q" using assms by (simp add: validated_uuid_eq split: option.splits)
  then obtain b where b: "length b = 16" "q = uuid_str b" using namespace_canonical canonical_uuid_def by blast
  then have "length q = 36" by (simp add: uuid_str_def Let_def)
  with namespace_of_canonical [OF namespace_canonical [OF q], of e] show ?thesis by (simp add: validated_uuid_eq)
qed

theorem validated_uuid_idempotent_witness:
  "validated_uuid sample_platform provider_a ''provider_id'' = Inr provider_a
   \<and> validated_uuid sample_platform provider_a ''key_id'' = Inr provider_a \<and> length provider_a = 36"
proof -
  have "validated_uuid sample_platform provider_a ''provider_id'' = Inr provider_a"
    by (simp add: validated_uuid_eq sample_namespaces)
  with validated_uuid_idempotent [OF this] show ?thesis by blast
qed

end
