(* ===== verification/Kmip_Protocol_Props.thy ===== *)
theory Kmip_Protocol_Props
  imports Kmip_Protocol Kmip_Store_Props
begin

text \<open>
  Properties of the dispatcher. \<open>honours\<close> is the contract \<open>provider_operation\<close> of the key store
  for one program; it is closed under sequencing and exception handling, so it carries over from
  the operations of the store to a whole request.
\<close>

section \<open>The store contract for programs\<close>

definition honours :: "platform \<Rightarrow> pystr \<Rightarrow> 'a store_prog \<Rightarrow> bool" where
  "honours e p m \<longleftrightarrow> (\<forall>d s r s'. platform_ok e \<longrightarrow> consistent e d s \<longrightarrow> m s = (r, s') \<longrightarrow>
     (\<exists>d'. consistent e d' s' \<and> same_keys s s'
        \<and> evolves (namespace_of e p) (view e (self_kek s) d) (view e (self_kek s) d')))"

named_theorems honours_intros \<open>programs that meet the contract of a provider operation\<close>

lemma honoursD:
  assumes "honours e p m" "platform_ok e" "consistent e d s" "m s = (r, s')"
  shows "\<exists>d'. consistent e d' s' \<and> same_keys s s'
    \<and> evolves (namespace_of e p) (view e (self_kek s) d) (view e (self_kek s) d')"
  using assms unfolding honours_def by blast

lemma honours_basic [honours_intros]:
  "honours e p (returnS x)" "honours e p (raiseS ex)" "honours e p (liftS m)"
  by (auto simp: honours_def prog_defs)

lemma honours_draw [honours_intros]: "honours e p (draw f)"
proof -
  have "consistent e d (s\<lparr>tick := Suc (tick s)\<rparr>)" if "consistent e d s" for d s
    using that by (rule consistent_tick) simp
  then show ?thesis unfolding honours_def draw_def same_keys_def by fastforce
qed

lemma honours_seq:
  assumes "honours e p m" "\<And>d s. honours e p (n (fst (m s)))"
  shows "honours e p (\<lambda>s. n (fst (m s)) (snd (m s)))"
  unfolding honours_def
proof (intro allI impI)
  fix d s r s'
  assume ok: "platform_ok e" and c: "consistent e d s" and run: "n (fst (m s)) (snd (m s)) = (r, s')"
  obtain d1 where d1: "consistent e d1 (snd (m s))" "same_keys s (snd (m s))"
    "evolves (namespace_of e p) (view e (self_kek s) d) (view e (self_kek s) d1)"
    using honoursD [OF assms(1) ok c, of "fst (m s)" "snd (m s)"] by auto
  obtain d2 where d2: "consistent e d2 s'" "same_keys (snd (m s)) s'"
    "evolves (namespace_of e p) (view e (self_kek (snd (m s))) d1) (view e (self_kek (snd (m s))) d2)"
    using honoursD [OF assms(2) ok d1(1) run] by blast
  moreover have "self_kek (snd (m s)) = self_kek s" using d1(2) by (simp add: same_keys_def)
  ultimately show "\<exists>d'. consistent e d' s' \<and> same_keys s s' \<and>
      evolves (namespace_of e p) (view e (self_kek s) d) (view e (self_kek s) d')"
    using d1 same_keys_trans evolves_trans by metis
qed

lemma honours_bindS [honours_intros]:
  assumes "honours e p m" "\<And>x. honours e p (f x)"
  shows "honours e p (bindS m f)"
proof -
  have "bindS m f = (\<lambda>s. (case fst (m s) of Inl ex \<Rightarrow> raiseS ex | Inr x \<Rightarrow> f x) (snd (m s)))"
    by (auto simp: bindS_def raiseS_def fun_eq_iff split: prod.splits sum.splits)
  then show ?thesis
    using honours_seq [OF assms(1), of "\<lambda>r. case r of Inl ex \<Rightarrow> raiseS ex | Inr x \<Rightarrow> f x"] assms(2)
    by (simp add: honours_basic split: sum.split)
qed

lemma honours_catchS [honours_intros]:
  assumes "honours e p m" "\<And>x. honours e p (h x)"
  shows "honours e p (catchS m h)"
proof -
  have "catchS m h = (\<lambda>s. (case fst (m s) of Inl ex \<Rightarrow> h ex | Inr x \<Rightarrow> returnS x) (snd (m s)))"
    by (auto simp: catchS_def returnS_def fun_eq_iff split: prod.splits sum.splits)
  then show ?thesis
    using honours_seq [OF assms(1), of "\<lambda>r. case r of Inl ex \<Rightarrow> h ex | Inr x \<Rightarrow> returnS x"] assms(2)
    by (simp add: honours_basic split: sum.split)
qed

lemma honours_store [honours_intros]:
  "honours e p (create_key e p name)" "honours e p (activate_key e p k)"
  "honours e p (get_key e p k)" "honours e p (get_metadata e p k)"
  "honours e p (locate_keys e p st name n)"
  unfolding honours_def
  using create.step activate.step get.step get_meta.step locate.step [where x = "(st, name, n)"] by simp_all

lemma honours_recover [honours_intros]: "honours e p (recover v ex)"
  unfolding recover_def by (auto intro: honours_basic split: option.splits)

lemma honours_dispatch_operation [honours_intros]: "honours e p (dispatch_operation e p op payload)"
  unfolding dispatch_operation_def create_operation_def activate_operation_def get_operation_def
    get_attributes_operation_def get_attribute_list_operation_def locate_operation_def Let_def
  by (cases op) (auto intro!: honours_intros split: option.splits)

lemma honours_dispatch_item [honours_intros]: "honours e p (dispatch_item e p item)"
  unfolding dispatch_item_def run_item_def
  by (auto intro!: honours_intros split: sum.splits option.splits)

lemma honours_dispatch_items [honours_intros]: "honours e p (dispatch_items e p items)"
  by (induction items) (auto intro!: honours_intros)

interpretation dispatch: provider_operation dispatch
proof
  fix e d s p x r s'
  assume a: "platform_ok e" "consistent e d s" "dispatch e p x s = (r, s')"
  have "honours e p (dispatch e p x)" unfolding dispatch_def by (auto intro!: honours_intros)
  from honoursD [OF this a] show "\<exists>d'. consistent e d' s' \<and> same_keys s s' \<and>
      evolves (namespace_of e p) (view e (self_kek s) d) (view e (self_kek s) d')" .
qed

section \<open>Key material in responses\<close>

text \<open>All byte strings of a message. Key material is the only byte string the protocol has.\<close>

fun byte_strings :: "ttlv \<Rightarrow> bytes list" where
  "byte_strings (Ttlv t ty (VTuple cs)) = concat (map byte_strings cs)"
| "byte_strings (Ttlv t ty (VBytes b)) = [b]"
| "byte_strings (Ttlv t ty v) = []"

definition active_key :: "vault \<Rightarrow> pystr option \<Rightarrow> bytes \<Rightarrow> bool" where
  "active_key V ns key \<longleftrightarrow>
     (\<exists>q k md. ns = Some q \<and> V (q, k) = Some (md, key) \<and> sk_state md = ACTIVE)"

lemma active_key_kept: "active_key V ns key \<Longrightarrow> evolves ns V V' \<Longrightarrow> active_key V' ns key"
  unfolding active_key_def evolves_def advances_def by fastforce

lemma byte_strings_simps [simp]:
  "byte_strings (structure_node t cs) = concat (map byte_strings cs)"
  "byte_strings (enumeration t i) = []" "byte_strings (integer t i) = []"
  "byte_strings (text_string t x) = []" "byte_strings (date_time t i) = []"
  "byte_strings (byte_string t b) = [b]"
  by (simp_all add: ttlv_constructors)

lemma byte_strings_attribute:
  assumes "metadata_attribute e n md = Inr a"
  shows "byte_strings a = []"
proof -
  have "byte_strings (attribute_node n v) = byte_strings v" for v
    by (cases v rule: byte_strings.cases) (simp_all add: attribute_node_def)
  with assms show ?thesis
    by (auto simp: metadata_attribute_def bindE_eq_Inr split: if_splits option.splits)
qed

lemma byte_strings_query: "query_operation payload = Inr ns \<Longrightarrow> concat (map byte_strings ns) = []"
proof -
  have q: "query_answer f = Inr ns \<Longrightarrow> concat (map byte_strings ns) = []" for f ns
    by (auto simp: query_answer_def split: if_splits)
  have "list_all2 (\<lambda>f ns. query_answer f = Inr ns) fs nss \<Longrightarrow> concat (map byte_strings (concat nss)) = []" for fs nss
    by (induction rule: list_all2_induct) (auto dest: q)
  then show "query_operation payload = Inr ns \<Longrightarrow> concat (map byte_strings ns) = []"
    by (auto simp: query_operation_def bindE_eq_Inr mapE_eq_Inr)
qed

lemma version_no_bytes [simp]: "byte_strings version_node = []"
  by (simp add: version_node_def)

text \<open>The result of an operation other than Get holds no byte string.\<close>

lemma operation_no_bytes:
  assumes "op \<noteq> GET" "dispatch_operation e p op payload s = (Inr ns, s')"
  shows "concat (map byte_strings ns) = []"
proof (cases op)
  case GET_ATTRIBUTES
  then obtain md names attrs where ns: "ns = text_string (tag_value UNIQUE_IDENTIFIER) (sk_key_id md) # attrs"
    and a: "mapE (\<lambda>n. metadata_attribute e n md) names = Inr attrs"
    using assms(2)
    by (auto simp: dispatch_operation_def get_attributes_operation_def bindS_eq_Inr liftS_def returnS_def Let_def)
  have "list_all2 (\<lambda>n a. byte_strings a = []) names attrs"
    using a unfolding mapE_eq_Inr by (rule list_all2_mono) (rule byte_strings_attribute)
  then have "concat (map byte_strings attrs) = []" by (induction rule: list_all2_induct) simp_all
  with ns show ?thesis by simp
next
  case QUERY
  with assms(2) byte_strings_query show ?thesis by (auto simp: dispatch_operation_def bindS_eq_Inr liftS_def)
qed (use assms in \<open>auto simp: dispatch_operation_def bindS_eq_Inr liftS_def returnS_def create_operation_def
       activate_operation_def get_attribute_list_operation_def locate_operation_def
       discover_versions_operation_def bindE_eq_Inr split: option.splits\<close>)

lemma operation_active:
  assumes ok: "platform_ok e" and c: "consistent e d s"
    and run: "dispatch_operation e p op payload s = (Inr ns, s')" and b: "key \<in> set (concat (map byte_strings ns))"
  shows "active_key (view e (self_kek s) d) (namespace_of e p) key"
proof (cases "op = GET")
  case True
  then obtain k md plaintext s1 where g: "get_key e p k s = (Inr (md, plaintext), s1)" "sk_state md = ACTIVE"
    and ns: "set (concat (map byte_strings ns)) = {plaintext}"
    using run by (auto simp: dispatch_operation_def get_operation_def bindS_eq_Inr liftS_def returnS_def symmetric_key_node_def)
  have "lookup e (view e (self_kek s) d) p k = Inr (md, plaintext)"
    using get_key_refines [OF ok c g(1)] by auto
  then show ?thesis using g(2) ns b by (elim lookup_SomeD) (auto simp: active_key_def)
next
  case False
  from operation_no_bytes [OF this run] b show ?thesis by simp
qed

lemma item_active:
  assumes ok: "platform_ok e" and c: "consistent e d s"
    and run: "dispatch_item e p item s = (Inr resp, s')" and b: "key \<in> set (byte_strings resp)"
  shows "active_key (view e (self_kek s) d) (namespace_of e p) key"
proof -
  have rec: "byte_strings resp = []" if "recover v ex t = (Inr resp, s')" for v ex t
    using that by (auto simp: recover_def failed_batch_def returnS_def raiseS_def split: option.splits)
  with run b obtain v where "item_operation item = Inr v" and
    run1: "catchS (run_item e p item v) (recover v) s = (Inr resp, s')"
    by (cases "item_operation item") (auto simp: dispatch_item_def)
  have "run_item e p item v s = (Inr resp, s')"
    using run1 rec b by (auto simp: catchS_def split: prod.splits sum.splits)
  then obtain op payload ns where "dispatch_operation e p op payload s = (Inr ns, s')" "resp = success_batch op ns"
    by (auto simp: run_item_def raiseS_def bindS_eq_Inr liftS_def returnS_def split: option.splits)
  then show ?thesis using operation_active [OF ok c] b by (simp add: success_batch_def)
qed

lemma items_active:
  assumes ok: "platform_ok e" and c: "consistent e d s"
    and run: "dispatch_items e p items s = (Inr resps, s')" and b: "key \<in> set (concat (map byte_strings resps))"
  shows "\<exists>d'. consistent e d' s' \<and> active_key (view e (self_kek s) d') (namespace_of e p) key"
  using c run b
proof (induction items arbitrary: d s resps)
  case Nil
  then show ?case by (simp add: returnS_def)
next
  case (Cons item items)
  obtain resp s1 resps' where r1: "dispatch_item e p item s = (Inr resp, s1)"
    and r2: "dispatch_items e p items s1 = (Inr resps', s')" and resps: "resps = resp # resps'"
    using Cons.prems(2) by (auto simp: bindS_eq_Inr returnS_def)
  obtain d1 where d1: "consistent e d1 s1" "same_keys s s1"
    "evolves (namespace_of e p) (view e (self_kek s) d) (view e (self_kek s) d1)"
    using honoursD [OF honours_dispatch_item ok Cons.prems(1) r1] by blast
  have kek: "self_kek s1 = self_kek s" using d1(2) by (simp add: same_keys_def)
  obtain d2 where d2: "consistent e d2 s'" "evolves (namespace_of e p) (view e (self_kek s) d1) (view e (self_kek s) d2)"
    using honoursD [OF honours_dispatch_items ok d1(1) r2] kek by auto
  show ?case
  proof (cases "key \<in> set (byte_strings resp)")
    case True
    from item_active [OF ok Cons.prems(1) r1 True] active_key_kept d1(3) d2 show ?thesis by blast
  next
    case False
    then have "key \<in> set (concat (map byte_strings resps'))" using Cons.prems(3) resps by simp
    from Cons.IH [OF d1(1) r2 this] kek show ?thesis by simp
  qed
qed

lemma dispatch_keys_active:
  assumes "platform_ok e" "consistent e d s" "dispatch e p req s = (Inr resp, s')" "key \<in> set (byte_strings resp)"
  shows "\<exists>d'. consistent e d' s' \<and> active_key (view e (self_kek s') d') (namespace_of e p) key"
proof -
  obtain items resps s1 now where r: "dispatch_items e p items s = (Inr resps, s1)"
    and s': "s' = s1\<lparr>tick := Suc (tick s1)\<rparr>" and resp: "resp = response_message now resps"
    using assms(3) by (auto simp: dispatch_def bindS_eq_Inr liftS_def draw_def returnS_def)
  have "key \<in> set (concat (map byte_strings resps))" using assms(4) resp by (simp add: response_message_def)
  from items_active [OF assms(1,2) r this] obtain d' where d': "consistent e d' s1"
    "active_key (view e (self_kek s) d') (namespace_of e p) key" by blast
  have "consistent e d' s'" unfolding s' using d'(1) by (rule consistent_tick) simp
  moreover have "self_kek s' = self_kek s"
    using honoursD [OF honours_dispatch_items assms(1,2) r] s' by (auto simp: same_keys_def)
  ultimately show ?thesis using d'(2) by auto
qed

section \<open>Requests of a client\<close>

definition request :: "ttlv list \<Rightarrow> ttlv" where
  "request items = structure_node (tag_value REQUEST_MESSAGE)
     (structure_node (tag_value REQUEST_HEADER)
        [version_node, integer (tag_value BATCH_COUNT) (int (length items))] # items)"

definition batch_item :: "operation \<Rightarrow> ttlv list \<Rightarrow> ttlv" where
  "batch_item op fs = structure_node (tag_value BATCH_ITEM)
     [enumeration (tag_value OPERATION) (operation_value op), structure_node (tag_value REQUEST_PAYLOAD) fs]"

definition create_fields :: "ttlv list" where
  "create_fields =
     [enumeration (tag_value OBJECT_TYPE) OBJECT_TYPE_SYMMETRIC_KEY,
      structure_node (tag_value TEMPLATE_ATTRIBUTE)
        [attribute_node (u ''Cryptographic Algorithm'') (enumeration 0 CRYPTOGRAPHIC_ALGORITHM_AES),
         attribute_node (u ''Cryptographic Length'') (integer 0 256)]]"

definition id_fields :: "pystr \<Rightarrow> ttlv list" where
  "id_fields k = [text_string (tag_value UNIQUE_IDENTIFIER) k]"

lemmas field_readers = required_child_def child_def children_def children_all_def value_of_def
  integer_value_def text_value_def only_tags_def assert_only_tags_def require_structure_def

lemma request_items_request:
  assumes "\<And>i. i \<in> set items \<Longrightarrow> node_tag i = tag_value BATCH_ITEM" "1 \<le> length items" "length items \<le> 16"
  shows "request_items (request items) = Inr items"
proof -
  have f: "filter (\<lambda>c. node_tag c = 4325391) items = items" "filter (\<lambda>c. node_tag c = 4325495) items = []"
    using assms(1) by (auto simp: filter_id_conv filter_empty_conv)
  have t: "filter (\<lambda>t. t \<noteq> 4325495 \<and> t \<noteq> 4325391) (remdups (map node_tag items)) = []"
    using assms(1) by (auto simp: filter_empty_conv)
  show ?thesis using assms(2,3) f t
    by (simp add: request_items_def request_def field_readers version_node_def protocol_version_def
        ttlv_constructors Let_def MAX_BATCH_ITEMS_def)
qed

lemma item_operation_batch_item: "item_operation (batch_item op fs) = Inr (operation_value op)"
  by (simp add: item_operation_def batch_item_def field_readers ttlv_constructors Let_def)

lemma operation_of_value [simp]: "operation_of (operation_value op) = Some op"
  by (cases op) (simp_all add: operation_of_def operations_def)

lemma payload_batch_item:
  "required_child (batch_item op fs) REQUEST_PAYLOAD = Inr (structure_node (tag_value REQUEST_PAYLOAD) fs)"
  by (simp add: batch_item_def field_readers ttlv_constructors)

lemma dispatch_batch_item:
  "dispatch_item e p (batch_item op fs) s =
     (case dispatch_operation e p op (structure_node (tag_value REQUEST_PAYLOAD) fs) s of
        (Inr ns, s') \<Rightarrow> (Inr (success_batch op ns), s')
      | (Inl ex, s') \<Rightarrow> recover (operation_value op) ex s')"
  by (auto simp: dispatch_item_def item_operation_batch_item run_item_def payload_batch_item catchS_def
      bindS_def returnS_def split: prod.splits sum.splits)

lemma create_request_fields:
  "create_request (structure_node t create_fields) = Inr None"
  by (simp add: create_request_def create_fields_def field_readers ttlv_constructors attribute_node_def Let_def
      parse_template_attributes_def parse_attribute_def protocol_constants)

lemma id_request_fields:
  assumes "k \<noteq> []"
  shows "unique_identifier (structure_node t (id_fields k)) = Inr k"
    "get_request (structure_node t (id_fields k)) = Inr k"
    "only_tags (structure_node t (id_fields k)) [UNIQUE_IDENTIFIER] r m = Inr ()"
  using assms
  by (simp_all add: unique_identifier_def get_request_def id_fields_def field_readers ttlv_constructors Let_def)

lemma payload_structure [simp]: "require_structure (structure_node t cs) r m = Inr ()"
  by (simp add: require_structure_def structure_node_def)

lemma dispatch_request:
  assumes "\<And>i. i \<in> set items \<Longrightarrow> node_tag i = tag_value BATCH_ITEM" "1 \<le> length items" "length items \<le> 16"
    "dispatch_items e p items s = (Inr resps, s1)"
  shows "\<exists>now s'. dispatch e p (request items) s = (Inr (response_message now resps), s')
    \<and> s' = s1\<lparr>tick := Suc (tick s1)\<rparr>"
  using assms by (simp add: dispatch_def request_items_request bindS_def liftS_def draw_def returnS_def) blast

lemma batch_item_tag [simp]: "node_tag (batch_item op fs) = tag_value BATCH_ITEM"
  by (simp add: batch_item_def structure_node_def)

text \<open>Creating, activating and retrieving a key through the protocol.\<close>

lemma lifecycle_run:
  assumes cl: "calm e" and ok: "platform_ok e" and c: "consistent e d s" and q: "namespace_of e p = Some q"
    and fresh: "(q, uuid_str (uuid4_of (os_urandom e (tick s) 16))) \<notin> row_id ` set (wrapped_keys d)"
  obtains kid key d1 s1 s2 now1 now2 where
    "dispatch e p (request [batch_item CREATE create_fields]) s =
       (Inr (response_message now1 [success_batch CREATE
          [enumeration (tag_value OBJECT_TYPE) OBJECT_TYPE_SYMMETRIC_KEY, text_string (tag_value UNIQUE_IDENTIFIER) kid]]), s1)"
    "consistent e d1 s1" "length key = 32"
    "dispatch e p (request [batch_item ACTIVATE (id_fields kid), batch_item GET (id_fields kid)]) s1 =
       (Inr (response_message now2
          [success_batch ACTIVATE [text_string (tag_value UNIQUE_IDENTIFIER) kid],
           success_batch GET [enumeration (tag_value OBJECT_TYPE) OBJECT_TYPE_SYMMETRIC_KEY,
             text_string (tag_value UNIQUE_IDENTIFIER) kid, symmetric_key_node key]]), s2)"
proof -
  obtain md t1 where cr: "create_key e p None s = (Inr md, t1)"
    using create_key_succeeds [OF cl ok c q _ fresh, of None] by auto
  let ?kid = "sk_key_id md" and ?kek = "self_kek s"
  obtain d1 kid t key where d1: "consistent e d1 t1" "same_keys s t1" and n: "canonical_uuid kid" "length key = 32"
    "view e ?kek d1 (q, kid) = Some (md, key)" "md = new_key q kid None t"
    using create_key_refines [OF ok c cr] q by (auto simp: created_def)
  have kid: "?kid = kid" "namespace_of e kid = Some kid" "sk_state md = PRE_ACTIVE"
    using n namespace_of_canonical by (simp_all add: new_key_def)
  have "length kid = 36" using n(1) by (auto simp: canonical_uuid_def uuid_str_def Let_def)
  then have ne: "kid \<noteq> []" by auto
  let ?s1 = "t1\<lparr>tick := Suc (tick t1)\<rparr>"
  have c1: "consistent e d1 ?s1" using d1(1) by (rule consistent_tick) simp
  have k1: "self_kek ?s1 = ?kek" using d1(2) by (simp add: same_keys_def)
  have lk: "lookup e (view e (self_kek ?s1) d1) p kid = Inr (md, key)"
    using q kid n k1 by (simp add: lookup_def validated_uuid_eq)
  obtain md' t2 where ac: "activate_key e p kid ?s1 = (Inr md', t2)"
    using activate_key_succeeds [OF cl ok c1 lk kid(3)] by blast
  obtain d2 where d2: "consistent e d2 t2" "same_keys ?s1 t2" "activation e p kid (view e ?kek d1) (Inr md') (view e ?kek d2)"
    using activate_key_refines [OF ok c1 ac] lk kid(3) k1 by auto
  then obtain t' where md': "md' = activated md t'" "view e ?kek d2 = (view e ?kek d1)(row_id md \<mapsto> (md', key))"
    using lk k1 by (auto simp: activation_def)
  have "lookup e (view e (self_kek t2) d2) p kid = Inr (md', key)"
    using q kid md' d2(2) k1 n(4) by (simp add: lookup_def validated_uuid_eq row_id_def new_key_def same_keys_def)
  then obtain t3 where gk: "get_key e p kid t2 = (Inr (md', key), t3)"
    using get_key_succeeds [OF cl ok d2(1), of p kid] by auto
  have st: "sk_state md' = ACTIVE" "sk_key_id md' = kid" using md'(1) kid by (simp_all add: activated_def)
  have i1: "dispatch_items e p [batch_item CREATE create_fields] s = (Inr [success_batch CREATE
          [enumeration (tag_value OBJECT_TYPE) OBJECT_TYPE_SYMMETRIC_KEY, text_string (tag_value UNIQUE_IDENTIFIER) kid]], t1)"
    using cr kid(1) by (simp add: bindS_def dispatch_batch_item dispatch_operation_def create_operation_def
        create_request_fields liftS_def returnS_def)
  have i2: "dispatch_items e p [batch_item ACTIVATE (id_fields kid), batch_item GET (id_fields kid)] ?s1 =
      (Inr [success_batch ACTIVATE [text_string (tag_value UNIQUE_IDENTIFIER) kid],
           success_batch GET [enumeration (tag_value OBJECT_TYPE) OBJECT_TYPE_SYMMETRIC_KEY,
             text_string (tag_value UNIQUE_IDENTIFIER) kid, symmetric_key_node key]], t3)"
    using ac gk st by (simp add: bindS_def dispatch_batch_item dispatch_operation_def activate_operation_def
        get_operation_def id_request_fields [OF ne] liftS_def returnS_def)
  show thesis
    using dispatch_request [OF _ _ _ i1] dispatch_request [OF _ _ _ i2] c1 n(2) that by fastforce
qed

end
