(* ===== verification/Kmip_Protocol_Thms.thy ===== *)
theory Kmip_Protocol_Thms
  imports Kmip_Protocol_Props
begin

text \<open>
  The theorems about the dispatcher: what a response may contain, how it corresponds to its
  request, what a request may change, and that a key can be created, activated and retrieved.
\<close>

section \<open>An exercised request\<close>

lemma sample_lifecycle:
  obtains kid key d s1 s2 now1 now2 s0 where
    "consistent sample_platform empty_db s0"
    "dispatch sample_platform provider_a (request [batch_item CREATE create_fields]) s0 =
       (Inr (response_message now1 [success_batch CREATE
          [enumeration (tag_value OBJECT_TYPE) OBJECT_TYPE_SYMMETRIC_KEY, text_string (tag_value UNIQUE_IDENTIFIER) kid]]), s1)"
    "consistent sample_platform d s1" "length key = 32"
    "dispatch sample_platform provider_a (request [batch_item ACTIVATE (id_fields kid), batch_item GET (id_fields kid)]) s1 =
       (Inr (response_message now2
          [success_batch ACTIVATE [text_string (tag_value UNIQUE_IDENTIFIER) kid],
           success_batch GET [enumeration (tag_value OBJECT_TYPE) OBJECT_TYPE_SYMMETRIC_KEY,
             text_string (tag_value UNIQUE_IDENTIFIER) kid, symmetric_key_node key]]), s2)"
proof -
  obtain s0 where s0: "consistent sample_platform empty_db s0" by (rule sample_started)
  show thesis
    by (rule lifecycle_run [OF sample_ok(2,1) s0 sample_namespaces(1)]) (simp add: empty_db_def, rule that [OF s0])
qed

section \<open>Properties\<close>

text \<open>
  C2: key material leaves the server only for active keys of the authenticated provider. Whatever
  a client sends, every byte string of the response is the plaintext of a key that belongs to the
  provider of the connection and is Active.
\<close>

theorem key_material_only_if_active:
  assumes "platform_ok e" "consistent e d s" "dispatch e p req s = (Inr resp, s')" "key \<in> set (byte_strings resp)"
  shows "\<exists>d'. consistent e d' s' \<and> active_key (view e (self_kek s') d') (namespace_of e p) key"
  using assms by (rule dispatch_keys_active)

theorem key_material_only_if_active_witness:
  "\<exists>req s resp s' key d'. dispatch sample_platform provider_a req s = (Inr resp, s') \<and> key \<in> set (byte_strings resp)
     \<and> active_key (view sample_platform (self_kek s') d') (Some provider_a) key"
proof -
  obtain kid key d s1 s2 now2 where c: "consistent sample_platform d s1" and
    r: "dispatch sample_platform provider_a (request [batch_item ACTIVATE (id_fields kid), batch_item GET (id_fields kid)]) s1 =
       (Inr (response_message now2
          [success_batch ACTIVATE [text_string (tag_value UNIQUE_IDENTIFIER) kid],
           success_batch GET [enumeration (tag_value OBJECT_TYPE) OBJECT_TYPE_SYMMETRIC_KEY,
             text_string (tag_value UNIQUE_IDENTIFIER) kid, symmetric_key_node key]]), s2)"
    by (rule sample_lifecycle)
  have "key \<in> set (byte_strings (response_message now2
          [success_batch ACTIVATE [text_string (tag_value UNIQUE_IDENTIFIER) kid],
           success_batch GET [enumeration (tag_value OBJECT_TYPE) OBJECT_TYPE_SYMMETRIC_KEY,
             text_string (tag_value UNIQUE_IDENTIFIER) kid, symmetric_key_node key]]))"
    by (simp add: response_message_def success_batch_def symmetric_key_node_def)
  moreover from key_material_only_if_active [OF sample_ok(1) c r this] sample_namespaces(1)
  obtain d' where "active_key (view sample_platform (self_kek s2) d') (Some provider_a) key" by auto
  ultimately show ?thesis using r by blast
qed



text \<open>
  C33: a request acts inside one namespace and loses nothing. After any request of one provider,
  answered or aborted, every other provider retrieves what it retrieved before, and every key the
  provider itself could retrieve is still there with the same material, at most advanced from
  Pre-Active to Active.
\<close>

theorem dispatch_isolated_and_lossless:
  assumes "platform_ok e" "consistent e d s" "dispatch e p req s = (r, s1)"
    "get_key e p' k s = (r0, t0)" "get_key e p' k s1 = (r1, t1)" "r0 \<noteq> Inl OSError" "r1 \<noteq> Inl OSError"
  shows "(namespace_of e p' \<noteq> namespace_of e p \<longrightarrow> r1 = r0)
    \<and> (\<forall>md key. r0 = Inr (md, key) \<longrightarrow> (\<exists>md'. r1 = Inr (md', key) \<and> advances md md'))"
proof -
  obtain d1 where d1: "consistent e d1 s1" "same_keys s s1"
    "evolves (namespace_of e p) (view e (self_kek s) d) (view e (self_kek s) d1)"
    using dispatch.step [OF assms(1-3)] by blast
  have r: "r0 = lookup e (view e (self_kek s) d) p' k" "r1 = lookup e (view e (self_kek s) d1) p' k"
    using get_key_refines [OF assms(1,2,4)] get_key_refines [OF assms(1) d1(1) assms(5)] assms(6,7) d1(2)
    by (simp_all add: same_keys_def)
  have "\<exists>md'. r1 = Inr (md', key) \<and> advances md md'" if r0: "r0 = Inr (md, key)" for md key
  proof -
    obtain q i where q: "namespace_of e p' = Some q" "namespace_of e k = Some i" "view e (self_kek s) d (q, i) = Some (md, key)"
      using r0 r(1) by (metis lookup_SomeD)
    then obtain md' where "view e (self_kek s) d1 (q, i) = Some (md', key)" "advances md md'"
      using d1(3) unfolding evolves_def by blast
    with q r(2) show ?thesis by (simp add: lookup_def validated_uuid_eq)
  qed
  with dispatch.isolated [OF assms(1-3) _ assms(4-7)] show ?thesis by blast
qed

theorem dispatch_isolated_and_lossless_witness:
  "\<exists>s s1 r t0 r0 t1 r1. dispatch sample_platform provider_a (request [batch_item CREATE create_fields]) s = (r, s1)
     \<and> get_key sample_platform provider_b provider_a s = (r0, t0)
     \<and> get_key sample_platform provider_b provider_a s1 = (r1, t1) \<and> r1 = r0"
proof -
  obtain s0 s1 d resp where c: "consistent sample_platform empty_db s0" "consistent sample_platform d s1" and
    r: "dispatch sample_platform provider_a (request [batch_item CREATE create_fields]) s0 = (Inr resp, s1)"
    by (rule sample_lifecycle) (rule that)
  obtain r0 t0 r1 t1 where g: "get_key sample_platform provider_b provider_a s0 = (r0, t0)"
    "get_key sample_platform provider_b provider_a s1 = (r1, t1)" by fastforce
  have "r0 \<noteq> Inl OSError" "r1 \<noteq> Inl OSError"
    using get_key_succeeds [OF sample_ok(2,1) c(1), of provider_b provider_a] g lookup_no_OSError
      get_key_succeeds [OF sample_ok(2,1) c(2), of provider_b provider_a] by auto
  from dispatch_isolated_and_lossless [OF sample_ok(1) c(1) r g this] sample_namespaces(1-3) have "r1 = r0" by simp
  with r g show ?thesis by blast
qed

text \<open>The answer to one item: a success for its operation, or a failure that echoes it.\<close>

definition answers :: "ttlv \<Rightarrow> ttlv \<Rightarrow> bool" where
  "answers item resp \<longleftrightarrow>
     (\<exists>op result. item_operation item = Inr (operation_value op) \<and> resp = success_batch op result)
   \<or> (\<exists>reason message. resp =
        failed_batch (case item_operation item of Inr v \<Rightarrow> v | Inl ex \<Rightarrow> 0) reason message)"

lemma operation_of_Some: "operation_of v = Some op \<Longrightarrow> operation_value op = v"
  by (auto simp: operation_of_def find_Some_iff)

lemma recover_answers: "recover v ex s = (Inr resp, s') \<Longrightarrow> \<exists>reason message. resp = failed_batch v reason message"
proof -
  assume "recover v ex s = (Inr resp, s')"
  then obtain reason message where "resp = failed_batch v reason message"
    by (auto simp: recover_def returnS_def raiseS_def split: option.splits)
  then show ?thesis by blast
qed

lemma dispatch_item_answers:
  assumes "dispatch_item e p item s = (Inr resp, s')"
  shows "answers item resp"
proof (cases "item_operation item")
  case (Inl ex)
  then have "recover 0 ex s = (Inr resp, s')" using assms by (simp add: dispatch_item_def)
  from recover_answers [OF this] Inl show ?thesis by (simp add: answers_def)
next
  case (Inr v)
  then have run: "catchS (run_item e p item v) (recover v) s = (Inr resp, s')"
    using assms by (simp add: dispatch_item_def)
  show ?thesis
  proof (cases "run_item e p item v s")
    case (Pair r t)
    show ?thesis
    proof (cases r)
      case (Inl ex)
      then have "recover v ex t = (Inr resp, s')" using run Pair by (simp add: catchS_def)
      from recover_answers [OF this] \<open>item_operation item = Inr v\<close> show ?thesis by (simp add: answers_def)
    next
      case r: (Inr x)
      then obtain op result where "operation_of v = Some op" "resp = success_batch op result"
        using run Pair by (auto simp: catchS_def run_item_def raiseS_def bindS_eq_Inr returnS_def split: option.splits)
      with operation_of_Some Inr show ?thesis unfolding answers_def by blast
    qed
  qed
qed

lemma dispatch_items_answers:
  "dispatch_items e p items s = (Inr resps, s') \<Longrightarrow> list_all2 answers items resps"
  by (induction items arbitrary: s resps)
    (auto simp: returnS_def bindS_eq_Inr intro: dispatch_item_answers)

lemma request_items_bounds:
  "request_items req = Inr items \<Longrightarrow> 1 \<le> length items \<and> length items \<le> 16
     \<and> (\<exists>cs. children_all req = Inr cs \<and> items = filter (\<lambda>c. node_tag c = tag_value BATCH_ITEM) cs)"
  by (auto simp: request_items_def bindE_eq_Inr MAX_BATCH_ITEMS_def children_def)

text \<open>
  One answer per item, in order. A response holds exactly one batch item per batch item of the
  request - at least one and at most 16 - in the same order, each a success of the requested
  operation or a failure that names it, and the count in the header is their number.
\<close>

theorem one_answer_per_item:
  assumes "dispatch e p req s = (Inr resp, s')"
  shows "\<exists>cs items resps now. children_all req = Inr cs
    \<and> items = filter (\<lambda>c. node_tag c = tag_value BATCH_ITEM) cs \<and> 1 \<le> length items \<and> length items \<le> 16
    \<and> resp = response_message now resps \<and> list_all2 answers items resps"
proof -
  obtain items resps s1 now where i: "request_items req = Inr items" "dispatch_items e p items s = (Inr resps, s1)"
    "resp = response_message now resps"
    using assms by (auto simp: dispatch_def bindS_eq_Inr liftS_def draw_def returnS_def)
  with request_items_bounds [OF i(1)] dispatch_items_answers [OF i(2)] show ?thesis by blast
qed

theorem one_answer_per_item_witness:
  "\<exists>s resp s' cs items resps now. dispatch sample_platform provider_a (request [batch_item CREATE create_fields]) s = (Inr resp, s')
     \<and> resp = response_message now resps \<and> list_all2 answers items resps
     \<and> children_all (request [batch_item CREATE create_fields]) = Inr cs
     \<and> items = filter (\<lambda>c. node_tag c = tag_value BATCH_ITEM) cs"
proof -
  obtain s0 s1 resp where r: "dispatch sample_platform provider_a (request [batch_item CREATE create_fields]) s0 = (Inr resp, s1)"
    by (rule sample_lifecycle) (rule that)
  from one_answer_per_item [OF r] r show ?thesis by blast
qed

text \<open>
  an operation outside the supported set is answered with Operation Not Supported, names the
  requested operation, and leaves the store untouched.
\<close>

theorem unsupported_operation:
  assumes "item_operation item = Inr v" "v \<notin> operation_value ` set operations"
  shows "dispatch_item e p item s =
    (Inr (failed_batch v OPERATION_NOT_SUPPORTED ''Operation is outside the supported contract.''), s)"
proof -
  have "operation_of v = None" using assms(2) by (auto simp: operation_of_def find_None_iff)
  then show ?thesis
    using assms(1) by (simp add: dispatch_item_def run_item_def raiseS_def catchS_def recover_def returnS_def)
qed

theorem unsupported_operation_witness:
  "dispatch_item sample_platform provider_a
     (structure_node (tag_value BATCH_ITEM) [enumeration (tag_value OPERATION) 20]) blank_store =
   (Inr (failed_batch 20 OPERATION_NOT_SUPPORTED ''Operation is outside the supported contract.''), blank_store)"
  by (rule unsupported_operation)
    (simp_all add: item_operation_def field_readers ttlv_constructors Let_def operations_def)

text \<open>
  the attributes a key is said to have can all be read. Every name Get Attribute List reports
  for a key is supported by Get Attributes, none is reported twice, and reading any of them gives
  a value (provided the stored activation time is a valid ISO time stamp).
\<close>

theorem attribute_list_is_readable:
  assumes "\<And>t. sk_activated_at md = Some t \<Longrightarrow> \<exists>n. iso_epoch e t = Inr n"
  shows "distinct (attribute_names md) \<and> set (attribute_names md) \<subseteq> fst ` set ATTRIBUTE_TAGS
    \<and> (\<exists>as. mapE (\<lambda>n. metadata_attribute e n md) (attribute_names md) = Inr as)"
proof -
  have "\<exists>a. metadata_attribute e n md = Inr a" if "n \<in> set (attribute_names md)" for n
    using that assms by (auto simp: attribute_names_def metadata_attribute_def split: if_splits option.splits)
  then have "\<exists>as. mapE (\<lambda>n. metadata_attribute e n md) (attribute_names md) = Inr as" by (rule mapE_all)
  then show ?thesis by (auto simp: attribute_names_def ATTRIBUTE_TAGS_def)
qed

theorem attribute_list_is_readable_witness:
  "\<exists>as. mapE (\<lambda>n. metadata_attribute sample_platform n (activated (new_key provider_a provider_b None []) []))
     (attribute_names (activated (new_key provider_a provider_b None []) [])) = Inr as"
  using attribute_list_is_readable [of "activated (new_key provider_a provider_b None []) []" sample_platform]
  by (simp add: sample_platform_def)

text \<open>
  An identifier that is not a UUID aborts the connection's request. A well-formed Get whose
  Unique Identifier is not a UUID is not answered with Item Not Found: the \<open>ValueError\<close> of the
  store is none of the exceptions \<open>dispatch\<close> handles, so it leaves \<open>dispatch\<close> and the whole
  request - earlier items that already took effect included - has no response.
\<close>

theorem non_uuid_identifier_aborts:
  assumes "calm e" "platform_ok e" "consistent e d s" "namespace_of e p \<noteq> None" "k \<noteq> []" "namespace_of e k = None"
  shows "fst (dispatch e p (request [batch_item GET (id_fields k)]) s) = Inl (ValueError ''key_id must be a UUID.'')"
proof -
  have "fst (get_key e p k s) = Inl (ValueError ''key_id must be a UUID.'')"
    using get_key_succeeds [OF assms(1-3), of p k] assms(4,6)
    by (auto simp: lookup_def validated_uuid_eq)
  then obtain t where g: "get_key e p k s = (Inl (ValueError ''key_id must be a UUID.''), t)"
    by (cases "get_key e p k s") auto
  have "dispatch_item e p (batch_item GET (id_fields k)) s = (Inl (ValueError ''key_id must be a UUID.''), t)"
    using g by (simp add: dispatch_batch_item dispatch_operation_def get_operation_def id_request_fields [OF assms(5)]
        bindS_def liftS_def recover_def raiseS_def)
  moreover have "request_items (request [batch_item GET (id_fields k)]) = Inr [batch_item GET (id_fields k)]"
    by (rule request_items_request) simp_all
  ultimately show ?thesis by (simp add: dispatch_def bindS_def liftS_def)
qed

theorem non_uuid_identifier_aborts_witness:
  "\<exists>s. fst (dispatch sample_platform provider_a (request [batch_item GET (id_fields (u ''key-1''))]) s) =
     Inl (ValueError ''key_id must be a UUID.'')"
proof -
  obtain s where s: "consistent sample_platform empty_db s" by (rule sample_started)
  have n: "namespace_of sample_platform (u ''key-1'') = None"
    by (simp add: namespace_of_def uuid_too_short)
  have a: "namespace_of sample_platform provider_a \<noteq> None" by (simp add: sample_namespaces)
  have k: "u ''key-1'' \<noteq> []" by simp
  from non_uuid_identifier_aborts [OF sample_ok(2,1) s a k n] show ?thesis by blast
qed

end
