(* ===== verification/Py_Text.thy ===== *)
theory Py_Text
  imports Json "HOL-Library.Sublist"
begin

text \<open>
  The \<open>str\<close> methods the services use. \<open>str.strip()\<close> is modelled with Python's table of white space;
  the Unicode tables of \<open>str.casefold()\<close> and \<open>str.isalnum()\<close> are fields of the record \<open>text_env\<close>,
  of which the theorems use the ASCII part (\<open>text_env_ok\<close>). \<open>other_str\<close> is \<open>str(x)\<close> of a float or a
  container.
\<close>

section \<open>White space\<close>

definition is_space :: "nat \<Rightarrow> bool" where
  "is_space c \<longleftrightarrow>
     9 \<le> c \<and> c \<le> 13 \<or> 28 \<le> c \<and> c \<le> 32 \<or> c = 0x85 \<or> c = 0xA0 \<or> c = 0x1680
   \<or> 0x2000 \<le> c \<and> c \<le> 0x200A \<or> c = 0x2028 \<or> c = 0x2029 \<or> c = 0x202F \<or> c = 0x205F \<or> c = 0x3000"

definition lstrip :: "pystr \<Rightarrow> pystr" where
  "lstrip s = dropWhile is_space s"

definition rstrip :: "pystr \<Rightarrow> pystr" where
  "rstrip s = rev (dropWhile is_space (rev s))"

definition strip :: "pystr \<Rightarrow> pystr" where
  "strip s = rstrip (lstrip s)"

lemma rstrip_Nil [simp]: "rstrip s = [] \<longleftrightarrow> (\<forall>c \<in> set s. is_space c)"
  by (simp add: rstrip_def dropWhile_eq_Nil_conv)

lemma strip_eq_Nil: "strip s = [] \<longleftrightarrow> (\<forall>c \<in> set s. is_space c)"
proof -
  have "(\<forall>c \<in> set (dropWhile is_space s). is_space c) \<longleftrightarrow> (\<forall>c \<in> set s. is_space c)"
    by (induction s) auto
  then show ?thesis by (simp add: strip_def lstrip_def)
qed

lemma set_strip: "set (strip s) \<subseteq> set s"
  by (auto simp: strip_def rstrip_def lstrip_def dest!: set_dropWhileD)

lemma strip_ends:
  assumes "strip s \<noteq> []"
  shows "\<not> is_space (hd (strip s))" "\<not> is_space (last (strip s))"
proof -
  let ?l = "dropWhile is_space s"
  have l: "strip s = rev (dropWhile is_space (rev ?l))" by (simp add: strip_def rstrip_def lstrip_def)
  with assms have d: "dropWhile is_space (rev ?l) \<noteq> []" by simp
  then show "\<not> is_space (last (strip s))" using hd_dropWhile [OF d] by (simp add: l last_rev)
  obtain t where t: "rev ?l = t @ dropWhile is_space (rev ?l)"
    using takeWhile_dropWhile_id [of is_space "rev ?l"] by metis
  then have "?l = strip s @ rev t" by (metis l rev_append rev_rev_ident)
  with assms have "hd ?l = hd (strip s)" "?l \<noteq> []" by auto
  then show "\<not> is_space (hd (strip s))" using hd_dropWhile [of is_space s] by metis
qed

lemma dropWhile_id: "s = [] \<or> \<not> P (hd s) \<Longrightarrow> dropWhile P s = s"
  by (cases s) auto

lemma strip_id: "s = [] \<or> \<not> is_space (hd s) \<and> \<not> is_space (last s) \<Longrightarrow> strip s = s"
  by (auto simp: strip_def rstrip_def lstrip_def dropWhile_id hd_rev)

lemma strip_strip [simp]: "strip (strip s) = strip s"
  using strip_ends [of s] by (intro strip_id) auto

section \<open>Case folding and \<open>str(x)\<close>\<close>

record text_env =
  te_casefold :: "nat \<Rightarrow> pystr"
  te_isalnum :: "nat \<Rightarrow> bool"
  te_other_str :: "json \<Rightarrow> pystr"

definition ascii_lower :: "nat \<Rightarrow> nat" where
  "ascii_lower c = (if 65 \<le> c \<and> c \<le> 90 then c + 32 else c)"

definition ascii_alnum :: "nat \<Rightarrow> bool" where
  "ascii_alnum c \<longleftrightarrow> 48 \<le> c \<and> c \<le> 57 \<or> 65 \<le> c \<and> c \<le> 90 \<or> 97 \<le> c \<and> c \<le> 122"

text \<open>
  On ASCII, case folding is lower casing; the text of a float or of a container is never 64
  hexadecimal digits (a float's is shorter, a container's starts with a bracket).
\<close>

definition lower_hex64 :: "pystr \<Rightarrow> bool" where
  "lower_hex64 s \<longleftrightarrow> length s = 64 \<and> list_all (\<lambda>c. c \<in> set (u ''0123456789abcdef'')) s"

definition text_env_ok :: "text_env \<Rightarrow> bool" where
  "text_env_ok te \<longleftrightarrow>
     (\<forall>c < 128. te_casefold te c = [ascii_lower c] \<and> te_isalnum te c = ascii_alnum c)
   \<and> (\<forall>j. \<not> lower_hex64 (te_other_str te j))"

definition casefold :: "text_env \<Rightarrow> pystr \<Rightarrow> pystr" where
  "casefold te s = concat (map (te_casefold te) s)"

definition py_str :: "text_env \<Rightarrow> json \<Rightarrow> pystr" where
  "py_str te j = (case j of
     JStr s \<Rightarrow> s | JInt i \<Rightarrow> dec_int i | JNull \<Rightarrow> u ''None''
   | JBool b \<Rightarrow> (if b then u ''True'' else u ''False'') | _ \<Rightarrow> te_other_str te j)"

lemma casefold_ascii:
  "text_env_ok te \<Longrightarrow> list_all (\<lambda>c. c < 128) s \<Longrightarrow> casefold te s = map ascii_lower s"
  by (induction s) (auto simp: casefold_def text_env_ok_def)

text \<open>\<open>x == n\<close> of a JSON value and an integer: numbers compare by value, \<open>True\<close> is 1.\<close>

definition equals_int :: "json \<Rightarrow> int \<Rightarrow> bool" where
  "equals_int j n = (case j of
     JInt i \<Rightarrow> i = n | JBool b \<Rightarrow> (if b then 1 else 0) = n | JFloat q \<Rightarrow> q = of_int n | _ \<Rightarrow> False)"

text \<open>A list or a dictionary cannot be hashed: \<open>x in {...}\<close> and \<open>d.get(x)\<close> raise.\<close>

definition hashable :: "json \<Rightarrow> bool" where
  "hashable j = (case j of JArr xs \<Rightarrow> False | JObj ms \<Rightarrow> False | _ \<Rightarrow> True)"

end
