(* ===== verification/Kmip_Trace.thy ===== *)
theory Kmip_Trace
  imports Kmip_Store Py_Text
begin

text \<open>
  The validator of interoperability traces, \<open>src/atlaso/app/kmip/trace.py\<close>: the checks of a contract
  and of one event, and the summary of a trace. A contract and an event are JSON objects. The checked-in
  contract \<open>contracts/vcf_9_1.json\<close> is \<open>vcf_9_1\<close>.
\<close>

section \<open>Fields\<close>

definition TRACE_SCHEMA_VERSION :: int where "TRACE_SCHEMA_VERSION = 1"

definition REQUIRED_FIELDS :: "pystr list" where
  "REQUIRED_FIELDS = map u
     [''schema_version'', ''timestamp'', ''connection_id'', ''client_cert_sha256'', ''provider_id'',
      ''protocol_version'', ''operation'', ''object_type'', ''algorithm'', ''key_length'',
      ''key_format_type'', ''attribute_names'', ''result_status'', ''result_reason'', ''request_digest'']"

definition FORBIDDEN_FIELD_FRAGMENTS :: "pystr list" where
  "FORBIDDEN_FIELD_FRAGMENTS = map u
     [''credential'', ''keyblock'', ''keybytes'', ''keymaterial'', ''password'', ''privatekey'',
      ''rawpayload'', ''secret'']"

definition CONTRACT_FIELDS :: "pystr list" where
  "CONTRACT_FIELDS = map u
     [''schema_version'', ''contract_id'', ''target'', ''status'', ''promotion_gate'', ''transport'',
      ''protocol_versions'', ''objects'', ''algorithms'', ''candidate_operations'', ''candidate_attributes'',
      ''result_statuses'', ''result_reasons'', ''explicitly_unsupported'', ''sources'']"

type_synonym object = "(pystr \<times> json) list"

definition keys :: "object \<Rightarrow> pystr set" where
  "keys ob = fst ` set ob"

text \<open>\<open>ob["name"]\<close>.\<close>

definition item :: "object \<Rightarrow> string \<Rightarrow> exn + json" where
  "item ob name = (case jget ob (u name) of None \<Rightarrow> Inl KeyError | Some j \<Rightarrow> Inr j)"

section \<open>Contracts\<close>

definition is_name :: "json \<Rightarrow> bool" where
  "is_name j = (case j of JStr s \<Rightarrow> strip s \<noteq> [] | _ \<Rightarrow> False)"

text \<open>A non-empty list of unique, non-blank strings.\<close>

definition unique_names :: "json option \<Rightarrow> bool" where
  "unique_names v = (case v of
     Some (JArr xs) \<Rightarrow> xs \<noteq> [] \<and> list_all is_name xs \<and> distinct xs | _ \<Rightarrow> False)"

definition positive_int :: "json \<Rightarrow> bool" where
  "positive_int j = (case j of JInt i \<Rightarrow> i > 0 | _ \<Rightarrow> False)"

definition valid_lengths :: "json option \<Rightarrow> bool" where
  "valid_lengths v = (case v of
     Some (JArr xs) \<Rightarrow> xs \<noteq> [] \<and> list_all positive_int xs \<and> distinct xs | _ \<Rightarrow> False)"

definition valid_algorithm :: "pystr \<times> json \<Rightarrow> bool" where
  "valid_algorithm p = (case p of (name, algorithm) \<Rightarrow> (case algorithm of
     JObj a \<Rightarrow> strip name \<noteq> [] \<and> keys a = {u ''lengths'', u ''key_format_types''}
       \<and> valid_lengths (jget a (u ''lengths'')) \<and> unique_names (jget a (u ''key_format_types''))
   | _ \<Rightarrow> False))"

definition valid_transport :: "json option \<Rightarrow> bool" where
  "valid_transport v = (case v of
     Some (JObj t) \<Rightarrow> jget t (u ''encoding'') = Some (JStr (u ''TTLV''))
       \<and> jget t (u ''mutual_tls_required'') = Some (JBool True)
       \<and> (case jget t (u ''port'') of Some j \<Rightarrow> equals_int j 5696 | None \<Rightarrow> False)
   | _ \<Rightarrow> False)"

definition name_list_fields :: "string list" where
  "name_list_fields = [''protocol_versions'', ''objects'', ''candidate_operations'',
     ''candidate_attributes'', ''result_statuses'', ''result_reasons'']"

definition status_check :: "json option \<Rightarrow> exn + unit" where
  "status_check v = (case v of
     None \<Rightarrow> Inl (TraceValidationError ''KMIP contract status is invalid.'')
   | Some j \<Rightarrow>
       if \<not> hashable j then Inl TypeError
       else raise_if (j \<notin> {JStr (u ''candidate-unverified''), JStr (u ''observed'')})
              (TraceValidationError ''KMIP contract status is invalid.''))"

definition validate_contract :: "object \<Rightarrow> exn + object" where
  "validate_contract contract =
     bindE (raise_if (keys contract \<noteq> set CONTRACT_FIELDS)
              (TraceValidationError ''KMIP contract fields are invalid.'')) (\<lambda>_.
     bindE (raise_if (\<not> (case jget contract (u ''schema_version'') of Some j \<Rightarrow> equals_int j 1 | None \<Rightarrow> False))
              (TraceValidationError ''KMIP contract schema_version must be 1.'')) (\<lambda>_.
     bindE (status_check (jget contract (u ''status''))) (\<lambda>_.
     bindE (raise_if (list_ex (\<lambda>f. \<not> unique_names (jget contract (u f))) name_list_fields)
              (TraceValidationError ''KMIP contract names must be a non-empty list of unique names.'')) (\<lambda>_.
     bindE (case jget contract (u ''algorithms'') of
              Some (JObj algorithms) \<Rightarrow>
                bindE (raise_if (algorithms = [])
                         (TraceValidationError ''KMIP contract algorithms must be a non-empty object.'')) (\<lambda>_.
                raise_if (list_ex (\<lambda>p. \<not> valid_algorithm p) algorithms)
                  (TraceValidationError ''KMIP contract algorithm is invalid.''))
            | _ \<Rightarrow> Inl (TraceValidationError ''KMIP contract algorithms must be a non-empty object.'')) (\<lambda>_.
     bindE (raise_if (\<not> valid_transport (jget contract (u ''transport'')))
              (TraceValidationError ''KMIP contract transport must require mutual TLS TTLV on TCP 5696.'')) (\<lambda>_.
     Inr contract))))))"

text \<open>
  \<open>load_contract\<close>, of the text of the contract file. (\<open>JSONDecodeError\<close> also stands for the
  \<open>ValueError\<close> of an integer literal of more than 4300 digits.)
\<close>

definition load_contract :: "platform \<Rightarrow> pystr \<Rightarrow> exn + object" where
  "load_contract e text =
     bindE (loads e text) (\<lambda>contract.
       case contract of
         JObj c \<Rightarrow> validate_contract c
       | _ \<Rightarrow> Inl (TraceValidationError ''KMIP contract must be a JSON object.''))"

section \<open>Events\<close>

definition normalized_field :: "text_env \<Rightarrow> pystr \<Rightarrow> pystr" where
  "normalized_field te v = filter (te_isalnum te) (casefold te v)"

definition forbidden_name :: "text_env \<Rightarrow> pystr \<Rightarrow> bool" where
  "forbidden_name te key = list_ex (\<lambda>f. sublist f (normalized_field te key)) FORBIDDEN_FIELD_FRAGMENTS"

fun reject_secret_fields :: "text_env \<Rightarrow> json \<Rightarrow> exn + unit" where
  "reject_secret_fields te (JObj ms) =
     bindE (mapE (\<lambda>(key, c).
       bindE (raise_if (forbidden_name te key)
                (TraceValidationError ''event contains forbidden secret-bearing field.'')) (\<lambda>_.
       reject_secret_fields te c)) ms) (\<lambda>_. Inr ())"
| "reject_secret_fields te (JArr xs) = bindE (mapE (reject_secret_fields te) xs) (\<lambda>_. Inr ())"
| "reject_secret_fields te j = Inr ()"

definition require_sha256 :: "text_env \<Rightarrow> json \<Rightarrow> string \<Rightarrow> exn + unit" where
  "require_sha256 te v field =
     raise_if (\<not> lower_hex64 (py_str te v))
       (TraceValidationError (field @ '' must be a lowercase SHA-256 digest.''))"

text \<open>\<open>x in contract["name"]\<close> for a list of strings.\<close>

definition listed :: "json \<Rightarrow> json \<Rightarrow> exn + bool" where
  "listed v names = (case names of JArr xs \<Rightarrow> Inr (v \<in> set xs) | _ \<Rightarrow> Inl TypeError)"

definition require_listed :: "object \<Rightarrow> string \<Rightarrow> json \<Rightarrow> string \<Rightarrow> exn + unit" where
  "require_listed contract names v message =
     bindE (item contract names) (\<lambda>allowed.
     bindE (listed v allowed) (\<lambda>ok. raise_if (\<not> ok) (TraceValidationError message)))"

definition algorithm_contract :: "object \<Rightarrow> json \<Rightarrow> exn + object" where
  "algorithm_contract contract algorithm =
     bindE (item contract ''algorithms'') (\<lambda>algorithms.
       case algorithms of
         JObj as \<Rightarrow>
           if \<not> hashable algorithm then Inl TypeError
           else (case algorithm of
             JStr name \<Rightarrow> (case jget as name of
                 Some (JObj a) \<Rightarrow> Inr a
               | _ \<Rightarrow> Inl (TraceValidationError ''algorithm is outside the contract.''))
           | _ \<Rightarrow> Inl (TraceValidationError ''algorithm is outside the contract.''))
       | _ \<Rightarrow> Inl TypeError)"

text \<open>The cryptographic parameters of the event, \<open>algorithm\<close> to \<open>key_format_type\<close>.\<close>

definition validate_key_shape :: "object \<Rightarrow> json \<Rightarrow> json \<Rightarrow> exn + unit" where
  "validate_key_shape a key_length key_format_type =
     bindE (case key_length of
              JInt i \<Rightarrow> require_listed a ''lengths'' key_length ''key_length is outside the contract.''
            | _ \<Rightarrow> Inl (TraceValidationError ''key_length is outside the contract.'')) (\<lambda>_.
     require_listed a ''key_format_types'' key_format_type ''key_format_type is outside the contract.'')"

definition validate_parameters :: "object \<Rightarrow> json \<Rightarrow> json \<Rightarrow> json \<Rightarrow> json \<Rightarrow> exn + unit" where
  "validate_parameters contract operation algorithm key_length key_format_type =
     bindE (raise_if (operation = JStr (u ''Create'') \<and> (algorithm = JNull \<or> key_length = JNull \<or> key_format_type = JNull))
              (TraceValidationError ''Create must record algorithm, key_length, and key_format_type.'')) (\<lambda>_.
     if algorithm = JNull
     then raise_if (key_length \<noteq> JNull \<or> key_format_type \<noteq> JNull)
            (TraceValidationError ''key_length and key_format_type require an algorithm.'')
     else
       bindE (algorithm_contract contract algorithm) (\<lambda>a.
       validate_key_shape a key_length key_format_type))"

text \<open>The attribute names of the event.\<close>

definition is_str :: "json \<Rightarrow> bool" where
  "is_str j = (case j of JStr s \<Rightarrow> True | _ \<Rightarrow> False)"

definition validate_attributes :: "object \<Rightarrow> json \<Rightarrow> exn + unit" where
  "validate_attributes contract attributes = (case attributes of
     JArr xs \<Rightarrow>
       if list_all is_str xs
       then bindE (item contract ''candidate_attributes'') (\<lambda>allowed.
            bindE (mapE (\<lambda>x. listed x allowed) xs) (\<lambda>oks.
            raise_if (list_ex Not oks)
              (TraceValidationError ''attributes are outside the candidate allowlist.'')))
       else Inl (TraceValidationError ''attribute_names must be a list of names.'')
   | _ \<Rightarrow> Inl (TraceValidationError ''attribute_names must be a list of names.''))"

definition validate_event :: "text_env \<Rightarrow> object \<Rightarrow> object \<Rightarrow> exn + unit" where
  "validate_event te contract event =
     bindE (reject_secret_fields te (JObj event)) (\<lambda>_.
     bindE (raise_if (\<not> set REQUIRED_FIELDS \<subseteq> keys event) (TraceValidationError ''missing fields'')) (\<lambda>_.
     bindE (raise_if (\<not> keys event \<subseteq> set REQUIRED_FIELDS) (TraceValidationError ''unexpected fields'')) (\<lambda>_.
     bindE (item event ''schema_version'') (\<lambda>version.
     bindE (raise_if (\<not> equals_int version TRACE_SCHEMA_VERSION)
              (TraceValidationError ''schema_version must be 1.'')) (\<lambda>_.
     bindE (bindE (item event ''client_cert_sha256'') (\<lambda>v. require_sha256 te v ''client_cert_sha256'')) (\<lambda>_.
     bindE (bindE (item event ''request_digest'') (\<lambda>v. require_sha256 te v ''request_digest'')) (\<lambda>_.
     bindE (bindE (item event ''protocol_version'') (\<lambda>v.
              require_listed contract ''protocol_versions'' v ''protocol_version is outside the contract.'')) (\<lambda>_.
     bindE (item event ''operation'') (\<lambda>operation.
     bindE (require_listed contract ''candidate_operations'' operation
              ''operation is outside the candidate allowlist.'') (\<lambda>_.
     bindE (bindE (item event ''object_type'') (\<lambda>object_type.
              if object_type = JNull then Inr ()
              else require_listed contract ''objects'' object_type ''object_type is outside the contract.'')) (\<lambda>_.
     bindE (item event ''algorithm'') (\<lambda>algorithm.
     bindE (item event ''key_length'') (\<lambda>key_length.
     bindE (item event ''key_format_type'') (\<lambda>key_format_type.
     bindE (validate_parameters contract operation algorithm key_length key_format_type) (\<lambda>_.
     bindE (bindE (item event ''attribute_names'') (validate_attributes contract)) (\<lambda>_.
     bindE (bindE (item event ''result_status'') (\<lambda>v.
              require_listed contract ''result_statuses'' v ''result_status is outside the contract.'')) (\<lambda>_.
     bindE (mapE (\<lambda>f. bindE (item event f) (\<lambda>v.
              raise_if (\<not> is_name v) (TraceValidationError (f @ '' must be a non-empty string.''))))
              [''timestamp'', ''connection_id'', ''provider_id'', ''operation'']) (\<lambda>_.
     bindE (item event ''result_reason'') (\<lambda>reason.
       if reason = JNull then Inr ()
       else require_listed contract ''result_reasons'' reason
              ''result_reason must be null or an allowlisted KMIP reason.'')))))))))))))))))))"

section \<open>Traces\<close>

record trace_summary =
  ts_contract_id :: pystr
  ts_contract_sha256 :: pystr
  ts_event_count :: nat
  ts_operations :: "(pystr \<times> nat) list"
  ts_protocol_versions :: "pystr list"
  ts_providers :: "pystr list"
  ts_result_statuses :: "(pystr \<times> nat) list"

definition counts_json :: "(pystr \<times> nat) list \<Rightarrow> json" where
  "counts_json c = JObj (map (\<lambda>(k, n). (k, JInt (int n))) c)"

definition to_dict :: "trace_summary \<Rightarrow> json" where
  "to_dict s = JObj
     [(u ''contract_id'', JStr (ts_contract_id s)),
      (u ''contract_sha256'', JStr (ts_contract_sha256 s)),
      (u ''event_count'', JInt (int (ts_event_count s))),
      (u ''operations'', counts_json (ts_operations s)),
      (u ''protocol_versions'', JArr (map JStr (ts_protocol_versions s))),
      (u ''providers'', JArr (map JStr (ts_providers s))),
      (u ''result_statuses'', counts_json (ts_result_statuses s))]"

text \<open>The loop of \<open>validate_trace\<close> over the lines; blank lines are skipped.\<close>

fun read_events :: "platform \<Rightarrow> text_env \<Rightarrow> object \<Rightarrow> pystr list \<Rightarrow> exn + object list" where
  "read_events e te contract [] = Inr []"
| "read_events e te contract (raw_line # lines) =
     (if strip raw_line = [] then read_events e te contract lines
      else case json_loads (float_parse e) raw_line of
        None \<Rightarrow> Inl (TraceValidationError ''invalid JSON'')
      | Some (JObj event) \<Rightarrow>
          bindE (validate_event te contract event) (\<lambda>_.
          bindE (read_events e te contract lines) (\<lambda>events. Inr (event # events)))
      | Some _ \<Rightarrow> Inl (TraceValidationError ''each event must be a JSON object.''))"

text \<open>\<open>Counter(xs)\<close>, and \<open>str(event[name])\<close>.\<close>

definition counter :: "pystr list \<Rightarrow> (pystr \<times> nat) list" where
  "counter xs = foldl (\<lambda>d x. dict_set d x ((case map_of d x of None \<Rightarrow> 0 | Some n \<Rightarrow> n) + 1)) [] xs"

definition text_item :: "text_env \<Rightarrow> object \<Rightarrow> string \<Rightarrow> exn + pystr" where
  "text_item te ob name = bindE (item ob name) (\<lambda>j. Inr (py_str te j))"

definition summarize :: "platform \<Rightarrow> text_env \<Rightarrow> object \<Rightarrow> bytes \<Rightarrow> object list \<Rightarrow> exn + trace_summary" where
  "summarize e te contract serialized events =
     bindE (mapE (\<lambda>ev. text_item te ev ''operation'') events) (\<lambda>ops.
     bindE (mapE (\<lambda>ev. text_item te ev ''result_status'') events) (\<lambda>statuses.
     bindE (text_item te contract ''contract_id'') (\<lambda>contract_id.
     bindE (mapE (\<lambda>ev. text_item te ev ''protocol_version'') events) (\<lambda>versions.
     bindE (mapE (\<lambda>ev. text_item te ev ''provider_id'') events) (\<lambda>providers.
     Inr \<lparr>ts_contract_id = contract_id, ts_contract_sha256 = hexlify (sha256 e serialized),
          ts_event_count = length events, ts_operations = sort_key fst (counter ops),
          ts_protocol_versions = sort (remdups versions), ts_providers = sort (remdups providers),
          ts_result_statuses = sort_key fst (counter statuses)\<rparr>)))))"

definition validate_trace ::
  "platform \<Rightarrow> text_env \<Rightarrow> pystr \<Rightarrow> pystr list \<Rightarrow> object option \<Rightarrow> bytes option \<Rightarrow> exn + trace_summary" where
  "validate_trace e te contract_file lines contract contract_bytes =
     bindE (case contract of Some c \<Rightarrow> validate_contract c | None \<Rightarrow> load_contract e contract_file) (\<lambda>selected.
     bindE (read_events e te selected lines) (\<lambda>events.
     bindE (raise_if (events = []) (TraceValidationError ''trace must contain at least one event.'')) (\<lambda>_.
     bindE (case contract_bytes of
              Some b \<Rightarrow> if b = [] then encode_utf8 (json_dumps (float_repr e) (JObj selected)) else Inr b
            | None \<Rightarrow> encode_utf8 (json_dumps (float_repr e) (JObj selected))) (\<lambda>serialized.
     summarize e te selected serialized events))))"

section \<open>The checked-in contract\<close>

definition names_json :: "string list \<Rightarrow> json" where
  "names_json xs = JArr (map (\<lambda>s. JStr (u s)) xs)"

definition vcf_9_1 :: object where
  "vcf_9_1 =
    [(u ''schema_version'', JInt 1),
     (u ''contract_id'', JStr (u ''atlaso-vcf-9.1-kmip-candidate-v1'')),
     (u ''target'', JObj
          [(u ''product'', JStr (u ''VMware Cloud Foundation'')),
           (u ''version'', JStr (u ''9.1''))]),
     (u ''status'', JStr (u ''candidate-unverified'')),
     (u ''promotion_gate'', JStr (u ''A redacted VCF 9.1 acceptance trace must pass this contract and the recovery drill in issue #172.'')),
     (u ''transport'', JObj
          [(u ''port'', JInt 5696),
           (u ''encoding'', JStr (u ''TTLV'')),
           (u ''tls_minimum'', JStr (u ''TLSv1.2'')),
           (u ''mutual_tls_required'', JBool True)]),
     (u ''protocol_versions'', names_json
          [''1.4'']),
     (u ''objects'', names_json
          [''Symmetric Key'']),
     (u ''algorithms'', JObj
          [(u ''AES'', JObj
              [(u ''lengths'', JArr
                  [JInt 256]),
               (u ''key_format_types'', names_json
                  [''Raw''])])]),
     (u ''candidate_operations'', names_json
          [''Discover Versions'', ''Query'', ''Create'', ''Activate'', ''Get'',
           ''Get Attribute List'', ''Get Attributes'', ''Locate'']),
     (u ''candidate_attributes'', names_json
          [''Activation Date'', ''Cryptographic Algorithm'', ''Cryptographic Length'',
           ''Cryptographic Usage Mask'', ''Name'', ''Object Type'', ''State'', ''Unique Identifier'']),
     (u ''result_statuses'', names_json
          [''Success'', ''Operation Failed'']),
     (u ''result_reasons'', names_json
          [''Item Not Found'', ''Invalid Message'', ''Operation Not Supported'', ''Missing Data'',
           ''Invalid Field'', ''Key Format Type Not Supported'', ''Cryptographic Failure'',
           ''Permission Denied'', ''General Failure'']),
     (u ''explicitly_unsupported'', JObj
          [(u ''operations'', names_json
              [''Archive'', ''Certify'', ''Create Key Pair'', ''Decrypt'', ''Derive Key'', ''Encrypt'',
               ''MAC'', ''MAC Verify'', ''Obtain Lease'', ''Poll'', ''Re-Key'', ''Re-Key Key Pair'',
               ''Recover'', ''Register'', ''Revoke'', ''Sign'', ''Signature Verify'']),
           (u ''objects'', names_json
              [''Certificate'', ''Opaque Object'', ''Private Key'', ''Public Key'', ''Secret Data'',
               ''Split Key'', ''Template''])]),
     (u ''sources'', JArr
          [JObj
              [(u ''title'', JStr (u ''OASIS KMIP Specification Version 1.4'')),
               (u ''url'', JStr (u ''https://docs.oasis-open.org/kmip/spec/v1.4/kmip-spec-v1.4.html''))],
           JObj
              [(u ''title'', JStr (u ''OASIS KMIP Profiles Version 1.4'')),
               (u ''url'', JStr (u ''https://docs.oasis-open.org/kmip/profiles/v1.4/kmip-profiles-v1.4.html''))],
           JObj
              [(u ''title'', JStr (u ''Broadcom vSphere Web Services API CryptoManagerKmip'')),
               (u ''url'', JStr (u ''https://developer.broadcom.com/xapis/vsphere-web-services-api/latest/vim.encryption.CryptoManagerKmip.html''))]])]"

end
