(* ===== verification/Py_Ipaddress.thy ===== *)
theory Py_Ipaddress
  imports Json
begin

text \<open>
  Python's \<open>ipaddress\<close> module (3.14) as the services use it: \<open>ip_address(text)\<close> and \<open>str(address)\<close>
  for IPv4 and IPv6, with the IPv6 zone suffix, the embedded IPv4 notation and the \<open>::\<close> abbreviation.
\<close>

section \<open>Splitting text\<close>

text \<open>\<open>s.split(c)\<close> and \<open>c.join(parts)\<close> for a separator of one character.\<close>

fun split_on :: "nat \<Rightarrow> pystr \<Rightarrow> pystr list" where
  "split_on c [] = [[]]"
| "split_on c (x # s) =
     (if x = c then [] # split_on c s
      else case split_on c s of [] \<Rightarrow> [[x]] | p # ps \<Rightarrow> (x # p) # ps)"

fun join_with :: "nat \<Rightarrow> pystr list \<Rightarrow> pystr" where
  "join_with c [] = []"
| "join_with c [p] = p"
| "join_with c (p # q # ps) = p @ c # join_with c (q # ps)"

lemma split_on_not_Nil [simp]: "split_on c s \<noteq> []"
  by (cases s) (auto split: list.splits)

lemma split_on_append: "c \<notin> set p \<Longrightarrow> split_on c (p @ c # s) = p # split_on c s"
  by (induction p) auto

lemma split_on_single: "c \<notin> set p \<Longrightarrow> split_on c p = [p]"
  by (induction p) auto

lemma split_join: "ps \<noteq> [] \<Longrightarrow> (\<forall>p \<in> set ps. c \<notin> set p) \<Longrightarrow> split_on c (join_with c ps) = ps"
  by (induction c ps rule: join_with.induct) (auto simp: split_on_append split_on_single)

lemma join_split: "join_with c (split_on c s) = s"
proof (induction s)
  case (Cons x s)
  then show ?case by (cases "split_on c s" rule: list.exhaust; cases "tl (split_on c s)") auto
qed simp

lemma split_parts: "p \<in> set (split_on c s) \<Longrightarrow> c \<notin> set p"
  by (induction s arbitrary: p) (fastforce split: list.splits if_splits)+

section \<open>IPv4\<close>

definition parse_octet :: "pystr \<Rightarrow> nat option" where
  "parse_octet s =
     (if s = [] \<or> \<not> list_all is_digit s \<or> length s > 3 \<or> s \<noteq> [48] \<and> hd s = 48 \<or> nat_of_digits s > 255
      then None else Some (nat_of_digits s))"

text \<open>An address is its four octets, most significant first.\<close>

definition parse_ipv4 :: "pystr \<Rightarrow> nat list option" where
  "parse_ipv4 s =
     (if 47 \<in> set s then None
      else let octets = split_on 46 s
      in if length octets \<noteq> 4 \<or> list_ex (\<lambda>p. parse_octet p = None) octets then None
         else Some (map (the \<circ> parse_octet) octets))"

definition ipv4_str :: "nat list \<Rightarrow> pystr" where
  "ipv4_str octets = join_with 46 (map dec_digits octets)"

section \<open>IPv6\<close>

definition parse_hextet :: "pystr \<Rightarrow> nat option" where
  "parse_hextet s =
     (if s = [] \<or> list_ex (\<lambda>c. hex_value c = None) s \<or> length s > 4 then None
      else Some (foldl (\<lambda>n c. 16 * n + the (hex_value c)) 0 s))"

text \<open>\<open>'%x' % n\<close>.\<close>

fun hex_digits :: "nat \<Rightarrow> pystr" where
  "hex_digits n = (if n < 16 then [hex_digit n] else hex_digits (n div 16) @ [hex_digit (n mod 16)])"

declare hex_digits.simps [simp del]

text \<open>The last part in IPv4 notation stands for two groups.\<close>

definition expand_ipv4_part :: "pystr list \<Rightarrow> pystr list option" where
  "expand_ipv4_part parts =
     (if 46 \<in> set (last parts)
      then (case parse_ipv4 (last parts) of
              Some [a, b, c, d] \<Rightarrow> Some (butlast parts @ [hex_digits (256 * a + b), hex_digits (256 * c + d)])
            | _ \<Rightarrow> None)
      else Some parts)"

text \<open>The positions of the empty parts strictly inside: the places of \<open>::\<close>.\<close>

definition skip_indices :: "pystr list \<Rightarrow> nat list" where
  "skip_indices parts = filter (\<lambda>i. parts ! i = []) [1..<length parts - 1]"

definition parse_groups :: "pystr list \<Rightarrow> nat list option" where
  "parse_groups ps =
     (if list_ex (\<lambda>p. parse_hextet p = None) ps then None else Some (map (the \<circ> parse_hextet) ps))"

definition ipv6_groups :: "pystr list \<Rightarrow> nat list option" where
  "ipv6_groups parts =
     (if length parts > 9 then None
      else case skip_indices parts of
        i # j # _ \<Rightarrow> None
      | [i] \<Rightarrow>
          (let hi = (if hd parts = [] then i - 1 else i);
               lo = (if last parts = [] then length parts - i - 2 else length parts - i - 1)
           in if hd parts = [] \<and> hi \<noteq> 0 \<or> last parts = [] \<and> lo \<noteq> 0 \<or> hi + lo > 7 then None
              else (case (parse_groups (take hi parts), parse_groups (drop (length parts - lo) parts)) of
                      (Some h, Some l) \<Rightarrow> Some (h @ replicate (8 - (hi + lo)) 0 @ l)
                    | _ \<Rightarrow> None))
      | [] \<Rightarrow> if length parts \<noteq> 8 \<or> hd parts = [] \<or> last parts = [] then None else parse_groups parts)"

text \<open>\<open>addr, sep, zone = s.partition('%')\<close>; a zone must be non-empty and hold no \<open>%\<close>.\<close>

definition split_zone :: "pystr \<Rightarrow> (pystr \<times> pystr option) option" where
  "split_zone s =
     (if 37 \<notin> set s then Some (s, None)
      else let zone = tl (dropWhile (\<lambda>c. c \<noteq> 37) s)
      in if zone = [] \<or> 37 \<in> set zone then None else Some (takeWhile (\<lambda>c. c \<noteq> 37) s, Some zone))"

definition parse_ipv6 :: "pystr \<Rightarrow> (nat list \<times> pystr option) option" where
  "parse_ipv6 s =
     (if 47 \<in> set s then None
      else case split_zone s of
        None \<Rightarrow> None
      | Some (addr, zone) \<Rightarrow>
          (let parts = split_on 58 addr
           in if addr = [] \<or> length parts < 3 then None
              else case expand_ipv4_part parts of
                None \<Rightarrow> None
              | Some parts' \<Rightarrow>
                  (case ipv6_groups parts' of None \<Rightarrow> None | Some gs \<Rightarrow> Some (gs, zone))))"

text \<open>
  \<open>_compress_hextets\<close>: the first longest run of at least two zero groups becomes empty. \<open>best_run\<close>
  scans from position \<open>i\<close> with the current run and the best one (start, length).
\<close>

fun best_run :: "nat \<Rightarrow> nat \<times> nat \<Rightarrow> nat \<times> nat \<Rightarrow> nat list \<Rightarrow> nat \<times> nat" where
  "best_run i cur best [] = best"
| "best_run i cur best (g # gs) =
     (if g = 0
      then let start = (if snd cur = 0 then i else fst cur); cur' = (start, snd cur + 1)
           in best_run (i + 1) cur' (if snd cur' > snd best then cur' else best) gs
      else best_run (i + 1) (0, 0) best gs)"

definition compress :: "nat list \<Rightarrow> pystr list" where
  "compress gs =
     (case best_run 0 (0, 0) (0, 0) gs of (start, len) \<Rightarrow>
        if len > 1
        then (if start = 0 then [[]] else []) @ map hex_digits (take start gs) @ [[]]
               @ map hex_digits (drop (start + len) gs) @ (if start + len = length gs then [[]] else [])
        else map hex_digits gs)"

definition ipv6_str :: "nat list \<Rightarrow> pystr" where
  "ipv6_str gs =
     (if take 6 gs = [0, 0, 0, 0, 0, 0xFFFF] \<and> length gs = 8
      then u ''::ffff:'' @ ipv4_str [gs ! 6 div 256, gs ! 6 mod 256, gs ! 7 div 256, gs ! 7 mod 256]
      else join_with 58 (compress gs))"

section \<open>\<open>ip_address\<close>\<close>

datatype address = V4 "nat list" | V6 "nat list" "pystr option"

definition ip_address :: "pystr \<Rightarrow> address option" where
  "ip_address s = (case parse_ipv4 s of
     Some a \<Rightarrow> Some (V4 a)
   | None \<Rightarrow> (case parse_ipv6 s of Some (gs, zone) \<Rightarrow> Some (V6 gs zone) | None \<Rightarrow> None))"

fun address_str :: "address \<Rightarrow> pystr" where
  "address_str (V4 a) = ipv4_str a"
| "address_str (V6 gs zone) = ipv6_str gs @ (case zone of None \<Rightarrow> [] | Some z \<Rightarrow> 37 # z)"

fun address_version :: "address \<Rightarrow> nat" where
  "address_version (V4 a) = 4"
| "address_version (V6 gs zone) = 6"

section \<open>IPv4 round trip\<close>

lemma dec_digits_small: "n \<le> 255 \<Longrightarrow> length (dec_digits n) \<le> 3"
  by (subst dec_digits.simps, cases "n < 100")
    (simp_all add: dec_digits.simps [of "n div 10"] dec_digits.simps [of "n div 10 div 10"] div_less_iff_less_mult)

lemma parse_octet_dec: "n \<le> 255 \<Longrightarrow> parse_octet (dec_digits n) = Some n"
proof -
  assume n: "n \<le> 255"
  have "dec_digits n \<noteq> [48] \<Longrightarrow> hd (dec_digits n) \<noteq> 48"
    using hd_dec_digits [of n] by (cases "n = 0") auto
  with n dec_digits_small [OF n] dec_digits_digits [of _ n] show ?thesis
    by (auto simp: parse_octet_def list_all_iff)
qed

lemma digits_no_sep: "c \<in> set (dec_digits n) \<Longrightarrow> c \<noteq> 46 \<and> c \<noteq> 47 \<and> c \<noteq> 58 \<and> c \<noteq> 37"
  using dec_digits_digits [of c n] by (auto simp: is_digit_def)

lemma set_join_with: "set (join_with c ps) \<subseteq> insert c (\<Union>p \<in> set ps. set p)"
  by (induction c ps rule: join_with.induct) auto

lemma parse_ipv4_str:
  assumes "length a = 4" "\<forall>n \<in> set a. n \<le> 255"
  shows "parse_ipv4 (ipv4_str a) = Some a"
proof -
  have s: "split_on 46 (ipv4_str a) = map dec_digits a"
    unfolding ipv4_str_def using assms(1) digits_no_sep by (intro split_join) auto
  have "47 \<notin> set (ipv4_str a)"
    unfolding ipv4_str_def using set_join_with [of 46 "map dec_digits a"] digits_no_sep by fastforce
  moreover have "map (the \<circ> parse_octet \<circ> dec_digits) a = a"
    using assms(2) by (intro map_idI) (simp add: parse_octet_dec)
  ultimately show ?thesis
    using assms by (simp add: parse_ipv4_def s list_ex_iff parse_octet_dec comp_assoc [symmetric])
qed

lemma parse_octet_le: "parse_octet p = Some n \<Longrightarrow> n \<le> 255"
  by (auto simp: parse_octet_def split: if_splits)

lemma parse_ipv4_bounds:
  assumes "parse_ipv4 s = Some a"
  shows "length a = 4" "\<forall>n \<in> set a. n \<le> 255"
  using assms
  by (fastforce simp: parse_ipv4_def Let_def list_ex_iff dest: parse_octet_le split: if_splits)+

text \<open>Formatting an IPv4 address and reading it again gives the same address.\<close>

lemma ip_address_ipv4: "ip_address s = Some (V4 a) \<Longrightarrow> ip_address (address_str (V4 a)) = Some (V4 a)"
  using parse_ipv4_str parse_ipv4_bounds by (auto simp: ip_address_def split: option.splits)

end
