(* ===== verification/Kmip_Server.thy ===== *)
theory Kmip_Server
  imports Kmip_Protocol Kmip_Trace Py_Ipaddress
begin

text \<open>
  The TCP server, \<open>src/atlaso/app/kmip/server.py\<close>: the validation of its configuration, the recorder
  of interoperability traces, the request loop of one connection and the connection limit shared
  by the listeners.
\<close>

section \<open>Environment\<close>

text \<open>
  Beside the platform of the key store: reading a PEM certificate file (its DER bytes, or \<open>None\<close> for
  an unreadable or invalid one), whether a path is a file and the TLS context accepts the configured
  certificate, key and CA files, the text of the contract file, and whether the \<open>n\<close>-th append to the
  trace file and the \<open>n\<close>-th \<open>sendall\<close> of a connection succeed.
\<close>

record server_env =
  sv_platform :: platform
  sv_text :: text_env
  sv_certificate :: "pystr \<Rightarrow> bytes option"
  sv_is_file :: "pystr \<Rightarrow> bool"
  sv_tls_ok :: bool
  sv_contract_file :: pystr
  sv_append_ok :: "nat \<Rightarrow> bool"
  sv_send_ok :: "nat \<Rightarrow> bool"

section \<open>Configuration\<close>

definition CONFIG_FIELDS :: "string list" where
  "CONFIG_FIELDS = [''schema_version'', ''enabled'', ''listen'', ''tls'', ''store'', ''limits'', ''providers'',
     ''interop_trace_path'']"

definition PROVIDER_FIELDS :: "string list" where
  "PROVIDER_FIELDS = [''id'', ''name'', ''client_fingerprints'', ''client_certificate_paths'']"

record provider =
  provider_id :: pystr
  provider_name :: pystr
  client_fingerprints :: "pystr list"

record service_limits =
  max_request_bytes :: int
  max_connections :: int
  idle_timeout_seconds :: int
  max_requests_per_connection :: int

record service_config =
  cfg_enabled :: bool
  listen_addresses :: "pystr list"
  cfg_port :: int
  certificate_path :: pystr
  private_key_path :: pystr
  ca_path :: pystr
  database_path :: pystr
  kek_path :: pystr
  cfg_limits :: service_limits
  cfg_providers :: "provider list"
  interop_trace_path :: "pystr option"

text \<open>\<open>fingerprint_providers\<close>: the dictionary from client fingerprint to provider.\<close>

definition fingerprint_providers :: "service_config \<Rightarrow> (pystr \<times> pystr) list" where
  "fingerprint_providers config = dict_of (concat (map (\<lambda>p.
     map (\<lambda>f. (f, provider_id p)) (client_fingerprints p)) (cfg_providers config)))"

definition certificate_sha256 :: "server_env \<Rightarrow> pystr \<Rightarrow> exn + pystr" where
  "certificate_sha256 v path = (case sv_certificate v path of
     None \<Rightarrow> Inl (ConfigurationError ''KMIP client certificate is invalid'')
   | Some der \<Rightarrow> Inr (hexlify (sha256 (sv_platform v) der)))"

definition fingerprint :: "server_env \<Rightarrow> json \<Rightarrow> exn + pystr" where
  "fingerprint v j = (case j of
     JStr s \<Rightarrow>
       (let normalized = casefold (sv_text v) (strip (filter (\<lambda>c. c \<noteq> 58) s))
        in bindE (raise_if (\<not> lower_hex64 normalized)
                    (ConfigurationError ''KMIP client fingerprint must be a SHA-256 digest.'')) (\<lambda>_. Inr normalized))
   | _ \<Rightarrow> Inl (ConfigurationError ''KMIP client fingerprint must be a string.''))"

definition exact_fields :: "object \<Rightarrow> string list \<Rightarrow> string \<Rightarrow> exn + unit" where
  "exact_fields v expected label =
     raise_if (keys v \<noteq> set (map u expected)) (ConfigurationError (label @ '' fields are invalid''))"

definition absolute_path :: "json \<Rightarrow> string \<Rightarrow> exn + pystr" where
  "absolute_path j label = (case j of
     JStr s \<Rightarrow>
       bindE (raise_if (strip s = []) (ConfigurationError (label @ '' must be a nonempty absolute path.''))) (\<lambda>_.
       bindE (raise_if (hd s \<noteq> 47) (ConfigurationError (label @ '' must be an absolute path.''))) (\<lambda>_.
       Inr s))
   | _ \<Rightarrow> Inl (ConfigurationError (label @ '' must be a nonempty absolute path.'')))"

definition config_integer :: "json \<Rightarrow> string \<Rightarrow> exn + int" where
  "config_integer j label = (case j of
     JInt i \<Rightarrow> Inr i | _ \<Rightarrow> Inl (ConfigurationError (label @ '' must be an integer.'')))"

text \<open>The client identities of a provider: the given fingerprints, then those of the certificates.\<close>

definition provider_fingerprints :: "server_env \<Rightarrow> json \<Rightarrow> json \<Rightarrow> exn + pystr list" where
  "provider_fingerprints v configured certificate_paths = (case (configured, certificate_paths) of
     (JArr xs, JArr ps) \<Rightarrow>
       bindE (mapE (fingerprint v) xs) (\<lambda>given.
       bindE (mapE (\<lambda>p. bindE (absolute_path p ''KMIP client certificate path'') (certificate_sha256 v)) ps) (\<lambda>certs.
       Inr (given @ certs)))
   | _ \<Rightarrow> Inl (ConfigurationError ''KMIP provider client identities must be lists.''))"

definition parse_provider :: "server_env \<Rightarrow> json \<Rightarrow> exn + provider" where
  "parse_provider v j = (case j of
     JObj ob \<Rightarrow>
       bindE (exact_fields ob PROVIDER_FIELDS ''KMIP provider'') (\<lambda>_.
       bindE (item ob ''id'') (\<lambda>raw_id.
       bindE (case raw_id of
                JStr s \<Rightarrow> (case uuid_of_str (ascii_fold (sv_platform v)) s of
                    None \<Rightarrow> Inl (ConfigurationError ''KMIP provider ID must be a UUID.'')
                  | Some b \<Rightarrow> Inr (uuid_str b))
              | _ \<Rightarrow> Inl (ConfigurationError ''KMIP provider ID must be a UUID string.'')) (\<lambda>pid.
       bindE (item ob ''name'') (\<lambda>raw_name.
       bindE (case raw_name of
                JStr s \<Rightarrow> Inr (strip s)
              | _ \<Rightarrow> Inl (ConfigurationError ''KMIP provider name must be a string.'')) (\<lambda>name.
       bindE (raise_if (name = [] \<or> length name > 120)
                (ConfigurationError ''KMIP provider name must contain 1 to 120 characters.'')) (\<lambda>_.
       bindE (item ob ''client_fingerprints'') (\<lambda>configured.
       bindE (item ob ''client_certificate_paths'') (\<lambda>certificate_paths.
       bindE (provider_fingerprints v configured certificate_paths) (\<lambda>fingerprints.
       bindE (raise_if (fingerprints = [])
                (ConfigurationError ''KMIP provider requires at least one trusted client fingerprint.'')) (\<lambda>_.
       bindE (raise_if (\<not> distinct fingerprints)
                (ConfigurationError ''KMIP provider client fingerprints must be unique.'')) (\<lambda>_.
       Inr \<lparr>provider_id = pid, provider_name = name, client_fingerprints = sort fingerprints\<rparr>)))))))))))
   | _ \<Rightarrow> Inl (ConfigurationError ''KMIP provider must be an object.''))"

definition listen_address :: "json \<Rightarrow> exn + pystr" where
  "listen_address j = (case j of
     JStr s \<Rightarrow> (case ip_address (strip s) of
         None \<Rightarrow> Inl (ConfigurationError ''KMIP listen address must be an IP address.'')
       | Some a \<Rightarrow> Inr (address_str a))
   | _ \<Rightarrow> Inl (ConfigurationError ''KMIP listen address must be a string.''))"

definition parse_addresses :: "json \<Rightarrow> exn + pystr list" where
  "parse_addresses j = (case j of
     JArr xs \<Rightarrow>
       bindE (raise_if (xs = []) (ConfigurationError ''KMIP listen addresses must be a nonempty list.'')) (\<lambda>_.
       bindE (raise_if (length xs > 32)
                (ConfigurationError ''KMIP listen addresses cannot contain more than 32 entries.'')) (\<lambda>_.
       bindE (mapE listen_address xs) (\<lambda>addresses.
       bindE (raise_if (\<not> distinct addresses) (ConfigurationError ''KMIP listen addresses must be unique.'')) (\<lambda>_.
       Inr addresses))))
   | _ \<Rightarrow> Inl (ConfigurationError ''KMIP listen addresses must be a nonempty list.''))"

text \<open>\<open>_integer(ob[field], label=...)\<close>.\<close>

definition integer_item :: "object \<Rightarrow> string \<Rightarrow> string \<Rightarrow> exn + int" where
  "integer_item ob field label = bindE (item ob field) (\<lambda>j. config_integer j label)"

definition path_item :: "object \<Rightarrow> string \<Rightarrow> string \<Rightarrow> exn + pystr" where
  "path_item ob field label = bindE (item ob field) (\<lambda>j. absolute_path j label)"

definition parse_limits :: "object \<Rightarrow> exn + service_limits" where
  "parse_limits ob =
     bindE (integer_item ob ''max_request_bytes'' ''KMIP max_request_bytes'') (\<lambda>rb.
     bindE (integer_item ob ''max_connections'' ''KMIP max_connections'') (\<lambda>mc.
     bindE (integer_item ob ''idle_timeout_seconds'' ''KMIP idle_timeout_seconds'') (\<lambda>it.
     bindE (integer_item ob ''max_requests_per_connection'' ''KMIP max_requests_per_connection'') (\<lambda>mr.
     bindE (raise_if (\<not> (1024 \<le> rb \<and> rb \<le> int MAX_MESSAGE_BYTES))
              (ConfigurationError ''KMIP max_request_bytes must be between 1024 and 1048576.'')) (\<lambda>_.
     bindE (raise_if (\<not> (1 \<le> mc \<and> mc \<le> 256))
              (ConfigurationError ''KMIP max_connections must be between 1 and 256.'')) (\<lambda>_.
     bindE (raise_if (\<not> (1 \<le> it \<and> it \<le> 300))
              (ConfigurationError ''KMIP idle_timeout_seconds must be between 1 and 300.'')) (\<lambda>_.
     bindE (raise_if (\<not> (1 \<le> mr \<and> mr \<le> 1024))
              (ConfigurationError ''KMIP max_requests_per_connection must be between 1 and 1024.'')) (\<lambda>_.
     Inr \<lparr>max_request_bytes = rb, max_connections = mc, idle_timeout_seconds = it,
          max_requests_per_connection = mr\<rparr>))))))))"

definition parse_providers :: "server_env \<Rightarrow> bool \<Rightarrow> json \<Rightarrow> exn + provider list" where
  "parse_providers v enabled j = (case j of
     JArr xs \<Rightarrow>
       bindE (raise_if (enabled \<and> xs = [])
                (ConfigurationError ''Enabled KMIP configuration requires at least one provider.'')) (\<lambda>_.
       bindE (mapE (parse_provider v) xs) (\<lambda>providers.
       bindE (raise_if (\<not> distinct (map provider_id providers))
                (ConfigurationError ''KMIP provider IDs must be unique.'')) (\<lambda>_.
       bindE (raise_if (\<not> distinct (concat (map client_fingerprints providers)))
                (ConfigurationError ''A KMIP client fingerprint cannot map to multiple providers.'')) (\<lambda>_.
       Inr providers))))
   | _ \<Rightarrow> Inl (ConfigurationError ''KMIP providers must be a list.''))"

text \<open>The four sections, which must be objects with exactly their fields.\<close>

definition config_sections :: "object \<Rightarrow> exn + object \<times> object \<times> object \<times> object" where
  "config_sections document =
     bindE (item document ''listen'') (\<lambda>listen.
     bindE (item document ''tls'') (\<lambda>tls.
     bindE (item document ''store'') (\<lambda>store.
     bindE (item document ''limits'') (\<lambda>limits.
       case (listen, tls, store, limits) of
         (JObj l, JObj t, JObj s, JObj m) \<Rightarrow>
           bindE (exact_fields l [''addresses'', ''port''] ''KMIP listen'') (\<lambda>_.
           bindE (exact_fields t [''certificate_path'', ''private_key_path'', ''ca_path''] ''KMIP TLS'') (\<lambda>_.
           bindE (exact_fields s [''database_path'', ''kek_path''] ''KMIP store'') (\<lambda>_.
           bindE (exact_fields m [''max_request_bytes'', ''max_connections'', ''idle_timeout_seconds'',
                    ''max_requests_per_connection''] ''KMIP limits'') (\<lambda>_.
           Inr (l, t, s, m)))))
       | _ \<Rightarrow> Inl (ConfigurationError ''KMIP listen, TLS, store, and limits must be objects.'')))))"

definition parse_config :: "server_env \<Rightarrow> json \<Rightarrow> exn + service_config" where
  "parse_config v doc = (case doc of
     JObj document \<Rightarrow>
       bindE (exact_fields document CONFIG_FIELDS ''KMIP configuration'') (\<lambda>_.
       bindE (integer_item document ''schema_version'' ''KMIP configuration schema_version'') (\<lambda>version.
       bindE (raise_if (version \<noteq> 1) (ConfigurationError ''KMIP configuration schema_version must be 1.'')) (\<lambda>_.
       bindE (item document ''enabled'') (\<lambda>raw_enabled.
       bindE (case raw_enabled of
                JBool b \<Rightarrow> Inr b
              | _ \<Rightarrow> Inl (ConfigurationError ''KMIP enabled must be true or false.'')) (\<lambda>enabled.
       bindE (config_sections document) (\<lambda>(listen, tls, store, limits).
       bindE (bindE (item listen ''addresses'') parse_addresses) (\<lambda>addresses.
       bindE (integer_item listen ''port'' ''KMIP listen port'') (\<lambda>port.
       bindE (raise_if (\<not> (1 \<le> port \<and> port \<le> 65535))
                (ConfigurationError ''KMIP listen port must be between 1 and 65535.'')) (\<lambda>_.
       bindE (parse_limits limits) (\<lambda>parsed_limits.
       bindE (bindE (item document ''providers'') (parse_providers v enabled)) (\<lambda>providers.
       bindE (item document ''interop_trace_path'') (\<lambda>raw_trace.
       bindE (case raw_trace of
                JStr s \<Rightarrow> Inr (strip s)
              | _ \<Rightarrow> Inl (ConfigurationError ''KMIP interop trace path must be a string.'')) (\<lambda>trace_value.
       bindE (path_item tls ''certificate_path'' ''KMIP server certificate'') (\<lambda>cert.
       bindE (path_item tls ''private_key_path'' ''KMIP server private key'') (\<lambda>pkey.
       bindE (path_item tls ''ca_path'' ''KMIP CA certificate'') (\<lambda>ca.
       bindE (path_item store ''database_path'' ''KMIP database'') (\<lambda>dbp.
       bindE (path_item store ''kek_path'' ''KMIP KEK envelope'') (\<lambda>kekp.
       bindE (if trace_value = [] then Inr None
              else bindE (absolute_path (JStr trace_value) ''KMIP interop trace'') (\<lambda>p. Inr (Some p))) (\<lambda>trace.
       Inr \<lparr>cfg_enabled = enabled, listen_addresses = addresses, cfg_port = port, certificate_path = cert,
            private_key_path = pkey, ca_path = ca, database_path = dbp, kek_path = kekp,
            cfg_limits = parsed_limits, cfg_providers = providers, interop_trace_path = trace\<rparr>)))))))))))))))))))
   | _ \<Rightarrow> Inl (ConfigurationError ''KMIP configuration must be an object.''))"

text \<open>\<open>load_config\<close>, of the text of the file (\<open>None\<close>: an \<open>OSError\<close>).\<close>

definition load_config :: "server_env \<Rightarrow> pystr option \<Rightarrow> exn + service_config" where
  "load_config v file = (case file of
     None \<Rightarrow> Inl (ConfigurationError ''KMIP configuration could not be read.'')
   | Some text \<Rightarrow> (case json_loads (float_parse (sv_platform v)) text of
         None \<Rightarrow> Inl (ConfigurationError ''KMIP configuration could not be read.'')
       | Some doc \<Rightarrow> parse_config v doc))"

section \<open>The trace recorder\<close>

fun OPERATION_NAMES :: "operation \<Rightarrow> string" where
  "OPERATION_NAMES CREATE = ''Create''"
| "OPERATION_NAMES LOCATE = ''Locate''"
| "OPERATION_NAMES GET = ''Get''"
| "OPERATION_NAMES GET_ATTRIBUTES = ''Get Attributes''"
| "OPERATION_NAMES GET_ATTRIBUTE_LIST = ''Get Attribute List''"
| "OPERATION_NAMES ACTIVATE = ''Activate''"
| "OPERATION_NAMES QUERY = ''Query''"
| "OPERATION_NAMES DISCOVER_VERSIONS = ''Discover Versions''"

fun RESULT_REASON_NAMES :: "result_reason \<Rightarrow> string" where
  "RESULT_REASON_NAMES ITEM_NOT_FOUND = ''Item Not Found''"
| "RESULT_REASON_NAMES INVALID_MESSAGE = ''Invalid Message''"
| "RESULT_REASON_NAMES OPERATION_NOT_SUPPORTED = ''Operation Not Supported''"
| "RESULT_REASON_NAMES MISSING_DATA = ''Missing Data''"
| "RESULT_REASON_NAMES INVALID_FIELD = ''Invalid Field''"
| "RESULT_REASON_NAMES KEY_FORMAT_TYPE_NOT_SUPPORTED = ''Key Format Type Not Supported''"
| "RESULT_REASON_NAMES GENERAL_FAILURE = ''General Failure''"

definition result_reasons :: "result_reason list" where
  "result_reasons = [ITEM_NOT_FOUND, INVALID_MESSAGE, OPERATION_NOT_SUPPORTED, MISSING_DATA,
     INVALID_FIELD, KEY_FORMAT_TYPE_NOT_SUPPORTED, GENERAL_FAILURE]"

definition reason_of :: "int \<Rightarrow> result_reason option" where
  "reason_of n = find (\<lambda>r. reason_value r = n) result_reasons"

text \<open>\<open>isinstance(value, int)\<close>: a \<open>bool\<close> counts as 0 or 1.\<close>

fun int_like :: "ttlv_value \<Rightarrow> int option" where
  "int_like (VInt i) = Some i"
| "int_like (VBool b) = Some (if b then 1 else 0)"
| "int_like v = None"

text \<open>\<open>InteropTraceWriter._operation\<close>: the name only; the number is not used.\<close>

definition trace_operation :: "ttlv \<Rightarrow> exn + string" where
  "trace_operation it =
     bindE (child it (tag_value OPERATION) False) (\<lambda>node.
       case (case node of None \<Rightarrow> VInt 0 | Some n \<Rightarrow> node_value n) of
         VInt i \<Rightarrow> (case operation_of i of Some op \<Rightarrow> Inr (OPERATION_NAMES op) | None \<Rightarrow> Inr ''Unknown'')
       | _ \<Rightarrow> Inr ''Unknown'')"

text \<open>
  The three scans walk the item with an explicit stack: \<open>visited descend stack\<close> lists the nodes in the
  order they are popped; the children of a structure are pushed when \<open>descend\<close> holds for it.
\<close>

definition structure_children :: "ttlv \<Rightarrow> ttlv list" where
  "structure_children n = (if node_type n = STRUCTURE then (case node_value n of VTuple cs \<Rightarrow> cs | _ \<Rightarrow> []) else [])"

lemma structure_children_smaller: "sum_list (map size (structure_children n)) < size n"
  by (cases n) (auto simp: structure_children_def size_list_conv_sum_list split: ttlv_value.splits)

lemma ttlv_size_pos [simp]: "0 < size (n :: ttlv)"
  by (cases n) simp

function visited :: "(ttlv \<Rightarrow> bool) \<Rightarrow> ttlv list \<Rightarrow> ttlv list" where
  "visited descend [] = []"
| "visited descend (node # stack) =
     node # visited descend (rev (if descend node then structure_children node else []) @ stack)"
  by pat_completeness auto
termination
  by (relation "measure (\<lambda>(d, stack). sum_list (map size stack))")
    (auto simp: rev_map [symmetric] sum_list_rev structure_children_smaller)

definition trace_object_type :: "ttlv \<Rightarrow> json" where
  "trace_object_type it =
     (if list_ex (\<lambda>n. node_tag n = tag_value OBJECT_TYPE \<and> int_like (node_value n) = Some 2)
           (visited (\<lambda>_. True) [it])
      then JStr (u ''Symmetric Key'') else JNull)"

definition text_of :: "ttlv_value \<Rightarrow> pystr option" where
  "text_of v = (case v of VStr s \<Rightarrow> Some s | _ \<Rightarrow> None)"

definition trace_attribute_names :: "ttlv \<Rightarrow> pystr list" where
  "trace_attribute_names it = sort (remdups (List.map_filter
     (\<lambda>n. if node_tag n = tag_value ATTRIBUTE_NAME then text_of (node_value n) else None)
     (visited (\<lambda>_. True) [it])))"

text \<open>An attribute structure whose name or value is missing or repeated is skipped with its children.\<close>

definition attribute_pair :: "ttlv \<Rightarrow> (ttlv \<times> ttlv) option" where
  "attribute_pair n = (case (child n (tag_value ATTRIBUTE_NAME) True, child n (tag_value ATTRIBUTE_VALUE) True) of
     (Inr (Some name), Inr (Some v)) \<Rightarrow> Some (name, v) | _ \<Rightarrow> None)"

definition is_attribute :: "ttlv \<Rightarrow> bool" where
  "is_attribute n \<longleftrightarrow> node_tag n = tag_value ATTRIBUTE \<and> node_type n = STRUCTURE"

definition attribute_values :: "ttlv \<Rightarrow> (pystr \<times> ttlv_value) list" where
  "attribute_values it = dict_of (List.map_filter
     (\<lambda>n. if is_attribute n
          then (case attribute_pair n of
                  Some (name, v) \<Rightarrow> (case text_of (node_value name) of
                      Some s \<Rightarrow> Some (s, node_value v) | None \<Rightarrow> None)
                | None \<Rightarrow> None)
          else None)
     (visited (\<lambda>n. is_attribute n \<longrightarrow> attribute_pair n \<noteq> None) [it]))"

definition trace_parameters :: "ttlv \<Rightarrow> string \<Rightarrow> json \<times> json \<times> json" where
  "trace_parameters it operation =
     (if operation \<noteq> ''Create'' then (JNull, JNull, JNull)
      else let vs = attribute_values it;
               aes = (case map_of vs (u ''Cryptographic Algorithm'') of
                        Some v \<Rightarrow> int_like v = Some CRYPTOGRAPHIC_ALGORITHM_AES | None \<Rightarrow> False)
      in (if aes then JStr (u ''AES'') else JNull,
          (case map_of vs (u ''Cryptographic Length'') of Some (VInt i) \<Rightarrow> JInt i | _ \<Rightarrow> JNull),
          if aes then JStr (u ''Raw'') else JNull))"

definition trace_reason :: "ttlv option \<Rightarrow> json" where
  "trace_reason node = (case node of
     None \<Rightarrow> JNull
   | Some n \<Rightarrow> (case int_like (node_value n) of
       None \<Rightarrow> JNull
     | Some i \<Rightarrow> (case reason_of i of Some r \<Rightarrow> JStr (u (RESULT_REASON_NAMES r)) | None \<Rightarrow> JNull)))"

record trace_context =
  tc_timestamp :: pystr
  tc_connection_id :: pystr
  tc_client_cert_sha256 :: pystr
  tc_provider_id :: pystr
  tc_request_digest :: pystr

definition trace_event :: "trace_context \<Rightarrow> ttlv \<Rightarrow> ttlv \<Rightarrow> exn + object" where
  "trace_event c request_item response_item =
     bindE (trace_operation request_item) (\<lambda>operation_name.
     case trace_parameters request_item operation_name of (algorithm, key_length, key_format_type) \<Rightarrow>
     bindE (child response_item (tag_value RESULT_STATUS) True) (\<lambda>status_node.
     bindE (case status_node of
              None \<Rightarrow> Inl AssertionError
            | Some n \<Rightarrow> (case int_like (node_value n) of None \<Rightarrow> Inl AssertionError | Some i \<Rightarrow> Inr i)) (\<lambda>status.
     bindE (child response_item (tag_value RESULT_REASON) False) (\<lambda>reason_node.
     Inr [(u ''schema_version'', JInt 1),
          (u ''timestamp'', JStr (tc_timestamp c)),
          (u ''connection_id'', JStr (tc_connection_id c)),
          (u ''client_cert_sha256'', JStr (tc_client_cert_sha256 c)),
          (u ''provider_id'', JStr (tc_provider_id c)),
          (u ''protocol_version'', JStr (u ''1.4'')),
          (u ''operation'', JStr (u operation_name)),
          (u ''object_type'', trace_object_type request_item),
          (u ''algorithm'', algorithm),
          (u ''key_length'', key_length),
          (u ''key_format_type'', key_format_type),
          (u ''attribute_names'', JArr (map JStr (trace_attribute_names request_item))),
          (u ''result_status'', JStr (if status = status_value SUCCESS then u ''Success'' else u ''Operation Failed'')),
          (u ''result_reason'', trace_reason reason_node),
          (u ''request_digest'', JStr (tc_request_digest c))]))))"

text \<open>An event the validator refuses is left out of the trace.\<close>

definition is_trace_error :: "exn \<Rightarrow> bool" where
  "is_trace_error ex = (case ex of TraceValidationError m \<Rightarrow> True | _ \<Rightarrow> False)"

definition record_item :: "server_env \<Rightarrow> trace_context \<Rightarrow> ttlv \<Rightarrow> ttlv \<Rightarrow> exn + pystr list" where
  "record_item v c request_item response_item =
     bindE (trace_event c request_item response_item) (\<lambda>event.
     let rendered = json_dumps (float_repr (sv_platform v)) (JObj event)
     in case validate_trace (sv_platform v) (sv_text v) (sv_contract_file v) [rendered] None None of
          Inr s \<Rightarrow> Inr [rendered]
        | Inl ex \<Rightarrow> if is_trace_error ex then Inr [] else Inl ex)"

fun record_items :: "server_env \<Rightarrow> trace_context \<Rightarrow> ttlv list \<Rightarrow> ttlv list \<Rightarrow> exn + pystr list" where
  "record_items v c (q # qs) (r # rs) =
     bindE (record_item v c q r) (\<lambda>line.
     bindE (record_items v c qs rs) (\<lambda>lines. Inr (line @ lines)))"
| "record_items v c [] [] = Inr []"
| "record_items v c qs rs = Inl (ValueError ''zip() arguments have different lengths'')"

text \<open>\<open>InteropTraceWriter.record\<close>: the lines to append to the trace file.\<close>

definition trace_lines :: "server_env \<Rightarrow> trace_context \<Rightarrow> ttlv \<Rightarrow> ttlv \<Rightarrow> exn + pystr list" where
  "trace_lines v c request response =
     bindE (children request (tag_value BATCH_ITEM)) (\<lambda>request_items.
     bindE (children response (tag_value BATCH_ITEM)) (\<lambda>response_items.
     record_items v c request_items response_items))"

section \<open>One connection\<close>

text \<open>
  What the peer makes \<open>recv\<close> return: chunks of bytes, or an \<open>OSError\<close> (a reset or a timeout); after
  the last event the connection is closed. \<open>cn_trace\<close> are the lines of the trace file.
\<close>

datatype recv_event = Chunk bytes | RecvFails

record connection =
  cn_input :: "recv_event list"
  cn_sent :: "bytes list"
  cn_trace :: "pystr list"
  cn_store :: store

type_synonym 'a conn_prog = "(connection, exn, 'a) prog"

definition on_store :: "'a store_prog \<Rightarrow> 'a conn_prog" where
  "on_store m c = (case m (cn_store c) of (r, s) \<Rightarrow> (r, c\<lparr>cn_store := s\<rparr>))"

text \<open>\<open>sock.recv(n)\<close> returns at most \<open>n\<close> bytes; the rest of a chunk stays for the next call.\<close>

definition recv :: "nat \<Rightarrow> bytes conn_prog" where
  "recv n c = (case cn_input c of
     [] \<Rightarrow> (Inr [], c)
   | RecvFails # rest \<Rightarrow> (Inl OSError, c\<lparr>cn_input := rest\<rparr>)
   | Chunk b # rest \<Rightarrow>
       (Inr (take n b), c\<lparr>cn_input := if length b \<le> n then rest else Chunk (drop n b) # rest\<rparr>))"

lemma recv_length: "recv n c = (Inr b, c') \<Longrightarrow> length b \<le> n"
  by (auto simp: recv_def split: list.splits recv_event.splits)

function receive_more :: "nat \<Rightarrow> bytes \<Rightarrow> bytes conn_prog" where
  "receive_more count result c =
     (if count \<le> length result then (Inr result, c)
      else case recv (count - length result) c of
        (Inl ex, c') \<Rightarrow> (Inl ex, c')
      | (Inr chunk, c') \<Rightarrow>
          if chunk = []
          then (if result = [] then (Inr [], c') else (Inl (TtlvError ConnectionClosed), c'))
          else receive_more count (result @ chunk) c')"
  by pat_completeness auto
termination
  by (relation "measure (\<lambda>(count, result, c). count - length result)")
    (auto dest!: recv_length simp flip: length_greater_0_conv)

declare receive_more.simps [simp del]

definition receive_exact :: "nat \<Rightarrow> bytes conn_prog" where
  "receive_exact count = receive_more count []"

text \<open>The checks of the message header: the number of bytes that follow it.\<close>

definition request_length :: "service_limits \<Rightarrow> bytes \<Rightarrow> exn + nat" where
  "request_length limits header =
     bindE (raise_if (take 3 header \<noteq> be_bytes 3 (nat (tag_value REQUEST_MESSAGE))) (TtlvError RootTagNotRequest)) (\<lambda>_.
     bindE (raise_if (unat (header ! 3) \<noteq> type_code STRUCTURE) (TtlvError RootNotStructure)) (\<lambda>_.
     let len = be_nat (py_slice header 4 8); padded_length = len + pad_length len
     in bindE (raise_if (int (8 + padded_length) > max_request_bytes limits) (TtlvError RequestTooLarge)) (\<lambda>_.
     Inr padded_length)))"

text \<open>\<open>text.replace("+00:00", "Z")\<close>.\<close>

fun zulu :: "pystr \<Rightarrow> pystr" where
  "zulu [] = []"
| "zulu (c # s) =
     (if take 6 (c # s) = u ''+00:00'' then 90 # zulu (drop 5 s) else c # zulu s)"

text \<open>\<open>InteropTraceWriter.record\<close>, for the \<open>i\<close>-th request of the connection.\<close>

definition record_request ::
  "server_env \<Rightarrow> nat \<Rightarrow> pystr \<Rightarrow> pystr \<Rightarrow> pystr \<Rightarrow> ttlv \<Rightarrow> ttlv \<Rightarrow> bytes \<Rightarrow> unit conn_prog" where
  "record_request v i connection_id client_cert pid request response request_bytes =
     bindS (on_store (draw (utc_now (sv_platform v)))) (\<lambda>now.
     bindS (liftS (trace_lines v
              \<lparr>tc_timestamp = zulu now, tc_connection_id = connection_id, tc_client_cert_sha256 = client_cert,
               tc_provider_id = pid, tc_request_digest = hexlify (sha256 (sv_platform v) request_bytes)\<rparr>
              request response)) (\<lambda>lines.
       if lines = [] then returnS ()
       else if sv_append_ok v i then modifyS (cn_trace_update (\<lambda>t. t @ lines))
       else raiseS OSError))"

definition sendall :: "server_env \<Rightarrow> nat \<Rightarrow> bytes \<Rightarrow> unit conn_prog" where
  "sendall v i b = (if sv_send_ok v i then modifyS (cn_sent_update (\<lambda>t. t @ [b])) else raiseS OSError)"

text \<open>The body of the request loop; \<open>False\<close> when the peer has closed the connection.\<close>

definition serve_one :: "server_env \<Rightarrow> service_config \<Rightarrow> pystr \<Rightarrow> pystr \<Rightarrow> pystr \<Rightarrow> nat \<Rightarrow> bool conn_prog" where
  "serve_one v config connection_id client_cert pid i =
     bindS (receive_exact 8) (\<lambda>header.
       if header = [] then returnS False
       else
         bindS (liftS (request_length (cfg_limits config) header)) (\<lambda>padded_length.
         bindS (receive_exact padded_length) (\<lambda>body.
         bindS (liftS (raise_if (length body \<noteq> padded_length) (TtlvError RequestTruncated))) (\<lambda>_.
         bindS (liftS (decode (header @ body))) (\<lambda>request.
         bindS (on_store (dispatch (sv_platform v) pid request)) (\<lambda>response.
         bindS (liftS (encode response)) (\<lambda>response_bytes.
         bindS (if interop_trace_path config \<noteq> None
                then record_request v i connection_id client_cert pid request response (header @ body)
                else returnS ()) (\<lambda>_.
         bindS (sendall v i response_bytes) (\<lambda>_.
         returnS True)))))))))"

text \<open>\<open>except (ConnectionError, OSError, TimeoutError, TtlvError): return\<close>.\<close>

definition is_connection_error :: "exn \<Rightarrow> bool" where
  "is_connection_error ex \<longleftrightarrow> ex = OSError \<or> is_ttlv_error ex"

fun serve :: "server_env \<Rightarrow> service_config \<Rightarrow> pystr \<Rightarrow> pystr \<Rightarrow> pystr \<Rightarrow> nat \<Rightarrow> nat \<Rightarrow> unit conn_prog" where
  "serve v config cid cert pid i 0 c = (Inr (), c)"
| "serve v config cid cert pid i (Suc k) c =
     (case serve_one v config cid cert pid i c of
        (Inr True, c') \<Rightarrow> serve v config cid cert pid (Suc i) k c'
      | (Inr False, c') \<Rightarrow> (Inr (), c')
      | (Inl ex, c') \<Rightarrow> if is_connection_error ex then (Inr (), c') else (Inl ex, c'))"

text \<open>
  \<open>KmipRequestHandler.handle\<close>. \<open>peer\<close> is the client certificate after the handshake, \<open>None\<close> when the
  handshake failed.
\<close>

definition handle :: "server_env \<Rightarrow> service_config \<Rightarrow> bytes option \<Rightarrow> unit conn_prog" where
  "handle v config peer = (case peer of
     None \<Rightarrow> returnS ()
   | Some peer_der \<Rightarrow>
       if peer_der = [] then returnS ()
       else
         let cert = hexlify (sha256 (sv_platform v) peer_der)
         in case map_of (fingerprint_providers config) cert of
              None \<Rightarrow> returnS ()
            | Some pid \<Rightarrow>
                bindS (on_store (draw (\<lambda>t. uuid_str (uuid4_of (os_urandom (sv_platform v) t 16))))) (\<lambda>cid.
                serve v config cid cert pid 0 (nat (max_requests_per_connection (cfg_limits config)))))"

section \<open>The connection limit\<close>

text \<open>
  The bounded semaphore shared by the listeners, the accepted connections that have no thread yet and
  the handler threads. \<open>release\<close> of a full semaphore raises \<open>ValueError\<close>.
\<close>

record slots =
  available :: nat
  accepted :: nat
  threads :: nat

definition release :: "nat \<Rightarrow> slots \<Rightarrow> exn + slots" where
  "release limit s = (if limit \<le> available s then Inl (ValueError ''Semaphore released too many times'')
     else Inr (s\<lparr>available := available s + 1\<rparr>))"

text \<open>\<open>KmipTcpServer.get_request\<close>: \<open>wraps\<close> is whether the TLS wrapper could be built.\<close>

definition tcp_get_request :: "nat \<Rightarrow> bool \<Rightarrow> slots \<Rightarrow> exn + slots" where
  "tcp_get_request limit wraps s =
     (if available s = 0 then Inl OSError
      else let s' = s\<lparr>available := available s - 1\<rparr>
           in if wraps then Inr (s'\<lparr>accepted := accepted s' + 1\<rparr>) else release limit s')"

text \<open>\<open>process_request\<close>: the thread starts, or the slot is given back.\<close>

definition tcp_process_request :: "nat \<Rightarrow> bool \<Rightarrow> slots \<Rightarrow> exn + slots" where
  "tcp_process_request limit starts s =
     (let s' = s\<lparr>accepted := accepted s - 1\<rparr>
      in if starts then Inr (s'\<lparr>threads := threads s' + 1\<rparr>) else release limit s')"

text \<open>\<open>process_request_thread\<close>: the end of a handler thread, however the handler ended.\<close>

definition tcp_thread_ends :: "nat \<Rightarrow> slots \<Rightarrow> exn + slots" where
  "tcp_thread_ends limit s = release limit (s\<lparr>threads := threads s - 1\<rparr>)"

inductive slot_step :: "nat \<Rightarrow> slots \<Rightarrow> exn + slots \<Rightarrow> bool" for limit where
  accept: "slot_step limit s (case tcp_get_request limit wraps s of Inl OSError \<Rightarrow> Inr s | r \<Rightarrow> r)"
| start: "0 < accepted s \<Longrightarrow> slot_step limit s (tcp_process_request limit starts s)"
| finish: "0 < threads s \<Longrightarrow> slot_step limit s (tcp_thread_ends limit s)"

inductive slots_reachable :: "nat \<Rightarrow> slots \<Rightarrow> bool" for limit where
  initial: "slots_reachable limit \<lparr>available = limit, accepted = 0, threads = 0\<rparr>"
| step: "slots_reachable limit s \<Longrightarrow> slot_step limit s (Inr s') \<Longrightarrow> slots_reachable limit s'"

section \<open>Start, check and status\<close>

definition tls_context :: "server_env \<Rightarrow> service_config \<Rightarrow> exn + unit" where
  "tls_context v config =
     bindE (mapE (\<lambda>(path, label). raise_if (\<not> sv_is_file v path) (ConfigurationError (label @ '' does not exist'')))
              [(certificate_path config, ''KMIP server certificate''),
               (private_key_path config, ''KMIP server private key''),
               (ca_path config, ''KMIP CA certificate'')]) (\<lambda>_.
     raise_if (\<not> sv_tls_ok v) OSError)"

definition check_config :: "server_env \<Rightarrow> service_config \<Rightarrow> pystr \<Rightarrow> unit store_prog" where
  "check_config v config secrets_key =
     bindS (liftS (tls_context v config)) (\<lambda>_.
     bindS (getS database) (\<lambda>d.
     bindS (getS kek_file) (\<lambda>k.
       if (d \<noteq> None) \<noteq> (k \<noteq> None)
       then raiseS (ConfigurationError ''KMIP operational store and KEK envelope must exist together.'')
       else if d = None then returnS ()
       else bindS (init (sv_platform v) secrets_key) (\<lambda>_. modifyS close))))"

text \<open>
  \<open>_load_secrets_key\<close>: the values of \<open>ATLASO_SECRETS_KEY_FILE\<close> and \<open>ATLASO_SECRETS_KEY\<close> (empty when
  unset) and the reader of the credential file.
\<close>

definition load_secrets_key :: "pystr \<Rightarrow> pystr \<Rightarrow> (pystr \<Rightarrow> pystr option) \<Rightarrow> exn + pystr" where
  "load_secrets_key file_variable key_variable read =
     (if strip file_variable = [] then Inr key_variable
      else case read (strip file_variable) of
        None \<Rightarrow> Inl (ConfigurationError ''KMIP runtime credential is unavailable.'')
      | Some text \<Rightarrow> Inr (rev (dropWhile (\<lambda>c. c = 13 \<or> c = 10) (rev text))))"

definition counts_document :: "lifecycle \<Rightarrow> json" where
  "counts_document n = JObj [(u ''pre_active'', JInt (int (pre_active n))),
     (u ''active'', JInt (int (active n))), (u ''total'', JInt (int (total n)))]"

definition status_document :: "service_config \<Rightarrow> string \<Rightarrow> (pystr \<times> lifecycle) list \<Rightarrow> json" where
  "status_document config store_status counts = JObj
     [(u ''status'', JStr (u ''available'')),
      (u ''runtime_state'', JStr (if cfg_enabled config then u ''configured'' else u ''disabled'')),
      (u ''store_status'', JStr (u store_status)),
      (u ''providers'', JObj (map (\<lambda>(p, n). (p, counts_document n)) counts))]"

text \<open>The \<open>--status\<close> mode of \<open>main\<close>; the store is closed whether or not the count succeeds.\<close>

definition status_mode :: "server_env \<Rightarrow> service_config \<Rightarrow> pystr \<Rightarrow> json store_prog" where
  "status_mode v config secrets_key =
     bindS (getS database) (\<lambda>d.
     bindS (getS kek_file) (\<lambda>k.
       if d = None \<or> k = None
       then returnS (status_document config ''empty''
              (dict_of (map (\<lambda>p. (provider_id p, zero_counts)) (cfg_providers config))))
       else
         bindS (init (sv_platform v) secrets_key) (\<lambda>_.
         bindS (catchS (lifecycle_counts (sv_platform v) (map provider_id (cfg_providers config)))
                  (\<lambda>ex. bindS (modifyS close) (\<lambda>_. raiseS ex))) (\<lambda>counts.
         bindS (modifyS close) (\<lambda>_.
         returnS (status_document config ''healthy'' counts))))))"

text \<open>
  \<open>main\<close>, up to binding the listeners (\<open>Serve\<close>): the modes, and the exceptions that end the process
  with status 2.
\<close>

datatype main_result = Printed json | ExitStatus nat | Serve service_config

definition is_main_error :: "exn \<Rightarrow> bool" where
  "is_main_error ex \<longleftrightarrow> is_key_store_error ex \<or> is_value_or_os_error ex \<and> ex \<noteq> InvalidTag"

definition kmip_main ::
  "server_env \<Rightarrow> pystr option \<Rightarrow> exn + pystr \<Rightarrow> bool \<Rightarrow> bool \<Rightarrow> main_result store_prog" where
  "kmip_main v config_file secrets check status =
     catchS
      (bindS (liftS (load_config v config_file)) (\<lambda>config.
       bindS (liftS secrets) (\<lambda>secrets_key.
         if check \<and> status
         then raiseS (ConfigurationError ''KMIP check and status modes are mutually exclusive.'')
         else if check
         then bindS (check_config v config secrets_key) (\<lambda>_.
              returnS (Printed (JObj [(u ''atlaso_kmip'', JStr (u ''configuration valid''))])))
         else if status
         then bindS (status_mode v config secrets_key) (\<lambda>j. returnS (Printed j))
         else if \<not> cfg_enabled config
         then raiseS (ConfigurationError ''KMIP service configuration is disabled.'')
         else bindS (liftS (tls_context v config)) (\<lambda>_.
              bindS (init (sv_platform v) secrets_key) (\<lambda>_.
              returnS (Serve config))))))
      (\<lambda>ex. if is_main_error ex then returnS (ExitStatus 2) else raiseS ex)"

end
