(* ===== verification/Kmip_Trace_Props.thy ===== *)
theory Kmip_Trace_Props
  imports Kmip_Trace Kmip_Store_Props "HOL-Library.Multiset"
begin

text \<open>
  What the trace validator accepts. \<open>event_ok\<close> states the evidence contract without the order of the
  checks; the validator accepts exactly the events that meet it. The summary of a trace depends only
  on the multiset of its lines and its counts add up.
\<close>

section \<open>Secret-bearing names\<close>

fun field_names :: "json \<Rightarrow> pystr set" where
  "field_names (JObj ms) = (\<Union>m \<in> set ms. {fst m} \<union> field_names (snd m))"
| "field_names (JArr xs) = (\<Union>x \<in> set xs. field_names x)"
| "field_names j = {}"

lemma reject_secret_fields_iff:
  "reject_secret_fields te j = Inr x \<longleftrightarrow> (\<forall>k \<in> field_names j. \<not> forbidden_name te k)"
proof (induction j)
  case (JObj ms)
  have "(\<exists>y. (case m of (key, c) \<Rightarrow> bindE (raise_if (forbidden_name te key)
            (TraceValidationError ''event contains forbidden secret-bearing field.''))
            (\<lambda>_. reject_secret_fields te c)) = Inr y)
          \<longleftrightarrow> (\<forall>k \<in> {fst m} \<union> field_names (snd m). \<not> forbidden_name te k)" if "m \<in> set ms" for m
  proof (cases m)
    case (Pair key c)
    with JObj [of m c] that show ?thesis by (auto simp: bindE_eq_Inr snds.simps)
  qed
  then show ?case by (simp add: bindE_eq_Inr mapE_unit)
next
  case (JArr xs)
  then show ?case by (simp add: bindE_eq_Inr mapE_unit)
qed simp_all

section \<open>Contracts\<close>

definition names_of :: "object \<Rightarrow> string \<Rightarrow> json set" where
  "names_of c f = (case jget c (u f) of Some (JArr xs) \<Rightarrow> set xs | _ \<Rightarrow> {})"

lemma validate_contract_same: "validate_contract c = Inr c' \<Longrightarrow> c' = c"
  by (auto simp: validate_contract_def bindE_eq_Inr)

lemma contract_names:
  assumes "validate_contract c = Inr c'" "f \<in> set name_list_fields"
  obtains xs where "jget c (u f) = Some (JArr xs)" "names_of c f = set xs" "xs \<noteq> []" "list_all is_name xs"
proof -
  from assms have "unique_names (jget c (u f))"
    by (auto simp: validate_contract_def bindE_eq_Inr list_ex_iff)
  then show thesis using that
    by (auto simp: unique_names_def names_of_def split: option.splits json.splits)
qed

lemma require_listed_iff:
  assumes "validate_contract c = Inr c'" "f \<in> set name_list_fields"
  shows "require_listed c f v m = Inr x \<longleftrightarrow> v \<in> names_of c f"
proof -
  obtain xs where "jget c (u f) = Some (JArr xs)" "names_of c f = set xs"
    using contract_names [OF assms] by metis
  then show ?thesis by (simp add: require_listed_def item_def listed_def)
qed

definition algorithm_of :: "object \<Rightarrow> pystr \<Rightarrow> object option" where
  "algorithm_of c name = (case jget c (u ''algorithms'') of
     Some (JObj as) \<Rightarrow> (case jget as name of Some (JObj a) \<Rightarrow> Some a | _ \<Rightarrow> None) | _ \<Rightarrow> None)"

lemma contract_algorithms:
  assumes "validate_contract c = Inr c'"
  obtains as where "jget c (u ''algorithms'') = Some (JObj as)" "list_all valid_algorithm as"
  using assms that
  by (auto simp: validate_contract_def bindE_eq_Inr list_ex_iff list_all_iff split: option.splits json.splits)

lemma algorithm_contract_iff:
  assumes "validate_contract c = Inr c'"
  shows "algorithm_contract c j = Inr a \<longleftrightarrow> (\<exists>name. j = JStr name \<and> algorithm_of c name = Some a)"
proof -
  obtain as where "jget c (u ''algorithms'') = Some (JObj as)"
    using contract_algorithms [OF assms] by metis
  then show ?thesis
    by (auto simp: algorithm_contract_def algorithm_of_def item_def hashable_def split: json.splits option.splits)
qed

lemma algorithm_names:
  assumes "validate_contract c = Inr c'" "algorithm_of c name = Some a"
  obtains xs ys where "jget a (u ''lengths'') = Some (JArr xs)" "list_all positive_int xs"
    "jget a (u ''key_format_types'') = Some (JArr ys)" "list_all is_name ys"
proof -
  obtain as where as: "jget c (u ''algorithms'') = Some (JObj as)" "list_all valid_algorithm as"
    using contract_algorithms [OF assms(1)] by metis
  with assms(2) have "jget as name = Some (JObj a)"
    by (auto simp: algorithm_of_def split: option.splits json.splits)
  then have "(name, JObj a) \<in> set as" by (simp add: jget_def map_of_SomeD)
  with as(2) have "valid_algorithm (name, JObj a)" by (auto simp: list_all_iff)
  then show thesis using that
    by (auto simp: valid_algorithm_def valid_lengths_def unique_names_def split: option.splits json.splits)
qed

section \<open>Events\<close>

definition field :: "object \<Rightarrow> string \<Rightarrow> json" where
  "field ev f = (case jget ev (u f) of Some j \<Rightarrow> j | None \<Rightarrow> JNull)"

definition parameters_ok :: "object \<Rightarrow> json \<Rightarrow> json \<Rightarrow> json \<Rightarrow> json \<Rightarrow> bool" where
  "parameters_ok c operation algorithm key_length key_format_type \<longleftrightarrow>
     operation \<noteq> JStr (u ''Create'') \<and> algorithm = JNull \<and> key_length = JNull \<and> key_format_type = JNull
   \<or> (\<exists>name a. algorithm = JStr name \<and> algorithm_of c name = Some a
        \<and> key_length \<in> names_of a ''lengths'' \<and> key_format_type \<in> names_of a ''key_format_types'')"

definition attributes_ok :: "object \<Rightarrow> json \<Rightarrow> bool" where
  "attributes_ok c j \<longleftrightarrow> (\<exists>xs. j = JArr xs \<and> set xs \<subseteq> names_of c ''candidate_attributes'')"

definition event_ok :: "text_env \<Rightarrow> object \<Rightarrow> object \<Rightarrow> bool" where
  "event_ok te c ev \<longleftrightarrow>
     keys ev = set REQUIRED_FIELDS
   \<and> (\<forall>k \<in> field_names (JObj ev). \<not> forbidden_name te k)
   \<and> equals_int (field ev ''schema_version'') 1
   \<and> lower_hex64 (py_str te (field ev ''client_cert_sha256''))
   \<and> lower_hex64 (py_str te (field ev ''request_digest''))
   \<and> field ev ''protocol_version'' \<in> names_of c ''protocol_versions''
   \<and> field ev ''operation'' \<in> names_of c ''candidate_operations''
   \<and> field ev ''object_type'' \<in> insert JNull (names_of c ''objects'')
   \<and> parameters_ok c (field ev ''operation'') (field ev ''algorithm'') (field ev ''key_length'') (field ev ''key_format_type'')
   \<and> attributes_ok c (field ev ''attribute_names'')
   \<and> field ev ''result_status'' \<in> names_of c ''result_statuses''
   \<and> is_name (field ev ''timestamp'') \<and> is_name (field ev ''connection_id'') \<and> is_name (field ev ''provider_id'')
   \<and> field ev ''result_reason'' \<in> insert JNull (names_of c ''result_reasons'')"

lemma item_field:
  "keys ev = set REQUIRED_FIELDS \<Longrightarrow> u f \<in> set REQUIRED_FIELDS \<Longrightarrow> item ev f = Inr (field ev f)"
  by (auto simp: keys_def item_def field_def jget_def map_of_eq_None_iff split: option.splits)

lemma validate_key_shape_iff:
  assumes "validate_contract c = Inr c'" "algorithm_of c name = Some a"
  shows "validate_key_shape a len fmt = Inr x \<longleftrightarrow>
      len \<in> names_of a ''lengths'' \<and> fmt \<in> names_of a ''key_format_types''"
    and "JNull \<notin> names_of a ''lengths''" "JNull \<notin> names_of a ''key_format_types''"
proof -
  obtain xs ys where f: "jget a (u ''lengths'') = Some (JArr xs)" "list_all positive_int xs"
    "jget a (u ''key_format_types'') = Some (JArr ys)" "list_all is_name ys"
    by (rule algorithm_names [OF assms])
  then show "validate_key_shape a len fmt = Inr x \<longleftrightarrow>
      len \<in> names_of a ''lengths'' \<and> fmt \<in> names_of a ''key_format_types''"
    by (auto simp: validate_key_shape_def bindE_eq_Inr require_listed_def item_def listed_def names_of_def
        list_all_iff positive_int_def split: json.splits)
  from f show "JNull \<notin> names_of a ''lengths''" "JNull \<notin> names_of a ''key_format_types''"
    by (auto simp: names_of_def list_all_iff positive_int_def is_name_def)
qed

lemma validate_parameters_iff:
  assumes "validate_contract c = Inr c'"
  shows "validate_parameters c op alg len fmt = Inr x \<longleftrightarrow> parameters_ok c op alg len fmt"
proof (cases "alg = JNull")
  case True
  then show ?thesis by (auto simp: validate_parameters_def parameters_ok_def bindE_eq_Inr)
next
  case False
  show ?thesis
  proof (cases "algorithm_contract c alg")
    case (Inl ex)
    then have "algorithm_of c name \<noteq> Some a \<or> alg \<noteq> JStr name" for name a
      using algorithm_contract_iff [OF assms, of alg a] by auto
    with False Inl show ?thesis by (auto simp: validate_parameters_def parameters_ok_def bindE_eq_Inr)
  next
    case (Inr a)
    then obtain name where a: "alg = JStr name" "algorithm_of c name = Some a"
      using algorithm_contract_iff [OF assms] by auto
    note k = validate_key_shape_iff [OF assms a(2)]
    have "validate_parameters c op alg len fmt = Inr x \<longleftrightarrow>
        \<not> (op = JStr (u ''Create'') \<and> (len = JNull \<or> fmt = JNull)) \<and> validate_key_shape a len fmt = Inr x"
      using False Inr by (simp add: validate_parameters_def bindE_eq_Inr)
    also have "\<dots> \<longleftrightarrow> len \<in> names_of a ''lengths'' \<and> fmt \<in> names_of a ''key_format_types''"
      using k(2,3) by (simp only: k(1)) metis
    also have "\<dots> \<longleftrightarrow> parameters_ok c op alg len fmt"
      using a by (simp add: parameters_ok_def)
    finally show ?thesis .
  qed
qed

lemma listed_fields:
  "''candidate_attributes'' \<in> set name_list_fields" "''candidate_operations'' \<in> set name_list_fields"
  by (simp_all add: name_list_fields_def)

lemma validate_attributes_iff:
  assumes "validate_contract c = Inr c'"
  shows "validate_attributes c j = Inr x \<longleftrightarrow> attributes_ok c j"
proof -
  obtain ns where ns: "jget c (u ''candidate_attributes'') = Some (JArr ns)"
      "names_of c ''candidate_attributes'' = set ns" "list_all is_name ns"
    by (rule contract_names [OF assms listed_fields(1)])
  have strs: "list_all is_str xs" if "set xs \<subseteq> set ns" for xs
    using that ns(3) by (fastforce simp: list_all_iff is_name_def is_str_def split: json.splits)
  have "mapE (\<lambda>x. listed x (JArr ns)) xs = Inr (map (\<lambda>x. x \<in> set ns) xs)" for xs
    by (rule mapE_Inr_map) (simp add: listed_def)
  then show ?thesis using ns(1,2) strs
    by (cases j) (auto simp: validate_attributes_def attributes_ok_def bindE_eq_Inr item_def list_ex_iff)
qed

lemma required_items:
  assumes "keys ev = set REQUIRED_FIELDS"
  shows "item ev ''schema_version'' = Inr (field ev ''schema_version'')"
    "item ev ''timestamp'' = Inr (field ev ''timestamp'')"
    "item ev ''connection_id'' = Inr (field ev ''connection_id'')"
    "item ev ''client_cert_sha256'' = Inr (field ev ''client_cert_sha256'')"
    "item ev ''provider_id'' = Inr (field ev ''provider_id'')"
    "item ev ''protocol_version'' = Inr (field ev ''protocol_version'')"
    "item ev ''operation'' = Inr (field ev ''operation'')"
    "item ev ''object_type'' = Inr (field ev ''object_type'')"
    "item ev ''algorithm'' = Inr (field ev ''algorithm'')"
    "item ev ''key_length'' = Inr (field ev ''key_length'')"
    "item ev ''key_format_type'' = Inr (field ev ''key_format_type'')"
    "item ev ''attribute_names'' = Inr (field ev ''attribute_names'')"
    "item ev ''result_status'' = Inr (field ev ''result_status'')"
    "item ev ''result_reason'' = Inr (field ev ''result_reason'')"
    "item ev ''request_digest'' = Inr (field ev ''request_digest'')"
  by (rule item_field [OF assms], simp add: REQUIRED_FIELDS_def)+

lemma required_lists:
  assumes "validate_contract c = Inr c'"
  shows "require_listed c ''protocol_versions'' v m = Inr () \<longleftrightarrow> v \<in> names_of c ''protocol_versions''"
    "require_listed c ''objects'' v m = Inr () \<longleftrightarrow> v \<in> names_of c ''objects''"
    "require_listed c ''candidate_operations'' v m = Inr () \<longleftrightarrow> v \<in> names_of c ''candidate_operations''"
    "require_listed c ''result_statuses'' v m = Inr () \<longleftrightarrow> v \<in> names_of c ''result_statuses''"
    "require_listed c ''result_reasons'' v m = Inr () \<longleftrightarrow> v \<in> names_of c ''result_reasons''"
  by (rule require_listed_iff [OF assms], simp add: name_list_fields_def)+

lemma bindE_unit_Inr: "bindE m f = Inr y \<longleftrightarrow> m = Inr () \<and> f () = Inr y"
  by (cases m) simp_all

lemma optional_iff: "(if v = JNull then Inr () else r) = Inr () \<longleftrightarrow> v = JNull \<or> r = Inr ()"
  by simp

lemma units4:
  "bindE (mapE f [a, b, c, d]) (\<lambda>_. k) = Inr y \<longleftrightarrow> mapE f [a, b, c, d] = Inr [(), (), (), ()] \<and> k = Inr y"
  by (auto simp: bindE_unit_Inr bindE_eq_Inr)

lemma validate_event_iff:
  assumes "validate_contract c = Inr c'"
  shows "validate_event te c ev = Inr () \<longleftrightarrow> event_ok te c ev"
proof (cases "keys ev = set REQUIRED_FIELDS")
  case True
  have op: "is_name v" if "v \<in> names_of c ''candidate_operations''" for v
  proof -
    obtain xs where "names_of c ''candidate_operations'' = set xs" "list_all is_name xs"
      by (rule contract_names [OF assms listed_fields(2)])
    with that show ?thesis by (simp add: list_all_iff)
  qed
  have names: "mapE (\<lambda>f. bindE (item ev f) (\<lambda>v.
        raise_if (\<not> is_name v) (TraceValidationError (f @ '' must be a non-empty string.''))))
        [''timestamp'', ''connection_id'', ''provider_id'', ''operation''] = Inr [(), (), (), ()]
      \<longleftrightarrow> is_name (field ev ''timestamp'') \<and> is_name (field ev ''connection_id'')
        \<and> is_name (field ev ''provider_id'') \<and> is_name (field ev ''operation'')"
    by (simp only: mapE.simps required_items [OF True] bindE_simps) (auto simp: bindE_eq_Inr)
  show ?thesis
    using op
    by (simp only: validate_event_def event_ok_def required_items [OF True] bindE_simps bindE_unit_Inr
        units4 names required_lists [OF assms] optional_iff reject_secret_fields_iff require_sha256_def
        raise_if_eq_Inr TRACE_SCHEMA_VERSION_def True validate_parameters_iff [OF assms]
        validate_attributes_iff [OF assms] insert_iff subset_refl not_not simp_thms) blast
next
  case False
  then show ?thesis by (auto simp: validate_event_def event_ok_def bindE_eq_Inr)
qed

section \<open>Traces\<close>

text \<open>The event a line holds, if the line is accepted.\<close>

definition line_event :: "platform \<Rightarrow> text_env \<Rightarrow> object \<Rightarrow> pystr \<Rightarrow> object \<Rightarrow> bool" where
  "line_event e te c l ev \<longleftrightarrow> json_loads (float_parse e) l = Some (JObj ev) \<and> validate_event te c ev = Inr ()"

definition nonblank :: "pystr list \<Rightarrow> pystr list" where
  "nonblank ls = filter (\<lambda>l. strip l \<noteq> []) ls"

lemma read_events_iff:
  "read_events e te c ls = Inr evs \<longleftrightarrow> list_all2 (line_event e te c) (nonblank ls) evs"
proof (induction ls arbitrary: evs)
  case (Cons l ls)
  show ?case
  proof (cases "strip l = []")
    case False
    show ?thesis
    proof (cases "\<exists>ev. json_loads (float_parse e) l = Some (JObj ev)")
      case True
      then obtain ev where "json_loads (float_parse e) l = Some (JObj ev)" ..
      with False Cons show ?thesis
        by (auto simp: nonblank_def line_event_def bindE_eq_Inr list_all2_Cons1)
    next
      case no: False
      then have "\<exists>ex. read_events e te c (l # ls) = Inl ex"
        using False by (auto split: option.splits json.splits)
      with False no show ?thesis by (auto simp: nonblank_def line_event_def list_all2_Cons1)
    qed
  qed (use Cons in \<open>simp add: nonblank_def\<close>)
qed (auto simp: nonblank_def)

definition event_of :: "platform \<Rightarrow> pystr \<Rightarrow> object" where
  "event_of e l = (case json_loads (float_parse e) l of Some (JObj ev) \<Rightarrow> ev | _ \<Rightarrow> [])"

lemma line_event_of: "line_event e te c l ev \<Longrightarrow> ev = event_of e l"
  by (simp add: line_event_def event_of_def)

lemma read_events_map:
  "read_events e te c ls = Inr evs \<longleftrightarrow>
     (\<forall>l \<in> set (nonblank ls). line_event e te c l (event_of e l)) \<and> evs = map (event_of e) (nonblank ls)"
proof -
  define ok where "ok l = line_event e te c l (event_of e l)" for l
  have k: "line_event e te c = (\<lambda>l ev. ok l \<and> ev = event_of e l)"
    using line_event_of by (fastforce simp: ok_def fun_eq_iff)
  have "list_all2 (\<lambda>l ev. ok l \<and> ev = event_of e l) xs evs \<longleftrightarrow>
      (\<forall>l \<in> set xs. ok l) \<and> evs = map (event_of e) xs" for xs
    by (induction xs arbitrary: evs) (auto simp: list_all2_Cons1)
  then show ?thesis by (simp add: read_events_iff k ok_def [symmetric])
qed

lemma mset_nonblank: "mset ls = mset ls' \<Longrightarrow> mset (nonblank ls) = mset (nonblank ls')"
  by (simp add: nonblank_def mset_filter)

lemma read_events_perm:
  assumes "read_events e te c ls = Inr evs" "mset ls = mset ls'"
  shows "\<exists>evs'. read_events e te c ls' = Inr evs' \<and> mset evs' = mset evs"
  using assms mset_nonblank [OF assms(2)] mset_eq_setD [OF mset_nonblank [OF assms(2)]]
  by (auto simp: read_events_map)

subsection \<open>Counting\<close>

definition tally_step :: "(pystr \<times> nat) list \<Rightarrow> pystr \<Rightarrow> (pystr \<times> nat) list" where
  "tally_step d x = dict_set d x ((case map_of d x of None \<Rightarrow> 0 | Some n \<Rightarrow> n) + 1)"

lemma counter_snoc: "counter (xs @ [x]) = tally_step (counter xs) x"
  by (simp add: counter_def tally_step_def)

lemma counter_facts:
  "distinct (map fst (counter xs))" "fst ` set (counter xs) = set xs"
  "map_of (counter xs) k = (if k \<in> set xs then Some (count (mset xs) k) else None)"
proof -
  have "distinct (map fst (counter xs)) \<and> fst ` set (counter xs) = set xs
      \<and> (\<forall>k. map_of (counter xs) k = (if k \<in> set xs then Some (count (mset xs) k) else None))"
  proof (induction xs rule: rev_induct)
    case Nil
    then show ?case by (simp add: counter_def)
  next
    case (snoc x xs)
    then show ?case
      by (auto simp: counter_snoc tally_step_def dict_set_distinct dict_set_keys map_of_dict_set
          not_in_iff [symmetric])
  qed
  then show "distinct (map fst (counter xs))" "fst ` set (counter xs) = set xs"
    "map_of (counter xs) k = (if k \<in> set xs then Some (count (mset xs) k) else None)" by auto
qed

lemma set_counter: "set (counter xs) = (\<lambda>k. (k, count (mset xs) k)) ` set xs"
proof -
  have "(k, n) \<in> set (counter xs) \<longleftrightarrow> k \<in> set xs \<and> n = count (mset xs) k" for k n
    using map_of_eq_Some_iff [OF counter_facts(1), of xs k n] by (auto simp: counter_facts(3) split: if_splits)
  then show ?thesis by auto
qed

lemma sorted_counter_perm:
  assumes "mset xs = mset ys"
  shows "sort_key fst (counter xs) = sort_key fst (counter ys)"
proof (rule map_sorted_distinct_set_unique [where f = fst])
  have "set (counter xs) = set (counter ys)"
    using assms mset_eq_setD [OF assms] by (simp add: set_counter)
  then show "set (sort_key fst (counter xs)) = set (sort_key fst (counter ys))" by simp
  then show "inj_on fst (set (sort_key fst (counter xs)) \<union> set (sort_key fst (counter ys)))"
    using counter_facts(1) [of ys] by (simp add: distinct_map)
qed (simp_all add: distinct_sort_key counter_facts(1))

lemma counter_total: "sum_list (map snd (counter xs)) = length xs"
proof -
  have "sum_list (map snd (counter xs)) = sum_list (map (\<lambda>k. count (mset xs) k) (map fst (counter xs)))"
    using set_counter [of xs] by (intro arg_cong [where f = sum_list]) auto
  also have "\<dots> = (\<Sum>k \<in> set xs. count (mset xs) k)"
    using counter_facts(1,2) [of xs] by (simp add: sum_list_distinct_conv_sum_set image_image del: map_map)
  also have "\<dots> = length xs" by (metis set_mset_mset size_mset size_multiset_overloaded_eq)
  finally show ?thesis .
qed

lemma sum_list_sort_key: "sum_list (map f (sort_key g xs)) = sum_list (map (f :: _ \<Rightarrow> nat) xs)"
  by (metis mset_map mset_sort sum_mset_sum_list)

section \<open>Summaries\<close>

lemma text_items_map:
  "mapE (\<lambda>ev. text_item te ev f) evs = Inr (map (\<lambda>ev. py_str te (field ev f)) evs)"
  if "\<forall>ev \<in> set evs. keys ev = set REQUIRED_FIELDS" "u f \<in> set REQUIRED_FIELDS"
  by (rule mapE_Inr_map) (simp add: text_item_def item_field that)

definition summary_of :: "platform \<Rightarrow> text_env \<Rightarrow> object \<Rightarrow> bytes \<Rightarrow> object list \<Rightarrow> trace_summary" where
  "summary_of e te c b evs =
     \<lparr>ts_contract_id = py_str te (field c ''contract_id''), ts_contract_sha256 = hexlify (sha256 e b),
      ts_event_count = length evs,
      ts_operations = sort_key fst (counter (map (\<lambda>ev. py_str te (field ev ''operation'')) evs)),
      ts_protocol_versions = sort (remdups (map (\<lambda>ev. py_str te (field ev ''protocol_version'')) evs)),
      ts_providers = sort (remdups (map (\<lambda>ev. py_str te (field ev ''provider_id'')) evs)),
      ts_result_statuses = sort_key fst (counter (map (\<lambda>ev. py_str te (field ev ''result_status'')) evs))\<rparr>"

lemma contract_id_item: "validate_contract c = Inr c' \<Longrightarrow> item c ''contract_id'' = Inr (field c ''contract_id'')"
proof -
  assume "validate_contract c = Inr c'"
  then have "keys c = set CONTRACT_FIELDS" unfolding validate_contract_def by (simp only: bindE_unit_Inr raise_if_eq_Inr not_not)
  then have "u ''contract_id'' \<in> fst ` set c" by (simp add: CONTRACT_FIELDS_def keys_def)
  then show ?thesis by (auto simp: item_def field_def jget_def map_of_eq_None_iff split: option.splits)
qed

lemma summarize_eq:
  assumes "validate_contract c = Inr c'" "\<forall>ev \<in> set evs. keys ev = set REQUIRED_FIELDS"
  shows "summarize e te c b evs = Inr (summary_of e te c b evs)"
proof -
  have t: "mapE (\<lambda>ev. text_item te ev ''operation'') evs = Inr (map (\<lambda>ev. py_str te (field ev ''operation'')) evs)"
    "mapE (\<lambda>ev. text_item te ev ''result_status'') evs = Inr (map (\<lambda>ev. py_str te (field ev ''result_status'')) evs)"
    "mapE (\<lambda>ev. text_item te ev ''protocol_version'') evs = Inr (map (\<lambda>ev. py_str te (field ev ''protocol_version'')) evs)"
    "mapE (\<lambda>ev. text_item te ev ''provider_id'') evs = Inr (map (\<lambda>ev. py_str te (field ev ''provider_id'')) evs)"
    by (rule text_items_map [OF assms(2)], simp add: REQUIRED_FIELDS_def)+
  have "text_item te c ''contract_id'' = Inr (py_str te (field c ''contract_id''))"
    by (simp add: text_item_def contract_id_item [OF assms(1)])
  then show ?thesis by (simp only: summarize_def summary_of_def t bindE_simps)
qed

lemma sort_remdups_perm: "mset xs = mset ys \<Longrightarrow> sort (remdups xs) = sort (remdups (ys :: pystr list))"
  by (metis sorted_list_of_set_sort_remdups mset_eq_setD)

lemma summary_of_perm:
  assumes "mset evs = mset evs'"
  shows "summary_of e te c b evs = summary_of e te c b evs'"
proof -
  have m: "mset (map f evs) = mset (map f evs')" for f :: "object \<Rightarrow> pystr" using assms by simp
  show ?thesis
    using mset_eq_length [OF assms] sorted_counter_perm [OF m] sort_remdups_perm [OF m]
    by (simp add: summary_of_def)
qed

lemma event_keys: "validate_event te c ev = Inr () \<Longrightarrow> keys ev = set REQUIRED_FIELDS"
  by (auto simp: validate_event_def bindE_eq_Inr)

lemma validate_trace_iff:
  assumes c: "validate_contract c = Inr c" and b: "b \<noteq> []"
  shows "validate_trace e te cf ls (Some c) (Some b) = Inr s \<longleftrightarrow>
     nonblank ls \<noteq> [] \<and> (\<forall>l \<in> set (nonblank ls). line_event e te c l (event_of e l))
     \<and> s = summary_of e te c b (map (event_of e) (nonblank ls))"
proof -
  have "summarize e te c b evs = Inr (summary_of e te c b evs)"
    if "read_events e te c ls = Inr evs" for evs
    using that by (intro summarize_eq [OF c]) (auto simp: read_events_map line_event_def event_keys)
  then show ?thesis
    using c b by (auto simp: validate_trace_def bindE_eq_Inr read_events_map)
qed

section \<open>A sample trace\<close>

definition sample_text :: text_env where
  "sample_text = \<lparr>te_casefold = (\<lambda>c. [ascii_lower c]), te_isalnum = ascii_alnum, te_other_str = (\<lambda>j. u ''?'')\<rparr>"

definition sample_event :: object where
  "sample_event =
     [(u ''schema_version'', JInt 1), (u ''timestamp'', JStr (u ''2026-01-01T00:00:00Z'')),
      (u ''connection_id'', JStr (u ''c1'')), (u ''client_cert_sha256'', JStr (replicate 64 97)),
      (u ''provider_id'', JStr (u ''p1'')), (u ''protocol_version'', JStr (u ''1.4'')),
      (u ''operation'', JStr (u ''Create'')), (u ''object_type'', JStr (u ''Symmetric Key'')),
      (u ''algorithm'', JStr (u ''AES'')), (u ''key_length'', JInt 256), (u ''key_format_type'', JStr (u ''Raw'')),
      (u ''attribute_names'', JArr [JStr (u ''Name'')]), (u ''result_status'', JStr (u ''Success'')),
      (u ''result_reason'', JNull), (u ''request_digest'', JStr (replicate 64 48))]"

lemma strip_u: "strip (u (c # s)) = [] \<Longrightarrow> is_space (of_char c)"
  by (simp add: strip_eq_Nil u_def)

lemma is_name_u: "\<not> is_space (of_char c) \<Longrightarrow> is_name (JStr (u (c # s)))"
  using strip_u by (auto simp: is_name_def)

lemma vcf_9_1_valid: "validate_contract vcf_9_1 = Inr vcf_9_1"
proof -
  have k: "keys vcf_9_1 = set CONTRACT_FIELDS" by (simp add: keys_def vcf_9_1_def CONTRACT_FIELDS_def)
  have n: "unique_names (jget vcf_9_1 (u f))" if "f \<in> set name_list_fields" for f
    using that
    by (auto simp: name_list_fields_def vcf_9_1_def jget_def unique_names_def names_json_def is_name_u is_space_def)
  have a: "jget vcf_9_1 (u ''algorithms'') = Some (JObj [(u ''AES'',
      JObj [(u ''lengths'', JArr [JInt 256]), (u ''key_format_types'', names_json [''Raw''])])])"
    by (simp add: vcf_9_1_def jget_def)
  have v: "valid_algorithm (u ''AES'', JObj [(u ''lengths'', JArr [JInt 256]), (u ''key_format_types'', names_json [''Raw''])])"
    using is_name_u [of "CHR ''A''" "''ES''"] is_name_u [of "CHR ''R''" "''aw''"]
    by (auto simp: valid_algorithm_def keys_def jget_def valid_lengths_def positive_int_def unique_names_def
        names_json_def is_name_u is_space_def is_name_def)
  have "status_check (jget vcf_9_1 (u ''status'')) = Inr ()" "valid_transport (jget vcf_9_1 (u ''transport''))"
    "jget vcf_9_1 (u ''schema_version'') = Some (JInt 1)"
    by (simp_all add: vcf_9_1_def jget_def status_check_def hashable_def valid_transport_def equals_int_def)
  with k n a v show ?thesis
    by (simp add: validate_contract_def equals_int_def list_ex_iff)
qed

lemma required_not_forbidden:
  assumes "text_env_ok te" "k \<in> set REQUIRED_FIELDS"
  shows "\<not> forbidden_name te k"
proof -
  have "list_all (\<lambda>c. c < 128) k" using assms(2) by (auto simp: REQUIRED_FIELDS_def u_def)
  then have "normalized_field te k = filter ascii_alnum (map ascii_lower k)"
    using assms(1) by (auto simp: normalized_field_def casefold_ascii list_all_iff ascii_lower_def text_env_ok_def intro!: filter_cong)
  with assms(2) show ?thesis
    by (auto simp: REQUIRED_FIELDS_def forbidden_name_def FORBIDDEN_FIELD_FRAGMENTS_def u_def
        ascii_lower_def ascii_alnum_def sublist_code)
qed

lemma sample_text_ok: "text_env_ok sample_text"
  by (simp add: text_env_ok_def sample_text_def lower_hex64_def)

lemma vcf_9_1_names:
  "names_of vcf_9_1 ''protocol_versions'' = {JStr (u ''1.4'')}"
  "names_of vcf_9_1 ''objects'' = {JStr (u ''Symmetric Key'')}"
  "names_of vcf_9_1 ''candidate_operations'' = (\<lambda>s. JStr (u s)) ` {''Discover Versions'', ''Query'', ''Create'',
     ''Activate'', ''Get'', ''Get Attribute List'', ''Get Attributes'', ''Locate''}"
  "names_of vcf_9_1 ''candidate_attributes'' = (\<lambda>s. JStr (u s)) ` {''Activation Date'', ''Cryptographic Algorithm'',
     ''Cryptographic Length'', ''Cryptographic Usage Mask'', ''Name'', ''Object Type'', ''State'', ''Unique Identifier''}"
  "names_of vcf_9_1 ''result_statuses'' = {JStr (u ''Success''), JStr (u ''Operation Failed'')}"
  "names_of vcf_9_1 ''result_reasons'' = (\<lambda>s. JStr (u s)) ` {''Item Not Found'', ''Invalid Message'',
     ''Operation Not Supported'', ''Missing Data'', ''Invalid Field'', ''Key Format Type Not Supported'',
     ''Cryptographic Failure'', ''Permission Denied'', ''General Failure''}"
  by (simp_all add: names_of_def vcf_9_1_def jget_def names_json_def)

lemma vcf_9_1_algorithm:
  "algorithm_of vcf_9_1 name = (if name = u ''AES''
     then Some [(u ''lengths'', JArr [JInt 256]), (u ''key_format_types'', names_json [''Raw''])] else None)"
  by (simp add: algorithm_of_def vcf_9_1_def jget_def)

lemma vcf_9_1_parameters:
  "parameters_ok vcf_9_1 op alg len fmt \<longleftrightarrow>
     op \<noteq> JStr (u ''Create'') \<and> alg = JNull \<and> len = JNull \<and> fmt = JNull
   \<or> alg = JStr (u ''AES'') \<and> len = JInt 256 \<and> fmt = JStr (u ''Raw'')"
  by (auto simp: parameters_ok_def vcf_9_1_algorithm names_of_def jget_def names_json_def)

lemma sample_event_plain: "plain (JObj sample_event)"
proof -
  have "plain (JInt 1)" by (rule plain_small_int) (simp add: decimal_bound_large)
  moreover have "list_all is_scalar (replicate 64 97)" "list_all is_scalar (replicate 64 48)"
    by (simp_all add: list_all_length is_scalar_def is_surrogate_def)
  ultimately show ?thesis by (simp add: sample_event_def del: plain.simps(3))
qed

lemma hex64_replicate: "lower_hex64 (replicate 64 97)" "lower_hex64 (replicate 64 48)"
  by (simp_all add: lower_hex64_def list_all_iff u_def)

lemma sample_event_ok: "event_ok sample_text vcf_9_1 sample_event"
proof -
  have k: "keys sample_event = set REQUIRED_FIELDS" by (simp add: sample_event_def keys_def REQUIRED_FIELDS_def)
  have n: "field_names (JObj sample_event) = set REQUIRED_FIELDS"
    by (auto simp: sample_event_def REQUIRED_FIELDS_def)
  have t: "is_name (JStr (u ''2026-01-01T00:00:00Z''))" "is_name (JStr (u ''c1''))" "is_name (JStr (u ''p1''))"
    by (rule is_name_u, simp add: is_space_def)+
  show ?thesis
    unfolding event_ok_def using k t
    by (simp only: n simp_thms)
      (simp add: required_not_forbidden [OF sample_text_ok] sample_event_def field_def jget_def equals_int_def
        py_str_def hex64_replicate vcf_9_1_names vcf_9_1_parameters attributes_ok_def)
qed

lemma render_obj_head: "\<exists>r. render fr (JObj ms) = 123 # r"
  by simp

lemma sample_line:
  "line_event e sample_text vcf_9_1 (render fr (JObj sample_event)) (event_of e (render fr (JObj sample_event)))"
  "strip (render fr (JObj sample_event)) \<noteq> []"
proof -
  show "line_event e sample_text vcf_9_1 (render fr (JObj sample_event)) (event_of e (render fr (JObj sample_event)))"
    by (simp del: render.simps add: line_event_def event_of_def json_loads_render [OF sample_event_plain]
        validate_event_iff [OF vcf_9_1_valid] sample_event_ok)
  obtain r where "render fr (JObj sample_event) = 123 # r" using render_obj_head by blast
  then show "strip (render fr (JObj sample_event)) \<noteq> []" by (simp add: strip_eq_Nil is_space_def)
qed

lemma sample_trace:
  "\<exists>s. validate_trace e sample_text cf [render fr (JObj sample_event)] (Some vcf_9_1) (Some [1]) = Inr s"
  using sample_line by (simp add: validate_trace_iff [OF vcf_9_1_valid] nonblank_def del: render.simps)

section \<open>Properties\<close>

text \<open>
  C34: the trace validator enforces exactly the evidence contract. For a valid contract a trace is
  accepted if and only if it has at least one non-blank line and every non-blank line is a JSON
  object that meets \<open>event_ok\<close>: exactly the required fields, no secret-bearing field name at any
  depth, digests of 64 lowercase hexadecimal digits, and every other field drawn from the
  contract's allowlists.
\<close>

theorem trace_accepted_iff:
  assumes "validate_contract c = Inr c" "b \<noteq> []"
  shows "(\<exists>s. validate_trace e te cf ls (Some c) (Some b) = Inr s) \<longleftrightarrow>
    nonblank ls \<noteq> [] \<and>
    (\<forall>l \<in> set (nonblank ls). \<exists>ev. json_loads (float_parse e) l = Some (JObj ev) \<and> event_ok te c ev)"
proof -
  have "line_event e te c l (event_of e l) \<longleftrightarrow>
      (\<exists>ev. json_loads (float_parse e) l = Some (JObj ev) \<and> event_ok te c ev)" for l
    by (auto simp: line_event_def event_of_def validate_event_iff [OF assms(1)])
  then show ?thesis by (simp add: validate_trace_iff [OF assms])
qed

theorem trace_accepted_iff_witness:
  "\<exists>ev. json_loads (float_parse sample_platform) (render (float_repr sample_platform) (JObj sample_event)) = Some (JObj ev)
     \<and> event_ok sample_text vcf_9_1 ev"
  using trace_accepted_iff [OF vcf_9_1_valid, of "[1]" sample_platform sample_text "[]"
      "[render (float_repr sample_platform) (JObj sample_event)]"] sample_trace
    sample_line(2) [of "float_repr sample_platform"]
  by (simp add: nonblank_def del: render.simps)

text \<open>
  the summary is deterministic evidence: it does not depend on the order of the trace's lines
  nor on blank lines, it counts every non-blank line once, and its counts by operation and by
  result status both add up to the number of events.
\<close>

theorem trace_summary_order_free:
  assumes "validate_contract c = Inr c" "b \<noteq> []"
    and "validate_trace e te cf ls (Some c) (Some b) = Inr s"
    and "mset (nonblank ls) = mset (nonblank ls')"
  shows "validate_trace e te cf ls' (Some c) (Some b) = Inr s
    \<and> ts_event_count s = length (nonblank ls)
    \<and> sum_list (map snd (ts_operations s)) = ts_event_count s
    \<and> sum_list (map snd (ts_result_statuses s)) = ts_event_count s"
proof (intro conjI)
  note v = assms(3) [unfolded validate_trace_iff [OF assms(1,2)]]
  have "mset (map (event_of e) (nonblank ls')) = mset (map (event_of e) (nonblank ls))"
    using assms(4) by simp
  from summary_of_perm [OF this] v show "validate_trace e te cf ls' (Some c) (Some b) = Inr s"
    using mset_eq_setD [OF assms(4)] mset_eq_length [OF assms(4)]
    by (auto simp: validate_trace_iff [OF assms(1,2)])
  show "ts_event_count s = length (nonblank ls)" using v by (simp add: summary_of_def)
  show "sum_list (map snd (ts_operations s)) = ts_event_count s"
    and "sum_list (map snd (ts_result_statuses s)) = ts_event_count s"
    using v by (simp_all add: summary_of_def sum_list_sort_key counter_total)
qed

theorem trace_summary_order_free_witness:
  "\<exists>s. validate_trace sample_platform sample_text [] [[10], render (float_repr sample_platform) (JObj sample_event)]
        (Some vcf_9_1) (Some [1]) = Inr s \<and> ts_event_count s = 1"
proof -
  let ?l = "render (float_repr sample_platform) (JObj sample_event)"
  have n: "nonblank [?l] = [?l]" "nonblank [[10], ?l] = [?l]"
    using sample_line(2) [of "float_repr sample_platform"]
    by (simp_all add: nonblank_def strip_eq_Nil is_space_def del: render.simps)
  obtain s where s: "validate_trace sample_platform sample_text [] [?l] (Some vcf_9_1) (Some [1]) = Inr s"
    using sample_trace by blast
  have "validate_trace sample_platform sample_text [] [[10], ?l] (Some vcf_9_1) (Some [1]) = Inr s"
    "ts_event_count s = length (nonblank [?l])"
    using trace_summary_order_free [OF vcf_9_1_valid _ s, of "[[10], ?l]"] n by simp_all
  with n show ?thesis by auto
qed

end
