(* ===== verification/Kmip_Server_Props.thy ===== *)
theory Kmip_Server_Props
  imports Kmip_Server Kmip_Protocol_Props Kmip_Trace_Props
begin

text \<open>
  Properties of the server: what an accepted configuration guarantees, that a connection's outcome
  depends only on the bytes received and not on how they arrive in chunks, that a client certificate
  confines a connection to its provider, and that the connection limit holds.
\<close>

section \<open>Reading fields\<close>

lemma mapE_mem: "mapE f xs = Inr ys \<Longrightarrow> y \<in> set ys \<Longrightarrow> \<exists>x \<in> set xs. f x = Inr y"
  by (induction xs arbitrary: ys) (auto simp: bindE_eq_Inr)

lemma json_case_Inr:
  "(case j of JStr s \<Rightarrow> f s | _ \<Rightarrow> Inl e) = Inr y \<longleftrightarrow> (\<exists>s. j = JStr s \<and> f s = Inr y)"
  "(case j of JArr xs \<Rightarrow> g xs | _ \<Rightarrow> Inl e) = Inr y \<longleftrightarrow> (\<exists>xs. j = JArr xs \<and> g xs = Inr y)"
  "(case j of JObj ms \<Rightarrow> h ms | _ \<Rightarrow> Inl e) = Inr y \<longleftrightarrow> (\<exists>ms. j = JObj ms \<and> h ms = Inr y)"
  "(case j of JInt i \<Rightarrow> k i | _ \<Rightarrow> Inl e) = Inr y \<longleftrightarrow> (\<exists>i. j = JInt i \<and> k i = Inr y)"
  "(case j of JBool b \<Rightarrow> l b | _ \<Rightarrow> Inl e) = Inr y \<longleftrightarrow> (\<exists>b. j = JBool b \<and> l b = Inr y)"
  by (cases j; auto)+

lemma option_case_Inr:
  "(case m of None \<Rightarrow> Inl e | Some x \<Rightarrow> f x) = Inr y \<longleftrightarrow> (\<exists>x. m = Some x \<and> f x = Inr y)"
  by (cases m) auto

section \<open>Configurations\<close>

definition provider_ok :: "server_env \<Rightarrow> provider \<Rightarrow> bool" where
  "provider_ok v p \<longleftrightarrow>
     canonical_uuid (provider_id p)
   \<and> 1 \<le> length (provider_name p) \<and> length (provider_name p) \<le> 120
   \<and> client_fingerprints p \<noteq> [] \<and> sorted (client_fingerprints p)
   \<and> (\<forall>f \<in> set (client_fingerprints p). lower_hex64 f)"

definition absolute :: "pystr \<Rightarrow> bool" where
  "absolute s \<longleftrightarrow> s \<noteq> [] \<and> hd s = 47"

definition config_ok :: "server_env \<Rightarrow> service_config \<Rightarrow> bool" where
  "config_ok v config \<longleftrightarrow>
     1 \<le> length (listen_addresses config) \<and> length (listen_addresses config) \<le> 32
   \<and> distinct (listen_addresses config) \<and> (\<forall>s \<in> set (listen_addresses config). \<exists>a. s = address_str a)
   \<and> 1 \<le> cfg_port config \<and> cfg_port config \<le> 65535
   \<and> 1024 \<le> max_request_bytes (cfg_limits config) \<and> max_request_bytes (cfg_limits config) \<le> 1048576
   \<and> 1 \<le> max_connections (cfg_limits config) \<and> max_connections (cfg_limits config) \<le> 256
   \<and> 1 \<le> idle_timeout_seconds (cfg_limits config) \<and> idle_timeout_seconds (cfg_limits config) \<le> 300
   \<and> 1 \<le> max_requests_per_connection (cfg_limits config) \<and> max_requests_per_connection (cfg_limits config) \<le> 1024
   \<and> (cfg_enabled config \<longrightarrow> cfg_providers config \<noteq> [])
   \<and> (\<forall>p \<in> set (cfg_providers config). provider_ok v p)
   \<and> distinct (map provider_id (cfg_providers config))
   \<and> distinct (concat (map client_fingerprints (cfg_providers config)))
   \<and> list_all absolute [certificate_path config, private_key_path config, ca_path config, database_path config, kek_path config]
   \<and> (\<forall>p. interop_trace_path config = Some p \<longrightarrow> absolute p)"

lemma fingerprint_hex: "fingerprint v j = Inr f \<Longrightarrow> lower_hex64 f"
  by (auto simp: fingerprint_def bindE_eq_Inr Let_def split: json.splits)

lemma hexlify_hex64: "length b = 32 \<Longrightarrow> lower_hex64 (hexlify b)"
proof -
  assume "length b = 32"
  then have "length (hexlify b) = 64" by simp
  moreover have "c \<in> set (u ''0123456789abcdef'')" if "c \<in> set (hexlify b)" for c
  proof -
    have "c \<in> {48, 49, 50, 51, 52, 53, 54, 55, 56, 57, 97, 98, 99, 100, 101, 102}"
      using hexlify_lower [OF that] unfolding lower_hex_def insert_iff empty_iff by presburger
    then show ?thesis by (simp add: u_def)
  qed
  ultimately show ?thesis by (auto simp: lower_hex64_def list_all_iff)
qed

lemma certificate_hex:
  "platform_ok (sv_platform v) \<Longrightarrow> certificate_sha256 v path = Inr f \<Longrightarrow> lower_hex64 f"
  by (auto simp: certificate_sha256_def platform_ok_def hexlify_hex64 split: option.splits)

lemma absolute_pathD: "absolute_path j label = Inr p \<Longrightarrow> absolute p"
  by (auto simp: absolute_path_def absolute_def bindE_eq_Inr strip_eq_Nil split: json.splits)

lemma provider_fingerprints_hex:
  assumes "platform_ok (sv_platform v)" "provider_fingerprints v j k = Inr fs" "f \<in> set fs"
  shows "lower_hex64 f"
proof -
  obtain xs ps given certs where fs: "fs = given @ certs" and g: "mapE (fingerprint v) xs = Inr given"
    and c: "mapE (\<lambda>p. bindE (absolute_path p ''KMIP client certificate path'') (certificate_sha256 v)) ps = Inr certs"
    using assms(2) by (auto simp: provider_fingerprints_def bindE_eq_Inr split: json.splits)
  from g have "lower_hex64 f" if "f \<in> set given"
    using mapE_mem [OF g that] fingerprint_hex by blast
  moreover from c have "lower_hex64 f" if "f \<in> set certs"
    using mapE_mem [OF c that] certificate_hex [OF assms(1)] by (auto simp: bindE_eq_Inr)
  ultimately show ?thesis using assms(3) fs by auto
qed

lemma parse_provider_ok:
  assumes "platform_ok (sv_platform v)" "parse_provider v j = Inr p"
  shows "provider_ok v p"
proof -
  obtain ob raw b cf cp name fs where
      "uuid_of_str (ascii_fold (sv_platform v)) raw = Some b"
    and "provider_fingerprints v cf cp = Inr fs" "fs \<noteq> []" "name \<noteq> []" "length name \<le> 120"
    and "p = \<lparr>provider_id = uuid_str b, provider_name = name, client_fingerprints = sort fs\<rparr>"
    using assms(2)
    by (auto simp: parse_provider_def bindE_eq_Inr not_less json_case_Inr option_case_Inr)
  moreover from this have "sort fs \<noteq> []" by (metis length_0_conv length_sort)
  ultimately show ?thesis
    using provider_fingerprints_hex [OF assms(1)]
    by (auto simp: provider_ok_def canonical_uuid_def Suc_le_eq dest: uuid_of_str_length)
qed

lemma parse_limits_bounds:
  assumes "parse_limits ob = Inr l"
  shows "1024 \<le> max_request_bytes l" "max_request_bytes l \<le> 1048576"
    "1 \<le> max_connections l" "max_connections l \<le> 256"
    "1 \<le> idle_timeout_seconds l" "idle_timeout_seconds l \<le> 300"
    "1 \<le> max_requests_per_connection l" "max_requests_per_connection l \<le> 1024"
  using assms by (auto simp: parse_limits_def bindE_eq_Inr MAX_MESSAGE_BYTES_def)

lemma parse_addresses_ok:
  assumes "parse_addresses j = Inr as"
  shows "1 \<le> length as" "length as \<le> 32" "distinct as" "\<forall>s \<in> set as. \<exists>a. s = address_str a"
proof -
  obtain xs where xs: "xs \<noteq> []" "length xs \<le> 32" "mapE listen_address xs = Inr as" "distinct as"
    using assms by (auto simp: parse_addresses_def bindE_eq_Inr not_less split: json.splits)
  have "\<exists>a. s = address_str a" if "listen_address j = Inr s" for j s
    using that by (auto simp: listen_address_def split: json.splits option.splits)
  with mapE_mem [OF xs(3)] show "\<forall>s \<in> set as. \<exists>a. s = address_str a" by blast
  show "1 \<le> length as" "length as \<le> 32" "distinct as"
    using xs mapE_length [OF xs(3)] by (auto simp: Suc_le_eq)
qed

lemma parse_providers_ok:
  assumes "platform_ok (sv_platform v)" "parse_providers v enabled j = Inr ps"
  shows "enabled \<longrightarrow> ps \<noteq> []" "\<forall>p \<in> set ps. provider_ok v p" "distinct (map provider_id ps)"
    "distinct (concat (map client_fingerprints ps))"
proof -
  obtain xs where xs: "enabled \<longrightarrow> xs \<noteq> []" "mapE (parse_provider v) xs = Inr ps"
    "distinct (map provider_id ps)" "distinct (concat (map client_fingerprints ps))"
    using assms(2) by (auto simp: parse_providers_def bindE_eq_Inr split: json.splits)
  then show "distinct (map provider_id ps)" "distinct (concat (map client_fingerprints ps))" by simp_all
  show "enabled \<longrightarrow> ps \<noteq> []" using xs(1) mapE_length [OF xs(2)] by auto
  show "\<forall>p \<in> set ps. provider_ok v p"
    using mapE_mem [OF xs(2)] parse_provider_ok [OF assms(1)] by blast
qed

lemma fingerprint_providers_exact:
  assumes "distinct (concat (map client_fingerprints (cfg_providers config)))"
  shows "map_of (fingerprint_providers config) f = Some i \<longleftrightarrow>
    (\<exists>p \<in> set (cfg_providers config). f \<in> set (client_fingerprints p) \<and> i = provider_id p)"
proof -
  let ?ps = "concat (map (\<lambda>p. map (\<lambda>f. (f, provider_id p)) (client_fingerprints p)) (cfg_providers config))"
  have m: "map fst ?ps = concat (map client_fingerprints (cfg_providers config))"
    by (simp add: map_concat comp_def)
  with assms have "map_of (fingerprint_providers config) f = Some i \<longleftrightarrow> (f, i) \<in> set ?ps"
    by (simp add: fingerprint_providers_def dict_of_distinct)
  then show ?thesis by auto
qed

lemma parse_config_ok:
  assumes "platform_ok (sv_platform v)" "parse_config v doc = Inr config"
  shows "config_ok v config"
proof -
  obtain enabled j1 addresses port limits_ob limits j2 providers cert pkey ca dbp kekp trace where
      a: "parse_addresses j1 = Inr addresses" and port: "1 \<le> port" "port \<le> 65535"
    and l: "parse_limits limits_ob = Inr limits" and p: "parse_providers v enabled j2 = Inr providers"
    and paths: "absolute cert" "absolute pkey" "absolute ca" "absolute dbp" "absolute kekp"
    and t: "\<forall>q. trace = Some q \<longrightarrow> absolute q"
    and c: "config = \<lparr>cfg_enabled = enabled, listen_addresses = addresses, cfg_port = port, certificate_path = cert,
            private_key_path = pkey, ca_path = ca, database_path = dbp, kek_path = kekp,
            cfg_limits = limits, cfg_providers = providers, interop_trace_path = trace\<rparr>"
    using assms(2)
    by (auto simp: parse_config_def bindE_eq_Inr json_case_Inr path_item_def split: if_splits
        dest!: absolute_pathD)
  show ?thesis
    using parse_addresses_ok [OF a] parse_limits_bounds [OF l] parse_providers_ok [OF assms(1) p] port paths t
    by (simp add: config_ok_def c)
qed

section \<open>Chunks do not matter\<close>

text \<open>The bytes still to be received when no \<open>recv\<close> fails and no chunk is empty.\<close>

fun clean :: "recv_event list \<Rightarrow> bool" where
  "clean [] = True"
| "clean (Chunk b # es) = (b \<noteq> [] \<and> clean es)"
| "clean (RecvFails # es) = False"

fun stream_of :: "recv_event list \<Rightarrow> bytes" where
  "stream_of [] = []"
| "stream_of (Chunk b # es) = b @ stream_of es"
| "stream_of (RecvFails # es) = stream_of es"

definition same_bytes :: "connection \<Rightarrow> connection \<Rightarrow> bool" where
  "same_bytes c c' \<longleftrightarrow> clean (cn_input c) \<and> clean (cn_input c') \<and> stream_of (cn_input c) = stream_of (cn_input c')
     \<and> cn_sent c = cn_sent c' \<and> cn_trace c = cn_trace c' \<and> cn_store c = cn_store c'"

definition chunk_free :: "'a conn_prog \<Rightarrow> bool" where
  "chunk_free m \<longleftrightarrow> (\<forall>c c'. same_bytes c c' \<longrightarrow>
     fst (m c) = fst (m c') \<and> same_bytes (snd (m c)) (snd (m c')))"

named_theorems chunk_free_intros \<open>programs whose outcome does not depend on chunks\<close>

lemma chunk_freeD:
  assumes "chunk_free m" "same_bytes c c'" "m c = (r, d)"
  obtains d' where "m c' = (r, d')" "same_bytes d d'"
  using assms unfolding chunk_free_def by (metis prod.collapse fst_conv snd_conv)

lemma chunk_free_basic [chunk_free_intros]:
  "chunk_free (returnS x)" "chunk_free (raiseS e)" "chunk_free (liftS r)"
  by (simp_all add: chunk_free_def prog_defs)

lemma chunk_free_bindS [chunk_free_intros]:
  assumes "chunk_free m" "\<And>x. chunk_free (f x)"
  shows "chunk_free (bindS m f)"
  unfolding chunk_free_def
proof (intro allI impI)
  fix c c' assume cc: "same_bytes c c'"
  obtain r d where m: "m c = (r, d)" by (cases "m c")
  obtain d' where m': "m c' = (r, d')" "same_bytes d d'" by (rule chunk_freeD [OF assms(1) cc m])
  show "fst (bindS m f c) = fst (bindS m f c') \<and> same_bytes (snd (bindS m f c)) (snd (bindS m f c'))"
    using m m' assms(2) by (cases r) (simp_all add: bindS_def chunk_free_def)
qed

lemma chunk_free_if [chunk_free_intros]: "chunk_free m \<Longrightarrow> chunk_free n \<Longrightarrow> chunk_free (if b then m else n)"
  by simp

lemma chunk_free_on_store [chunk_free_intros]: "chunk_free (on_store m)"
  by (auto simp: chunk_free_def on_store_def same_bytes_def split: prod.splits)

lemma chunk_free_output [chunk_free_intros]:
  "chunk_free (modifyS (cn_sent_update f))" "chunk_free (modifyS (cn_trace_update g))"
  by (auto simp: chunk_free_def modifyS_def same_bytes_def)

subsection \<open>Receiving\<close>

lemma recv_clean:
  assumes "clean (cn_input c)" "0 < n" "recv n c = (r, c')"
  obtains b where "r = Inr b" "clean (cn_input c')" "stream_of (cn_input c) = b @ stream_of (cn_input c')"
    "length b \<le> n" "b = [] \<longleftrightarrow> stream_of (cn_input c) = []" "c' = c\<lparr>cn_input := cn_input c'\<rparr>"
proof (cases "cn_input c" rule: clean.cases)
  case 1
  with assms that show thesis by (auto simp: recv_def)
next
  case (2 b es)
  with assms that [of "take n b"] show thesis by (auto simp: recv_def)
next
  case (3 es)
  with assms show thesis by simp
qed

text \<open>What \<open>_receive_exact\<close> returns and leaves of the byte stream.\<close>

definition received :: "nat \<Rightarrow> bytes \<Rightarrow> bytes \<Rightarrow> (exn + bytes) \<times> bytes" where
  "received n got bs =
     (if n \<le> length got then (Inr got, bs)
      else if n \<le> length got + length bs then (Inr (got @ take (n - length got) bs), drop (n - length got) bs)
      else if got = [] \<and> bs = [] then (Inr [], []) else (Inl (TtlvError ConnectionClosed), []))"

lemma receive_more_stream:
  assumes "clean (cn_input c)"
  shows "\<exists>es. receive_more n got c = (fst (received n got (stream_of (cn_input c))), c\<lparr>cn_input := es\<rparr>)
    \<and> clean es \<and> stream_of es = snd (received n got (stream_of (cn_input c)))"
  using assms
proof (induction n got c rule: receive_more.induct)
  case (1 n got c)
  show ?case
  proof (cases "n \<le> length got")
    case True
    then show ?thesis using 1(2) by (auto simp: receive_more.simps received_def intro!: exI [of _ "cn_input c"])
  next
    case False
    obtain r c' where rc: "recv (n - length got) c = (r, c')" by (cases "recv (n - length got) c")
    have pos: "0 < n - length got" using False by simp
    obtain b where b: "r = Inr b" "clean (cn_input c')" "stream_of (cn_input c) = b @ stream_of (cn_input c')"
      "length b \<le> n - length got" "b = [] \<longleftrightarrow> stream_of (cn_input c) = []" "c' = c\<lparr>cn_input := cn_input c'\<rparr>"
      by (rule recv_clean [OF 1(2) pos rc])
    show ?thesis
    proof (cases "b = []")
      case True
      with b(3,5) have s: "stream_of (cn_input c) = []" "stream_of (cn_input c') = []" by simp_all
      have "receive_more n got c = (if got = [] then Inr [] else Inl (TtlvError ConnectionClosed), c')"
        using False rc True b(1) by (simp add: receive_more.simps [of n got c])
      then show ?thesis using False b(2) s b(6) [symmetric]
        by (auto simp: received_def intro!: exI [of _ "cn_input c'"])
    next
      case nb: False
      have eq: "receive_more n got c = receive_more n (got @ b) c'"
        using False rc b(1) nb by (simp add: receive_more.simps [of n got c])
      obtain es where es: "receive_more n (got @ b) c' =
          (fst (received n (got @ b) (stream_of (cn_input c'))), c'\<lparr>cn_input := es\<rparr>)"
        "clean es" "stream_of es = snd (received n (got @ b) (stream_of (cn_input c')))"
        using 1(1) [OF False rc [symmetric] b(1) nb b(2)] by blast
      have "received n (got @ b) (stream_of (cn_input c')) = received n got (stream_of (cn_input c))"
        using False b(3,4) nb by (auto simp: received_def)
      moreover have "c'\<lparr>cn_input := es\<rparr> = c\<lparr>cn_input := es\<rparr>" by (subst b(6)) simp
      ultimately show ?thesis using es eq by auto
    qed
  qed
qed

lemma chunk_free_receive_exact [chunk_free_intros]: "chunk_free (receive_exact n)"
  unfolding chunk_free_def
proof (intro allI impI)
  fix c c' assume a: "same_bytes c c'"
  then obtain es es' where
    "receive_exact n c = (fst (received n [] (stream_of (cn_input c))), c\<lparr>cn_input := es\<rparr>)"
    "clean es" "stream_of es = snd (received n [] (stream_of (cn_input c)))"
    "receive_exact n c' = (fst (received n [] (stream_of (cn_input c'))), c'\<lparr>cn_input := es'\<rparr>)"
    "clean es'" "stream_of es' = snd (received n [] (stream_of (cn_input c')))"
    unfolding receive_exact_def same_bytes_def
    using receive_more_stream [of c n "[]"] receive_more_stream [of c' n "[]"] by metis
  with a show "fst (receive_exact n c) = fst (receive_exact n c')
      \<and> same_bytes (snd (receive_exact n c)) (snd (receive_exact n c'))"
    by (simp add: same_bytes_def)
qed

lemma chunk_free_serve_one: "chunk_free (serve_one v config cid cert pid i)"
  unfolding serve_one_def record_request_def sendall_def
  by (intro chunk_free_intros)

lemma chunk_free_serve: "chunk_free (serve v config cid cert pid i k)"
proof (induction k arbitrary: i)
  case 0
  then show ?case by (simp add: chunk_free_def)
next
  case (Suc k)
  show ?case
    unfolding chunk_free_def
  proof (intro allI impI)
    fix c c' assume cc: "same_bytes c c'"
    obtain r d where m: "serve_one v config cid cert pid i c = (r, d)"
      by (cases "serve_one v config cid cert pid i c")
    obtain d' where m': "serve_one v config cid cert pid i c' = (r, d')" "same_bytes d d'"
      by (rule chunk_freeD [OF chunk_free_serve_one cc m])
    show "fst (serve v config cid cert pid i (Suc k) c) = fst (serve v config cid cert pid i (Suc k) c')
        \<and> same_bytes (snd (serve v config cid cert pid i (Suc k) c)) (snd (serve v config cid cert pid i (Suc k) c'))"
      using m m' Suc [of "Suc i"] by (auto simp: chunk_free_def split: sum.splits bool.splits)
  qed
qed

lemma chunk_free_handle: "chunk_free (handle v config peer)"
  unfolding handle_def Let_def
  by (auto intro!: chunk_free_intros chunk_free_serve split: option.splits)

section \<open>Confinement to the provider of the certificate\<close>

text \<open>
  A message discloses only keys that are active in the provider's namespace, and a run is
  \<open>confined\<close> when it keeps the store consistent, changes and loses nothing outside the provider's
  namespace and sends only such messages.
\<close>

definition discloses :: "vault \<Rightarrow> pystr option \<Rightarrow> bytes \<Rightarrow> bool" where
  "discloses V ns b \<longleftrightarrow> (\<exists>resp. encode resp = Inr b \<and> (\<forall>key \<in> set (byte_strings resp). active_key V ns key))"

definition confined :: "platform \<Rightarrow> pystr \<Rightarrow> connection \<Rightarrow> connection \<Rightarrow> bool" where
  "confined e p c c' \<longleftrightarrow> (\<forall>d. platform_ok e \<longrightarrow> consistent e d (cn_store c) \<longrightarrow>
     (\<exists>d' extra. consistent e d' (cn_store c') \<and> same_keys (cn_store c) (cn_store c')
        \<and> evolves (namespace_of e p) (view e (self_kek (cn_store c)) d) (view e (self_kek (cn_store c)) d')
        \<and> cn_sent c' = cn_sent c @ extra
        \<and> (\<forall>b \<in> set extra. discloses (view e (self_kek (cn_store c)) d') (namespace_of e p) b)))"

lemma discloses_kept: "discloses V ns b \<Longrightarrow> evolves ns V V' \<Longrightarrow> discloses V' ns b"
  unfolding discloses_def using active_key_kept by blast

lemma confinedI:
  assumes "\<And>d. platform_ok e \<Longrightarrow> consistent e d (cn_store c) \<Longrightarrow> \<exists>d'. consistent e d' (cn_store c')
      \<and> same_keys (cn_store c) (cn_store c')
      \<and> evolves (namespace_of e p) (view e (self_kek (cn_store c)) d) (view e (self_kek (cn_store c)) d')"
    and "cn_sent c' = cn_sent c"
  shows "confined e p c c'"
  unfolding confined_def
proof (intro allI impI)
  fix d assume "platform_ok e" "consistent e d (cn_store c)"
  then obtain d' where "consistent e d' (cn_store c')" "same_keys (cn_store c) (cn_store c')"
    "evolves (namespace_of e p) (view e (self_kek (cn_store c)) d) (view e (self_kek (cn_store c)) d')"
    using assms(1) by blast
  with assms(2) show "\<exists>d' extra. consistent e d' (cn_store c') \<and> same_keys (cn_store c) (cn_store c')
      \<and> evolves (namespace_of e p) (view e (self_kek (cn_store c)) d) (view e (self_kek (cn_store c)) d')
      \<and> cn_sent c' = cn_sent c @ extra
      \<and> (\<forall>b \<in> set extra. discloses (view e (self_kek (cn_store c)) d') (namespace_of e p) b)"
    by (intro exI [of _ d'] exI [of _ "[]"]) simp
qed

lemma confined_same: "cn_store c' = cn_store c \<Longrightarrow> cn_sent c' = cn_sent c \<Longrightarrow> confined e p c c'"
  by (rule confinedI) auto

lemma confined_trans:
  assumes "confined e p c c1" "confined e p c1 c2"
  shows "confined e p c c2"
  unfolding confined_def
proof (intro allI impI)
  fix d assume ok: "platform_ok e" and c: "consistent e d (cn_store c)"
  obtain d1 x1 where 1: "consistent e d1 (cn_store c1)" "same_keys (cn_store c) (cn_store c1)"
    "evolves (namespace_of e p) (view e (self_kek (cn_store c)) d) (view e (self_kek (cn_store c)) d1)"
    "cn_sent c1 = cn_sent c @ x1" "\<forall>b \<in> set x1. discloses (view e (self_kek (cn_store c)) d1) (namespace_of e p) b"
    using assms(1) ok c unfolding confined_def by blast
  obtain d2 x2 where 2: "consistent e d2 (cn_store c2)" "same_keys (cn_store c1) (cn_store c2)"
    "evolves (namespace_of e p) (view e (self_kek (cn_store c1)) d1) (view e (self_kek (cn_store c1)) d2)"
    "cn_sent c2 = cn_sent c1 @ x2" "\<forall>b \<in> set x2. discloses (view e (self_kek (cn_store c1)) d2) (namespace_of e p) b"
    using assms(2) ok 1(1) unfolding confined_def by blast
  have k: "self_kek (cn_store c1) = self_kek (cn_store c)" using 1(2) by (simp add: same_keys_def)
  have "discloses (view e (self_kek (cn_store c)) d2) (namespace_of e p) b" if "b \<in> set x1" for b
    using that 1(5) discloses_kept 2(3) k by metis
  then show "\<exists>d' extra. consistent e d' (cn_store c2) \<and> same_keys (cn_store c) (cn_store c2)
      \<and> evolves (namespace_of e p) (view e (self_kek (cn_store c)) d) (view e (self_kek (cn_store c)) d')
      \<and> cn_sent c2 = cn_sent c @ extra
      \<and> (\<forall>b \<in> set extra. discloses (view e (self_kek (cn_store c)) d') (namespace_of e p) b)"
    using 1 2 k same_keys_trans [OF 1(2) 2(2)] evolves_trans [OF 1(3)]
    by (intro exI [of _ d2] exI [of _ "x1 @ x2"]) auto
qed

interpretation confined: transition_preorder "confined e p" for e p
  by unfold_locales (auto intro: confined_same confined_trans)

subsection \<open>The parts of a request\<close>

lemma receive_more_frame:
  "receive_more n got c = (r, c') \<Longrightarrow> cn_store c' = cn_store c \<and> cn_sent c' = cn_sent c \<and> cn_trace c' = cn_trace c"
proof (induction n got c arbitrary: r c' rule: receive_more.induct)
  case (1 n got c)
  have f: "cn_store d = cn_store c \<and> cn_sent d = cn_sent c \<and> cn_trace d = cn_trace c"
    if "recv k c = (x, d)" for k x d
    using that by (auto simp: recv_def split: list.splits recv_event.splits)
  show ?case
  proof (cases "n \<le> length got")
    case False
    obtain x d where x: "recv (n - length got) c = (x, d)" by (cases "recv (n - length got) c")
    show ?thesis
    proof (cases "\<exists>b. x = Inr b \<and> b \<noteq> []")
      case True
      then obtain b where b: "x = Inr b" "b \<noteq> []" by blast
      then have "receive_more n (got @ b) d = (r, c')"
        using 1(2) False x by (simp add: receive_more.simps [of n got c])
      from 1(1) [OF False x [symmetric] b this] f [OF x] show ?thesis by simp
    next
      case no: False
      then have "c' = d" using 1(2) False x by (auto simp: receive_more.simps [of n got c] split: sum.splits if_splits)
      with f [OF x] show ?thesis by simp
    qed
  qed (use 1(2) in \<open>simp add: receive_more.simps [of n got c]\<close>)
qed

lemma receive_exact_frame:
  "receive_exact n c = (r, c') \<Longrightarrow> cn_store c' = cn_store c \<and> cn_sent c' = cn_sent c \<and> cn_trace c' = cn_trace c"
  unfolding receive_exact_def by (rule receive_more_frame)

lemma confined_receive: "steps (confined e p) (receive_exact n)"
  unfolding steps_def using receive_exact_frame by (metis confined_same prod.collapse)

lemma confined_on_store: "honours e p m \<Longrightarrow> steps (confined e p) (on_store m)"
  unfolding steps_def
proof
  fix c :: connection
  assume h: "honours e p m"
  obtain r s where m: "m (cn_store c) = (r, s)" by (cases "m (cn_store c)")
  show "confined e p c (snd (on_store m c))"
    by (rule confinedI) (use honoursD [OF h _ _ m] m in \<open>auto simp: on_store_def\<close>)
qed

lemma honours_dispatch: "honours e p (dispatch e p x)"
  unfolding dispatch_def by (auto intro!: honours_intros)

lemma confined_record: "steps (confined (sv_platform v) p) (record_request v i cid cert p q r b)"
  unfolding record_request_def
  by (intro confined.closed confined_on_store honours_draw) (auto simp: steps_def modifyS_def intro: confined_same)

lemma bindS_assoc: "bindS (bindS m f) g = bindS m (\<lambda>x. bindS (f x) g)"
  by (simp add: bindS_def fun_eq_iff split: prod.splits sum.splits)

text \<open>A request up to sending its answer.\<close>

definition answer_one :: "server_env \<Rightarrow> service_config \<Rightarrow> pystr \<Rightarrow> pystr \<Rightarrow> pystr \<Rightarrow> nat \<Rightarrow> bytes option conn_prog" where
  "answer_one v config cid cert pid i =
     bindS (receive_exact 8) (\<lambda>header.
       if header = [] then returnS None
       else
         bindS (liftS (request_length (cfg_limits config) header)) (\<lambda>padded_length.
         bindS (receive_exact padded_length) (\<lambda>body.
         bindS (liftS (raise_if (length body \<noteq> padded_length) (TtlvError RequestTruncated))) (\<lambda>_.
         bindS (liftS (decode (header @ body))) (\<lambda>request.
         bindS (on_store (dispatch (sv_platform v) pid request)) (\<lambda>response.
         bindS (liftS (encode response)) (\<lambda>response_bytes.
         bindS (if interop_trace_path config \<noteq> None
                then record_request v i cid cert pid request response (header @ body)
                else returnS ()) (\<lambda>_.
         returnS (Some response_bytes)))))))))"

lemma serve_one_answer:
  "serve_one v config cid cert pid i = bindS (answer_one v config cid cert pid i) (\<lambda>o'.
     case o' of None \<Rightarrow> returnS False | Some b \<Rightarrow> bindS (sendall v i b) (\<lambda>_. returnS True))"
  unfolding serve_one_def answer_one_def bindS_assoc
  by (intro arg_cong [where f = "bindS (receive_exact 8)"] ext) (simp add: bindS_assoc)

lemma confined_answer: "steps (confined (sv_platform v) pid) (answer_one v config cid cert pid i)"
  unfolding answer_one_def
  by (intro confined.closed confined_receive confined_on_store honours_dispatch confined_record)

text \<open>The answer holds keys of the provider only.\<close>

lemma answer_discloses:
  assumes run: "answer_one v config cid cert pid i c = (Inr (Some b), c')"
    and ok: "platform_ok (sv_platform v)" and d: "consistent (sv_platform v) d (cn_store c)"
  shows "\<exists>d'. consistent (sv_platform v) d' (cn_store c') \<and> same_keys (cn_store c) (cn_store c')
    \<and> evolves (namespace_of (sv_platform v) pid) (view (sv_platform v) (self_kek (cn_store c)) d)
        (view (sv_platform v) (self_kek (cn_store c)) d')
    \<and> cn_sent c' = cn_sent c
    \<and> discloses (view (sv_platform v) (self_kek (cn_store c)) d') (namespace_of (sv_platform v) pid) b"
proof -
  let ?e = "sv_platform v" and ?ns = "namespace_of (sv_platform v) pid"
  obtain header body request response c1 c2 c3 x where
      1: "receive_exact 8 c = (Inr header, c1)" and 2: "receive_exact x c1 = (Inr body, c2)"
    and 3: "on_store (dispatch ?e pid request) c2 = (Inr response, c3)" and enc: "encode response = Inr b"
    and 4: "(if interop_trace_path config \<noteq> None
        then record_request v i cid cert pid request response (header @ body) else returnS ()) c3 = (Inr (), c')"
    using run
    by (auto simp: answer_one_def bindS_eq_Inr liftS_def returnS_def split: if_splits)
  have f: "cn_store c2 = cn_store c" "cn_sent c2 = cn_sent c"
    using receive_exact_frame [OF 1] receive_exact_frame [OF 2] by simp_all
  obtain s3 where s3: "dispatch ?e pid request (cn_store c) = (Inr response, s3)" "c3 = c2\<lparr>cn_store := s3\<rparr>"
    using 3 f by (auto simp: on_store_def split: prod.splits)
  obtain d3 where d3: "consistent ?e d3 s3" "same_keys (cn_store c) s3"
    "evolves ?ns (view ?e (self_kek (cn_store c)) d) (view ?e (self_kek (cn_store c)) d3)"
    using honoursD [OF honours_dispatch ok d s3(1)] by blast
  have k: "self_kek s3 = self_kek (cn_store c)" using d3(2) by (simp add: same_keys_def)
  have keys: "active_key (view ?e (self_kek (cn_store c)) d3) ?ns key" if "key \<in> set (byte_strings response)" for key
    using dispatch_keys_active [OF ok d s3(1) that] d3(1) k consistent_unique by metis
  have "steps (confined ?e pid) (if interop_trace_path config \<noteq> None
        then record_request v i cid cert pid request response (header @ body) else returnS ())"
    by (intro confined.closed confined_record)
  from stepsD [OF this 4] obtain d4 where d4: "consistent ?e d4 (cn_store c')" "same_keys s3 (cn_store c')"
    "evolves ?ns (view ?e (self_kek s3) d3) (view ?e (self_kek s3) d4)"
    using ok d3(1) s3(2) unfolding confined_def by force
  have "cn_sent c' = cn_sent c3"
    using 4 by (auto simp: record_request_def bindS_eq_Inr on_store_def draw_def liftS_def returnS_def modifyS_def raiseS_def
        split: if_splits)
  moreover have "discloses (view ?e (self_kek (cn_store c)) d4) ?ns b"
    using enc keys active_key_kept d4(3) k unfolding discloses_def by metis
  ultimately show ?thesis
    using d4 d3 k s3(2) f same_keys_trans evolves_trans by (intro exI [of _ d4]) auto
qed

lemma confined_serve_one: "steps (confined (sv_platform v) pid) (serve_one v config cid cert pid i)"
  unfolding steps_def
proof
  fix c
  obtain r c1 where a: "answer_one v config cid cert pid i c = (r, c1)" by (cases "answer_one v config cid cert pid i c")
  show "confined (sv_platform v) pid c (snd (serve_one v config cid cert pid i c))"
  proof (cases "\<exists>b. r = Inr (Some b) \<and> sv_send_ok v i")
    case True
    then obtain b where b: "r = Inr (Some b)" "sv_send_ok v i" by blast
    then have "snd (serve_one v config cid cert pid i c) = c1\<lparr>cn_sent := cn_sent c1 @ [b]\<rparr>"
      using a by (simp add: serve_one_answer bindS_def sendall_def modifyS_def returnS_def)
    then show ?thesis
      using answer_discloses [OF a [unfolded b(1)]] unfolding confined_def by fastforce
  next
    case False
    then have "snd (serve_one v config cid cert pid i c) = c1"
      using a by (auto simp: serve_one_answer bindS_def sendall_def returnS_def raiseS_def split: sum.splits option.splits)
    with stepsD [OF confined_answer a] show ?thesis by simp
  qed
qed

lemma confined_serve: "steps (confined (sv_platform v) pid) (serve v config cid cert pid i k)"
proof (induction k arbitrary: i)
  case 0
  then show ?case by (simp add: steps_def confined.refl)
next
  case (Suc k)
  show ?case
    unfolding steps_def
  proof
    fix c
    obtain r c1 where m: "serve_one v config cid cert pid i c = (r, c1)" by (cases "serve_one v config cid cert pid i c")
    have "confined (sv_platform v) pid c c1" by (rule stepsD [OF confined_serve_one m])
    moreover have "confined (sv_platform v) pid c1 (snd (serve v config cid cert pid (Suc i) k c1))"
      using Suc [of "Suc i"] unfolding steps_def by blast
    ultimately show "confined (sv_platform v) pid c (snd (serve v config cid cert pid i (Suc k) c))"
      using m confined.trans by (auto split: sum.splits bool.splits)
  qed
qed

lemma handle_confined:
  assumes "map_of (fingerprint_providers config) (hexlify (sha256 (sv_platform v) peer)) = Some pid"
  shows "steps (confined (sv_platform v) pid) (handle v config (Some peer))"
  unfolding handle_def Let_def option.case
  using assms by (auto intro!: confined.closed confined_on_store honours_draw confined_serve)

lemma handle_unmapped:
  assumes "peer = None \<or> peer = Some [] \<or>
    (\<exists>der. peer = Some der \<and> map_of (fingerprint_providers config) (hexlify (sha256 (sv_platform v) der)) = None)"
  shows "handle v config peer c = (Inr (), c)"
  using assms by (auto simp: handle_def returnS_def)

section \<open>The connection limit\<close>

inductive_cases slot_stepE: "slot_step limit s r"

lemma release_Inr: "available s < limit \<Longrightarrow> release limit s = Inr (s\<lparr>available := available s + 1\<rparr>)"
  by (simp add: release_def)

definition balanced :: "nat \<Rightarrow> slots \<Rightarrow> bool" where
  "balanced limit s \<longleftrightarrow> available s + accepted s + threads s = limit"

lemma balanced_step:
  assumes "balanced limit s" "slot_step limit s r"
  shows "\<exists>s'. r = Inr s' \<and> balanced limit s'"
  using assms(2,1)
  by (cases rule: slot_stepE)
    (auto simp: balanced_def tcp_get_request_def tcp_process_request_def tcp_thread_ends_def release_def Let_def)

lemma balanced_reachable: "slots_reachable limit s \<Longrightarrow> balanced limit s"
proof (induction rule: slots_reachable.induct)
  case (step s s')
  from balanced_step [OF step.IH step.hyps(2)] show ?case by simp
qed (simp add: balanced_def)

section \<open>The trace file\<close>

definition line_recorded :: "server_env \<Rightarrow> pystr \<Rightarrow> bool" where
  "line_recorded v l \<longleftrightarrow> (\<exists>s. validate_trace (sv_platform v) (sv_text v) (sv_contract_file v) [l] None None = Inr s)"

lemma record_item_valid: "record_item v c q r = Inr ls \<Longrightarrow> l \<in> set ls \<Longrightarrow> line_recorded v l"
proof -
  assume a: "record_item v c q r = Inr ls" "l \<in> set ls"
  then obtain ev where ev: "trace_event c q r = Inr ev" by (auto simp: record_item_def bindE_eq_Inr)
  let ?l = "json_dumps (float_repr (sv_platform v)) (JObj ev)"
  show ?thesis
    using a ev
    by (cases "validate_trace (sv_platform v) (sv_text v) (sv_contract_file v) [?l] None None")
      (auto simp: record_item_def Let_def line_recorded_def split: if_splits)
qed

lemma record_items_valid: "record_items v c qs rs = Inr ls \<Longrightarrow> l \<in> set ls \<Longrightarrow> line_recorded v l"
proof (induction v c qs rs arbitrary: ls rule: record_items.induct)
  case (1 v c q qs r rs)
  obtain xs ys where x: "record_item v c q r = Inr xs" "record_items v c qs rs = Inr ys" "ls = xs @ ys"
    using 1(2) by (auto simp: bindE_eq_Inr)
  then show ?case using 1(1) [OF x(1,2)] 1(3) record_item_valid [OF x(1)] by auto
qed auto

lemma keeps_trace:
  "keeps (\<lambda>c. \<forall>l \<in> set (cn_trace c). line_recorded v l) (serve_one v config cid cert pid i)"
proof -
  let ?P = "\<lambda>c. \<forall>l \<in> set (cn_trace c). line_recorded v l"
  have r: "keeps ?P (receive_exact n)" for n
    using receive_exact_frame by (intro keepsI) (metis prod.collapse)
  have o: "keeps ?P (on_store m)" for m :: "'x store_prog"
    by (auto simp: keeps_def on_store_def split: prod.splits)
  have s: "keeps ?P (sendall v i b)" for b
    by (auto simp: keeps_def sendall_def modifyS_def raiseS_def)
  have t: "keeps ?P (record_request v i cid cert pid q a b)" for q a b
  proof -
    have "keeps ?P (bindS (liftS (trace_lines v x q a)) (\<lambda>lines. if lines = [] then returnS ()
        else if sv_append_ok v i then modifyS (cn_trace_update (\<lambda>t. t @ lines)) else raiseS OSError))" for x
      using record_items_valid
      by (auto simp: keeps_def bindS_def liftS_def returnS_def modifyS_def raiseS_def trace_lines_def bindE_eq_Inr
          split: sum.splits)
    then show ?thesis unfolding record_request_def by (rule keeps_bindS [OF o])
  qed
  show ?thesis unfolding serve_one_def by (intro keeps_intros r o s t)
qed

lemma keeps_serve:
  "keeps (\<lambda>c. \<forall>l \<in> set (cn_trace c). line_recorded v l) (serve v config cid cert pid i k)"
proof (induction k arbitrary: i)
  case 0
  then show ?case by (simp add: keeps_def)
next
  case (Suc k)
  show ?case
    unfolding keeps_def
  proof (intro allI impI)
    fix c :: connection
    assume c: "\<forall>l \<in> set (cn_trace c). line_recorded v l"
    obtain r c1 where m: "serve_one v config cid cert pid i c = (r, c1)" by (cases "serve_one v config cid cert pid i c")
    have 1: "\<forall>l \<in> set (cn_trace c1). line_recorded v l" using keepsD [OF keeps_trace c, of config cid cert pid i] m by simp
    have "\<forall>l \<in> set (cn_trace (snd (serve v config cid cert pid (Suc i) k c1))). line_recorded v l"
      using keepsD [OF Suc 1] .
    with 1 m show "\<forall>l \<in> set (cn_trace (snd (serve v config cid cert pid i (Suc k) c))). line_recorded v l"
      by (simp split: sum.splits bool.splits)
  qed
qed

lemma handle_keeps_trace: "keeps (\<lambda>c. \<forall>l \<in> set (cn_trace c). line_recorded v l) (handle v config peer)"
proof -
  have "keeps (\<lambda>c. \<forall>l \<in> set (cn_trace c). line_recorded v l) (on_store m)" for m :: "'x store_prog"
    by (auto simp: keeps_def on_store_def split: prod.splits)
  then show ?thesis
    unfolding handle_def Let_def by (auto intro!: keeps_intros keeps_serve split: option.splits)
qed

end
