(* ===== verification/Kmip_Server_Thms.thy ===== *)
theory Kmip_Server_Thms
  imports Kmip_Server_Props
begin

text \<open>The properties of the KMIP server and its trace recorder, each with a concrete instance.\<close>

section \<open>A sample server\<close>

definition sample_server :: server_env where
  "sample_server = \<lparr>sv_platform = sample_platform, sv_text = sample_text, sv_certificate = (\<lambda>p. None),
     sv_is_file = (\<lambda>p. True), sv_tls_ok = True,
     sv_contract_file = render (float_repr sample_platform) (JObj vcf_9_1),
     sv_append_ok = (\<lambda>i. True), sv_send_ok = (\<lambda>i. True)\<rparr>"

definition sample_fingerprint :: pystr where
  "sample_fingerprint = replicate 64 97"

definition sample_document :: json where
  "sample_document = JObj
     [(u ''schema_version'', JInt 1), (u ''enabled'', JBool True),
      (u ''listen'', JObj [(u ''addresses'', JArr [JStr (u ''0.0.0.0'')]), (u ''port'', JInt 5696)]),
      (u ''tls'', JObj [(u ''certificate_path'', JStr (u ''/c'')), (u ''private_key_path'', JStr (u ''/k'')), (u ''ca_path'', JStr (u ''/a''))]),
      (u ''store'', JObj [(u ''database_path'', JStr (u ''/d'')), (u ''kek_path'', JStr (u ''/e''))]),
      (u ''limits'', JObj [(u ''max_request_bytes'', JInt 65536), (u ''max_connections'', JInt 8),
         (u ''idle_timeout_seconds'', JInt 30), (u ''max_requests_per_connection'', JInt 4)]),
      (u ''providers'', JArr [JObj [(u ''id'', JStr provider_a), (u ''name'', JStr (u ''vcenter'')),
         (u ''client_fingerprints'', JArr [JStr sample_fingerprint]), (u ''client_certificate_paths'', JArr [])]]),
      (u ''interop_trace_path'', JStr (u ''/t''))]"

lemma strip_literal: "\<not> is_space (of_char c) \<Longrightarrow> \<not> is_space (of_char (last (c # s))) \<Longrightarrow> strip (u (c # s)) = u (c # s)"
  by (rule strip_id) (auto simp: u_def last_map split: if_splits)

lemma sample_address: "ip_address (u ''0.0.0.0'') = Some (V4 [0, 0, 0, 0])" "address_str (V4 [0, 0, 0, 0]) = u ''0.0.0.0''"
  by (simp_all add: ip_address_def parse_ipv4_def parse_octet_def is_digit_def nat_of_digits_def u_def ipv4_str_def)

lemma sample_fingerprint_reads: "fingerprint sample_server (JStr sample_fingerprint) = Inr sample_fingerprint"
proof -
  have "filter (\<lambda>c. c \<noteq> 58) sample_fingerprint = sample_fingerprint" by (simp add: sample_fingerprint_def)
  moreover have "strip sample_fingerprint = sample_fingerprint"
    by (rule strip_id) (simp add: sample_fingerprint_def is_space_def)
  moreover have "casefold sample_text sample_fingerprint = sample_fingerprint"
    by (simp add: casefold_def sample_text_def sample_fingerprint_def ascii_lower_def map_replicate_const)
  ultimately show ?thesis
    using hex64_replicate(1) by (simp add: fingerprint_def sample_server_def sample_fingerprint_def Let_def)
qed

definition sample_provider :: provider where
  "sample_provider = \<lparr>provider_id = provider_a, provider_name = u ''vcenter'', client_fingerprints = [sample_fingerprint]\<rparr>"

lemma sample_provider_parses:
  "parse_provider sample_server (JObj [(u ''id'', JStr provider_a), (u ''name'', JStr (u ''vcenter'')),
     (u ''client_fingerprints'', JArr [JStr sample_fingerprint]), (u ''client_certificate_paths'', JArr [])]) = Inr sample_provider"
proof -
  have "uuid_of_str f provider_a = Some (replicate 16 1)" for f
    by (simp add: provider_a_def uuid_of_str_uuid_str)
  moreover have "strip (u ''vcenter'') = u ''vcenter''" by (rule strip_literal) (simp_all add: is_space_def)
  ultimately show ?thesis
    by (simp add: parse_provider_def exact_fields_def keys_def PROVIDER_FIELDS_def item_def jget_def
        provider_fingerprints_def sample_fingerprint_reads sample_provider_def provider_a_def)
qed

definition sample_config :: service_config where
  "sample_config = \<lparr>cfg_enabled = True, listen_addresses = [u ''0.0.0.0''], cfg_port = 5696,
     certificate_path = u ''/c'', private_key_path = u ''/k'', ca_path = u ''/a'', database_path = u ''/d'', kek_path = u ''/e'',
     cfg_limits = \<lparr>max_request_bytes = 65536, max_connections = 8, idle_timeout_seconds = 30, max_requests_per_connection = 4\<rparr>,
     cfg_providers = [sample_provider], interop_trace_path = Some (u ''/t'')\<rparr>"

lemma absolute_path_literal: "absolute_path (JStr (u (CHR ''/'' # s))) label = Inr (u (CHR ''/'' # s))"
  by (simp add: absolute_path_def strip_eq_Nil u_def is_space_def)

lemma sample_config_parses: "parse_config sample_server sample_document = Inr sample_config"
proof -
  have a: "parse_addresses (JArr [JStr (u ''0.0.0.0'')]) = Inr [u ''0.0.0.0'']"
    using strip_literal [of "CHR ''0''" "''.0.0.0''"]
    by (simp add: parse_addresses_def listen_address_def sample_address is_space_def del: address_str.simps)
  have p: "parse_providers sample_server True (JArr [JObj [(u ''id'', JStr provider_a), (u ''name'', JStr (u ''vcenter'')),
     (u ''client_fingerprints'', JArr [JStr sample_fingerprint]), (u ''client_certificate_paths'', JArr [])]]) = Inr [sample_provider]"
    by (simp add: parse_providers_def sample_provider_parses) (simp add: sample_provider_def)
  have t: "strip (u ''/t'') = u ''/t''" by (rule strip_literal) (simp_all add: is_space_def)
  show ?thesis
    by (simp add: parse_config_def sample_document_def exact_fields_def keys_def CONFIG_FIELDS_def integer_item_def
        item_def jget_def config_integer_def config_sections_def a p t parse_limits_def MAX_MESSAGE_BYTES_def
        path_item_def absolute_path_literal sample_config_def)
qed

section \<open>Properties\<close>

text \<open>
  C24: an accepted configuration is safe to serve. Whatever document \<open>parse_config\<close> accepts yields
  bounded limits, a port in range, distinct listen addresses in normal form, absolute paths, providers
  with canonical distinct UUIDs and SHA-256 client fingerprints, and a fingerprint table that maps
  every configured fingerprint to its one provider and nothing else.
\<close>

theorem accepted_config_is_safe:
  assumes "platform_ok (sv_platform v)" "parse_config v doc = Inr config"
  shows "config_ok v config \<and>
    (\<forall>f i. map_of (fingerprint_providers config) f = Some i \<longleftrightarrow>
       (\<exists>p \<in> set (cfg_providers config). f \<in> set (client_fingerprints p) \<and> i = provider_id p))"
  using parse_config_ok [OF assms] fingerprint_providers_exact by (auto simp: config_ok_def)

theorem accepted_config_is_safe_witness:
  "config_ok sample_server sample_config \<and>
   map_of (fingerprint_providers sample_config) sample_fingerprint = Some provider_a"
proof -
  have "platform_ok (sv_platform sample_server)" by (simp add: sample_server_def sample_ok)
  from accepted_config_is_safe [OF this sample_config_parses] show ?thesis
    by (simp add: sample_config_def sample_provider_def)
qed

text \<open>
  C11: framing is independent of the network. If two connections deliver the same bytes, cut into
  non-empty chunks in any two ways, the handler sends the same responses, writes the same trace, leaves
  the store in the same state and ends in the same way.
\<close>

theorem chunking_is_irrelevant:
  assumes "\<forall>b \<in> set bss. b \<noteq> []" "\<forall>b \<in> set bss'. b \<noteq> []" "concat bss = concat bss'"
    and "handle v config peer (c\<lparr>cn_input := map Chunk bss\<rparr>) = (r, d)"
    and "handle v config peer (c\<lparr>cn_input := map Chunk bss'\<rparr>) = (r', d')"
  shows "r = r' \<and> cn_sent d = cn_sent d' \<and> cn_trace d = cn_trace d' \<and> cn_store d = cn_store d'"
proof -
  have c: "clean (map Chunk xs)" if "\<forall>b \<in> set xs. b \<noteq> []" for xs using that by (induction xs) auto
  have s: "stream_of (map Chunk xs) = concat xs" for xs by (induction xs) auto
  have "same_bytes (c\<lparr>cn_input := map Chunk bss\<rparr>) (c\<lparr>cn_input := map Chunk bss'\<rparr>)"
    using assms(1-3) c s by (simp add: same_bytes_def)
  from chunk_freeD [OF chunk_free_handle this assms(4)] assms(5) show ?thesis
    by (metis prod.inject same_bytes_def)
qed

theorem chunking_is_irrelevant_witness:
  "\<exists>r d d'. cn_sent d = cn_sent d' \<and> cn_store d = cn_store d'
     \<and> handle sample_server sample_config (Some [7]) \<lparr>cn_input = [Chunk [1, 2], Chunk [3]], cn_sent = [], cn_trace = [], cn_store = blank_store\<rparr> = (r, d)
     \<and> handle sample_server sample_config (Some [7]) \<lparr>cn_input = [Chunk [1], Chunk [2, 3]], cn_sent = [], cn_trace = [], cn_store = blank_store\<rparr> = (r, d')"
proof -
  let ?c = "\<lparr>cn_input = [], cn_sent = [], cn_trace = [], cn_store = blank_store\<rparr>"
  let ?h = "\<lambda>bss. handle sample_server sample_config (Some [7]) (?c\<lparr>cn_input := map Chunk bss\<rparr>)"
  obtain r d where 1: "?h [[1, 2], [3]] = (r, d)" by (cases "?h [[1, 2], [3]]")
  obtain r' d' where 2: "?h [[1], [2, 3]] = (r', d')" by (cases "?h [[1], [2, 3]]")
  have "r = r' \<and> cn_sent d = cn_sent d' \<and> cn_trace d = cn_trace d' \<and> cn_store d = cn_store d'"
    by (rule chunking_is_irrelevant [OF _ _ _ 1 2]) simp_all
  with 1 2 show ?thesis by auto
qed

text \<open>
  C4: a client certificate confines a connection to its provider. Whatever bytes, failures and
  disconnections the peer causes, a connection authenticated with a certificate mapped to provider
  \<open>pid\<close> keeps the store consistent, changes no key of another provider, loses no key, and every
  message it sends carries no other key material than that of active keys of \<open>pid\<close>. A connection with
  an unmapped certificate sends nothing and changes nothing.
\<close>

theorem certificate_confines_connection:
  assumes "platform_ok (sv_platform v)" "consistent (sv_platform v) d (cn_store c)" "cn_sent c = []" "peer \<noteq> []"
    and "handle v config (Some peer) c = (r, c')"
  shows "case map_of (fingerprint_providers config) (hexlify (sha256 (sv_platform v) peer)) of
      None \<Rightarrow> c' = c
    | Some pid \<Rightarrow> (\<exists>d'. consistent (sv_platform v) d' (cn_store c')
        \<and> evolves (namespace_of (sv_platform v) pid) (view (sv_platform v) (self_kek (cn_store c)) d)
            (view (sv_platform v) (self_kek (cn_store c)) d')
        \<and> (\<forall>b \<in> set (cn_sent c').
             discloses (view (sv_platform v) (self_kek (cn_store c)) d') (namespace_of (sv_platform v) pid) b))"
proof (cases "map_of (fingerprint_providers config) (hexlify (sha256 (sv_platform v) peer))")
  case None
  then show ?thesis using handle_unmapped [of "Some peer" config v c] assms(5) by auto
next
  case (Some pid)
  have "confined (sv_platform v) pid c c'" by (rule stepsD [OF handle_confined [OF Some] assms(5)])
  then obtain d' extra where "consistent (sv_platform v) d' (cn_store c')"
    "evolves (namespace_of (sv_platform v) pid) (view (sv_platform v) (self_kek (cn_store c)) d)
       (view (sv_platform v) (self_kek (cn_store c)) d')"
    "cn_sent c' = extra"
    "\<forall>b \<in> set extra. discloses (view (sv_platform v) (self_kek (cn_store c)) d') (namespace_of (sv_platform v) pid) b"
    using assms(1-3) unfolding confined_def by fastforce
  with Some show ?thesis by auto
qed

definition sample_peer_config :: "bytes \<Rightarrow> service_config" where
  "sample_peer_config peer = sample_config\<lparr>cfg_providers :=
     [sample_provider\<lparr>client_fingerprints := [hexlify (sha256 sample_platform peer)]\<rparr>]\<rparr>"

theorem certificate_confines_connection_witness:
  "\<exists>s c' r d'. handle sample_server (sample_peer_config [7]) (Some [7])
       \<lparr>cn_input = [Chunk [1, 2, 3], RecvFails], cn_sent = [], cn_trace = [], cn_store = s\<rparr> = (r, c')
     \<and> consistent sample_platform d' (cn_store c')
     \<and> evolves (Some provider_a) (view sample_platform (self_kek s) empty_db) (view sample_platform (self_kek s) d')"
proof -
  obtain s where s: "consistent sample_platform empty_db s" by (rule sample_started)
  let ?c = "\<lparr>cn_input = [Chunk [1, 2, 3], RecvFails], cn_sent = [], cn_trace = [], cn_store = s\<rparr>"
  obtain r c' where run: "handle sample_server (sample_peer_config [7]) (Some [7]) ?c = (r, c')"
    by (cases "handle sample_server (sample_peer_config [7]) (Some [7]) ?c")
  have m: "map_of (fingerprint_providers (sample_peer_config [7])) (hexlify (sha256 sample_platform [7])) = Some provider_a"
    by (simp add: fingerprint_providers_def sample_peer_config_def sample_config_def sample_provider_def dict_of_def)
  have p: "sv_platform sample_server = sample_platform" by (simp add: sample_server_def)
  obtain d' where "consistent sample_platform d' (cn_store c')"
    "evolves (Some provider_a) (view sample_platform (self_kek s) empty_db) (view sample_platform (self_kek s) d')"
    using certificate_confines_connection [of sample_server empty_db ?c "[7]", OF _ _ _ _ run] s sample_ok(1) m
    by (auto simp: p sample_namespaces)
  with run show ?thesis by blast
qed



definition item_outcome :: "ttlv \<Rightarrow> (exn + ttlv option) \<times> (exn + ttlv option)" where
  "item_outcome i = (child i (tag_value RESULT_STATUS) True, child i (tag_value RESULT_REASON) False)"

lemma record_items_outcome:
  "map item_outcome rs = map item_outcome rs' \<Longrightarrow> record_items v c qs rs = record_items v c qs rs'"
proof (induction v c qs rs arbitrary: rs' rule: record_items.induct)
  case (1 v c q qs r rs)
  then obtain r' rs'' where rs': "rs' = r' # rs''" "item_outcome r = item_outcome r'" "map item_outcome rs = map item_outcome rs''"
    by (auto simp: Cons_eq_map_conv)
  have "record_item v c q r = record_item v c q r'"
    using rs'(2) by (simp add: record_item_def trace_event_def item_outcome_def)
  then show ?case using 1(1) [OF _ rs'(3)] rs'(1) by (auto intro: bindE_cong)
qed (auto simp: Cons_eq_map_conv)

text \<open>
  C37: the trace cannot carry key material. What the recorder writes for a request depends on the
  response only through the result status and result reason of its items: responses that agree on
  them, whatever their payloads hold, give the same lines. In particular a Get answered with one key
  is recorded like a Get answered with any other.
\<close>

theorem trace_independent_of_payload:
  assumes "map item_outcome rs = map item_outcome rs'"
    and "\<forall>i \<in> set rs \<union> set rs'. node_tag i = tag_value BATCH_ITEM"
  shows "trace_lines v c req (response_message now rs) = trace_lines v c req (response_message now rs')
    \<and> item_outcome (success_batch op payload) = item_outcome (success_batch op payload')"
proof -
  have "children (response_message now xs) (tag_value BATCH_ITEM) = Inr xs"
    if "\<forall>i \<in> set xs. node_tag i = tag_value BATCH_ITEM" for xs
    using that by (simp add: children_def children_all_def response_message_def structure_node_def filter_id_conv)
  with assms record_items_outcome [OF assms(1)] have
    "trace_lines v c req (response_message now rs) = trace_lines v c req (response_message now rs')"
    by (simp add: trace_lines_def)
  then show ?thesis
    by (simp add: item_outcome_def success_batch_def child_def children_def children_all_def ttlv_constructors)
qed

definition sample_context :: trace_context where
  "sample_context = \<lparr>tc_timestamp = u ''2026-01-01T00:00:00Z'', tc_connection_id = u ''c1'',
     tc_client_cert_sha256 = sample_fingerprint, tc_provider_id = provider_a, tc_request_digest = sample_fingerprint\<rparr>"

theorem trace_independent_of_payload_witness:
  "trace_lines sample_server sample_context (request [batch_item GET (id_fields provider_b)])
     (response_message 0 [success_batch GET [symmetric_key_node [1]]]) =
   trace_lines sample_server sample_context (request [batch_item GET (id_fields provider_b)])
     (response_message 0 [success_batch GET [symmetric_key_node [2]]])"
proof -
  let ?r = "\<lambda>b. success_batch GET [symmetric_key_node [b]]"
  have o: "map item_outcome [?r 1] = map item_outcome [?r 2]"
    by (simp add: item_outcome_def success_batch_def child_def children_def children_all_def ttlv_constructors)
  have t: "\<forall>i \<in> set [?r 1] \<union> set [?r 2]. node_tag i = tag_value BATCH_ITEM"
    by (simp add: success_batch_def structure_node_def)
  show ?thesis using trace_independent_of_payload [OF o t] by blast
qed

lemma recorded_file_valid:
  assumes "ls \<noteq> []" "\<forall>l \<in> set ls. line_recorded v l"
  shows "\<exists>s. validate_trace (sv_platform v) (sv_text v) (sv_contract_file v) ls None None = Inr s"
proof -
  let ?e = "sv_platform v" and ?te = "sv_text v"
  have one: "\<exists>s. validate_trace ?e ?te (sv_contract_file v) [l] None None = Inr s" if "l \<in> set ls" for l
    using assms(2) that by (simp add: line_recorded_def)
  obtain c b where c: "load_contract ?e (sv_contract_file v) = Inr c" "encode_utf8 (json_dumps (float_repr ?e) (JObj c)) = Inr b"
    using one [of "hd ls"] assms(1) by (auto simp: validate_trace_def bindE_eq_Inr)
  then have vc: "validate_contract c = Inr c"
    using validate_contract_same by (auto simp: load_contract_def bindE_eq_Inr json_case_Inr)
  have "strip l \<noteq> [] \<and> line_event ?e ?te c l (event_of ?e l)" if "l \<in> set ls" for l
    using one [OF that] c by (auto simp: validate_trace_def bindE_eq_Inr read_events_map nonblank_def split: if_splits
        simp del: read_events.simps)
  then have "nonblank ls = ls" "\<forall>l \<in> set ls. line_event ?e ?te c l (event_of ?e l)"
    by (auto simp: nonblank_def filter_id_conv)
  then have r: "read_events ?e ?te c ls = Inr (map (event_of ?e) ls)" by (simp add: read_events_map)
  moreover have "\<forall>ev \<in> set (map (event_of ?e) ls). keys ev = set REQUIRED_FIELDS"
    using \<open>\<forall>l \<in> set ls. line_event ?e ?te c l (event_of ?e l)\<close> by (auto simp: line_event_def event_keys)
  ultimately show ?thesis
    using assms(1) c summarize_eq [OF vc] by (simp add: validate_trace_def)
qed

lemma plain_vcf_9_1: "plain (JObj vcf_9_1)"
proof -
  have "plain (JInt 1)" "plain (JInt 5696)" "plain (JInt 256)" by (simp_all add: dec_digits.simps)
  then show ?thesis by (simp add: vcf_9_1_def names_json_def del: plain.simps(3))
qed

lemma validate_trace_default:
  assumes "load_contract e cf = Inr c" "validate_contract c = Inr c"
    "encode_utf8 (json_dumps (float_repr e) (JObj c)) = Inr b" "b \<noteq> []"
  shows "validate_trace e te cf ls None None = validate_trace e te cf ls (Some c) (Some b)"
  using assms by (simp add: validate_trace_def)

text \<open>
  the trace file is always evidence the validator accepts. If every line of the file was
  recorded by a server with this contract, then so it is after any connection, and the whole
  file, unless it is empty, passes \<open>validate_trace\<close>.
\<close>

theorem trace_file_stays_valid:
  assumes "\<forall>l \<in> set (cn_trace c). line_recorded v l" "handle v config peer c = (r, c')" "cn_trace c' \<noteq> []"
  shows "(\<forall>l \<in> set (cn_trace c'). line_recorded v l)
    \<and> (\<exists>s. validate_trace (sv_platform v) (sv_text v) (sv_contract_file v) (cn_trace c') None None = Inr s)"
  using keepsD [OF handle_keeps_trace, of c v config peer] recorded_file_valid assms by auto

theorem trace_file_stays_valid_witness:
  "\<exists>s. validate_trace sample_platform sample_text (sv_contract_file sample_server)
     [render (float_repr sample_platform) (JObj sample_event)] None None = Inr s"
proof -
  let ?l = "render (float_repr sample_platform) (JObj sample_event)"
  let ?c = "\<lparr>cn_input = [], cn_sent = [], cn_trace = [?l], cn_store = blank_store\<rparr>"
  have "handle sample_server sample_config None ?c = (Inr (), ?c)" by (rule handle_unmapped) simp
  moreover have "line_recorded sample_server ?l"
  proof -
    have c: "load_contract sample_platform (sv_contract_file sample_server) = Inr vcf_9_1"
      by (simp add: load_contract_def loads_def sample_server_def json_loads_render [OF plain_vcf_9_1] vcf_9_1_valid
          del: render.simps)
    have e: "encode_utf8 (json_dumps (float_repr sample_platform) (JObj vcf_9_1)) =
        Inr (map byte_of (json_dumps (float_repr sample_platform) (JObj vcf_9_1)))"
      by (rule encode_utf8_printable [OF json_dumps_ascii [OF plain_float_free [OF plain_vcf_9_1]]])
    have n: "map byte_of (json_dumps (float_repr sample_platform) (JObj vcf_9_1)) \<noteq> []"
      by (simp add: json_dumps_def)
    obtain s where "validate_trace sample_platform sample_text (sv_contract_file sample_server) [?l] None None = Inr s"
      using sample_line(1) [of sample_platform "float_repr sample_platform"] sample_line(2) [of "float_repr sample_platform"]
      unfolding validate_trace_default [OF c vcf_9_1_valid e n] validate_trace_iff [OF vcf_9_1_valid n]
      by (auto simp: nonblank_def simp del: render.simps)
    then show ?thesis by (auto simp: line_recorded_def sample_server_def)
  qed
  ultimately show ?thesis
    using trace_file_stays_valid [of ?c sample_server sample_config None "Inr ()" ?c] by (simp add: sample_server_def)
qed

text \<open>
  Tracing changes the service. A batch item that is not a structure is answered by the dispatcher
  with a failed item, but the recorder raises \<open>TtlvError\<close> on it, which ends the connection: with
  tracing enabled the client gets no answer at all.
\<close>

theorem malformed_item_unanswered_when_traced:
  "\<exists>now s'. dispatch e p (request [integer (tag_value BATCH_ITEM) n]) s =
       (Inr (response_message now [failed_batch 0 INVALID_MESSAGE ''Batch Item must be a structure.'']), s')
     \<and> trace_lines v c (request [integer (tag_value BATCH_ITEM) n])
         (response_message now [failed_batch 0 INVALID_MESSAGE ''Batch Item must be a structure.'']) =
       Inl (TtlvError NotAStructure)"
proof -
  let ?i = "integer (tag_value BATCH_ITEM) n"
  have "dispatch_items e p [?i] s = (Inr [failed_batch 0 INVALID_MESSAGE ''Batch Item must be a structure.''], s)"
    by (simp add: dispatch_item_def item_operation_def require_structure_def integer_def recover_def
        bindS_def returnS_def)
  from dispatch_request [OF _ _ _ this] obtain now s' where
    "dispatch e p (request [?i]) s = (Inr (response_message now [failed_batch 0 INVALID_MESSAGE ''Batch Item must be a structure.'']), s')"
    by (auto simp: integer_def)
  moreover have "trace_lines v c (request [?i]) (response_message now
      [failed_batch 0 INVALID_MESSAGE ''Batch Item must be a structure.'']) = Inl (TtlvError NotAStructure)"
    by (simp add: trace_lines_def request_def response_message_def failed_batch_def children_def children_all_def
        record_item_def trace_event_def trace_operation_def child_def ttlv_constructors version_node_def)
  ultimately show ?thesis by blast
qed

end
