(* ===== verification/Web_Text.thy ===== *)
theory Web_Text
  imports Py_Text Py_Ipaddress
begin

text \<open>
  Shared vocabulary of the web application's modules: its exceptions, the truth value of a JSON
  value, the \<open>str\<close> methods \<open>split\<close>, \<open>startswith\<close>, \<open>removeprefix\<close>, and the constant-time comparison of
  the \<open>secrets\<close> module. \<open>str.lower\<close> and \<open>str.upper\<close> are parameters (Unicode tables), of which only the
  ASCII part is used.
\<close>

datatype web_error = HTTPException nat string | TypeErr | ValueErr string | IntegrityErr | OSErr

type_synonym object = "(pystr \<times> json) list"

section \<open>Truth values\<close>

fun truthy :: "json \<Rightarrow> bool" where
  "truthy JNull = False"
| "truthy (JBool b) = b"
| "truthy (JInt i) = (i \<noteq> 0)"
| "truthy (JFloat q) = (q \<noteq> 0)"
| "truthy JNonFinite = True"
| "truthy (JStr s) = (s \<noteq> [])"
| "truthy (JArr xs) = (xs \<noteq> [])"
| "truthy (JObj ms) = (ms \<noteq> [])"

text \<open>\<open>d.get(k) or default\<close>.\<close>

definition get_or :: "object \<Rightarrow> string \<Rightarrow> json \<Rightarrow> json" where
  "get_or ob k d = (case jget ob (u k) of Some v \<Rightarrow> if truthy v then v else d | None \<Rightarrow> d)"

section \<open>\<open>str.split()\<close>\<close>

function split_ws :: "pystr \<Rightarrow> pystr list" where
  "split_ws s = (case dropWhile is_space s of
     [] \<Rightarrow> []
   | c # t \<Rightarrow> (c # takeWhile (\<lambda>x. \<not> is_space x) t) # split_ws (dropWhile (\<lambda>x. \<not> is_space x) t))"
  by auto

termination
proof (relation "measure length")
  fix s c t
  assume "dropWhile is_space s = c # t"
  then have "length (c # t) \<le> length s" by (metis length_dropWhile_le)
  moreover have "length (dropWhile (\<lambda>x. \<not> is_space x) t) \<le> length t" by (rule length_dropWhile_le)
  ultimately show "(dropWhile (\<lambda>x. \<not> is_space x) t, s) \<in> measure length" by simp
qed simp

declare split_ws.simps [simp del]

text \<open>A word: not empty and free of white space.\<close>

definition is_word :: "pystr \<Rightarrow> bool" where
  "is_word w \<longleftrightarrow> w \<noteq> [] \<and> list_all (\<lambda>c. \<not> is_space c) w"

lemma dropWhile_word: "list_all (\<lambda>c. \<not> P c) w \<Longrightarrow> w \<noteq> [] \<Longrightarrow> dropWhile P (w @ t) = w @ t"
  by (cases w) auto

lemma split_ws_word:
  assumes "is_word w" "t = [] \<or> is_space (hd t)"
  shows "split_ws (w @ t) = w # split_ws t"
proof -
  obtain c v where w: "w = c # v" using assms(1) by (cases w) (auto simp: is_word_def)
  with assms(1) have v: "\<forall>x \<in> set v. \<not> is_space x" and c: "\<not> is_space c"
    by (auto simp: is_word_def list_all_iff)
  have "takeWhile (\<lambda>x. \<not> is_space x) (v @ t) = v" "dropWhile (\<lambda>x. \<not> is_space x) (v @ t) = t"
    using v assms(2) by (cases t; auto simp: takeWhile_append dropWhile_append)+
  then show ?thesis using c by (simp add: w split_ws.simps [of "c # v @ t"])
qed

lemma split_ws_space: "is_space c \<Longrightarrow> split_ws (c # s) = split_ws s"
  by (subst (1 2) split_ws.simps) simp

lemma split_ws_Nil [simp]: "split_ws [] = []"
  by (simp add: split_ws.simps)

lemma split_ws_join: "\<forall>w \<in> set ws. is_word w \<Longrightarrow> split_ws (join_with 32 ws) = ws"
proof (induction "32::nat" ws rule: join_with.induct)
  case 1
  then show ?case by simp
next
  case (2 w)
  then show ?case using split_ws_word [of w "[]"] by simp
next
  case (3 w w' ws)
  have sp: "is_space 32" by (simp add: is_space_def)
  then have "split_ws (w @ 32 # join_with 32 (w' # ws)) = w # split_ws (32 # join_with 32 (w' # ws))"
    using 3(2) by (intro split_ws_word) auto
  with 3 sp show ?case by (simp add: split_ws_space)
qed

section \<open>Prefixes\<close>

text \<open>\<open>s.startswith(p)\<close> and \<open>s.removeprefix(p)\<close>.\<close>

definition startswith :: "pystr \<Rightarrow> pystr \<Rightarrow> bool" where
  "startswith s p \<longleftrightarrow> prefix p s"

definition removeprefix :: "pystr \<Rightarrow> pystr \<Rightarrow> pystr" where
  "removeprefix s p = (if startswith s p then drop (length p) s else s)"

lemma startswith_take [code]: "startswith s p \<longleftrightarrow> take (length p) s = p"
  by (auto simp: startswith_def prefix_def) (metis append_take_drop_id)

lemma startswith_append [simp]: "startswith (p @ s) p"
  by (simp add: startswith_def)

lemma removeprefix_append [simp]: "removeprefix (p @ s) p = s"
  by (simp add: removeprefix_def)

section \<open>Text comparison\<close>

definition is_ascii :: "pystr \<Rightarrow> bool" where
  "is_ascii s \<longleftrightarrow> list_all (\<lambda>c. c < 128) s"

text \<open>\<open>secrets.compare_digest\<close> of two \<open>str\<close> values raises \<open>TypeError\<close> unless both are ASCII.\<close>

definition compare_digest :: "pystr \<Rightarrow> pystr \<Rightarrow> web_error + bool" where
  "compare_digest a b = (if is_ascii a \<and> is_ascii b then Inr (a = b) else Inl TypeErr)"

definition lower_ok :: "(pystr \<Rightarrow> pystr) \<Rightarrow> bool" where
  "lower_ok f \<longleftrightarrow> (\<forall>s. is_ascii s \<longrightarrow> f s = map ascii_lower s)"

lemma map_ascii_lower_id: "(\<forall>c \<in> set s. \<not> (65 \<le> c \<and> c \<le> 90)) \<Longrightarrow> map ascii_lower s = s"
  by (induction s) (auto simp: ascii_lower_def)

end
