(* ===== verification/Security.thy ===== *)
theory Security
  imports Web_Text
begin

text \<open>
  \<open>src/atlaso/app/security.py\<close>, \<open>audit.py\<close>, \<open>token_service.py\<close>, the login credential of
  \<open>services/bootstrap_credentials.py\<close> and the API-token endpoints of \<open>routers/api_v1/identity.py\<close>:
  roles and scopes, browser sessions, API tokens, and the permission checks of requests.

  The database session of SQLAlchemy is the pair of tables \<open>work\<close> (the session's view) and \<open>disk\<close>
  (what is committed); a commit copies the first to the second and a request that ends without a
  commit loses its changes. The signed browser cookie is the record \<open>cookie\<close>, with the values the
  application stores in it. PyJWT, Argon2, SHA-256 and the Unicode case tables are fields of
  \<open>security_env\<close>. Instants are microseconds; a naive \<open>datetime\<close> keeps its own constructor.
\<close>

record security_env =
  se_text :: text_env
  se_lower :: "pystr \<Rightarrow> pystr"
  se_upper :: "pystr \<Rightarrow> pystr"
  se_float :: "pystr \<Rightarrow> json"
  jwt_encode :: "object \<Rightarrow> pystr \<Rightarrow> pystr"
  jwt_decode :: "pystr \<Rightarrow> pystr \<Rightarrow> pystr \<Rightarrow> pystr \<Rightarrow> int \<Rightarrow> object option"
  sha256_hex :: "pystr \<Rightarrow> pystr"
  argon2_verify :: "pystr \<Rightarrow> pystr \<Rightarrow> bool option"

section \<open>Roles and scopes\<close>

definition ALL_SCOPES :: "pystr list" where
  "ALL_SCOPES = map u
     [''read:dashboard'', ''read:monitoring'', ''read:interfaces'', ''write:interfaces'',
      ''read:vlans'', ''write:vlans'', ''read:routes'', ''write:routes'', ''read:wan'', ''write:wan'',
      ''read:firewall'', ''write:firewall'', ''read:dns'', ''write:dns'', ''read:dhcp'', ''write:dhcp'',
      ''read:ca'', ''write:ca'', ''write:ca-requests'', ''write:ca-revocations'', ''read:kms'',
      ''write:kms'', ''read:ldap'', ''write:ldap'', ''read:repository'', ''write:repository'',
      ''read:esxi-pxe'', ''write:esxi-pxe'', ''read:pxe'', ''write:pxe'', ''read:esx-storage'',
      ''write:esx-storage'', ''read:vcf-registry'', ''write:vcf-registry'', ''read:vcf-backups'',
      ''write:vcf-backups'', ''read:services'', ''write:services'', ''read:logs'', ''read:audit'',
      ''write:backup'', ''admin:all'']"

definition ROLE_SCOPES :: "(pystr \<times> pystr list) list" where
  "ROLE_SCOPES =
    [(u ''admin'', ALL_SCOPES),
     (u ''network-admin'', map u
       [''read:dashboard'', ''read:monitoring'', ''read:interfaces'', ''write:interfaces'',
        ''read:vlans'', ''write:vlans'', ''read:routes'', ''write:routes'', ''read:wan'', ''write:wan'',
        ''read:firewall'', ''write:firewall'', ''read:logs'', ''read:audit'']),
     (u ''service-admin'', map u
       [''read:dashboard'', ''read:monitoring'', ''read:dns'', ''write:dns'', ''read:dhcp'',
        ''write:dhcp'', ''read:ca'', ''write:ca'', ''write:ca-requests'', ''write:ca-revocations'',
        ''read:kms'', ''write:kms'', ''read:repository'', ''write:repository'', ''read:esxi-pxe'',
        ''write:esxi-pxe'', ''read:pxe'', ''write:pxe'', ''read:esx-storage'', ''write:esx-storage'',
        ''read:vcf-registry'', ''write:vcf-registry'', ''read:vcf-backups'', ''write:vcf-backups'',
        ''read:services'', ''write:services'', ''read:logs'', ''read:audit'']),
     (u ''viewer'', map u
       [''read:dashboard'', ''read:monitoring'', ''read:interfaces'', ''read:vlans'', ''read:routes'',
        ''read:wan'', ''read:firewall'', ''read:dns'', ''read:dhcp'', ''read:ca'', ''read:kms'',
        ''read:repository'', ''read:esxi-pxe'', ''read:pxe'', ''read:esx-storage'',
        ''read:vcf-registry'', ''read:vcf-backups'', ''read:services'', ''read:logs'', ''read:audit'']),
     (u ''certificate-operator'', map u
       [''read:dashboard'', ''read:monitoring'', ''read:ca'', ''write:ca-requests'',
        ''write:ca-revocations'', ''read:logs'', ''read:audit''])]"

text \<open>\<open>ROLE_PRIORITY\<close>; \<open>VALID_ROLE_VALUES\<close> is the set of the same values.\<close>

definition ROLE_PRIORITY :: "pystr list" where
  "ROLE_PRIORITY = map u
     [''admin'', ''service-admin'', ''network-admin'', ''certificate-operator'', ''viewer'']"

definition VALID_ROLE_VALUES :: "pystr set" where
  "VALID_ROLE_VALUES = set (map u
     [''admin'', ''network-admin'', ''service-admin'', ''certificate-operator'', ''viewer''])"

definition role_rank :: "pystr \<Rightarrow> nat" where
  "role_rank v = length (takeWhile (\<lambda>r. r \<noteq> v) ROLE_PRIORITY)"

definition normal_role :: "security_env \<Rightarrow> pystr \<Rightarrow> pystr" where
  "normal_role e raw = se_lower e (strip raw)"

definition add_role :: "security_env \<Rightarrow> pystr list \<Rightarrow> pystr \<Rightarrow> pystr list" where
  "add_role e acc raw =
     (let value = normal_role e raw
      in if value \<in> VALID_ROLE_VALUES \<and> value \<notin> set acc then acc @ [value] else acc)"

definition raw_roles :: "security_env \<Rightarrow> json \<Rightarrow> pystr list" where
  "raw_roles e roles = (case roles of
     JStr s \<Rightarrow> [s] | JArr xs \<Rightarrow> map (py_str (se_text e)) xs | _ \<Rightarrow> [])"

definition normalize_roles :: "security_env \<Rightarrow> json \<Rightarrow> pystr \<Rightarrow> pystr list" where
  "normalize_roles e roles fallback =
     (let normalized = foldl (add_role e) [] (raw_roles e roles);
          normalized = (if normalized = []
                        then [if fallback \<in> VALID_ROLE_VALUES then fallback else u ''viewer'']
                        else normalized)
      in sort_key role_rank normalized)"

definition role_list :: "pystr list \<Rightarrow> json" where
  "role_list rs = JArr (map JStr rs)"

definition normal_roles :: "security_env \<Rightarrow> pystr list \<Rightarrow> pystr list" where
  "normal_roles e rs = normalize_roles e (role_list rs) (u ''viewer'')"

definition roles_from_json :: "security_env \<Rightarrow> pystr option \<Rightarrow> pystr \<Rightarrow> pystr list" where
  "roles_from_json e value fallback = (case value of
     None \<Rightarrow> normal_roles e [fallback]
   | Some s \<Rightarrow>
       if s = [] then normal_roles e [fallback]
       else (case json_loads (se_float e) s of
               None \<Rightarrow> normal_roles e [fallback]
             | Some parsed \<Rightarrow> normalize_roles e parsed fallback))"

text \<open>\<open>json.dumps\<close> of a list of strings, with the default separator.\<close>

definition dumps_strings :: "pystr list \<Rightarrow> pystr" where
  "dumps_strings xs =
     91 # (case xs of [] \<Rightarrow> [] | x # t \<Rightarrow> render_str x @ concat (map (\<lambda>y. [44, 32] @ render_str y) t)) @ [93]"

definition roles_to_json :: "security_env \<Rightarrow> pystr list \<Rightarrow> pystr" where
  "roles_to_json e roles = dumps_strings (normal_roles e roles)"

definition primary_role :: "security_env \<Rightarrow> pystr list \<Rightarrow> pystr" where
  "primary_role e roles = hd (normal_roles e roles)"

definition scopes_of_role :: "pystr \<Rightarrow> pystr set" where
  "scopes_of_role r = (case map_of ROLE_SCOPES r of Some ss \<Rightarrow> set ss | None \<Rightarrow> {})"

definition scopes_for_roles :: "security_env \<Rightarrow> pystr list \<Rightarrow> pystr set" where
  "scopes_for_roles e roles =
     (let scopes = foldl (\<lambda>acc r. acc \<union> scopes_of_role r) {} (normal_roles e roles)
      in if u ''admin:all'' \<in> scopes then set ALL_SCOPES else scopes)"

definition roles_allow_scopes :: "security_env \<Rightarrow> pystr list \<Rightarrow> pystr set \<Rightarrow> bool" where
  "roles_allow_scopes e roles requested =
     (let allowed = scopes_for_roles e roles in u ''admin:all'' \<in> allowed \<or> requested \<subseteq> allowed)"

definition role_allows_scopes :: "security_env \<Rightarrow> pystr \<Rightarrow> pystr set \<Rightarrow> bool" where
  "role_allows_scopes e role requested =
     (let allowed = scopes_for_roles e (normal_roles e [role])
      in u ''admin:all'' \<in> allowed \<or> requested \<subseteq> allowed)"

definition scopes_from_string :: "pystr \<Rightarrow> pystr set" where
  "scopes_from_string scopes = set (filter (\<lambda>s. s \<noteq> []) (split_ws scopes))"

section \<open>Identities\<close>

record identity =
  id_username :: pystr
  id_roles :: "pystr list"
  id_role :: pystr
  id_scopes :: "pystr set"
  id_user_id :: "int option"
  id_token_id :: "int option"
  id_token_jti :: "pystr option"
  auth_type :: string

definition make_identity ::
  "security_env \<Rightarrow> pystr \<Rightarrow> pystr \<Rightarrow> pystr set \<Rightarrow> pystr list \<Rightarrow> int option \<Rightarrow> int option \<Rightarrow> pystr option \<Rightarrow> string
   \<Rightarrow> identity" where
  "make_identity e username role scopes roles user_id token_id token_jti kind =
     (let rs = normal_roles e (if roles = [] then [role] else roles)
      in \<lparr> id_username = username, id_roles = rs, id_role = primary_role e rs, id_scopes = scopes,
           id_user_id = user_id, id_token_id = token_id, id_token_jti = token_jti, auth_type = kind \<rparr>)"

definition can :: "identity \<Rightarrow> pystr \<Rightarrow> bool" where
  "can i scope \<longleftrightarrow> u ''admin:all'' \<in> id_scopes i \<or> scope \<in> id_scopes i"

definition has_role :: "identity \<Rightarrow> pystr \<Rightarrow> bool" where
  "has_role i role \<longleftrightarrow> role \<in> set (id_roles i)"

section \<open>Permissions of user-interface paths\<close>

definition MANAGEMENT_UI_ROOT :: pystr where "MANAGEMENT_UI_ROOT = u ''/ui/management''"

definition PUBLIC_UI_ROOT :: pystr where "PUBLIC_UI_ROOT = u ''/ui/public''"

definition UI_PATH_SCOPES :: "(pystr \<times> pystr \<times> pystr) list" where
  "UI_PATH_SCOPES = map (\<lambda>(p, r, w). (u p, u r, u w))
    [(''/vaults'', ''admin:all'', ''admin:all''),
     (''/appliance-apply'', ''admin:all'', ''admin:all''),
     (''/appliance-update'', ''admin:all'', ''admin:all''),
     (''/backup-restore'', ''admin:all'', ''admin:all''),
     (''/settings'', ''admin:all'', ''admin:all''),
     (''/users'', ''admin:all'', ''admin:all''),
     (''/certificate-authority'', ''admin:all'', ''admin:all''),
     (''/vsphere-key-providers'', ''read:kms'', ''write:kms''),
     (''/ca/requests'', ''write:ca-requests'', ''write:ca-requests''),
     (''/ca/certificates'', ''read:ca'', ''write:ca-revocations''),
     (''/authentication'', ''read:dashboard'', ''read:dashboard''),
     (''/physical-interfaces'', ''read:interfaces'', ''write:interfaces''),
     (''/vlan-interfaces'', ''read:vlans'', ''write:vlans''),
     (''/network-objects'', ''read:firewall'', ''write:firewall''),
     (''/traffic-publishing'', ''read:firewall'', ''write:firewall''),
     (''/routes-wan'', ''read:routes'', ''write:routes''),
     (''/firewall'', ''read:firewall'', ''write:firewall''),
     (''/dns'', ''read:dns'', ''write:dns''),
     (''/dhcp'', ''read:dhcp'', ''write:dhcp''),
     (''/ldap'', ''read:ldap'', ''write:ldap''),
     (''/ntp'', ''read:services'', ''write:services''),
     (''/esxi-pxe'', ''read:esxi-pxe'', ''write:esxi-pxe''),
     (''/network-boot'', ''read:pxe'', ''write:pxe''),
     (''/esx-storage'', ''read:esx-storage'', ''write:esx-storage''),
     (''/vcf-trust/root-ca'', ''read:ca'', ''write:ca''),
     (''/vcf-trust'', ''read:dashboard'', ''write:ca''),
     (''/vcf-helper/trust-root-ca'', ''read:ca'', ''write:ca''),
     (''/vcf-helper'', ''read:dns'', ''write:dns''),
     (''/vcf-offline-depot'', ''read:repository'', ''write:repository''),
     (''/vcf-private-registry'', ''read:vcf-registry'', ''write:vcf-registry''),
     (''/vcf-backups'', ''read:vcf-backups'', ''write:vcf-backups''),
     (''/services'', ''read:services'', ''write:services''),
     (''/logs'', ''read:logs'', ''read:logs''),
     (''/dashboard'', ''read:dashboard'', ''read:dashboard''),
     (''/monitor'', ''read:monitoring'', ''read:monitoring'')]"

record http_request =
  rq_method :: pystr
  rq_path :: pystr
  sec_fetch_mode :: pystr
  accept_header :: pystr
  csrf_header :: pystr

definition safe_method :: "pystr \<Rightarrow> bool" where
  "safe_method m \<longleftrightarrow> m \<in> {u ''GET'', u ''HEAD'', u ''OPTIONS''}"

text \<open>\<open>path == root or path.startswith(f"{root}/")\<close>.\<close>

definition under :: "pystr \<Rightarrow> pystr \<Rightarrow> bool" where
  "under base path \<longleftrightarrow> path = base \<or> startswith path (base @ [47])"

fun strip_ui_root :: "pystr list \<Rightarrow> pystr \<Rightarrow> pystr" where
  "strip_ui_root [] path = path"
| "strip_ui_root (r # rs) path =
     (if path = r then [47]
      else if startswith path (r @ [47]) then removeprefix path r
      else strip_ui_root rs path)"

fun first_rule :: "(pystr \<times> pystr \<times> pystr) list \<Rightarrow> pystr \<Rightarrow> (pystr \<times> pystr) option" where
  "first_rule [] path = None"
| "first_rule ((p, r, w) # rules) path = (if under p path then Some (r, w) else first_rule rules path)"

definition required_scope :: "pystr \<Rightarrow> pystr \<Rightarrow> pystr option" where
  "required_scope meth path0 =
     (let path = strip_ui_root [MANAGEMENT_UI_ROOT, PUBLIC_UI_ROOT] path0
      in if path \<in> {[47], u ''/logout''} then None
         else map_option (\<lambda>(r, w). if safe_method meth then r else w) (first_rule UI_PATH_SCOPES path))"

definition enforce_ui_path_permission :: "http_request \<Rightarrow> identity \<Rightarrow> web_error + unit" where
  "enforce_ui_path_permission rq i = (case required_scope (rq_method rq) (rq_path rq) of
     None \<Rightarrow> Inr ()
   | Some required \<Rightarrow> raise_if (\<not> can i required) (HTTPException 403 ''Missing required scope''))"

section \<open>State\<close>

datatype datetime = Naive int | Aware int

definition ensure_aware :: "datetime \<Rightarrow> datetime" where
  "ensure_aware d = (case d of Naive t \<Rightarrow> Aware t | Aware t \<Rightarrow> Aware t)"

fun instant :: "datetime \<Rightarrow> int" where
  "instant (Naive t) = t" | "instant (Aware t) = t"

record user =
  us_id :: int
  us_username :: pystr
  us_role :: pystr
  us_roles_json :: "pystr option"
  us_enabled :: bool

record browser_session =
  bs_user_id :: int
  issued_at :: datetime
  last_interactive_at :: datetime
  expired_at :: "datetime option"
  expiry_reason :: "string option"

record api_token =
  at_id :: int
  jti :: pystr
  at_name :: pystr
  at_description :: "pystr option"
  owner_user_id :: int
  owner_username :: pystr
  at_role :: pystr
  at_scopes :: pystr
  created_at :: datetime
  expires_at :: datetime
  last_used_at :: "datetime option"
  revoked_at :: "datetime option"
  revoked_by :: "pystr option"
  at_enabled :: bool
  token_hash :: pystr

record audit_event =
  actor :: pystr
  action :: string
  resource_type :: string
  resource_id :: "int option"

record appliance_policy =
  idle_timeout_minutes :: int
  token_max_lifetime_days :: int

record auth_tables =
  users :: "int \<Rightarrow> user option"
  browser_sessions :: "pystr \<Rightarrow> browser_session option"
  api_tokens :: "api_token list"
  instance_setting :: "pystr option"
  appliance_settings :: "appliance_policy option"
  audit_log :: "audit_event list"

record cookie =
  ck_user_id :: "int option"
  ck_browser_session_id :: "pystr option"
  ck_instance_id :: "pystr option"
  ck_csrf :: "pystr option"
  ck_expired_notice :: bool

definition empty_cookie :: cookie where
  "empty_cookie = \<lparr> ck_user_id = None, ck_browser_session_id = None, ck_instance_id = None,
                    ck_csrf = None, ck_expired_notice = False \<rparr>"

record auth_state =
  work :: auth_tables
  disk :: auth_tables
  cookies :: cookie

type_synonym 'a auth_prog = "(auth_state, web_error, 'a) prog"

definition change :: "(auth_tables \<Rightarrow> auth_tables) \<Rightarrow> unit auth_prog" where
  "change f = modifyS (\<lambda>s. s\<lparr>work := f (work s)\<rparr>)"

definition commit :: "unit auth_prog" where
  "commit = modifyS (\<lambda>s. s\<lparr>disk := work s\<rparr>)"

definition set_cookie :: "cookie \<Rightarrow> unit auth_prog" where
  "set_cookie c = modifyS (cookies_update (\<lambda>_. c))"

text \<open>\<open>audit.record_audit\<close>: the event joins the pending changes and all of them are committed.\<close>

definition record_audit :: "audit_event \<Rightarrow> unit auth_prog" where
  "record_audit ev =
     bindS (change (audit_log_update (\<lambda>l. l @ [ev]))) (\<lambda>_. commit)"

section \<open>Browser sessions\<close>

definition ensure_appliance_instance_id :: "pystr \<Rightarrow> pystr auth_prog" where
  "ensure_appliance_instance_id fresh =
     bindS (getS (\<lambda>s. instance_setting (work s))) (\<lambda>setting.
       case setting of
         Some v \<Rightarrow>
           if strip v \<noteq> [] then returnS (strip v)
           else bindS (change (instance_setting_update (\<lambda>_. Some fresh))) (\<lambda>_. returnS fresh)
       | None \<Rightarrow> bindS (change (instance_setting_update (\<lambda>_. Some fresh))) (\<lambda>_. returnS fresh))"

text \<open>\<open>db.get(BrowserSession, str(request.session.get(...) or ""))\<close>.\<close>

definition current_browser_session :: "auth_state \<Rightarrow> (pystr \<times> browser_session) option" where
  "current_browser_session s = (case ck_browser_session_id (cookies s) of
     None \<Rightarrow> None
   | Some b \<Rightarrow> if b = [] then None else map_option (Pair b) (browser_sessions (work s) b))"

definition expire_session :: "pystr \<Rightarrow> browser_session \<Rightarrow> int \<Rightarrow> string \<Rightarrow> unit auth_prog" where
  "expire_session b bs now reason = change (browser_sessions_update (\<lambda>m.
     m(b \<mapsto> bs\<lparr>expired_at := Some (Aware now), expiry_reason := Some reason\<rparr>)))"

text \<open>Marking a session that is not yet expired, as \<open>logout\<close> and an appliance reset do.\<close>

definition expire_if_live :: "(pystr \<times> browser_session) option \<Rightarrow> int \<Rightarrow> string \<Rightarrow> unit auth_prog" where
  "expire_if_live cur now reason = (case cur of
     None \<Rightarrow> returnS ()
   | Some (b, bs) \<Rightarrow> if expired_at bs = None then expire_session b bs now reason else returnS ())"

definition browser_request_is_interactive :: "security_env \<Rightarrow> http_request \<Rightarrow> bool" where
  "browser_request_is_interactive e rq =
     (if \<not> safe_method (se_upper e (rq_method rq)) then True
      else let fetch_mode = se_lower e (strip (sec_fetch_mode rq))
           in if fetch_mode \<noteq> [] then fetch_mode = u ''navigate''
              else sublist (u ''text/html'') (se_lower e (accept_header rq)))"

definition user_roles :: "security_env \<Rightarrow> user \<Rightarrow> pystr list auth_prog" where
  "user_roles e us =
     (let roles = roles_from_json e (us_roles_json us) (us_role us)
      in bindS (if us_roles_json us \<noteq> Some (roles_to_json e roles)
                then change (users_update (\<lambda>m. m(us_id us \<mapsto> us\<lparr>us_roles_json := Some (roles_to_json e roles)\<rparr>)))
                else returnS ())
           (\<lambda>_. returnS roles))"

definition idle_minutes :: "auth_tables \<Rightarrow> int" where
  "idle_minutes t = (case appliance_settings t of Some p \<Rightarrow> idle_timeout_minutes p | None \<Rightarrow> 30)"

definition MINUTE :: int where "MINUTE = 60000000"

definition session_identity ::
  "security_env \<Rightarrow> int \<Rightarrow> http_request \<Rightarrow> pystr \<Rightarrow> browser_session \<Rightarrow> user \<Rightarrow> identity option auth_prog" where
  "session_identity e now rq b bs us =
     bindS (getS (\<lambda>s. idle_minutes (work s))) (\<lambda>timeout.
     if now \<ge> instant (ensure_aware (last_interactive_at bs)) + timeout * MINUTE
     then bindS (expire_session b bs now ''inactivity'') (\<lambda>_.
          bindS (record_audit \<lparr> actor = us_username us, action = ''browser_session_expired'',
                                resource_type = ''auth'', resource_id = None \<rparr>) (\<lambda>_.
          bindS (set_cookie (empty_cookie\<lparr>ck_expired_notice := True\<rparr>)) (\<lambda>_.
          returnS None)))
     else
       bindS (if browser_request_is_interactive e rq
              then bindS (change (browser_sessions_update (\<lambda>m. m(b \<mapsto> bs\<lparr>last_interactive_at := Aware now\<rparr>))))
                     (\<lambda>_. commit)
              else returnS ()) (\<lambda>_.
       bindS (user_roles e us) (\<lambda>roles.
       let i = make_identity e (us_username us) (primary_role e roles) (scopes_for_roles e roles) roles
                 (Some (us_id us)) None None ''session''
       in bindS (liftS (enforce_ui_path_permission rq i)) (\<lambda>_. returnS (Some i)))))"

text \<open>From the session of the cookie to the user: a stranger's or an expired session is forgotten.\<close>

definition resume_session ::
  "security_env \<Rightarrow> int \<Rightarrow> http_request \<Rightarrow> int \<Rightarrow> pystr \<Rightarrow> browser_session \<Rightarrow> identity option auth_prog" where
  "resume_session e now rq user_id b bs =
     (if bs_user_id bs \<noteq> user_id \<or> expired_at bs \<noteq> None
      then bindS (set_cookie empty_cookie) (\<lambda>_. returnS None)
      else
        bindS (getS (\<lambda>s. users (work s) user_id)) (\<lambda>found.
        case found of
          Some us \<Rightarrow>
            if us_enabled us then session_identity e now rq b bs us
            else bindS (expire_session b bs now ''account_unavailable'') (\<lambda>_.
                 bindS commit (\<lambda>_. bindS (set_cookie empty_cookie) (\<lambda>_. returnS None)))
        | None \<Rightarrow> bindS (expire_session b bs now ''account_unavailable'') (\<lambda>_.
                 bindS commit (\<lambda>_. bindS (set_cookie empty_cookie) (\<lambda>_. returnS None)))))"

definition get_session_identity ::
  "security_env \<Rightarrow> int \<Rightarrow> pystr \<Rightarrow> http_request \<Rightarrow> identity option auth_prog" where
  "get_session_identity e now fresh rq =
     bindS (getS (\<lambda>s. ck_user_id (cookies s))) (\<lambda>uid.
     case uid of
       None \<Rightarrow> returnS None
     | Some user_id \<Rightarrow>
         if user_id = 0 then returnS None else
         bindS (getS (\<lambda>s. ck_instance_id (cookies s))) (\<lambda>inst.
         bindS (ensure_appliance_instance_id fresh) (\<lambda>own.
         if inst \<noteq> Some own
         then bindS (getS current_browser_session) (\<lambda>cur.
              bindS (expire_if_live cur now ''appliance_reset'') (\<lambda>_.
              bindS (set_cookie empty_cookie) (\<lambda>_.
              bindS commit (\<lambda>_. returnS None))))
         else
           bindS (getS current_browser_session) (\<lambda>cur.
           case cur of
             None \<Rightarrow> bindS (set_cookie empty_cookie) (\<lambda>_. returnS None)
           | Some (b, bs) \<Rightarrow> resume_session e now rq user_id b bs))))"

definition require_session_identity :: "identity option \<Rightarrow> web_error + identity" where
  "require_session_identity i = (case i of
     None \<Rightarrow> Inl (HTTPException 401 ''Authentication required'') | Some i \<Rightarrow> Inr i)"

text \<open>
  \<open>fresh_id\<close> is the new \<open>token_urlsafe(32)\<close>: the primary key refuses a value that is in use.
\<close>

definition start_browser_session :: "int \<Rightarrow> pystr \<Rightarrow> pystr \<Rightarrow> user \<Rightarrow> pystr auth_prog" where
  "start_browser_session now fresh_id fresh us =
     bindS (getS (\<lambda>s. browser_sessions (disk s) fresh_id \<noteq> None)) (\<lambda>used.
     if used then raiseS IntegrityErr else
     bindS (change (browser_sessions_update (\<lambda>m. m(fresh_id \<mapsto>
              \<lparr> bs_user_id = us_id us, issued_at = Aware now, last_interactive_at = Aware now,
                expired_at = None, expiry_reason = None \<rparr>)))) (\<lambda>_.
     bindS commit (\<lambda>_.
     bindS (ensure_appliance_instance_id fresh) (\<lambda>own.
     bindS (set_cookie (empty_cookie\<lparr>ck_user_id := Some (us_id us), ck_browser_session_id := Some fresh_id,
                                     ck_instance_id := Some own\<rparr>)) (\<lambda>_.
     returnS fresh_id)))))"

definition end_browser_session :: "int \<Rightarrow> string \<Rightarrow> unit auth_prog" where
  "end_browser_session now reason =
     bindS (getS current_browser_session) (\<lambda>cur.
     bindS (case cur of
              Some (b, bs) \<Rightarrow> if expired_at bs = None
                then bindS (expire_session b bs now reason) (\<lambda>_. commit) else returnS ()
            | None \<Rightarrow> returnS ()) (\<lambda>_.
     set_cookie empty_cookie))"

definition consume_browser_session_expired_notice :: "string option auth_prog" where
  "consume_browser_session_expired_notice =
     bindS (getS cookies) (\<lambda>c.
     bindS (set_cookie (c\<lparr>ck_expired_notice := False\<rparr>)) (\<lambda>_.
     returnS (if ck_expired_notice c then Some ''Session expired due to inactivity'' else None)))"

end
