(* ===== verification/Token_Service.thy ===== *)
theory Token_Service
  imports Security
begin

text \<open>
  API tokens: \<open>token_service.create_token_for_user\<close>, \<open>security.create_jwt\<close> and
  \<open>get_current_api_identity\<close>, the dependencies \<open>require_scope\<close> and
  \<open>require_api_or_session_scope\<close>, the token endpoints of \<open>routers/api_v1/identity.py\<close>,
  \<open>ui.revoke_user_tokens\<close>, and the bootstrap login \<open>authenticate_user\<close>.
\<close>

record jwt_settings =
  secret_key :: pystr
  jwt_issuer :: pystr
  jwt_audience :: pystr
  bootstrap_admin_username :: pystr
  bootstrap_admin_password :: pystr

record token_request =
  tc_name :: pystr
  tc_description :: "pystr option"
  tc_expires_at :: "datetime option"
  tc_scopes :: "pystr list"

definition SECOND :: int where "SECOND = 1000000"

definition DAY :: int where "DAY = 86400 * SECOND"

text \<open>\<open>int(dt.timestamp())\<close> of an instant after the epoch.\<close>

definition timestamp :: "int \<Rightarrow> int" where
  "timestamp t = t div SECOND"

definition jwt_payload ::
  "security_env \<Rightarrow> jwt_settings \<Rightarrow> pystr \<Rightarrow> pystr \<Rightarrow> pystr list \<Rightarrow> pystr list \<Rightarrow> pystr \<Rightarrow> int \<Rightarrow> int \<Rightarrow> object" where
  "jwt_payload e st subject role roles scopes j expires now =
     (let normalized = normal_roles e (if roles = [] then [role] else roles)
      in [(u ''iss'', JStr (jwt_issuer st)), (u ''aud'', JStr (jwt_audience st)),
          (u ''sub'', JStr subject), (u ''role'', JStr (primary_role e normalized)),
          (u ''roles'', role_list normalized), (u ''scope'', JStr (join_with 32 scopes)),
          (u ''jti'', JStr j), (u ''iat'', JInt (timestamp now)), (u ''exp'', JInt (timestamp expires))])"

definition create_jwt ::
  "security_env \<Rightarrow> jwt_settings \<Rightarrow> pystr \<Rightarrow> pystr \<Rightarrow> pystr list \<Rightarrow> pystr list \<Rightarrow> pystr \<Rightarrow> int \<Rightarrow> int \<Rightarrow> pystr" where
  "create_jwt e st subject role roles scopes j expires now =
     jwt_encode e (jwt_payload e st subject role roles scopes j expires now) (secret_key st)"

definition hash_token :: "security_env \<Rightarrow> pystr \<Rightarrow> pystr" where
  "hash_token e raw = sha256_hex e raw"

definition create_raw_api_token :: "pystr \<Rightarrow> pystr" where
  "create_raw_api_token random = u ''lf_'' @ random"

section \<open>Creation\<close>

definition next_id :: "api_token list \<Rightarrow> int" where
  "next_id ts = 1 + foldr max (map at_id ts) 0"

definition max_lifetime_days :: "auth_tables \<Rightarrow> int" where
  "max_lifetime_days t = (case appliance_settings t of Some p \<Rightarrow> token_max_lifetime_days p | None \<Rightarrow> 90)"

definition is_naive :: "datetime option \<Rightarrow> bool" where
  "is_naive d = (case d of Some (Naive t) \<Rightarrow> True | _ \<Rightarrow> False)"

definition token_expiry :: "int \<Rightarrow> int \<Rightarrow> datetime option \<Rightarrow> web_error + int" where
  "token_expiry now maximum_days requested =
     (let maximum = now + maximum_days * DAY
      in bindE (raise_if (is_naive requested) (HTTPException 422 ''expires_at must include a timezone'')) (\<lambda>_.
         let expires = (case requested of Some d \<Rightarrow> instant (ensure_aware d) | None \<Rightarrow> maximum)
         in bindE (raise_if (expires \<le> now) (HTTPException 422 ''expires_at must be in the future'')) (\<lambda>_.
            bindE (raise_if (expires > maximum)
                    (HTTPException 422 ''expires_at must not exceed the configured maximum lifetime'')) (\<lambda>_.
            Inr expires))))"

text \<open>
  \<open>new_jti\<close> is \<open>uuid4().hex\<close>; \<open>now'\<close> is the second reading of the clock, in \<open>create_jwt\<close>. The column
  \<open>jti\<close> is unique.
\<close>

definition create_token_for_user ::
  "security_env \<Rightarrow> jwt_settings \<Rightarrow> int \<Rightarrow> int \<Rightarrow> pystr \<Rightarrow> user \<Rightarrow> token_request \<Rightarrow> pystr \<Rightarrow> (api_token \<times> pystr) auth_prog"
where
  "create_token_for_user e st now now' new_jti us create actor_name =
     (let requested = set (tc_scopes create); ordered = sorted_list_of_set requested
      in bindS (liftS (raise_if (\<not> requested \<subseteq> set ALL_SCOPES) (HTTPException 422 ''Unknown scopes''))) (\<lambda>_.
         bindS (user_roles e us) (\<lambda>roles.
         bindS (liftS (raise_if (\<not> roles_allow_scopes e roles requested)
                  (HTTPException 403 ''Requested scopes exceed the user's role''))) (\<lambda>_.
         bindS (getS (\<lambda>s. max_lifetime_days (work s))) (\<lambda>maximum_days.
         bindS (liftS (token_expiry now maximum_days (tc_expires_at create))) (\<lambda>expires.
         let raw = create_jwt e st (us_username us) (primary_role e roles) roles ordered new_jti expires now'
         in bindS (getS (\<lambda>s. (new_jti \<in> jti ` set (api_tokens (work s)), next_id (api_tokens (work s))))) (\<lambda>(used, nid).
            if used then raiseS IntegrityErr else
            let tok = \<lparr> at_id = nid, jti = new_jti, at_name = tc_name create,
                        at_description = tc_description create, owner_user_id = us_id us,
                        owner_username = us_username us, at_role = primary_role e roles,
                        at_scopes = join_with 32 ordered, created_at = Aware now,
                        expires_at = Aware expires, last_used_at = None, revoked_at = None,
                        revoked_by = None, at_enabled = True, token_hash = hash_token e raw \<rparr>
            in bindS (change (api_tokens_update (\<lambda>ts. ts @ [tok]))) (\<lambda>_.
               bindS commit (\<lambda>_.
               bindS (record_audit \<lparr> actor = actor_name, action = ''create_api_token'',
                                     resource_type = ''api_token'', resource_id = Some nid \<rparr>) (\<lambda>_.
               returnS (tok, raw)))))))))))"

section \<open>Bearer authentication\<close>

text \<open>\<open>payload.get(k)\<close>: a missing claim reads as \<open>None\<close>.\<close>

definition claim :: "object \<Rightarrow> string \<Rightarrow> json" where
  "claim p k = (case jget p (u k) of Some v \<Rightarrow> v | None \<Rightarrow> JNull)"

definition payload_roles :: "security_env \<Rightarrow> object \<Rightarrow> pystr list" where
  "payload_roles e p = normalize_roles e (get_or p ''roles'' (JArr [claim p ''role''])) (u ''viewer'')"

definition token_by_jti :: "json \<Rightarrow> api_token list \<Rightarrow> api_token option" where
  "token_by_jti j ts = (case j of JStr s \<Rightarrow> find (\<lambda>t. jti t = s) ts | _ \<Rightarrow> None)"

definition put_token :: "api_token \<Rightarrow> api_token list \<Rightarrow> api_token list" where
  "put_token tok ts = map (\<lambda>t. if at_id t = at_id tok then tok else t) ts"

definition token_error :: "security_env \<Rightarrow> int \<Rightarrow> object \<Rightarrow> api_token option \<Rightarrow> web_error + api_token" where
  "token_error e now p found = (case found of
     None \<Rightarrow> Inl (HTTPException 401 ''Token is revoked or unknown'')
   | Some tok \<Rightarrow>
       bindE (raise_if (\<not> at_enabled tok \<or> revoked_at tok \<noteq> None) (HTTPException 401 ''Token is revoked or unknown'')) (\<lambda>_.
       bindE (raise_if (instant (ensure_aware (expires_at tok)) \<le> now) (HTTPException 401 ''Token is expired'')) (\<lambda>_.
       bindE (raise_if (JStr (owner_username tok) \<noteq> claim p ''sub'' \<or> at_role tok \<noteq> primary_role e (payload_roles e p))
                (HTTPException 401 ''Token identity mismatch'')) (\<lambda>_. Inr tok))))"

definition get_current_api_identity ::
  "security_env \<Rightarrow> jwt_settings \<Rightarrow> int \<Rightarrow> pystr option \<Rightarrow> identity auth_prog" where
  "get_current_api_identity e st now credentials = (case credentials of
     None \<Rightarrow> raiseS (HTTPException 401 ''Bearer token required'')
   | Some raw \<Rightarrow> (case jwt_decode e raw (secret_key st) (jwt_issuer st) (jwt_audience st) now of
       None \<Rightarrow> raiseS (HTTPException 401 ''Invalid bearer token'')
     | Some p \<Rightarrow>
         bindS (getS (\<lambda>s. token_by_jti (claim p ''jti'') (api_tokens (work s)))) (\<lambda>found.
         bindS (liftS (token_error e now p found)) (\<lambda>tok.
         bindS (change (api_tokens_update (put_token (tok\<lparr>last_used_at := Some (Aware now)\<rparr>)))) (\<lambda>_.
         bindS commit (\<lambda>_.
         let roles = payload_roles e p
         in returnS (make_identity e (owner_username tok) (primary_role e roles)
                       (scopes_from_string (at_scopes tok)) roles (Some (owner_user_id tok))
                       (Some (at_id tok)) (Some (jti tok)) ''bearer'')))))))"

section \<open>Scope dependencies\<close>

definition check_scope :: "pystr \<Rightarrow> identity \<Rightarrow> web_error + identity" where
  "check_scope scope i = bindE (raise_if (\<not> can i scope) (HTTPException 403 ''Missing required scope'')) (\<lambda>_. Inr i)"

definition require_scope ::
  "security_env \<Rightarrow> jwt_settings \<Rightarrow> int \<Rightarrow> pystr \<Rightarrow> pystr option \<Rightarrow> identity auth_prog" where
  "require_scope e st now scope credentials =
     bindS (get_current_api_identity e st now credentials) (\<lambda>i. liftS (check_scope scope i))"

text \<open>The token of the header must equal the token of the cookie, and neither may be empty.\<close>

definition check_csrf :: "http_request \<Rightarrow> cookie \<Rightarrow> web_error + unit" where
  "check_csrf rq c =
     (let supplied = csrf_header rq; expected = (case ck_csrf c of None \<Rightarrow> [] | Some t \<Rightarrow> t)
      in if supplied = [] \<or> expected = [] then Inl (HTTPException 403 ''Invalid CSRF token'')
         else bindE (compare_digest supplied expected) (\<lambda>same.
              raise_if (\<not> same) (HTTPException 403 ''Invalid CSRF token'')))"

definition require_api_or_session_scope ::
  "security_env \<Rightarrow> jwt_settings \<Rightarrow> int \<Rightarrow> pystr \<Rightarrow> pystr \<Rightarrow> http_request \<Rightarrow> pystr option \<Rightarrow> identity auth_prog" where
  "require_api_or_session_scope e st now fresh scope rq credentials =
     bindS (case credentials of
              Some raw \<Rightarrow> get_current_api_identity e st now credentials
            | None \<Rightarrow>
                bindS (get_session_identity e now fresh rq) (\<lambda>found.
                case found of
                  None \<Rightarrow> raiseS (HTTPException 401 ''Authentication required'')
                | Some i \<Rightarrow>
                    if safe_method (rq_method rq) then returnS i
                    else bindS (getS cookies) (\<lambda>c. bindS (liftS (check_csrf rq c)) (\<lambda>_. returnS i))))
       (\<lambda>i. liftS (check_scope scope i))"

section \<open>Endpoints\<close>

definition create_api_token ::
  "security_env \<Rightarrow> jwt_settings \<Rightarrow> int \<Rightarrow> int \<Rightarrow> pystr \<Rightarrow> pystr option \<Rightarrow> token_request \<Rightarrow> (api_token \<times> pystr) auth_prog"
where
  "create_api_token e st now now' new_jti credentials create =
     bindS (require_scope e st now (u ''read:dashboard'') credentials) (\<lambda>i.
     bindS (getS (\<lambda>s. Option.bind (id_user_id i) (users (work s)))) (\<lambda>found.
     case found of
       None \<Rightarrow> raiseS (HTTPException 404 ''Current user not found'')
     | Some us \<Rightarrow> create_token_for_user e st now now' new_jti us create (id_username i)))"

definition visible_token :: "identity \<Rightarrow> int \<Rightarrow> api_token list \<Rightarrow> web_error + api_token" where
  "visible_token i token_id ts = (case find (\<lambda>t. at_id t = token_id) ts of
     None \<Rightarrow> Inl (HTTPException 404 ''API token not found'')
   | Some tok \<Rightarrow> bindE (raise_if (\<not> has_role i (u ''admin'') \<and> Some (owner_user_id tok) \<noteq> id_user_id i)
                   (HTTPException 404 ''API token not found'')) (\<lambda>_. Inr tok))"

definition list_api_tokens :: "identity \<Rightarrow> api_token list \<Rightarrow> api_token list" where
  "list_api_tokens i ts =
     (let ordered = rev (sort_key (\<lambda>t. instant (created_at t)) ts)
      in if has_role i (u ''admin'') then ordered
         else filter (\<lambda>t. Some (owner_user_id t) = id_user_id i) ordered)"

definition revoke_token :: "int \<Rightarrow> api_token \<Rightarrow> identity \<Rightarrow> api_token auth_prog" where
  "revoke_token now tok i =
     (let tok' = tok\<lparr>at_enabled := False, revoked_at := Some (Aware now), revoked_by := Some (id_username i)\<rparr>
      in bindS (change (api_tokens_update (put_token tok'))) (\<lambda>_.
         bindS commit (\<lambda>_.
         bindS (record_audit \<lparr> actor = id_username i, action = ''revoke_api_token'',
                               resource_type = ''api_token'', resource_id = Some (at_id tok) \<rparr>) (\<lambda>_.
         returnS tok'))))"

definition revoke_api_token ::
  "security_env \<Rightarrow> jwt_settings \<Rightarrow> int \<Rightarrow> pystr option \<Rightarrow> int \<Rightarrow> api_token auth_prog" where
  "revoke_api_token e st now credentials token_id =
     bindS (require_scope e st now (u ''read:dashboard'') credentials) (\<lambda>i.
     bindS (getS (\<lambda>s. visible_token i token_id (api_tokens (work s)))) (\<lambda>found.
     bindS (liftS found) (\<lambda>tok. revoke_token now tok i)))"

text \<open>\<open>ui.revoke_user_tokens\<close>: the caller commits.\<close>

definition revoke_user_tokens :: "int \<Rightarrow> user \<Rightarrow> pystr \<Rightarrow> unit auth_prog" where
  "revoke_user_tokens now us actor_name = change (api_tokens_update (map (\<lambda>t.
     if owner_user_id t = us_id us \<and> revoked_at t = None \<and> at_enabled t
     then t\<lparr>at_enabled := False, revoked_at := Some (Aware now), revoked_by := Some actor_name\<rparr> else t)))"

section \<open>Login of the bootstrap administrator\<close>

text \<open>The verifier file of \<open>bootstrap_credentials.py\<close>: its kind, and its text unless reading fails.\<close>

record verifier_file =
  vf_symlink :: bool
  vf_exists :: bool
  vf_regular :: bool
  vf_resolves_to_itself :: bool
  vf_size :: nat
  vf_text :: "pystr option"

definition bootstrap_admin_password_matches ::
  "security_env \<Rightarrow> verifier_file \<Rightarrow> pystr \<Rightarrow> pystr \<Rightarrow> web_error + bool" where
  "bootstrap_admin_password_matches e vf password configured =
     (if vf_symlink vf then Inr False
      else if \<not> vf_exists vf then compare_digest password configured
      else if \<not> vf_regular vf \<or> \<not> vf_resolves_to_itself vf then Inr False
      else if vf_size vf > 4096 then Inr False
      else (case vf_text vf of
              None \<Rightarrow> Inr False
            | Some t \<Rightarrow>
                if strip t = [] then Inr False
                else (case argon2_verify e (strip t) password of None \<Rightarrow> Inr False | Some b \<Rightarrow> Inr b)))"

definition authenticate_user ::
  "security_env \<Rightarrow> jwt_settings \<Rightarrow> verifier_file \<Rightarrow> user option \<Rightarrow> pystr \<Rightarrow> web_error + user option" where
  "authenticate_user e st vf found password = (case found of
     None \<Rightarrow> Inr None
   | Some us \<Rightarrow>
       if us_enabled us \<and> us_username us = bootstrap_admin_username st
       then bindE (bootstrap_admin_password_matches e vf password (bootstrap_admin_password st))
              (\<lambda>ok. Inr (if ok then Some us else None))
       else Inr None)"

section \<open>The lifetime policy\<close>

definition authentication_lifetime_validation_error :: "int \<Rightarrow> int \<Rightarrow> string option" where
  "authentication_lifetime_validation_error idle days =
     (if \<not> (5 \<le> idle \<and> idle \<le> 1440) then Some ''Browser session inactivity timeout must be between ''
      else if \<not> (1 \<le> days \<and> days \<le> 365) then Some ''Maximum API token lifetime must be between ''
      else None)"

end
