(* ===== verification/Security_Props.thy ===== *)
theory Security_Props
  imports Security
begin

text \<open>
  Roles are normalised to a canonical list, the rule that decides a user-interface path is the most
  specific one, and an expired browser session never comes back.
\<close>

section \<open>Normalised roles\<close>

lemma valid_roles_ascii:
  "v \<in> VALID_ROLE_VALUES \<Longrightarrow> is_ascii v \<and> (\<forall>c \<in> set v. \<not> (65 \<le> c \<and> c \<le> 90)) \<and> strip v = v"
  by (auto simp: VALID_ROLE_VALUES_def is_ascii_def u_def of_char_def strip_def lstrip_def rstrip_def is_space_def)

lemma normal_role_valid:
  assumes "lower_ok (se_lower e)" "v \<in> VALID_ROLE_VALUES"
  shows "normal_role e v = v"
  using valid_roles_ascii [OF assms(2)] assms(1) map_ascii_lower_id [of v]
  by (auto simp: normal_role_def lower_ok_def)

lemma foldl_add_role:
  "set acc \<subseteq> VALID_ROLE_VALUES \<and> distinct acc \<Longrightarrow>
   set (foldl (add_role e) acc raws) \<subseteq> VALID_ROLE_VALUES \<and> distinct (foldl (add_role e) acc raws)"
  by (induction raws arbitrary: acc) (auto simp: add_role_def Let_def)

lemma set_foldl_add_role:
  "set (foldl (add_role e) acc raws) = set acc \<union> {v \<in> normal_role e ` set raws. v \<in> VALID_ROLE_VALUES}"
  by (induction raws arbitrary: acc) (auto simp: add_role_def Let_def)

lemma normalize_roles_props:
  "set (normalize_roles e roles fb) \<subseteq> VALID_ROLE_VALUES"
  "distinct (normalize_roles e roles fb)"
  "sorted (map role_rank (normalize_roles e roles fb))"
  "normalize_roles e roles fb \<noteq> []"
proof -
  let ?n = "foldl (add_role e) [] (raw_roles e roles)"
  have n: "set ?n \<subseteq> VALID_ROLE_VALUES" "distinct ?n" using foldl_add_role [of "[]" e] by simp_all
  have v: "u ''viewer'' \<in> VALID_ROLE_VALUES" by (simp add: VALID_ROLE_VALUES_def)
  show "set (normalize_roles e roles fb) \<subseteq> VALID_ROLE_VALUES" "distinct (normalize_roles e roles fb)"
    "sorted (map role_rank (normalize_roles e roles fb))"
    using n v by (simp_all add: normalize_roles_def Let_def)
  show "normalize_roles e roles fb \<noteq> []"
    by (simp add: normalize_roles_def Let_def) (metis length_0_conv length_sort)
qed

lemma role_rank_inj: "inj_on role_rank VALID_ROLE_VALUES"
  by (simp add: inj_on_def VALID_ROLE_VALUES_def role_rank_def ROLE_PRIORITY_def)

lemma foldl_add_role_id:
  assumes "lower_ok (se_lower e)"
  shows "set acc \<subseteq> VALID_ROLE_VALUES \<Longrightarrow> set rs \<subseteq> VALID_ROLE_VALUES \<Longrightarrow> distinct (acc @ rs) \<Longrightarrow>
         foldl (add_role e) acc rs = acc @ rs"
  by (induction rs arbitrary: acc) (auto simp: add_role_def Let_def normal_role_valid [OF assms])

lemma raw_roles_role_list [simp]: "raw_roles e (role_list rs) = rs"
  by (simp add: raw_roles_def role_list_def comp_def py_str_def)

lemma normal_roles_canonical:
  assumes "lower_ok (se_lower e)" "set rs \<subseteq> VALID_ROLE_VALUES" "distinct rs" "sorted (map role_rank rs)" "rs \<noteq> []"
  shows "normal_roles e rs = rs"
  using foldl_add_role_id [OF assms(1), of "[]" rs] assms(2-5)
  by (simp add: normal_roles_def normalize_roles_def Let_def sort_key_id_if_sorted)

lemma normal_roles_normalize:
  "lower_ok (se_lower e) \<Longrightarrow> normal_roles e (normalize_roles e roles fb) = normalize_roles e roles fb"
  by (intro normal_roles_canonical normalize_roles_props)

lemma roles_from_json_normal:
  "\<exists>j fb'. roles_from_json e v fb = normalize_roles e j fb'"
  by (auto simp: roles_from_json_def normal_roles_def split: option.splits)

lemma normal_roles_from_json:
  "lower_ok (se_lower e) \<Longrightarrow> normal_roles e (roles_from_json e v fb) = roles_from_json e v fb"
  using roles_from_json_normal [of e v fb] by (auto simp: normal_roles_normalize)

text \<open>Two inputs with the same set of roles normalise to the same list.\<close>

lemma normalize_roles_set_only:
  assumes "set (raw_roles e a) = set (raw_roles e b)"
  shows "normalize_roles e a fb = normalize_roles e b fb"
proof (cases "foldl (add_role e) [] (raw_roles e a) = []")
  case True
  then have "foldl (add_role e) [] (raw_roles e b) = []"
    by (metis assms set_empty set_foldl_add_role)
  with True show ?thesis by (simp add: normalize_roles_def)
next
  case False
  then have ne: "foldl (add_role e) [] (raw_roles e b) \<noteq> []"
    by (metis assms set_empty set_foldl_add_role)
  let ?a = "normalize_roles e a fb" and ?b = "normalize_roles e b fb"
  have s: "set ?a = set ?b"
    using False ne assms set_foldl_add_role [of e "[]"] by (simp add: normalize_roles_def Let_def)
  show ?thesis
  proof (rule map_inj_on)
    show "inj_on role_rank (set ?a \<union> set ?b)"
      using role_rank_inj normalize_roles_props(1) [of e] by (meson inj_on_subset le_sup_iff)
    have i: "inj_on role_rank (set ?a)" "inj_on role_rank (set ?b)"
      using role_rank_inj normalize_roles_props(1) [of e] by (meson inj_on_subset)+
    show "map role_rank ?a = map role_rank ?b"
      by (rule sorted_distinct_set_unique)
        (use s i normalize_roles_props in \<open>simp_all add: distinct_map\<close>)
  qed
qed

section \<open>The permission table\<close>

lemma under_trans_shorter:
  assumes "under p path" "under q path" "length p < length q"
  shows "under p q"
proof -
  have q: "prefix q path" using assms(2) by (auto simp: under_def startswith_def dest: append_prefixD)
  have "path \<noteq> p" using assms(3) q by (auto dest: prefix_length_le)
  then have "prefix (p @ [47]) path" using assms(1) by (simp add: under_def startswith_def)
  with q assms(3) have "prefix (p @ [47]) q" by (auto intro: prefix_length_prefix)
  then show ?thesis by (simp add: under_def startswith_def)
qed

lemma under_same_length: "under p path \<Longrightarrow> under q path \<Longrightarrow> length p = length q \<Longrightarrow> p = q"
  by (auto simp: under_def startswith_def prefix_def)

lemma under_refl [simp]: "under p p"
  by (simp add: under_def)

text \<open>No rule is shadowed: an earlier rule never covers the path of a later one.\<close>

definition unshadowed :: "(pystr \<times> pystr \<times> pystr) list \<Rightarrow> bool" where
  "unshadowed rules = sorted_wrt (\<lambda>a b. \<not> under (fst a) (fst b)) rules"

lemma first_rule_longest:
  assumes "unshadowed rules"
  shows "first_rule rules path = Some rw \<longleftrightarrow>
    (\<exists>p. (p, rw) \<in> set rules \<and> under p path \<and> (\<forall>r \<in> set rules. under (fst r) path \<longrightarrow> length (fst r) \<le> length p))"
  using assms
proof (induction rules)
  case (Cons x rules)
  obtain p rw' where x: "x = (p, rw')" by (cases x)
  from Cons.prems have un: "unshadowed rules" and px: "\<forall>r \<in> set rules. \<not> under p (fst r)"
    by (auto simp: unshadowed_def x)
  show ?case
  proof (cases "under p path")
    case True
    have longest: "\<forall>r \<in> set rules. under (fst r) path \<longrightarrow> length (fst r) < length p"
      using px under_trans_shorter [OF True] under_same_length [OF True] by (metis linorder_neqE_nat under_refl)
    have "first_rule (x # rules) path = Some rw'" using True by (cases rw') (simp add: x)
    with True longest show ?thesis by (fastforce simp: x)
  next
    case False
    have "first_rule (x # rules) path = first_rule rules path" using False by (cases rw') (simp add: x)
    with Cons.IH [OF un] False show ?thesis by (auto simp: x)
  qed
qed simp

lemma under_u: "under (u p) (u q) \<longleftrightarrow> p = q \<or> prefix (p @ ''/'') q"
proof -
  have "u p @ [47] = u (p @ ''/'')" by (simp add: u_def of_char_def)
  then have "prefix (u p @ [47]) (u q) \<longleftrightarrow> prefix (p @ ''/'') q"
    by (metis u_def map_mono_prefix prefix_map_rightE u_eq_iff)
  then show ?thesis by (auto simp: under_def startswith_def)
qed

definition ui_prefixes :: "string list" where
  "ui_prefixes =
    [''/vaults'', ''/appliance-apply'', ''/appliance-update'', ''/backup-restore'', ''/settings'',
     ''/users'', ''/certificate-authority'', ''/vsphere-key-providers'', ''/ca/requests'',
     ''/ca/certificates'', ''/authentication'', ''/physical-interfaces'', ''/vlan-interfaces'',
     ''/network-objects'', ''/traffic-publishing'', ''/routes-wan'', ''/firewall'', ''/dns'',
     ''/dhcp'', ''/ldap'', ''/ntp'', ''/esxi-pxe'', ''/network-boot'', ''/esx-storage'',
     ''/vcf-trust/root-ca'', ''/vcf-trust'', ''/vcf-helper/trust-root-ca'', ''/vcf-helper'',
     ''/vcf-offline-depot'', ''/vcf-private-registry'', ''/vcf-backups'', ''/services'', ''/logs'',
     ''/dashboard'', ''/monitor'']"

lemma fst_UI_PATH_SCOPES: "map fst UI_PATH_SCOPES = map u ui_prefixes"
  by (simp only: UI_PATH_SCOPES_def ui_prefixes_def list.map prod.case fst_conv)

lemma ui_prefixes_unshadowed:
  "sorted_wrt (\<lambda>p q. \<not> (p = q \<or> take (Suc (length p)) q = p @ ''/'')) ui_prefixes"
  by code_simp

lemma prefix_take: "prefix p q \<longleftrightarrow> take (length p) q = p"
  by (auto simp: prefix_def) (metis append_take_drop_id)

lemma UI_PATH_SCOPES_unshadowed: "unshadowed UI_PATH_SCOPES"
proof -
  have "sorted_wrt (\<lambda>a b. \<not> under a b) (map fst UI_PATH_SCOPES)"
    using ui_prefixes_unshadowed by (simp add: fst_UI_PATH_SCOPES sorted_wrt_map under_u prefix_take)
  then show ?thesis by (simp add: unshadowed_def sorted_wrt_map)
qed

section \<open>The session prefix of a program\<close>

lemma keeps_getS: "(\<And>s. P s \<Longrightarrow> P (snd (f (g s) s))) \<Longrightarrow> keeps P (bindS (getS g) f)"
  by (simp add: keeps_def)

lemma keeps_set_cookie: "(\<And>s. P s \<Longrightarrow> P (s\<lparr>cookies := c\<rparr>)) \<Longrightarrow> keeps P (set_cookie c)"
  by (simp add: keeps_def set_cookie_def modifyS_def)

lemma keeps_change: "(\<And>s. P s \<Longrightarrow> P (s\<lparr>work := f (work s)\<rparr>)) \<Longrightarrow> keeps P (change f)"
  by (simp add: keeps_def change_def modifyS_def)

lemma keeps_commit: "(\<And>s. P s \<Longrightarrow> P (s\<lparr>disk := work s\<rparr>)) \<Longrightarrow> keeps P commit"
  by (simp add: keeps_def commit_def modifyS_def)

text \<open>The session \<open>b\<close> has ended, in the committed tables and in the view of the current request.\<close>

definition ended :: "pystr \<Rightarrow> browser_session \<Rightarrow> auth_state \<Rightarrow> bool" where
  "ended b bs s \<longleftrightarrow> expired_at bs \<noteq> None
     \<and> browser_sessions (work s) b = Some bs \<and> browser_sessions (disk s) b = Some bs"

lemma keeps_option [keeps_intros]:
  "keeps P m \<Longrightarrow> (\<And>x. keeps P (f x)) \<Longrightarrow> keeps P (case v of None \<Rightarrow> m | Some x \<Rightarrow> f x)"
  by (cases v) simp_all

lemma ended_change: "(\<And>t. browser_sessions (f t) = browser_sessions t) \<Longrightarrow> keeps (ended b bs) (change f)"
  by (auto simp: ended_def intro!: keeps_change)

lemma ended_commit [keeps_intros]: "keeps (ended b bs) commit"
  by (auto simp: ended_def intro!: keeps_commit)

lemma ended_set_cookie [keeps_intros]: "keeps (ended b bs) (set_cookie c)"
  by (auto simp: ended_def intro!: keeps_set_cookie)

lemma ended_record_audit [keeps_intros]: "keeps (ended b bs) (record_audit ev)"
  unfolding record_audit_def by (intro keeps_intros ended_change) simp

lemma ended_instance_id [keeps_intros]: "keeps (ended b bs) (ensure_appliance_instance_id fresh)"
  unfolding ensure_appliance_instance_id_def by (intro keeps_intros ended_change) simp_all

lemma ended_user_roles [keeps_intros]: "keeps (ended b bs) (user_roles e us)"
  unfolding user_roles_def Let_def by (intro keeps_intros ended_change) simp_all

lemma ended_expire:
  "b' \<noteq> b \<Longrightarrow> keeps (ended b bs) (expire_session b' bs' now reason)"
  by (auto simp: expire_session_def ended_def intro!: keeps_change)

lemma current_not_ended:
  "ended b bs s \<Longrightarrow> current_browser_session s = Some (b', bs') \<Longrightarrow> expired_at bs' = None \<Longrightarrow> b' \<noteq> b"
  by (auto simp: ended_def current_browser_session_def split: option.splits if_splits)

lemma ended_expire_if_live:
  "ended b bs s \<Longrightarrow> cur = current_browser_session s \<Longrightarrow> ended b bs s' \<Longrightarrow>
   ended b bs (snd (expire_if_live cur now reason s'))"
  using current_not_ended [of b bs s] keepsD [OF ended_expire, of _ b bs s']
  by (auto simp: expire_if_live_def returnS_def split: option.split)

lemma ended_session_identity:
  assumes "b' \<noteq> b"
  shows "keeps (ended b bs) (session_identity e now rq b' bs' us)"
proof -
  have ch: "keeps (ended b bs) (change (browser_sessions_update (\<lambda>m. m(b' \<mapsto> x))))" for x
    using assms by (auto simp: ended_def intro!: keeps_change)
  show ?thesis
    unfolding session_identity_def Let_def using assms
    by (intro keeps_intros ended_expire ch)
qed

text \<open>A read of the session table keeps the knowledge of what it returned.\<close>

lemma keeps_read_session:
  assumes "keeps (ended b bs) (f None)"
    "\<And>b' bs'. expired_at bs' = None \<longrightarrow> b' \<noteq> b \<Longrightarrow> keeps (ended b bs) (f (Some (b', bs')))"
  shows "keeps (ended b bs) (bindS (getS current_browser_session) f)"
proof (rule keeps_getS)
  fix s assume "ended b bs s"
  then show "ended b bs (snd (f (current_browser_session s) s))"
    using assms current_not_ended [of b bs s] by (cases "current_browser_session s") (auto simp: keeps_def)
qed

lemma ended_reset:
  "keeps (ended b bs) (bindS (getS current_browser_session) (\<lambda>cur.
     bindS (expire_if_live cur now reason) (\<lambda>_. bindS (set_cookie c) (\<lambda>_. bindS commit (\<lambda>_. returnS x)))))"
  by (rule keeps_read_session) (auto simp: expire_if_live_def intro!: keeps_intros ended_expire)

lemma ended_resume_session:
  assumes "expired_at bs' = None \<longrightarrow> b' \<noteq> b"
  shows "keeps (ended b bs) (resume_session e now rq uid b' bs')"
proof (cases "bs_user_id bs' \<noteq> uid \<or> expired_at bs' \<noteq> None")
  case True
  then show ?thesis by (simp only: resume_session_def if_True) (intro keeps_intros)
next
  case False
  with assms have "b' \<noteq> b" by simp
  then show ?thesis
    unfolding resume_session_def if_not_P [OF False]
    by (intro keeps_intros ended_expire ended_session_identity)
qed

lemma ended_resume:
  "keeps (ended b bs) (bindS (getS current_browser_session) (\<lambda>cur.
     case cur of
       None \<Rightarrow> bindS (set_cookie empty_cookie) (\<lambda>_. returnS None)
     | Some (b', bs') \<Rightarrow> resume_session e now rq uid b' bs'))"
  by (rule keeps_read_session) (simp_all only: option.case prod.case, auto intro!: keeps_intros ended_resume_session)

lemma ended_get_session_identity: "keeps (ended b bs) (get_session_identity e now fresh rq)"
  unfolding get_session_identity_def
  by (rule keeps_bindS keeps_option keeps_if ended_reset ended_resume ended_instance_id
       | intro keeps_basic)+

lemma ended_end_browser_session: "keeps (ended b bs) (end_browser_session now reason)"
  unfolding end_browser_session_def
  by (intro keeps_read_session) (auto intro!: keeps_intros ended_expire)

lemma ended_start_browser_session: "keeps (ended b bs) (start_browser_session now fresh_id fresh us)"
  unfolding start_browser_session_def
proof (rule keeps_getS)
  fix s
  assume s: "ended b bs s"
  show "ended b bs (snd ((if browser_sessions (disk s) fresh_id \<noteq> None then raiseS IntegrityErr else
     bindS (change (browser_sessions_update (\<lambda>m. m(fresh_id \<mapsto>
              \<lparr> bs_user_id = us_id us, issued_at = Aware now, last_interactive_at = Aware now,
                expired_at = None, expiry_reason = None \<rparr>)))) (\<lambda>_.
     bindS commit (\<lambda>_.
     bindS (ensure_appliance_instance_id fresh) (\<lambda>own.
     bindS (set_cookie (empty_cookie\<lparr>ck_user_id := Some (us_id us), ck_browser_session_id := Some fresh_id,
                                     ck_instance_id := Some own\<rparr>)) (\<lambda>_.
     returnS fresh_id))))) s))"
  proof (cases "browser_sessions (disk s) fresh_id \<noteq> None")
    case False
    then have "fresh_id \<noteq> b" using s by (auto simp: ended_def)
    then have "keeps (ended b bs) (change (browser_sessions_update (\<lambda>m. m(fresh_id \<mapsto> x))))" for x
      by (auto simp: ended_def intro!: keeps_change)
    note this [keeps_intros]
    show ?thesis unfolding if_not_P [OF False] using s
      by (intro keepsD [where P = "ended b bs"] keeps_intros)
  qed (use s in \<open>simp add: raiseS_def\<close>)
qed

end
