(* ===== verification/Token_Props.thy ===== *)
theory Token_Props
  imports Token_Service Security_Props
begin

text \<open>
  Steps of the authentication state: every operation of \<open>Security\<close> and \<open>Token_Service\<close> runs in a request
  of its own, with the cookie its browser sends. Ended browser sessions and revoked tokens are shown
  to stay so under all of them.
\<close>

section \<open>Requests\<close>

definition in_request :: "cookie \<Rightarrow> 'a auth_prog \<Rightarrow> 'a auth_prog" where
  "in_request c p s = p (s\<lparr>work := disk s, cookies := c\<rparr>)"

inductive auth_step :: "auth_state \<Rightarrow> auth_state \<Rightarrow> bool" where
  browse: "auth_step s (snd (in_request c (get_session_identity e now fresh rq) s))"
| login: "auth_step s (snd (in_request c (start_browser_session now fresh_id fresh us) s))"
| logout: "auth_step s (snd (in_request c (end_browser_session now reason) s))"
| notice: "auth_step s (snd (in_request c consume_browser_session_expired_notice s))"
| scoped: "auth_step s (snd (in_request c (require_api_or_session_scope e st now fresh scope rq cred) s))"
| create: "auth_step s (snd (in_request c (create_api_token e st now now' new_jti cred req) s))"
| create_ui: "auth_step s (snd (in_request c (create_token_for_user e st now now' new_jti us req a) s))"
| revoke: "auth_step s (snd (in_request c (revoke_api_token e st now cred tid) s))"
| revoke_all: "auth_step s (snd (in_request c (bindS (revoke_user_tokens now us a) (\<lambda>_. commit)) s))"
| administer: "browser_sessions t = browser_sessions (disk s) \<Longrightarrow> api_tokens t = api_tokens (disk s) \<Longrightarrow>
    auth_step s (s\<lparr>disk := t\<rparr>)"

text \<open>
  A property of the tables that every operation keeps in the request's view and on disk is kept by
  every step.
\<close>

definition both :: "(auth_tables \<Rightarrow> bool) \<Rightarrow> auth_state \<Rightarrow> bool" where
  "both P s \<longleftrightarrow> P (work s) \<and> P (disk s)"

lemma both_in_request: "keeps (both P) p \<Longrightarrow> P (disk s) \<Longrightarrow> P (disk (snd (in_request c p s)))"
  by (auto simp: both_def keeps_def in_request_def)

lemma both_change: "(\<And>t. P t \<Longrightarrow> P (f t)) \<Longrightarrow> keeps (both P) (change f)"
  by (auto simp: both_def intro!: keeps_change)

lemma both_commit [keeps_intros]: "keeps (both P) commit"
  by (auto simp: both_def intro!: keeps_commit)

lemma both_set_cookie [keeps_intros]: "keeps (both P) (set_cookie c)"
  by (auto simp: both_def intro!: keeps_set_cookie)

section \<open>Ended sessions under the token operations\<close>

lemma ended_api [keeps_intros]: "keeps (ended b bs) (get_current_api_identity e st now cred)"
  unfolding get_current_api_identity_def Let_def by (intro keeps_intros ended_change) simp_all

lemma ended_require_scope [keeps_intros]: "keeps (ended b bs) (require_scope e st now sc cred)"
  unfolding require_scope_def by (intro keeps_intros)

lemma ended_require_api_or_session [keeps_intros]:
  "keeps (ended b bs) (require_api_or_session_scope e st now fresh sc rq cred)"
  unfolding require_api_or_session_scope_def by (intro keeps_intros ended_get_session_identity)

lemma keeps_prod [keeps_intros]: "(\<And>a b. keeps P (f a b)) \<Longrightarrow> keeps P (case x of (a, b) \<Rightarrow> f a b)"
  by (cases x) simp

lemma ended_create_token [keeps_intros]:
  "keeps (ended b bs) (create_token_for_user e st now now' j us req a)"
  unfolding create_token_for_user_def Let_def by (intro keeps_intros ended_change) simp_all

lemma ended_create_api_token: "keeps (ended b bs) (create_api_token e st now now' j cred req)"
  unfolding create_api_token_def by (intro keeps_intros)

lemma ended_revoke_token [keeps_intros]: "keeps (ended b bs) (revoke_token now tok i)"
  unfolding revoke_token_def Let_def by (intro keeps_intros ended_change) simp_all

lemma ended_revoke_api_token: "keeps (ended b bs) (revoke_api_token e st now cred tid)"
  unfolding revoke_api_token_def by (intro keeps_intros)

lemma ended_revoke_user_tokens [keeps_intros]: "keeps (ended b bs) (revoke_user_tokens now us a)"
  unfolding revoke_user_tokens_def by (intro ended_change) simp

lemma ended_notice: "keeps (ended b bs) consume_browser_session_expired_notice"
  unfolding consume_browser_session_expired_notice_def by (intro keeps_intros)

lemma ended_in_request:
  assumes "keeps (ended b bs) p" "expired_at bs \<noteq> None" "browser_sessions (disk s) b = Some bs"
  shows "browser_sessions (disk (snd (in_request c p s))) b = Some bs"
proof -
  have "ended b bs (s\<lparr>work := disk s, cookies := c\<rparr>)" using assms(2,3) by (simp add: ended_def)
  from keepsD [OF assms(1) this] show ?thesis by (simp add: in_request_def ended_def)
qed

lemma ended_step:
  assumes "auth_step s s'" "expired_at bs \<noteq> None" "browser_sessions (disk s) b = Some bs"
  shows "browser_sessions (disk s') b = Some bs"
  using assms(1)
proof cases
  case administer
  then show ?thesis using assms(3) by simp
qed (simp_all only:, (rule ended_in_request [OF _ assms(2,3)];
       intro keeps_intros ended_get_session_identity ended_start_browser_session ended_end_browser_session
         ended_notice ended_create_api_token ended_revoke_api_token)+)

lemma ended_steps:
  assumes "auth_step\<^sup>*\<^sup>* s s'" "expired_at bs \<noteq> None" "browser_sessions (disk s) b = Some bs"
  shows "browser_sessions (disk s') b = Some bs"
  using assms(1,3) by (induction rule: rtranclp_induct) (auto intro: ended_step [OF _ assms(2)])

lemma ended_no_identity:
  assumes "browser_sessions (disk s) b = Some bs" "expired_at bs \<noteq> None" "ck_browser_session_id c = Some b"
  shows "fst (in_request c (get_session_identity e now fresh rq) s) = Inr None"
  using assms
  by (auto simp: in_request_def get_session_identity_def resume_session_def ensure_appliance_instance_id_def bindS_def prog_defs
      current_browser_session_def expire_if_live_def expire_session_def change_def commit_def set_cookie_def
      split: option.split)

section \<open>Revoked tokens\<close>

definition dead_token :: "pystr \<Rightarrow> auth_tables \<Rightarrow> bool" where
  "dead_token j t \<longleftrightarrow> distinct (map at_id (api_tokens t)) \<and> j \<in> jti ` set (api_tokens t)
     \<and> (\<forall>x \<in> set (api_tokens t). jti x = j \<longrightarrow> \<not> at_enabled x)"

lemma dead_token_other [simp]:
  "dead_token j (t\<lparr>browser_sessions := m\<rparr>) = dead_token j t"
  "dead_token j (t\<lparr>users := v\<rparr>) = dead_token j t"
  "dead_token j (t\<lparr>instance_setting := w\<rparr>) = dead_token j t"
  "dead_token j (t\<lparr>audit_log := l\<rparr>) = dead_token j t"
  by (simp_all add: dead_token_def)

lemma dead_change:
  "(\<And>t. api_tokens (f t) = api_tokens t) \<Longrightarrow> keeps (both (dead_token j)) (change f)"
  by (intro both_change) (simp add: dead_token_def)

lemma map_at_id_put_token [simp]: "map at_id (put_token tok ts) = map at_id ts"
  by (simp add: put_token_def)

lemma in_put_token:
  assumes "distinct (map at_id ts)" "tok \<in> set ts" "at_id tok' = at_id tok" "x \<in> set (put_token tok' ts)"
  shows "x = tok' \<or> x \<in> set ts \<and> x \<noteq> tok"
  using assms by (auto simp: put_token_def)

lemma put_token_dead:
  assumes "dead_token j t" "tok \<in> set (api_tokens t)" "at_id tok' = at_id tok" "jti tok' = jti tok"
    "at_enabled tok' \<longrightarrow> at_enabled tok"
  shows "dead_token j (api_tokens_update (put_token tok') t)"
proof -
  let ?ts = "api_tokens t"
  have d: "distinct (map at_id ?ts)" using assms(1) by (simp add: dead_token_def)
  have same: "jti y = jti tok" if "y \<in> set ?ts" "at_id y = at_id tok" for y
    using that assms(2) d by (metis distinct_map inj_on_def)
  have "map jti (put_token tok' ?ts) = map jti ?ts"
    using same assms(3,4) by (auto simp: put_token_def)
  then have "jti ` set (put_token tok' ?ts) = jti ` set ?ts" by (metis list.set_map)
  moreover have "\<not> at_enabled x" if "x \<in> set (put_token tok' ?ts)" "jti x = j" for x
    using in_put_token [OF d assms(2,3) that(1)] that(2) assms by (auto simp: dead_token_def)
  ultimately show ?thesis using assms(1) d by (simp add: dead_token_def)
qed

lemma dead_record_audit [keeps_intros]: "keeps (both (dead_token j)) (record_audit ev)"
  unfolding record_audit_def by (intro keeps_intros dead_change) simp

lemma dead_instance_id [keeps_intros]: "keeps (both (dead_token j)) (ensure_appliance_instance_id fresh)"
  unfolding ensure_appliance_instance_id_def by (intro keeps_intros dead_change) simp_all

lemma dead_user_roles [keeps_intros]: "keeps (both (dead_token j)) (user_roles e us)"
  unfolding user_roles_def Let_def by (intro keeps_intros dead_change) simp_all

lemma dead_expire [keeps_intros]: "keeps (both (dead_token j)) (expire_session b bs now r)"
  unfolding expire_session_def by (intro dead_change) simp

lemma dead_expire_if_live [keeps_intros]: "keeps (both (dead_token j)) (expire_if_live cur now r)"
  unfolding expire_if_live_def by (intro keeps_intros)

lemma dead_session_identity [keeps_intros]: "keeps (both (dead_token j)) (session_identity e now rq b bs us)"
  unfolding session_identity_def Let_def by (intro keeps_intros dead_change) simp_all

lemma dead_resume_session [keeps_intros]: "keeps (both (dead_token j)) (resume_session e now rq uid b bs)"
  unfolding resume_session_def by (intro keeps_intros)

lemma dead_get_session_identity [keeps_intros]:
  "keeps (both (dead_token j)) (get_session_identity e now fresh rq)"
  unfolding get_session_identity_def by (intro keeps_intros)

lemma dead_start [keeps_intros]: "keeps (both (dead_token j)) (start_browser_session now fresh_id fresh us)"
  unfolding start_browser_session_def by (intro keeps_intros dead_change) simp_all

lemma dead_end [keeps_intros]: "keeps (both (dead_token j)) (end_browser_session now reason)"
  unfolding end_browser_session_def by (intro keeps_intros)

lemma dead_notice [keeps_intros]: "keeps (both (dead_token j)) consume_browser_session_expired_notice"
  unfolding consume_browser_session_expired_notice_def by (intro keeps_intros)

text \<open>Replacing a token that was just read.\<close>

lemma dead_put:
  assumes "both (dead_token j) s" "tok \<in> set (api_tokens (work s))" "at_id tok' = at_id tok"
    "jti tok' = jti tok" "at_enabled tok' \<longrightarrow> at_enabled tok" "keeps (both (dead_token j)) m"
  shows "both (dead_token j) (snd (bindS (change (api_tokens_update (put_token tok'))) (\<lambda>_. m) s))"
proof -
  let ?s = "s\<lparr>work := api_tokens_update (put_token tok') (work s)\<rparr>"
  have "both (dead_token j) ?s" using assms(1) put_token_dead [OF _ assms(2-5)] by (simp add: both_def)
  from keepsD [OF assms(6) this] show ?thesis by (simp add: change_def)
qed

lemma token_error_found:
  "token_error e now p found = Inr tok \<Longrightarrow> found = Some tok \<and> at_enabled tok \<and> revoked_at tok = None
     \<and> now < instant (ensure_aware (expires_at tok)) \<and> claim p ''sub'' = JStr (owner_username tok)
     \<and> at_role tok = primary_role e (payload_roles e p)"
  by (auto simp: token_error_def bindE_eq_Inr split: option.splits)

lemma token_by_jti_Some: "token_by_jti c ts = Some tok \<Longrightarrow> tok \<in> set ts \<and> c = JStr (jti tok)"
  by (auto simp: token_by_jti_def find_Some_iff split: json.splits)

lemma dead_api [keeps_intros]: "keeps (both (dead_token j)) (get_current_api_identity e st now cred)"
proof -
  have "keeps (both (dead_token j)) (bindS (getS (\<lambda>s. token_by_jti c (api_tokens (work s)))) (\<lambda>found.
      bindS (liftS (token_error e now p found)) (\<lambda>tok.
      bindS (change (api_tokens_update (put_token (tok\<lparr>last_used_at := Some (Aware now)\<rparr>)))) (\<lambda>_.
      bindS commit (\<lambda>_. returnS (F tok))))))" for c p and F :: "api_token \<Rightarrow> identity"
  proof (rule keeps_getS)
    fix s
    assume s: "both (dead_token j) s"
    let ?f = "token_by_jti c (api_tokens (work s))"
    show "both (dead_token j) (snd (bindS (liftS (token_error e now p ?f)) (\<lambda>tok.
      bindS (change (api_tokens_update (put_token (tok\<lparr>last_used_at := Some (Aware now)\<rparr>)))) (\<lambda>_.
      bindS commit (\<lambda>_. returnS (F tok)))) s))"
    proof (cases "token_error e now p ?f")
      case (Inr tok)
      then have "tok \<in> set (api_tokens (work s))" using token_error_found token_by_jti_Some by blast
      then show ?thesis unfolding Inr bindS_simps by (rule dead_put [OF s]) (simp_all add: keeps_intros)
    qed (use s in \<open>simp add: raiseS_def\<close>)
  qed
  then show ?thesis
    unfolding get_current_api_identity_def Let_def by (auto intro!: keeps_basic split: option.split simp del: bindS_simps)
qed

lemma dead_require_scope [keeps_intros]: "keeps (both (dead_token j)) (require_scope e st now sc cred)"
  unfolding require_scope_def by (intro keeps_intros)

lemma dead_require_api_or_session [keeps_intros]:
  "keeps (both (dead_token j)) (require_api_or_session_scope e st now fresh sc rq cred)"
  unfolding require_api_or_session_scope_def by (intro keeps_intros)

lemma foldr_max_ge: "x \<in> set xs \<Longrightarrow> x \<le> foldr max xs (0::int)"
  by (induction xs) (auto simp: max_def)

lemma next_id_fresh: "next_id ts \<notin> at_id ` set ts"
  using foldr_max_ge [of _ "map at_id ts"] by (fastforce simp: next_id_def)

lemma dead_append:
  assumes "dead_token j t" "jti tok \<notin> jti ` set (api_tokens t)" "at_id tok = next_id (api_tokens t)"
  shows "dead_token j (api_tokens_update (\<lambda>ts. ts @ [tok]) t)"
  using assms next_id_fresh [of "api_tokens t"] by (auto simp: dead_token_def)

text \<open>The tail of \<open>create_token_for_user\<close>: the identifier and the number are both new.\<close>

lemma dead_insert:
  assumes "\<And>nid. jti (T nid) = new_jti" "\<And>nid. at_id (T nid) = nid" "\<And>nid. keeps (both (dead_token j)) (K nid)"
  shows "keeps (both (dead_token j))
    (bindS (getS (\<lambda>s. (new_jti \<in> jti ` set (api_tokens (work s)), next_id (api_tokens (work s))))) (\<lambda>(used, nid).
       if used then raiseS IntegrityErr
       else bindS (change (api_tokens_update (\<lambda>ts. ts @ [T nid]))) (\<lambda>_. K nid)))"
proof (rule keeps_getS)
  fix s
  assume s: "both (dead_token j) s"
  let ?n = "next_id (api_tokens (work s))"
  have "both (dead_token j) (s\<lparr>work := api_tokens_update (\<lambda>ts. ts @ [T ?n]) (work s)\<rparr>)"
    if "new_jti \<notin> jti ` set (api_tokens (work s))"
    using dead_append [of j "work s" "T ?n"] that s assms(1,2) by (simp add: both_def)
  with s show "both (dead_token j) (snd ((case (new_jti \<in> jti ` set (api_tokens (work s)), ?n) of
      (used, nid) \<Rightarrow> if used then raiseS IntegrityErr
        else bindS (change (api_tokens_update (\<lambda>ts. ts @ [T nid]))) (\<lambda>_. K nid)) s))"
    by (auto simp: raiseS_def change_def intro: keepsD [OF assms(3)])
qed

lemma dead_create_token [keeps_intros]:
  "keeps (both (dead_token j)) (create_token_for_user e st now now' new_jti us req a)"
  unfolding create_token_for_user_def Let_def
  by (rule keeps_bindS dead_insert keeps_basic dead_user_roles | simp | intro keeps_intros)+

lemma dead_create_api_token [keeps_intros]:
  "keeps (both (dead_token j)) (create_api_token e st now now' new_jti cred req)"
  unfolding create_api_token_def by (intro keeps_intros)

lemma visible_token_in: "visible_token i tid ts = Inr tok \<Longrightarrow> tok \<in> set ts"
  by (auto simp: visible_token_def bindE_eq_Inr find_Some_iff split: option.splits)

lemma dead_revoke_found [keeps_intros]:
  "keeps (both (dead_token j)) (bindS (getS (\<lambda>s. visible_token i tid (api_tokens (work s)))) (\<lambda>found.
     bindS (liftS found) (\<lambda>tok. revoke_token now tok i)))"
proof (rule keeps_getS)
  fix s
  assume s: "both (dead_token j) s"
  show "both (dead_token j) (snd (bindS (liftS (visible_token i tid (api_tokens (work s))))
          (\<lambda>tok. revoke_token now tok i) s))"
  proof (cases "visible_token i tid (api_tokens (work s))")
    case (Inr tok)
    show ?thesis unfolding Inr bindS_simps revoke_token_def Let_def
      by (rule dead_put [OF s visible_token_in [OF Inr]]) (simp_all add: keeps_intros del: bindS_simps)
  qed (use s in \<open>simp add: raiseS_def\<close>)
qed

lemma dead_revoke_api_token: "keeps (both (dead_token j)) (revoke_api_token e st now cred tid)"
  unfolding revoke_api_token_def by (rule keeps_bindS dead_require_scope dead_revoke_found)+

lemma dead_revoke_user_tokens [keeps_intros]: "keeps (both (dead_token j)) (revoke_user_tokens now us a)"
  unfolding revoke_user_tokens_def
  by (intro both_change) (auto simp: dead_token_def comp_def if_distrib image_image cong: if_cong)

lemma dead_step:
  assumes "auth_step s s'" "dead_token j (disk s)"
  shows "dead_token j (disk s')"
  using assms(1)
proof cases
  case administer
  then show ?thesis using assms(2) by (simp add: dead_token_def)
qed (simp_all only:, (rule both_in_request [where P = "dead_token j", OF _ assms(2)]; intro keeps_intros dead_revoke_api_token)+)

lemma dead_steps: "auth_step\<^sup>*\<^sup>* s s' \<Longrightarrow> dead_token j (disk s) \<Longrightarrow> dead_token j (disk s')"
  by (induction rule: rtranclp_induct) (auto intro: dead_step)

lemma dead_refused:
  assumes "dead_token j (disk s)" "jwt_decode e raw (secret_key st) (jwt_issuer st) (jwt_audience st) now = Some p"
    "claim p ''jti'' = JStr j"
  shows "fst (in_request c (get_current_api_identity e st now (Some raw)) s) =
           Inl (HTTPException 401 ''Token is revoked or unknown'')"
proof -
  obtain tok where f: "find (\<lambda>t. jti t = j) (api_tokens (disk s)) = Some tok"
    using assms(1) by (cases "find (\<lambda>t. jti t = j) (api_tokens (disk s))") (auto simp: dead_token_def find_None_iff)
  then have "tok \<in> set (api_tokens (disk s))" "jti tok = j" by (auto simp: find_Some_iff)
  with assms(1) have "\<not> at_enabled tok" by (simp add: dead_token_def)
  with f assms(2,3) show ?thesis
    by (simp add: in_request_def get_current_api_identity_def token_by_jti_def token_error_def raiseS_def)
qed

end
