(* ===== verification/Security_Thms.thy ===== *)
theory Security_Thms
  imports Token_Props "HOL-Library.Countable"
begin

text \<open>Theorems about browser sessions, API tokens and the permission table.\<close>

section \<open>Creating a token\<close>

text \<open>
  What the application relies on of PyJWT: a token signed with a key is decoded with the same key to
  its payload, when the issuer and the audience are the expected ones, it was not issued in the future
  and it has not expired.
\<close>

definition jwt_ok :: "security_env \<Rightarrow> bool" where
  "jwt_ok e \<longleftrightarrow> (\<forall>p k iss aud now x y.
     jget p (u ''iss'') = Some (JStr iss) \<and> jget p (u ''aud'') = Some (JStr aud)
   \<and> jget p (u ''iat'') = Some (JInt y) \<and> y * SECOND \<le> now
   \<and> jget p (u ''exp'') = Some (JInt x) \<and> now < x * SECOND
   \<longrightarrow> jwt_decode e (jwt_encode e p k) k iss aud now = Some p)"

lemma user_roles_result:
  "user_roles e us s = (Inr roles, s1) \<Longrightarrow>
   roles = roles_from_json e (us_roles_json us) (us_role us) \<and> api_tokens (work s1) = api_tokens (work s)
   \<and> appliance_settings (work s1) = appliance_settings (work s)"
  by (auto simp: user_roles_def Let_def change_def modifyS_def returnS_def bindS_def split: if_splits)

lemma user_roles_total:
  "\<exists>s1. user_roles e us s = (Inr (roles_from_json e (us_roles_json us) (us_role us)), s1)"
  by (simp add: user_roles_def Let_def change_def returnS_def)

lemma record_audit_result:
  "record_audit ev s = (r, s') \<Longrightarrow> r = Inr () \<and> work s' = disk s'
   \<and> api_tokens (disk s') = api_tokens (work s) \<and> users (disk s') = users (work s)"
  by (auto simp: record_audit_def change_def commit_def modifyS_def bindS_def)

lemma requested_within_role:
  "roles_allow_scopes e roles req \<Longrightarrow> req \<subseteq> set ALL_SCOPES \<Longrightarrow> req \<subseteq> scopes_for_roles e roles"
  by (auto simp: roles_allow_scopes_def scopes_for_roles_def Let_def split: if_splits)

lemma token_expiry_Inr:
  "token_expiry now days d = Inr x \<Longrightarrow> now < x \<and> x \<le> now + days * DAY"
  by (auto simp: token_expiry_def Let_def bindE_eq_Inr)

lemma create_token_result:
  assumes "create_token_for_user e st now now' j us req a s = (Inr (tok, raw), s')"
  defines "roles \<equiv> roles_from_json e (us_roles_json us) (us_role us)"
    and "ordered \<equiv> sorted_list_of_set (set (tc_scopes req))"
  shows "set (tc_scopes req) \<subseteq> scopes_for_roles e roles" "set (tc_scopes req) \<subseteq> set ALL_SCOPES"
    "api_tokens (disk s') = api_tokens (work s) @ [tok]" "j \<notin> jti ` set (api_tokens (work s))"
    "raw = create_jwt e st (us_username us) (primary_role e roles) roles ordered j (instant (expires_at tok)) now'"
    "jti tok = j" "at_enabled tok" "revoked_at tok = None" "owner_username tok = us_username us"
    "owner_user_id tok = us_id us" "at_role tok = primary_role e roles" "at_scopes tok = join_with 32 ordered"
    "now < instant (expires_at tok)"
    "instant (expires_at tok) \<le> now + max_lifetime_days (work s) * DAY"
    "instant (ensure_aware (expires_at tok)) = instant (expires_at tok)"
    "token_expiry now (max_lifetime_days (work s)) (tc_expires_at req) = Inr (instant (expires_at tok))"
    "at_id tok = next_id (api_tokens (work s))"
proof -
  from assms(1) obtain s1 x where sub: "set (tc_scopes req) \<subseteq> set ALL_SCOPES"
    and ur: "user_roles e us s = (Inr roles, s1)" and allow: "roles_allow_scopes e roles (set (tc_scopes req))"
    and ex: "token_expiry now (max_lifetime_days (work s1)) (tc_expires_at req) = Inr x"
    and new: "j \<notin> jti ` set (api_tokens (work s1))"
    and tok: "tok = \<lparr> at_id = next_id (api_tokens (work s1)), jti = j, at_name = tc_name req,
                 at_description = tc_description req, owner_user_id = us_id us,
                 owner_username = us_username us, at_role = primary_role e roles,
                 at_scopes = join_with 32 ordered, created_at = Aware now,
                 expires_at = Aware x, last_used_at = None, revoked_at = None,
                 revoked_by = None, at_enabled = True, token_hash = hash_token e raw \<rparr>"
    and raw: "raw = create_jwt e st (us_username us) (primary_role e roles) roles ordered j x now'"
    and au: "record_audit \<lparr> actor = a, action = ''create_api_token'', resource_type = ''api_token'',
               resource_id = Some (next_id (api_tokens (work s1))) \<rparr>
               (s1\<lparr>work := api_tokens_update (\<lambda>ts. ts @ [tok]) (work s1),
                   disk := api_tokens_update (\<lambda>ts. ts @ [tok]) (work s1)\<rparr>) = (Inr (), s')"
    unfolding create_token_for_user_def Let_def ordered_def
    by (auto simp: bindS_eq_Inr liftS_def getS_def raiseS_def change_def commit_def modifyS_def returnS_def roles_def
        dest: user_roles_result split: if_splits)
  note r = user_roles_result [OF ur] and au' = record_audit_result [OF au]
  show "set (tc_scopes req) \<subseteq> scopes_for_roles e roles" by (rule requested_within_role [OF allow sub])
  show "set (tc_scopes req) \<subseteq> set ALL_SCOPES" by (rule sub)
  show "api_tokens (disk s') = api_tokens (work s) @ [tok]" "j \<notin> jti ` set (api_tokens (work s))"
    using au' r new by simp_all
  show "now < instant (expires_at tok)" "instant (expires_at tok) \<le> now + max_lifetime_days (work s) * DAY"
    "token_expiry now (max_lifetime_days (work s)) (tc_expires_at req) = Inr (instant (expires_at tok))"
    using token_expiry_Inr [OF ex] ex r by (simp_all add: tok max_lifetime_days_def)
  show "at_id tok = next_id (api_tokens (work s))" using r by (simp add: tok)
  show "raw = create_jwt e st (us_username us) (primary_role e roles) roles ordered j (instant (expires_at tok)) now'"
    using raw by (simp add: tok)
  show "jti tok = j" "at_enabled tok" "revoked_at tok = None" "owner_username tok = us_username us"
    "owner_user_id tok = us_id us" "at_role tok = primary_role e roles" "at_scopes tok = join_with 32 ordered"
    "instant (ensure_aware (expires_at tok)) = instant (expires_at tok)"
    by (simp_all add: tok ensure_aware_def)
qed

lemma bindS_state: "bindS (\<lambda>s. (Inr x, g s)) f = (\<lambda>s. f x (g s))"
  by (simp add: bindS_def fun_eq_iff)

lemma create_token_succeeds:
  assumes "set (tc_scopes req) \<subseteq> set ALL_SCOPES" "user_roles e us s = (Inr roles, s1)"
    "roles_allow_scopes e roles (set (tc_scopes req))" "j \<notin> jti ` set (api_tokens (work s))"
    "token_expiry now (max_lifetime_days (work s)) (tc_expires_at req) = Inr x"
  shows "\<exists>tok raw s'. create_token_for_user e st now now' j us req a s = (Inr (tok, raw), s')"
proof -
  have s1: "j \<notin> jti ` set (api_tokens (work s1))"
    "token_expiry now (max_lifetime_days (work s1)) (tc_expires_at req) = Inr x"
    using user_roles_result [OF assms(2)] assms(4,5) by (simp_all add: max_lifetime_days_def)
  with assms(1-3) show ?thesis
    unfolding create_token_for_user_def Let_def
    by (simp add: bindS_def [of "user_roles e us"] bindS_state record_audit_def change_def commit_def modifyS_def
        returnS_def)
qed

lemma scopes_are_words: "\<forall>s \<in> set ALL_SCOPES. is_word s"
  by (simp add: ALL_SCOPES_def is_word_def u_def of_char_def is_space_def)

lemma scopes_from_join:
  assumes "S \<subseteq> set ALL_SCOPES"
  shows "scopes_from_string (join_with 32 (sorted_list_of_set S)) = S"
proof -
  have S: "finite S" using assms by (rule finite_subset) simp
  then have "\<forall>w \<in> set (sorted_list_of_set S). is_word w" using assms scopes_are_words by auto
  then have "split_ws (join_with 32 (sorted_list_of_set S)) = sorted_list_of_set S" by (rule split_ws_join)
  moreover have "[] \<notin> S" using assms scopes_are_words by (auto simp: is_word_def)
  ultimately show ?thesis using S by (auto simp: scopes_from_string_def)
qed

lemma jget_Cons: "jget ((k, v) # ms) k' = (if k' = k then Some v else jget ms k')"
  by (simp add: jget_def)

lemma payload_claims:
  assumes "lower_ok (se_lower e)" "roles = roles_from_json e v fb"
    and p: "p = jwt_payload e st subject (primary_role e roles) roles scopes j expires now'"
  shows "claim p ''sub'' = JStr subject" "claim p ''jti'' = JStr j" "payload_roles e p = roles"
    "jget p (u ''iss'') = Some (JStr (jwt_issuer st))" "jget p (u ''aud'') = Some (JStr (jwt_audience st))"
    "jget p (u ''iat'') = Some (JInt (timestamp now'))" "jget p (u ''exp'') = Some (JInt (timestamp expires))"
proof -
  obtain js fb' where "roles = normalize_roles e js fb'" using roles_from_json_normal assms(2) by metis
  then have r: "normal_roles e roles = roles" "roles \<noteq> []"
    using normal_roles_normalize [OF assms(1)] normalize_roles_props(4) by simp_all
  show "claim p ''sub'' = JStr subject" "claim p ''jti'' = JStr j"
    "jget p (u ''iss'') = Some (JStr (jwt_issuer st))" "jget p (u ''aud'') = Some (JStr (jwt_audience st))"
    "jget p (u ''iat'') = Some (JInt (timestamp now'))" "jget p (u ''exp'') = Some (JInt (timestamp expires))"
    by (simp_all add: p claim_def jwt_payload_def Let_def jget_Cons)
  have "jget p (u ''roles'') = Some (role_list roles)"
    using r by (simp add: p jwt_payload_def Let_def jget_Cons)
  then have "payload_roles e p = normal_roles e roles"
    using r(2) by (simp add: payload_roles_def get_or_def normal_roles_def role_list_def)
  then show "payload_roles e p = roles" using r by simp
qed

lemma find_snoc: "j \<notin> f ` set ts \<Longrightarrow> f x = j \<Longrightarrow> find (\<lambda>t. f t = j) (ts @ [x]) = Some x"
  by (induction ts) auto

lemma bearer_after_create:
  assumes "lower_ok (se_lower e)" "jwt_ok e"
    and c: "create_token_for_user e st now now' j us req a s = (Inr (tok, raw), s')"
    and t: "now' \<le> t" "t < timestamp (instant (expires_at tok)) * SECOND"
    and same: "api_tokens (disk s3) = api_tokens (disk s')"
  shows "\<exists>i s''. in_request ck (get_current_api_identity e st t (Some raw)) s3 = (Inr i, s'')
     \<and> id_username i = us_username us \<and> id_user_id i = Some (us_id us)
     \<and> id_roles i = roles_from_json e (us_roles_json us) (us_role us) \<and> id_scopes i = set (tc_scopes req)
     \<and> work s'' = api_tokens_update (put_token (tok\<lparr>last_used_at := Some (Aware t)\<rparr>)) (disk s3)"
proof -
  define roles where "roles = roles_from_json e (us_roles_json us) (us_role us)"
  note C = create_token_result [OF c, folded roles_def]
  define p where "p = jwt_payload e st (us_username us) (primary_role e roles) roles
     (sorted_list_of_set (set (tc_scopes req))) j (instant (expires_at tok)) now'"
  note P = payload_claims [OF assms(1) roles_def p_def]
  have iat: "timestamp now' * SECOND \<le> t" using t(1) by (simp add: timestamp_def SECOND_def)
  have dec: "jwt_decode e raw (secret_key st) (jwt_issuer st) (jwt_audience st) t = Some p"
    using assms(2) P(4-7) iat t(2) C(5) unfolding jwt_ok_def create_jwt_def p_def [symmetric] by blast
  have f: "token_by_jti (claim p ''jti'') (api_tokens (disk s')) = Some tok"
    using find_snoc [OF C(4,6)] by (simp add: P(2) C(3) token_by_jti_def)
  have late: "t < instant (expires_at tok)"
  proof -
    have "timestamp (instant (expires_at tok)) * SECOND \<le> instant (expires_at tok)"
      by (simp add: timestamp_def SECOND_def)
    with t(2) show ?thesis by simp
  qed
  have ok: "token_error e t p (Some tok) = Inr tok"
    using C(7-9,11,15) P(1,3) late by (simp add: token_error_def)
  have n: "normal_roles e roles = roles" unfolding roles_def by (rule normal_roles_from_json [OF assms(1)])
  have ne: "roles \<noteq> []" using roles_from_json_normal [of e] normalize_roles_props(4) [of e] roles_def by metis
  define i where "i = make_identity e (owner_username tok) (primary_role e roles)
     (scopes_from_string (at_scopes tok)) roles (Some (owner_user_id tok)) (Some (at_id tok)) (Some (jti tok)) ''bearer''"
  have "\<exists>s''. in_request ck (get_current_api_identity e st t (Some raw)) s3 = (Inr i, s'')
      \<and> work s'' = api_tokens_update (put_token (tok\<lparr>last_used_at := Some (Aware t)\<rparr>)) (disk s3)"
    using dec f ok P(3) same
    by (simp add: in_request_def get_current_api_identity_def Let_def returnS_def change_def commit_def i_def)
  moreover have "id_username i = us_username us" "id_roles i = roles"
    "id_scopes i = set (tc_scopes req)"
    "id_user_id i = Some (us_id us)"
    using n ne C(9,10,12) scopes_from_join [OF C(2)] by (simp_all add: i_def make_identity_def Let_def)
  ultimately show ?thesis by (auto simp: roles_def)
qed

text \<open>
  C13: a token that \<open>create_token_for_user\<close> returns authenticates its user until the second it expires
  in: the identity has the user's name and roles, and may do exactly what the requested scopes allow,
  all of which the user's roles grant; it expires within the configured maximum lifetime.
\<close>

theorem token_grants_requested_scopes:
  assumes "lower_ok (se_lower e)" "jwt_ok e"
    and c: "create_token_for_user e st now now' j us req a s = (Inr (tok, raw), s')"
    and t: "now' \<le> t" "t < timestamp (instant (expires_at tok)) * SECOND"
  shows "\<exists>i s''. in_request ck (get_current_api_identity e st t (Some raw)) s' = (Inr i, s'')
     \<and> id_username i = us_username us
     \<and> id_roles i = roles_from_json e (us_roles_json us) (us_role us)
     \<and> (\<forall>sc. can i sc \<longleftrightarrow> u ''admin:all'' \<in> set (tc_scopes req) \<or> sc \<in> set (tc_scopes req))
     \<and> set (tc_scopes req) \<subseteq> scopes_for_roles e (id_roles i)
     \<and> instant (expires_at tok) \<le> now + max_lifetime_days (work s) * DAY"
  using bearer_after_create [OF assms refl, of ck] create_token_result(1,14) [OF c] by (fastforce simp: can_def)

section \<open>Revocation\<close>

lemma put_token_ids:
  assumes "distinct (map at_id ts)" "tok \<in> set ts" "at_id tok' = at_id tok" "jti tok' = jti tok"
  shows "map jti (put_token tok' ts) = map jti ts"
proof -
  have "jti y = jti tok" if "y \<in> set ts" "at_id y = at_id tok" for y
    using that assms(1,2) by (metis distinct_map inj_on_def)
  then show ?thesis using assms(3,4) by (auto simp: put_token_def)
qed

lemma require_scope_ids:
  assumes "require_scope e st now sc cred (s\<lparr>work := disk s, cookies := ck\<rparr>) = (Inr i, s0)"
    "distinct (map at_id (api_tokens (disk s)))" "distinct (map jti (api_tokens (disk s)))"
  shows "map at_id (api_tokens (work s0)) = map at_id (api_tokens (disk s))
       \<and> map jti (api_tokens (work s0)) = map jti (api_tokens (disk s))"
  using assms(1) put_token_ids [OF assms(2)] token_by_jti_Some token_error_found
  by (fastforce simp: require_scope_def get_current_api_identity_def Let_def bindS_eq_Inr bindS_eq_Inl getS_def liftS_def
      change_def commit_def modifyS_def returnS_def raiseS_def split: option.splits)

lemma revoke_token_dead:
  assumes "revoke_token now old i s0 = (Inr tok, s1)" "old \<in> set (api_tokens (work s0))"
    "distinct (map at_id (api_tokens (work s0)))" "distinct (map jti (api_tokens (work s0)))"
  shows "dead_token (jti tok) (disk s1)"
proof -
  let ?ts = "api_tokens (work s0)"
  from assms(1) have tok: "tok = old\<lparr>at_enabled := False, revoked_at := Some (Aware now), revoked_by := Some (id_username i)\<rparr>"
    and ts: "api_tokens (disk s1) = put_token tok ?ts"
    by (auto simp: revoke_token_def Let_def bindS_eq_Inr change_def commit_def modifyS_def returnS_def
        dest!: record_audit_result)
  have ids: "at_id tok = at_id old" "jti tok = jti old" "\<not> at_enabled tok" by (simp_all add: tok)
  have "\<not> at_enabled x" if "x \<in> set (put_token tok ?ts)" "jti x = jti tok" for x
    using in_put_token [OF assms(3,2) ids(1) that(1)] that(2) ids assms(2,4)
    by (metis distinct_map inj_on_def)
  moreover have "jti tok \<in> jti ` set (put_token tok ?ts)"
    using put_token_ids [OF assms(3,2) ids(1,2)] assms(2) ids(2) by (metis image_eqI list.set_map)
  ultimately show ?thesis using assms(3) by (simp add: dead_token_def ts)
qed

text \<open>
  C6: once a browser session has been marked expired, by logout, inactivity, a disabled account or an
  appliance reset, no later sequence of operations revives it: a request that presents its cookie,
  whenever it was issued, gets no identity.
\<close>

theorem session_revocation_is_final:
  assumes "browser_sessions (disk s) b = Some bs" "expired_at bs \<noteq> None" "auth_step\<^sup>*\<^sup>* s s'"
    "ck_browser_session_id c = Some b"
  shows "fst (in_request c (get_session_identity e now fresh rq) s') = Inr None"
  using ended_no_identity ended_steps assms by metis

text \<open>
  C23: after \<open>revoke_api_token\<close> has returned a token, no later sequence of operations makes it valid
  again: a bearer credential that carries its identifier is answered with 401.
\<close>

theorem token_revocation_is_final:
  assumes ids: "distinct (map at_id (api_tokens (disk s)))" "distinct (map jti (api_tokens (disk s)))"
    and r: "in_request ck (revoke_api_token e st now cred tid) s = (Inr tok, s1)"
    and steps: "auth_step\<^sup>*\<^sup>* s1 s2"
    and dec: "jwt_decode e' raw (secret_key st') (jwt_issuer st') (jwt_audience st') t = Some p"
    "claim p ''jti'' = JStr (jti tok)"
  shows "fst (in_request ck' (get_current_api_identity e' st' t (Some raw)) s2) =
           Inl (HTTPException 401 ''Token is revoked or unknown'')"
proof (rule dead_refused [OF dead_steps [OF steps] dec])
  let ?s = "s\<lparr>work := disk s, cookies := ck\<rparr>"
  obtain i s0 old where rs: "require_scope e st now (u ''read:dashboard'') cred ?s = (Inr i, s0)"
    and old: "visible_token i tid (api_tokens (work s0)) = Inr old"
    and rv: "revoke_token now old i s0 = (Inr tok, s1)"
    using r by (auto simp: in_request_def revoke_api_token_def bindS_eq_Inr getS_def liftS_def)
  have same: "map at_id (api_tokens (work s0)) = map at_id (api_tokens (disk s))
            \<and> map jti (api_tokens (work s0)) = map jti (api_tokens (disk s))"
    using require_scope_ids [OF rs ids] by simp
  show "dead_token (jti tok) (disk s1)"
    using revoke_token_dead [OF rv visible_token_in [OF old]] same ids by simp
qed

section \<open>Browser identities\<close>

lemma session_identity_result:
  assumes "session_identity e now rq b bs us s = (Inr (Some i), s')"
  shows "now < instant (ensure_aware (last_interactive_at bs)) + idle_minutes (work s) * MINUTE"
    "id_scopes i = scopes_for_roles e (roles_from_json e (us_roles_json us) (us_role us))"
    "id_username i = us_username us" "enforce_ui_path_permission rq i = Inr ()"
    "browser_request_is_interactive e rq \<Longrightarrow>
       browser_sessions (disk s') = (browser_sessions (work s))(b \<mapsto> bs\<lparr>last_interactive_at := Aware now\<rparr>)"
    "\<not> browser_request_is_interactive e rq \<Longrightarrow> browser_sessions (disk s') = browser_sessions (disk s)"
proof -
  obtain s1 roles s2 where live: "now < instant (ensure_aware (last_interactive_at bs)) + idle_minutes (work s) * MINUTE"
    and s1: "s1 = (if browser_request_is_interactive e rq
        then s\<lparr>work := browser_sessions_update (\<lambda>m. m(b \<mapsto> bs\<lparr>last_interactive_at := Aware now\<rparr>)) (work s),
               disk := browser_sessions_update (\<lambda>m. m(b \<mapsto> bs\<lparr>last_interactive_at := Aware now\<rparr>)) (work s)\<rparr>
        else s)"
    and ur: "user_roles e us s1 = (Inr roles, s2)" and s': "s' = s2"
    and i: "i = make_identity e (us_username us) (primary_role e roles) (scopes_for_roles e roles) roles
                 (Some (us_id us)) None None ''session''"
    and en: "enforce_ui_path_permission rq i = Inr ()"
    using assms
    by (auto simp: session_identity_def Let_def bindS_eq_Inr getS_def liftS_def change_def commit_def
        modifyS_def returnS_def split: if_splits)
  have d: "disk s2 = disk s1"
    using ur by (auto simp: user_roles_def Let_def bindS_eq_Inr change_def modifyS_def returnS_def split: if_splits)
  show "now < instant (ensure_aware (last_interactive_at bs)) + idle_minutes (work s) * MINUTE" by (rule live)
  show "enforce_ui_path_permission rq i = Inr ()" by (rule en)
  show "id_scopes i = scopes_for_roles e (roles_from_json e (us_roles_json us) (us_role us))"
    "id_username i = us_username us"
    using user_roles_result [OF ur] by (simp_all add: i make_identity_def Let_def)
  show "browser_request_is_interactive e rq \<Longrightarrow>
       browser_sessions (disk s') = (browser_sessions (work s))(b \<mapsto> bs\<lparr>last_interactive_at := Aware now\<rparr>)"
    "\<not> browser_request_is_interactive e rq \<Longrightarrow> browser_sessions (disk s') = browser_sessions (disk s)"
    by (simp_all add: s' d s1)
qed

lemma instance_id_result:
  "ensure_appliance_instance_id fresh s = (r, s') \<Longrightarrow>
   browser_sessions (work s') = browser_sessions (work s) \<and> users (work s') = users (work s)
   \<and> idle_minutes (work s') = idle_minutes (work s) \<and> disk s' = disk s \<and> cookies s' = cookies s"
  by (auto simp: ensure_appliance_instance_id_def bindS_def getS_def change_def modifyS_def returnS_def idle_minutes_def
      split: option.splits if_splits)

lemma resume_session_result:
  assumes "resume_session e now rq uid b bs s = (Inr (Some i), s')"
  shows "bs_user_id bs = uid \<and> expired_at bs = None
    \<and> (\<exists>us. users (work s) uid = Some us \<and> us_enabled us \<and> session_identity e now rq b bs us s = (Inr (Some i), s'))"
  using assms
  by (auto simp: resume_session_def bindS_eq_Inr getS_def set_cookie_def modifyS_def returnS_def
      split: option.split_asm if_split_asm)

lemma get_session_identity_result:
  assumes "get_session_identity e now fresh rq s = (Inr (Some i), s')"
  shows "\<exists>own s1 b bs uid. ensure_appliance_instance_id fresh s = (Inr own, s1)
    \<and> ck_user_id (cookies s) = Some uid \<and> current_browser_session s1 = Some (b, bs)
    \<and> resume_session e now rq uid b bs s1 = (Inr (Some i), s')"
  using assms
  by (fastforce simp: get_session_identity_def bindS_eq_Inr getS_def set_cookie_def modifyS_def returnS_def
      split: option.split_asm if_split_asm)

text \<open>
  C36: an identity that a browser request gets belongs to an enabled user and to a session of that user
  that is not expired and was used less than the configured idle time ago; its scopes are those of the
  user's roles and they allow the path. Only an interactive request moves the time of last use, so
  polling does not keep a session alive.
\<close>

theorem browser_identity_sound:
  assumes "in_request c (get_session_identity e now fresh rq) s = (Inr (Some i), s')"
  shows "\<exists>b bs us. ck_browser_session_id c = Some b \<and> browser_sessions (disk s) b = Some bs
     \<and> expired_at bs = None \<and> ck_user_id c = Some (bs_user_id bs)
     \<and> users (disk s) (bs_user_id bs) = Some us \<and> us_enabled us \<and> id_username i = us_username us
     \<and> now < instant (last_interactive_at bs) + idle_minutes (disk s) * MINUTE
     \<and> id_scopes i = scopes_for_roles e (roles_from_json e (us_roles_json us) (us_role us))
     \<and> enforce_ui_path_permission rq i = Inr ()
     \<and> browser_sessions (disk s') =
         (if browser_request_is_interactive e rq
          then (browser_sessions (disk s))(b \<mapsto> bs\<lparr>last_interactive_at := Aware now\<rparr>)
          else browser_sessions (disk s))"
proof -
  let ?s = "s\<lparr>work := disk s, cookies := c\<rparr>"
  have "get_session_identity e now fresh rq ?s = (Inr (Some i), s')" using assms by (simp add: in_request_def)
  then obtain own s1 b bs uid where own: "ensure_appliance_instance_id fresh ?s = (Inr own, s1)"
    and uid: "ck_user_id (cookies ?s) = Some uid" and cur: "current_browser_session s1 = Some (b, bs)"
    and re: "resume_session e now rq uid b bs s1 = (Inr (Some i), s')"
    using get_session_identity_result by blast
  from resume_session_result [OF re] obtain us where bs: "bs_user_id bs = uid" "expired_at bs = None"
    and us: "users (work s1) uid = Some us" "us_enabled us"
    and si: "session_identity e now rq b bs us s1 = (Inr (Some i), s')" by blast
  note s1 = instance_id_result [OF own] and S = session_identity_result [OF si]
  have b: "ck_browser_session_id c = Some b" "browser_sessions (disk s) b = Some bs"
    using cur s1 by (auto simp: current_browser_session_def split: option.splits if_splits)
  have "instant (ensure_aware (last_interactive_at bs)) = instant (last_interactive_at bs)"
    by (cases "last_interactive_at bs") (simp_all add: ensure_aware_def)
  with b bs us s1 S uid show ?thesis by simp
qed

section \<open>Permissions of paths\<close>

text \<open>
  A user-interface path needs the scope of the most specific entry of \<open>UI_PATH_SCOPES\<close> that covers
  it (the table is read in order and no entry hides a later one): its read scope for safe methods
  and its write scope for all others; a path no entry covers needs none.
\<close>

theorem ui_rule_is_most_specific:
  fixes path0 :: pystr
  defines "path \<equiv> strip_ui_root [MANAGEMENT_UI_ROOT, PUBLIC_UI_ROOT] path0"
  shows "required_scope meth path0 = Some sc \<longleftrightarrow>
    path \<notin> {[47], u ''/logout''} \<and>
    (\<exists>p r w. (p, r, w) \<in> set UI_PATH_SCOPES \<and> under p path
       \<and> (\<forall>q \<in> set UI_PATH_SCOPES. under (fst q) path \<longrightarrow> length (fst q) \<le> length p)
       \<and> sc = (if safe_method meth then r else w))"
proof -
  have "required_scope meth path0 = Some sc \<longleftrightarrow> path \<notin> {[47], u ''/logout''}
      \<and> (\<exists>r w. first_rule UI_PATH_SCOPES path = Some (r, w) \<and> sc = (if safe_method meth then r else w))"
    by (auto simp: required_scope_def Let_def path_def)
  then show ?thesis unfolding first_rule_longest [OF UI_PATH_SCOPES_unshadowed, of path] by blast
qed

section \<open>The scopes of the calling token\<close>

text \<open>
  C39: \<open>create_api_token\<close> limits a new token by the roles of the user behind the calling token and not by
  the scopes of the calling token: any caller that may read the dashboard obtains a token with every
  scope the user's roles grant.
\<close>

theorem new_token_not_limited_by_caller:
  assumes caller: "in_request ck (require_scope e st now (u ''read:dashboard'') cred) s = (Inr i, s1)"
    and user: "id_user_id i = Some uid" "users (disk s) uid = Some us"
    and scopes: "set (tc_scopes req) \<subseteq> set ALL_SCOPES"
      "set (tc_scopes req) \<subseteq> scopes_for_roles e (roles_from_json e (us_roles_json us) (us_role us))"
    and policy: "tc_expires_at req = None" "0 < max_lifetime_days (disk s)"
    and new: "\<forall>t \<in> set (api_tokens (work s1)). jti t \<noteq> j"
  shows "\<exists>tok raw s'. in_request ck (create_api_token e st now now' j cred req) s = (Inr (tok, raw), s')
     \<and> scopes_from_string (at_scopes tok) = set (tc_scopes req)"
proof -
  let ?s = "s\<lparr>work := disk s, cookies := ck\<rparr>"
  have rs: "require_scope e st now (u ''read:dashboard'') cred ?s = (Inr i, s1)"
    using caller by (simp add: in_request_def)
  have s1: "users (work s1) = users (disk s)" "appliance_settings (work s1) = appliance_settings (disk s)"
    using rs by (auto simp: require_scope_def get_current_api_identity_def Let_def bindS_eq_Inr getS_def liftS_def
        change_def commit_def modifyS_def returnS_def raiseS_def split: option.split_asm)
  define roles where "roles = roles_from_json e (us_roles_json us) (us_role us)"
  obtain s2 where ur: "user_roles e us s1 = (Inr roles, s2)" using user_roles_total [of e us s1] roles_def by blast
  have allow: "roles_allow_scopes e roles (set (tc_scopes req))"
    using scopes(2) by (simp add: roles_allow_scopes_def roles_def Let_def)
  have ex: "token_expiry now (max_lifetime_days (work s1)) (tc_expires_at req) =
              Inr (now + max_lifetime_days (work s1) * DAY)"
    using policy s1(2) by (simp add: token_expiry_def is_naive_def max_lifetime_days_def DAY_def SECOND_def Let_def)
  have nj: "j \<notin> jti ` set (api_tokens (work s1))" using new by auto
  obtain tok raw s' where c: "create_token_for_user e st now now' j us req (id_username i) s1 = (Inr (tok, raw), s')"
    using create_token_succeeds [OF scopes(1) ur allow nj ex] by blast
  have "in_request ck (create_api_token e st now now' j cred req) s = (Inr (tok, raw), s')"
    using c rs user s1 by (simp add: in_request_def create_api_token_def bindS_def getS_def)
  then show ?thesis using create_token_result(12) [OF c] scopes_from_join [OF scopes(1)] by auto
qed

section \<open>A concrete environment\<close>

text \<open>A numbering of JSON values.\<close>

fun json_number :: "json \<Rightarrow> nat" where
  "json_number JNull = to_nat (0::nat, 0::nat)"
| "json_number (JBool b) = to_nat (1::nat, to_nat b)"
| "json_number (JInt i) = to_nat (2::nat, to_nat i)"
| "json_number (JFloat q) = to_nat (3::nat, to_nat q)"
| "json_number JNonFinite = to_nat (4::nat, 0::nat)"
| "json_number (JStr s) = to_nat (5::nat, to_nat s)"
| "json_number (JArr xs) = to_nat (6::nat, to_nat (map json_number xs))"
| "json_number (JObj ms) = to_nat (7::nat, to_nat (map (\<lambda>(k, v). (k, json_number v)) ms))"

lemma map_inj_elem: "map f xs = map g ys \<Longrightarrow> (\<And>x y. x \<in> set xs \<Longrightarrow> f x = g y \<Longrightarrow> x = y) \<Longrightarrow> xs = ys"
  by (induction xs arbitrary: ys) (auto simp: Cons_eq_map_conv)

lemma json_number_inj: "json_number x = json_number y \<Longrightarrow> x = y"
proof (induction x arbitrary: y)
  case (JArr xs)
  then obtain ys where y: "y = JArr ys" "map json_number xs = map json_number ys" by (cases y) auto
  then show ?case using JArr.IH map_inj_elem [OF y(2)] by blast
next
  case (JObj ms)
  let ?f = "\<lambda>(k, v). (k, json_number v)"
  from JObj.prems obtain ns where y: "y = JObj ns" and eq: "map ?f ms = map ?f ns" by (cases y) auto
  have "ms = ns"
  proof (rule map_inj_elem [OF eq])
    fix a b assume "a \<in> set ms" "?f a = ?f b"
    then show "a = b" using JObj.IH [of a "snd a" "snd b"]
      by (metis (no_types, lifting) case_prod_conv prod.collapse prod.inject snds.intros)
  qed
  then show ?case using y by simp
qed (case_tac [!] y, simp_all)

text \<open>
  A signature scheme for the witnesses: the payload, numbered, together with the key; decoding checks
  the key and the registered claims.
\<close>

definition demo_decode :: "pystr \<Rightarrow> pystr \<Rightarrow> pystr \<Rightarrow> pystr \<Rightarrow> int \<Rightarrow> object option" where
  "demo_decode raw k iss aud now = (case raw of
     [] \<Rightarrow> None
   | n # k' \<Rightarrow>
       (let p = (case the_inv json_number n of JObj ms \<Rightarrow> ms | _ \<Rightarrow> [])
        in if k' = k \<and> jget p (u ''iss'') = Some (JStr iss) \<and> jget p (u ''aud'') = Some (JStr aud)
             \<and> (case jget p (u ''iat'') of Some (JInt y) \<Rightarrow> y * SECOND \<le> now | _ \<Rightarrow> False)
             \<and> (case jget p (u ''exp'') of Some (JInt x) \<Rightarrow> now < x * SECOND | _ \<Rightarrow> False)
           then Some p else None))"

definition demo_env :: security_env where
  "demo_env = \<lparr> se_text = \<lparr> te_casefold = (\<lambda>c. [ascii_lower c]), te_isalnum = ascii_alnum, te_other_str = (\<lambda>_. []) \<rparr>,
     se_lower = map ascii_lower, se_upper = id, se_float = (\<lambda>_. JNull),
     jwt_encode = (\<lambda>p k. json_number (JObj p) # k), jwt_decode = demo_decode, sha256_hex = id,
     argon2_verify = (\<lambda>_ _. None) \<rparr>"

lemma demo_lower_ok: "lower_ok (se_lower demo_env)"
  by (simp add: lower_ok_def demo_env_def)

lemma demo_jwt_ok: "jwt_ok demo_env"
proof -
  have "the_inv json_number (json_number x) = x" for x
    by (rule the_inv_f_f) (auto simp: inj_def dest: json_number_inj)
  then show ?thesis by (simp add: jwt_ok_def demo_env_def demo_decode_def del: json_number.simps)
qed

definition demo_settings :: jwt_settings where
  "demo_settings = \<lparr> secret_key = [1], jwt_issuer = [2], jwt_audience = [3],
     bootstrap_admin_username = u ''admin'', bootstrap_admin_password = [] \<rparr>"

definition demo_user :: user where
  "demo_user = \<lparr> us_id = 7, us_username = u ''ops'', us_role = u ''admin'', us_roles_json = None, us_enabled = True \<rparr>"

definition demo_tables :: auth_tables where
  "demo_tables = \<lparr> users = [7 \<mapsto> demo_user], browser_sessions = Map.empty, api_tokens = [],
     instance_setting = Some (u ''box''), appliance_settings = None, audit_log = [] \<rparr>"

definition demo_state :: auth_state where
  "demo_state = \<lparr> work = demo_tables, disk = demo_tables, cookies = empty_cookie \<rparr>"

definition demo_request :: "string \<Rightarrow> token_request" where
  "demo_request scope = \<lparr> tc_name = u ''t'', tc_description = None, tc_expires_at = None, tc_scopes = [u scope] \<rparr>"

lemma demo_roles: "roles_from_json demo_env None (u ''admin'') = [u ''admin'']"
proof -
  have v: "u ''admin'' \<in> VALID_ROLE_VALUES" by (simp add: VALID_ROLE_VALUES_def)
  have "normal_roles demo_env [u ''admin''] = [u ''admin'']"
    by (rule normal_roles_canonical [OF demo_lower_ok]) (use v in simp_all)
  then show ?thesis by (simp add: roles_from_json_def)
qed

lemma demo_scopes: "scopes_for_roles demo_env [u ''admin''] = set ALL_SCOPES"
proof -
  have "normal_roles demo_env [u ''admin''] = [u ''admin'']" using demo_roles by (simp add: roles_from_json_def)
  moreover have "u ''admin:all'' \<in> set ALL_SCOPES" by (simp add: ALL_SCOPES_def)
  ultimately show ?thesis by (simp add: scopes_for_roles_def scopes_of_role_def ROLE_SCOPES_def)
qed

text \<open>Creating a token for the demo user in any state with room for it.\<close>

lemma demo_create:
  assumes "u scope \<in> set ALL_SCOPES" "j \<notin> jti ` set (api_tokens (work s))" "appliance_settings (work s) = None"
  shows "\<exists>tok raw s'. create_token_for_user demo_env demo_settings now now' j demo_user (demo_request scope) a s
            = (Inr (tok, raw), s') \<and> instant (expires_at tok) = now + 90 * DAY"
proof -
  have ex: "token_expiry now 90 None = Inr (now + 90 * DAY)"
    by (simp add: token_expiry_def is_naive_def DAY_def SECOND_def Let_def)
  have al: "roles_allow_scopes demo_env [u ''admin''] {u scope}"
    using assms(1) by (simp add: roles_allow_scopes_def demo_scopes)
  obtain s1 where ur: "user_roles demo_env demo_user s = (Inr [u ''admin''], s1)"
    using user_roles_total [of demo_env demo_user s] by (auto simp: demo_user_def demo_roles)
  have sub: "set (tc_scopes (demo_request scope)) \<subseteq> set ALL_SCOPES" using assms(1) by (simp add: demo_request_def)
  have al': "roles_allow_scopes demo_env [u ''admin''] (set (tc_scopes (demo_request scope)))"
    using al by (simp add: demo_request_def)
  have ex': "token_expiry now (max_lifetime_days (work s)) (tc_expires_at (demo_request scope)) = Inr (now + 90 * DAY)"
    using ex assms(3) by (simp add: demo_request_def max_lifetime_days_def)
  obtain tok raw s' where c: "create_token_for_user demo_env demo_settings now now' j demo_user (demo_request scope) a s
      = (Inr (tok, raw), s')"
    using create_token_succeeds [OF sub ur al' assms(2) ex'] by blast
  have "instant (expires_at tok) = now + 90 * DAY" using create_token_result(16) [OF c] ex' by simp
  with c show ?thesis by blast
qed

text \<open>Witness: a token for the demo user, issued at time 0 and used one day later.\<close>

theorem token_grants_requested_scopes_witness:
  "\<exists>tok raw s' i s''.
     create_token_for_user demo_env demo_settings 0 0 (u ''j1'') demo_user (demo_request ''read:dns'') (u ''ops'') demo_state
       = (Inr (tok, raw), s')
   \<and> in_request empty_cookie (get_current_api_identity demo_env demo_settings DAY (Some raw)) s' = (Inr i, s'')
   \<and> can i (u ''read:dns'') \<and> \<not> can i (u ''write:dns'')"
proof -
  have sc: "u ''read:dns'' \<in> set ALL_SCOPES" by (simp add: ALL_SCOPES_def)
  have st: "u ''j1'' \<notin> jti ` set (api_tokens (work demo_state))" "appliance_settings (work demo_state) = None"
    by (simp_all add: demo_state_def demo_tables_def)
  obtain tok raw s' where c: "create_token_for_user demo_env demo_settings 0 0 (u ''j1'') demo_user
      (demo_request ''read:dns'') (u ''ops'') demo_state = (Inr (tok, raw), s')"
    and x: "instant (expires_at tok) = 0 + 90 * DAY" using demo_create [OF sc st] by blast
  have t: "(0::int) \<le> DAY" "DAY < timestamp (instant (expires_at tok)) * SECOND"
    by (simp_all add: x timestamp_def DAY_def SECOND_def)
  show ?thesis
    using token_grants_requested_scopes [OF demo_lower_ok demo_jwt_ok c t, of empty_cookie] c
    by (auto simp: demo_request_def)
qed

text \<open>A session that was logged out, and the cookie that belongs to it.\<close>

definition demo_session :: browser_session where
  "demo_session = \<lparr> bs_user_id = 7, issued_at = Aware 0, last_interactive_at = Aware 0, expired_at = None,
     expiry_reason = None \<rparr>"

definition demo_cookie :: cookie where
  "demo_cookie = empty_cookie\<lparr>ck_user_id := Some 7, ck_browser_session_id := Some (u ''b''), ck_instance_id := Some (u ''box'')\<rparr>"

definition demo_live :: auth_state where
  "demo_live = demo_state\<lparr>disk := demo_tables\<lparr>browser_sessions := [u ''b'' \<mapsto> demo_session]\<rparr>\<rparr>"

definition demo_get :: http_request where
  "demo_get = \<lparr> rq_method = u ''GET'', rq_path = u ''/ui/management/dns'', sec_fetch_mode = u ''cors'',
     accept_header = [], csrf_header = [] \<rparr>"

text \<open>Witness: after a logout at time 5 the cookie of the session gives no identity.\<close>

theorem session_revocation_is_final_witness:
  "fst (in_request demo_cookie (get_session_identity demo_env 6 [] demo_get)
     (snd (in_request demo_cookie (end_browser_session 5 ''logout'') demo_live))) = Inr None"
proof -
  let ?s = "snd (in_request demo_cookie (end_browser_session 5 ''logout'') demo_live)"
  have "browser_sessions (disk ?s) (u ''b'') =
          Some (demo_session\<lparr>expired_at := Some (Aware 5), expiry_reason := Some ''logout''\<rparr>)"
    by (simp add: in_request_def end_browser_session_def current_browser_session_def demo_cookie_def demo_live_def
        demo_session_def expire_session_def change_def commit_def set_cookie_def bindS_def modifyS_def)
  then show ?thesis
    by (rule session_revocation_is_final) (simp_all add: demo_cookie_def)
qed

text \<open>Witness: a background request in the first minute of the session.\<close>

theorem browser_identity_sound_witness:
  "\<exists>i s'. in_request demo_cookie (get_session_identity demo_env 6 [] demo_get) demo_live = (Inr (Some i), s')
     \<and> id_username i = u ''ops'' \<and> browser_sessions (disk s') = [u ''b'' \<mapsto> demo_session]"
proof -
  have ni: "\<not> browser_request_is_interactive demo_env demo_get"
    by (simp add: browser_request_is_interactive_def demo_env_def demo_get_def safe_method_def u_def strip_def
        lstrip_def rstrip_def is_space_def ascii_lower_def of_char_def)
  define i where "i = make_identity demo_env (u ''ops'') (u ''admin'') (set ALL_SCOPES) [u ''admin''] (Some 7) None None ''session''"
  have "can i sc" for sc by (simp add: can_def i_def make_identity_def Let_def ALL_SCOPES_def)
  then have en: "enforce_ui_path_permission demo_get i = Inr ()"
    by (simp add: enforce_ui_path_permission_def split: option.split)
  have sp: "strip (u ''box'') = u ''box''" by (simp add: strip_def lstrip_def rstrip_def is_space_def u_def of_char_def)
  have pr: "primary_role demo_env [u ''admin''] = u ''admin''"
    using demo_roles by (simp add: primary_role_def roles_from_json_def)
  obtain s1 where ur: "user_roles demo_env demo_user s = (Inr [u ''admin''], s1 s)" for s
    using user_roles_total [of demo_env demo_user] by (metis demo_roles demo_user_def user.select_convs(3,4))
  have du: "us_enabled demo_user" "us_username demo_user = u ''ops''" "us_id demo_user = 7"
    by (simp_all add: demo_user_def)
  have "\<exists>s'. in_request demo_cookie (get_session_identity demo_env 6 [] demo_get) demo_live = (Inr (Some i), s')"
    using en ni sp ur du
    by (simp add: Let_def pr demo_scopes i_def [symmetric] in_request_def get_session_identity_def demo_cookie_def demo_live_def ensure_appliance_instance_id_def
        demo_state_def demo_tables_def current_browser_session_def resume_session_def demo_session_def
        session_identity_def idle_minutes_def MINUTE_def ensure_aware_def demo_user_def [symmetric]
        bindS_def getS_def liftS_def returnS_def)
  then obtain s' where r: "in_request demo_cookie (get_session_identity demo_env 6 [] demo_get) demo_live = (Inr (Some i), s')"
    by blast
  have "browser_sessions (disk demo_live) = [u ''b'' \<mapsto> demo_session]" by (simp add: demo_live_def)
  then have "browser_sessions (disk s') = [u ''b'' \<mapsto> demo_session]"
    using browser_identity_sound [OF r] ni by auto
  moreover have "id_username i = u ''ops''" by (simp add: i_def make_identity_def Let_def)
  ultimately show ?thesis using r by blast
qed

text \<open>Witness: a page below \<open>/vcf-trust/root-ca\<close> is decided by that entry and not by \<open>/vcf-trust\<close>.\<close>

theorem ui_rule_is_most_specific_witness:
  "required_scope (u ''GET'') (u ''/vcf-trust/root-ca/pem'') = Some (u ''read:ca'')
   \<and> under (u ''/vcf-trust'') (u ''/vcf-trust/root-ca/pem'')"
proof -
  let ?p = "u ''/vcf-trust/root-ca/pem''"
  have st: "strip_ui_root [MANAGEMENT_UI_ROOT, PUBLIC_UI_ROOT] ?p = ?p"
    by (simp add: MANAGEMENT_UI_ROOT_def PUBLIC_UI_ROOT_def startswith_take u_def of_char_def)
  have np: "?p \<notin> {[47], u ''/logout''}" by (simp add: u_def)
  have un: "under (u ''/vcf-trust/root-ca'') ?p" "under (u ''/vcf-trust'') ?p" by (simp_all add: under_u)
  have mem: "(u ''/vcf-trust/root-ca'', u ''read:ca'', u ''write:ca'') \<in> set UI_PATH_SCOPES"
    by (simp add: UI_PATH_SCOPES_def)
  have mx: "\<forall>q \<in> set UI_PATH_SCOPES. under (fst q) ?p \<longrightarrow> length (fst q) \<le> length (u ''/vcf-trust/root-ca'')"
    by (simp add: UI_PATH_SCOPES_def under_u)
  have "safe_method (u ''GET'')" by (simp add: safe_method_def)
  then show ?thesis
    using ui_rule_is_most_specific [of "u ''GET''" ?p "u ''read:ca''"] np un mem mx unfolding st by (metis (full_types))
qed

text \<open>A narrow token of the demo user, valid at the end of its first day.\<close>

lemma demo_narrow:
  obtains tok raw s' where
    "create_token_for_user demo_env demo_settings 0 0 (u ''j1'') demo_user (demo_request ''read:dashboard'') (u ''ops'')
       demo_state = (Inr (tok, raw), s')"
    "DAY < timestamp (instant (expires_at tok)) * SECOND"
    "api_tokens (disk s') = [tok]" "at_id tok = 1" "jti tok = u ''j1''"
    "claim (jwt_payload demo_env demo_settings (u ''ops'') (primary_role demo_env [u ''admin'']) [u ''admin'']
       [u ''read:dashboard''] (u ''j1'') (instant (expires_at tok)) 0) ''jti'' = JStr (u ''j1'')"
    "jwt_decode demo_env raw (secret_key demo_settings) (jwt_issuer demo_settings) (jwt_audience demo_settings) DAY
       = Some (jwt_payload demo_env demo_settings (u ''ops'') (primary_role demo_env [u ''admin'']) [u ''admin'']
           [u ''read:dashboard''] (u ''j1'') (instant (expires_at tok)) 0)"
proof -
  have sc: "u ''read:dashboard'' \<in> set ALL_SCOPES" by (simp add: ALL_SCOPES_def)
  have st: "u ''j1'' \<notin> jti ` set (api_tokens (work demo_state))" "appliance_settings (work demo_state) = None"
    by (simp_all add: demo_state_def demo_tables_def)
  obtain tok raw s' where c: "create_token_for_user demo_env demo_settings 0 0 (u ''j1'') demo_user
      (demo_request ''read:dashboard'') (u ''ops'') demo_state = (Inr (tok, raw), s')"
    and x: "instant (expires_at tok) = 0 + 90 * DAY" using demo_create [OF sc st] by blast
  have t: "DAY < timestamp (instant (expires_at tok)) * SECOND" by (simp add: x timestamp_def DAY_def SECOND_def)
  have r: "[u ''admin''] = roles_from_json demo_env None (u ''admin'')" by (simp add: demo_roles)
  note C = create_token_result [OF c] and P = payload_claims [OF demo_lower_ok r refl, of demo_settings "u ''ops''"
      "[u ''read:dashboard'']" "u ''j1''" "instant (expires_at tok)" 0]
  have "jwt_decode demo_env raw (secret_key demo_settings) (jwt_issuer demo_settings) (jwt_audience demo_settings) DAY
       = Some (jwt_payload demo_env demo_settings (u ''ops'') (primary_role demo_env [u ''admin'']) [u ''admin'']
           [u ''read:dashboard''] (u ''j1'') (instant (expires_at tok)) 0)"
    using demo_jwt_ok P(4-7) t C(5) unfolding jwt_ok_def create_jwt_def
    by (simp add: demo_user_def demo_roles demo_request_def timestamp_def SECOND_def DAY_def)
  moreover have "api_tokens (disk s') = [tok]" "at_id tok = 1"
    using C(3,17) by (simp_all add: demo_state_def demo_tables_def next_id_def)
  ultimately show thesis using that c t C(6) P(2) by blast
qed

text \<open>Witness: the narrow token revokes itself.\<close>

theorem token_revocation_is_final_witness:
  "\<exists>raw s' tok s1.
     in_request empty_cookie (revoke_api_token demo_env demo_settings DAY (Some raw) 1) s' = (Inr tok, s1)
   \<and> (\<exists>i. fst (in_request empty_cookie (get_current_api_identity demo_env demo_settings DAY (Some raw)) s') = Inr i)
   \<and> fst (in_request empty_cookie (get_current_api_identity demo_env demo_settings DAY (Some raw)) s1)
       = Inl (HTTPException 401 ''Token is revoked or unknown'')"
proof -
  obtain tok raw s' where c: "create_token_for_user demo_env demo_settings 0 0 (u ''j1'') demo_user
      (demo_request ''read:dashboard'') (u ''ops'') demo_state = (Inr (tok, raw), s')"
    and t: "DAY < timestamp (instant (expires_at tok)) * SECOND"
    and ts: "api_tokens (disk s') = [tok]" "at_id tok = 1" "jti tok = u ''j1''"
    and cl: "claim (jwt_payload demo_env demo_settings (u ''ops'') (primary_role demo_env [u ''admin'']) [u ''admin'']
       [u ''read:dashboard''] (u ''j1'') (instant (expires_at tok)) 0) ''jti'' = JStr (u ''j1'')"
    and dec: "jwt_decode demo_env raw (secret_key demo_settings) (jwt_issuer demo_settings) (jwt_audience demo_settings) DAY
       = Some (jwt_payload demo_env demo_settings (u ''ops'') (primary_role demo_env [u ''admin'']) [u ''admin'']
           [u ''read:dashboard''] (u ''j1'') (instant (expires_at tok)) 0)"
    by (rule demo_narrow)
  have d: "(0::int) \<le> DAY" by (simp add: DAY_def SECOND_def)
  obtain i s'' where i: "in_request empty_cookie (get_current_api_identity demo_env demo_settings DAY (Some raw)) s' = (Inr i, s'')"
    and sc: "id_scopes i = {u ''read:dashboard''}" and ro: "id_roles i = [u ''admin'']"
    and w: "work s'' = api_tokens_update (put_token (tok\<lparr>last_used_at := Some (Aware DAY)\<rparr>)) (disk s')"
    using bearer_after_create [OF demo_lower_ok demo_jwt_ok c d t refl, of empty_cookie]
    by (auto simp: demo_request_def demo_user_def demo_roles)
  define tok1 where "tok1 = tok\<lparr>last_used_at := Some (Aware DAY)\<rparr>"
  have w1: "api_tokens (work s'') = [tok1]" using w ts by (simp add: put_token_def tok1_def)
  have rs: "require_scope demo_env demo_settings DAY (u ''read:dashboard'') (Some raw)
      (s'\<lparr>work := disk s', cookies := empty_cookie\<rparr>) = (Inr i, s'')"
    using i sc by (simp add: in_request_def require_scope_def bindS_def liftS_def check_scope_def can_def)
  have vis: "visible_token i 1 (api_tokens (work s'')) = Inr tok1"
    using ts ro by (simp add: w1 visible_token_def has_role_def tok1_def)
  obtain s1 where rv: "in_request empty_cookie (revoke_api_token demo_env demo_settings DAY (Some raw) 1) s' =
     (Inr (tok1\<lparr>at_enabled := False, revoked_at := Some (Aware DAY), revoked_by := Some (id_username i)\<rparr>), s1)"
    using rs vis by (simp add: in_request_def revoke_api_token_def revoke_token_def Let_def bindS_def getS_def liftS_def
        change_def commit_def record_audit_def modifyS_def returnS_def)
  have "fst (in_request empty_cookie (get_current_api_identity demo_env demo_settings DAY (Some raw)) s1)
       = Inl (HTTPException 401 ''Token is revoked or unknown'')"
    by (rule token_revocation_is_final [OF _ _ rv rtranclp.rtrancl_refl dec])
      (simp_all add: ts tok1_def cl)
  with rv i show ?thesis by fastforce
qed

text \<open>Witness: a token that may only read the dashboard obtains one with \<open>admin:all\<close>.\<close>

theorem new_token_not_limited_by_caller_witness:
  "\<exists>raw s' i s1 tok raw' s2.
     in_request empty_cookie (require_scope demo_env demo_settings DAY (u ''read:dashboard'') (Some raw)) s' = (Inr i, s1)
   \<and> \<not> can i (u ''admin:all'')
   \<and> in_request empty_cookie (create_api_token demo_env demo_settings DAY DAY (u ''j2'') (Some raw) (demo_request ''admin:all'')) s'
       = (Inr (tok, raw'), s2)
   \<and> scopes_from_string (at_scopes tok) = {u ''admin:all''}"
proof -
  obtain tok raw s' where c: "create_token_for_user demo_env demo_settings 0 0 (u ''j1'') demo_user
      (demo_request ''read:dashboard'') (u ''ops'') demo_state = (Inr (tok, raw), s')"
    and t: "DAY < timestamp (instant (expires_at tok)) * SECOND"
    and ts: "api_tokens (disk s') = [tok]" "at_id tok = 1" "jti tok = u ''j1''"
    by (rule demo_narrow)
  have d: "(0::int) \<le> DAY" by (simp add: DAY_def SECOND_def)
  define s3 where "s3 = s'\<lparr>disk := (disk s')\<lparr>users := [7 \<mapsto> demo_user], appliance_settings := None\<rparr>\<rparr>"
  have s3: "api_tokens (disk s3) = api_tokens (disk s')" by (simp add: s3_def)
  obtain i s'' where i: "in_request empty_cookie (get_current_api_identity demo_env demo_settings DAY (Some raw)) s3 = (Inr i, s'')"
    and sc: "id_scopes i = {u ''read:dashboard''}" and uid: "id_user_id i = Some 7"
    and w: "work s'' = api_tokens_update (put_token (tok\<lparr>last_used_at := Some (Aware DAY)\<rparr>)) (disk s3)"
    using bearer_after_create [OF demo_lower_ok demo_jwt_ok c d t s3, of empty_cookie]
    by (auto simp: demo_request_def demo_user_def)
  have rs: "in_request empty_cookie (require_scope demo_env demo_settings DAY (u ''read:dashboard'') (Some raw)) s3 = (Inr i, s'')"
    using i sc by (simp add: in_request_def require_scope_def bindS_def liftS_def check_scope_def can_def)
  have us: "users (disk s3) 7 = Some demo_user" "max_lifetime_days (disk s3) = 90"
    by (simp_all add: s3_def max_lifetime_days_def)
  have al: "u ''admin:all'' \<in> set ALL_SCOPES" by (simp add: ALL_SCOPES_def)
  have "\<exists>tok raw' s2. in_request empty_cookie (create_api_token demo_env demo_settings DAY DAY (u ''j2'') (Some raw)
      (demo_request ''admin:all'')) s3 = (Inr (tok, raw'), s2)
      \<and> scopes_from_string (at_scopes tok) = set (tc_scopes (demo_request ''admin:all''))"
    by (rule new_token_not_limited_by_caller [OF rs uid us(1)])
      (simp_all add: al us(2) demo_request_def demo_user_def demo_roles demo_scopes w s3 ts put_token_def)
  then show ?thesis using rs sc by (fastforce simp: can_def demo_request_def)
qed

end
