(* ===== verification/Ui_Routes.thy ===== *)
theory Ui_Routes
  imports Security
begin

text \<open>
  \<open>src/atlaso/app/ui_routes.py\<close>: the browser namespaces, the redirection of retired paths, and the
  normalisation of the return target of a login. \<open>urllib.parse.urlsplit\<close> and \<open>urlunsplit\<close> are modelled
  after CPython; of the checks of a network location that need Unicode normalisation or an address
  parser, only that they raise \<open>ValueError\<close> is kept (the parameter \<open>bad_netloc\<close>).
\<close>

section \<open>\<open>urlsplit\<close> and \<open>urlunsplit\<close>\<close>

record split_url =
  url_scheme :: pystr
  url_netloc :: pystr
  url_path :: pystr
  url_query :: pystr
  url_fragment :: pystr

text \<open>\<open>s.split(c, 1)\<close> when \<open>c\<close> occurs in \<open>s\<close>.\<close>

definition cut :: "nat \<Rightarrow> pystr \<Rightarrow> pystr \<times> pystr" where
  "cut c s = (takeWhile (\<lambda>x. x \<noteq> c) s, drop 1 (dropWhile (\<lambda>x. x \<noteq> c) s))"

definition scheme_char :: "nat \<Rightarrow> bool" where
  "scheme_char c \<longleftrightarrow> ascii_alnum c \<or> c \<in> {43, 45, 46}"

definition split_scheme :: "pystr \<Rightarrow> pystr \<times> pystr" where
  "split_scheme s =
     (let head = takeWhile (\<lambda>x. x \<noteq> 58) s
      in if 58 \<in> set s \<and> head \<noteq> [] \<and> (65 \<le> hd s \<and> hd s \<le> 90 \<or> 97 \<le> hd s \<and> hd s \<le> 122)
            \<and> list_all scheme_char head
         then (map ascii_lower head, drop (Suc (length head)) s) else ([], s))"

definition unsafe_byte :: "nat \<Rightarrow> bool" where
  "unsafe_byte c \<longleftrightarrow> c \<in> {9, 10, 13}"

definition netloc_delimiter :: "nat \<Rightarrow> bool" where
  "netloc_delimiter c \<longleftrightarrow> c \<in> {47, 63, 35}"

definition split_netloc :: "(pystr \<Rightarrow> bool) \<Rightarrow> pystr \<Rightarrow> web_error + pystr \<times> pystr" where
  "split_netloc bad s =
     (if take 2 s = [47, 47]
      then let netloc = takeWhile (\<lambda>c. \<not> netloc_delimiter c) (drop 2 s);
               rest = dropWhile (\<lambda>c. \<not> netloc_delimiter c) (drop 2 s)
           in if (91 \<in> set netloc) \<noteq> (93 \<in> set netloc) then Inl (ValueErr ''Invalid IPv6 URL'')
              else if bad netloc then Inl (ValueErr ''netloc'') else Inr (netloc, rest)
      else Inr ([], s))"

definition urlsplit :: "(pystr \<Rightarrow> bool) \<Rightarrow> pystr \<Rightarrow> web_error + split_url" where
  "urlsplit bad url0 =
     (let url1 = filter (\<lambda>c. \<not> unsafe_byte c) (dropWhile (\<lambda>c. c \<le> 32) url0);
          (scheme, url2) = split_scheme url1
      in bindE (split_netloc bad url2) (\<lambda>(netloc, url3).
         let (url4, fragment) = cut 35 url3; (path, query) = cut 63 url4
         in Inr \<lparr> url_scheme = scheme, url_netloc = netloc, url_path = path, url_query = query,
                  url_fragment = fragment \<rparr>))"

text \<open>\<open>urlunsplit(("", "", path, query, fragment))\<close>.\<close>

definition urlunsplit_path :: "pystr \<Rightarrow> pystr \<Rightarrow> pystr \<Rightarrow> pystr" where
  "urlunsplit_path path query fragment =
     (if take 2 path = [47, 47] then [47, 47] @ path else path)
     @ (if query \<noteq> [] then 63 # query else []) @ (if fragment \<noteq> [] then 35 # fragment else [])"

section \<open>Namespaces\<close>

datatype plane = Management | Public

definition MANAGEMENT_ROUTE_ROOTS :: "pystr set" where
  "MANAGEMENT_ROUTE_ROOTS = set (map u
     [''appliance'', ''appliance-apply'', ''appliance-update'', ''audit-log'', ''authentication'',
      ''automation'', ''backup-restore'', ''certificate-authority'', ''dashboard'', ''dhcp'', ''dns'',
      ''esx-storage'', ''esxi-pxe'', ''firewall'', ''https-repository'', ''ldap'', ''ldap-users'', ''login'',
      ''logout'', ''logs'', ''monitor'', ''network-boot'', ''network-objects'', ''ntp'', ''openid-connect'',
      ''physical-interfaces'', ''routes-wan'', ''traffic-publishing'', ''server-time'', ''services'',
      ''settings'', ''tasks'', ''users'', ''vaults'', ''vcf-backups'', ''vcf-helper'', ''vcf-offline-depot'',
      ''vcf-private-registry'', ''vcf-trust'', ''vlan-interfaces'', ''vsphere-key-providers''])"

definition PUBLIC_LEGACY_PATHS :: "(pystr \<times> pystr) list" where
  "PUBLIC_LEGACY_PATHS = map (\<lambda>(a, b). (u a, u b))
     [(''/ca'', ''/ca''), (''/ca/login'', ''/ca/login''), (''/requests'', ''/ca/requests''),
      (''/requests/login'', ''/ca/requests/login''), (''/requests/logout'', ''/ca/requests/logout'')]"

definition PUBLIC_LEGACY_PREFIXES :: "(pystr \<times> pystr) list" where
  "PUBLIC_LEGACY_PREFIXES = map (\<lambda>(a, b). (u a, u b))
     [(''/requests/certificates/'', ''/ca/requests/certificates/''),
      (''/certificates/'', ''/ca/requests/certificates/'')]"

definition MANAGEMENT_LEGACY_PATHS :: "(pystr \<times> pystr) list" where
  "MANAGEMENT_LEGACY_PATHS = [(u ''/ca/requests'', u ''/ca/requests'')]"

definition MANAGEMENT_LEGACY_PREFIXES :: "(pystr \<times> pystr) list" where
  "MANAGEMENT_LEGACY_PREFIXES = [(u ''/ca/certificates/'', u ''/ca/certificates/'')]"

definition PROTOCOL_PATH_PREFIXES :: "pystr list" where
  "PROTOCOL_PATH_PREFIXES = map u
     [''/api/'', ''/ca/downloads/'', ''/certificate-authority/downloads/'', ''/oauth/'', ''/openid/'', ''/oidc/'',
      ''/PROD'', ''/pxe/'', ''/static/'']"

definition PROTOCOL_EXACT_PATHS :: "pystr set" where
  "PROTOCOL_EXACT_PATHS = set (map u
     [''/api'', ''/favicon.ico'', ''/manifest.webmanifest'', ''/openapi.json'', ''/service-worker.js'',
      ''/terminal/remote-launches'', ''/terminal/tickets'', ''/terminal/ws''])"

definition plane_path :: "pystr \<Rightarrow> pystr \<Rightarrow> pystr" where
  "plane_path base path =
     (let candidate = strip path
      in if candidate = [] \<or> candidate = [47] then base
         else if under base candidate then candidate
         else if \<not> startswith candidate [47] then base @ (47 # candidate)
         else base @ candidate)"

definition management_ui_path :: "pystr \<Rightarrow> pystr" where
  "management_ui_path path = plane_path MANAGEMENT_UI_ROOT path"

definition public_ui_path :: "pystr \<Rightarrow> pystr" where
  "public_ui_path path = plane_path PUBLIC_UI_ROOT path"

definition certificate_download :: "pystr \<Rightarrow> bool" where
  "certificate_download path = (case split_on 47 path of
     [a, b, c, x, d, y] \<Rightarrow> a = [] \<and> b = u ''certificate-authority'' \<and> c = u ''certificates'' \<and> x \<noteq> []
       \<and> d = u ''downloads'' \<and> y \<noteq> []
   | _ \<Rightarrow> False)"

definition is_protocol_path :: "pystr \<Rightarrow> bool" where
  "is_protocol_path path \<longleftrightarrow> path \<in> PROTOCOL_EXACT_PATHS
     \<or> list_ex (startswith path) PROTOCOL_PATH_PREFIXES \<or> certificate_download path"

section \<open>Retired paths\<close>

fun replace_prefix :: "(pystr \<times> pystr) list \<Rightarrow> pystr \<Rightarrow> pystr option" where
  "replace_prefix [] path = None"
| "replace_prefix ((p, r) # ps) path =
     (if startswith path p then Some (r @ removeprefix path p) else replace_prefix ps path)"

definition first_segment :: "pystr \<Rightarrow> pystr" where
  "first_segment path = takeWhile (\<lambda>c. c \<noteq> 47) (dropWhile (\<lambda>c. c = 47) path)"

definition legacy_browser_target :: "pystr \<Rightarrow> bool \<Rightarrow> (plane \<times> pystr) option" where
  "legacy_browser_target path public_terminal =
     (if \<not> startswith path [47] \<or> startswith path [47, 47] \<or> is_protocol_path path then None
      else if public_terminal \<and> path \<in> {u ''/login'', u ''/logout''} then Some (Public, public_ui_path path)
      else if path = u ''/terminal'' \<or> startswith path (u ''/terminal/'')
        then Some (if public_terminal then (Public, public_ui_path path) else (Management, management_ui_path path))
      else (case map_of MANAGEMENT_LEGACY_PATHS path of
          Some p \<Rightarrow> Some (Management, management_ui_path p)
        | None \<Rightarrow> (case replace_prefix MANAGEMENT_LEGACY_PREFIXES path of
            Some p \<Rightarrow> Some (Management, management_ui_path p)
          | None \<Rightarrow> (case map_of PUBLIC_LEGACY_PATHS path of
              Some p \<Rightarrow> Some (Public, public_ui_path p)
            | None \<Rightarrow> (case replace_prefix PUBLIC_LEGACY_PREFIXES path of
                Some p \<Rightarrow> Some (Public, public_ui_path p)
              | None \<Rightarrow>
                  if first_segment path \<in> MANAGEMENT_ROUTE_ROOTS
                  then Some (Management, management_ui_path path) else None)))))"

definition canonical_browser_location :: "(pystr \<Rightarrow> bool) \<Rightarrow> pystr \<Rightarrow> plane \<Rightarrow> web_error + pystr" where
  "canonical_browser_location bad location pl =
     bindE (urlsplit bad location) (\<lambda>parsed.
     let path = url_path parsed
     in Inr (if url_scheme parsed \<noteq> [] \<or> url_netloc parsed \<noteq> [] \<or> \<not> startswith path [47] \<or> startswith path [47, 47]
             then location
             else if under MANAGEMENT_UI_ROOT path \<or> under PUBLIC_UI_ROOT path then location
             else if is_protocol_path path \<or> path = [47] then location
             else (case legacy_browser_target path (pl = Public) of
                 None \<Rightarrow> location
               | Some (target_plane, target_path) \<Rightarrow>
                   if target_plane \<noteq> pl then location
                   else urlunsplit_path target_path (url_query parsed) (url_fragment parsed))))"

section \<open>Return targets\<close>

text \<open>\<open>/certificate-authority(?:/certificates/[^/]+)?/downloads/[^/]+\<close>.\<close>

definition authority_download :: "pystr \<Rightarrow> bool" where
  "authority_download path \<longleftrightarrow> certificate_download path \<or> (case split_on 47 path of
     [a, b, d, y] \<Rightarrow> a = [] \<and> b = u ''certificate-authority'' \<and> d = u ''downloads'' \<and> y \<noteq> []
   | _ \<Rightarrow> False)"

definition unsafe_target :: "pystr \<Rightarrow> bool" where
  "unsafe_target target \<longleftrightarrow> \<not> startswith target [47] \<or> startswith target [47, 47] \<or> 92 \<in> set target"

definition safe_management_return_path :: "(pystr \<Rightarrow> bool) \<Rightarrow> pystr option \<Rightarrow> web_error + pystr" where
  "safe_management_return_path bad value =
     (let target = strip (case value of None \<Rightarrow> [] | Some v \<Rightarrow> v)
      in if unsafe_target target then Inr MANAGEMENT_UI_ROOT
         else bindE (urlsplit bad target) (\<lambda>parsed.
           let rebuild = (\<lambda>p. urlunsplit_path p (url_query parsed) (url_fragment parsed))
           in Inr (if url_scheme parsed \<noteq> [] \<or> url_netloc parsed \<noteq> [] then MANAGEMENT_UI_ROOT
                   else if under MANAGEMENT_UI_ROOT (url_path parsed) then rebuild (url_path parsed)
                   else if authority_download (url_path parsed) then rebuild (url_path parsed)
                   else (case legacy_browser_target (url_path parsed) False of
                       Some (Management, p) \<Rightarrow> rebuild p
                     | _ \<Rightarrow> MANAGEMENT_UI_ROOT))))"

definition safe_public_return_path :: "(pystr \<Rightarrow> bool) \<Rightarrow> pystr option \<Rightarrow> pystr \<Rightarrow> web_error + pystr" where
  "safe_public_return_path bad value fallback =
     (let target = strip (case value of None \<Rightarrow> [] | Some v \<Rightarrow> v)
      in if unsafe_target target then Inr (public_ui_path fallback)
         else bindE (urlsplit bad target) (\<lambda>parsed.
           let rebuild = (\<lambda>p. urlunsplit_path p (url_query parsed) (url_fragment parsed))
           in Inr (if url_scheme parsed \<noteq> [] \<or> url_netloc parsed \<noteq> [] then public_ui_path fallback
                   else if under PUBLIC_UI_ROOT (url_path parsed) then rebuild (url_path parsed)
                   else (case legacy_browser_target (url_path parsed) True of
                       Some (Public, p) \<Rightarrow> rebuild p
                     | _ \<Rightarrow> public_ui_path fallback))))"

section \<open>Every target stays in its namespace\<close>

text \<open>A same-host target below a root: the root, followed by nothing, a path, a query or a fragment.\<close>

definition in_space :: "pystr \<Rightarrow> pystr \<Rightarrow> bool" where
  "in_space base t \<longleftrightarrow> (\<exists>rest. t = base @ rest \<and> (rest = [] \<or> hd rest \<in> {47, 63, 35}))"

lemma under_within: "under base p \<Longrightarrow> in_space base p"
  by (auto simp: under_def in_space_def startswith_def prefix_def)


lemma in_spaceI: "rest = [] \<or> hd rest \<in> {47, 63, 35} \<Longrightarrow> in_space base (base @ rest)"
  by (auto simp: in_space_def)

lemma startswith_head: "startswith s [c] \<longleftrightarrow> s \<noteq> [] \<and> hd s = c"
  by (cases s) (auto simp: startswith_def)

lemma plane_path_under:
  assumes "base \<noteq> []"
  shows "in_space base (plane_path base p)"
  unfolding plane_path_def Let_def
  by (auto simp: under_within startswith_head intro: in_spaceI in_spaceI [where rest = "[]", simplified])


lemma roots: "take 2 MANAGEMENT_UI_ROOT \<noteq> [47, 47]" "2 \<le> length MANAGEMENT_UI_ROOT"
  "take 2 PUBLIC_UI_ROOT \<noteq> [47, 47]" "2 \<le> length PUBLIC_UI_ROOT"
  "MANAGEMENT_UI_ROOT \<noteq> []" "PUBLIC_UI_ROOT \<noteq> []"
  by (simp_all add: MANAGEMENT_UI_ROOT_def PUBLIC_UI_ROOT_def u_def of_char_def)

fun plane_root :: "plane \<Rightarrow> pystr" where
  "plane_root Management = MANAGEMENT_UI_ROOT"
| "plane_root Public = PUBLIC_UI_ROOT"

lemma legacy_target_within:
  "legacy_browser_target path t = Some (pl, p) \<Longrightarrow> in_space (plane_root pl) p"
  using plane_path_under [OF roots(5)] plane_path_under [OF roots(6)]
  by (auto simp: legacy_browser_target_def management_ui_path_def public_ui_path_def
      split: if_split_asm option.split_asm)


section \<open>Theorems\<close>



lemma ui_path_not_legacy:
  assumes "in_space (plane_root pl) p"
  shows "legacy_browser_target p t = None"
proof -
  obtain rest where p: "p = u ''/ui/'' @ rest"
    using assms by (cases pl) (auto simp: in_space_def MANAGEMENT_UI_ROOT_def PUBLIC_UI_ROOT_def u_def)
  then have p': "p = 47 # 117 # 105 # 47 # rest" by (simp add: u_def of_char_def)
  have seg: "first_segment p = u ''ui''" by (simp add: p' first_segment_def u_def of_char_def)
  have "u ''ui'' \<notin> MANAGEMENT_ROUTE_ROOTS" by (simp add: MANAGEMENT_ROUTE_ROOTS_def)
  then show ?thesis
    unfolding legacy_browser_target_def seg
    by (simp add: p' startswith_take u_def of_char_def MANAGEMENT_LEGACY_PATHS_def MANAGEMENT_LEGACY_PREFIXES_def
        PUBLIC_LEGACY_PATHS_def PUBLIC_LEGACY_PREFIXES_def)
qed

text \<open>
  C38: the target of a retired path is not itself retired, in either setting of \<open>public_terminal\<close>: a
  redirected browser is not redirected again.
\<close>

theorem retired_redirects_once:
  assumes "legacy_browser_target path t = Some (pl, p)"
  shows "in_space (plane_root pl) p \<and> legacy_browser_target p t' = None"
  using legacy_target_within [OF assms] ui_path_not_legacy by blast

text \<open>Witness: the retired path of the DNS page.\<close>

theorem retired_redirects_once_witness:
  "\<exists>p. legacy_browser_target (u ''/dns'') False = Some (Management, p) \<and> legacy_browser_target p True = None"
proof -
  have "first_segment (u ''/dns'') = u ''dns''" by (simp add: first_segment_def u_def of_char_def)
  moreover have "\<not> is_protocol_path (u ''/dns'')"
    by (simp add: is_protocol_path_def PROTOCOL_EXACT_PATHS_def PROTOCOL_PATH_PREFIXES_def certificate_download_def
        startswith_take u_def of_char_def)
  ultimately have "legacy_browser_target (u ''/dns'') False = Some (Management, management_ui_path (u ''/dns''))"
    by (simp add: legacy_browser_target_def MANAGEMENT_LEGACY_PATHS_def MANAGEMENT_LEGACY_PREFIXES_def
        PUBLIC_LEGACY_PATHS_def PUBLIC_LEGACY_PREFIXES_def MANAGEMENT_ROUTE_ROOTS_def startswith_take)
      (simp add: u_def of_char_def)
  then show ?thesis using retired_redirects_once by blast
qed

text \<open>
  A return target with a tab inside its leading slashes makes \<open>urlsplit\<close> see a network location, and
  an unbalanced bracket in it raises \<open>ValueError\<close>, which neither function handles.
\<close>

theorem return_path_may_raise:
  "safe_management_return_path bad (Some [47, 9, 47, 91]) = Inl (ValueErr ''Invalid IPv6 URL'')
   \<and> safe_public_return_path bad (Some [47, 9, 47, 91]) fallback = Inl (ValueErr ''Invalid IPv6 URL'')"
  by (simp add: safe_management_return_path_def safe_public_return_path_def urlsplit_def split_scheme_def
      split_netloc_def unsafe_target_def startswith_take strip_def lstrip_def rstrip_def is_space_def
      unsafe_byte_def netloc_delimiter_def Let_def)

end
