(* ===== verification/Py_Repr.thy ===== *)
theory Py_Repr
  imports Web_Text
begin

text \<open>
  \<open>repr\<close> of strings, integers and tuples, as \<open>UploadPublication.token\<close> uses it. Which code points above
  ASCII \<open>repr\<close> shows as they are is the parameter \<open>pr\<close> (\<open>str.isprintable\<close>). The representations of two
  strings differ, and a representation can be told from what follows it.
\<close>

section \<open>Definitions\<close>

fun hex_fixed :: "nat \<Rightarrow> nat \<Rightarrow> pystr" where
  "hex_fixed 0 n = []"
| "hex_fixed (Suc k) n = hex_fixed k (n div 16) @ [hex_digit (n mod 16)]"

definition repr_char :: "(nat \<Rightarrow> bool) \<Rightarrow> nat \<Rightarrow> nat \<Rightarrow> pystr" where
  "repr_char pr q c =
     (if c = q \<or> c = 92 then [92, c]
      else if c = 9 then [92, 116] else if c = 10 then [92, 110] else if c = 13 then [92, 114]
      else if c < 32 \<or> c = 127 then [92, 120] @ hex_fixed 2 c
      else if c < 127 \<or> pr c then [c]
      else if c < 256 then [92, 120] @ hex_fixed 2 c
      else if c < 65536 then [92, 117] @ hex_fixed 4 c
      else [92, 85] @ hex_fixed 8 c)"

definition repr_quote :: "pystr \<Rightarrow> nat" where
  "repr_quote s = (if 39 \<in> set s \<and> 34 \<notin> set s then 34 else 39)"

definition repr_str :: "(nat \<Rightarrow> bool) \<Rightarrow> pystr \<Rightarrow> pystr" where
  "repr_str pr s = repr_quote s # concat (map (repr_char pr (repr_quote s)) s) @ [repr_quote s]"

section \<open>Unique readability\<close>

lemma length_hex_fixed [simp]: "length (hex_fixed k n) = k"
  by (induction k n rule: hex_fixed.induct) simp_all

lemma hex_digit_inj: "a < 16 \<Longrightarrow> b < 16 \<Longrightarrow> hex_digit a = hex_digit b \<Longrightarrow> a = b"
  by (auto simp: hex_digit_def split: if_splits)

lemma hex_fixed_inj: "hex_fixed k a = hex_fixed k b \<Longrightarrow> a < 16 ^ k \<Longrightarrow> b < 16 ^ k \<Longrightarrow> a = b"
proof (induction k arbitrary: a b)
  case (Suc k)
  have "a mod 16 = b mod 16" by (rule hex_digit_inj) (use Suc.prems in simp_all)
  moreover have "a div 16 = b div 16"
    by (rule Suc.IH) (use Suc.prems in \<open>simp_all add: less_mult_imp_div_less mult.commute\<close>)
  ultimately show ?case by (metis div_mult_mod_eq)
qed simp

lemma hex_fixed_append:
  assumes "hex_fixed k a @ x = hex_fixed k b @ y" "a < 16 ^ k" "b < 16 ^ k"
  shows "a = b \<and> x = y"
  using assms hex_fixed_inj by (metis append_eq_append_conv length_hex_fixed)

text \<open>A code point.\<close>

abbreviation code_point :: "nat \<Rightarrow> bool" where
  "code_point c \<equiv> c < 16 ^ 8"

lemma repr_char_shape:
  obtains (plain) "repr_char pr q c = [c]" "c \<noteq> 92" "c \<noteq> q"
  | (escaped) "repr_char pr q c = [92, c]" "c = q \<or> c = 92"
  | (control) d where "repr_char pr q c = [92, d]" "(c, d) \<in> {(9, 116), (10, 110), (13, 114)}"
  | (hex) d k where "repr_char pr q c = [92, d] @ hex_fixed k c" "(d, k) \<in> {(120, 2), (117, 4), (85, 8)}"
      "code_point c \<Longrightarrow> c < 16 ^ k"
proof (cases "c = q \<or> c = 92")
  case True
  then show thesis by (intro escaped) (auto simp: repr_char_def)
next
  case nq: False
  consider "c = 9" | "c = 10" | "c = 13" | "c \<notin> {9, 10, 13}" "c < 32 \<or> c = 127 \<or> \<not> pr c \<and> 127 \<le> c \<and> c < 256"
    | "32 \<le> c" "c \<noteq> 127" "c < 127 \<or> pr c" | "256 \<le> c" "\<not> pr c" "c < 65536" | "65536 \<le> c" "\<not> pr c"
    by force
  then show thesis
  proof cases
    case 1 with nq show ?thesis by (intro control [of 116]) (auto simp: repr_char_def)
  next
    case 2 with nq show ?thesis by (intro control [of 110]) (auto simp: repr_char_def)
  next
    case 3 with nq show ?thesis by (intro control [of 114]) (auto simp: repr_char_def)
  next
    case 4 with nq show ?thesis by (intro hex [of 120 2]) (auto simp: repr_char_def)
  next
    case 5 with nq show ?thesis by (intro plain) (auto simp: repr_char_def)
  next
    case 6 with nq show ?thesis by (intro hex [of 117 4]) (auto simp: repr_char_def)
  next
    case 7 with nq show ?thesis by (intro hex [of 85 8]) (auto simp: repr_char_def)
  qed
qed

lemma repr_char_append:
  assumes eq: "repr_char pr q c @ x = repr_char pr q d @ y" and cp: "code_point c" "code_point d" and q: "q \<in> {34, 39}"
  shows "c = d \<and> x = y"
proof (cases rule: repr_char_shape [where pr = pr and q = q and c = c])
  case plain
  then show ?thesis using eq by (cases rule: repr_char_shape [where pr = pr and q = q and c = d]) auto
next
  case escaped
  then show ?thesis using eq q by (cases rule: repr_char_shape [where pr = pr and q = q and c = d]) auto
next
  case (control e)
  then show ?thesis using eq q by (cases rule: repr_char_shape [where pr = pr and q = q and c = d]) auto
next
  case (hex e k)
  show ?thesis
  proof (cases rule: repr_char_shape [where pr = pr and q = q and c = d])
    case (hex e' k')
    then have "k = k'" "hex_fixed k c @ x = hex_fixed k' d @ y"
      using eq \<open>repr_char pr q c = [92, e] @ hex_fixed k c\<close> \<open>(e, k) \<in> {(120, 2), (117, 4), (85, 8)}\<close> by auto
    then show ?thesis using hex_fixed_append hex(3) [OF cp(2)] \<open>code_point c \<Longrightarrow> c < 16 ^ k\<close> cp(1) by metis
  qed (use eq q hex in auto)
qed

lemma repr_char_head: "repr_char pr q c @ x = q' # y \<Longrightarrow> q' \<in> {34, 39} \<Longrightarrow> q' \<noteq> q"
  by (cases rule: repr_char_shape [where pr = pr and q = q and c = c]) auto

lemma repr_body_append:
  assumes "concat (map (repr_char pr q) s) @ q # x = concat (map (repr_char pr q) t) @ q # y"
    "list_all code_point s" "list_all code_point t" "q \<in> {34, 39}"
  shows "s = t \<and> x = y"
  using assms
proof (induction s arbitrary: t)
  case Nil
  then show ?case
  proof (cases t)
    case (Cons d t')
    then show ?thesis using Nil repr_char_head [of pr q d "concat (map (repr_char pr q) t') @ q # y" q x] by simp
  qed simp
next
  case (Cons c s)
  show ?case
  proof (cases t)
    case Nil
    then show ?thesis using Cons.prems repr_char_head [of pr q c "concat (map (repr_char pr q) s) @ q # x" q y] by simp
  next
    case t: (Cons d t')
    have "c = d \<and> concat (map (repr_char pr q) s) @ q # x = concat (map (repr_char pr q) t') @ q # y"
      by (rule repr_char_append) (use Cons.prems t in auto)
    then show ?thesis using Cons.IH [of t'] Cons.prems t by auto
  qed
qed

lemma repr_str_append:
  assumes "repr_str pr s @ x = repr_str pr t @ y" "list_all code_point s" "list_all code_point t"
  shows "s = t \<and> x = y"
proof -
  have "repr_quote s = repr_quote t" using assms(1) by (simp add: repr_str_def)
  moreover have "repr_quote s \<in> {34, 39}" by (simp add: repr_quote_def)
  ultimately show ?thesis using assms repr_body_append [of pr "repr_quote s" s x t y] by (simp add: repr_str_def)
qed

section \<open>Tuples of integers\<close>

lemma dec_int_inj: "dec_int a = dec_int b \<Longrightarrow> a = b"
proof -
  assume eq: "dec_int a = dec_int b"
  have nd: "dec_digits n \<noteq> 45 # r" for n r using dec_digits_head [of n] by (auto simp: is_digit_def)
  show "a = b"
  proof (cases "a < 0"; cases "b < 0")
    assume "a < 0" "b < 0"
    then have "nat (- a) = nat (- b)" using eq by (metis dec_int_def list.inject nat_of_dec_digits)
    then show ?thesis using \<open>a < 0\<close> \<open>b < 0\<close> by simp
  next
    assume "\<not> a < 0" "\<not> b < 0"
    then have "nat a = nat b" using eq by (metis dec_int_def nat_of_dec_digits)
    then show ?thesis using \<open>\<not> a < 0\<close> \<open>\<not> b < 0\<close> by simp
  qed (use eq nd in \<open>auto simp: dec_int_def dest: sym\<close>)
qed

lemma dec_int_no_comma: "44 \<notin> set (dec_int i)" "41 \<notin> set (dec_int i)"
  by (auto simp: dec_int_def is_digit_def dest: dec_digits_digits)

lemma takeWhile_stops: "c \<notin> set p \<Longrightarrow> takeWhile (\<lambda>z. z \<noteq> c) (p @ c # x) = p"
  by (induction p) auto

lemma dec_int_append:
  assumes "dec_int a @ c # x = dec_int b @ c # y" "c \<in> {44, 41}"
  shows "a = b \<and> x = y"
proof -
  have "c \<notin> set (dec_int a)" "c \<notin> set (dec_int b)" using assms(2) dec_int_no_comma by auto
  then have tw: "takeWhile (\<lambda>z. z \<noteq> c) (dec_int a @ c # x) = dec_int a" "takeWhile (\<lambda>z. z \<noteq> c) (dec_int b @ c # y) = dec_int b"
    by (simp_all add: takeWhile_stops)
  then have "dec_int a = dec_int b" using assms(1) by metis
  then have "dec_int a = dec_int b \<and> x = y" using assms(1) by simp
  then show ?thesis using dec_int_inj by blast
qed

end
