(* ===== verification/Upload_Publication.thy ===== *)
theory Upload_Publication
  imports Py_Repr
begin

text \<open>
  \<open>src/atlaso/app/services/upload_publication.py\<close>: an upload replaces its destination only if the
  destination is still the file the operator agreed to overwrite, and the old file comes back when the
  consumer of the new one fails.

  The file system has directory entries that name inodes, so that hard links are visible: \<open>os.link\<close>
  adds a name, \<open>os.replace\<close> moves one (and does nothing when both names are the same inode). Every
  system call may fail: it consumes one element of \<open>faults\<close>, and \<open>True\<close> means \<open>OSError\<close>. Paths are
  absolute strings.
\<close>

section \<open>File system\<close>

datatype entry = Regular nat | Symlink | Other

record inode =
  nd_content :: bytes
  nd_mtime :: int
  nd_ctime :: int

record file_system =
  entries :: "pystr \<Rightarrow> entry option"
  inodes :: "nat \<Rightarrow> inode"
  device :: nat
  clock :: int
  faults :: "bool list"

datatype 'e pub_error = PublicationConflict | FileExists | OsFailure | BodyRaised 'e

type_synonym ('e, 'a) fs_prog = "(file_system, 'e pub_error, 'a) prog"

definition syscall :: "('e, unit) fs_prog" where
  "syscall fs = (case faults fs of
     True # rest \<Rightarrow> (Inl OsFailure, fs\<lparr>faults := rest\<rparr>)
   | False # rest \<Rightarrow> (Inr (), fs\<lparr>faults := rest\<rparr>)
   | [] \<Rightarrow> (Inr (), fs))"

definition touch_ctime :: "nat \<Rightarrow> file_system \<Rightarrow> file_system" where
  "touch_ctime i fs = fs\<lparr>inodes := (inodes fs)(i := (inodes fs i)\<lparr>nd_ctime := clock fs\<rparr>), clock := clock fs + 1\<rparr>"

definition os_link :: "pystr \<Rightarrow> pystr \<Rightarrow> ('e, unit) fs_prog" where
  "os_link src dst = bindS syscall (\<lambda>_ fs.
     case entries fs src of
       Some (Regular i) \<Rightarrow>
         if entries fs dst \<noteq> None then (Inl FileExists, fs)
         else (Inr (), touch_ctime i (fs\<lparr>entries := (entries fs)(dst \<mapsto> Regular i)\<rparr>))
     | _ \<Rightarrow> (Inl OsFailure, fs))"

definition os_replace :: "pystr \<Rightarrow> pystr \<Rightarrow> ('e, unit) fs_prog" where
  "os_replace src dst = bindS syscall (\<lambda>_ fs.
     case entries fs src of
       Some (Regular i) \<Rightarrow>
         if entries fs dst = Some (Regular i) then (Inr (), fs)
         else if entries fs dst = Some Other then (Inl OsFailure, fs)
         else (Inr (), touch_ctime i (fs\<lparr>entries := (entries fs)(dst \<mapsto> Regular i, src := None)\<rparr>))
     | _ \<Rightarrow> (Inl OsFailure, fs))"

definition os_unlink :: "pystr \<Rightarrow> ('e, unit) fs_prog" where
  "os_unlink p = bindS syscall (\<lambda>_ fs.
     if entries fs p = Some Other then (Inl OsFailure, fs)
     else (Inr (), fs\<lparr>entries := (entries fs)(p := None)\<rparr>))"

section \<open>Revisions\<close>

type_synonym revision = "nat \<times> nat \<times> nat \<times> int \<times> int"

text \<open>The directories above a path.\<close>

definition parents :: "pystr \<Rightarrow> pystr list" where
  "parents p = [47] # map (\<lambda>i. take i p) (filter (\<lambda>i. p ! i = 47) [1..<length p])"

definition stat_of :: "file_system \<Rightarrow> nat \<Rightarrow> revision" where
  "stat_of fs i = (device fs, i, length (nd_content (inodes fs i)), nd_mtime (inodes fs i), nd_ctime (inodes fs i))"

definition revision_of :: "pystr \<Rightarrow> ('e, revision option) fs_prog" where
  "revision_of p = bindS (getS (\<lambda>fs. list_ex (\<lambda>q. entries fs q = Some Symlink) (parents p))) (\<lambda>unsafe.
     if unsafe then raiseS OsFailure
     else bindS syscall (\<lambda>_ fs.
       case entries fs p of
         None \<Rightarrow> (Inr None, fs)
       | Some (Regular i) \<Rightarrow> (Inr (Some (stat_of fs i)), fs)
       | Some _ \<Rightarrow> (Inl OsFailure, fs)))"

text \<open>\<open>cleanup_private_upload\<close>: \<open>unlink(missing_ok=True)\<close>, with \<open>OSError\<close> only logged.\<close>

definition cleanup_private_upload :: "pystr \<Rightarrow> ('e, unit) fs_prog" where
  "cleanup_private_upload p = catchS (os_unlink p) (\<lambda>_. returnS ())"

section \<open>Publication\<close>

record publication =
  pub_path :: pystr
  pub_expected :: "revision option"

definition backup_name :: "pystr \<Rightarrow> pystr" where "backup_name staged = staged @ u ''.previous''"

definition replacement_name :: "pystr \<Rightarrow> pystr" where "replacement_name staged = staged @ u ''.publish''"

text \<open>\<open>current[:4] == expected[:4]\<close>: everything but the change time.\<close>

fun same_content_metadata :: "revision option \<Rightarrow> revision option \<Rightarrow> bool" where
  "same_content_metadata (Some (d, i, n, m, c)) (Some (d', i', n', m', c')) \<longleftrightarrow> (d, i, n, m) = (d', i', n', m')"
| "same_content_metadata _ _ = False"

definition install :: "publication \<Rightarrow> pystr \<Rightarrow> pystr \<Rightarrow> ('e, unit) fs_prog" where
  "install pub staged destination =
     (if pub_expected pub = None
      then catchS (os_link staged destination)
             (\<lambda>e. raiseS (case e of FileExists \<Rightarrow> PublicationConflict | _ \<Rightarrow> e))
      else bindS (os_link destination (backup_name staged)) (\<lambda>_.
           bindS (revision_of destination) (\<lambda>current.
           if \<not> same_content_metadata current (pub_expected pub) then raiseS PublicationConflict
           else bindS (os_link staged (replacement_name staged)) (\<lambda>_.
                os_replace (replacement_name staged) destination))))"

definition rollback :: "publication \<Rightarrow> pystr \<Rightarrow> pystr \<Rightarrow> ('e, unit) fs_prog" where
  "rollback pub staged destination =
     bindS (getS (\<lambda>fs. \<exists>i. entries fs destination = Some (Regular i) \<and> entries fs staged = Some (Regular i)))
       (\<lambda>same. if \<not> same then returnS ()
               else if pub_expected pub = None then os_unlink destination
               else os_replace (backup_name staged) destination)"

text \<open>\<open>try: m finally: c\<close>, for a clean-up that does not raise.\<close>

definition finallyS :: "('e, 'a) fs_prog \<Rightarrow> ('e, unit) fs_prog \<Rightarrow> ('e, 'a) fs_prog" where
  "finallyS m c fs = (case m fs of (r, fs') \<Rightarrow> (r, snd (c fs')))"

definition publish ::
  "publication \<Rightarrow> pystr \<Rightarrow> pystr \<Rightarrow> bool \<Rightarrow> ('e, unit) fs_prog \<Rightarrow> ('e, unit) fs_prog" where
  "publish pub staged destination defer_cleanup body =
     (if destination \<noteq> pub_path pub then raiseS PublicationConflict
      else bindS (revision_of destination) (\<lambda>rev.
        if rev \<noteq> pub_expected pub then raiseS PublicationConflict
        else finallyS
          (bindS (install pub staged destination) (\<lambda>_.
             catchS body (\<lambda>e. bindS (rollback pub staged destination) (\<lambda>_. raiseS e))))
          (if defer_cleanup then returnS ()
           else bindS (cleanup_private_upload (backup_name staged)) (\<lambda>_.
                cleanup_private_upload (replacement_name staged)))))"

section \<open>The overwrite challenge\<close>

definition repr_revision :: "revision option \<Rightarrow> pystr" where
  "repr_revision v = (case v of
     None \<Rightarrow> u ''None''
   | Some (d, i, n, m, c) \<Rightarrow>
       40 # dec_int (int d) @ [44, 32] @ dec_int (int i) @ [44, 32] @ dec_int (int n) @ [44, 32]
         @ dec_int m @ [44, 32] @ dec_int c @ [41])"

definition token_payload :: "(nat \<Rightarrow> bool) \<Rightarrow> publication \<Rightarrow> pystr \<Rightarrow> pystr" where
  "token_payload pr pub owner =
     40 # repr_str pr owner @ [44, 32] @ repr_str pr (pub_path pub) @ [44, 32] @ repr_revision (pub_expected pub) @ [41]"

text \<open>\<open>hmac.new(_KEY, payload, sha256).hexdigest()\<close>; the MAC is the parameter \<open>mac\<close>.\<close>

definition overwrite_token :: "(pystr \<Rightarrow> pystr) \<Rightarrow> (nat \<Rightarrow> bool) \<Rightarrow> publication \<Rightarrow> pystr \<Rightarrow> pystr" where
  "overwrite_token mac pr pub owner = mac (token_payload pr pub owner)"

section \<open>What the system calls leave unchanged\<close>

text \<open>The stored bytes of every inode, and the entries outside a set of paths.\<close>

definition same_except :: "pystr set \<Rightarrow> file_system \<Rightarrow> file_system \<Rightarrow> bool" where
  "same_except ps fs fs' \<longleftrightarrow> (\<forall>p. p \<notin> ps \<longrightarrow> entries fs' p = entries fs p)
     \<and> (\<forall>i. nd_content (inodes fs' i) = nd_content (inodes fs i))"

lemma same_except_refl [simp]: "same_except ps fs fs"
  by (simp add: same_except_def)

lemma same_except_trans: "same_except ps a b \<Longrightarrow> same_except ps b c \<Longrightarrow> same_except ps a c"
  by (simp add: same_except_def)

lemma same_except_mono: "same_except ps a b \<Longrightarrow> ps \<subseteq> qs \<Longrightarrow> same_except qs a b"
  by (auto simp: same_except_def)

lemma syscall_same:
  "syscall fs = (r, fs') \<Longrightarrow> entries fs' = entries fs \<and> inodes fs' = inodes fs \<and> device fs' = device fs
     \<and> (\<forall>e. r = Inl e \<longrightarrow> e = OsFailure)"
  by (auto simp: syscall_def split: list.splits bool.splits)

lemma touch_ctime_simps [simp]:
  "entries (touch_ctime i fs) = entries fs" "nd_content (inodes (touch_ctime i fs) j) = nd_content (inodes fs j)"
  by (simp_all add: touch_ctime_def)

lemma link_result:
  "os_link src dst fs = (r, fs') \<Longrightarrow>
   (\<forall>i. nd_content (inodes fs' i) = nd_content (inodes fs i))
   \<and> (case r of Inr _ \<Rightarrow> \<exists>i. entries fs src = Some (Regular i) \<and> entries fs dst = None
                       \<and> entries fs' = (entries fs)(dst \<mapsto> Regular i)
      | Inl e \<Rightarrow> entries fs' = entries fs \<and> e \<in> {FileExists, OsFailure})"
  by (auto simp: os_link_def bindS_def dest!: syscall_same split: prod.splits sum.splits option.splits entry.splits if_splits)

lemma replace_result:
  "os_replace src dst fs = (r, fs') \<Longrightarrow>
   (\<forall>i. nd_content (inodes fs' i) = nd_content (inodes fs i))
   \<and> (case r of Inr _ \<Rightarrow> \<exists>i. entries fs src = Some (Regular i) \<and> entries fs' dst = Some (Regular i)
                       \<and> (\<forall>p. p \<noteq> dst \<and> p \<noteq> src \<longrightarrow> entries fs' p = entries fs p)
      | Inl e \<Rightarrow> entries fs' = entries fs \<and> e = OsFailure)"
  by (auto simp: os_replace_def bindS_def dest!: syscall_same split: prod.splits sum.splits option.splits entry.splits if_splits)

lemma unlink_result:
  "os_unlink p fs = (r, fs') \<Longrightarrow>
   (\<forall>i. nd_content (inodes fs' i) = nd_content (inodes fs i))
   \<and> (case r of Inr _ \<Rightarrow> entries fs' = (entries fs)(p := None)
      | Inl e \<Rightarrow> entries fs' = entries fs \<and> e = OsFailure)"
  by (auto simp: os_unlink_def bindS_def dest!: syscall_same split: prod.splits sum.splits if_splits)

lemma revision_result:
  "revision_of p fs = (r, fs') \<Longrightarrow>
   entries fs' = entries fs \<and> inodes fs' = inodes fs
   \<and> (case r of Inr v \<Rightarrow> (v = None) = (entries fs p = None) | Inl e \<Rightarrow> e = OsFailure)"
  by (auto simp: revision_of_def bindS_def getS_def raiseS_def dest!: syscall_same
      split: prod.splits sum.splits option.splits entry.splits if_splits)

lemma cleanup_result:
  "cleanup_private_upload p fs = (r, fs') \<Longrightarrow> same_except {p} fs fs' \<and> entries fs' p \<in> {entries fs p, None}"
  by (auto simp: cleanup_private_upload_def catchS_def returnS_def same_except_def dest!: unlink_result
      split: prod.splits sum.splits)

section \<open>All or nothing\<close>

lemma names_distinct [simp]:
  "backup_name s \<noteq> s" "replacement_name s \<noteq> s" "backup_name s \<noteq> replacement_name s"
  "s \<noteq> backup_name s" "s \<noteq> replacement_name s" "replacement_name s \<noteq> backup_name s"
  by (simp_all add: backup_name_def replacement_name_def)

definition private_names :: "pystr \<Rightarrow> pystr set" where
  "private_names staged = {backup_name staged, replacement_name staged}"

lemma install_result:
  fixes r :: "'e pub_error + unit"
  assumes "install pub staged dest fs = (r, fs')" "entries fs staged = Some (Regular i)"
    "(pub_expected pub = None) = (entries fs dest = None)" "dest \<notin> insert staged (private_names staged)"
  shows "same_except (insert dest (private_names staged)) fs fs'"
    "case r of Inr _ \<Rightarrow> entries fs' dest = Some (Regular i)
                  \<and> (pub_expected pub \<noteq> None \<longrightarrow> entries fs' (backup_name staged) = entries fs dest)
     | Inl e \<Rightarrow> entries fs' dest = entries fs dest \<and> (\<forall>x. e \<noteq> BodyRaised x)"
proof -
  let ?B = "backup_name staged" and ?R = "replacement_name staged"
  have d: "dest \<noteq> staged" "dest \<noteq> ?B" "dest \<noteq> ?R" using assms(4) by (auto simp: private_names_def)
  have "same_except (insert dest (private_names staged)) fs fs' \<and>
    (case r of Inr _ \<Rightarrow> entries fs' dest = Some (Regular i)
                  \<and> (pub_expected pub \<noteq> None \<longrightarrow> entries fs' ?B = entries fs dest)
     | Inl e \<Rightarrow> entries fs' dest = entries fs dest \<and> (\<forall>x. e \<noteq> BodyRaised x))"
  proof (cases "pub_expected pub = None")
    case True
    obtain r1 fs1 where l: "(os_link staged dest :: ('e, unit) fs_prog) fs = (r1, fs1)" by fastforce
    show ?thesis
      using assms(1,2) True link_result [OF l] l
      by (auto simp: install_def catchS_def raiseS_def same_except_def private_names_def split: sum.splits pub_error.splits)
  next
    case False
    obtain r1 fs1 where l1: "(os_link dest ?B :: ('e, unit) fs_prog) fs = (r1, fs1)" by fastforce
    obtain r2 fs2 where l2: "(revision_of dest :: ('e, revision option) fs_prog) fs1 = (r2, fs2)" by fastforce
    obtain r3 fs3 where l3: "(os_link staged ?R :: ('e, unit) fs_prog) fs2 = (r3, fs3)" by fastforce
    obtain r4 fs4 where l4: "(os_replace ?R dest :: ('e, unit) fs_prog) fs3 = (r4, fs4)" by fastforce
    note L = link_result [OF l1] revision_result [OF l2] link_result [OF l3] replace_result [OF l4]
    show ?thesis
    proof (cases r1)
      case (Inl e1)
      then show ?thesis using assms(1) False L(1) l1 by (auto simp: install_def bindS_def same_except_def)
    next
      case r1: (Inr x1)
      then obtain j where fs1: "entries fs1 = (entries fs)(?B \<mapsto> Regular j)" and j: "entries fs dest = Some (Regular j)"
        and c1: "\<forall>i. nd_content (inodes fs1 i) = nd_content (inodes fs i)" using L(1) by auto
      show ?thesis
      proof (cases "\<exists>v. r2 = Inr v \<and> same_content_metadata v (pub_expected pub)")
        case False2: False
        then show ?thesis
          using assms(1) False l1 l2 r1 L(2) fs1 c1 d
          by (cases r2) (auto simp: install_def bindS_def raiseS_def same_except_def private_names_def)
      next
        case True
        then have i: "(install pub staged dest :: ('e, unit) fs_prog) fs = bindS (os_link staged ?R) (\<lambda>_. os_replace ?R dest) fs2"
          using False l1 l2 r1 by (auto simp: install_def bindS_def)
        show ?thesis
        proof (cases r3)
          case (Inl e3)
          then show ?thesis using assms(1) i l3 L(2,3) fs1 c1 d
            by (auto simp: bindS_def same_except_def private_names_def)
        next
          case (Inr x3)
          then show ?thesis using assms(1,2) i l3 l4 L(2,3,4) fs1 c1 d j
            by (cases r4) (auto simp: bindS_def same_except_def private_names_def)
        qed
      qed
    qed
  qed
  then show "same_except (insert dest (private_names staged)) fs fs'"
    "case r of Inr _ \<Rightarrow> entries fs' dest = Some (Regular i)
                  \<and> (pub_expected pub \<noteq> None \<longrightarrow> entries fs' ?B = entries fs dest)
     | Inl e \<Rightarrow> entries fs' dest = entries fs dest \<and> (\<forall>x. e \<noteq> BodyRaised x)" by auto
qed

lemma rollback_result:
  assumes "rollback pub staged dest fs = (r, fs')" "entries fs staged = Some (Regular i)"
    "entries fs dest = Some (Regular i)" "pub_expected pub = None \<longrightarrow> old = None"
    "pub_expected pub \<noteq> None \<longrightarrow> entries fs (backup_name staged) = old \<and> old \<noteq> None"
    "dest \<notin> insert staged (private_names staged)"
  shows "same_except (insert dest (private_names staged)) fs fs'"
    "case r of Inr _ \<Rightarrow> entries fs' dest = old | Inl e \<Rightarrow> e = OsFailure \<and> entries fs' dest = Some (Regular i)"
  using assms unlink_result [of dest fs r fs'] replace_result [of "backup_name staged" dest fs r fs']
  by (auto simp: rollback_def same_except_def private_names_def split: if_splits sum.splits)

text \<open>
  What the consumer of the published file may do: it leaves the five names alone, does not write into
  existing files, and its own failures are \<open>BodyRaised\<close>.
\<close>

definition body_frame :: "pystr \<Rightarrow> pystr \<Rightarrow> ('e, unit) fs_prog \<Rightarrow> bool" where
  "body_frame staged dest body \<longleftrightarrow> (\<forall>fs r fs'. body fs = (r, fs') \<longrightarrow>
     (\<forall>p \<in> insert dest (insert staged (private_names staged)). entries fs' p = entries fs p)
   \<and> (\<forall>i. nd_content (inodes fs' i) = nd_content (inodes fs i))
   \<and> (\<forall>e. r = Inl e \<longrightarrow> (\<exists>x. e = BodyRaised x)))"

text \<open>The outcome of a publication, by its result.\<close>

definition outcome_ok :: "pystr \<Rightarrow> nat \<Rightarrow> file_system \<Rightarrow> 'e pub_error + unit \<Rightarrow> file_system \<Rightarrow> bool" where
  "outcome_ok dest i fs r fs' \<longleftrightarrow>
     (\<forall>j. nd_content (inodes fs' j) = nd_content (inodes fs j))
   \<and> (case r of
        Inr _ \<Rightarrow> entries fs' dest = Some (Regular i)
      | Inl PublicationConflict \<Rightarrow> entries fs' dest = entries fs dest
      | Inl (BodyRaised x) \<Rightarrow> entries fs' dest = entries fs dest
      | Inl _ \<Rightarrow> entries fs' dest \<in> {entries fs dest, Some (Regular i)})"

lemma guarded_body_result:
  fixes body :: "('e, unit) fs_prog"
  assumes "catchS body (\<lambda>e. bindS (rollback pub staged dest) (\<lambda>_. raiseS e)) fs1 = (r, fs')"
    and frame: "body_frame staged dest body" and dest: "dest \<notin> insert staged (private_names staged)"
    and st: "entries fs1 staged = Some (Regular i)" "entries fs1 dest = Some (Regular i)"
    and c: "\<forall>j. nd_content (inodes fs1 j) = nd_content (inodes fs j)"
    and ex: "pub_expected pub = None \<longrightarrow> entries fs dest = None"
      "pub_expected pub \<noteq> None \<longrightarrow> entries fs1 (backup_name staged) = entries fs dest \<and> entries fs dest \<noteq> None"
  shows "outcome_ok dest i fs r fs'"
proof -
  obtain rb fs2 where b: "body fs1 = (rb, fs2)" by fastforce
  have fr: "\<forall>p \<in> insert dest (insert staged (private_names staged)). entries fs2 p = entries fs1 p"
    "\<forall>i. nd_content (inodes fs2 i) = nd_content (inodes fs1 i)" "\<forall>e. rb = Inl e \<longrightarrow> (\<exists>x. e = BodyRaised x)"
    using frame b by (auto simp: body_frame_def)
  show ?thesis
  proof (cases rb)
    case (Inr x)
    then show ?thesis using assms(1) b fr st c by (auto simp: catchS_def outcome_ok_def)
  next
    case (Inl e)
    then obtain x where e: "e = BodyRaised x" using fr(3) by blast
    obtain rr fs3 where ro: "(rollback pub staged dest :: ('e, unit) fs_prog) fs2 = (rr, fs3)" by fastforce
    have R: "same_except (insert dest (private_names staged)) fs2 fs3"
      "case rr of Inr _ \<Rightarrow> entries fs3 dest = entries fs dest | Inl e \<Rightarrow> e = OsFailure \<and> entries fs3 dest = Some (Regular i)"
      by (rule rollback_result [OF ro, of i "entries fs dest"]; use fr(1) st ex dest in \<open>auto simp: private_names_def\<close>)+
    show ?thesis
      using assms(1) b Inl e ro R fr(2) c
      by (cases rr) (auto simp: catchS_def bindS_def raiseS_def outcome_ok_def same_except_def)
  qed
qed

lemma outcome_ok_frame:
  "outcome_ok dest i fs r fs1 \<Longrightarrow> same_except ps fs1 fs' \<Longrightarrow> dest \<notin> ps \<Longrightarrow> outcome_ok dest i fs r fs'"
  by (auto simp: outcome_ok_def same_except_def split: sum.splits pub_error.splits)

lemma outcome_ok_start:
  "outcome_ok dest i fs1 r fs' \<Longrightarrow> same_except {} fs fs1 \<Longrightarrow> outcome_ok dest i fs r fs'"
  by (auto simp: outcome_ok_def same_except_def split: sum.splits pub_error.splits)

lemma cleanup_same:
  "same_except (private_names staged) fs (snd ((if defer_cleanup then returnS ()
     else bindS (cleanup_private_upload (backup_name staged)) (\<lambda>_.
          cleanup_private_upload (replacement_name staged)) :: ('e, unit) fs_prog) fs))"
proof (cases defer_cleanup)
  case False
  obtain a fs3 where c1: "(cleanup_private_upload (backup_name staged) :: ('e, unit) fs_prog) fs = (a, fs3)" by fastforce
  obtain b fs4 where c2: "(cleanup_private_upload (replacement_name staged) :: ('e, unit) fs_prog) fs3 = (b, fs4)" by fastforce
  have "\<exists>x. a = Inr x" using c1
    by (auto simp: cleanup_private_upload_def catchS_def returnS_def split: prod.splits sum.splits)
  then show ?thesis using False c1 c2 cleanup_result [OF c1] cleanup_result [OF c2]
    by (auto simp: bindS_def same_except_def private_names_def)
qed (simp add: returnS_def)

text \<open>
  C27: a publication is all or nothing, whichever system calls fail: when it returns, the destination is
  the staged file; when the destination is not the approved one, or the consumer of the file raises,
  the destination is what it was before; and when a system call fails it is one of the two. No stored
  byte is changed.
\<close>

theorem publish_all_or_nothing:
  fixes body :: "('e, unit) fs_prog"
  assumes "publish pub staged dest defer_cleanup body fs = (r, fs')"
    and st: "entries fs staged = Some (Regular i)"
    and frame: "body_frame staged dest body" and dest: "dest \<notin> insert staged (private_names staged)"
  shows "outcome_ok dest i fs r fs'"
proof -
  obtain r0 fs0 where rv: "(revision_of dest :: ('e, revision option) fs_prog) fs = (r0, fs0)" by fastforce
  note rv' = revision_result [OF rv]
  have same0: "same_except {} fs fs0" using rv' by (simp add: same_except_def)
  show ?thesis
  proof (cases "dest = pub_path pub \<and> r0 = Inr (pub_expected pub)")
    case False
    then show ?thesis using assms(1) rv rv'
      by (cases r0) (auto simp: publish_def bindS_def raiseS_def outcome_ok_def split: if_splits)
  next
    case True
    let ?clean = "if defer_cleanup then returnS () else bindS (cleanup_private_upload (backup_name staged)) (\<lambda>_.
                cleanup_private_upload (replacement_name staged)) :: ('e, unit) fs_prog"
    obtain r1 fs1 where ins: "(install pub staged dest :: ('e, unit) fs_prog) fs0 = (r1, fs1)" by fastforce
    have ex: "(pub_expected pub = None) = (entries fs0 dest = None)" and st0: "entries fs0 staged = Some (Regular i)"
      using rv' True st by auto
    note I = install_result [OF ins st0 ex dest]
    obtain r2 fs2 where m: "bindS (install pub staged dest) (\<lambda>_.
             catchS body (\<lambda>e. bindS (rollback pub staged dest) (\<lambda>_. raiseS e))) fs0 = (r2, fs2)" by fastforce
    have ok: "outcome_ok dest i fs0 r2 fs2"
    proof (cases r1)
      case (Inl e)
      then show ?thesis using m ins I by (auto simp: bindS_def outcome_ok_def same_except_def split: pub_error.split)
    next
      case (Inr x)
      show ?thesis
        by (rule guarded_body_result [OF _ frame dest, of pub fs1])
          (use Inr m ins I ex st0 dest in \<open>auto simp: bindS_def same_except_def private_names_def\<close>)
    qed
    have res: "r = r2" "fs' = snd (?clean fs2)"
      using assms(1) rv True m by (auto simp: publish_def bindS_def finallyS_def split: prod.splits)
    have "same_except (private_names staged) fs2 (snd (?clean fs2))"
      by (rule cleanup_same)
    then show ?thesis
      using outcome_ok_start [OF outcome_ok_frame [OF ok] same0] dest res by auto
  qed
qed

text \<open>A consumer that refuses the file.\<close>

definition demo_fs :: file_system where
  "demo_fs = \<lparr> entries = [u ''/d'' \<mapsto> Regular 1, u ''/s'' \<mapsto> Regular 2],
     inodes = (\<lambda>i. \<lparr> nd_content = [byte_of i], nd_mtime = 5, nd_ctime = 5 \<rparr>), device = 0, clock = 9, faults = [] \<rparr>"

definition demo_pub :: publication where
  "demo_pub = \<lparr> pub_path = u ''/d'', pub_expected = Some (0, 1, 1, 5, 5) \<rparr>"

lemma demo_names:
  "backup_name (u ''/s'') = u ''/s.previous''" "replacement_name (u ''/s'') = u ''/s.publish''"
  by (simp_all add: backup_name_def replacement_name_def u_def)

lemma demo_parents: "parents (u ''/d'') = [u ''/'']"
  by (simp add: parents_def u_def of_char_def upt_conv_Cons)

lemma demo_publish:
  "fst (publish demo_pub (u ''/s'') (u ''/d'') False (raiseS (BodyRaised ())) demo_fs) = Inl (BodyRaised ())"
  by (simp add: publish_def demo_pub_def revision_of_def demo_parents demo_fs_def bindS_def getS_def raiseS_def
      syscall_def stat_of_def finallyS_def install_def os_link_def os_replace_def demo_names touch_ctime_def catchS_def
      rollback_def)

text \<open>Witness: the consumer raises, and the destination names its old inode again.\<close>

theorem publish_all_or_nothing_witness:
  "\<exists>fs'. publish demo_pub (u ''/s'') (u ''/d'') False (raiseS (BodyRaised ())) demo_fs = (Inl (BodyRaised ()), fs')
     \<and> entries fs' (u ''/d'') = Some (Regular 1)"
proof -
  obtain fs' where p: "publish demo_pub (u ''/s'') (u ''/d'') False (raiseS (BodyRaised ())) demo_fs = (Inl (BodyRaised ()), fs')"
    using demo_publish by (metis prod.collapse)
  have "outcome_ok (u ''/d'') 2 demo_fs (Inl (BodyRaised ())) fs'"
    by (rule publish_all_or_nothing [OF p])
      (simp_all add: demo_fs_def body_frame_def raiseS_def private_names_def demo_names)
  then show ?thesis using p by (simp add: outcome_ok_def demo_fs_def)
qed

section \<open>What a challenge stands for\<close>

lemma repr_revision_inj:
  assumes "repr_revision a @ [41] = repr_revision b @ [41]"
  shows "a = b"
proof -
  have none: "repr_revision None \<noteq> repr_revision (Some r)" for r
    by (cases r) (simp add: repr_revision_def u_def of_char_def)
  show ?thesis
  proof (cases a; cases b)
    fix x y
    assume xy: "a = Some x" "b = Some y"
    obtain d i n m c d' i' n' m' c' where x: "x = (d, i, n, m, c)" and y: "y = (d', i', n', m', c')"
      by (cases x; cases y) auto
    have eq: "dec_int (int d) @ 44 # (32 # dec_int (int i) @ [44, 32] @ dec_int (int n) @ [44, 32] @ dec_int m @ [44, 32] @ dec_int c @ [41])
            = dec_int (int d') @ 44 # (32 # dec_int (int i') @ [44, 32] @ dec_int (int n') @ [44, 32] @ dec_int m' @ [44, 32] @ dec_int c' @ [41])"
      using assms xy x y by (simp add: repr_revision_def)
    note e1 = dec_int_append [OF eq]
    have e2: "dec_int (int i) @ 44 # (32 # dec_int (int n) @ [44, 32] @ dec_int m @ [44, 32] @ dec_int c @ [41])
            = dec_int (int i') @ 44 # (32 # dec_int (int n') @ [44, 32] @ dec_int m' @ [44, 32] @ dec_int c' @ [41])"
      using e1 by simp
    note e2' = dec_int_append [OF e2]
    have e3: "dec_int (int n) @ 44 # (32 # dec_int m @ [44, 32] @ dec_int c @ [41])
            = dec_int (int n') @ 44 # (32 # dec_int m' @ [44, 32] @ dec_int c' @ [41])" using e2' by simp
    note e3' = dec_int_append [OF e3]
    have e4: "dec_int m @ 44 # (32 # dec_int c @ [41]) = dec_int m' @ 44 # (32 # dec_int c' @ [41])" using e3' by simp
    note e4' = dec_int_append [OF e4]
    have e5: "dec_int c @ 41 # [] = dec_int c' @ 41 # []" using e4' by simp
    show ?thesis using xy x y e1 e2' e3' e4' dec_int_append [OF e5] by simp
  qed (use assms none none [symmetric] in auto)
qed

text \<open>
  The message that an overwrite token authenticates determines the browser session, the destination
  and the revision it was issued for: consent given for one cannot be presented for another.
\<close>

theorem overwrite_token_binds:
  assumes "token_payload pr p owner = token_payload pr p' owner'"
    and "list_all code_point (owner @ pub_path p)" "list_all code_point (owner' @ pub_path p')"
  shows "owner = owner' \<and> p = p'"
proof -
  have cp: "list_all code_point owner" "list_all code_point owner'" "list_all code_point (pub_path p)"
    "list_all code_point (pub_path p')"
    using assms(2,3) by (simp_all only: list_all_append)
  define x where "x q = 44 # 32 # repr_str pr (pub_path q) @ 44 # 32 # repr_revision (pub_expected q) @ [41]" for q :: publication
  define y where "y q = 44 # 32 # repr_revision (pub_expected q) @ [41]" for q :: publication
  have e1: "repr_str pr owner @ x p = repr_str pr owner' @ x p'"
    using assms(1) unfolding token_payload_def x_def by simp
  note o = repr_str_append [OF e1 cp(1,2)]
  then have "repr_str pr (pub_path p) @ y p = repr_str pr (pub_path p') @ y p'" unfolding x_def y_def by simp
  then have "pub_path p = pub_path p' \<and> y p = y p'" using cp(3,4) by (rule repr_str_append)
  moreover from this have "pub_expected p = pub_expected p'" using repr_revision_inj unfolding y_def by simp
  ultimately show ?thesis using o by simp
qed

text \<open>Witness: the demo publication, compared with itself.\<close>

theorem overwrite_token_binds_witness:
  "\<exists>p'. token_payload (\<lambda>_. True) demo_pub (u ''a'') = token_payload (\<lambda>_. True) p' (u ''a'') \<and> demo_pub = p'"
  using overwrite_token_binds [of "\<lambda>_. True" demo_pub "u ''a''" demo_pub "u ''a''"]
  by (simp add: demo_pub_def u_def of_char_def)

end
