(* ===== verification/Chunk_Uploads.thy ===== *)
theory Chunk_Uploads
  imports Upload_Publication
begin

text \<open>
  \<open>src/atlaso/app/services/chunk_uploads.py\<close>: \<open>UploadStore\<close>, the bounded sessions of chunked browser
  uploads. Every method runs under the store's lock, so a method is one transition of the state; the
  dictionary of sessions keeps its insertion order. \<open>now\<close> is the reading of \<open>time.monotonic()\<close> (in
  microseconds), \<open>sha\<close> is \<open>hashlib.sha256(...).hexdigest()\<close>. The staging file of a session is its content
  and its position; a write may fail after some bytes, and so may the truncation that follows it.
\<close>

section \<open>State\<close>

datatype upload_error = UploadError nat string | UploadOSError

record staging_file =
  sf_content :: bytes
  sf_position :: nat

record upload_session =
  up_owner :: pystr
  up_target :: pystr
  up_field :: pystr
  up_filename :: pystr
  up_size :: int
  up_file :: staging_file
  up_expires :: int
  up_offset :: nat
  up_claimed :: bool
  up_publication :: "publication option"

record upload_store =
  sessions :: "(pystr \<times> upload_session) list"
  timer :: bool

type_synonym 'a upload_prog = "(upload_store, upload_error, 'a) prog"

definition CHUNK_BYTES :: nat where "CHUNK_BYTES = 8 * 1024 ^ 2"

definition SESSION_SECONDS :: int where "SESSION_SECONDS = 30 * 60 * 1000000"

definition MEMORY_BYTES :: int where "MEMORY_BYTES = 16 * 1024 ^ 2"

definition CAPACITY_BYTES :: int where "CAPACITY_BYTES = 32 * 1024 ^ 3"

definition init_store :: upload_store where
  "init_store = \<lparr> sessions = [], timer = False \<rparr>"

section \<open>The staging file\<close>

text \<open>\<open>f.seek(p); f.write(data)\<close> at a position inside the file or at its end.\<close>

definition file_write :: "nat \<Rightarrow> bytes \<Rightarrow> staging_file \<Rightarrow> staging_file" where
  "file_write p d f = f\<lparr>sf_content := take p (sf_content f) @ d @ drop (p + length d) (sf_content f),
                       sf_position := p + length d\<rparr>"

definition file_read :: "nat \<Rightarrow> nat \<Rightarrow> staging_file \<Rightarrow> bytes" where
  "file_read p n f = py_slice (sf_content f) p (p + n)"

text \<open>
  How a write ends: well, or with \<open>OSError\<close> after \<open>n\<close> bytes, and then whether the truncation works.
\<close>

datatype write_outcome = WriteOk | WriteFails nat bool

section \<open>Timer and release\<close>

text \<open>\<open>_schedule\<close> keeps one timer.\<close>

definition upload_schedule :: "upload_store \<Rightarrow> upload_store" where
  "upload_schedule st = st\<lparr>timer := True\<rparr>"

text \<open>\<open>release\<close>: a failing \<open>close\<close> of a handle is only logged.\<close>

definition upload_release :: "pystr list \<Rightarrow> upload_store \<Rightarrow> upload_store" where
  "upload_release ks st = st\<lparr>sessions := filter (\<lambda>(k, s). k \<notin> set ks) (sessions st)\<rparr>"

definition upload_sweep :: "int \<Rightarrow> upload_store \<Rightarrow> upload_store" where
  "upload_sweep now st =
     (let expired = map fst (filter (\<lambda>(k, s). \<not> up_claimed s \<and> up_expires s \<le> now) (sessions st));
          st' = upload_release expired (st\<lparr>timer := False\<rparr>)
      in if sessions st' \<noteq> [] then upload_schedule st' else st')"

definition upload_close :: "upload_store \<Rightarrow> upload_store" where
  "upload_close st = upload_release (map fst (sessions st)) (st\<lparr>timer := False\<rparr>)"

section \<open>Creating a session\<close>

text \<open>What \<open>create\<close> finds on the depot volume.\<close>

record depot =
  dp_symlink :: bool
  dp_parent_is_dir :: bool
  dp_mkdir_fails :: bool
  dp_mode :: nat
  dp_free :: int
  dp_tempfile_fails :: bool

definition reserved :: "upload_store \<Rightarrow> int" where
  "reserved st = sum_list (map (up_size \<circ> snd) (sessions st))"

definition owner_sessions :: "upload_store \<Rightarrow> pystr \<Rightarrow> nat" where
  "owner_sessions st owner = length (filter (\<lambda>(k, s). up_owner s = owner) (sessions st))"

text \<open>\<open>st_mode & 0o022\<close>: writable by the group or by others.\<close>

definition group_or_world_writable :: "nat \<Rightarrow> bool" where
  "group_or_world_writable mode \<longleftrightarrow> odd (mode div 2) \<or> odd (mode div 16)"

definition staging_check :: "depot \<Rightarrow> upload_store \<Rightarrow> int \<Rightarrow> upload_error + unit" where
  "staging_check dp st sz =
     (if sz \<le> MEMORY_BYTES then Inr ()
      else bindE (raise_if (dp_symlink dp) (UploadError 503 ''Upload staging is unavailable.'')) (\<lambda>_.
           bindE (raise_if (\<not> dp_parent_is_dir dp) (UploadError 503 ''The upload storage volume is unavailable.'')) (\<lambda>_.
           bindE (raise_if (dp_mkdir_fails dp) UploadOSError) (\<lambda>_.
           bindE (raise_if (group_or_world_writable (dp_mode dp)) (UploadError 503 ''Upload staging permissions are unsafe.'')) (\<lambda>_.
           bindE (raise_if (dp_free dp < (reserved st + sz) * 2 + 64 * 1024 ^ 2)
                   (UploadError 507 ''Insufficient free space for upload and validation.'')) (\<lambda>_.
           raise_if (dp_tempfile_fails dp) UploadOSError))))))"

text \<open>\<open>token\<close> is the new \<open>token_hex(24)\<close>.\<close>

definition upload_create ::
  "depot \<Rightarrow> int \<Rightarrow> pystr \<Rightarrow> pystr \<Rightarrow> pystr \<Rightarrow> pystr \<Rightarrow> pystr \<Rightarrow> int \<Rightarrow> pystr upload_prog" where
  "upload_create dp now token owner target fld filename sz st =
     (if 16 \<le> length (sessions st) \<or> 4 \<le> owner_sessions st owner \<or> CAPACITY_BYTES < reserved st + sz
      then (Inl (UploadError 429 ''Upload capacity is busy. Finish or cancel another upload first.''), st)
      else case staging_check dp st sz of
        Inl e \<Rightarrow> (Inl e, st)
      | Inr _ \<Rightarrow>
          let s = \<lparr> up_owner = owner, up_target = target, up_field = fld, up_filename = filename, up_size = sz,
                    up_file = \<lparr> sf_content = [], sf_position = 0 \<rparr>, up_expires = now + SESSION_SECONDS,
                    up_offset = 0, up_claimed = False, up_publication = None \<rparr>
          in (Inr token, upload_schedule (st\<lparr>sessions := dict_set (sessions st) token s\<rparr>)))"

section \<open>Using a session\<close>

definition upload_get :: "int \<Rightarrow> pystr \<Rightarrow> pystr \<Rightarrow> upload_store \<Rightarrow> upload_error + upload_session" where
  "upload_get now key owner st = (case map_of (sessions st) key of
     None \<Rightarrow> Inl (UploadError 404 ''Upload expired or is unavailable. Select the file again.'')
   | Some s \<Rightarrow>
       if up_claimed s \<or> up_owner s \<noteq> owner \<or> up_expires s \<le> now
       then Inl (UploadError 404 ''Upload expired or is unavailable. Select the file again.'') else Inr s)"

definition put_session :: "pystr \<Rightarrow> upload_session \<Rightarrow> upload_store \<Rightarrow> upload_store" where
  "put_session key s st = st\<lparr>sessions := dict_set (sessions st) key s\<rparr>"

definition seek_to :: "nat \<Rightarrow> upload_session \<Rightarrow> upload_session" where
  "seek_to p s = s\<lparr>up_file := (up_file s)\<lparr>sf_position := p\<rparr>\<rparr>"

text \<open>The write of a new chunk at the end of the accepted bytes.\<close>

definition write_chunk :: "write_outcome \<Rightarrow> nat \<Rightarrow> bytes \<Rightarrow> upload_session \<Rightarrow> (upload_error + unit) \<times> upload_session" where
  "write_chunk io off d s = (case io of
     WriteOk \<Rightarrow> (Inr (), s\<lparr>up_file := file_write off d (up_file s), up_offset := up_offset s + length d\<rparr>)
   | WriteFails n truncates \<Rightarrow>
       let f = file_write off (take n d) (up_file s)
       in (Inl UploadOSError,
           s\<lparr>up_file := if truncates then f\<lparr>sf_content := take off (sf_content f)\<rparr> else f\<rparr>))"

definition append_at :: "write_outcome \<Rightarrow> int \<Rightarrow> int \<Rightarrow> bytes \<Rightarrow> upload_session \<Rightarrow> (upload_error + unit) \<times> upload_session" where
  "append_at io now off d s =
     (let p = nat off
      in if off < int (up_offset s)
         then (if off + int (length d) > int (up_offset s) \<or> file_read p (length d) (up_file s) \<noteq> d
               then (Inl (UploadError 409 ''Upload offset conflict.''), seek_to p s)
               else (Inr (), seek_to (p + length d) s))
         else if off = int (up_offset s) then write_chunk io p d s
         else (Inl (UploadError 409 ''Upload offset conflict.''), s))"

definition upload_append ::
  "(bytes \<Rightarrow> pystr) \<Rightarrow> write_outcome \<Rightarrow> int \<Rightarrow> pystr \<Rightarrow> pystr \<Rightarrow> int \<Rightarrow> bytes \<Rightarrow> pystr \<Rightarrow> nat upload_prog" where
  "upload_append sha io now key owner off d digest st =
     (case upload_get now key owner st of
        Inl e \<Rightarrow> (Inl e, st)
      | Inr s \<Rightarrow>
          if d = [] \<or> CHUNK_BYTES < length d \<or> sha d \<noteq> digest
          then (Inl (UploadError 400 ''Invalid upload chunk or checksum.''), st)
          else if off < 0 \<or> up_size s < off + int (length d)
          then (Inl (UploadError 413 ''Chunk exceeds the declared file size.''), st)
          else case append_at io now off d s of
            (Inl e, s') \<Rightarrow> (Inl e, put_session key s' st)
          | (Inr _, s') \<Rightarrow> (Inr (up_offset s'), put_session key (s'\<lparr>up_expires := now + SESSION_SECONDS\<rparr>) st))"

definition claim_session :: "upload_session \<Rightarrow> upload_session" where
  "claim_session s = seek_to 0 (s\<lparr>up_claimed := True\<rparr>)"

definition upload_claim :: "int \<Rightarrow> pystr list \<Rightarrow> pystr \<Rightarrow> pystr \<Rightarrow> upload_session list upload_prog" where
  "upload_claim now ks owner target st =
     (if \<not> distinct ks then (Inl (UploadError 400 ''Duplicate upload session.''), st)
      else case mapE (\<lambda>k. upload_get now k owner st) ks of
        Inl e \<Rightarrow> (Inl e, st)
      | Inr ss \<Rightarrow>
          if list_ex (\<lambda>s. up_target s \<noteq> target \<or> int (up_offset s) \<noteq> up_size s) ss
          then (Inl (UploadError 409 ''Upload is incomplete or belongs to another form.''), st)
          else (Inr (map claim_session ss),
                st\<lparr>sessions := map (\<lambda>(k, s). (k, if k \<in> set ks then claim_session s else s)) (sessions st)\<rparr>))"

text \<open>\<open>cancel\<close>: the session is gone even when closing its handle raises.\<close>

definition upload_cancel :: "bool \<Rightarrow> int \<Rightarrow> pystr \<Rightarrow> pystr \<Rightarrow> unit upload_prog" where
  "upload_cancel close_fails now key owner st =
     (case upload_get now key owner st of
        Inl e \<Rightarrow> (Inl e, st)
      | Inr _ \<Rightarrow> (if close_fails then Inl UploadOSError else Inr (), upload_release [key] st))"

section \<open>Invariant\<close>

text \<open>
  The accepted bytes are the first \<open>up_offset\<close> bytes of the file; bytes of a failed write may follow
  them, never beyond the declared size.
\<close>

definition session_ok :: "upload_session \<Rightarrow> bool" where
  "session_ok s \<longleftrightarrow> up_offset s \<le> length (sf_content (up_file s)) \<and> int (length (sf_content (up_file s))) \<le> up_size s
     \<and> 0 < up_size s"

definition store_ok :: "upload_store \<Rightarrow> bool" where
  "store_ok st \<longleftrightarrow> distinct (map fst (sessions st)) \<and> (\<forall>s \<in> snd ` set (sessions st). session_ok s)
     \<and> length (sessions st) \<le> 16 \<and> (\<forall>owner. owner_sessions st owner \<le> 4)
     \<and> reserved st \<le> CAPACITY_BYTES \<and> (sessions st \<noteq> [] \<longrightarrow> timer st)"

text \<open>The bytes a session has accepted.\<close>

definition accepted_bytes :: "upload_session \<Rightarrow> bytes" where
  "accepted_bytes s = take (up_offset s) (sf_content (up_file s))"

subsection \<open>Dictionary updates\<close>

lemma dict_set_existing:
  assumes "distinct (map fst d)" "map_of d k = Some v"
  shows "dict_set d k v' = map (\<lambda>(k', w). (k', if k' = k then v' else w)) d"
  using assms
proof (induction d)
  case (Cons p d)
  obtain k' w where p: "p = (k', w)" by (cases p)
  show ?case
  proof (cases "k' = k")
    case True
    then have "k \<notin> fst ` set d" using Cons.prems(1) by (simp add: p)
    then have "map (\<lambda>(k', w). (k', if k' = k then v' else w)) d = d" by (intro map_idI) (auto simp: rev_image_eqI)
    then show ?thesis using True by (simp add: p)
  next
    case False
    then show ?thesis using Cons by (simp add: p)
  qed
qed simp

lemma length_dict_set: "length (dict_set d k v) \<le> Suc (length d)"
  by (induction d k v rule: dict_set.induct) auto

lemma snd_dict_set: "snd ` set (dict_set d k v) \<subseteq> insert v (snd ` set d)"
  by (induction d k v rule: dict_set.induct) auto

lemma filter_dict_set: "length (filter P (dict_set d k v)) \<le> length (filter P d) + (if P (k, v) then 1 else 0)"
  by (induction d k v rule: dict_set.induct) auto

lemma sum_dict_set:
  "\<forall>x \<in> snd ` set d. 0 \<le> f x \<Longrightarrow> sum_list (map (f \<circ> snd) (dict_set d k v)) \<le> sum_list (map (f \<circ> snd) d) + (f v :: int)"
  by (induction d k v rule: dict_set.induct) auto

lemma dict_set_not_Nil [simp]: "dict_set d k v \<noteq> []"
  by (induction d k v rule: dict_set.induct) auto

subsection \<open>Updates of one session\<close>

text \<open>An update that keeps owner and size keeps every bound.\<close>

definition same_reservation :: "upload_session \<Rightarrow> upload_session \<Rightarrow> bool" where
  "same_reservation s s' \<longleftrightarrow> up_owner s' = up_owner s \<and> up_size s' = up_size s \<and> session_ok s'"

lemma map_sessions_ok:
  assumes "store_ok st" "\<forall>(k, s) \<in> set (sessions st). same_reservation s (f k s)"
  shows "store_ok (st\<lparr>sessions := map (\<lambda>(k, s). (k, f k s)) (sessions st)\<rparr>)"
proof -
  let ?d = "sessions st" and ?g = "\<lambda>(k, s). (k, f k s)"
  have keys: "map fst (map ?g ?d) = map fst ?d" by auto
  have own: "length (filter (\<lambda>(k, s). up_owner s = owner) (map ?g ?d)) = length (filter (\<lambda>(k, s). up_owner s = owner) ?d)" for owner
  proof -
    have "filter ((\<lambda>(k, s). up_owner s = owner) \<circ> ?g) ?d = filter (\<lambda>(k, s). up_owner s = owner) ?d"
      using assms(2) by (intro filter_cong) (auto simp: same_reservation_def)
    then show ?thesis by (simp add: filter_map)
  qed
  have size: "map (up_size \<circ> snd) (map ?g ?d) = map (up_size \<circ> snd) ?d"
    using assms(2) by (auto simp: same_reservation_def)
  have ok: "\<forall>s \<in> snd ` set (map ?g ?d). session_ok s" using assms(2) by (auto simp: same_reservation_def)
  have st: "sessions (st\<lparr>sessions := map ?g ?d\<rparr>) = map ?g ?d" "timer (st\<lparr>sessions := map ?g ?d\<rparr>) = timer st" by simp_all
  show ?thesis
    using assms(1) ok unfolding store_ok_def owner_sessions_def reserved_def st keys own size by simp
qed

lemma put_session_map:
  assumes "store_ok st" "map_of (sessions st) key = Some s"
  shows "put_session key s' st = st\<lparr>sessions := map (\<lambda>(k, w). (k, if k = key then s' else w)) (sessions st)\<rparr>"
  using dict_set_existing [OF _ assms(2)] assms(1) by (simp add: put_session_def store_ok_def)

lemma put_session_ok:
  assumes "store_ok st" "map_of (sessions st) key = Some s" "same_reservation s s'"
  shows "store_ok (put_session key s' st)"
proof -
  have "\<forall>(k, w) \<in> set (sessions st). same_reservation w (if k = key then s' else w)"
    using assms by (auto simp: store_ok_def same_reservation_def dest: map_of_is_SomeI) (metis map_of_is_SomeI option.inject)+
  then show ?thesis using map_sessions_ok [OF assms(1), of "\<lambda>k w. if k = key then s' else w"] put_session_map [OF assms(1,2)] by simp
qed

lemma session_of: "store_ok st \<Longrightarrow> map_of (sessions st) k = Some s \<Longrightarrow> session_ok s"
  by (force simp: store_ok_def dest: map_of_SomeD)

lemma upload_get_Inr:
  "upload_get now key owner st = Inr s \<longleftrightarrow>
   map_of (sessions st) key = Some s \<and> \<not> up_claimed s \<and> up_owner s = owner \<and> now < up_expires s"
  by (auto simp: upload_get_def split: option.splits)

subsection \<open>Appending\<close>

text \<open>What an accepted chunk does to the accepted bytes of its session.\<close>

lemma take_file_write:
  assumes "n \<le> p" "p \<le> length (sf_content f)"
  shows "take n (sf_content (file_write p d f)) = take n (sf_content f)"
  using assms by (simp add: file_write_def min_def)

lemma append_at_result:
  assumes ok: "session_ok s" and off: "0 \<le> off" "off + int (length d) \<le> up_size s"
    and r: "append_at io now off d s = (r, s')"
  shows "same_reservation s s'" "up_claimed s' = up_claimed s" "up_target s' = up_target s"
    "case r of
       Inl e \<Rightarrow> accepted_bytes s' = accepted_bytes s
     | Inr _ \<Rightarrow> nat off + length d \<le> up_offset s' \<and> py_slice (accepted_bytes s') (nat off) (nat off + length d) = d
           \<and> (accepted_bytes s' = accepted_bytes s
              \<or> nat off = up_offset s \<and> accepted_bytes s' = accepted_bytes s @ d)"
proof -
  let ?p = "nat off" and ?c = "sf_content (up_file s)"
  have c: "up_offset s \<le> length ?c" "int (length ?c) \<le> up_size s" "0 < up_size s" using ok by (auto simp: session_ok_def)
  have all: "same_reservation s s' \<and> up_claimed s' = up_claimed s \<and> up_target s' = up_target s \<and>
    (case r of
       Inl e \<Rightarrow> accepted_bytes s' = accepted_bytes s
     | Inr _ \<Rightarrow> ?p + length d \<le> up_offset s' \<and> py_slice (accepted_bytes s') ?p (?p + length d) = d
           \<and> (accepted_bytes s' = accepted_bytes s \<or> ?p = up_offset s \<and> accepted_bytes s' = accepted_bytes s @ d))"
  proof (cases "off < int (up_offset s)")
    case True
    then show ?thesis
      using r ok off slice_slice_take [of "?p + length d" "up_offset s" ?c ?p]
      by (auto simp: append_at_def Let_def seek_to_def same_reservation_def session_ok_def accepted_bytes_def file_read_def
          split: if_splits)
  next
    case not_retry: False
    show ?thesis
    proof (cases "off = int (up_offset s)")
      case False
      then show ?thesis using not_retry r ok
        by (auto simp: append_at_def Let_def same_reservation_def)
    next
      case True
      then have p: "?p = up_offset s" by simp
      show ?thesis
      proof (cases io)
        case WriteOk
        then show ?thesis
          using True r ok off c
          by (auto simp: append_at_def write_chunk_def Let_def same_reservation_def session_ok_def accepted_bytes_def
              file_write_def py_slice_def)
      next
        case (WriteFails n truncates)
        then show ?thesis
          using True r ok off c
          by (auto simp: append_at_def write_chunk_def Let_def same_reservation_def session_ok_def accepted_bytes_def
              file_write_def min_def split: if_splits)
      qed
    qed
  qed
  then show "same_reservation s s'" "up_claimed s' = up_claimed s" "up_target s' = up_target s" by simp_all
  show "case r of
       Inl e \<Rightarrow> accepted_bytes s' = accepted_bytes s
     | Inr _ \<Rightarrow> ?p + length d \<le> up_offset s' \<and> py_slice (accepted_bytes s') ?p (?p + length d) = d
           \<and> (accepted_bytes s' = accepted_bytes s \<or> ?p = up_offset s \<and> accepted_bytes s' = accepted_bytes s @ d)"
    using all by simp
qed

end
