(* ===== verification/Chunk_Router.thy ===== *)
theory Chunk_Router
  imports Chunk_Uploads Token_Service
begin

text \<open>
  \<open>src/atlaso/app/routers/chunk_uploads.py\<close>: the endpoints around \<open>UploadStore\<close>, and the file-name
  validators they call in \<open>vcf_sddc_upload.py\<close>, \<open>esxi_pxe.py\<close> and \<open>vcf_offline_depot.py\<close>. A handler runs over
  the store and the file system. Finalisation checks every key before it claims them all; what other
  requests do to the store between the two is the argument \<open>mid\<close>, and the wrapped endpoint is the argument
  \<open>original\<close>. \<open>json.loads\<close> of a byte string, SHA-256 and the MAC are arguments.
\<close>

section \<open>Regular expressions of file names\<close>

text \<open>
  With \<open>re.IGNORECASE\<close> a range of ASCII letters also matches four other letters (U+0130, U+0131, U+017F
  and U+212A), an \<open>i\<close> also U+0130 and U+0131, and an \<open>s\<close> also U+017F.
\<close>

definition ascii_letter :: "nat \<Rightarrow> bool" where
  "ascii_letter c \<longleftrightarrow> 65 \<le> c \<and> c \<le> 90 \<or> 97 \<le> c \<and> c \<le> 122"

definition ci_letter :: "nat \<Rightarrow> bool" where
  "ci_letter c \<longleftrightarrow> ascii_letter c \<or> c \<in> {0x130, 0x131, 0x17F, 0x212A}"

definition ci_char :: "nat \<Rightarrow> nat \<Rightarrow> bool" where
  "ci_char p c \<longleftrightarrow> ascii_lower c = p \<or> p = 105 \<and> c \<in> {0x130, 0x131} \<or> p = 115 \<and> c = 0x17F"

definition ci_endswith :: "pystr \<Rightarrow> pystr \<Rightarrow> bool" where
  "ci_endswith s p \<longleftrightarrow> length p \<le> length s \<and> list_all2 ci_char p (drop (length s - length p) s)"

text \<open>The text before the last \<open>n\<close> characters.\<close>

definition stem :: "nat \<Rightarrow> pystr \<Rightarrow> pystr" where
  "stem n s = take (length s - n) s"

definition ci_alnum :: "nat \<Rightarrow> bool" where
  "ci_alnum c \<longleftrightarrow> ci_letter c \<or> is_digit c"

definition validate_ova_filename :: "pystr \<Rightarrow> bool" where
  "validate_ova_filename s \<longleftrightarrow> ci_endswith s (u ''.ova'') \<and> (case stem 4 s of
     [] \<Rightarrow> False
   | c # t \<Rightarrow> ci_alnum c \<and> length t \<le> 195 \<and> list_all (\<lambda>x. ci_alnum x \<or> x \<in> set (u ''._-'')) t)"

text \<open>\<open>Path(s).name\<close>: the last component, without the components that are empty or a dot.\<close>

fun split_slash :: "pystr \<Rightarrow> pystr list" where
  "split_slash [] = [[]]"
| "split_slash (c # s) = (if c = 47 then [] # split_slash s
     else case split_slash s of p # ps \<Rightarrow> (c # p) # ps | [] \<Rightarrow> [[c]])"

definition path_name :: "pystr \<Rightarrow> pystr" where
  "path_name s = (case rev (filter (\<lambda>p. p \<noteq> [] \<and> p \<noteq> [46]) (split_slash s)) of [] \<Rightarrow> [] | p # _ \<Rightarrow> p)"

definition safe_installer_iso_name :: "pystr \<Rightarrow> web_error + pystr" where
  "safe_installer_iso_name filename =
     (let name = strip (path_name filename)
      in if ci_endswith name (u ''.iso'') \<and> (case stem 4 name of
              [] \<Rightarrow> False | c # t \<Rightarrow> ci_alnum c \<and> list_all (\<lambda>x. ci_alnum x \<or> x \<in> set (u ''._ -'')) t)
         then Inr name else Inl (ValueErr ''Upload an ESXi installer ISO with a safe .iso filename.''))"

definition safe_archive_upload_name :: "pystr \<Rightarrow> web_error + pystr" where
  "safe_archive_upload_name filename =
     (let name = path_name filename; pre = u ''vcf-download-tool-''; suf = u ''.tar.gz''
      in if startswith name pre \<and> length pre + length suf < length name \<and> drop (length name - length suf) name = suf
          \<and> list_all (\<lambda>x. ascii_letter x \<or> is_digit x \<or> x \<in> set (u ''._-'')) (drop (length pre) (stem (length suf) name))
         then Inr name
         else Inl (ValueErr ''Upload the VCF Download Tool file named vcf-download-tool-*.tar.gz.''))"

section \<open>Requests\<close>

record upload_env =
  ue_loads :: "bytes \<Rightarrow> json option"
  ue_sha256 :: "bytes \<Rightarrow> pystr"
  ue_mac :: "pystr \<Rightarrow> pystr"
  ue_printable :: "nat \<Rightarrow> bool"
  ue_iso_max :: int
  ue_cwd :: pystr

record upload_request = http_request +
  hd_upload_id :: pystr
  hd_upload_offset :: pystr
  hd_chunk_sha256 :: pystr
  hd_chunked :: pystr
  body_chunks :: "bytes list"

record upload_world =
  uw_store :: upload_store
  uw_fs :: file_system

type_synonym 'a upload_handler = "(upload_world, web_error, 'a) prog"

section \<open>Destination of a published file\<close>

definition endswith :: "pystr \<Rightarrow> pystr \<Rightarrow> bool" where
  "endswith s p \<longleftrightarrow> length p \<le> length s \<and> drop (length s - length p) s = p"

definition SDDC_MANAGER_OVA_ROOT :: pystr where
  "SDDC_MANAGER_OVA_ROOT = u ''/mnt/atlaso-vcf-offline-depot/PROD/COMP/SDDC_MANAGER_VCF''"

definition ESXI_INSTALLER_ISO_ROOT :: pystr where
  "ESXI_INSTALLER_ISO_ROOT = u ''/mnt/atlaso-vcf-offline-depot/PROD/COMP/ESX_HOST''"

text \<open>\<open>VCF_DEPOT_UPLOAD_DIR\<close> is relative, and made absolute from the working directory.\<close>

definition VCF_DEPOT_UPLOAD_DIR :: "pystr \<Rightarrow> pystr" where
  "VCF_DEPOT_UPLOAD_DIR cwd = cwd @ u ''/vcfDownloadTool''"

definition publication_path :: "upload_env \<Rightarrow> pystr \<Rightarrow> pystr \<Rightarrow> pystr \<Rightarrow> web_error + pystr option" where
  "publication_path e target fld filename =
     (if endswith target (u ''/vcf-helper/sddc-manager/ovas/upload'') \<and> fld = u ''ova_file''
      then if validate_ova_filename filename then Inr (Some (SDDC_MANAGER_OVA_ROOT @ 47 # filename))
           else Inl (HTTPException 400 ''Choose a .ova filename using only letters, numbers, dots, hyphens, and underscores.'')
      else if endswith target (u ''/esxi-pxe/isos/upload'') \<and> fld = u ''iso_file''
      then case safe_installer_iso_name filename of
             Inr name \<Rightarrow> Inr (Some (ESXI_INSTALLER_ISO_ROOT @ 47 # name))
           | Inl _ \<Rightarrow> Inl (HTTPException 400 ''Upload an ESX installer ISO with a safe .iso filename.'')
      else if fld = u ''tool_archive_file''
      then case safe_archive_upload_name filename of
             Inr name \<Rightarrow> Inr (Some (VCF_DEPOT_UPLOAD_DIR (ue_cwd e) @ 47 # name))
           | Inl _ \<Rightarrow> Inl (HTTPException 400 ''Upload the VCF Download Tool file named vcf-download-tool-*.tar.gz.'')
      else Inr None)"

text \<open>\<open>_publication\<close> under \<open>_operation\<close>: an \<open>OSError\<close> of the revision is answered with 503.\<close>

definition publication_of :: "upload_env \<Rightarrow> pystr \<Rightarrow> pystr \<Rightarrow> pystr \<Rightarrow> publication option upload_handler" where
  "publication_of e target fld filename w = (case publication_path e target fld filename of
     Inl er \<Rightarrow> (Inl er, w)
   | Inr None \<Rightarrow> (Inr None, w)
   | Inr (Some p) \<Rightarrow> (case (revision_of p :: (unit, revision option) fs_prog) (uw_fs w) of
       (Inr r, fs) \<Rightarrow> (Inr (Some \<lparr> pub_path = p, pub_expected = r \<rparr>), w\<lparr>uw_fs := fs\<rparr>)
     | (Inl _, fs) \<Rightarrow> (Inl (HTTPException 503 ''Upload storage is unavailable. Retry the upload.''), w\<lparr>uw_fs := fs\<rparr>)))"

section \<open>Admission\<close>

text \<open>The table of the depot forms and their file fields.\<close>

definition depot_fields :: "(string \<times> string list) list" where
  "depot_fields =
    [(''/vcf-offline-depot/settings'', [''tool_archive_file'', ''download_token_file'', ''activation_code_file'']),
     (''/vcf-offline-depot/tool-package'', [''tool_archive_file'']),
     (''/vcf-offline-depot/credentials'', [''credential_file'']),
     (''/vcf-offline-depot/download-token'', [''download_token_file'']),
     (''/vcf-offline-depot/activation-code'', [''activation_code_file'']),
     (''/vcf-offline-depot/tool-configuration'', [''download_token_file'', ''activation_code_file''])]"

definition depot_field :: "pystr \<Rightarrow> pystr \<Rightarrow> bool" where
  "depot_field ui fld \<longleftrightarrow> list_ex (\<lambda>(p, fs). ui = u p \<and> fld \<in> u ` set fs) depot_fields"

text \<open>\<open>re.fullmatch(r"/api/v1/network-boot/environments/[a-z0-9_-]+/upload", target)\<close>.\<close>

definition network_boot_upload :: "pystr \<Rightarrow> bool" where
  "network_boot_upload t \<longleftrightarrow>
     (let pre = u ''/api/v1/network-boot/environments/''; suf = u ''/upload''
      in startswith t pre \<and> endswith t suf \<and> length pre + length suf < length t
       \<and> list_all (\<lambda>c. 97 \<le> c \<and> c \<le> 122 \<or> is_digit c \<or> c = 95 \<or> c = 45) (drop (length pre) (stem (length suf) t)))"

definition GIB :: int where "GIB = 1024 ^ 3"

definition MIB :: int where "MIB = 1024 ^ 2"

text \<open>\<open>limit\<close> and \<open>allowed\<close> of \<open>_policy\<close>.\<close>

definition policy_of :: "upload_env \<Rightarrow> pystr \<Rightarrow> pystr \<Rightarrow> identity \<Rightarrow> int \<times> bool" where
  "policy_of e target fld i =
     (let ui = removeprefix target MANAGEMENT_UI_ROOT; admin = has_role i (u ''admin'')
      in if startswith target (MANAGEMENT_UI_ROOT @ [47])
         then if ui = u ''/vcf-helper/sddc-manager/ovas/upload'' \<and> fld = u ''ova_file''
              then (16 * GIB, admin \<or> has_role i (u ''service-admin''))
              else if ui = u ''/esxi-pxe/isos/upload'' \<and> fld = u ''iso_file''
              then (ue_iso_max e, can i (u ''write:esxi-pxe''))
              else if ui = u ''/esxi-pxe/kickstarts/upload'' \<and> fld = u ''kickstart_file''
              then (MIB, can i (u ''write:esxi-pxe''))
              else if ui \<in> {u ''/backup-restore/ldap/import'', u ''/ldap/recovery/import''} \<and> fld = u ''archive''
              then (GIB, admin)
              else if ui = u ''/backup-restore/restore'' \<and> fld = u ''archive_file''
              then (3000000, admin)
              else if ui = u ''/vcf-private-registry/settings'' \<and> fld = u ''ca_bundle_file''
              then (MIB, can i (u ''write:vcf-registry''))
              else if depot_field ui fld
              then (if fld = u ''tool_archive_file'' then 2 * GIB else MIB, can i (u ''write:repository''))
              else (0, False)
         else if network_boot_upload target \<and> fld = u ''artifact''
         then (2 * GIB, can i (u ''write:pxe''))
         else (0, False))"

definition policy :: "upload_env \<Rightarrow> pystr \<Rightarrow> pystr \<Rightarrow> identity \<Rightarrow> web_error + int" where
  "policy e target fld i = (case policy_of e target fld i of (limit, allowed) \<Rightarrow>
     if limit = 0 then Inl (HTTPException 400 ''This form does not accept chunked uploads.'')
     else if \<not> allowed then Inl (HTTPException 403 ''Upload permission required.'')
     else Inr limit)"

definition owner_of :: "http_request \<Rightarrow> cookie \<Rightarrow> web_error + pystr" where
  "owner_of rq c = (case ck_browser_session_id c of
     Some owner \<Rightarrow>
       if csrf_header rq = [] \<or> ck_csrf c \<noteq> Some (csrf_header rq) \<or> owner = []
       then Inl (HTTPException 403 ''Invalid upload session or CSRF token.'') else Inr owner
   | None \<Rightarrow> Inl (HTTPException 403 ''Invalid upload session or CSRF token.''))"

text \<open>\<open>_body\<close>: the chunks of the request stream, refused as soon as they exceed the maximum.\<close>

fun body_from :: "nat \<Rightarrow> bytes \<Rightarrow> bytes list \<Rightarrow> web_error + bytes" where
  "body_from maximum result [] = Inr result"
| "body_from maximum result (chunk # chunks) =
     (if maximum < length result + length chunk then Inl (HTTPException 413 ''Upload request is too large.'')
      else body_from maximum (result @ chunk) chunks)"

definition request_body :: "nat \<Rightarrow> bytes list \<Rightarrow> web_error + bytes" where
  "request_body maximum chunks = body_from maximum [] chunks"

definition request_json :: "upload_env \<Rightarrow> bytes list \<Rightarrow> web_error + object" where
  "request_json e chunks = bindE (request_body (1024 ^ 2) chunks) (\<lambda>b.
     case ue_loads e b of
       Some (JObj ob) \<Rightarrow> Inr ob
     | _ \<Rightarrow> Inl (HTTPException 400 ''Invalid upload envelope.''))"

text \<open>\<open>_operation\<close>: the fixed message of every status.\<close>

definition operation_error :: "upload_error \<Rightarrow> web_error" where
  "operation_error er = (case er of
     UploadOSError \<Rightarrow> HTTPException 503 ''Upload storage is unavailable. Retry the upload.''
   | UploadError status _ \<Rightarrow> HTTPException status
      (if status = 400 then ''Invalid upload chunk or checksum.''
       else if status = 404 then ''Upload expired or is unavailable. Select the file again.''
       else if status = 409 then ''Upload offset conflict, incomplete file, or incorrect destination.''
       else if status = 413 then ''Chunk exceeds the declared file size.''
       else if status = 429 then ''Upload capacity is busy. Finish or cancel another upload first.''
       else if status = 503 then ''Upload staging is unavailable. Check the depot volume and its permissions.''
       else if status = 507 then ''Insufficient free space for upload and validation.''
       else ''Upload failed.''))"

definition store_operation :: "'a upload_prog \<Rightarrow> 'a upload_handler" where
  "store_operation f w = (case f (uw_store w) of
     (Inr x, st) \<Rightarrow> (Inr x, w\<lparr>uw_store := st\<rparr>)
   | (Inl er, st) \<Rightarrow> (Inl (operation_error er), w\<lparr>uw_store := st\<rparr>))"

section \<open>Reserving a file\<close>

datatype create_reply = UploadCreated pystr nat nat | OverwriteRequired pystr

text \<open>The declared file: three strings and a size.\<close>

definition bad_filename :: "pystr \<Rightarrow> bool" where
  "bad_filename f \<longleftrightarrow> f = [] \<or> f = [46] \<or> f = [46, 46] \<or> 240 < length f \<or> list_ex (\<lambda>c. c \<in> {13, 10, 0, 47, 92}) f"

definition declared_file :: "object \<Rightarrow> web_error + pystr \<times> pystr \<times> pystr \<times> int" where
  "declared_file ob = (case (jget ob (u ''target''), jget ob (u ''field''), jget ob (u ''filename''), jget ob (u ''size'')) of
     (Some (JStr target), Some (JStr fld), Some (JStr filename), Some (JInt sz)) \<Rightarrow>
       if bad_filename filename \<or> sz \<le> 0 then Inl (HTTPException 400 ''Choose a nonempty, named file.'')
       else Inr (target, fld, filename, sz)
   | _ \<Rightarrow> Inl (HTTPException 400 ''Choose a nonempty, named file.''))"

text \<open>Whether the request confirms that an existing file is to be replaced.\<close>

definition overwrite_confirmed :: "upload_env \<Rightarrow> object \<Rightarrow> publication option \<Rightarrow> pystr \<Rightarrow> web_error + bool" where
  "overwrite_confirmed e ob pub owner = (case pub of
     None \<Rightarrow> Inr True
   | Some p \<Rightarrow>
       if pub_expected p = None then Inr True
       else case jget ob (u ''overwrite_token'') of
              Some (JStr t) \<Rightarrow> compare_digest t (overwrite_token (ue_mac e) (ue_printable e) p owner)
            | _ \<Rightarrow> Inr False)"

text \<open>
  \<open>get\<close> right after \<open>create\<close> finds the new session (an \<open>UploadError\<close> would not be translated here), and
  its publication is set.
\<close>

definition reserve_upload ::
  "depot \<Rightarrow> int \<Rightarrow> pystr \<Rightarrow> pystr \<Rightarrow> pystr \<Rightarrow> pystr \<Rightarrow> pystr \<Rightarrow> int \<Rightarrow> publication option \<Rightarrow> create_reply upload_handler" where
  "reserve_upload dp now token owner target fld filename sz pub =
     bindS (store_operation (upload_create dp now token owner target fld filename sz)) (\<lambda>key.
     (\<lambda>w. case upload_get now key owner (uw_store w) of
         Inl er \<Rightarrow> (Inl (ValueErr ''UploadError''), w)
       | Inr s \<Rightarrow> (Inr (UploadCreated key 0 CHUNK_BYTES),
                   w\<lparr>uw_store := put_session key (s\<lparr>up_publication := pub\<rparr>) (uw_store w)\<rparr>)))"

definition create_upload ::
  "upload_env \<Rightarrow> depot \<Rightarrow> int \<Rightarrow> pystr \<Rightarrow> identity \<Rightarrow> upload_request \<Rightarrow> cookie \<Rightarrow> create_reply upload_handler" where
  "create_upload e dp now token i rq c =
     bindS (liftS (owner_of (http_request.truncate rq) c)) (\<lambda>owner.
     bindS (liftS (request_json e (body_chunks rq))) (\<lambda>ob.
     bindS (liftS (declared_file ob)) (\<lambda>(target, fld, filename, sz).
     bindS (liftS (policy e target fld i)) (\<lambda>limit.
     bindS (liftS (raise_if (limit < sz) (HTTPException 413 ''File exceeds this upload's size limit.''))) (\<lambda>_.
     bindS (publication_of e target fld filename) (\<lambda>pub.
     bindS (liftS (overwrite_confirmed e ob pub owner)) (\<lambda>ok.
     if ok then reserve_upload dp now token owner target fld filename sz pub
     else returnS (OverwriteRequired
       (overwrite_token (ue_mac e) (ue_printable e) (the pub) owner)))))))))"

section \<open>Appending and cancelling\<close>

text \<open>
  \<open>int(header)\<close> of a Latin-1 header value: white space around it, a sign, digits with single underscores
  between them; more than 4300 digits are refused.
\<close>

definition int_digits :: "pystr \<Rightarrow> bool" where
  "int_digits s \<longleftrightarrow> s \<noteq> [] \<and> list_all (\<lambda>c. is_digit c \<or> c = 95) s \<and> hd s \<noteq> 95 \<and> last s \<noteq> 95
     \<and> \<not> list_ex (\<lambda>(a, b). a = 95 \<and> b = 95) (zip s (tl s)) \<and> length (filter is_digit s) \<le> 4300"

definition py_int :: "pystr \<Rightarrow> int option" where
  "py_int h = (let s = strip h;
                   sign = (if s \<noteq> [] \<and> hd s = 45 then -1 else 1);
                   ds = (if s \<noteq> [] \<and> (hd s = 45 \<or> hd s = 43) then tl s else s)
               in if int_digits ds then Some (sign * int (nat_of_digits (filter is_digit ds))) else None)"

definition session_operation :: "int \<Rightarrow> pystr \<Rightarrow> pystr \<Rightarrow> upload_session upload_handler" where
  "session_operation now key owner = store_operation (\<lambda>st. (upload_get now key owner st, st))"

definition append_chunk ::
  "upload_env \<Rightarrow> write_outcome \<Rightarrow> int \<Rightarrow> identity \<Rightarrow> upload_request \<Rightarrow> cookie \<Rightarrow> nat upload_handler" where
  "append_chunk e io now i rq c =
     bindS (liftS (owner_of (http_request.truncate rq) c)) (\<lambda>owner.
     bindS (session_operation now (hd_upload_id rq) owner) (\<lambda>s.
     bindS (liftS (policy e (up_target s) (up_field s) i)) (\<lambda>_.
     case py_int (hd_upload_offset rq) of
       None \<Rightarrow> raiseS (HTTPException 400 ''Invalid upload offset.'')
     | Some off \<Rightarrow>
         bindS (liftS (request_body CHUNK_BYTES (body_chunks rq))) (\<lambda>d.
         store_operation (upload_append (ue_sha256 e) io now (hd_upload_id rq) owner off d (hd_chunk_sha256 rq))))))"

definition cancel_upload :: "bool \<Rightarrow> int \<Rightarrow> upload_request \<Rightarrow> cookie \<Rightarrow> unit upload_handler" where
  "cancel_upload close_fails now rq c =
     bindS (liftS (owner_of (http_request.truncate rq) c)) (\<lambda>owner.
     store_operation (upload_cancel close_fails now (hd_upload_id rq) owner))"

section \<open>Finalisation\<close>

fun json_text :: "json \<Rightarrow> web_error + pystr" where
  "json_text (JStr t) = Inr t"
| "json_text _ = Inl (HTTPException 400 ''Invalid upload envelope.'')"

fun json_field :: "json \<Rightarrow> web_error + pystr \<times> pystr" where
  "json_field (JArr [JStr a, JStr b]) = Inr (a, b)"
| "json_field _ = Inl (HTTPException 400 ''Invalid upload envelope.'')"

fun json_list :: "json \<Rightarrow> web_error + json list" where
  "json_list (JArr xs) = Inr xs"
| "json_list _ = Inl (HTTPException 400 ''Invalid upload envelope.'')"

definition finalize_envelope :: "object \<Rightarrow> web_error + pystr list \<times> (pystr \<times> pystr) list" where
  "finalize_envelope ob =
     bindE (json_list (case jget ob (u ''files'') of Some v \<Rightarrow> v | None \<Rightarrow> JNull)) (\<lambda>ks.
     bindE (raise_if (\<not> (1 \<le> length ks \<and> length ks \<le> 4)) (HTTPException 400 ''Invalid upload envelope.'')) (\<lambda>_.
     bindE (mapE json_text ks) (\<lambda>keys.
     bindE (json_list (case jget ob (u ''fields'') of Some v \<Rightarrow> v | None \<Rightarrow> JArr [])) (\<lambda>fs.
     bindE (raise_if (1000 < length fs) (HTTPException 400 ''Invalid upload envelope.'')) (\<lambda>_.
     bindE (mapE json_field fs) (\<lambda>pairs. Inr (keys, pairs)))))))"

text \<open>\<open>urllib.parse.quote\<close>.\<close>

definition unreserved :: "nat \<Rightarrow> bool" where
  "unreserved c \<longleftrightarrow> ascii_letter c \<or> is_digit c \<or> c \<in> set (u ''_.-~/'')"

definition upper_hex :: "nat \<Rightarrow> nat" where
  "upper_hex d = (if d < 10 then 48 + d else 55 + d)"

definition quote_byte :: "byte \<Rightarrow> pystr" where
  "quote_byte b = (let c = unat b in if unreserved c then [c] else [37, upper_hex (c div 16), upper_hex (c mod 16)])"

definition quote :: "pystr \<Rightarrow> web_error + pystr" where
  "quote s = (case utf8_encode s of
     Inl _ \<Rightarrow> Inl (ValueErr ''UnicodeEncodeError'') | Inr bs \<Rightarrow> Inr (concat (map quote_byte bs)))"

text \<open>The bodies that \<open>receive\<close> hands out, until a read returns nothing.\<close>

function read_chunks :: "nat \<Rightarrow> bytes \<Rightarrow> bytes list" where
  "read_chunks n b = (if n = 0 \<or> b = [] then [] else take n b # read_chunks n (drop n b))"
  by auto

termination
  by (relation "measure (length \<circ> snd)") auto

declare read_chunks.simps [simp del]

text \<open>
  What the wrapped endpoint gets: the original request, the form with the staged files, or the raw
  stream of an OVA with its \<open>x-atlaso-filename\<close> header; and the publication in \<open>request.state\<close>.
\<close>

datatype endpoint_input =
    PlainRequest
  | StagedForm "(pystr \<times> pystr) list" "upload_session list" "publication option"
  | StagedStream "bytes list" pystr "publication option"

datatype endpoint_error = Raised web_error | RaisedConflict

definition staged_input :: "pystr \<Rightarrow> (pystr \<times> pystr) list \<Rightarrow> upload_session list \<Rightarrow> web_error + endpoint_input" where
  "staged_input path pairs ss =
     (let pubs = List.map_filter up_publication ss; pub = (case pubs of p # _ \<Rightarrow> Some p | [] \<Rightarrow> None)
      in bindE (raise_if (1 < length pubs) (HTTPException 400 ''Choose one media file at a time.'')) (\<lambda>_.
         if endswith path (u ''/vcf-helper/sddc-manager/ovas/upload'')
         then bindE (raise_if (length ss \<noteq> 1) (HTTPException 400 ''Choose exactly one OVA.'')) (\<lambda>_.
              bindE (quote (up_filename (hd ss))) (\<lambda>name.
              Inr (StagedStream (read_chunks CHUNK_BYTES (sf_content (up_file (hd ss)))) name pub)))
         else Inr (StagedForm pairs ss pub)))"

text \<open>The checks of every key, in order.\<close>

fun check_keys :: "upload_env \<Rightarrow> int \<Rightarrow> pystr \<Rightarrow> identity \<Rightarrow> pystr \<Rightarrow> upload_store \<Rightarrow> pystr list \<Rightarrow> web_error + unit" where
  "check_keys e now owner i path st [] = Inr ()"
| "check_keys e now owner i path st (k # ks) = (case upload_get now k owner st of
     Inl er \<Rightarrow> Inl (operation_error er)
   | Inr s \<Rightarrow> bindE (policy e path (up_field s) i) (\<lambda>_. check_keys e now owner i path st ks))"

text \<open>Everything before the claim: the caller, the envelope and the permissions.\<close>

definition finalize_checks ::
  "upload_env \<Rightarrow> int \<Rightarrow> identity option \<Rightarrow> upload_request \<Rightarrow> cookie \<Rightarrow> upload_store
   \<Rightarrow> web_error + pystr \<times> pystr list \<times> (pystr \<times> pystr) list" where
  "finalize_checks e now who rq c st =
     bindE (raise_if (rq_method rq \<noteq> u ''POST'') (HTTPException 405 ''Upload finalization requires POST.'')) (\<lambda>_.
     case who of
       None \<Rightarrow> Inl (HTTPException 401 ''Authentication required.'')
     | Some i \<Rightarrow>
         bindE (owner_of (http_request.truncate rq) c) (\<lambda>owner.
         bindE (request_json e (body_chunks rq)) (\<lambda>ob.
         bindE (finalize_envelope ob) (\<lambda>(keys, pairs).
         bindE (check_keys e now owner i (rq_path rq) st keys) (\<lambda>_. Inr (owner, keys, pairs))))))"

text \<open>The \<open>try\<close> block; \<open>finally\<close> releases the claimed keys.\<close>

definition run_endpoint ::
  "(endpoint_input \<Rightarrow> (upload_store, endpoint_error, 'r) prog) \<Rightarrow> web_error + endpoint_input \<Rightarrow> pystr list
   \<Rightarrow> (upload_store, endpoint_error, 'r) prog" where
  "run_endpoint original inp keys st = (case inp of
     Inl er \<Rightarrow> (Inl (Raised er), upload_release keys st)
   | Inr x \<Rightarrow> (case original x st of
       (Inl RaisedConflict, st') \<Rightarrow>
         (Inl (Raised (HTTPException 409 ''The destination changed. Select the file again and confirm any overwrite.'')), upload_release keys st')
     | (r, st') \<Rightarrow> (r, upload_release keys st')))"

definition finalize_upload ::
  "upload_env \<Rightarrow> int \<Rightarrow> (upload_store \<Rightarrow> upload_store) \<Rightarrow> (endpoint_input \<Rightarrow> (upload_store, endpoint_error, 'r) prog)
   \<Rightarrow> identity option \<Rightarrow> upload_request \<Rightarrow> cookie \<Rightarrow> (upload_store, endpoint_error, 'r) prog" where
  "finalize_upload e now mid original who rq c st =
     (if hd_chunked rq \<noteq> u ''1'' then original PlainRequest st
      else case finalize_checks e now who rq c st of
        Inl er \<Rightarrow> (Inl (Raised er), st)
      | Inr (owner, keys, pairs) \<Rightarrow> (case upload_claim now keys owner (rq_path rq) (mid st) of
          (Inl er, st') \<Rightarrow> (Inl (Raised (operation_error er)), st')
        | (Inr ss, st') \<Rightarrow> run_endpoint original (staged_input (rq_path rq) pairs ss) keys st'))"

end
