(* ===== verification/Chunk_Upload_Thms.thy ===== *)
theory Chunk_Upload_Thms
  imports Chunk_Uploads
begin

text \<open>
  Reachable states of the upload store, with the chunks each session has acknowledged since it was
  created, and the theorems about them. \<open>create_upload\<close> only reserves files of a positive size, which the
  rule \<open>create\<close> asks for.
\<close>

section \<open>Reachable states\<close>

type_synonym ack_log = "pystr \<Rightarrow> (nat \<times> bytes) list"

inductive upload_reach :: "(bytes \<Rightarrow> pystr) \<Rightarrow> upload_store \<Rightarrow> ack_log \<Rightarrow> bool" for sha where
  init: "upload_reach sha init_store (\<lambda>_. [])"
| create: "upload_reach sha st lg \<Longrightarrow> 0 < sz \<Longrightarrow>
    upload_create dp now token owner target fld filename sz st = (r, st') \<Longrightarrow>
    upload_reach sha st' (case r of Inr k \<Rightarrow> lg(k := []) | Inl _ \<Rightarrow> lg)"
| publication: "upload_reach sha st lg \<Longrightarrow> map_of (sessions st) key = Some s \<Longrightarrow>
    upload_reach sha (put_session key (s\<lparr>up_publication := pub\<rparr>) st) lg"
| append: "upload_reach sha st lg \<Longrightarrow> upload_append sha io now key owner off d digest st = (r, st') \<Longrightarrow>
    upload_reach sha st' (case r of Inr _ \<Rightarrow> lg(key := (nat off, d) # lg key) | Inl _ \<Rightarrow> lg)"
| claim: "upload_reach sha st lg \<Longrightarrow> upload_claim now ks owner target st = (r, st') \<Longrightarrow> upload_reach sha st' lg"
| release: "upload_reach sha st lg \<Longrightarrow> upload_reach sha (upload_release ks st) lg"
| cancel: "upload_reach sha st lg \<Longrightarrow> upload_cancel cf now key owner st = (r, st') \<Longrightarrow> upload_reach sha st' lg"
| sweep: "upload_reach sha st lg \<Longrightarrow> upload_reach sha (upload_sweep now st) lg"
| close: "upload_reach sha st lg \<Longrightarrow> upload_reach sha (upload_close st) lg"

text \<open>
  The acknowledged chunks of a session are in its accepted bytes, and every accepted byte belongs to
  one of them.
\<close>

definition logged :: "(nat \<times> bytes) list \<Rightarrow> bytes \<Rightarrow> bool" where
  "logged acks b \<longleftrightarrow>
     (\<forall>(off, d) \<in> set acks. off + length d \<le> length b \<and> py_slice b off (off + length d) = d)
   \<and> (\<forall>i < length b. \<exists>(off, d) \<in> set acks. off \<le> i \<and> i < off + length d)"

definition log_ok :: "upload_store \<Rightarrow> ack_log \<Rightarrow> bool" where
  "log_ok st lg \<longleftrightarrow> (\<forall>k s. map_of (sessions st) k = Some s \<longrightarrow> logged (lg k) (accepted_bytes s))"

lemma logged_Nil: "logged [] []"
  by (simp add: logged_def)

lemma logged_again:
  assumes "logged acks b" "off + length d \<le> length b" "py_slice b off (off + length d) = d"
  shows "logged ((off, d) # acks) b"
  using assms by (fastforce simp: logged_def)

lemma logged_append:
  assumes "logged acks b"
  shows "logged ((length b, d) # acks) (b @ d)"
proof -
  have "py_slice (b @ d) off (off + length e) = e" if "(off, e) \<in> set acks" for off e
  proof -
    have "off + length e \<le> length b" "py_slice b off (off + length e) = e" using that assms by (auto simp: logged_def)
    then show ?thesis using slice_slice_take [of "off + length e" "length b" "b @ d" off] by simp
  qed
  moreover have "py_slice (b @ d) (length b) (length b + length d) = d" by (simp add: py_slice_def)
  ultimately show ?thesis using assms unfolding logged_def by (fastforce simp: nth_append not_less)
qed

section \<open>Every operation keeps the invariant\<close>

lemma release_ok:
  assumes "store_ok st"
  shows "store_ok (upload_release ks st)"
proof -
  let ?P = "\<lambda>(k, s). k \<notin> set ks"
  have nonneg: "\<forall>x \<in> set (sessions st). 0 \<le> up_size (snd x)" using assms by (force simp: store_ok_def session_ok_def)
  have "sum_list (map (up_size \<circ> snd) (filter ?P d)) \<le> sum_list (map (up_size \<circ> snd) d)"
    if "\<forall>x \<in> set d. 0 \<le> up_size (snd x)" for d using that by (induction d) auto
  then have "reserved (upload_release ks st) \<le> reserved st" using nonneg by (simp add: reserved_def upload_release_def)
  moreover have "owner_sessions (upload_release ks st) o' \<le> owner_sessions st o'" for o'
  proof -
    have "length (filter Q (filter ?P d)) \<le> length (filter Q d)" for Q d by (induction d) auto
    then show ?thesis by (simp add: owner_sessions_def upload_release_def)
  qed
  moreover have "length (sessions (upload_release ks st)) \<le> length (sessions st)" by (simp add: upload_release_def)
  moreover have "set (sessions (upload_release ks st)) \<subseteq> set (sessions st)" "timer (upload_release ks st) = timer st"
    "distinct (map fst (sessions st)) \<longrightarrow> distinct (map fst (sessions (upload_release ks st)))"
    by (auto simp: upload_release_def distinct_map_filter)
  ultimately show ?thesis
    using assms unfolding store_ok_def by (metis (no_types, lifting) image_mono length_0_conv le_zero_eq order_trans subsetD)
qed

lemma release_lookup:
  "distinct (map fst (sessions st)) \<Longrightarrow>
   map_of (sessions (upload_release ks st)) k = (if k \<in> set ks then None else map_of (sessions st) k)"
proof -
  have "map_of (filter (\<lambda>(k, s). k \<notin> set ks) d) k = (if k \<in> set ks then None else map_of d k)" for d :: "(pystr \<times> upload_session) list"
    by (induction d) auto
  then show ?thesis by (simp add: upload_release_def)
qed

lemma create_ok:
  assumes "store_ok st" "0 < sz" "upload_create dp now token owner target fld filename sz st = (r, st')"
  shows "store_ok st'"
    "r = Inr k \<Longrightarrow> k = token \<and> (\<exists>s. sessions st' = dict_set (sessions st) k s \<and> accepted_bytes s = [])"
    "r = Inl e \<Longrightarrow> st' = st"
proof -
  have all: "store_ok st' \<and> (\<forall>k. r = Inr k \<longrightarrow> k = token \<and> (\<exists>s. sessions st' = dict_set (sessions st) k s \<and> accepted_bytes s = []))
      \<and> (\<forall>e. r = Inl e \<longrightarrow> st' = st)"
  proof (cases "\<exists>k. r = Inr k")
    case False
    then show ?thesis using assms by (auto simp: upload_create_def Let_def split: if_splits sum.splits)
  next
    case True
    define s where "s = \<lparr> up_owner = owner, up_target = target, up_field = fld, up_filename = filename, up_size = sz,
       up_file = \<lparr> sf_content = [], sf_position = 0 \<rparr>, up_expires = now + SESSION_SECONDS,
       up_offset = 0, up_claimed = False, up_publication = None \<rparr>"
    have lim: "length (sessions st) < 16" "owner_sessions st owner < 4" "reserved st + sz \<le> CAPACITY_BYTES"
      and st': "r = Inr token" "st' = upload_schedule (st\<lparr>sessions := dict_set (sessions st) token s\<rparr>)"
      using assms(3) True by (auto simp: upload_create_def Let_def s_def split: if_splits sum.splits)
    have sok: "session_ok s" using assms(2) by (simp add: s_def session_ok_def)
    have nonneg: "\<forall>x \<in> snd ` set (sessions st). 0 \<le> up_size x" using assms(1) by (force simp: store_ok_def session_ok_def)
    have "reserved st' \<le> CAPACITY_BYTES"
      using sum_dict_set [OF nonneg, of token s] lim(3) by (simp add: st' upload_schedule_def reserved_def s_def)
    moreover have "owner_sessions st' q \<le> 4" for q
      using filter_dict_set [of "\<lambda>(k, s). up_owner s = q" "sessions st" token s] lim(2) assms(1)
      by (cases "q = owner") (auto simp: st' upload_schedule_def owner_sessions_def s_def store_ok_def intro: order_trans)
    moreover have "length (sessions st') \<le> 16"
      using length_dict_set [of "sessions st" token s] lim(1) by (simp add: st' upload_schedule_def)
    moreover have ss: "sessions st' = dict_set (sessions st) token s" by (simp add: st' upload_schedule_def)
    moreover have "\<forall>x \<in> snd ` set (sessions st'). session_ok x"
      unfolding ss using snd_dict_set [of "sessions st" token s] sok assms(1) unfolding store_ok_def by blast
    ultimately have "store_ok st'"
      using assms(1) by (simp add: store_ok_def st' upload_schedule_def dict_set_distinct)
    then show ?thesis by (auto simp: st' upload_schedule_def s_def accepted_bytes_def)
  qed
  then show "store_ok st'"
    "r = Inr k \<Longrightarrow> k = token \<and> (\<exists>s. sessions st' = dict_set (sessions st) k s \<and> accepted_bytes s = [])"
    "r = Inl e \<Longrightarrow> st' = st" by auto
qed

lemma length_accepted: "session_ok s \<Longrightarrow> length (accepted_bytes s) = up_offset s"
  by (simp add: accepted_bytes_def session_ok_def)

lemma append_cases:
  assumes "upload_append sha io now key owner off d digest st = (r, st')"
  obtains (refused) e where "r = Inl e" "st' = st"
  | (failed) s s' e where "upload_get now key owner st = Inr s" "0 \<le> off" "off + int (length d) \<le> up_size s"
      "append_at io now off d s = (Inl e, s')" "r = Inl e" "st' = put_session key s' st"
  | (accepted) s s' where "upload_get now key owner st = Inr s" "0 \<le> off" "off + int (length d) \<le> up_size s"
      "append_at io now off d s = (Inr (), s')" "r = Inr (up_offset s')"
      "st' = put_session key (s'\<lparr>up_expires := now + SESSION_SECONDS\<rparr>) st"
  using assms by (fastforce simp: upload_append_def split: sum.splits if_splits prod.splits)

lemma same_reservation_simps [simp]:
  "same_reservation s (s'\<lparr>up_expires := x\<rparr>) = same_reservation s s'"
  "same_reservation s (s'\<lparr>up_publication := p\<rparr>) = same_reservation s s'"
  "accepted_bytes (s'\<lparr>up_expires := x\<rparr>) = accepted_bytes s'"
  "accepted_bytes (s'\<lparr>up_publication := p\<rparr>) = accepted_bytes s'"
  by (simp_all add: same_reservation_def session_ok_def accepted_bytes_def)

lemma same_reservation_refl: "session_ok s \<Longrightarrow> same_reservation s s"
  by (simp add: same_reservation_def)

lemma put_session_log:
  assumes "log_ok st lg" "logged (lg' key) (accepted_bytes s')" "\<And>k. k \<noteq> key \<Longrightarrow> lg' k = lg k"
  shows "log_ok (put_session key s' st) lg'"
  using assms by (auto simp: log_ok_def put_session_def map_of_dict_set)

lemma append_ok:
  assumes st: "store_ok st" "log_ok st lg" and r: "upload_append sha io now key owner off d digest st = (r, st')"
  shows "store_ok st' \<and> log_ok st' (case r of Inr _ \<Rightarrow> lg(key := (nat off, d) # lg key) | Inl _ \<Rightarrow> lg)"
  using r
proof (cases rule: append_cases)
  case refused
  then show ?thesis using st by simp
next
  case (failed s s' e)
  have s: "map_of (sessions st) key = Some s" using failed(1) by (simp add: upload_get_Inr)
  note A = append_at_result [OF session_of [OF st(1) s] failed(2,3,4)]
  have "logged (lg key) (accepted_bytes s')" using A(4) st(2) s by (simp add: log_ok_def)
  then show ?thesis using put_session_ok [OF st(1) s A(1)] put_session_log [OF st(2), of lg key s'] failed by simp
next
  case (accepted s s')
  have s: "map_of (sessions st) key = Some s" using accepted(1) by (simp add: upload_get_Inr)
  note ok = session_of [OF st(1) s]
  note A = append_at_result [OF ok accepted(2,3,4)]
  have l: "logged (lg key) (accepted_bytes s)" using st(2) s by (simp add: log_ok_def)
  have len: "length (accepted_bytes s) = up_offset s" "length (accepted_bytes s') = up_offset s'"
    using ok A(1) by (simp_all add: length_accepted same_reservation_def)
  have "logged ((nat off, d) # lg key) (accepted_bytes s')"
    using A(4) logged_append [OF l, of d] logged_again [of "lg key" "accepted_bytes s'" "nat off" d] l len by auto
  then show ?thesis
    using put_session_ok [OF st(1) s, of "s'\<lparr>up_expires := now + SESSION_SECONDS\<rparr>"] A(1) accepted(5,6)
      put_session_log [OF st(2), of "lg(key := (nat off, d) # lg key)" key "s'\<lparr>up_expires := now + SESSION_SECONDS\<rparr>"]
    by simp
qed

lemma claim_session_simps [simp]:
  "accepted_bytes (claim_session s) = accepted_bytes s" "session_ok (claim_session s) = session_ok s"
  "up_owner (claim_session s) = up_owner s" "up_size (claim_session s) = up_size s"
  "up_target (claim_session s) = up_target s" "up_offset (claim_session s) = up_offset s"
  "up_claimed (claim_session s)" "sf_content (up_file (claim_session s)) = sf_content (up_file s)"
  "sf_position (up_file (claim_session s)) = 0"
  by (simp_all add: claim_session_def seek_to_def accepted_bytes_def session_ok_def)

lemma map_of_map_sessions: "map_of (map (\<lambda>(k, s). (k, f k s)) d) k = map_option (f k) (map_of d k)"
  by (induction d) auto

lemma claim_ok:
  assumes "store_ok st" "log_ok st lg" "upload_claim now ks owner target st = (r, st')"
  shows "store_ok st' \<and> log_ok st' lg"
proof -
  have "\<forall>(k, s) \<in> set (sessions st). same_reservation s (if k \<in> set ks then claim_session s else s)"
    using assms(1) by (auto simp: store_ok_def same_reservation_def)
  then have "store_ok (st\<lparr>sessions := map (\<lambda>(k, s). (k, if k \<in> set ks then claim_session s else s)) (sessions st)\<rparr>)"
    by (rule map_sessions_ok [OF assms(1)])
  moreover have "log_ok (st\<lparr>sessions := map (\<lambda>(k, s). (k, if k \<in> set ks then claim_session s else s)) (sessions st)\<rparr>) lg"
    using assms(2) by (auto simp: log_ok_def map_of_map_sessions)
  ultimately show ?thesis using assms by (auto simp: upload_claim_def split: if_splits sum.splits)
qed

lemma release_log: "store_ok st \<Longrightarrow> log_ok st lg \<Longrightarrow> log_ok (upload_release ks st) lg"
  by (auto simp: log_ok_def release_lookup store_ok_def)

lemma store_ok_timer: "store_ok st \<Longrightarrow> sessions st' = sessions st \<Longrightarrow> sessions st = [] \<or> timer st' \<Longrightarrow> store_ok st'"
  by (auto simp: store_ok_def owner_sessions_def reserved_def)

lemma release_timer: "upload_release ks (st\<lparr>timer := b\<rparr>) = (upload_release ks st)\<lparr>timer := b\<rparr>"
  by (simp add: upload_release_def)

lemma sweep_ok: "store_ok st \<Longrightarrow> log_ok st lg \<Longrightarrow> store_ok (upload_sweep now st) \<and> log_ok (upload_sweep now st) lg"
proof -
  assume ok: "store_ok st" "log_ok st lg"
  define st1 where "st1 = upload_release (map fst (filter (\<lambda>(k, s). \<not> up_claimed s \<and> up_expires s \<le> now) (sessions st))) st"
  have st1: "store_ok st1" "log_ok st1 lg" unfolding st1_def using ok by (simp_all add: release_ok release_log)
  have sw: "upload_sweep now st = st1\<lparr>timer := sessions st1 \<noteq> []\<rparr>"
    by (simp add: upload_sweep_def Let_def release_timer upload_schedule_def st1_def)
  show ?thesis using st1 store_ok_timer [OF st1(1)] unfolding sw by (simp add: log_ok_def)
qed

lemma close_ok: "store_ok st \<Longrightarrow> log_ok st lg \<Longrightarrow> store_ok (upload_close st) \<and> log_ok (upload_close st) lg"
proof -
  have "sessions (upload_close st) = []" by (auto simp: upload_close_def upload_release_def filter_empty_conv rev_image_eqI)
  then show ?thesis by (simp add: store_ok_def log_ok_def owner_sessions_def reserved_def CAPACITY_BYTES_def)
qed

lemma cancel_ok:
  "store_ok st \<Longrightarrow> log_ok st lg \<Longrightarrow> upload_cancel cf now key owner st = (r, st') \<Longrightarrow> store_ok st' \<and> log_ok st' lg"
  using release_ok [of st "[key]"] release_log [of st lg "[key]"] by (auto simp: upload_cancel_def split: sum.splits)

lemma reach_ok: "upload_reach sha st lg \<Longrightarrow> store_ok st \<and> log_ok st lg"
proof (induction rule: upload_reach.induct)
  case init
  show ?case by (simp add: init_store_def store_ok_def log_ok_def owner_sessions_def reserved_def CAPACITY_BYTES_def)
next
  case (create st lg sz dp now token owner target fld filename r st')
  note C = create_ok [OF _ create.hyps(2,3)]
  show ?case
  proof (cases r)
    case (Inl e)
    then show ?thesis using create.IH C(3) by auto
  next
    case (Inr k)
    obtain s where "sessions st' = dict_set (sessions st) k s" "accepted_bytes s = []" using C(2) [OF _ Inr] create.IH by blast
    then show ?thesis using C(1) create.IH Inr by (auto simp: log_ok_def map_of_dict_set logged_Nil)
  qed
next
  case (publication st lg key s pub)
  then have "same_reservation s (s\<lparr>up_publication := pub\<rparr>)" using session_of same_reservation_refl by fastforce
  then show ?case
    using publication put_session_ok [of st key s "s\<lparr>up_publication := pub\<rparr>"]
      put_session_log [of st lg lg key "s\<lparr>up_publication := pub\<rparr>"] by (auto simp: log_ok_def)
next
  case (append st lg io now key owner off d digest r st')
  show ?case by (rule append_ok [OF _ _ append.hyps(2)]) (use append.IH in simp_all)
next
  case (claim st lg now ks owner target r st')
  show ?case by (rule claim_ok [OF _ _ claim.hyps(2)]) (use claim.IH in simp_all)
next
  case (release st lg ks)
  then show ?case by (simp add: release_ok release_log)
next
  case (cancel st lg cf now key owner r st')
  show ?case by (rule cancel_ok [OF _ _ cancel.hyps(2)]) (use cancel.IH in simp_all)
next
  case (sweep st lg now)
  then show ?case using sweep_ok by blast
next
  case (close st lg)
  then show ?case using close_ok by blast
qed

section \<open>Claimed uploads\<close>

lemma claim_result:
  assumes "upload_claim now ks owner target st = (Inr cs, st')"
  obtains ss where "distinct ks" "cs = map claim_session ss" "list_all2 (\<lambda>k s. upload_get now k owner st = Inr s) ks ss"
    "\<forall>s \<in> set ss. up_target s = target \<and> int (up_offset s) = up_size s"
    "st' = st\<lparr>sessions := map (\<lambda>(k, s). (k, if k \<in> set ks then claim_session s else s)) (sessions st)\<rparr>"
  using assms by (auto simp: upload_claim_def list_ex_iff mapE_eq_Inr split: if_splits sum.splits)

text \<open>What a claim hands over for each key.\<close>

lemma claimed_session:
  assumes "upload_reach sha st lg" "upload_claim now ks owner target st = (Inr cs, st')" "i < length ks"
  shows "up_owner (cs ! i) = owner \<and> up_target (cs ! i) = target
       \<and> int (length (sf_content (up_file (cs ! i)))) = up_size (cs ! i) \<and> sf_position (up_file (cs ! i)) = 0
       \<and> map_of (sessions st') (ks ! i) = Some (cs ! i) \<and> logged (lg (ks ! i)) (sf_content (up_file (cs ! i)))
       \<and> up_claimed (cs ! i)"
  using assms(2)
proof (cases rule: claim_result)
  case (1 ss)
  have len: "length ss = length ks" using 1(3) by (simp add: list_all2_lengthD)
  have ok: "store_ok st" "log_ok st lg" using reach_ok [OF assms(1)] by simp_all
  have s: "map_of (sessions st) (ks ! i) = Some (ss ! i)" "up_owner (ss ! i) = owner"
    using 1(3) assms(3) by (auto simp: list_all2_conv_all_nth upload_get_Inr)
  have t: "up_target (ss ! i) = target" "int (up_offset (ss ! i)) = up_size (ss ! i)"
    using 1(4) assms(3) len by auto
  have "session_ok (ss ! i)" by (rule session_of [OF ok(1) s(1)])
  then have full: "accepted_bytes (ss ! i) = sf_content (up_file (ss ! i))"
    "int (length (sf_content (up_file (ss ! i)))) = up_size (ss ! i)"
    using t(2) by (auto simp: session_ok_def accepted_bytes_def)
  have "logged (lg (ks ! i)) (sf_content (up_file (ss ! i)))" using ok(2) s(1) unfolding log_ok_def full(1) [symmetric] by blast
  then show ?thesis using s t full(2) assms(3) len by (simp add: 1(2,5) map_of_map_sessions)
qed

lemma claim_lengths:
  "upload_claim now ks owner target st = (Inr cs, st') \<Longrightarrow> length cs = length ks \<and> distinct ks"
  by (auto elim: claim_result simp: list_all2_lengthD)

text \<open>
  C7: A claim that succeeds hands over complete files only. For every claimed key the staging file is
  rewound and exactly as long as declared, the session belongs to the caller and to this destination,
  every chunk acknowledged since the session was created stands at the offset it was acknowledged for,
  every byte of the file comes from an acknowledged chunk, and the key cannot be claimed, read, extended
  or cancelled by anybody afterwards. This holds whatever writes failed half-way, whatever chunks were
  retried and however the operations of other sessions were interleaved.
\<close>

theorem claimed_upload_is_exact:
  assumes "upload_reach sha st lg" "upload_claim now ks owner target st = (Inr cs, st')"
  shows "length cs = length ks \<and> distinct ks
    \<and> (\<forall>i < length ks. let s = cs ! i; c = sf_content (up_file s) in
         up_owner s = owner \<and> up_target s = target \<and> int (length c) = up_size s \<and> sf_position (up_file s) = 0
       \<and> map_of (sessions st') (ks ! i) = Some s
       \<and> (\<forall>(off, d) \<in> set (lg (ks ! i)). off + length d \<le> length c \<and> py_slice c off (off + length d) = d)
       \<and> (\<forall>j < length c. \<exists>(off, d) \<in> set (lg (ks ! i)). off \<le> j \<and> j < off + length d)
       \<and> (\<forall>now' owner'. upload_get now' (ks ! i) owner' st'
            = Inl (UploadError 404 ''Upload expired or is unavailable. Select the file again.'')))"
proof -
  have gone: "upload_get now' (ks ! i) owner' st' = Inl (UploadError 404 ''Upload expired or is unavailable. Select the file again.'')"
    if "i < length ks" for i now' owner'
    using claimed_session [OF assms that] by (simp add: upload_get_def)
  show ?thesis
    using claimed_session [OF assms] gone claim_lengths [OF assms(2)] by (simp add: Let_def logged_def)
qed

definition sample_depot :: depot where
  "sample_depot = \<lparr> dp_symlink = False, dp_parent_is_dir = True, dp_mkdir_fails = False, dp_mode = 448,
                    dp_free = 0, dp_tempfile_fails = False \<rparr>"

text \<open>One file of three bytes: the write of the second chunk fails half-way and is sent again.\<close>

definition sample_target :: pystr where
  "sample_target = u ''/ui/management/esxi-pxe/kickstarts/upload''"

definition sample_reserved :: upload_store where
  "sample_reserved = snd (upload_create sample_depot 0 (u ''k1'') (u ''o'') sample_target (u ''kickstart_file'') (u ''a.bin'') 3 init_store)"

definition sample_append :: "write_outcome \<Rightarrow> int \<Rightarrow> int \<Rightarrow> bytes \<Rightarrow> upload_store \<Rightarrow> upload_store" where
  "sample_append io now off d st = snd (upload_append (\<lambda>_. u ''h'') io now (u ''k1'') (u ''o'') off d (u ''h'') st)"

definition sample_uploaded :: upload_store where
  "sample_uploaded = sample_append WriteOk 3 2 [3] (sample_append (WriteFails 1 False) 2 2 [3] (sample_append WriteOk 1 0 [1, 2] sample_reserved))"

lemmas sample_upload_simps = sample_uploaded_def sample_append_def sample_reserved_def upload_create_def init_store_def
  upload_append_def upload_get_def append_at_def write_chunk_def file_write_def put_session_def upload_schedule_def
  owner_sessions_def reserved_def staging_check_def CAPACITY_BYTES_def MEMORY_BYTES_def CHUNK_BYTES_def SESSION_SECONDS_def
  u_def Let_def

lemma sample_reach:
  "upload_reach (\<lambda>_. u ''h'') sample_uploaded ((\<lambda>_. [])(u ''k1'' := [(2, [3]), (0, [1, 2])]))"
proof -
  let ?sha = "\<lambda>_ :: bytes. u ''h''" and ?A = "\<lambda>io now off d. upload_append (\<lambda>_. u ''h'') io now (u ''k1'') (u ''o'') off d (u ''h'')"
  note E = surjective_pairing
  have "upload_reach ?sha sample_reserved ((\<lambda>_. [])(u ''k1'' := []))"
    using upload_reach.create [OF upload_reach.init [of ?sha], of 3 sample_depot 0 "u ''k1''" "u ''o''" "sample_target" "u ''kickstart_file''" "u ''a.bin''", OF _ E]
    by (simp add: sample_reserved_def) (simp add: sample_upload_simps)
  from upload_reach.append [OF this E [of "?A WriteOk 1 0 [1, 2] sample_reserved"]]
  have "upload_reach ?sha (sample_append WriteOk 1 0 [1, 2] sample_reserved) ((\<lambda>_. [])(u ''k1'' := [(0, [1, 2])]))"
    by (simp add: sample_append_def) (simp add: sample_upload_simps)
  from upload_reach.append [OF this E [of "?A (WriteFails 1 False) 2 2 [3] (sample_append WriteOk 1 0 [1, 2] sample_reserved)"]]
  have "upload_reach ?sha (sample_append (WriteFails 1 False) 2 2 [3] (sample_append WriteOk 1 0 [1, 2] sample_reserved)) ((\<lambda>_. [])(u ''k1'' := [(0, [1, 2])]))"
    by (simp add: sample_append_def) (simp add: sample_upload_simps)
  from upload_reach.append [OF this E [of "?A WriteOk 3 2 [3] (sample_append (WriteFails 1 False) 2 2 [3] (sample_append WriteOk 1 0 [1, 2] sample_reserved))"]]
  show ?thesis by (simp add: sample_append_def sample_uploaded_def) (simp add: sample_upload_simps)
qed

theorem claimed_upload_is_exact_witness:
  "upload_reach (\<lambda>_. u ''h'') sample_uploaded ((\<lambda>_. [])(u ''k1'' := [(2, [3]), (0, [1, 2])]))
   \<and> (\<exists>s st'. upload_claim 4 [u ''k1''] (u ''o'') sample_target sample_uploaded = (Inr [s], st')
       \<and> sf_content (up_file s) = [1, 2, 3] \<and> up_target s = sample_target \<and> int (length (sf_content (up_file s))) = up_size s)"
proof -
  obtain s st' where r: "upload_claim 4 [u ''k1''] (u ''o'') sample_target sample_uploaded = (Inr [s], st')" "sf_content (up_file s) = [1, 2, 3]"
    by (simp add: upload_claim_def claim_session_def seek_to_def) (simp add: sample_upload_simps)
  then show ?thesis using sample_reach claimed_upload_is_exact [OF sample_reach r(1)] by (auto simp: Let_def)
qed

text \<open>
  C31: In every reachable state the store holds at most 16 sessions, at most four of one browser session,
  and at most 32 GiB of reservations; every staging file stays within its reservation; and while a session
  exists the cleanup timer is armed, whose sweep leaves no unclaimed session that has expired.
\<close>

theorem upload_store_bounded:
  assumes "upload_reach sha st lg"
  shows "length (sessions st) \<le> 16 \<and> (\<forall>owner. owner_sessions st owner \<le> 4) \<and> reserved st \<le> 32 * 1024 ^ 3
    \<and> (\<forall>(k, s) \<in> set (sessions st). up_offset s \<le> length (sf_content (up_file s)) \<and> int (length (sf_content (up_file s))) \<le> up_size s)
    \<and> (sessions st \<noteq> [] \<longrightarrow> timer st)
    \<and> (\<forall>now. (\<forall>(k, s) \<in> set (sessions (upload_sweep now st)). up_claimed s \<or> now < up_expires s)
           \<and> (\<forall>k s. map_of (sessions st) k = Some s \<and> (up_claimed s \<or> now < up_expires s)
                \<longrightarrow> map_of (sessions (upload_sweep now st)) k = Some s))"
proof -
  have ok: "store_ok st" using reach_ok [OF assms] by simp
  have sweep: "sessions (upload_sweep now st) = filter (\<lambda>(k, s). k \<notin> fst ` set (filter (\<lambda>(k, s). \<not> up_claimed s \<and> up_expires s \<le> now) (sessions st))) (sessions st)" for now
    by (simp add: upload_sweep_def Let_def upload_release_def upload_schedule_def)
  have d: "distinct (map fst (sessions st))" using ok by (simp add: store_ok_def)
  have gone: "up_claimed s \<or> now < up_expires s" if "(k, s) \<in> set (sessions (upload_sweep now st))" for k s now
  proof (rule ccontr)
    assume old: "\<not> (up_claimed s \<or> now < up_expires s)"
    have "(k, s) \<in> set (filter (\<lambda>(k, s). \<not> up_claimed s \<and> up_expires s \<le> now) (sessions st))" using that old unfolding sweep by simp
    then have "k \<in> fst ` set (filter (\<lambda>(k, s). \<not> up_claimed s \<and> up_expires s \<le> now) (sessions st))" by (rule image_eqI [rotated]) simp
    then show False using that unfolding sweep by simp
  qed
  have kept: "map_of (sessions (upload_sweep now st)) k = Some s"
    if s: "map_of (sessions st) k = Some s" "up_claimed s \<or> now < up_expires s" for k s now
  proof -
    have "k \<notin> fst ` set (filter (\<lambda>(k, s). \<not> up_claimed s \<and> up_expires s \<le> now) (sessions st))"
    proof
      assume "k \<in> fst ` set (filter (\<lambda>(k, s). \<not> up_claimed s \<and> up_expires s \<le> now) (sessions st))"
      then obtain s' where s': "(k, s') \<in> set (sessions st)" "\<not> up_claimed s'" "up_expires s' \<le> now" by auto
      then show False using s map_of_is_SomeI [OF d s'(1)] by simp
    qed
    then have "(k, s) \<in> set (sessions (upload_sweep now st))" using map_of_SomeD [OF s(1)] unfolding sweep by simp
    then show ?thesis using d unfolding sweep by (simp add: map_of_eq_Some_iff distinct_map_filter)
  qed
  have "up_offset s \<le> length (sf_content (up_file s)) \<and> int (length (sf_content (up_file s))) \<le> up_size s"
    if "(k, s) \<in> set (sessions st)" for k s
    using ok that by (force simp: store_ok_def session_ok_def)
  moreover have "length (sessions st) \<le> 16 \<and> (\<forall>owner. owner_sessions st owner \<le> 4) \<and> reserved st \<le> 32 * 1024 ^ 3 \<and> (sessions st \<noteq> [] \<longrightarrow> timer st)"
    using ok by (simp add: store_ok_def CAPACITY_BYTES_def)
  ultimately show ?thesis using gone kept by blast
qed

theorem upload_store_bounded_witness:
  "upload_reach (\<lambda>_. u ''h'') sample_uploaded ((\<lambda>_. [])(u ''k1'' := [(2, [3]), (0, [1, 2])])) \<and> length (sessions sample_uploaded) \<le> 16"
  using sample_reach upload_store_bounded [OF sample_reach] by blast



end
