(* ===== verification/Chunk_Router_Thms.thy ===== *)
theory Chunk_Router_Thms
  imports Chunk_Router Chunk_Upload_Thms
begin

text \<open>
  Theorems about the upload endpoints: what a reservation guarantees, and what the wrapped endpoint is
  given at finalisation.
\<close>

section \<open>File names\<close>

text \<open>A plain entry of its directory.\<close>

definition plain_name :: "pystr \<Rightarrow> bool" where
  "plain_name s \<longleftrightarrow> s \<noteq> [] \<and> 47 \<notin> set s \<and> s \<noteq> [46] \<and> s \<noteq> [46, 46] \<and> 0 \<notin> set s"

lemma ci_alnum_plain: "ci_alnum c \<Longrightarrow> c \<notin> {0, 46, 47}"
  by (auto simp: ci_alnum_def ci_letter_def ascii_letter_def is_digit_def)

lemma ci_char_plain: "ci_char p c \<Longrightarrow> p \<notin> {0, 47} \<Longrightarrow> c \<notin> {0, 47}"
  by (auto simp: ci_char_def ascii_lower_def split: if_splits)

lemma name_chars_plain:
  assumes "list_all (\<lambda>x. P x \<or> x \<in> set w) t" "\<not> P 0" "\<not> P 47" "0 \<notin> set w" "47 \<notin> set w"
  shows "0 \<notin> set t" "47 \<notin> set t"
  using assms by (auto simp: list_all_iff)

lemma ci_alnum_not [simp]: "\<not> ci_alnum 0" "\<not> ci_alnum 47"
  using ci_alnum_plain by blast+

lemma stem_append: "n \<le> length s \<Longrightarrow> s = stem n s @ drop (length s - n) s"
  by (simp add: stem_def)

lemma plain_nameI:
  assumes "stem n s = c # t" "c \<notin> {0, 46, 47}" "0 \<notin> set t" "47 \<notin> set t"
    "0 \<notin> set (drop (length s - n) s)" "47 \<notin> set (drop (length s - n) s)" "n \<le> length s"
  shows "plain_name s"
proof -
  have "s = (c # t) @ drop (length s - n) s" using stem_append [OF assms(7)] assms(1) by simp
  then obtain r where r: "s = c # t @ r" "0 \<notin> set r" "47 \<notin> set r" using assms(5,6) by auto
  show ?thesis using assms(2-4) r by (auto simp: plain_name_def)
qed

lemma ci_endswith_plain:
  assumes "ci_endswith s p" "0 \<notin> set p" "47 \<notin> set p"
  shows "0 \<notin> set (drop (length s - length p) s)" "47 \<notin> set (drop (length s - length p) s)" "length p \<le> length s"
proof -
  have l2: "list_all2 ci_char p (drop (length s - length p) s)" and "length p \<le> length s" using assms(1) by (auto simp: ci_endswith_def)
  then show "length p \<le> length s" by simp
  have "c \<notin> {0, 47}" if "c \<in> set (drop (length s - length p) s)" for c
  proof -
    obtain j where j: "j < length (drop (length s - length p) s)" "c = drop (length s - length p) s ! j"
      using \<open>c \<in> _\<close> by (auto simp only: in_set_conv_nth)
    have l: "j < length p" "ci_char (p ! j) c" using l2 j by (simp_all add: list_all2_conv_all_nth)
    have "p ! j \<notin> {0, 47}" using nth_mem [OF l(1)] assms(2,3) by (metis empty_iff insert_iff)
    then show ?thesis by (rule ci_char_plain [OF l(2)])
  qed
  then show "0 \<notin> set (drop (length s - length p) s)" "47 \<notin> set (drop (length s - length p) s)" by auto
qed

lemma validate_ova_plain: "validate_ova_filename s \<Longrightarrow> plain_name s"
proof -
  assume v: "validate_ova_filename s"
  then obtain c t where c: "stem 4 s = c # t" "ci_alnum c" "list_all (\<lambda>x. ci_alnum x \<or> x \<in> set (u ''._-'')) t" "ci_endswith s (u ''.ova'')"
    by (auto simp: validate_ova_filename_def split: list.splits)
  note E = ci_endswith_plain [OF c(4)]
  have "0 \<notin> set t" "47 \<notin> set t" using name_chars_plain [OF c(3)] by (simp_all add: u_def)
  then show ?thesis using plain_nameI [OF c(1)] ci_alnum_plain [OF c(2)] E by (simp add: u_def eval_nat_numeral)
qed

lemma safe_iso_plain: "safe_installer_iso_name s = Inr n \<Longrightarrow> plain_name n"
proof -
  assume v: "safe_installer_iso_name s = Inr n"
  then obtain c t where c: "stem 4 n = c # t" "ci_alnum c" "list_all (\<lambda>x. ci_alnum x \<or> x \<in> set (u ''._ -'')) t" "ci_endswith n (u ''.iso'')"
    by (auto simp: safe_installer_iso_name_def Let_def split: list.splits if_splits)
  note E = ci_endswith_plain [OF c(4)]
  have "0 \<notin> set t" "47 \<notin> set t" using name_chars_plain [OF c(3)] by (simp_all add: u_def)
  then show ?thesis using plain_nameI [OF c(1)] ci_alnum_plain [OF c(2)] E by (simp add: u_def eval_nat_numeral)
qed

lemma between_plain:
  assumes "startswith n p" "length p + length q < length n" "drop (length n - length q) n = q"
  shows "n = p @ drop (length p) (stem (length q) n) @ q"
proof -
  have "n = stem (length q) n @ q" using stem_append [of "length q" n] assms(2,3) by simp
  moreover have "take (length p) (stem (length q) n) = p"
  proof -
    have "length p \<le> length n - length q" using assms(2) by linarith
    then show ?thesis using assms(1) by (simp add: startswith_take stem_def min_def)
  qed
  ultimately show ?thesis by (metis append_assoc append_take_drop_id)
qed

lemma safe_archive_plain:
  assumes "safe_archive_upload_name s = Inr n"
  shows "plain_name n"
proof -
  let ?p = "u ''vcf-download-tool-''" and ?q = "u ''.tar.gz''"
  have n: "startswith n ?p" "length ?p + length ?q < length n" "drop (length n - length ?q) n = ?q"
    "list_all (\<lambda>x. (ascii_letter x \<or> is_digit x) \<or> x \<in> set (u ''._-'')) (drop (length ?p) (stem (length ?q) n))"
    using assms unfolding safe_archive_upload_name_def Let_def disj_assoc by (metis (no_types, lifting) Inr_not_Inl sum.inject(2))+
  have mid: "0 \<notin> set (drop (length ?p) (stem (length ?q) n))" "47 \<notin> set (drop (length ?p) (stem (length ?q) n))"
    using name_chars_plain [OF n(4)] by (simp_all add: ascii_letter_def is_digit_def u_def)
  note split = between_plain [OF n(1-3)]
  have "0 \<notin> set n" "47 \<notin> set n" by (subst split, use mid in \<open>simp add: u_def\<close>)+
  then show ?thesis using n(2) by (auto simp: plain_name_def)
qed

section \<open>Reservation\<close>

lemma publication_path_plain:
  assumes "publication_path e target fld filename = Inr (Some p)"
  shows "\<exists>root name. root \<in> {SDDC_MANAGER_OVA_ROOT, ESXI_INSTALLER_ISO_ROOT, VCF_DEPOT_UPLOAD_DIR (ue_cwd e)}
    \<and> p = root @ 47 # name \<and> plain_name name"
  using assms validate_ova_plain safe_iso_plain safe_archive_plain
  by (auto simp: publication_path_def split: if_splits sum.splits)

lemma create_upload_new:
  assumes "upload_create dp now token owner target fld filename sz st = (Inr key, st')"
  obtains s where "key = token" "upload_get now token owner st' = Inr s" "up_owner s = owner" "up_target s = target"
    "up_field s = fld" "up_filename s = filename" "up_size s = sz" "accepted_bytes s = []"
proof -
  have "key = token \<and> (\<exists>s. upload_get now token owner st' = Inr s \<and> up_owner s = owner \<and> up_target s = target
    \<and> up_field s = fld \<and> up_filename s = filename \<and> up_size s = sz \<and> accepted_bytes s = [])"
    using assms
    by (auto simp: upload_create_def Let_def upload_get_Inr upload_schedule_def map_of_dict_set SESSION_SECONDS_def
        accepted_bytes_def split: if_splits sum.splits)
  then show ?thesis using that by blast
qed

lemma create_upload_steps:
  assumes "create_upload e dp now token i rq c w = (Inr (UploadCreated key off n), w')"
  obtains owner ob target fld filename sz limit pub w1 st2 s where
    "owner_of (http_request.truncate rq) c = Inr owner" "request_json e (body_chunks rq) = Inr ob"
    "declared_file ob = Inr (target, fld, filename, sz)" "policy e target fld i = Inr limit" "sz \<le> limit"
    "publication_of e target fld filename w = (Inr pub, w1)" "overwrite_confirmed e ob pub owner = Inr True"
    "upload_create dp now token owner target fld filename sz (uw_store w1) = (Inr key, st2)"
    "upload_get now key owner (st2) = Inr s" "off = 0" "n = CHUNK_BYTES"
    "uw_store w' = put_session key (s\<lparr>up_publication := pub\<rparr>) (st2)"
proof -
  obtain owner ob target fld filename sz limit pub w1 where A:
    "owner_of (http_request.truncate rq) c = Inr owner" "request_json e (body_chunks rq) = Inr ob"
    "declared_file ob = Inr (target, fld, filename, sz)" "policy e target fld i = Inr limit" "sz \<le> limit"
    "publication_of e target fld filename w = (Inr pub, w1)" "overwrite_confirmed e ob pub owner = Inr True"
    "reserve_upload dp now token owner target fld filename sz pub w1 = (Inr (UploadCreated key off n), w')"
    using assms by (auto simp: create_upload_def bindS_eq_Inr liftS_def returnS_def split: if_splits)
  obtain k w2 where B: "store_operation (upload_create dp now token owner target fld filename sz) w1 = (Inr k, w2)"
    "(case upload_get now k owner (uw_store w2) of
         Inl er \<Rightarrow> (Inl (ValueErr ''UploadError''), w2)
       | Inr s \<Rightarrow> (Inr (UploadCreated k 0 CHUNK_BYTES),
                   w2\<lparr>uw_store := put_session k (s\<lparr>up_publication := pub\<rparr>) (uw_store w2)\<rparr>)) = (Inr (UploadCreated key off n), w')"
    using A(8) by (auto simp: reserve_upload_def bindS_eq_Inr)
  obtain s where C: "upload_get now k owner (uw_store w2) = Inr s" "key = k" "off = 0" "n = CHUNK_BYTES"
    "w' = w2\<lparr>uw_store := put_session k (s\<lparr>up_publication := pub\<rparr>) (uw_store w2)\<rparr>"
    using B(2) by (auto split: sum.splits)
  have D: "upload_create dp now token owner target fld filename sz (uw_store w1) = (Inr k, uw_store w2)"
    using B(1) by (auto simp: store_operation_def split: prod.splits sum.splits)
  show ?thesis by (rule that [OF A(1-7), of "uw_store w2" s]) (use C D in simp_all)
qed

lemma publication_of_result:
  assumes "publication_of e target fld filename w = (Inr pub, w')"
  shows "uw_store w' = uw_store w" "pub = None \<longleftrightarrow> publication_path e target fld filename = Inr None"
    "pub = Some p \<Longrightarrow> publication_path e target fld filename = Inr (Some (pub_path p))"
  using assms by (auto simp: publication_of_def split: sum.splits option.splits prod.splits)

lemma overwrite_confirmedD:
  "overwrite_confirmed e ob (Some p) owner = Inr True \<Longrightarrow> pub_expected p \<noteq> None \<Longrightarrow>
   jget ob (u ''overwrite_token'') = Some (JStr (overwrite_token (ue_mac e) (ue_printable e) p owner))"
  by (auto simp: overwrite_confirmed_def compare_digest_def split: option.splits json.splits if_splits)

text \<open>
  C26: A chunked upload is reserved only for a request that passed every check: the browser session's
  CSRF token, a destination and field the caller's roles and scopes permit, and a declared size within
  the limit of that form. The session is new and empty and belongs to this browser session and this
  destination. When the form publishes a media file, its path is a plain name directly inside one of
  the three media directories, and a file that exists there is only replaced when the request carries
  the overwrite token of exactly that session, path and revision.
\<close>

theorem reservation_is_authorised:
  assumes "create_upload e dp now token i rq c w = (Inr (UploadCreated key off n), w')"
  shows "\<exists>owner ob target fld filename sz limit s.
      ck_browser_session_id c = Some owner \<and> owner \<noteq> [] \<and> ck_csrf c = Some (csrf_header rq) \<and> csrf_header rq \<noteq> []
    \<and> request_json e (body_chunks rq) = Inr ob \<and> declared_file ob = Inr (target, fld, filename, sz)
    \<and> policy_of e target fld i = (limit, True) \<and> 0 < sz \<and> sz \<le> limit
    \<and> key = token \<and> map_of (sessions (uw_store w')) key = Some s
    \<and> up_owner s = owner \<and> up_target s = target \<and> up_field s = fld \<and> up_size s = sz \<and> accepted_bytes s = []
    \<and> (\<forall>p. up_publication s = Some p \<longrightarrow>
         (\<exists>root name. root \<in> {SDDC_MANAGER_OVA_ROOT, ESXI_INSTALLER_ISO_ROOT, VCF_DEPOT_UPLOAD_DIR (ue_cwd e)}
            \<and> pub_path p = root @ 47 # name \<and> name \<noteq> [] \<and> name \<noteq> [46] \<and> name \<noteq> [46, 46] \<and> 47 \<notin> set name)
       \<and> (pub_expected p \<noteq> None \<longrightarrow>
            jget ob (u ''overwrite_token'') = Some (JStr (overwrite_token (ue_mac e) (ue_printable e) p owner))))"
proof (rule create_upload_steps [OF assms], goal_cases)
  case (1 owner ob target fld filename sz limit pub w1 st2 s)
  obtain s0 where s0: "key = token" "upload_get now token owner st2 = Inr s0" "up_owner s0 = owner" "up_target s0 = target"
    "up_field s0 = fld" "up_filename s0 = filename" "up_size s0 = sz" "accepted_bytes s0 = []"
    using create_upload_new [OF 1(8)] by blast
  have s: "s = s0" using 1(9) s0(1,2) by simp
  let ?s = "s\<lparr>up_publication := pub\<rparr>"
  have own: "ck_browser_session_id c = Some owner" "owner \<noteq> []" "ck_csrf c = Some (csrf_header rq)" "csrf_header rq \<noteq> []"
    using 1(1) by (auto simp: owner_of_def http_request.defs split: option.splits if_splits)
  have pol: "policy_of e target fld i = (limit, True)" using 1(4) by (auto simp: policy_def split: prod.splits if_splits)
  have pos: "0 < sz" using 1(3) by (auto simp: declared_file_def split: option.splits json.splits if_splits)
  have look: "map_of (sessions (uw_store w')) key = Some ?s" using 1(12) by (simp add: put_session_def map_of_dict_set)
  have pub: "\<exists>root name. root \<in> {SDDC_MANAGER_OVA_ROOT, ESXI_INSTALLER_ISO_ROOT, VCF_DEPOT_UPLOAD_DIR (ue_cwd e)}
            \<and> pub_path p = root @ 47 # name \<and> name \<noteq> [] \<and> name \<noteq> [46] \<and> name \<noteq> [46, 46] \<and> 47 \<notin> set name"
    "pub_expected p \<noteq> None \<longrightarrow>
       jget ob (u ''overwrite_token'') = Some (JStr (overwrite_token (ue_mac e) (ue_printable e) p owner))"
    if "pub = Some p" for p
    using publication_path_plain [OF publication_of_result(3) [OF 1(6) that]] overwrite_confirmedD [of e ob p owner] 1(7) that
    unfolding plain_name_def by blast+
  have "up_owner ?s = owner \<and> up_target ?s = target \<and> up_field ?s = fld \<and> up_size ?s = sz \<and> accepted_bytes ?s = []"
    using s0 by (simp add: s)
  then show ?thesis using own 1(2,3,5) pol pos s0(1) look pub by (intro exI [of _ owner] exI [of _ ob] exI [of _ target] exI [of _ fld]
        exI [of _ filename] exI [of _ sz] exI [of _ limit] exI [of _ ?s]) simp
qed

section \<open>Finalisation\<close>

lemma concat_read_chunks: "0 < n \<Longrightarrow> concat (read_chunks n b) = b"
  by (induction n b rule: read_chunks.induct) (subst read_chunks.simps, simp)

lemma release_gone: "k \<in> set ks \<Longrightarrow> map_of (sessions (upload_release ks st)) k = None"
  by (auto simp: upload_release_def map_of_eq_None_iff)

lemma check_keys_policy:
  assumes "check_keys e now owner i path st ks = Inr ()" "k \<in> set ks"
  obtains s limit where "map_of (sessions st) k = Some s" "policy e path (up_field s) i = Inr limit"
  using assms by (induction ks) (auto simp: bindE_eq_Inr upload_get_Inr split: sum.splits)

lemma policy_allowed: "policy e t f i = Inr limit \<Longrightarrow> snd (policy_of e t f i)"
  by (auto simp: policy_def split: prod.splits if_splits)

lemma finalize_checksD:
  assumes "finalize_checks e now who rq c st = Inr (owner, keys, pairs)"
  obtains i where "who = Some i" "rq_method rq = u ''POST''" "ck_browser_session_id c = Some owner" "owner \<noteq> []"
    "ck_csrf c = Some (csrf_header rq)" "csrf_header rq \<noteq> []" "check_keys e now owner i (rq_path rq) st keys = Inr ()"
  using assms
  by (auto simp: finalize_checks_def bindE_eq_Inr owner_of_def http_request.defs split: option.splits if_splits)

lemma claimed_policy:
  assumes "check_keys e now owner i path st keys = Inr ()" "upload_reach sha st' lg"
    and "\<forall>k s s'. map_of (sessions st) k = Some s \<longrightarrow> map_of (sessions st') k = Some s' \<longrightarrow> up_field s' = up_field s"
    and claim: "upload_claim now keys owner path st' = (Inr ss, st1)" and s: "s \<in> set ss"
  shows "up_owner s = owner \<and> up_target s = path \<and> snd (policy_of e path (up_field s) i)
    \<and> int (length (sf_content (up_file s))) = up_size s"
proof -
  obtain j where j: "j < length ss" "s = ss ! j" using s by (auto simp: in_set_conv_nth)
  have jk: "j < length keys" using claim_lengths [OF claim] j(1) by simp
  note C = claimed_session [OF assms(2) claim jk]
  obtain s1 limit where k: "map_of (sessions st) (keys ! j) = Some s1" "policy e path (up_field s1) i = Inr limit"
    using check_keys_policy [OF assms(1) nth_mem [OF jk]] by blast
  have "\<exists>s2. map_of (sessions st') (keys ! j) = Some s2 \<and> up_field (ss ! j) = up_field s2"
    using claim
  proof (cases rule: claim_result)
    case (1 cs)
    then have "map_of (sessions st') (keys ! j) = Some (cs ! j)" "ss ! j = claim_session (cs ! j)"
      using jk list_all2_lengthD [OF 1(3)] by (auto simp: list_all2_conv_all_nth upload_get_Inr)
    then show ?thesis by (simp add: claim_session_def seek_to_def)
  qed
  then have "up_field (ss ! j) = up_field s1" using assms(3) k(1) by metis
  then show ?thesis using C policy_allowed [OF k(2)] j(2) by simp
qed

text \<open>
  C15: The endpoint behind a chunked form runs only on files its caller uploaded for it. If finalisation
  reaches the endpoint, the request is a POST of an authenticated browser session with its CSRF token,
  every file was reserved by that session for this very path, is complete, and its field is permitted to
  the caller now; an OVA endpoint receives exactly the staged bytes, in chunks. However the endpoint ends,
  the claimed sessions are gone afterwards; otherwise the store is left alone. Between the checks and the
  claim other requests may do anything to the store that does not give an upload identifier another field.
\<close>

theorem finalisation_is_authorised:
  assumes "upload_reach sha (mid st) lg"
    and "\<forall>k s s'. map_of (sessions st) k = Some s \<longrightarrow> map_of (sessions (mid st)) k = Some s' \<longrightarrow> up_field s' = up_field s"
    and "hd_chunked rq = u ''1''" "finalize_upload e now mid original who rq c st = (r, st')"
  shows "(\<exists>er. r = Inl (Raised er) \<and> (st' = st \<or> st' = mid st))
    \<or> (\<exists>i owner keys pairs ss st1.
        who = Some i \<and> rq_method rq = u ''POST'' \<and> ck_browser_session_id c = Some owner \<and> owner \<noteq> []
      \<and> ck_csrf c = Some (csrf_header rq) \<and> csrf_header rq \<noteq> []
      \<and> upload_claim now keys owner (rq_path rq) (mid st) = (Inr ss, st1)
      \<and> (\<forall>s \<in> set ss. up_owner s = owner \<and> up_target s = rq_path rq \<and> snd (policy_of e (rq_path rq) (up_field s) i)
           \<and> int (length (sf_content (up_file s))) = up_size s)
      \<and> (case staged_input (rq_path rq) pairs ss of
           Inl er \<Rightarrow> r = Inl (Raised er)
         | Inr inp \<Rightarrow> (fst (original inp st1) \<noteq> Inl RaisedConflict \<longrightarrow> r = fst (original inp st1))
             \<and> (\<forall>chunks name pub. inp = StagedStream chunks name pub \<longrightarrow> concat chunks = sf_content (up_file (hd ss))))
      \<and> (\<forall>k \<in> set keys. map_of (sessions st') k = None))"
proof (cases "finalize_checks e now who rq c st")
  case (Inl er)
  then show ?thesis using assms(3,4) by (auto simp: finalize_upload_def)
next
  case (Inr x)
  obtain owner keys pairs where x: "x = (owner, keys, pairs)" by (cases x)
  obtain i where C: "who = Some i" "rq_method rq = u ''POST''" "ck_browser_session_id c = Some owner" "owner \<noteq> []"
    "ck_csrf c = Some (csrf_header rq)" "csrf_header rq \<noteq> []" "check_keys e now owner i (rq_path rq) st keys = Inr ()"
    using finalize_checksD [OF Inr [unfolded x]] by blast
  obtain cr st1 where claim: "upload_claim now keys owner (rq_path rq) (mid st) = (cr, st1)" by (cases "upload_claim now keys owner (rq_path rq) (mid st)")
  show ?thesis
  proof (cases cr)
    case bad: (Inl er)
    have "st1 = mid st" using claim bad by (auto simp: upload_claim_def split: if_splits sum.splits)
    then show ?thesis using assms(3,4) Inr claim bad by (auto simp: finalize_upload_def x)
  next
    case good: (Inr ss)
    have run: "run_endpoint original (staged_input (rq_path rq) pairs ss) keys st1 = (r, st')"
      using assms(3,4) Inr claim good by (simp add: finalize_upload_def x)
    have P: "\<forall>s \<in> set ss. up_owner s = owner \<and> up_target s = rq_path rq \<and> snd (policy_of e (rq_path rq) (up_field s) i)
           \<and> int (length (sf_content (up_file s))) = up_size s"
      using claimed_policy [OF C(7) assms(1,2)] claim good by blast
    have gone: "\<forall>k \<in> set keys. map_of (sessions st') k = None"
      using run by (auto simp: run_endpoint_def release_gone split: sum.splits prod.splits endpoint_error.splits)
    have res: "case staged_input (rq_path rq) pairs ss of
           Inl er \<Rightarrow> r = Inl (Raised er)
         | Inr inp \<Rightarrow> (fst (original inp st1) \<noteq> Inl RaisedConflict \<longrightarrow> r = fst (original inp st1))
             \<and> (\<forall>chunks name pub. inp = StagedStream chunks name pub \<longrightarrow> concat chunks = sf_content (up_file (hd ss)))"
    proof (cases "staged_input (rq_path rq) pairs ss")
      case (Inl er)
      then show ?thesis using run by (simp add: run_endpoint_def)
    next
      case (Inr inp)
      have "concat chunks = sf_content (up_file (hd ss))" if "inp = StagedStream chunks name pub" for chunks name pub
        using Inr that concat_read_chunks [of CHUNK_BYTES]
        by (auto simp: staged_input_def Let_def bindE_eq_Inr CHUNK_BYTES_def split: if_splits)
      moreover have "r = fst (original inp st1)" if "fst (original inp st1) \<noteq> Inl RaisedConflict"
        using run Inr that by (auto simp: run_endpoint_def split: sum.splits prod.splits endpoint_error.splits)
      ultimately show ?thesis using Inr by simp
    qed
    show ?thesis using C(1-6) claim good P res gone by (intro disjI2 exI [of _ i] exI [of _ owner] exI [of _ keys] exI [of _ pairs]
          exI [of _ ss] exI [of _ st1]) simp
  qed
qed

section \<open>A kickstart file\<close>

definition sample_identity :: identity where
  "sample_identity = \<lparr> id_username = u ''op'', id_roles = [u ''admin''], id_role = u ''admin'', id_scopes = {u ''admin:all''},
     id_user_id = Some 1, id_token_id = None, id_token_jti = None, auth_type = ''session'' \<rparr>"

definition sample_env :: "object \<Rightarrow> upload_env" where
  "sample_env ob = \<lparr> ue_loads = (\<lambda>_. Some (JObj ob)), ue_sha256 = (\<lambda>_. u ''h''), ue_mac = id, ue_printable = (\<lambda>_. True),
     ue_iso_max = 1, ue_cwd = u ''/srv'' \<rparr>"

definition sample_request :: upload_request where
  "sample_request = \<lparr> rq_method = u ''POST'', rq_path = sample_target, sec_fetch_mode = [], accept_header = [], csrf_header = u ''t'',
     hd_upload_id = [], hd_upload_offset = [], hd_chunk_sha256 = [], hd_chunked = u ''1'', body_chunks = [[1]] \<rparr>"

definition sample_cookie :: cookie where
  "sample_cookie = empty_cookie\<lparr>ck_browser_session_id := Some (u ''o''), ck_csrf := Some (u ''t'')\<rparr>"

definition sample_declaration :: object where
  "sample_declaration = [(u ''target'', JStr sample_target), (u ''field'', JStr (u ''kickstart_file'')),
     (u ''filename'', JStr (u ''ks.cfg'')), (u ''size'', JInt 3)]"

lemma sample_policy: "policy_of (sample_env ob) sample_target (u ''kickstart_file'') sample_identity = (MIB, True)"
  by (simp add: policy_of_def Let_def sample_target_def MANAGEMENT_UI_ROOT_def startswith_take removeprefix_def u_def
      can_def sample_identity_def)

lemma sample_owner: "owner_of (http_request.truncate sample_request) sample_cookie = Inr (u ''o'')"
  by (simp add: owner_of_def sample_cookie_def sample_request_def empty_cookie_def http_request.defs)

lemma sample_json: "request_json (sample_env ob) (body_chunks sample_request) = Inr ob"
  by (simp add: request_json_def request_body_def sample_request_def sample_env_def)

lemma sample_declared: "declared_file sample_declaration = Inr (sample_target, u ''kickstart_file'', u ''ks.cfg'', 3)"
  by (simp add: declared_file_def sample_declaration_def jget_def bad_filename_def u_def)

lemma sample_path: "publication_path (sample_env ob) sample_target (u ''kickstart_file'') f = Inr None"
  by (simp add: publication_path_def endswith_def sample_target_def u_def)

theorem reservation_is_authorised_witness:
  "\<exists>w'. create_upload (sample_env sample_declaration) sample_depot 0 (u ''k'') sample_identity sample_request sample_cookie
       \<lparr> uw_store = init_store, uw_fs = demo_fs \<rparr> = (Inr (UploadCreated (u ''k'') 0 CHUNK_BYTES), w')
     \<and> (\<exists>s. map_of (sessions (uw_store w')) (u ''k'') = Some s \<and> up_size s = 3)"
proof -
  have "\<exists>w'. create_upload (sample_env sample_declaration) sample_depot 0 (u ''k'') sample_identity sample_request sample_cookie
       \<lparr> uw_store = init_store, uw_fs = demo_fs \<rparr> = (Inr (UploadCreated (u ''k'') 0 CHUNK_BYTES), w')"
    by (simp add: create_upload_def sample_owner sample_json sample_declared policy_def sample_policy MIB_def publication_of_def
        sample_path bindS_def [where m = "publication_of _ _ _ _"] overwrite_confirmed_def reserve_upload_def
        bindS_def [where m = "store_operation _"] store_operation_def upload_create_def staging_check_def upload_get_def
        init_store_def owner_sessions_def reserved_def CAPACITY_BYTES_def MEMORY_BYTES_def upload_schedule_def SESSION_SECONDS_def Let_def)
  then obtain w' where w: "create_upload (sample_env sample_declaration) sample_depot 0 (u ''k'') sample_identity sample_request sample_cookie
       \<lparr> uw_store = init_store, uw_fs = demo_fs \<rparr> = (Inr (UploadCreated (u ''k'') 0 CHUNK_BYTES), w')" by blast
  show ?thesis using w reservation_is_authorised [OF w] sample_json sample_declared by auto
qed

definition sample_envelope :: object where
  "sample_envelope = [(u ''files'', JArr [JStr (u ''k1'')])]"

lemma sample_checks:
  "finalize_checks (sample_env sample_envelope) 4 (Some sample_identity) sample_request sample_cookie sample_uploaded
   = Inr (u ''o'', [u ''k1''], [])"
proof -
  have s: "\<exists>s. upload_get 4 (u ''k1'') (u ''o'') sample_uploaded = Inr s \<and> up_field s = u ''kickstart_file''"
    by (simp add: sample_upload_simps)
  have e: "finalize_envelope sample_envelope = Inr ([u ''k1''], [])"
    by (simp add: finalize_envelope_def sample_envelope_def jget_def)
  have m: "rq_method sample_request = u ''POST''" "rq_path sample_request = sample_target" by (simp_all add: sample_request_def)
  show ?thesis
    using s by (auto simp: finalize_checks_def m sample_owner sample_json e policy_def sample_policy MIB_def)
qed

theorem finalisation_is_authorised_witness:
  "upload_reach (\<lambda>_. u ''h'') (id sample_uploaded) ((\<lambda>_. [])(u ''k1'' := [(2, [3]), (0, [1, 2])]))
   \<and> (\<exists>st'. finalize_upload (sample_env sample_envelope) 4 id (\<lambda>inp st. (Inr (inp \<noteq> PlainRequest), st))
          (Some sample_identity) sample_request sample_cookie sample_uploaded = (Inr True, st')
        \<and> (\<exists>keys owner ss st1. upload_claim 4 keys owner sample_target sample_uploaded = (Inr ss, st1)
             \<and> (\<forall>s \<in> set ss. int (length (sf_content (up_file s))) = up_size s)
             \<and> (\<forall>k \<in> set keys. map_of (sessions st') k = None)))"
proof -
  define fin where "fin = finalize_upload (sample_env sample_envelope) 4 id (\<lambda>inp st. (Inr (inp \<noteq> PlainRequest), st))
          (Some sample_identity) sample_request sample_cookie sample_uploaded"
  have reach: "upload_reach (\<lambda>_. u ''h'') (id sample_uploaded) ((\<lambda>_. [])(u ''k1'' := [(2, [3]), (0, [1, 2])]))"
    using sample_reach by simp
  obtain s st1 where claim: "upload_claim 4 [u ''k1''] (u ''o'') sample_target sample_uploaded = (Inr [s], st1)" "up_publication s = None"
    by (simp add: upload_claim_def) (simp add: sample_upload_simps claim_session_def seek_to_def)
  have inp: "staged_input sample_target [] [s] = Inr (StagedForm [] [s] None)"
    using claim(2) by (simp add: staged_input_def map_filter_simps endswith_def sample_target_def u_def)
  have m: "rq_path sample_request = sample_target" "hd_chunked sample_request = u ''1''" by (simp_all add: sample_request_def)
  have fin: "fin = (Inr True, upload_release [u ''k1''] st1)"
    by (simp add: fin_def finalize_upload_def m sample_checks claim inp run_endpoint_def)
  then have run: "finalize_upload (sample_env sample_envelope) 4 id (\<lambda>inp st. (Inr (inp \<noteq> PlainRequest), st))
          (Some sample_identity) sample_request sample_cookie sample_uploaded = (Inr True, upload_release [u ''k1''] st1)"
    by (simp add: fin_def)
  have same: "\<forall>k s s'. map_of (sessions sample_uploaded) k = Some s \<longrightarrow> map_of (sessions (id sample_uploaded)) k = Some s' \<longrightarrow> up_field s' = up_field s"
    by simp
  show ?thesis using reach run finalisation_is_authorised [OF reach same m(2) run] unfolding m(1) id_apply by blast
qed

end
