(* ===== verification/Task_Cancellation.thy ===== *)
theory Task_Cancellation
  imports Security "HOL-Library.List_Lexorder" "HOL-Library.Product_Lexorder"
begin

text \<open>
  \<open>src/atlaso/app/services/task_cancellation.py\<close>, with \<open>claim_next_job\<close> of \<open>src/atlaso/app/worker.py\<close>: who may
  stop a background task, the durable request, and its disposition. The state is the committed tables
  and the pending ones of the running session (sessions neither flush by themselves nor expire their
  objects at a commit). What other sessions commit between two statements of a request is an argument:
  \<open>mid\<close> maps the committed tables to later ones. The clean-up of an upload's staging directory is an
  outcome given as an argument. Times are instants in microseconds.
\<close>

section \<open>Tables\<close>

datatype job_status = PENDING | RUNNING | SUCCEEDED | FAILED | SKIPPED | CANCELLED

fun status_text :: "job_status \<Rightarrow> string" where
  "status_text PENDING = ''pending''"
| "status_text RUNNING = ''running''"
| "status_text SUCCEEDED = ''succeeded''"
| "status_text FAILED = ''failed''"
| "status_text SKIPPED = ''skipped''"
| "status_text CANCELLED = ''cancelled''"

record job =
  jb_id :: pystr
  jb_type :: pystr
  jb_status :: job_status
  jb_created_at :: int
  jb_started_at :: "int option"
  jb_finished_at :: "int option"
  jb_progress :: int
  jb_result :: "pystr option"
  jb_error :: "pystr option"
  jb_config :: pystr
  jb_requested_at :: "int option"
  jb_requested_by :: "pystr option"
  jb_completed_at :: "int option"
  jb_outcome :: "string option"
  jb_boot_source :: "pystr option"
  jb_profile_id :: "int option"
  jb_vcf_operation :: bool

record job_step =
  sp_job_id :: pystr
  sp_status :: job_status
  sp_progress :: int
  sp_finished_at :: "int option"
  sp_result :: "pystr option"
  sp_error :: "pystr option"

record depot_profile =
  pf_id :: int
  pf_status :: pystr
  pf_updated_at :: int

record task_audit =
  ta_actor :: pystr
  ta_action :: string
  ta_job :: pystr
  ta_success :: bool
  ta_detail :: string

record task_tables =
  jobs :: "job list"
  job_steps :: "job_step list"
  profiles :: "depot_profile list"
  task_audits :: "task_audit list"

record task_db =
  tk_work :: task_tables
  tk_disk :: task_tables

datatype task_error = CancellationError nat string | TaskTypeError | TaskValueError | JobGone

type_synonym 'a task_prog = "(task_db, task_error, 'a) prog"

record cancel_env =
  ce_float :: "pystr \<Rightarrow> json"
  ce_float_repr :: "rat \<Rightarrow> pystr"
  ce_int_text :: "pystr \<Rightarrow> int option"
  ce_isoformat :: "int \<Rightarrow> pystr"

definition change_tasks :: "(task_tables \<Rightarrow> task_tables) \<Rightarrow> unit task_prog" where
  "change_tasks f = modifyS (\<lambda>s. s\<lparr>tk_work := f (tk_work s)\<rparr>)"

definition commit_tasks :: "unit task_prog" where
  "commit_tasks = modifyS (\<lambda>s. s\<lparr>tk_disk := tk_work s\<rparr>)"

definition rollback_tasks :: "unit task_prog" where
  "rollback_tasks = modifyS (\<lambda>s. s\<lparr>tk_work := tk_disk s\<rparr>)"

text \<open>Other sessions commit while this one has nothing pending.\<close>

definition interfere :: "(task_tables \<Rightarrow> task_tables) \<Rightarrow> unit task_prog" where
  "interfere mid = modifyS (\<lambda>s. \<lparr> tk_work = mid (tk_disk s), tk_disk = mid (tk_disk s) \<rparr>)"

definition job_by_id :: "pystr \<Rightarrow> task_tables \<Rightarrow> job option" where
  "job_by_id k t = List.find (\<lambda>j. jb_id j = k) (jobs t)"

definition change_job :: "pystr \<Rightarrow> (job \<Rightarrow> job) \<Rightarrow> task_tables \<Rightarrow> task_tables" where
  "change_job k f t = t\<lparr>jobs := map (\<lambda>j. if jb_id j = k then f j else j) (jobs t)\<rparr>"

definition refresh_job :: "pystr \<Rightarrow> job task_prog" where
  "refresh_job k s = (case job_by_id k (tk_work s) of None \<Rightarrow> (Inl JobGone, s) | Some j \<Rightarrow> (Inr j, s))"

section \<open>Who may stop what\<close>

definition ACTIVE :: "job_status set" where "ACTIVE = {PENDING, RUNNING}"

definition PENDING_TYPES :: "pystr set" where
  "PENDING_TYPES = u ` {''appliance-apply'', ''appliance-update'', ''vcf-depot-download'', ''managed-script'',
     ''pxe-media-sync'', ''diagnostic-bundle'', ''manual-placeholder''}"

definition SERVICE_ADMIN_TYPES :: "pystr set" where "SERVICE_ADMIN_TYPES = {u ''pxe-media-sync''}"

definition UPDATE_STREAM_LABELS :: "(pystr \<times> string) list" where
  "UPDATE_STREAM_LABELS = [(u ''photon_os'', ''Photon OS''), (u ''powershell_modules'', ''PowerShell Modules''),
     (u ''atlaso_release'', ''Atlaso Release'')]"

definition payload :: "cancel_env \<Rightarrow> pystr option \<Rightarrow> object" where
  "payload e v = (case json_loads (ce_float e) (case v of None \<Rightarrow> u ''{}'' | Some s \<Rightarrow> if s = [] then u ''{}'' else s) of
     Some (JObj ob) \<Rightarrow> ob | _ \<Rightarrow> [])"

definition authorized :: "job \<Rightarrow> identity \<Rightarrow> bool \<Rightarrow> bool" where
  "authorized j i api \<longleftrightarrow>
     (if api then can i (u ''admin:all'')
      else has_role i (u ''admin'') \<or> has_role i (u ''service-admin'') \<and> jb_type j \<in> SERVICE_ADMIN_TYPES)"

record cancellation_capability =
  can_cancel :: bool
  cap_reason :: string
  cap_confirmation :: string

definition refused :: "string \<Rightarrow> cancellation_capability" where
  "refused r = \<lparr> can_cancel = False, cap_reason = r, cap_confirmation = '''' \<rparr>"

definition allowed_cap :: "string \<Rightarrow> string \<Rightarrow> cancellation_capability" where
  "allowed_cap r c = \<lparr> can_cancel = True, cap_reason = r, cap_confirmation = c \<rparr>"

definition type_reasons :: "(string \<times> string) list" where
  "type_reasons =
    [(''appliance-update'', ''Running installation or repository synchronization has no safe interruption contract.''),
     (''managed-script'', ''Running scripts may mutate local or remote systems; terminating the watcher cannot undo their work.''),
     (''vcf-depot-download'', ''The running VCFDT process has no verified task-owned stop and cleanup contract.''),
     (''vcf-depot-software-id'', ''VCFDT identity replacement must finish under its existing operation owner.''),
     (''vcf-sddc-manager-deploy'', ''Remote deployment can continue after its local watcher stops.''),
     (''vcf-offline-depot-target-config'', ''Remote configuration has no verified cancellation and rollback boundary.''),
     (''vcf-ca-trust'', ''Remote trust changes cannot be safely undone by stopping the local watcher.''),
     (''pxe-media-sync'', ''Running media deletion or an unrecognized media mode cannot be cancelled.'')]"

definition type_reason :: "pystr \<Rightarrow> string" where
  "type_reason t = (case List.find (\<lambda>(k, r). u k = t) type_reasons of
     Some (k, r) \<Rightarrow> r | None \<Rightarrow> ''This task type has no registered safe cancellation contract.'')"

text \<open>A recognised, non-empty list of update streams.\<close>

definition known_streams :: "json option \<Rightarrow> bool" where
  "known_streams v = (case v of
     Some (JArr xs) \<Rightarrow> xs \<noteq> [] \<and> list_all (\<lambda>x. case x of JStr t \<Rightarrow> t \<in> fst ` set UPDATE_STREAM_LABELS | _ \<Rightarrow> False) xs
   | _ \<Rightarrow> False)"

text \<open>\<open>value in {"download", "upload"}\<close>: a list or a dictionary raises.\<close>

definition media_source :: "json option \<Rightarrow> task_error + bool" where
  "media_source v = (case v of
     None \<Rightarrow> Inr False
   | Some j \<Rightarrow> if hashable j then Inr (j \<in> {JStr (u ''download''), JStr (u ''upload'')}) else Inl TaskTypeError)"

text \<open>The contract of a task that is active, not requested yet and not pending.\<close>

definition running_capability :: "cancel_env \<Rightarrow> job \<Rightarrow> task_error + cancellation_capability" where
  "running_capability e j =
     (let config = payload e (Some (jb_config j))
      in if jb_type j = u ''appliance-update'' \<and> jget config (u ''mode'') = Some (JStr (u ''check''))
         then Inr (if known_streams (jget config (u ''selected_streams''))
                   then allowed_cap ''Stops after the current bounded check and credential cleanup.''
                     ''Request cancellation after the current check stops and cleans up? Remaining checks will be skipped; the current check can take up to six minutes to stop.''
                   else refused ''Check ownership metadata is incomplete; cancellation cannot be verified.'')
         else if jb_type j = u ''appliance-apply''
         then Inr (allowed_cap ''Stops between components; completed changes remain applied.''
                ''Finish the current component and its cleanup, then skip remaining components? Already applied changes are retained.'')
         else if jb_type j = u ''diagnostic-bundle''
         then Inr (refused ''Running diagnostics has no verified descendant-process stop contract; collection must finish under its bounded owner.'')
         else if jb_type j = u ''pxe-media-sync''
         then bindE (media_source (case jget config (u ''source'') of
                Some v \<Rightarrow> Some v | None \<Rightarrow> map_option JStr (jb_boot_source j))) (\<lambda>staged.
              Inr (if staged
                   then allowed_cap ''Stops staged media work before committing the new version.''
                     ''Stop staged media work and restore the previous cache version? Cancellation waits for the current bounded transfer or extraction checkpoint and cleanup.''
                   else refused (type_reason (jb_type j))))
         else Inr (refused (type_reason (jb_type j))))"

definition capability :: "cancel_env \<Rightarrow> job \<Rightarrow> identity option \<Rightarrow> bool \<Rightarrow> task_error + cancellation_capability" where
  "capability e j who api =
     (if (case who of Some i \<Rightarrow> \<not> authorized j i api | None \<Rightarrow> False)
      then Inr (refused ''You do not have permission to cancel this task.'')
      else if jb_status j \<notin> ACTIVE then Inr (refused ''Task is already finished.'')
      else if jb_requested_at j \<noteq> None
      then Inr (refused (if jb_outcome j = Some ''cleanup-required''
             then ''Cancellation cleanup needs attention; the task has not been confirmed stopped.''
             else ''Cancellation requested; waiting for a safe stop and cleanup.''))
      else if truthy (get_or (payload e (jb_result j)) ''ownership_unresolved'' JNull)
      then Inr (refused ''Helper ownership is unresolved; recovery must verify cleanup first.'')
      else if jb_status j = PENDING \<and> jb_type j \<in> PENDING_TYPES
      then Inr (allowed_cap ''Queued task has not been claimed.''
             ''Prevent this queued task from starting and remove its owned staging, if any?'')
      else running_capability e j)"

section \<open>Stopping a task\<close>

text \<open>\<open>json.dumps\<close> with the default separators.\<close>

fun dumps_value :: "(rat \<Rightarrow> pystr) \<Rightarrow> json \<Rightarrow> pystr"
  and dumps_items :: "(rat \<Rightarrow> pystr) \<Rightarrow> json list \<Rightarrow> pystr"
  and dumps_members :: "(rat \<Rightarrow> pystr) \<Rightarrow> object \<Rightarrow> pystr"
where
  "dumps_value fr (JArr xs) = 91 # dumps_items fr xs @ [93]"
| "dumps_value fr (JObj ms) = 123 # dumps_members fr ms @ [125]"
| "dumps_value fr JNull = render fr JNull"
| "dumps_value fr (JBool b) = render fr (JBool b)"
| "dumps_value fr (JInt i) = render fr (JInt i)"
| "dumps_value fr (JFloat q) = render fr (JFloat q)"
| "dumps_value fr JNonFinite = render fr JNonFinite"
| "dumps_value fr (JStr t) = render fr (JStr t)"
| "dumps_items fr [] = []"
| "dumps_items fr (x # xs) = dumps_value fr x @ (if xs = [] then [] else [44, 32] @ dumps_items fr xs)"
| "dumps_members fr [] = []"
| "dumps_members fr ((k, v) # ms) =
     render_str k @ [58, 32] @ dumps_value fr v @ (if ms = [] then [] else [44, 32] @ dumps_members fr ms)"

definition add_task_audit :: "job \<Rightarrow> string \<Rightarrow> string \<Rightarrow> bool \<Rightarrow> unit task_prog" where
  "add_task_audit j act detail success =
     (let actor = (case jb_requested_by j of Some a \<Rightarrow> if a = [] then u ''system'' else a | None \<Rightarrow> u ''system'')
      in change_tasks (task_audits_update (\<lambda>l. l @ [\<lparr> ta_actor = actor, ta_action = act, ta_job = jb_id j,
           ta_success = success, ta_detail = detail \<rparr>])))"

definition stopped_state :: "cancel_env \<Rightarrow> int \<Rightarrow> job \<Rightarrow> object" where
  "stopped_state e now j =
     (let st = filter (\<lambda>(k, v). k \<noteq> u ''ownership_unresolved'') (payload e (jb_result j));
          st1 = dict_set st (u ''state'') (JStr (u ''cancelled''));
          st2 = dict_set st1 (u ''cancelled_by'') (case jb_requested_by j of Some a \<Rightarrow> JStr a | None \<Rightarrow> JNull);
          st3 = dict_set st2 (u ''cancelled_at'') (JStr (ce_isoformat e now))
      in if jb_type j = u ''diagnostic-bundle'' then dict_set st3 (u ''bundle_status'') (JStr (u ''cancelled'')) else st3)"

definition stopped_job :: "cancel_env \<Rightarrow> int \<Rightarrow> job \<Rightarrow> job" where
  "stopped_job e now j = j\<lparr>jb_status := CANCELLED, jb_finished_at := Some now, jb_progress := 100,
     jb_error := Some (u ''Task stopped after operator cancellation and verified cleanup.''),
     jb_result := Some (dumps_value (ce_float_repr e) (sort_keys (JObj (stopped_state e now j)))),
     jb_completed_at := Some now, jb_outcome := Some ''confirmed''\<rparr>"

definition stopped_step :: "cancel_env \<Rightarrow> int \<Rightarrow> job_step \<Rightarrow> job_step" where
  "stopped_step e now sp =
     (let status = (if sp_status sp = PENDING then SKIPPED else CANCELLED)
      in sp\<lparr>sp_status := status, sp_finished_at := Some now, sp_progress := 100,
           sp_error := Some (u ''Not continued after the parent's verified cancellation.''),
           sp_result := Some (dumps_value (ce_float_repr e) (JObj [(u ''status'', JStr (u (status_text status))),
             (u ''success'', JBool False), (u ''reason'', JStr (u ''parent_cancelled''))]))\<rparr>)"

definition stop_steps :: "cancel_env \<Rightarrow> int \<Rightarrow> pystr \<Rightarrow> task_tables \<Rightarrow> task_tables" where
  "stop_steps e now k t = t\<lparr>job_steps := map (\<lambda>sp. if sp_job_id sp = k \<and> sp_status sp \<in> ACTIVE
     then stopped_step e now sp else sp) (job_steps t)\<rparr>"

text \<open>\<open>finish_stop\<close> on the refreshed object \<open>j\<close>; it returns whether the task was stopped.\<close>

definition finish_stop :: "cancel_env \<Rightarrow> int \<Rightarrow> job \<Rightarrow> string \<Rightarrow> bool task_prog" where
  "finish_stop e now j detail =
     (if jb_status j \<notin> ACTIVE \<or> jb_requested_at j = None then returnS False
      else bindS (change_tasks (change_job (jb_id j) (\<lambda>_. stopped_job e now j))) (\<lambda>_.
           bindS (change_tasks (stop_steps e now (jb_id j))) (\<lambda>_.
           bindS (add_task_audit j ''confirm_cancel_task'' detail True) (\<lambda>_. returnS True))))"

text \<open>\<open>int(value)\<close> of a JSON value.\<close>

definition json_int :: "cancel_env \<Rightarrow> json \<Rightarrow> task_error + int" where
  "json_int e v = (case v of
     JInt i \<Rightarrow> Inr i
   | JBool b \<Rightarrow> Inr (if b then 1 else 0)
   | JFloat q \<Rightarrow> Inr (if q < 0 then - \<lfloor>- q\<rfloor> else \<lfloor>q\<rfloor>)
   | JNonFinite \<Rightarrow> Inl TaskValueError
   | JStr t \<Rightarrow> (case ce_int_text e t of Some i \<Rightarrow> Inr i | None \<Rightarrow> Inl TaskValueError)
   | _ \<Rightarrow> Inl TaskTypeError)"

definition restored_status :: "object \<Rightarrow> pystr" where
  "restored_status st = (case get_or st ''profile_status_before_enqueue'' (JStr (u ''planned'')) of
     JStr t \<Rightarrow> if t \<in> {u ''planned'', u ''synced'', u ''blocked''} then t else u ''planned''
   | _ \<Rightarrow> u ''planned'')"

definition restore_profile :: "cancel_env \<Rightarrow> int \<Rightarrow> job \<Rightarrow> unit task_prog" where
  "restore_profile e now j =
     (let st = payload e (jb_result j)
      in bindS (liftS (case jb_profile_id j of
             Some p \<Rightarrow> if p \<noteq> 0 then Inr p else json_int e (get_or st ''profile_id'' (JInt 0))
           | None \<Rightarrow> json_int e (get_or st ''profile_id'' (JInt 0)))) (\<lambda>pid.
         change_tasks (profiles_update (map (\<lambda>p. if pf_id p = pid \<and> pf_status p = u ''ready''
           then p\<lparr>pf_status := restored_status st, pf_updated_at := now\<rparr> else p)))))"

text \<open>
  \<open>finish_pending\<close>: its first statement finds the row still pending and requested, or the session is
  rolled back. \<open>cleanup_ok\<close> is the outcome of \<open>cleanup_network_boot_upload\<close>. It returns the session's object.
\<close>

definition pending_request :: "job \<Rightarrow> bool" where
  "pending_request j \<longleftrightarrow> jb_status j = PENDING \<and> jb_requested_at j \<noteq> None"

definition cleanup_failed :: "job \<Rightarrow> job" where
  "cleanup_failed j = j\<lparr>jb_outcome := Some ''cleanup-required'',
     jb_error := Some (u ''Cancellation staging cleanup failed; task remains unclaimed.'')\<rparr>"

definition finish_pending :: "cancel_env \<Rightarrow> int \<Rightarrow> bool \<Rightarrow> pystr \<Rightarrow> job task_prog" where
  "finish_pending e now cleanup_ok k =
     bindS (refresh_job k) (\<lambda>j.
     if \<not> pending_request j then bindS rollback_tasks (\<lambda>_. returnS j)
     else if jb_type j \<notin> PENDING_TYPES
     then raiseS (CancellationError 409 ''This pending cancellation requires its execution owner.'')
     else if jb_type j = u ''pxe-media-sync'' \<and> jget (payload e (Some (jb_config j))) (u ''source'') = Some (JStr (u ''upload''))
             \<and> \<not> cleanup_ok
     then bindS (change_tasks (change_job k (\<lambda>_. cleanup_failed j))) (\<lambda>_.
          bindS (add_task_audit j ''cancel_task_cleanup_failed'' ''Owned upload staging could not be released.'' False) (\<lambda>_.
          bindS commit_tasks (\<lambda>_.
          raiseS (CancellationError 409 ''Cancellation staging cleanup failed; task remains unclaimed.''))))
     else bindS (if jb_type j = u ''vcf-depot-download'' then restore_profile e now j else returnS ()) (\<lambda>_.
          bindS (finish_stop e now j ''Pending claim was reserved; no worker started and owned staging was released.'') (\<lambda>_.
          bindS commit_tasks (\<lambda>_. refresh_job k))))"

section \<open>Requests\<close>

text \<open>
  The conditional update: it takes effect on the row whose type, status, configuration and result are
  still those that were judged, and that nobody has requested to stop.
\<close>

definition same_judged :: "job \<Rightarrow> job \<Rightarrow> bool" where
  "same_judged j j' \<longleftrightarrow> jb_type j' = jb_type j \<and> jb_status j' = jb_status j \<and> jb_config j' = jb_config j
     \<and> jb_result j' = jb_result j \<and> jb_requested_at j' = None"

definition reserve_request :: "int \<Rightarrow> job \<Rightarrow> identity \<Rightarrow> bool task_prog" where
  "reserve_request now j i s = (case job_by_id (jb_id j) (tk_work s) of
     None \<Rightarrow> (Inr False, s)
   | Some j' \<Rightarrow>
       if same_judged j j'
       then (Inr True, s\<lparr>tk_work := change_job (jb_id j) (\<lambda>r. r\<lparr>jb_requested_at := Some now, jb_requested_by := Some (id_username i),
               jb_outcome := Some ''requested''\<rparr>) (tk_work s)\<rparr>)
       else (Inr False, s))"

definition finish_if_pending :: "cancel_env \<Rightarrow> int \<Rightarrow> bool \<Rightarrow> job \<Rightarrow> job task_prog" where
  "finish_if_pending e now cleanup_ok j =
     (if jb_status j = PENDING \<and> jb_type j \<in> PENDING_TYPES then finish_pending e now cleanup_ok (jb_id j) else returnS j)"

text \<open>A request that lost the race is told what won it.\<close>

definition lost_race :: "pystr \<Rightarrow> string task_prog" where
  "lost_race k =
     bindS rollback_tasks (\<lambda>_.
     bindS (refresh_job k) (\<lambda>j.
     if jb_status j \<notin> ACTIVE then returnS ''Task finished before cancellation was accepted; its result was preserved.''
     else if jb_requested_at j \<noteq> None then returnS ''Cancellation was already requested.''
     else raiseS (CancellationError 409 ''The task changed before cancellation could be accepted. Refresh its current capability.'')))"

text \<open>From the conditional update on: the audit event, the commit, and the clean-up of a queued task.\<close>

definition accept_request ::
  "cancel_env \<Rightarrow> int \<Rightarrow> bool \<Rightarrow> (task_tables \<Rightarrow> task_tables) \<Rightarrow> job \<Rightarrow> identity \<Rightarrow> string \<Rightarrow> string task_prog" where
  "accept_request e now cleanup_ok mid j i reason =
     bindS (reserve_request now j i) (\<lambda>changed.
     if \<not> changed then lost_race (jb_id j)
     else bindS (refresh_job (jb_id j)) (\<lambda>j1.
          bindS (add_task_audit j1 ''request_cancel_task'' reason True) (\<lambda>_.
          bindS commit_tasks (\<lambda>_.
          bindS (interfere mid) (\<lambda>_.
          bindS (finish_if_pending e now cleanup_ok j1) (\<lambda>j2.
          returnS (if jb_status j2 = CANCELLED then ''Task cancelled before execution.''
                   else ''Cancellation requested; waiting for a safe checkpoint and cleanup.'')))))))"

definition request_cancel ::
  "cancel_env \<Rightarrow> int \<Rightarrow> bool \<Rightarrow> (task_tables \<Rightarrow> task_tables) \<Rightarrow> (task_tables \<Rightarrow> task_tables) \<Rightarrow> job \<Rightarrow> identity \<Rightarrow> bool
   \<Rightarrow> string task_prog" where
  "request_cancel e now cleanup_ok mid1 mid2 loaded i api =
     bindS (liftS (raise_if (\<not> authorized loaded i api)
              (CancellationError 403 ''Administrator permission is required for this task type.''))) (\<lambda>_.
     bindS (refresh_job (jb_id loaded)) (\<lambda>j.
     if jb_status j \<notin> ACTIVE then returnS ''Task is already finished; its result was preserved.''
     else if jb_requested_at j \<noteq> None
     then bindS (finish_if_pending e now cleanup_ok j) (\<lambda>_. returnS ''Cancellation was already requested.'')
     else bindS (liftS (capability e j (Some i) api)) (\<lambda>contract.
          if \<not> can_cancel contract then raiseS (CancellationError 409 (cap_reason contract))
          else bindS (interfere mid1) (\<lambda>_. accept_request e now cleanup_ok mid2 j i (cap_reason contract)))))"

section \<open>Reconciliation\<close>

definition settled :: "int \<Rightarrow> job \<Rightarrow> job" where
  "settled now j = j\<lparr>jb_completed_at := Some (case jb_finished_at j of Some x \<Rightarrow> x | None \<Rightarrow> now),
     jb_outcome := Some (if jb_status j = CANCELLED then ''confirmed'' else ''completion-won'')\<rparr>"

text \<open>\<open>continue\<close> after a \<open>CancellationError\<close>; every other exception ends the pass.\<close>

definition skip_cancellation_error :: "'a task_prog \<Rightarrow> unit task_prog" where
  "skip_cancellation_error m = catchS (bindS m (\<lambda>_. returnS ()))
     (\<lambda>er. case er of CancellationError _ _ \<Rightarrow> returnS () | _ \<Rightarrow> raiseS er)"

definition reconcile_job :: "cancel_env \<Rightarrow> int \<Rightarrow> (pystr \<Rightarrow> bool) \<Rightarrow> pystr \<Rightarrow> unit task_prog" where
  "reconcile_job e now cleanup_ok k =
     bindS (refresh_job k) (\<lambda>j.
     if jb_status j = PENDING \<and> jb_type j \<in> PENDING_TYPES
     then skip_cancellation_error (finish_pending e now (cleanup_ok k) k)
     else if jb_status j \<notin> ACTIVE
     then bindS (change_tasks (change_job k (\<lambda>_. settled now j))) (\<lambda>_.
          add_task_audit j ''settle_cancel_task'' (''Final disposition: '' @ status_text (jb_status j) @ ''; existing task result preserved.'') True)
     else returnS ())"

fun each_job :: "('k \<Rightarrow> unit task_prog) \<Rightarrow> 'k list \<Rightarrow> unit task_prog" where
  "each_job f [] = returnS ()"
| "each_job f (k # ks) = bindS (f k) (\<lambda>_. each_job f ks)"

definition open_requests :: "task_tables \<Rightarrow> pystr list" where
  "open_requests t = map jb_id (take 100 (sort_key (\<lambda>j. case jb_requested_at j of Some x \<Rightarrow> x | None \<Rightarrow> 0)
     (filter (\<lambda>j. jb_requested_at j \<noteq> None \<and> jb_completed_at j = None) (jobs t))))"

text \<open>An exception leaves the uncommitted part of the pass to the end of the session.\<close>

definition reconcile_requests :: "cancel_env \<Rightarrow> int \<Rightarrow> (pystr \<Rightarrow> bool) \<Rightarrow> unit task_prog" where
  "reconcile_requests e now cleanup_ok =
     bindS (getS (\<lambda>s. open_requests (tk_work s))) (\<lambda>ks.
     catchS (bindS (each_job (reconcile_job e now cleanup_ok) ks) (\<lambda>_. commit_tasks))
       (\<lambda>er. bindS rollback_tasks (\<lambda>_. raiseS er)))"

section \<open>Claiming\<close>

definition WORKER_JOB_TYPES :: "pystr set" where
  "WORKER_JOB_TYPES = u ` {''diagnostic-bundle'', ''appliance-update'', ''vcf-depot-download'', ''managed-script'', ''pxe-media-sync''}"

definition vcf_running :: "task_tables \<Rightarrow> bool" where
  "vcf_running t \<longleftrightarrow> list_ex (\<lambda>j. jb_vcf_operation j \<and> jb_status j = RUNNING) (jobs t)"

definition claimable :: "task_tables \<Rightarrow> job \<Rightarrow> bool" where
  "claimable t j \<longleftrightarrow> jb_status j = PENDING \<and> jb_requested_at j = None \<and> jb_type j \<in> WORKER_JOB_TYPES
     \<and> \<not> (vcf_running t \<and> jb_vcf_operation j)"

text \<open>The oldest claimable task, ties broken by its identifier.\<close>

definition next_candidate :: "task_tables \<Rightarrow> pystr option" where
  "next_candidate t = (case sort_key (\<lambda>j. (jb_created_at j, jb_id j)) (filter (claimable t) (jobs t)) of
     [] \<Rightarrow> None | j # _ \<Rightarrow> Some (jb_id j))"

definition claimed_job :: "int \<Rightarrow> job \<Rightarrow> job" where
  "claimed_job now j = j\<lparr>jb_status := RUNNING, jb_started_at := Some now, jb_progress := 1\<rparr>"

text \<open>
  The conditional update of a claim: it fails when the row changed, or (with the runtime index
  \<open>guarded\<close>) when it would start a second depot operation.
\<close>

definition claim_update :: "int \<Rightarrow> bool \<Rightarrow> pystr \<Rightarrow> task_tables \<Rightarrow> task_tables option" where
  "claim_update now guarded k t = (case job_by_id k t of
     Some j \<Rightarrow>
       if jb_status j = PENDING \<and> jb_requested_at j = None \<and> \<not> (guarded \<and> jb_vcf_operation j \<and> vcf_running t)
       then Some (change_job k (claimed_job now) t) else None
   | None \<Rightarrow> None)"

text \<open>The loop, with what other sessions commit between selection and update in each round.\<close>

fun claim_next_job :: "int \<Rightarrow> bool \<Rightarrow> (task_tables \<Rightarrow> task_tables) list \<Rightarrow> task_tables \<Rightarrow> pystr option \<times> task_tables" where
  "claim_next_job now guarded mids t = (case next_candidate t of
     None \<Rightarrow> (None, t)
   | Some k \<Rightarrow> (case mids of
       [] \<Rightarrow> (case claim_update now guarded k t of Some t' \<Rightarrow> (Some k, t') | None \<Rightarrow> (None, t))
     | mid # rest \<Rightarrow> (case claim_update now guarded k (mid t) of
         Some t' \<Rightarrow> (Some k, t') | None \<Rightarrow> claim_next_job now guarded rest (mid t))))"

declare claim_next_job.simps [simp del]

end
