(* ===== verification/Task_Thms.thy ===== *)
theory Task_Thms
  imports Task_Cancellation
begin

text \<open>
  What every transaction of the cancellation service and of the claiming worker guarantees to the
  others, and relies on them for: finished tasks keep their result, a request is recorded once, and a
  queued task that was requested to stop is never started.
\<close>

section \<open>The guarantee\<close>

definition job_later :: "job \<Rightarrow> job \<Rightarrow> bool" where
  "job_later j j' \<longleftrightarrow> jb_type j' = jb_type j
     \<and> (jb_status j \<notin> ACTIVE \<longrightarrow> jb_status j' = jb_status j \<and> jb_result j' = jb_result j \<and> jb_error j' = jb_error j
          \<and> jb_finished_at j' = jb_finished_at j \<and> jb_progress j' = jb_progress j)
     \<and> (jb_requested_at j \<noteq> None \<longrightarrow> jb_requested_at j' = jb_requested_at j \<and> jb_requested_by j' = jb_requested_by j
          \<and> (jb_status j \<noteq> RUNNING \<longrightarrow> jb_status j' \<noteq> RUNNING))"

definition later :: "task_tables \<Rightarrow> task_tables \<Rightarrow> bool" where
  "later t t' \<longleftrightarrow> (\<forall>k j. job_by_id k t = Some j \<longrightarrow> (\<exists>j'. job_by_id k t' = Some j' \<and> job_later j j'))"

lemma job_later_refl: "job_later j j"
  by (simp add: job_later_def)

lemma job_later_trans: "job_later a b \<Longrightarrow> job_later b c \<Longrightarrow> job_later a c"
  unfolding job_later_def by (metis (no_types, lifting))

interpretation task_later: transition_preorder later
proof
  show "later s s" for s by (auto simp: later_def job_later_refl)
  show "later s t \<Longrightarrow> later t w \<Longrightarrow> later s w" for s t w
    unfolding later_def by (meson job_later_trans)
qed

lemma later_same_jobs: "jobs t' = jobs t \<Longrightarrow> later t t'"
  using task_later.refl by (simp add: later_def job_by_id_def)

lemma job_by_id_change:
  assumes "\<And>j. jb_id j = k \<Longrightarrow> jb_id (f j) = k"
  shows "job_by_id k' (change_job k f t) = (if k' = k then map_option f (job_by_id k t) else job_by_id k' t)"
proof -
  have "List.find (\<lambda>j. jb_id j = k') (map (\<lambda>j. if jb_id j = k then f j else j) js)
      = (if k' = k then map_option f (List.find (\<lambda>j. jb_id j = k) js) else List.find (\<lambda>j. jb_id j = k') js)" for js
    using assms by (induction js) auto
  then show ?thesis by (simp add: job_by_id_def change_job_def)
qed

lemma job_by_id_key: "job_by_id k t = Some j \<Longrightarrow> jb_id j = k"
  by (auto simp: job_by_id_def find_Some_iff)

lemma later_change_job:
  assumes "\<And>j. jb_id j = k \<Longrightarrow> jb_id (f j) = k" "\<And>j. job_by_id k t = Some j \<Longrightarrow> job_later j (f j)"
  shows "later t (change_job k f t)"
  using assms(2) by (auto simp: later_def job_by_id_change [OF assms(1)] job_later_refl)

text \<open>Both the committed and the pending tables of a session continue \<open>t0\<close>.\<close>

definition since :: "task_tables \<Rightarrow> task_db \<Rightarrow> bool" where
  "since t0 s \<longleftrightarrow> later t0 (tk_disk s) \<and> later t0 (tk_work s)"

text \<open>A run from \<open>s\<close> continues \<open>t0\<close>, whether it returns or raises.\<close>

definition safe_run :: "task_tables \<Rightarrow> task_db \<Rightarrow> 'a task_prog \<Rightarrow> bool" where
  "safe_run t0 s m \<longleftrightarrow> since t0 (snd (m s))"

lemma safe_bind:
  "safe_run t0 s m \<Longrightarrow> (\<And>x s'. m s = (Inr x, s') \<Longrightarrow> since t0 s' \<Longrightarrow> safe_run t0 s' (f x)) \<Longrightarrow> safe_run t0 s (bindS m f)"
  by (auto simp: safe_run_def bindS_def split: prod.splits sum.splits)

lemma safe_if: "(c \<Longrightarrow> safe_run t0 s m) \<Longrightarrow> (\<not> c \<Longrightarrow> safe_run t0 s n) \<Longrightarrow> safe_run t0 s (if c then m else n)"
  by simp

lemma safe_keeps: "keeps (since t0) m \<Longrightarrow> since t0 s \<Longrightarrow> safe_run t0 s m"
  by (simp add: safe_run_def keeps_def)

lemma keeps_safe: "(\<And>s. since t0 s \<Longrightarrow> safe_run t0 s m) \<Longrightarrow> keeps (since t0) m"
  by (simp add: safe_run_def keeps_def)

lemma keeps_change_tasks [keeps_intros]: "(\<And>t. later t (f t)) \<Longrightarrow> keeps (since t0) (change_tasks f)"
  by (auto simp: keeps_def since_def change_tasks_def modifyS_def intro: task_later.trans)

lemma keeps_transaction [keeps_intros]: "keeps (since t0) commit_tasks" "keeps (since t0) rollback_tasks"
  by (simp_all add: keeps_def since_def commit_tasks_def rollback_tasks_def modifyS_def)

lemma keeps_interfere [keeps_intros]: "(\<And>t. later t (mid t)) \<Longrightarrow> keeps (since t0) (interfere mid)"
  by (auto simp: keeps_def since_def interfere_def modifyS_def intro: task_later.trans)

lemma keeps_refresh [keeps_intros]: "keeps P (refresh_job k)"
  by (auto simp: keeps_def refresh_job_def split: option.splits)

lemma keeps_audit [keeps_intros]: "keeps (since t0) (add_task_audit j a d b)"
  unfolding add_task_audit_def Let_def by (intro keeps_intros later_same_jobs) simp

lemma refresh_job_Inr: "refresh_job k s = (Inr j, s') \<longleftrightarrow> job_by_id k (tk_work s) = Some j \<and> s' = s"
  by (auto simp: refresh_job_def split: option.splits)

text \<open>Replacing the row that was just read.\<close>

lemma safe_put_job:
  assumes "since t0 s" "job_by_id k (tk_work s) = Some j" "job_later j j'" "jb_id j' = k"
  shows "safe_run t0 s (change_tasks (change_job k (\<lambda>_. j')))"
  using assms task_later.trans [OF _ later_change_job [of k "\<lambda>_. j'" "tk_work s"], of t0]
  by (auto simp: since_def change_tasks_def modifyS_def safe_run_def)

lemma safe_refresh:
  assumes "since t0 s" "\<And>j. job_by_id k (tk_work s) = Some j \<Longrightarrow> jb_id j = k \<Longrightarrow> safe_run t0 s (f j)"
  shows "safe_run t0 s (bindS (refresh_job k) f)"
proof (rule safe_bind)
  show "safe_run t0 s (refresh_job k)" by (intro safe_keeps keeps_refresh assms(1))
  show "safe_run t0 s' (f j)" if "refresh_job k s = (Inr j, s')" for j s'
    using that assms(2) job_by_id_key [of k "tk_work s" j] by (simp add: refresh_job_Inr)
qed

lemma finish_stop_safe:
  assumes "since t0 s" "job_by_id (jb_id j) (tk_work s) = Some j"
  shows "safe_run t0 s (finish_stop e now j d)"
  unfolding finish_stop_def
proof (rule safe_if)
  show "safe_run t0 s (returnS False)" by (intro safe_keeps keeps_intros assms(1))
  assume "\<not> (jb_status j \<notin> ACTIVE \<or> jb_requested_at j = None)"
  then have l: "job_later j (stopped_job e now j)" "jb_id (stopped_job e now j) = jb_id j"
    by (auto simp: job_later_def stopped_job_def)
  have "keeps (since t0) (bindS (change_tasks (stop_steps e now (jb_id j))) (\<lambda>_.
      bindS (add_task_audit j ''confirm_cancel_task'' d True) (\<lambda>_. returnS True)))"
    by (intro keeps_intros later_same_jobs) (simp add: stop_steps_def)
  then show "safe_run t0 s (bindS (change_tasks (change_job (jb_id j) (\<lambda>_. stopped_job e now j))) (\<lambda>_.
      bindS (change_tasks (stop_steps e now (jb_id j))) (\<lambda>_. bindS (add_task_audit j ''confirm_cancel_task'' d True) (\<lambda>_. returnS True))))"
    by (rule safe_bind [OF safe_put_job [OF assms l] safe_keeps])
qed

text \<open>Restoring the profile touches no job.\<close>

lemma restore_profile_frame:
  assumes "restore_profile e now j s = (r, s')"
  shows "jobs (tk_work s') = jobs (tk_work s) \<and> tk_disk s' = tk_disk s"
  using assms by (auto simp: restore_profile_def Let_def bindS_def liftS_def change_tasks_def modifyS_def split: prod.splits sum.splits)

lemma restore_profile_keeps [keeps_intros]: "keeps (since t0) (restore_profile e now j)"
  by (rule keepsI) (metis (no_types, lifting) restore_profile_frame job_by_id_def later_def prod.collapse since_def)

lemma finish_pending_keeps [keeps_intros]: "keeps (since t0) (finish_pending e now ok k)"
proof (rule keeps_safe)
  fix s assume s: "since t0 s"
  show "safe_run t0 s (finish_pending e now ok k)"
    unfolding finish_pending_def
  proof (intro safe_refresh [OF s] safe_if)
    fix j :: job
    show "safe_run t0 s (bindS rollback_tasks (\<lambda>_. returnS j))" by (intro safe_keeps keeps_intros s)
    show "safe_run t0 s (raiseS (CancellationError 409 ''This pending cancellation requires its execution owner.''))"
      by (intro safe_keeps keeps_intros s)
    assume j: "job_by_id k (tk_work s) = Some j" "jb_id j = k" "\<not> \<not> pending_request j"
    have l: "job_later j (cleanup_failed j)" "jb_id (cleanup_failed j) = k"
      using j(2,3) by (auto simp: job_later_def cleanup_failed_def pending_request_def ACTIVE_def)
    show "safe_run t0 s (bindS (change_tasks (change_job k (\<lambda>_. cleanup_failed j))) (\<lambda>_.
          bindS (add_task_audit j ''cancel_task_cleanup_failed'' ''Owned upload staging could not be released.'' False) (\<lambda>_.
          bindS commit_tasks (\<lambda>_.
          raiseS (CancellationError 409 ''Cancellation staging cleanup failed; task remains unclaimed.'')))))"
      by (intro safe_bind [OF safe_put_job [OF s j(1) l]] safe_keeps keeps_intros)
    show "safe_run t0 s (bindS (if jb_type j = u ''vcf-depot-download'' then restore_profile e now j else returnS ()) (\<lambda>_.
          bindS (finish_stop e now j ''Pending claim was reserved; no worker started and owned staging was released.'') (\<lambda>_.
          bindS commit_tasks (\<lambda>_. refresh_job k))))"
    proof (rule safe_bind)
      show "safe_run t0 s (if jb_type j = u ''vcf-depot-download'' then restore_profile e now j else returnS ())"
        by (intro safe_keeps keeps_intros s)
      fix x s2
      assume r: "(if jb_type j = u ''vcf-depot-download'' then restore_profile e now j else returnS ()) s = (Inr x, s2)" and s2: "since t0 s2"
      have "job_by_id (jb_id j) (tk_work s2) = Some j"
        using r j(1,2) restore_profile_frame [of e now j s "Inr x" s2] by (auto simp: returnS_def job_by_id_def split: if_splits)
      then show "safe_run t0 s2 (bindS (finish_stop e now j ''Pending claim was reserved; no worker started and owned staging was released.'') (\<lambda>_.
          bindS commit_tasks (\<lambda>_. refresh_job k)))"
        by (intro safe_bind [OF finish_stop_safe [OF s2]] safe_keeps keeps_intros)
    qed
  qed
qed

lemma reserve_request_keeps [keeps_intros]: "keeps (since t0) (reserve_request now j i)"
proof (rule keepsI)
  fix s assume s: "since t0 s"
  let ?f = "\<lambda>r. r\<lparr>jb_requested_at := Some now, jb_requested_by := Some (id_username i), jb_outcome := Some ''requested''\<rparr>"
  have "later (tk_work s) (change_job (jb_id j) ?f (tk_work s))"
    if "job_by_id (jb_id j) (tk_work s) = Some j'" "same_judged j j'" for j'
    using that by (intro later_change_job) (auto simp: job_later_def same_judged_def)
  then show "since t0 (snd (reserve_request now j i s))"
    using s task_later.trans [of t0 "tk_work s"] by (auto simp: reserve_request_def since_def split: option.splits)
qed

lemma lost_race_keeps [keeps_intros]: "keeps (since t0) (lost_race k)"
  unfolding lost_race_def by (intro keeps_intros)

lemma finish_if_pending_keeps [keeps_intros]: "keeps (since t0) (finish_if_pending e now ok j)"
  unfolding finish_if_pending_def by (intro keeps_intros)

lemma accept_request_keeps [keeps_intros]:
  assumes "\<And>t. later t (mid t)"
  shows "keeps (since t0) (accept_request e now ok mid j i reason)"
  unfolding accept_request_def by (intro keeps_intros assms)

lemma request_cancel_keeps:
  assumes "\<And>t. later t (mid1 t)" "\<And>t. later t (mid2 t)"
  shows "keeps (since t0) (request_cancel e now ok mid1 mid2 loaded i api)"
  unfolding request_cancel_def by (intro keeps_intros assms)

lemma reconcile_job_keeps [keeps_intros]: "keeps (since t0) (reconcile_job e now ok k)"
proof (rule keeps_safe)
  fix s assume s: "since t0 s"
  show "safe_run t0 s (reconcile_job e now ok k)"
    unfolding reconcile_job_def skip_cancellation_error_def
  proof (intro safe_refresh [OF s] safe_if)
    fix j :: job
    show "safe_run t0 s (catchS (bindS (finish_pending e now (ok k) k) (\<lambda>_. returnS ()))
       (\<lambda>er. case er of CancellationError _ _ \<Rightarrow> returnS () | _ \<Rightarrow> raiseS er))"
      by (intro safe_keeps keeps_intros s) (auto split: task_error.splits intro: keeps_intros)
    show "safe_run t0 s (returnS ())" by (intro safe_keeps keeps_intros s)
    assume j: "job_by_id k (tk_work s) = Some j" "jb_id j = k" "jb_status j \<notin> ACTIVE"
    have l: "job_later j (settled now j)" "jb_id (settled now j) = k" using j(2,3) by (auto simp: job_later_def settled_def)
    show "safe_run t0 s (bindS (change_tasks (change_job k (\<lambda>_. settled now j))) (\<lambda>_.
        add_task_audit j ''settle_cancel_task'' (''Final disposition: '' @ status_text (jb_status j) @ ''; existing task result preserved.'') True))"
      by (intro safe_bind [OF safe_put_job [OF s j(1) l]] safe_keeps keeps_intros)
  qed
qed

lemma each_job_keeps: "(\<And>k. keeps P (f k)) \<Longrightarrow> keeps P (each_job f ks)"
  by (induction ks) (auto intro!: keeps_intros)

lemma reconcile_requests_keeps: "keeps (since t0) (reconcile_requests e now ok)"
  unfolding reconcile_requests_def by (intro keeps_intros each_job_keeps)

section \<open>Claiming\<close>

lemma claim_update_later: "claim_update now guarded k t = Some t' \<Longrightarrow> later t t'"
  by (auto simp: claim_update_def claimed_job_def job_later_def ACTIVE_def split: option.splits if_splits intro!: later_change_job)

lemma next_candidateD:
  assumes "next_candidate t = Some k"
  obtains j where "j \<in> set (jobs t)" "claimable t j" "jb_id j = k"
    "\<And>j'. j' \<in> set (jobs t) \<Longrightarrow> claimable t j' \<Longrightarrow> (jb_created_at j, jb_id j) \<le> (jb_created_at j', jb_id j')"
proof -
  let ?f = "\<lambda>j. (jb_created_at j, jb_id j)" and ?xs = "filter (claimable t) (jobs t)"
  obtain j js where s: "sort_key ?f ?xs = j # js" "jb_id j = k"
    using assms by (auto simp: next_candidate_def split: list.splits)
  have set: "set (j # js) = set ?xs" using s(1) by (metis set_sort)
  have "sorted (map ?f (j # js))" using s(1) sorted_sort_key by metis
  then have le: "?f j \<le> ?f j'" if "j' \<in> set ?xs" for j' using that unfolding set [symmetric] by auto
  have "j \<in> set ?xs" using set by auto
  then show ?thesis using that s(2) le by auto
qed

lemma claim_next_job_later:
  assumes "\<And>m t. m \<in> set mids \<Longrightarrow> later t (m t)"
  shows "later t (snd (claim_next_job now guarded mids t))"
  using assms
proof (induction mids arbitrary: t)
  case Nil
  show ?case
    by (subst claim_next_job.simps) (auto split: option.split intro: claim_update_later task_later.refl)
next
  case (Cons m mids)
  have m: "later t (m t)" using Cons.prems by simp
  have rest: "later t (snd (claim_next_job now guarded mids (m t)))"
    using task_later.trans [OF m] Cons.IH Cons.prems by simp
  show ?case
    by (subst claim_next_job.simps)
      (auto split: option.split intro: rest task_later.trans [OF m claim_update_later] task_later.refl)
qed

text \<open>What a claimed task was at the moment of the update.\<close>

lemma claim_next_job_result:
  assumes "claim_next_job now guarded mids t = (Some k, t')" "\<And>m t. m \<in> set mids \<Longrightarrow> later t (m t)"
  shows "\<exists>t1. later t t1 \<and> claim_update now guarded k t1 = Some t'"
  using assms
proof (induction mids arbitrary: t)
  case Nil
  then show ?case using task_later.refl by (subst (asm) claim_next_job.simps) (auto split: option.splits)
next
  case (Cons m mids)
  have m: "later t (m t)" using Cons.prems(2) by simp
  obtain c where c: "next_candidate t = Some c"
    using Cons.prems(1) by (subst (asm) claim_next_job.simps) (auto split: option.splits)
  show ?case
  proof (cases "claim_update now guarded c (m t)")
    case None
    then have "claim_next_job now guarded mids (m t) = (Some k, t')"
      using Cons.prems(1) c by (subst (asm) claim_next_job.simps) simp
    then obtain t1 where "later (m t) t1" "claim_update now guarded k t1 = Some t'" using Cons.IH Cons.prems(2) by (meson list.set_intros(2))
    then show ?thesis using task_later.trans [OF m] by blast
  next
    case (Some t2)
    then show ?thesis using Cons.prems(1) c m by (subst (asm) claim_next_job.simps) auto
  qed
qed

lemma claim_updateD:
  assumes "claim_update now guarded k t = Some t'"
  obtains j where "job_by_id k t = Some j" "jb_status j = PENDING" "jb_requested_at j = None"
    "\<not> (guarded \<and> jb_vcf_operation j \<and> vcf_running t)" "t' = change_job k (claimed_job now) t"
  using assms by (auto simp: claim_update_def split: option.splits if_splits)

lemma finished_not_claimed:
  assumes "job_by_id k t = Some j" "jb_status j \<notin> ACTIVE \<or> jb_requested_at j \<noteq> None" "\<And>m t. m \<in> set mids \<Longrightarrow> later t (m t)"
  shows "fst (claim_next_job now guarded mids t) \<noteq> Some k"
proof
  assume "fst (claim_next_job now guarded mids t) = Some k"
  then obtain t' where "claim_next_job now guarded mids t = (Some k, t')" by (metis prod.collapse)
  then obtain t1 where t1: "later t t1" "claim_update now guarded k t1 = Some t'" using claim_next_job_result assms(3) by blast
  obtain j1 where j1: "job_by_id k t1 = Some j1" "jb_status j1 = PENDING" "jb_requested_at j1 = None" by (rule claim_updateD [OF t1(2)])
  have "job_later j j1" using t1(1) assms(1) j1(1) unfolding later_def by fastforce
  then show False using assms(2) j1(2,3) by (auto simp: job_later_def ACTIVE_def)
qed

section \<open>A queued script\<close>

definition sample_job :: job where
  "sample_job = \<lparr> jb_id = u ''j1'', jb_type = u ''managed-script'', jb_status = PENDING, jb_created_at = 1, jb_started_at = None,
     jb_finished_at = None, jb_progress = 0, jb_result = None, jb_error = None, jb_config = u ''{}'', jb_requested_at = None,
     jb_requested_by = None, jb_completed_at = None, jb_outcome = None, jb_boot_source = None, jb_profile_id = None,
     jb_vcf_operation = False \<rparr>"

definition sample_step :: job_step where
  "sample_step = \<lparr> sp_job_id = u ''j1'', sp_status = PENDING, sp_progress = 0, sp_finished_at = None, sp_result = None, sp_error = None \<rparr>"

definition sample_tables :: task_tables where
  "sample_tables = \<lparr> jobs = [sample_job], job_steps = [sample_step], profiles = [], task_audits = [] \<rparr>"

definition sample_db :: task_db where
  "sample_db = \<lparr> tk_work = sample_tables, tk_disk = sample_tables \<rparr>"

definition sample_cancel_env :: cancel_env where
  "sample_cancel_env = \<lparr> ce_float = (\<lambda>_. JNull), ce_float_repr = (\<lambda>_. []), ce_int_text = (\<lambda>_. None), ce_isoformat = (\<lambda>_. u ''t'') \<rparr>"

definition sample_admin :: identity where
  "sample_admin = \<lparr> id_username = u ''op'', id_roles = [u ''admin''], id_role = u ''admin'', id_scopes = {u ''admin:all''},
     id_user_id = Some 1, id_token_id = None, id_token_jti = None, auth_type = ''session'' \<rparr>"

lemma sample_job_lookup:
  "job_by_id (u ''j1'') (tk_disk sample_db) = Some sample_job" "tk_work sample_db = tk_disk sample_db" "jb_id sample_job = u ''j1''"
  by (simp_all add: job_by_id_def sample_db_def sample_tables_def sample_job_def)

lemma sample_job_facts:
  "jb_status sample_job = PENDING" "jb_type sample_job \<in> PENDING_TYPES" "jb_requested_at sample_job = None"
  "authorized sample_job sample_admin False" "jb_type sample_job \<noteq> u ''vcf-depot-download''" "jb_result sample_job = None"
  by (simp_all add: sample_job_def PENDING_TYPES_def authorized_def has_role_def sample_admin_def)

lemma sample_payload: "payload sample_cancel_env None = []"
  unfolding payload_def json_loads_def by (simp add: skip_ws_def u_def is_ws_def parse_value.simps strip_prefix_def)

section \<open>Theorems\<close>

lemma keeps_since_disk: "keeps (since (tk_disk s)) m \<Longrightarrow> tk_work s = tk_disk s \<Longrightarrow> later (tk_disk s) (tk_disk (snd (m s)))"
  using keepsD [of "since (tk_disk s)" m s] task_later.refl by (simp add: since_def)

text \<open>
  C12: Whatever the cancellation service and the claiming worker commit, and whatever interleaves with
  them under the same guarantee, a task keeps its type, a finished task keeps its status, result, error,
  progress and finishing time, a recorded request keeps its time and its author, and a task that is not
  running when its cancellation was requested is never started.
\<close>

theorem cancellation_keeps_history:
  assumes "\<forall>t. later t (mid1 t) \<and> later t (mid2 t)" "\<forall>m \<in> set mids. \<forall>t. later t (m t)" "tk_work s = tk_disk s"
    "job_by_id (jb_id j) (tk_work s) = Some j"
  shows "later (tk_disk s) (tk_disk (snd (request_cancel e now ok mid1 mid2 loaded i api s)))
    \<and> later (tk_disk s) (tk_disk (snd (finish_pending e now ok k s)))
    \<and> later (tk_disk s) (tk_disk (snd (reconcile_requests e now cleanup s)))
    \<and> later (tk_disk s) (tk_disk (snd (bindS (finish_stop e now j detail) (\<lambda>_. commit_tasks) s)))
    \<and> later t (snd (claim_next_job now guarded mids t))"
proof -
  have "safe_run (tk_disk s) s (bindS (finish_stop e now j detail) (\<lambda>_. commit_tasks))"
    using task_later.refl assms(3,4) by (intro safe_bind [OF finish_stop_safe] safe_keeps keeps_intros) (auto simp: since_def)
  then have "later (tk_disk s) (tk_disk (snd (bindS (finish_stop e now j detail) (\<lambda>_. commit_tasks) s)))"
    by (simp add: safe_run_def since_def)
  moreover have "later (tk_disk s) (tk_disk (snd (request_cancel e now ok mid1 mid2 loaded i api s)))"
    by (rule keeps_since_disk [OF request_cancel_keeps assms(3)]) (use assms(1) in simp_all)
  moreover have "later t (snd (claim_next_job now guarded mids t))" by (rule claim_next_job_later) (use assms(2) in simp)
  ultimately show ?thesis
    using keeps_since_disk [OF finish_pending_keeps assms(3)] keeps_since_disk [OF reconcile_requests_keeps assms(3)] by simp
qed

theorem cancellation_keeps_history_witness:
  "job_by_id (jb_id sample_job) (tk_work sample_db) = Some sample_job
   \<and> later (tk_disk sample_db) (tk_disk (snd (finish_pending sample_cancel_env 5 True (u ''j1'') sample_db)))"
proof -
  have j: "job_by_id (jb_id sample_job) (tk_work sample_db) = Some sample_job" using sample_job_lookup by simp
  have m: "\<forall>t. later t (id t) \<and> later t (id t)" "\<forall>m \<in> set [id]. \<forall>t. later t (m t)" by (simp_all add: task_later.refl)
  show ?thesis
    using cancellation_keeps_history [OF m sample_job_lookup(2) j, of sample_cancel_env 5 True sample_job sample_admin False
        "u ''j1''" "\<lambda>_. True" "''done''" sample_tables True] j by blast
qed

lemma capability_cong:
  assumes "jb_type a = jb_type b" "jb_status a = jb_status b" "jb_requested_at a = None" "jb_requested_at b = None"
    "jb_result a = jb_result b" "jb_config a = jb_config b" "jb_boot_source a = jb_boot_source b"
  shows "capability e a (Some i) api = capability e b (Some i) api"
  unfolding capability_def running_capability_def authorized_def assms by simp

lemma capability_of_judged:
  "same_judged j0 j \<Longrightarrow> jb_requested_at j0 = None \<Longrightarrow>
   capability e (j\<lparr>jb_boot_source := jb_boot_source j0\<rparr>) (Some i) api = capability e j0 (Some i) api"
  by (rule capability_cong) (simp_all add: same_judged_def)

lemma change_job_lookup:
  "job_by_id k t = Some j \<Longrightarrow> (\<And>j. jb_id j = k \<Longrightarrow> jb_id (f j) = k) \<Longrightarrow> job_by_id k (change_job k f t) = Some (f j)"
  by (simp add: job_by_id_change)

text \<open>What follows an accepted reservation keeps the request.\<close>

lemma after_reservation:
  assumes "reserve_request now j0 i s = (Inr True, s1)" "tk_work s = tk_disk s"
  obtains j j1 where "job_by_id (jb_id j0) (tk_disk s) = Some j" "same_judged j0 j"
    "job_by_id (jb_id j0) (tk_work s1) = Some j1"
    "j1 = j\<lparr>jb_requested_at := Some now, jb_requested_by := Some (id_username i), jb_outcome := Some ''requested''\<rparr>"
  using assms by (auto simp: reserve_request_def change_job_lookup split: option.splits if_splits)

lemma audit_commit:
  assumes "w = tk_work (snd (add_task_audit j a r b s))"
  shows "jobs w = jobs (tk_work s)"
    "bindS (add_task_audit j a r b) (\<lambda>_. bindS commit_tasks f) s = f () (s\<lparr>tk_work := w, tk_disk := w\<rparr>)"
  by (simp_all add: assms add_task_audit_def change_tasks_def commit_tasks_def modifyS_def Let_def bindS_def)

lemma reserve_request_returns: "\<exists>c s'. reserve_request now j i s = (Inr c, s')"
  by (auto simp: reserve_request_def split: option.splits)

lemma tail_keeps:
  "keeps (since t0) (bindS (interfere id) (\<lambda>_. bindS (finish_if_pending e now ok j1) (\<lambda>j2. returnS (f j2))))"
  by (intro keeps_intros) (simp add: task_later.refl)

text \<open>A reservation that changed the committed tables.\<close>

lemma lost_race_disk: "tk_disk (snd (lost_race k s)) = tk_disk s"
  by (auto simp: lost_race_def rollback_tasks_def modifyS_def refresh_job_def bindS_def returnS_def raiseS_def split: option.splits)

lemma accept_request_effect:
  assumes run: "accept_request e now ok id j0 i reason s = (r, s')" and clean: "tk_work s = tk_disk s"
    and changed: "tk_disk s' \<noteq> tk_disk s"
  obtains j w j1 where "job_by_id (jb_id j0) (tk_disk s) = Some j" "same_judged j0 j" "later w (tk_disk s')"
    "job_by_id (jb_id j0) w = Some j1" "jb_requested_at j1 = Some now" "jb_requested_by j1 = Some (id_username i)"
proof -
  obtain c s2 where res: "reserve_request now j0 i s = (Inr c, s2)" using reserve_request_returns by blast
  have c
  proof (rule ccontr)
    assume no: "\<not> c"
    then have "s2 = s" using res by (auto simp: reserve_request_def split: option.splits if_splits)
    then have "lost_race (jb_id j0) s = (r, s')" using run res no by (simp add: accept_request_def bindS_def [where m = "reserve_request _ _ _"])
    then show False using changed lost_race_disk by (metis snd_conv)
  qed
  then have R: "reserve_request now j0 i s = (Inr True, s2)" using res by simp
  obtain j j1 where A: "job_by_id (jb_id j0) (tk_disk s) = Some j" "same_judged j0 j" "job_by_id (jb_id j0) (tk_work s2) = Some j1"
    "j1 = j\<lparr>jb_requested_at := Some now, jb_requested_by := Some (id_username i), jb_outcome := Some ''requested''\<rparr>"
    by (rule after_reservation [OF R clean])
  define w where "w = tk_work (snd (add_task_audit j1 ''request_cancel_task'' reason True s2))"
  note w = audit_commit [OF w_def]
  have "refresh_job (jb_id j0) s2 = (Inr j1, s2)" using A(3) by (simp add: refresh_job_Inr)
  then have "bindS (add_task_audit j1 ''request_cancel_task'' reason True) (\<lambda>_. bindS commit_tasks (\<lambda>_.
      bindS (interfere id) (\<lambda>_. bindS (finish_if_pending e now ok j1) (\<lambda>j2.
      returnS (if jb_status j2 = CANCELLED then ''Task cancelled before execution.''
               else ''Cancellation requested; waiting for a safe checkpoint and cleanup.''))))) s2 = (r, s')"
    using run R by (simp add: accept_request_def bindS_def [where m = "reserve_request _ _ _"] bindS_def [where m = "refresh_job _"])
  note tail = this [unfolded w(2)]
  have "since w (s2\<lparr>tk_work := w, tk_disk := w\<rparr>)" by (simp add: since_def task_later.refl)
  then have "later w (tk_disk s')" using keepsD [OF tail_keeps] tail by (metis since_def snd_conv)
  moreover have "job_by_id (jb_id j0) w = Some j1" using w(1) A(3) by (simp add: job_by_id_def)
  ultimately show ?thesis using that A by simp
qed

text \<open>
  C19: A cancellation request is recorded only when it is allowed. If, while other sessions work on the
  tables, a request turns a task that nobody had asked to stop into one that somebody has, then that
  somebody is the caller, the caller is authorised for this task, and the task as it is at that moment is
  still active and has a cancellation contract that permits it.
  (Only the media source of the row is not compared again by the conditional update.)
\<close>

theorem accepted_request_was_allowed:
  assumes "\<forall>t. later t (mid t)" "tk_work s = tk_disk s"
    and "request_cancel e now ok mid id loaded i api s = (r, s')"
    and "job_by_id (jb_id loaded) (mid (tk_disk s)) = Some j" "jb_requested_at j = None"
    and "job_by_id (jb_id loaded) (tk_disk s') = Some j'" "jb_requested_at j' \<noteq> None"
    and "job_by_id (jb_id loaded) (tk_disk s) \<noteq> None"
  shows "authorized loaded i api \<and> jb_status j \<in> ACTIVE
    \<and> (\<exists>source cap. capability e (j\<lparr>jb_boot_source := source\<rparr>) (Some i) api = Inr cap \<and> can_cancel cap)
    \<and> jb_requested_at j' = Some now \<and> jb_requested_by j' = Some (id_username i)"
proof -
  let ?k = "jb_id loaded" and ?s1 = "\<lparr> tk_work = mid (tk_disk s), tk_disk = mid (tk_disk s) \<rparr>"
  obtain j0 where j0: "job_by_id ?k (tk_disk s) = Some j0" using assms(8) by blast
  have id0: "jb_id j0 = ?k" using job_by_id_key [OF j0] .
  have none0: "jb_requested_at j0 = None"
    using assms(1,4,5) j0 unfolding later_def job_later_def by (metis option.inject)
  have unchanged: "tk_disk s' \<noteq> tk_disk s" "tk_disk s' \<noteq> tk_disk ?s1" using assms(4-7) j0 none0 by auto
  have ref: "refresh_job ?k s = (Inr j0, s)" by (simp add: refresh_job_Inr assms(2) j0)
  have auth: "authorized loaded i api"
  proof (rule ccontr)
    assume "\<not> authorized loaded i api"
    then show False using assms(3) unchanged by (simp add: request_cancel_def raiseS_def)
  qed
  have act: "jb_status j0 \<in> ACTIVE"
    using assms(3) unchanged auth ref by (auto simp: request_cancel_def bindS_def [where m = "refresh_job _"] returnS_def split: if_splits)
  obtain cap where cap: "capability e j0 (Some i) api = Inr cap" "can_cancel cap"
    using assms(3) unchanged auth ref act none0
    by (cases "capability e j0 (Some i) api")
      (auto simp: request_cancel_def bindS_def [where m = "refresh_job _"] raiseS_def split: if_splits)
  have run: "accept_request e now ok id j0 i (cap_reason cap) ?s1 = (r, s')"
    using assms(3) auth ref act none0 cap
    by (simp add: request_cancel_def bindS_def [where m = "refresh_job _"] bindS_def [where m = "interfere mid"] interfere_def modifyS_def)
  obtain ja w j1 where A: "job_by_id (jb_id j0) (tk_disk ?s1) = Some ja" "same_judged j0 ja" "later w (tk_disk s')"
    "job_by_id (jb_id j0) w = Some j1" "jb_requested_at j1 = Some now" "jb_requested_by j1 = Some (id_username i)"
    by (rule accept_request_effect [OF run _ unchanged(2)]) simp_all
  have j: "same_judged j0 j" using A(1,2) assms(4) id0 by simp
  have "jb_requested_at j' = Some now" "jb_requested_by j' = Some (id_username i)"
    using assms(6) A(3-6) id0 unfolding later_def job_later_def by (metis option.distinct(1) option.inject)+
  moreover have "jb_status j \<in> ACTIVE" using act j by (simp add: same_judged_def)
  ultimately show ?thesis using auth cap capability_of_judged [OF j none0] by metis
qed

section \<open>Queued tasks\<close>

lemma bindS_run: "m s = (Inr x, s') \<Longrightarrow> bindS m f s = f x s'"
  by (simp add: bindS_def)

lemma stopped_job_simps [simp]:
  "jb_id (stopped_job e now j) = jb_id j" "jb_status (stopped_job e now j) = CANCELLED"
  "jb_outcome (stopped_job e now j) = Some ''confirmed''" "jb_requested_by (stopped_job e now j) = jb_requested_by j"
  "jb_requested_at (stopped_job e now j) = jb_requested_at j"
  by (simp_all add: stopped_job_def)

lemma finish_stop_result:
  assumes "jb_status j \<in> ACTIVE" "jb_requested_at j \<noteq> None" "job_by_id (jb_id j) (tk_work s) = Some j"
  shows "\<exists>s'. finish_stop e now j d s = (Inr True, s') \<and> job_by_id (jb_id j) (tk_work s') = Some (stopped_job e now j)
    \<and> (\<forall>sp \<in> set (job_steps (tk_work s')). sp_job_id sp = jb_id j \<longrightarrow> sp_status sp \<notin> ACTIVE)"
proof -
  let ?c = "change_job (jb_id j) (\<lambda>_. stopped_job e now j) (tk_work s)"
  have k: "job_by_id (jb_id j) ?c = Some (stopped_job e now j)" using assms(3) by (simp add: change_job_lookup)
  have steps: "sp_status sp \<notin> ACTIVE" if "sp \<in> set (job_steps (stop_steps e now (jb_id j) ?c))" "sp_job_id sp = jb_id j" for sp
    using that by (auto simp: stop_steps_def stopped_step_def Let_def ACTIVE_def split: if_splits)
  show ?thesis
    using assms(1,2) k steps
    by (simp add: finish_stop_def change_tasks_def add_task_audit_def Let_def returnS_def modifyS_def bindS_def)
      (simp add: job_by_id_def stop_steps_def)
qed

lemma finish_pending_stops:
  assumes j: "job_by_id k (tk_work s) = Some j" "pending_request j" "jb_type j \<in> PENDING_TYPES"
    and profile: "jb_type j = u ''vcf-depot-download'' \<longrightarrow> (\<exists>p. jb_profile_id j = Some p \<and> p \<noteq> 0)"
  shows "\<exists>s'. finish_pending e now True k s = (Inr (stopped_job e now j), s') \<and> tk_work s' = tk_disk s'
    \<and> job_by_id k (tk_disk s') = Some (stopped_job e now j)
    \<and> (\<forall>sp \<in> set (job_steps (tk_disk s')). sp_job_id sp = k \<longrightarrow> sp_status sp \<notin> ACTIVE)"
proof -
  have k: "jb_id j = k" using job_by_id_key [OF j(1)] .
  let ?first = "if jb_type j = u ''vcf-depot-download'' then restore_profile e now j else returnS ()"
  have ret: "\<exists>s1. ?first s = (Inr (), s1)"
    using profile by (auto simp: restore_profile_def Let_def returnS_def change_tasks_def modifyS_def)
  then obtain s1 where s1: "?first s = (Inr (), s1)" by blast
  have "jobs (tk_work s1) = jobs (tk_work s)"
    using s1 restore_profile_frame [of e now j s "Inr ()" s1] by (auto simp: returnS_def split: if_splits)
  then have look: "job_by_id (jb_id j) (tk_work s1) = Some j" using j(1) k by (simp add: job_by_id_def)
  have act: "jb_status j \<in> ACTIVE" "jb_requested_at j \<noteq> None" using j(2) by (auto simp: pending_request_def ACTIVE_def)
  obtain s2 where s2: "finish_stop e now j ''Pending claim was reserved; no worker started and owned staging was released.'' s1 = (Inr True, s2)"
    "job_by_id (jb_id j) (tk_work s2) = Some (stopped_job e now j)"
    "\<forall>sp \<in> set (job_steps (tk_work s2)). sp_job_id sp = jb_id j \<longrightarrow> sp_status sp \<notin> ACTIVE"
    using finish_stop_result [OF act look] by blast
  have "finish_pending e now True k s = refresh_job k (s2\<lparr>tk_disk := tk_work s2\<rparr>)"
    using s1 s2(1) j
    by (simp add: finish_pending_def bindS_def refresh_job_def commit_tasks_def modifyS_def)
  then show ?thesis using s2(2,3) k by (simp add: refresh_job_def)
qed

lemma queued_request_effect:
  assumes "tk_work s = tk_disk s" "job_by_id k (tk_disk s) = Some j" "jb_status j = PENDING" "jb_type j \<in> PENDING_TYPES"
    "jb_requested_at j = None" "\<not> truthy (get_or (payload e (jb_result j)) ''ownership_unresolved'' JNull)"
    "authorized j i api" "jb_type j = u ''vcf-depot-download'' \<longrightarrow> (\<exists>p. jb_profile_id j = Some p \<and> p \<noteq> 0)"
  shows "\<exists>s' j'. request_cancel e now True id id j i api s = (Inr ''Task cancelled before execution.'', s')
    \<and> job_by_id k (tk_disk s') = Some j' \<and> jb_status j' = CANCELLED \<and> jb_outcome j' = Some ''confirmed''
    \<and> jb_requested_at j' = Some now \<and> jb_requested_by j' = Some (id_username i)
    \<and> (\<forall>sp \<in> set (job_steps (tk_disk s')). sp_job_id sp = k \<longrightarrow> sp_status sp \<notin> ACTIVE)
    \<and> (\<forall>t now' guarded mids. later (tk_disk s') t \<longrightarrow> (\<forall>m \<in> set mids. \<forall>t. later t (m t))
         \<longrightarrow> fst (claim_next_job now' guarded mids t) \<noteq> Some k)"
proof -
  have k: "jb_id j = k" using job_by_id_key [OF assms(2)] .
  let ?j1 = "j\<lparr>jb_requested_at := Some now, jb_requested_by := Some (id_username i), jb_outcome := Some ''requested''\<rparr>"
  let ?r = "''Queued task has not been claimed.''"
  obtain cap where cap: "capability e j (Some i) api = Inr cap" "can_cancel cap" "cap_reason cap = ?r"
    using assms(3-7) by (simp add: capability_def ACTIVE_def allowed_cap_def)
  have s: "\<lparr> tk_work = tk_disk s, tk_disk = tk_disk s \<rparr> = s" using assms(1) by (cases s) simp
  define s1 where "s1 = s\<lparr>tk_work := change_job k (\<lambda>r. r\<lparr>jb_requested_at := Some now, jb_requested_by := Some (id_username i),
               jb_outcome := Some ''requested''\<rparr>) (tk_work s)\<rparr>"
  have res: "reserve_request now j i s = (Inr True, s1)"
    using assms(1,2,5) by (simp add: reserve_request_def s1_def k same_judged_def)
  have look1: "job_by_id k (tk_work s1) = Some ?j1"
    using assms(1,2) by (simp add: s1_def change_job_lookup)
  define w where "w = tk_work (snd (add_task_audit ?j1 ''request_cancel_task'' ?r True s1))"
  note W = audit_commit [OF w_def]
  let ?s2 = "s1\<lparr>tk_work := w, tk_disk := w\<rparr>"
  have look2: "job_by_id k (tk_work ?s2) = Some ?j1" using look1 W(1) by (simp add: job_by_id_def)
  obtain s3 where s3: "finish_pending e now True k ?s2 = (Inr (stopped_job e now ?j1), s3)"
    "job_by_id k (tk_disk s3) = Some (stopped_job e now ?j1)"
    "\<forall>sp \<in> set (job_steps (tk_disk s3)). sp_job_id sp = k \<longrightarrow> sp_status sp \<notin> ACTIVE"
    using finish_pending_stops [OF look2, of e now] assms(3,4,8) by (auto simp: pending_request_def)
  have inter: "interfere id s = (Inr (), s)" "interfere id ?s2 = (Inr (), ?s2)"
    using assms(1) by (simp_all add: interfere_def modifyS_def)
  have fin: "finish_if_pending e now True ?j1 ?s2 = (Inr (stopped_job e now ?j1), s3)"
    using s3(1) assms(3,4) k by (simp add: finish_if_pending_def)
  have ref: "refresh_job k s = (Inr j, s)" "refresh_job k s1 = (Inr ?j1, s1)"
    using assms(1,2) look1 by (simp_all add: refresh_job_Inr)
  have "request_cancel e now True id id j i api s = (Inr ''Task cancelled before execution.'', s3)"
    using assms(3,5,7)
    by (simp add: request_cancel_def accept_request_def k bindS_run [where m = "refresh_job k" and s = s, OF ref(1)] ACTIVE_def cap bindS_run [where m = "interfere id" and s = s, OF inter(1)] bindS_run [where m = "reserve_request now j i" and s = s, OF res]
        bindS_run [where m = "refresh_job k" and s = s1, OF ref(2)] W(2) bindS_run [where m = "interfere id" and s = ?s2, OF inter(2)] bindS_run [where m = "finish_if_pending e now True ?j1" and s = ?s2, OF fin] returnS_def)
  moreover have "fst (claim_next_job now' guarded mids t) \<noteq> Some k"
    if t: "later (tk_disk s3) t" "\<forall>m \<in> set mids. \<forall>t. later t (m t)" for t now' guarded mids
  proof -
    obtain j' where "job_by_id k t = Some j'" "job_later (stopped_job e now ?j1) j'" using t(1) s3(2) unfolding later_def by blast
    then show ?thesis using t(2) by (intro finished_not_claimed) (auto simp: job_later_def ACTIVE_def)
  qed
  ultimately show ?thesis using s3(2,3) by (intro exI [of _ s3] exI [of _ "stopped_job e now ?j1"]) simp
qed



theorem accepted_request_was_allowed_witness:
  "\<exists>r s' j'. request_cancel sample_cancel_env 5 True id id sample_job sample_admin False sample_db = (r, s')
    \<and> job_by_id (u ''j1'') (tk_disk s') = Some j' \<and> jb_requested_by j' = Some (u ''op'')
    \<and> authorized sample_job sample_admin False"
proof -
  let ?run = "request_cancel sample_cancel_env 5 True id id sample_job sample_admin False sample_db"
  obtain s' j' where r: "?run = (Inr ''Task cancelled before execution.'', s')" "job_by_id (u ''j1'') (tk_disk s') = Some j'"
    "jb_requested_at j' = Some 5"
    using queued_request_effect [of sample_db "u ''j1''" sample_job sample_cancel_env sample_admin False 5]
      sample_job_lookup sample_job_facts sample_payload by (auto simp: get_or_def jget_def)
  have "\<forall>t. later t (id t)" by (simp add: task_later.refl)
  then have "jb_requested_by j' = Some (id_username sample_admin) \<and> authorized sample_job sample_admin False"
    using accepted_request_was_allowed [OF _ sample_job_lookup(2) r(1), of sample_job j'] r(2,3) sample_job_lookup sample_job_facts(3) by simp
  then show ?thesis using r(1,2) by (auto simp: sample_admin_def)
qed

lemma filter_claimed_le:
  "length (filter (\<lambda>j. jb_vcf_operation j \<and> jb_status j = RUNNING) (map (\<lambda>j. if jb_id j = k then claimed_job now j else j) js))
   \<le> length (filter (\<lambda>j. jb_vcf_operation j \<and> jb_status j = RUNNING) js)
      + length (filter (\<lambda>j. jb_id j = k \<and> jb_vcf_operation j) js)"
  by (induction js) (auto simp: claimed_job_def)

lemma one_per_id: "distinct (map jb_id js) \<Longrightarrow> length (filter (\<lambda>j. jb_id j = k \<and> P j) js) \<le> 1"
  by (induction js) (auto simp: filter_empty_conv image_iff)

lemma running_after_claim:
  assumes "distinct (map jb_id (jobs t))" "j \<in> set (jobs t)" "jb_id j = k" "claimable t j"
  shows "length (filter (\<lambda>j. jb_vcf_operation j \<and> jb_status j = RUNNING) (jobs (change_job k (claimed_job now) t)))
    \<le> max 1 (length (filter (\<lambda>j. jb_vcf_operation j \<and> jb_status j = RUNNING) (jobs t)))"
proof (cases "jb_vcf_operation j")
  case True
  then have "filter (\<lambda>j. jb_vcf_operation j \<and> jb_status j = RUNNING) (jobs t) = []"
    using assms(4) by (auto simp: claimable_def vcf_running_def list_ex_iff filter_empty_conv)
  then show ?thesis
    using filter_claimed_le [of k now "jobs t"] one_per_id [OF assms(1), of k jb_vcf_operation] by (simp add: change_job_def)
next
  case False
  have "j' = j" if "j' \<in> set (jobs t)" "jb_id j' = k" for j'
    using assms(1-3) that by (metis distinct_map inj_on_def)
  then have "filter (\<lambda>j. jb_id j = k \<and> jb_vcf_operation j) (jobs t) = []" using False by (auto simp: filter_empty_conv)
  then show ?thesis using filter_claimed_le [of k now "jobs t"] by (simp add: change_job_def)
qed

text \<open>
  The worker takes the oldest task that may start. A claim returns a task that is queued and that
  nobody has asked to stop, and marks it running; a task that was requested to stop or has finished before
  the claim begins is never returned, whatever the other sessions do meanwhile. Undisturbed, it returns the
  task that comes first by creation time and identifier, and never starts a depot operation beside another.
\<close>

theorem claim_is_sound:
  assumes "\<forall>m \<in> set mids. \<forall>t. later t (m t)" "claim_next_job now guarded mids t = (Some k, t')"
    and "distinct (map jb_id (jobs t))"
  shows "(\<exists>j. job_by_id k t' = Some j \<and> jb_status j = RUNNING \<and> jb_requested_at j = None)
    \<and> (\<forall>j. job_by_id k t = Some j \<longrightarrow> jb_status j \<in> ACTIVE \<and> jb_requested_at j = None)
    \<and> (mids = [] \<longrightarrow> (\<exists>j \<in> set (jobs t). jb_id j = k \<and> claimable t j
          \<and> (\<forall>j' \<in> set (jobs t). claimable t j' \<longrightarrow> (jb_created_at j, jb_id j) \<le> (jb_created_at j', jb_id j'))))
    \<and> (mids = [] \<and> length (filter (\<lambda>j. jb_vcf_operation j \<and> jb_status j = RUNNING) (jobs t)) \<le> 1
          \<longrightarrow> length (filter (\<lambda>j. jb_vcf_operation j \<and> jb_status j = RUNNING) (jobs t')) \<le> 1)"
proof -
  obtain t1 where t1: "later t t1" "claim_update now guarded k t1 = Some t'"
    using claim_next_job_result [OF assms(2)] assms(1) by blast
  obtain j1 where j1: "job_by_id k t1 = Some j1" "jb_status j1 = PENDING" "jb_requested_at j1 = None" "t' = change_job k (claimed_job now) t1"
    by (rule claim_updateD [OF t1(2)])
  have "job_by_id k t' = Some (claimed_job now j1)" unfolding j1(4) by (rule change_job_lookup [OF j1(1)]) (simp add: claimed_job_def)
  then have run: "\<exists>j. job_by_id k t' = Some j \<and> jb_status j = RUNNING \<and> jb_requested_at j = None"
    using j1(3) by (simp add: claimed_job_def)
  have old: "jb_status j \<in> ACTIVE \<and> jb_requested_at j = None" if "job_by_id k t = Some j" for j
  proof (rule ccontr)
    assume "\<not> ?thesis"
    then have "jb_status j \<notin> ACTIVE \<or> jb_requested_at j \<noteq> None" by (simp only: de_Morgan_conj)
    then show False using finished_not_claimed [OF that, of mids now guarded] assms(1,2) by simp
  qed
  have first: "\<exists>j \<in> set (jobs t). jb_id j = k \<and> claimable t j
      \<and> (\<forall>j' \<in> set (jobs t). claimable t j' \<longrightarrow> (jb_created_at j, jb_id j) \<le> (jb_created_at j', jb_id j'))" if "mids = []"
  proof -
    have "next_candidate t = Some k" using assms(2) that by (subst (asm) claim_next_job.simps) (auto split: option.splits)
    then show ?thesis by (rule next_candidateD) blast
  qed
  have one: "length (filter (\<lambda>j. jb_vcf_operation j \<and> jb_status j = RUNNING) (jobs t')) \<le> 1"
    if m: "mids = []" and le: "length (filter (\<lambda>j. jb_vcf_operation j \<and> jb_status j = RUNNING) (jobs t)) \<le> 1"
  proof -
    obtain j where j: "j \<in> set (jobs t)" "jb_id j = k" "claimable t j" using first [OF m] by blast
    have "claim_update now guarded k t = Some t'"
      using assms(2) m by (subst (asm) claim_next_job.simps) (auto split: option.splits)
    then have t': "t' = change_job k (claimed_job now) t" by (auto elim: claim_updateD)
    show ?thesis using running_after_claim [OF assms(3) j] le unfolding t' by simp
  qed
  show ?thesis using run old first one by blast
qed

theorem claim_is_sound_witness:
  "\<exists>t'. claim_next_job 5 True [] sample_tables = (Some (u ''j1''), t')
     \<and> (\<exists>j. job_by_id (u ''j1'') t' = Some j \<and> jb_status j = RUNNING)"
proof -
  have c: "claimable sample_tables sample_job"
    by (simp add: claimable_def sample_job_def sample_tables_def WORKER_JOB_TYPES_def)
  have n: "next_candidate sample_tables = Some (u ''j1'')"
    using c by (simp add: next_candidate_def) (simp add: sample_tables_def sample_job_lookup)
  have u: "claim_update 5 True (u ''j1'') sample_tables = Some (change_job (u ''j1'') (claimed_job 5) sample_tables)"
    by (simp add: claim_update_def job_by_id_def sample_tables_def sample_job_lookup sample_job_facts) (simp add: sample_job_def)
  have r: "claim_next_job 5 True [] sample_tables = (Some (u ''j1''), change_job (u ''j1'') (claimed_job 5) sample_tables)"
    by (subst claim_next_job.simps) (simp add: n u)
  have "distinct (map jb_id (jobs sample_tables))" by (simp add: sample_tables_def)
  then show ?thesis using claim_is_sound [OF _ r] r by auto
qed

end
