(* ===== verification/Py_Ipnetwork.thy ===== *)
theory Py_Ipnetwork
  imports Web_Text
begin

text \<open>
  \<open>ip_interface\<close> and \<open>ip_network(..., strict=False)\<close> of Python's \<open>ipaddress\<close>, and the properties of addresses
  that classify them. An interface is its address and the length of its prefix.
\<close>

section \<open>Addresses as numbers\<close>

fun address_bits :: "address \<Rightarrow> nat" where
  "address_bits (V4 a) = 32"
| "address_bits (V6 gs zone) = 128"

fun address_value :: "address \<Rightarrow> nat" where
  "address_value (V4 a) = foldl (\<lambda>n x. 256 * n + x) 0 a"
| "address_value (V6 gs zone) = foldl (\<lambda>n x. 65536 * n + x) 0 gs"

definition v4_of :: "nat \<Rightarrow> address" where
  "v4_of n = V4 (map (\<lambda>i. n div 256 ^ i mod 256) [3, 2, 1, 0])"

definition v6_of :: "nat \<Rightarrow> address" where
  "v6_of n = V6 (map (\<lambda>i. n div 65536 ^ i mod 65536) [7, 6, 5, 4, 3, 2, 1, 0]) None"

fun same_version :: "address \<Rightarrow> nat \<Rightarrow> address" where
  "same_version (V4 a) n = v4_of n"
| "same_version (V6 gs zone) n = v6_of n"

section \<open>Interfaces and networks\<close>

definition prefix_digits :: "nat \<Rightarrow> pystr \<Rightarrow> nat option" where
  "prefix_digits most s = (if s \<noteq> [] \<and> list_all is_digit s \<and> nat_of_digits s \<le> most then Some (nat_of_digits s) else None)"

text \<open>A net mask, or the complement of one.\<close>

definition mask_length :: "nat \<Rightarrow> nat option" where
  "mask_length n = List.find (\<lambda>p. n = (2 ^ p - 1) * 2 ^ (32 - p)) [0..<33]"

definition v4_prefix :: "pystr \<Rightarrow> nat option" where
  "v4_prefix s = (case prefix_digits 32 s of
     Some p \<Rightarrow> Some p
   | None \<Rightarrow> (case parse_ipv4 s of
       None \<Rightarrow> None
     | Some a \<Rightarrow> (let n = address_value (V4 a) in case mask_length n of
         Some p \<Rightarrow> Some p | None \<Rightarrow> mask_length (2 ^ 32 - 1 - n))))"

definition ip_interface :: "pystr \<Rightarrow> (address \<times> nat) option" where
  "ip_interface s = (case split_on 47 s of
     [a] \<Rightarrow> (case parse_ipv4 a of
        Some x \<Rightarrow> Some (V4 x, 32)
      | None \<Rightarrow> (case parse_ipv6 a of Some (gs, zone) \<Rightarrow> Some (V6 gs zone, 128) | None \<Rightarrow> None))
   | [a, m] \<Rightarrow> (case (parse_ipv4 a, v4_prefix m) of
        (Some x, Some p) \<Rightarrow> Some (V4 x, p)
      | _ \<Rightarrow> (case (parse_ipv6 a, prefix_digits 128 m) of
          (Some (gs, zone), Some p) \<Rightarrow> Some (V6 gs zone, p) | _ \<Rightarrow> None))
   | _ \<Rightarrow> None)"

text \<open>\<open>interface.ip\<close> forgets the zone.\<close>

fun interface_ip :: "address \<Rightarrow> address" where
  "interface_ip (V4 a) = V4 a"
| "interface_ip (V6 gs zone) = V6 gs None"

definition network_value :: "address \<times> nat \<Rightarrow> nat" where
  "network_value i = (case i of (a, p) \<Rightarrow> address_value a div 2 ^ (address_bits a - p) * 2 ^ (address_bits a - p))"

definition broadcast_value :: "address \<times> nat \<Rightarrow> nat" where
  "broadcast_value i = (case i of (a, p) \<Rightarrow> network_value i + 2 ^ (address_bits a - p) - 1)"

text \<open>\<open>address in interface.network\<close>, for two addresses of the same version.\<close>

definition in_network :: "address \<Rightarrow> address \<times> nat \<Rightarrow> bool" where
  "in_network x i \<longleftrightarrow> (case i of (a, p) \<Rightarrow>
     address_value x div 2 ^ (address_bits a - p) * 2 ^ (address_bits a - p) = network_value i)"

text \<open>\<open>str(ip_network(text, strict=False))\<close>: host bits are cleared, and then the zone is lost.\<close>

definition network_str :: "address \<times> nat \<Rightarrow> pystr" where
  "network_str i = (case i of (a, p) \<Rightarrow>
     address_str (if network_value i = address_value a then a else same_version a (network_value i)) @ 47 # dec_digits p)"

section \<open>Kinds of addresses\<close>

fun is_loopback :: "address \<Rightarrow> bool" where
  "is_loopback (V4 a) = (a ! 0 = 127)"
| "is_loopback (V6 gs zone) = (address_value (V6 gs zone) = 1)"

fun is_link_local :: "address \<Rightarrow> bool" where
  "is_link_local (V4 a) = (a ! 0 = 169 \<and> a ! 1 = 254)"
| "is_link_local (V6 gs zone) = (gs ! 0 div 64 = 0xFE80 div 64)"

fun is_multicast :: "address \<Rightarrow> bool" where
  "is_multicast (V4 a) = (224 \<le> a ! 0 \<and> a ! 0 < 240)"
| "is_multicast (V6 gs zone) = (0xFF00 \<le> gs ! 0)"

fun is_unspecified :: "address \<Rightarrow> bool" where
  "is_unspecified (V4 a) = (address_value (V4 a) = 0)"
| "is_unspecified (V6 gs zone) = (address_value (V6 gs zone) = 0)"

text \<open>
  The reserved IPv6 networks are \<open>::/8\<close>, \<open>100::/8\<close>, \<open>200::/7\<close>, \<open>400::/6\<close>, \<open>800::/5\<close>, \<open>1000::/4\<close>, the five \<open>/3\<close>
  from \<open>4000::\<close> to \<open>c000::\<close>, \<open>e000::/4\<close>, \<open>f000::/5\<close>, \<open>f800::/6\<close> and \<open>fe00::/9\<close>.
\<close>

fun is_reserved :: "address \<Rightarrow> bool" where
  "is_reserved (V4 a) = (240 \<le> a ! 0)"
| "is_reserved (V6 gs zone) = (gs ! 0 < 0x2000 \<or> 0x4000 \<le> gs ! 0 \<and> gs ! 0 < 0xFC00 \<or> 0xFE00 \<le> gs ! 0 \<and> gs ! 0 < 0xFE80)"

fun is_ipv4_mapped :: "address \<Rightarrow> bool" where
  "is_ipv4_mapped (V4 a) = False"
| "is_ipv4_mapped (V6 gs zone) = (take 6 gs = [0, 0, 0, 0, 0, 0xFFFF])"

end
