(* ===== verification/Source_Groups.thy ===== *)
theory Source_Groups
  imports Web_Text Py_Ipnetwork
begin

text \<open>
  Source Groups of \<open>src/atlaso/app/services/firewall.py\<close>: named lists of addresses, networks and references
  to other groups, and their expansion. A group is in the canonical shape \<open>_source_group\<close> gives it: an
  identifier, a name and a list of entries. \<open>str.lower\<close> is the parameter \<open>lo\<close>.
\<close>

record source_group =
  sg_id :: pystr
  sg_name :: pystr
  sg_entries :: "pystr list"

definition FIREWALL_SOURCE_GROUP_REFERENCE_PREFIX :: pystr where
  "FIREWALL_SOURCE_GROUP_REFERENCE_PREFIX = u ''group:''"

abbreviation ANY :: pystr where "ANY \<equiv> u ''any''"

type_synonym group_table = "(pystr \<times> source_group) list"

text \<open>\<open>{group["id"]: group for group in groups}\<close>.\<close>

definition groups_by_id :: "source_group list \<Rightarrow> group_table" where
  "groups_by_id groups = dict_of (map (\<lambda>g. (sg_id g, g)) groups)"

definition normal_entry :: "(pystr \<Rightarrow> pystr) \<Rightarrow> pystr \<Rightarrow> pystr" where
  "normal_entry lo value =
     (let item = strip value
      in if lo item = ANY then ANY
         else if startswith (lo item) FIREWALL_SOURCE_GROUP_REFERENCE_PREFIX
         then FIREWALL_SOURCE_GROUP_REFERENCE_PREFIX @ drop (length FIREWALL_SOURCE_GROUP_REFERENCE_PREFIX) item
         else item)"

text \<open>\<open>_source_group_entries(group, ["any"])\<close>.\<close>

definition source_group_entries :: "(pystr \<Rightarrow> pystr) \<Rightarrow> source_group option \<Rightarrow> pystr list" where
  "source_group_entries lo g =
     (let values = (case g of None \<Rightarrow> [] | Some g \<Rightarrow> filter (\<lambda>v. v \<noteq> []) (map strip (sg_entries g)))
      in map (normal_entry lo) (if values = [] then [ANY] else values))"

definition source_group_name_index :: "(pystr \<Rightarrow> pystr) \<Rightarrow> group_table \<Rightarrow> (pystr \<times> pystr) list" where
  "source_group_name_index lo gs =
     dict_of (map (\<lambda>(k, g). (lo (strip (sg_name g)), k)) (filter (\<lambda>(k, g). strip (sg_name g) \<noteq> []) gs))"

text \<open>
  The empty text stands for an entry that refers to no group. \<open>names\<close> is the optional index of the caller
  (\<open>names or _source_group_name_index(groups_by_id)\<close>).
\<close>

definition source_group_reference_target :: "(pystr \<Rightarrow> pystr) \<Rightarrow> group_table \<Rightarrow> (pystr \<times> pystr) list \<Rightarrow> pystr \<Rightarrow> pystr" where
  "source_group_reference_target lo gs names value =
     (let item = strip value; index = (if names = [] then source_group_name_index lo gs else names)
      in if startswith (lo item) FIREWALL_SOURCE_GROUP_REFERENCE_PREFIX
         then (let k = drop (length FIREWALL_SOURCE_GROUP_REFERENCE_PREFIX) item in if k \<in> fst ` set gs then k else [])
         else if startswith item [64]
         then (case map_of index (lo (strip (tl item))) of Some k \<Rightarrow> k | None \<Rightarrow> [])
         else [])"

abbreviation own_target :: "(pystr \<Rightarrow> pystr) \<Rightarrow> group_table \<Rightarrow> pystr \<Rightarrow> pystr" where
  "own_target lo gs \<equiv> source_group_reference_target lo gs (source_group_name_index lo gs)"

text \<open>New items are appended in order.\<close>

definition add_new :: "pystr list \<Rightarrow> pystr list \<Rightarrow> pystr list" where
  "add_new acc xs = foldl (\<lambda>a x. if x \<in> set a then a else a @ [x]) acc xs"

lemma dict_of_snd: "set (dict_of ps) \<subseteq> set ps"
proof -
  have "set (dict_set d k v) \<subseteq> insert (k, v) (set d)" for d :: "(pystr \<times> 'a) list" and k v
    by (induction d k v rule: dict_set.induct) auto
  then have "set (foldl (\<lambda>d (k, v). dict_set d k v) d ps) \<subseteq> set d \<union> set ps" for d
    by (induction ps arbitrary: d) fastforce+
  then show ?thesis unfolding dict_of_def by force
qed

lemma reference_target_known: "own_target lo gs v = k \<Longrightarrow> k \<noteq> [] \<Longrightarrow> k \<in> fst ` set gs"
proof -
  have "k \<in> fst ` set gs" if "map_of (source_group_name_index lo gs) n = Some k" for n k
  proof -
    have "(n, k) \<in> set (map (\<lambda>(k, g). (lo (strip (sg_name g)), k)) (filter (\<lambda>(k, g). strip (sg_name g) \<noteq> []) gs))"
      using map_of_SomeD [OF that] dict_of_snd unfolding source_group_name_index_def by (rule subsetD [rotated])
    then show ?thesis by force
  qed
  then show "own_target lo gs v = k \<Longrightarrow> k \<noteq> [] \<Longrightarrow> k \<in> fst ` set gs"
    by (auto simp: source_group_reference_target_def Let_def split: if_splits option.splits)
qed

lemma stack_measure:
  assumes "t \<in> fst ` set gs" "t \<notin> set stack"
  shows "card (fst ` set gs - insert t (set stack)) < card (fst ` set gs - set stack)"
  using assms by (intro psubset_card_mono) auto

text \<open>
  The loop of \<open>_expand_source_group_entries\<close> over the entries; \<open>stack\<close> are the groups being expanded.
\<close>

function expand_entries :: "(pystr \<Rightarrow> pystr) \<Rightarrow> group_table \<Rightarrow> pystr list \<Rightarrow> pystr list \<Rightarrow> pystr list \<Rightarrow> pystr list" where
  "expand_entries lo gs stack acc [] = (if acc = [] then [ANY] else acc)"
| "expand_entries lo gs stack acc (entry # rest) =
     (let n = strip entry; t = own_target lo gs n
      in if lo n = ANY then [ANY]
         else if t \<noteq> []
         then (if t \<in> set stack then expand_entries lo gs stack acc rest
               else let nested = expand_entries lo gs (stack @ [t]) [] (source_group_entries lo (map_of gs t))
                    in if nested = [ANY] then [ANY] else expand_entries lo gs stack (add_new acc nested) rest)
         else expand_entries lo gs stack (if n \<in> set acc then acc else acc @ [n]) rest)"
  by pat_completeness auto

termination
  by (relation "measures [\<lambda>(lo, gs, stack, acc, es). card (fst ` set gs - set stack), \<lambda>(lo, gs, stack, acc, es). length es]")
    (auto dest: stack_measure [OF reference_target_known [OF refl]])

definition expand_source_group_entries :: "(pystr \<Rightarrow> pystr) \<Rightarrow> group_table \<Rightarrow> source_group option \<Rightarrow> pystr list" where
  "expand_source_group_entries lo gs g = expand_entries lo gs [] [] (source_group_entries lo g)"

text \<open>\<open>"\n".join(sources)\<close>; the expansion is never empty.\<close>

definition source_group_to_rule_source :: "(pystr \<Rightarrow> pystr) \<Rightarrow> group_table \<Rightarrow> source_group \<Rightarrow> pystr" where
  "source_group_to_rule_source lo gs g = join_with 10 (expand_source_group_entries lo gs (Some g))"

text \<open>\<open>resolved_nat_source\<close> of \<open>traffic_publishing.py\<close>.\<close>

definition resolved_nat_source :: "(pystr \<Rightarrow> pystr) \<Rightarrow> source_group list \<Rightarrow> pystr \<Rightarrow> pystr option" where
  "resolved_nat_source lo groups source =
     (if startswith (lo source) FIREWALL_SOURCE_GROUP_REFERENCE_PREFIX
      then let gs = groups_by_id groups; key = strip (drop (length FIREWALL_SOURCE_GROUP_REFERENCE_PREFIX) source)
           in map_option (source_group_to_rule_source lo gs) (map_of gs key)
      else Some (strip source))"

section \<open>Validation\<close>

text \<open>The pieces between separators; empty pieces are dropped by every caller.\<close>

fun pieces :: "(nat \<Rightarrow> bool) \<Rightarrow> pystr \<Rightarrow> pystr list" where
  "pieces sep [] = [[]]"
| "pieces sep (c # s) = (if sep c then [] # pieces sep s
     else case pieces sep s of p # ps \<Rightarrow> (c # p) # ps | [] \<Rightarrow> [[c]])"

text \<open>\<open>re.split(r"[\n,]+", s)\<close>, stripped, without empty items.\<close>

definition source_values :: "pystr \<Rightarrow> pystr list" where
  "source_values s = filter (\<lambda>v. v \<noteq> []) (map strip (pieces (\<lambda>c. c = 10 \<or> c = 44) s))"

definition split_address_values :: "(pystr \<Rightarrow> pystr) \<Rightarrow> pystr \<Rightarrow> pystr list" where
  "split_address_values lo s = map lo (source_values s)"

definition looks_like_source_group_reference :: "(pystr \<Rightarrow> pystr) \<Rightarrow> pystr \<Rightarrow> bool" where
  "looks_like_source_group_reference lo v \<longleftrightarrow>
     startswith (strip v) [64] \<or> startswith (lo (strip v)) FIREWALL_SOURCE_GROUP_REFERENCE_PREFIX"

definition quoted_any :: pystr where
  "quoted_any = 39 # ANY @ [39]"

definition any_alone_error :: "pystr \<Rightarrow> pystr" where
  "any_alone_error label = label @ u '' can use '' @ quoted_any @ u '' only by itself.''"

definition bad_address_error :: "pystr \<Rightarrow> pystr" where
  "bad_address_error label = label @ u '' must be '' @ quoted_any @ u '' or valid IPv4/IPv6 addresses or CIDRs.''"

definition validate_address_value :: "(pystr \<Rightarrow> pystr) \<Rightarrow> pystr \<Rightarrow> pystr \<Rightarrow> pystr list" where
  "validate_address_value lo label value =
     (let vs = split_address_values lo value
      in if vs = [] then []
         else if ANY \<in> set vs then (if vs = [ANY] then [] else [any_alone_error label])
         else concat (map (\<lambda>v. if ip_interface v = None then [bad_address_error label] else []) vs))"

text \<open>\<open>str(group.get("name") or group_id or "Source Group")\<close>.\<close>

definition group_label :: "source_group \<Rightarrow> pystr" where
  "group_label g = (if sg_name g \<noteq> [] then sg_name g else if sg_id g \<noteq> [] then sg_id g else u ''Source Group'')"

text \<open>The first loop: errors and the index of names.\<close>

fun name_errors :: "(pystr \<Rightarrow> pystr) \<Rightarrow> (pystr \<times> pystr) list \<Rightarrow> source_group list \<Rightarrow> pystr list \<times> (pystr \<times> pystr) list" where
  "name_errors lo names [] = ([], names)"
| "name_errors lo names (g # gs) =
     (let label = group_label g; n = lo (strip label); (es, names') = name_errors lo (dict_set names n (sg_id g)) gs
      in ((if strip label = [] then [u ''Source Group name is required.'']
           else if map_of names n \<noteq> None \<and> map_of names n \<noteq> Some (sg_id g)
           then [u ''Source Group name '' @ 39 # label @ 39 # u '' is already used.''] else []) @ es, names'))"

definition group_errors :: "(pystr \<Rightarrow> pystr) \<Rightarrow> group_table \<Rightarrow> (pystr \<times> pystr) list \<Rightarrow> source_group \<Rightarrow> pystr list" where
  "group_errors lo gs names g =
     (let label = group_label g; entries = source_group_entries lo (Some g); target = source_group_reference_target lo gs names
      in if sg_id g = ANY \<and> entries \<noteq> [ANY] then [u ''Any is built in and must contain only '' @ quoted_any @ u ''.'']
         else concat (map (\<lambda>e. if lo (strip e) = ANY \<or> target e \<noteq> [] \<or> \<not> looks_like_source_group_reference lo e then []
                               else [label @ u '' references a Source Group that does not exist: '' @ e @ u ''.'']) entries)
            @ validate_address_value lo label (join_with 10 (filter (\<lambda>e. target e = []) entries))
            @ (if ANY \<in> set (map (lo \<circ> strip) entries) \<and> 1 < length entries
               then [any_alone_error label] else []))"

text \<open>
  The message of a cycle, \<open>path\<close> being the groups on the way to \<open>k\<close>, and the walk of
  \<open>_validate_source_group_cycles\<close> from one group.
\<close>

fun join_arrows :: "pystr list \<Rightarrow> pystr" where
  "join_arrows [] = []"
| "join_arrows [x] = x"
| "join_arrows (x # y # xs) = x @ u '' -> '' @ join_arrows (y # xs)"

definition cycle_error :: "group_table \<Rightarrow> pystr list \<Rightarrow> pystr \<Rightarrow> pystr" where
  "cycle_error gs path k =
     u ''Source Groups cannot reference each other in a cycle: ''
   @ join_arrows (concat (map (\<lambda>i. case map_of gs i of None \<Rightarrow> [] | Some g \<Rightarrow> [if sg_name g \<noteq> [] then sg_name g else i])
       (dropWhile (\<lambda>i. i \<noteq> k) path @ [k]))) @ u ''.''"

function visit :: "(pystr \<Rightarrow> pystr) \<Rightarrow> group_table \<Rightarrow> (pystr \<times> pystr) list \<Rightarrow> pystr list \<Rightarrow> pystr \<Rightarrow> pystr list" where
  "visit lo gs names path k =
     (if k \<in> set path then [cycle_error gs path k]
      else case map_of gs k of
        None \<Rightarrow> []
      | Some g \<Rightarrow> concat (map (\<lambda>e. let t = source_group_reference_target lo gs names e
                                   in if t = [] then [] else visit lo gs names (path @ [k]) t) (source_group_entries lo (Some g))))"
  by pat_completeness auto

termination
  by (relation "measure (\<lambda>(lo, gs, names, path, k). card (fst ` set gs - set path))")
    (auto dest!: map_of_SomeD intro!: stack_measure rev_image_eqI)

declare visit.simps [simp del]

definition validate_source_group_cycles :: "(pystr \<Rightarrow> pystr) \<Rightarrow> source_group list \<Rightarrow> group_table \<Rightarrow> (pystr \<times> pystr) list \<Rightarrow> pystr list" where
  "validate_source_group_cycles lo groups gs names =
     concat (map (\<lambda>g. if sg_id g = [] then [] else visit lo gs names [] (sg_id g)) groups)"

definition validate_firewall_source_groups :: "(pystr \<Rightarrow> pystr) \<Rightarrow> source_group list \<Rightarrow> pystr list" where
  "validate_firewall_source_groups lo groups =
     (let gs = groups_by_id groups; (errors, names) = name_errors lo [] groups
      in errors @ concat (map (group_errors lo gs names) groups) @ validate_source_group_cycles lo groups gs names)"

end
