(* ===== verification/Traffic_Publishing.thy ===== *)
theory Traffic_Publishing
  imports Source_Groups "HOL-Library.Product_Lexorder" "HOL-Library.List_Lexorder"
begin

text \<open>
  \<open>src/atlaso/app/services/traffic_publishing.py\<close>: the switches of source translation with the migration of
  their legacy setting, the interfaces a rule may use, the validation of source translation rules and the
  text handed to the privileged helper. \<open>lo\<close> is \<open>str.lower\<close>.
\<close>

section \<open>Settings\<close>

text \<open>The settings table: the value of every key that has a row.\<close>

type_synonym setting_table = "pystr \<Rightarrow> pystr option"

definition NAT_ENABLED_SETTING_KEY :: pystr where
  "NAT_ENABLED_SETTING_KEY = u ''traffic_publishing.nat_enabled''"

definition LEGACY_NAT_ENABLED_SETTING_KEY :: pystr where
  "LEGACY_NAT_ENABLED_SETTING_KEY = u ''routes_wan.nat_enabled''"

definition ROUTING_ENABLED_KEY :: pystr where
  "ROUTING_ENABLED_KEY = u ''routes_wan.routing_enabled''"

record traffic_settings =
  nat_enabled :: bool
  routing_enabled :: bool

definition effective_nat_enabled :: "traffic_settings \<Rightarrow> bool" where
  "effective_nat_enabled s \<longleftrightarrow> nat_enabled s \<and> routing_enabled s"

definition suspended :: "traffic_settings \<Rightarrow> bool" where
  "suspended s \<longleftrightarrow> nat_enabled s \<and> \<not> routing_enabled s"

definition settings_dict :: "traffic_settings \<Rightarrow> object" where
  "settings_dict s = [(u ''nat_enabled'', JBool (nat_enabled s)), (u ''routing_enabled'', JBool (routing_enabled s)),
     (u ''effective_nat_enabled'', JBool (effective_nat_enabled s)), (u ''suspended'', JBool (suspended s))]"

definition bool_text :: "bool \<Rightarrow> pystr" where
  "bool_text b = (if b then u ''true'' else u ''false'')"

definition true_words :: "pystr set" where
  "true_words = {u ''true'', u ''1'', u ''on'', u ''yes''}"

text \<open>\<open>any_enabled\<close> says whether an enabled NAT rule is saved.\<close>

definition ensure_traffic_publishing_settings ::
  "(pystr \<Rightarrow> pystr) \<Rightarrow> bool \<Rightarrow> bool \<Rightarrow> setting_table \<Rightarrow> traffic_settings \<times> setting_table" where
  "ensure_traffic_publishing_settings lo any_enabled force_disabled t =
     (let inferred = \<not> force_disabled \<and> any_enabled;
          found = (case t NAT_ENABLED_SETTING_KEY of
                     Some v \<Rightarrow> v
                   | None \<Rightarrow> (case t LEGACY_NAT_ENABLED_SETTING_KEY of Some v \<Rightarrow> v | None \<Rightarrow> bool_text inferred));
          value = (if force_disabled then u ''false'' else found)
      in (\<lparr> nat_enabled = (lo value \<in> true_words),
            routing_enabled = (case t ROUTING_ENABLED_KEY of None \<Rightarrow> False | Some v \<Rightarrow> lo v \<in> true_words) \<rparr>,
          t(NAT_ENABLED_SETTING_KEY \<mapsto> value, LEGACY_NAT_ENABLED_SETTING_KEY := None)))"

definition save_traffic_publishing_settings ::
  "(pystr \<Rightarrow> pystr) \<Rightarrow> bool \<Rightarrow> bool \<Rightarrow> setting_table \<Rightarrow> traffic_settings \<times> setting_table" where
  "save_traffic_publishing_settings lo any_enabled on t =
     (let (_, t') = ensure_traffic_publishing_settings lo any_enabled False t
      in ensure_traffic_publishing_settings lo any_enabled False (t'(NAT_ENABLED_SETTING_KEY \<mapsto> bool_text on)))"

section \<open>Interfaces\<close>

record physical_interface =
  pi_name :: pystr
  pi_mac :: pystr
  pi_cidr :: "pystr option"
  pi_cidr6 :: "pystr option"
  pi_admin_state :: pystr
  pi_oper_state :: pystr
  pi_role :: pystr
  pi_mode :: pystr

record vlan_interface =
  vl_name :: pystr
  vl_parent :: pystr
  vl_cidr :: "pystr option"
  vl_cidr6 :: "pystr option"
  vl_role :: pystr
  vl_enabled :: bool

definition INTERFACE_MODES :: "pystr list" where
  "INTERFACE_MODES = [u ''access'', u ''trunk'', u ''unused'']"

definition normalize_interface_mode :: "(pystr \<Rightarrow> pystr) \<Rightarrow> pystr \<Rightarrow> pystr" where
  "normalize_interface_mode lo mode =
     (let value = lo (strip (if mode = [] then u ''unused'' else mode))
      in if value = u ''routed'' then u ''access'' else if value \<in> set INTERFACE_MODES then value else u ''unused'')"

text \<open>A target; the display label and the fields with constant values are left out.\<close>

record nat_target =
  nt_name :: pystr
  nt_kind :: pystr
  nt_role :: pystr
  nt_physical :: pystr
  nt_mac :: pystr
  nt_cidr :: pystr
  nt_cidr6 :: pystr
  nt_families :: "int list"

definition or_empty :: "pystr option \<Rightarrow> pystr" where
  "or_empty v = (case v of None \<Rightarrow> [] | Some s \<Rightarrow> s)"

definition ip_families :: "pystr option \<Rightarrow> pystr option \<Rightarrow> int list" where
  "ip_families c4 c6 = map fst (filter (\<lambda>(family, cidr). case ip_interface (or_empty cidr) of
     None \<Rightarrow> False | Some i \<Rightarrow> int (address_version (fst i)) = family) [(4, c4), (6, c6)])"

text \<open>One turn of the loop, for an item with its parent.\<close>

definition target_of ::
  "(pystr \<Rightarrow> pystr) \<Rightarrow> bool \<Rightarrow> physical_interface option \<Rightarrow> pystr \<Rightarrow> pystr \<Rightarrow> bool \<Rightarrow> pystr option \<Rightarrow> pystr option \<Rightarrow> nat_target list" where
  "target_of lo is_vlan parent name role on c4 c6 = (case parent of
     None \<Rightarrow> []
   | Some pa \<Rightarrow>
       if pi_admin_state pa \<noteq> u ''up'' \<or> pi_oper_state pa = u ''missing'' \<or> role \<notin> {u ''access'', u ''route''}
          \<or> normalize_interface_mode lo (pi_mode pa) \<noteq> (if is_vlan then u ''trunk'' else u ''access'')
          \<or> is_vlan \<and> \<not> on \<or> ip_families c4 c6 = []
       then []
       else [\<lparr> nt_name = name, nt_kind = (if is_vlan then u ''vlan'' else u ''physical''), nt_role = role,
               nt_physical = pi_name pa, nt_mac = pi_mac pa, nt_cidr = or_empty c4, nt_cidr6 = or_empty c6,
               nt_families = ip_families c4 c6 \<rparr>])"

definition nat_targets :: "(pystr \<Rightarrow> pystr) \<Rightarrow> physical_interface list \<Rightarrow> vlan_interface list \<Rightarrow> nat_target list" where
  "nat_targets lo interfaces vlans =
     (let parents = map_of (rev (map (\<lambda>i. (pi_name i, i)) interfaces))
      in sort_key (\<lambda>t. (nt_name t, nt_kind t))
           (concat (map (\<lambda>i. target_of lo False (Some i) (pi_name i) (pi_role i) True (pi_cidr i) (pi_cidr6 i)) interfaces)
          @ concat (map (\<lambda>v. target_of lo True (parents (vl_parent v)) (vl_name v) (vl_role v) (vl_enabled v) (vl_cidr v) (vl_cidr6 v)) vlans)))"

section \<open>Rules\<close>

text \<open>
  A saved rule. The inbound interfaces are a JSON column; an absent family or mode is the default of the code.
\<close>

record nat_rule =
  nr_name :: pystr
  nr_enabled :: bool
  nr_source :: pystr
  nr_inbound :: json
  nr_family :: "int option"
  nr_outbound :: pystr
  nr_mode :: pystr
  nr_translated :: pystr
  nr_masquerade :: bool
  nr_priority :: int

definition canonical_name :: "pystr \<Rightarrow> bool" where
  "canonical_name s \<longleftrightarrow> 1 \<le> length s \<and> length s \<le> 80 \<and> list_all (\<lambda>c. ascii_alnum c \<or> c \<in> set (u ''_.:-'')) s"

text \<open>The names of the inbound interfaces, if the column holds a list of canonical names or nothing.\<close>

definition inbound_names :: "nat_rule \<Rightarrow> pystr list option" where
  "inbound_names r =
     (if \<not> truthy (nr_inbound r) then Some []
      else case nr_inbound r of
        JArr js \<Rightarrow> (let ns = List.map_filter (\<lambda>j. case j of JStr s \<Rightarrow> if canonical_name s then Some s else None | _ \<Rightarrow> None) js
                    in if length ns = length js then Some ns else None)
      | _ \<Rightarrow> None)"

definition rule_family :: "nat_rule \<Rightarrow> int" where
  "rule_family r = (case nr_family r of None \<Rightarrow> 4 | Some f \<Rightarrow> f)"

definition rule_mode :: "nat_rule \<Rightarrow> pystr" where
  "rule_mode r = (if nr_mode r = [] then u ''masquerade'' else nr_mode r)"

text \<open>Whether the source names only addresses of one family.\<close>

definition source_accepted :: "(pystr \<Rightarrow> pystr) \<Rightarrow> source_group list \<Rightarrow> pystr \<Rightarrow> int \<Rightarrow> bool" where
  "source_accepted lo groups source family = (case resolved_nat_source lo groups source of
     None \<Rightarrow> False
   | Some s \<Rightarrow> s \<noteq> [] \<and> (lo s = ANY
       \<or> (source_values s \<noteq> [] \<and> list_all (\<lambda>v. case ip_interface v of
            None \<Rightarrow> False | Some i \<Rightarrow> int (address_version (fst i)) = family) (source_values s))))"

definition translation_accepted :: "nat_target option \<Rightarrow> bool \<Rightarrow> nat_rule \<Rightarrow> bool" where
  "translation_accepted egress active r = (case ip_address (nr_translated r) of
     None \<Rightarrow> False
   | Some a \<Rightarrow> int (address_version a) = rule_family r
       \<and> (active \<longrightarrow> (case egress of
            None \<Rightarrow> False
          | Some t \<Rightarrow> (case ip_interface (if rule_family r = 4 then nt_cidr t else nt_cidr6 t) of
              None \<Rightarrow> False | Some i \<Rightarrow> interface_ip (fst i) = a))))"

definition err_if :: "bool \<Rightarrow> pystr \<Rightarrow> pystr list" where
  "err_if b e = (if b then [e] else [])"

definition validate_nat_rule ::
  "(pystr \<Rightarrow> pystr) \<Rightarrow> nat_target list \<Rightarrow> source_group list \<Rightarrow> bool \<Rightarrow> bool \<Rightarrow> nat_rule \<Rightarrow> pystr list" where
  "validate_nat_rule lo targets groups creating allow_legacy r =
     (let family = rule_family r; mode = rule_mode r; active = creating \<or> nr_enabled r;
          eligible = map_of (rev (map (\<lambda>t. (nt_name t, t)) (filter (\<lambda>t. family \<in> set (nt_families t)) targets)))
      in case inbound_names r of
           None \<Rightarrow> [u ''NAT inbound interfaces must be canonical interface/VLAN names.'']
         | Some inbound \<Rightarrow>
             err_if (family \<notin> {4, 6}) (u ''NAT IP family must be IPv4 or IPv6.'')
           @ err_if (mode \<notin> {u ''masquerade'', u ''snat''}) (u ''Choose interface-address masquerade or fixed SNAT.'')
           @ err_if (nr_enabled r \<and> mode = u ''masquerade'' \<and> \<not> nr_masquerade r)
               (u ''Legacy non-masquerade NAT requires explicit translation review.'')
           @ err_if (128 < length inbound \<or> \<not> distinct inbound)
               (u ''NAT inbound interfaces must be unique and contain at most 128 targets.'')
           @ err_if (\<not> canonical_name (nr_outbound r)) (u ''Select a canonical outbound interface name.'')
           @ err_if (nr_outbound r \<in> set inbound) (u ''NAT inbound and outbound interfaces must be different.'')
           @ err_if (active \<and> inbound = [] \<and> \<not> allow_legacy)
               (u ''Select at least one inbound interface or VLAN; legacy NAT rules require explicit review.'')
           @ (if active then concat (map (\<lambda>name. err_if (eligible name = None)
                (u ''NAT target '' @ name @ u '' is unavailable; select an enabled non-management IPv'' @ dec_int family
                 @ u '' interface or VLAN.'')) (inbound @ [nr_outbound r])) else [])
           @ err_if (\<not> source_accepted lo groups (nr_source r) family)
               (u ''NAT source is invalid; select a valid Source Group or IPv'' @ dec_int family @ u '' addresses or CIDRs.'')
           @ (if mode = u ''snat''
              then err_if (\<not> translation_accepted (eligible (nr_outbound r)) active r)
                     (u ''Fixed SNAT requires a valid same-family address assigned to the selected egress interface.'')
              else err_if (nr_translated r \<noteq> []) (u ''Interface-address masquerade cannot specify a fixed translated address.''))
           @ err_if (nr_priority r < 0) (u ''NAT priority cannot be negative.''))"

section \<open>The configuration text\<close>

fun join_lines :: "pystr list \<Rightarrow> pystr" where
  "join_lines [] = []"
| "join_lines [x] = x"
| "join_lines (x # y # xs) = x @ 10 # join_lines (y # xs)"

definition replace_char :: "nat \<Rightarrow> pystr \<Rightarrow> pystr \<Rightarrow> pystr" where
  "replace_char c by' s = concat (map (\<lambda>x. if x = c then by' else [x]) s)"

definition is_hex :: "nat \<Rightarrow> bool" where
  "is_hex c \<longleftrightarrow> hex_value c \<noteq> None"

definition mac_address :: "pystr \<Rightarrow> bool" where
  "mac_address s \<longleftrightarrow> length s = 17 \<and> (\<forall>i \<in> set [0..<17]. if i mod 3 = 2 then s ! i = 58 else is_hex (s ! i))"

definition setting_line :: "string \<Rightarrow> pystr \<Rightarrow> pystr" where
  "setting_line key value = u ''  '' @ u key @ 61 # value"

definition target_lines :: "nat_target \<Rightarrow> pystr list option" where
  "target_lines t =
     (if \<not> canonical_name (nt_name t) \<or> \<not> canonical_name (nt_physical t) \<or> nt_mac t \<noteq> [] \<and> \<not> mac_address (nt_mac t) then None
      else Some [u ''target='' @ nt_name t, setting_line ''kind'' (nt_kind t), setting_line ''role'' (nt_role t),
        setting_line ''routing_domain'' (u ''lab''), setting_line ''nat_allowed'' (u ''true''), setting_line ''route_allowed'' (u ''true''),
        setting_line ''nat_physical_interface'' (nt_physical t), setting_line ''nat_physical_mac'' (nt_mac t),
        setting_line ''ip_cidr'' (nt_cidr t), setting_line ''ipv6_cidr'' (nt_cidr6 t)])"

definition rule_value :: "pystr \<Rightarrow> pystr" where
  "rule_value v = replace_char 13 [] (replace_char 10 [44] v)"

definition rule_lines :: "(pystr \<Rightarrow> pystr) \<Rightarrow> source_group list \<Rightarrow> nat_rule \<Rightarrow> pystr list option" where
  "rule_lines lo groups r = (case inbound_names r of
     None \<Rightarrow> None
   | Some inbound \<Rightarrow> Some ((u ''nat='' @ replace_char 13 [32] (replace_char 10 [32] (nr_name r)))
       # map (\<lambda>(key, value). setting_line key (rule_value value))
         [(''enabled'', bool_text (nr_enabled r)),
          (''ip_family'', dec_int (case nr_family r of Some f \<Rightarrow> if f = 0 then 4 else f | None \<Rightarrow> 4)),
          (''masquerade'', bool_text (nr_masquerade r)), (''source'', nr_source r),
          (''source_resolved'', case resolved_nat_source lo groups (nr_source r) of Some s \<Rightarrow> s | None \<Rightarrow> u ''invalid''),
          (''inbound_interfaces'', join_with 44 inbound), (''outbound_interface'', nr_outbound r),
          (''translation_mode'', rule_mode r), (''translated_address'', nr_translated r), (''priority'', dec_int (nr_priority r))]))"

text \<open>The value of every element, or \<open>None\<close> if one of them raises.\<close>

fun collect :: "('a \<Rightarrow> 'b list option) \<Rightarrow> 'a list \<Rightarrow> 'b list option" where
  "collect f [] = Some []"
| "collect f (x # xs) = (case (f x, collect f xs) of (Some y, Some ys) \<Rightarrow> Some (y @ ys) | _ \<Rightarrow> None)"

definition render_nat_config ::
  "(pystr \<Rightarrow> pystr) \<Rightarrow> nat_rule list \<Rightarrow> nat_target list \<Rightarrow> source_group list \<Rightarrow> traffic_settings \<Rightarrow> pystr option" where
  "render_nat_config lo rules targets groups s =
     (case (collect target_lines targets, collect (rule_lines lo groups) (sort_key (\<lambda>r. (nr_priority r, nr_name r)) rules)) of
        (Some ts, Some rs) \<Rightarrow> Some (join_lines
          ([u ''# Managed by Atlaso Traffic Publishing.'', u ''[feature_settings]'', u ''routing_enabled='' @ bool_text (routing_enabled s),
            u ''nat_enabled='' @ bool_text (nat_enabled s), u ''wan_simulation_enabled=false'', [], u ''[targets]'']
           @ ts @ [[], u ''[nat_rules]''] @ rs @ [[]]))
      | _ \<Rightarrow> None)"

end
