(* ===== verification/Port_Forwarding.thy ===== *)
theory Port_Forwarding
  imports Traffic_Publishing
begin

text \<open>
  \<open>src/atlaso/app/services/port_forwarding.py\<close> and the request schema of \<open>port_forward_schemas.py\<close>:
  validation of destination translations, their transactional storage, what is projected from them for the
  firewall and the privileged helper, and the comparison with what the helper observes. The context of a
  validation (interfaces, Source Groups and the appliance's own listeners) is an argument.
\<close>

section \<open>Rules\<close>

record port_forward =
  pw_id :: "int option"
  pw_name :: pystr
  pw_description :: pystr
  pw_priority :: int
  pw_enabled :: bool
  pw_family :: int
  pw_ingress :: pystr
  pw_listener :: pystr
  pw_protocol :: pystr
  pw_ext_start :: int
  pw_ext_end :: int
  pw_target :: pystr
  pw_tgt_start :: int
  pw_tgt_end :: int
  pw_source :: pystr
  pw_reply :: pystr
  pw_review :: bool

record listener_claim =
  lc_interface :: pystr
  lc_address :: pystr
  lc_protocol :: pystr
  lc_start :: int
  lc_end :: int

record network_interface =
  ni_cidr :: "pystr option"
  ni_cidr6 :: "pystr option"
  ni_role :: pystr

record forward_context =
  fc_targets :: "nat_target list"
  fc_interfaces :: "network_interface list"
  fc_groups :: "source_group list"
  fc_claims :: "listener_claim list"

datatype forward_error = ForwardValueError string | ForwardLookupError string | AddressValueError

definition MAX_PORT_FORWARDS :: nat where "MAX_PORT_FORWARDS = 256"

definition MAX_MAPPED_PORTS :: int where "MAX_MAPPED_PORTS = 65535"

section \<open>The request schema\<close>

definition utf16_length :: "pystr \<Rightarrow> nat" where
  "utf16_length s = sum_list (map (\<lambda>c. if 0xFFFF < c then 2 else 1) s)"

definition name_char :: "nat \<Rightarrow> bool" where
  "name_char c \<longleftrightarrow> ascii_alnum c \<or> c \<in> set (u ''_.:-'')"

definition port_ok :: "int \<Rightarrow> bool" where
  "port_ok p \<longleftrightarrow> 1 \<le> p \<and> p \<le> 65535"

definition length_within :: "nat \<Rightarrow> nat \<Rightarrow> pystr \<Rightarrow> bool" where
  "length_within lo hi s \<longleftrightarrow> lo \<le> length s \<and> length s \<le> hi"

text \<open>\<open>validate_mapping\<close>.\<close>

definition validate_mapping :: "port_forward \<Rightarrow> bool \<Rightarrow> bool" where
  "validate_mapping r acknowledged \<longleftrightarrow>
     (let external = pw_ext_end r - pw_ext_start r; target = pw_tgt_end r - pw_tgt_start r
      in \<not> (external < 0 \<or> target < 0 \<or> external \<noteq> target) \<and> \<not> (pw_reply r = u ''masquerade'' \<and> \<not> acknowledged))"

text \<open>
  The field constraints of \<open>PortForwardCreate\<close>. Surrounding white space of text fields is dropped first
  (\<open>str_strip_whitespace\<close>, the parameter \<open>tr\<close>); literal fields are compared as they are.
\<close>

definition port_forward_create :: "(pystr \<Rightarrow> pystr) \<Rightarrow> port_forward \<Rightarrow> bool \<Rightarrow> bool" where
  "port_forward_create tr r acknowledged \<longleftrightarrow>
     length_within 1 120 (tr (pw_name r)) \<and> utf16_length (tr (pw_description r)) \<le> 1000
   \<and> 0 \<le> pw_priority r \<and> pw_priority r \<le> 2147483647 \<and> pw_family r \<in> {4, 6}
   \<and> length_within 1 80 (tr (pw_ingress r)) \<and> list_all name_char (tr (pw_ingress r))
   \<and> length_within 2 45 (tr (pw_listener r)) \<and> pw_protocol r \<in> {u ''tcp'', u ''udp''}
   \<and> port_ok (pw_ext_start r) \<and> port_ok (pw_ext_end r) \<and> length_within 2 45 (tr (pw_target r))
   \<and> port_ok (pw_tgt_start r) \<and> port_ok (pw_tgt_end r) \<and> length_within 1 4096 (tr (pw_source r))
   \<and> pw_reply r \<in> {u ''preserve'', u ''masquerade''} \<and> validate_mapping r acknowledged"

section \<open>Addresses and sources\<close>

definition unicast_address :: "pystr \<Rightarrow> int \<Rightarrow> address option" where
  "unicast_address value family = (case ip_address value of
     None \<Rightarrow> None
   | Some a \<Rightarrow>
       if int (address_version a) \<noteq> family \<or> 37 \<in> set value \<or> is_loopback a \<or> is_link_local a \<or> is_multicast a
          \<or> is_unspecified a \<or> is_reserved a \<or> is_ipv4_mapped a
       then None else Some a)"

definition source_networks :: "(pystr \<Rightarrow> pystr) \<Rightarrow> source_group list \<Rightarrow> pystr \<Rightarrow> int \<Rightarrow> pystr list option" where
  "source_networks lo groups source family = (case resolved_nat_source lo groups source of
     None \<Rightarrow> None
   | Some resolved \<Rightarrow>
       if lo resolved = ANY then Some []
       else let values = source_values resolved; networks = map ip_interface values
            in if values = [] \<or> 128 < length values \<or> None \<in> set networks
                  \<or> list_ex (\<lambda>n. int (address_version (fst (the n))) \<noteq> family) networks
               then None
               else Some (sort (remdups (map (network_str \<circ> the) networks))))"

section \<open>Validation\<close>

text \<open>\<open>list(dict.fromkeys(errors))\<close>.\<close>

definition unique_errors :: "string list \<Rightarrow> string list" where
  "unique_errors es = rev (remdups (rev es))"

text \<open>An address of the ingress interface that cannot be parsed raises.\<close>

definition binding_error :: "forward_context \<Rightarrow> port_forward \<Rightarrow> address \<Rightarrow> forward_error + string list" where
  "binding_error c r listener =
     (let ingress = map_of (rev (map (\<lambda>t. (nt_name t, t)) (fc_targets c))) (pw_ingress r);
          cidr = (case ingress of None \<Rightarrow> [] | Some t \<Rightarrow> if pw_family r = 4 then nt_cidr t else nt_cidr6 t)
      in if cidr = [] then Inr [''Select an exact assigned listener on an enabled same-family access or route interface or VLAN.'']
         else case ip_interface cidr of
           None \<Rightarrow> Inl AddressValueError
         | Some i \<Rightarrow> Inr (if interface_ip (fst i) \<noteq> listener
             then [''Select an exact assigned listener on an enabled same-family access or route interface or VLAN.''] else []))"

definition assigned_errors :: "port_forward \<Rightarrow> pystr \<Rightarrow> address \<Rightarrow> address \<Rightarrow> address \<times> nat \<Rightarrow> string list" where
  "assigned_errors r role listener target i =
     (if target = interface_ip (fst i) then [''A port-forward target cannot be an Atlaso appliance address.''] else [])
   @ (if int (address_version (fst i)) \<noteq> pw_family r then []
      else (if role = u ''management'' \<and> in_network target i
            then [''Dedicated management networks cannot be port-forward targets.''] else [])
         @ (if address_version (fst i) = 4 \<and> snd i < 31
               \<and> (address_value listener \<in> {network_value i, broadcast_value i} \<or> address_value target \<in> {network_value i, broadcast_value i})
            then [''Listener and target addresses cannot be subnet network or broadcast addresses.''] else []))"

definition interface_errors :: "port_forward \<Rightarrow> address \<Rightarrow> address \<Rightarrow> network_interface \<Rightarrow> string list" where
  "interface_errors r listener target ni =
     concat (map (\<lambda>cidr. case ip_interface (case cidr of None \<Rightarrow> [] | Some s \<Rightarrow> s) of
         None \<Rightarrow> [] | Some i \<Rightarrow> assigned_errors r (ni_role ni) listener target i) [ni_cidr ni, ni_cidr6 ni])"

definition claims_port :: "port_forward \<Rightarrow> address \<Rightarrow> listener_claim \<Rightarrow> bool" where
  "claims_port r listener c \<longleftrightarrow>
     lc_interface c \<in> {u ''*'', pw_ingress r}
   \<and> (lc_address c \<in> {u ''*'', u ''::'', address_str listener} \<or> lc_address c = u ''0.0.0.0'' \<and> pw_family r = 4)
   \<and> lc_protocol c = pw_protocol r \<and> pw_ext_start r \<le> lc_end c \<and> lc_start c \<le> pw_ext_end r"

text \<open>Two rules on the same endpoint whose port ranges meet.\<close>

definition overlapping :: "port_forward \<Rightarrow> address \<Rightarrow> port_forward \<Rightarrow> bool" where
  "overlapping r listener p \<longleftrightarrow>
     pw_family p = pw_family r \<and> pw_listener p = address_str listener \<and> pw_protocol p = pw_protocol r
   \<and> pw_ext_start p \<le> pw_ext_end r \<and> pw_ext_start r \<le> pw_ext_end p"

definition mapped_ports :: "port_forward \<Rightarrow> int" where
  "mapped_ports r = pw_ext_end r - pw_ext_start r + 1"

definition peer_errors :: "port_forward \<Rightarrow> address \<Rightarrow> port_forward list \<Rightarrow> string list" where
  "peer_errors r listener peers =
     (if list_ex (\<lambda>p. \<not> (pw_id p = pw_id r \<and> pw_id r \<noteq> None \<or> \<not> pw_enabled p \<or> \<not> pw_enabled r) \<and> overlapping r listener p) peers
      then [''Enabled port forwards cannot overlap on the same family, listener, protocol and external ports.''] else [])
   @ (if pw_enabled r \<and> MAX_MAPPED_PORTS < mapped_ports r
           + sum_list (map mapped_ports (filter (\<lambda>p. pw_enabled p \<and> (pw_id r = None \<or> pw_id p \<noteq> pw_id r)) peers))
      then [''Enabled port forwards may map at most 65535 external ports in total.''] else [])"

definition review_error :: string where
  "review_error = ''Review the name, family, source boundary, unicast addresses, protocol and equal-length port mapping.''"

definition validate_port_forward ::
  "(pystr \<Rightarrow> pystr) \<Rightarrow> (pystr \<Rightarrow> pystr) \<Rightarrow> forward_context \<Rightarrow> bool \<Rightarrow> port_forward \<Rightarrow> port_forward list \<Rightarrow> forward_error + string list" where
  "validate_port_forward tr lo c require_binding r peers =
     (case (unicast_address (pw_listener r) (pw_family r), unicast_address (pw_target r) (pw_family r),
            source_networks lo (fc_groups c) (pw_source r) (pw_family r)) of
        (Some listener, Some target, Some _) \<Rightarrow>
          if \<not> port_forward_create tr r True then Inr [review_error]
          else bindE (if require_binding then binding_error c r listener else Inr []) (\<lambda>binding.
            Inr (unique_errors
            ((if address_str listener \<noteq> pw_listener r \<or> address_str target \<noteq> pw_target r
              then [''Port-forward listener and target addresses must use canonical IP notation.''] else [])
           @ binding
           @ concat (map (interface_errors r listener target) (fc_interfaces c))
           @ (if list_ex (claims_port r listener) (fc_claims c)
              then [''The external mapping collides with an Atlaso-owned service or protocol listener.''] else [])
           @ peer_errors r listener peers)))
      | _ \<Rightarrow> Inr [review_error])"

section \<open>The appliance's own listeners\<close>

datatype listener_service = Kms | Ldap | Oidc | Ntp | VcfBackup | VcfDepot | VcfRegistry

text \<open>A settings row: \<open>ls_port2\<close> is \<open>ldap_port\<close> or \<open>nts_ke_port\<close>, with the flags that enable each port.\<close>

record listener_settings =
  ls_service :: listener_service
  ls_enabled :: bool
  ls_port :: int
  ls_port2 :: int
  ls_port_on :: bool
  ls_port2_on :: bool
  ls_address :: pystr
  ls_interface :: pystr

record pxe_settings =
  px_enabled :: bool
  px_interface :: pystr
  px_port :: int

definition listener_specs :: "(listener_service \<times> bool \<times> string) list" where
  "listener_specs = [(Kms, False, ''tcp''), (Ldap, False, ''tcp''), (Ldap, True, ''tcp''), (Oidc, False, ''tcp''),
     (Ntp, False, ''udp''), (Ntp, True, ''tcp''), (VcfBackup, False, ''tcp''), (VcfDepot, False, ''tcp''),
     (VcfRegistry, False, ''tcp'')]"

text \<open>\<open>str.splitlines\<close> and the white space of \<open>re\<close> share these separators.\<close>

definition line_break :: "nat \<Rightarrow> bool" where
  "line_break c \<longleftrightarrow> c \<in> {10, 11, 12, 13, 28, 29, 30, 0x85, 0x2028, 0x2029}"

definition split_addresses :: "pystr \<Rightarrow> pystr list" where
  "split_addresses raw = rev (remdups (rev (filter (\<lambda>v. v \<noteq> []) (map strip (pieces (\<lambda>c. c = 44 \<or> line_break c) raw)))))"

definition interface_names :: "pystr \<Rightarrow> pystr list" where
  "interface_names s = filter (\<lambda>v. v \<noteq> []) (pieces (\<lambda>c. c = 44 \<or> is_space c) s)"

definition claim_one :: "pystr \<Rightarrow> pystr \<Rightarrow> string \<Rightarrow> int \<Rightarrow> listener_claim" where
  "claim_one name address protocol port =
     \<lparr> lc_interface = name, lc_address = address, lc_protocol = u protocol, lc_start = port, lc_end = port \<rparr>"

definition service_claims :: "listener_settings list \<Rightarrow> listener_service \<times> bool \<times> string \<Rightarrow> forward_error + listener_claim list" where
  "service_claims settings spec = (case spec of (service, second, protocol) \<Rightarrow>
     (case List.find (\<lambda>r. ls_service r = service) settings of
        None \<Rightarrow> Inr []
      | Some r \<Rightarrow>
          if \<not> ls_enabled r \<or> (service = Ldap \<and> \<not> (if second then ls_port2_on r else ls_port_on r))
             \<or> (service = Ntp \<and> second \<and> \<not> ls_port2_on r)
          then Inr []
          else bindE (mapE (\<lambda>a. case ip_address a of None \<Rightarrow> Inl AddressValueError | Some x \<Rightarrow> Inr (address_str x))
                  (split_addresses (ls_address r))) (\<lambda>parsed.
            let addresses = (if parsed = [] then [u ''*''] else parsed); port = (if second then ls_port2 r else ls_port r)
            in Inr (concat (map (\<lambda>name. map (\<lambda>a. claim_one name a protocol port) addresses) (interface_names (ls_interface r)))))))"

definition listener_claims_for_settings :: "listener_settings list \<Rightarrow> pxe_settings \<Rightarrow> forward_error + listener_claim list" where
  "listener_claims_for_settings settings pxe =
     bindE (mapE (service_claims settings) listener_specs) (\<lambda>services.
     Inr (map (claim_one (u ''*'') (u ''*'') ''tcp'') [22, 80, 443] @ concat services
        @ map (claim_one (u ''*'') (u ''*'') ''udp'') [53, 67, 68, 69, 111, 547]
        @ map (claim_one (u ''*'') (u ''*'') ''tcp'') [53, 111, 2049, 20048]
        @ (if px_enabled pxe then map (\<lambda>name. claim_one name (u ''*'') ''tcp'' (px_port pxe)) (interface_names (px_interface pxe)) else [])))"

text \<open>What \<open>validation_context\<close> collects, from the rows it reads.\<close>

definition interface_row :: "physical_interface + vlan_interface \<Rightarrow> network_interface" where
  "interface_row x = (case x of
     Inl i \<Rightarrow> \<lparr> ni_cidr = pi_cidr i, ni_cidr6 = pi_cidr6 i, ni_role = pi_role i \<rparr>
   | Inr v \<Rightarrow> \<lparr> ni_cidr = vl_cidr v, ni_cidr6 = vl_cidr6 v, ni_role = vl_role v \<rparr>)"

definition validation_context ::
  "(pystr \<Rightarrow> pystr) \<Rightarrow> physical_interface list \<Rightarrow> vlan_interface list \<Rightarrow> source_group list \<Rightarrow> listener_settings list \<Rightarrow> pxe_settings \<Rightarrow>
   forward_error + forward_context" where
  "validation_context lo interfaces vlans groups settings pxe =
     bindE (listener_claims_for_settings settings pxe) (\<lambda>claims.
     Inr \<lparr> fc_targets = nat_targets lo interfaces vlans, fc_interfaces = map interface_row (map Inl interfaces @ map Inr vlans),
           fc_groups = groups, fc_claims = claims \<rparr>)"

section \<open>Transactions\<close>

record forward_tables =
  forwards :: "port_forward list"
  forward_audits :: "(pystr \<times> string \<times> int) list"

type_synonym 'a forward_prog = "(forward_tables, forward_error, 'a) prog"

definition forward_by_id :: "int \<Rightarrow> forward_tables \<Rightarrow> port_forward option" where
  "forward_by_id k t = List.find (\<lambda>r. pw_id r = Some k) (forwards t)"

text \<open>
  \<open>save_port_forward\<close> under the shared write lock; every failure rolls the transaction back. \<open>fresh\<close> is the
  identifier the database gives a new row; names and identifiers are unique.
\<close>

definition canonical_values :: "port_forward \<Rightarrow> forward_error + port_forward" where
  "canonical_values r = (case (ip_address (pw_listener r), ip_address (pw_target r)) of
     (Some l, Some t) \<Rightarrow> Inr (r\<lparr>pw_listener := address_str l, pw_target := address_str t\<rparr>)
   | _ \<Rightarrow> Inl AddressValueError)"

definition join_errors :: "string list \<Rightarrow> string" where
  "join_errors es = concat (map (\<lambda>e. e @ '' '') (butlast es)) @ last es"

definition store_forward :: "pystr \<Rightarrow> int \<Rightarrow> int option \<Rightarrow> port_forward \<Rightarrow> port_forward forward_prog" where
  "store_forward actor fresh rule_id r t =
     (let k = (case rule_id of Some k \<Rightarrow> k | None \<Rightarrow> fresh); row = r\<lparr>pw_id := Some k, pw_review := False\<rparr>
      in if list_ex (\<lambda>p. pw_id p \<noteq> rule_id \<and> (pw_name p = pw_name r \<or> pw_id p = Some k)) (forwards t)
         then (Inl (ForwardValueError ''A port forward with that name already exists.''), t)
         else if \<not> (1 \<le> k \<and> k \<le> 0xFFFFFF)
         then (Inl (ForwardValueError ''Port-forward identity capacity is exhausted; contact the appliance maintainer.''), t)
         else (Inr row, t\<lparr>forwards := (if rule_id = None then forwards t @ [row]
                                       else map (\<lambda>p. if pw_id p = rule_id then row else p) (forwards t)),
                        forward_audits := forward_audits t @ [(actor, if rule_id = None then ''create_port_forward'' else ''update_port_forward'', k)]\<rparr>))"

definition save_port_forward ::
  "(pystr \<Rightarrow> pystr) \<Rightarrow> (pystr \<Rightarrow> pystr) \<Rightarrow> forward_context \<Rightarrow> int \<Rightarrow> pystr \<Rightarrow> port_forward \<Rightarrow> int option \<Rightarrow> port_forward forward_prog" where
  "save_port_forward tr lo c fresh actor payload rule_id =
     bindS (getS forwards) (\<lambda>peers.
     bindS (getS (\<lambda>t. case rule_id of None \<Rightarrow> True | Some k \<Rightarrow> forward_by_id k t \<noteq> None)) (\<lambda>exists.
     bindS (liftS (raise_if (\<not> exists) (ForwardLookupError ''Port forward does not exist.''))) (\<lambda>_.
     bindS (liftS (raise_if (rule_id = None \<and> MAX_PORT_FORWARDS \<le> length peers)
              (ForwardValueError ''At most 256 port forwards may be saved.''))) (\<lambda>_.
     bindS (liftS (canonical_values (payload\<lparr>pw_id := rule_id\<rparr>))) (\<lambda>candidate.
     bindS (liftS (validate_port_forward tr lo c True candidate peers)) (\<lambda>errors.
     bindS (liftS (raise_if (errors \<noteq> []) (ForwardValueError (join_errors errors)))) (\<lambda>_.
     store_forward actor fresh rule_id candidate)))))))"

definition delete_port_forward :: "int \<Rightarrow> pystr \<Rightarrow> unit forward_prog" where
  "delete_port_forward k actor t =
     (if forward_by_id k t = None then (Inl (ForwardLookupError ''Port forward does not exist.''), t)
      else (Inr (), t\<lparr>forwards := filter (\<lambda>r. pw_id r \<noteq> Some k) (forwards t),
                      forward_audits := forward_audits t @ [(actor, ''delete_port_forward'', k)]\<rparr>))"

text \<open>What \<open>PortForwardCreate(...)\<close> keeps of the values of a row.\<close>

definition stripped_values :: "(pystr \<Rightarrow> pystr) \<Rightarrow> port_forward \<Rightarrow> port_forward" where
  "stripped_values tr r = r\<lparr>pw_name := tr (pw_name r), pw_description := tr (pw_description r), pw_ingress := tr (pw_ingress r),
     pw_listener := tr (pw_listener r), pw_target := tr (pw_target r), pw_source := tr (pw_source r)\<rparr>"

definition set_port_forward_enabled ::
  "(pystr \<Rightarrow> pystr) \<Rightarrow> (pystr \<Rightarrow> pystr) \<Rightarrow> forward_context \<Rightarrow> int \<Rightarrow> pystr \<Rightarrow> bool \<Rightarrow> port_forward forward_prog" where
  "set_port_forward_enabled tr lo c k actor on t = (case forward_by_id k t of
     None \<Rightarrow> (Inl (ForwardLookupError ''Port forward does not exist.''), t)
   | Some r \<Rightarrow>
       if \<not> port_forward_create tr (r\<lparr>pw_enabled := on\<rparr>) True then (Inl (ForwardValueError ''PortForwardCreate''), t)
       else save_port_forward tr lo c 0 actor (stripped_values tr (r\<lparr>pw_enabled := on\<rparr>)) (Some k) t)"

end
