(* ===== verification/Source_Group_Thms.thy ===== *)
theory Source_Group_Thms
  imports Source_Groups
begin

text \<open>
  The expansion of Source Groups against reachability: what a table of groups that passed validation
  expands to.
\<close>

section \<open>Reachable entries\<close>

text \<open>An entry that stands for every address, in the list or in a group it refers to.\<close>

inductive has_any :: "(pystr \<Rightarrow> pystr) \<Rightarrow> group_table \<Rightarrow> pystr list \<Rightarrow> bool" for lo gs where
  any_here: "e \<in> set es \<Longrightarrow> lo (strip e) = ANY \<Longrightarrow> has_any lo gs es"
| any_there: "e \<in> set es \<Longrightarrow> own_target lo gs (strip e) \<noteq> [] \<Longrightarrow>
    has_any lo gs (source_group_entries lo (map_of gs (own_target lo gs (strip e)))) \<Longrightarrow> has_any lo gs es"

text \<open>An address entry of the list or of a group it refers to.\<close>

inductive leaf :: "(pystr \<Rightarrow> pystr) \<Rightarrow> group_table \<Rightarrow> pystr list \<Rightarrow> pystr \<Rightarrow> bool" for lo gs where
  leaf_here: "e \<in> set es \<Longrightarrow> own_target lo gs (strip e) = [] \<Longrightarrow> leaf lo gs es (strip e)"
| leaf_there: "e \<in> set es \<Longrightarrow> own_target lo gs (strip e) \<noteq> [] \<Longrightarrow>
    leaf lo gs (source_group_entries lo (map_of gs (own_target lo gs (strip e)))) x \<Longrightarrow> leaf lo gs es x"

lemma has_any_Nil: "\<not> has_any lo gs []"
  by (auto elim: has_any.cases)

lemma leaf_Nil: "\<not> leaf lo gs [] x"
  by (auto elim: leaf.cases)

lemma has_any_mono: "has_any lo gs es \<Longrightarrow> set es \<subseteq> set es' \<Longrightarrow> has_any lo gs es'"
  by (erule has_any.cases) (auto intro: has_any.intros)

lemma leaf_mono: "leaf lo gs es x \<Longrightarrow> set es \<subseteq> set es' \<Longrightarrow> leaf lo gs es' x"
  by (erule leaf.cases) (auto intro: leaf.intros)

lemma has_any_Cons: "has_any lo gs (e # es) \<longleftrightarrow> lo (strip e) = ANY
    \<or> own_target lo gs (strip e) \<noteq> [] \<and> has_any lo gs (source_group_entries lo (map_of gs (own_target lo gs (strip e))))
    \<or> has_any lo gs es"
  by (auto intro: has_any.intros has_any_mono [of lo gs es] elim!: has_any.cases [of lo gs "e # es"])

lemma leaf_Cons: "leaf lo gs (e # es) x \<longleftrightarrow> own_target lo gs (strip e) = [] \<and> x = strip e
    \<or> own_target lo gs (strip e) \<noteq> [] \<and> leaf lo gs (source_group_entries lo (map_of gs (own_target lo gs (strip e)))) x
    \<or> leaf lo gs es x"
  by (auto intro: leaf.intros leaf_mono [of lo gs es] elim!: leaf.cases [of lo gs "e # es"])

section \<open>Expansion of a table without cycles\<close>

definition edge :: "(pystr \<Rightarrow> pystr) \<Rightarrow> group_table \<Rightarrow> pystr \<Rightarrow> pystr \<Rightarrow> bool" where
  "edge lo gs k t \<longleftrightarrow> t \<noteq> [] \<and> (\<exists>e \<in> set (source_group_entries lo (map_of gs k)). own_target lo gs (strip e) = t)"

lemma entries_not_Nil [simp]: "source_group_entries lo g \<noteq> []"
  by (simp add: source_group_entries_def Let_def)

lemma add_new_set: "set (add_new acc xs) = set acc \<union> set xs" "distinct acc \<Longrightarrow> distinct (add_new acc xs)"
  unfolding add_new_def by (induction xs arbitrary: acc) auto

definition expands_to :: "(pystr \<Rightarrow> pystr) \<Rightarrow> group_table \<Rightarrow> pystr list \<Rightarrow> pystr list \<Rightarrow> pystr list \<Rightarrow> bool" where
  "expands_to lo gs acc es xs \<longleftrightarrow> (has_any lo gs es \<longrightarrow> xs = [ANY])
     \<and> (\<not> has_any lo gs es \<longrightarrow> distinct xs \<and> xs \<noteq> [] \<and> set xs = set acc \<union> {x. leaf lo gs es x} \<and> (\<forall>x \<in> set xs. lo x \<noteq> ANY))"

lemma expand_exact:
  assumes "lo ANY = ANY" "\<And>k. \<not> (edge lo gs)\<^sup>+\<^sup>+ k k"
    "\<forall>s \<in> set stack. \<forall>e \<in> set es. own_target lo gs (strip e) \<noteq> [] \<longrightarrow> (edge lo gs)\<^sup>+\<^sup>+ s (own_target lo gs (strip e))"
    "distinct acc" "\<forall>x \<in> set acc. lo x \<noteq> ANY" "acc \<noteq> [] \<or> es \<noteq> []"
  shows "expands_to lo gs acc es (expand_entries lo gs stack acc es)"
  using assms
proof (induction lo gs stack acc es rule: expand_entries.induct)
  case (1 lo gs stack acc)
  then show ?case by (simp add: expands_to_def has_any_Nil leaf_Nil)
next
  case (2 lo gs stack acc e rest)
  let ?t = "own_target lo gs (strip e)"
  let ?es = "source_group_entries lo (map_of gs ?t)"
  show ?case
  proof (cases "lo (strip e) = ANY")
    case True
    then show ?thesis by (simp add: expands_to_def has_any_Cons)
  next
    case any: False
    have rest: "\<forall>s \<in> set stack. \<forall>e \<in> set rest. own_target lo gs (strip e) \<noteq> [] \<longrightarrow> (edge lo gs)\<^sup>+\<^sup>+ s (own_target lo gs (strip e))"
      using "2.prems"(3) by simp
    show ?thesis
    proof (cases "?t = []")
      case True
      have "expands_to lo gs (if strip e \<in> set acc then acc else acc @ [strip e]) rest
          (expand_entries lo gs stack (if strip e \<in> set acc then acc else acc @ [strip e]) rest)"
        by (rule "2.IH"(4) [OF refl refl any _ "2.prems"(1,2) rest]) (use True any "2.prems" in auto)
      then show ?thesis using True any by (auto simp: expands_to_def has_any_Cons leaf_Cons Let_def)
    next
      case False
      have fresh: "?t \<notin> set stack" using "2.prems"(2,3) False by auto
      have below: "(edge lo gs)\<^sup>+\<^sup>+ ?t (own_target lo gs (strip e'))" if "e' \<in> set ?es" "own_target lo gs (strip e') \<noteq> []" for e'
        using that by (intro tranclp.r_into_trancl) (auto simp: edge_def)
      have nested: "expands_to lo gs [] ?es (expand_entries lo gs (stack @ [?t]) [] ?es)"
        by (rule "2.IH"(2) [OF refl refl any False fresh "2.prems"(1,2)])
          (use below "2.prems"(3) False in \<open>auto intro: tranclp_trans\<close>)
      let ?n = "expand_entries lo gs (stack @ [?t]) [] ?es"
      show ?thesis
      proof (cases "?n = [ANY]")
        case True
        then have "has_any lo gs ?es" using nested "2.prems"(1) by (auto simp: expands_to_def)
        then show ?thesis using True False any fresh by (simp add: expands_to_def has_any_Cons Let_def)
      next
        case n: False
        then have no: "\<not> has_any lo gs ?es" and ns: "?n \<noteq> []" "set ?n = {x. leaf lo gs ?es x}" "\<forall>x \<in> set ?n. lo x \<noteq> ANY"
          using nested by (auto simp: expands_to_def)
        have "expands_to lo gs (add_new acc ?n) rest (expand_entries lo gs stack (add_new acc ?n) rest)"
        proof (rule "2.IH"(3) [OF refl refl any False fresh refl n "2.prems"(1,2) rest])
          show "add_new acc ?n \<noteq> [] \<or> rest \<noteq> []" using ns(1) add_new_set(1) [of acc ?n] by (metis Un_empty set_empty)
        qed (use "2.prems"(4,5) ns(3) in \<open>auto simp: add_new_set\<close>)
        then show ?thesis using no n False any fresh ns(2)
          by (auto simp: expands_to_def has_any_Cons leaf_Cons Let_def add_new_set)
      qed
    qed
  qed
qed

section \<open>What validation excludes\<close>

lemma target_strip [simp]: "source_group_reference_target lo gs names (strip v) = source_group_reference_target lo gs names v"
  by (simp add: source_group_reference_target_def)

lemma strip_any: "strip ANY = ANY"
  by (simp add: strip_def lstrip_def rstrip_def u_def is_space_def)

lemma no_target_of_any: "lo ANY = ANY \<Longrightarrow> source_group_reference_target lo gs names ANY = []"
  by (simp add: source_group_reference_target_def FIREWALL_SOURCE_GROUP_REFERENCE_PREFIX_def strip_any)
    (simp add: startswith_def u_def)

lemma edge_from_group: "lo ANY = ANY \<Longrightarrow> edge lo gs k t \<Longrightarrow> \<exists>g. map_of gs k = Some g"
  by (cases "map_of gs k") (auto simp: edge_def source_group_entries_def normal_entry_def strip_any Let_def no_target_of_any)

lemma visit_no_cycle:
  assumes "visit lo gs names path k = []" "names = source_group_name_index lo gs" "lo ANY = ANY"
  shows "(\<forall>t. (edge lo gs)\<^sup>*\<^sup>* k t \<longrightarrow> t \<notin> set path) \<and> \<not> (edge lo gs)\<^sup>+\<^sup>+ k k"
  using assms
proof (induction lo gs names path k rule: visit.induct)
  case (1 lo gs names path k)
  have k: "k \<notin> set path" using "1.prems"(1) by (subst (asm) visit.simps) (simp split: if_splits)
  have below: "\<forall>t'. (edge lo gs)\<^sup>*\<^sup>* t t' \<longrightarrow> t' \<notin> set (path @ [k])" if e: "edge lo gs k t" for t
  proof -
    obtain g x where g: "map_of gs k = Some g" and x: "x \<in> set (source_group_entries lo (Some g))" "source_group_reference_target lo gs names x = t" "t \<noteq> []"
      using edge_from_group [OF "1.prems"(3) e] e "1.prems"(2) by (auto simp: edge_def)
    have "visit lo gs names (path @ [k]) t = []"
      using "1.prems"(1) k g x by (subst (asm) visit.simps) (auto simp: Let_def split: if_splits)
    then show ?thesis using "1.IH" [OF k g x(1) refl] x(2,3) "1.prems"(2,3) by simp
  qed
  have "t \<notin> set path" if "(edge lo gs)\<^sup>*\<^sup>* k t" for t
    using that by (cases rule: converse_rtranclpE) (use k below in auto)
  moreover have "\<not> (edge lo gs)\<^sup>+\<^sup>+ k k"
    using below by (auto dest!: tranclpD)
  ultimately show ?case by blast
qed

lemma name_errors_names: "snd (name_errors lo names groups) = foldl (\<lambda>d (k, v). dict_set d k v) names (map (\<lambda>g. (lo (strip (group_label g)), sg_id g)) groups)"
  by (induction groups arbitrary: names) (simp_all add: Let_def case_prod_beta)

lemma name_errors_labels: "fst (name_errors lo names groups) = [] \<Longrightarrow> g \<in> set groups \<Longrightarrow> strip (group_label g) \<noteq> []"
  by (induction groups arbitrary: names) (auto simp: Let_def case_prod_beta split: if_splits)

lemma groups_by_id_distinct: "distinct (map sg_id groups) \<Longrightarrow> groups_by_id groups = map (\<lambda>g. (sg_id g, g)) groups"
  by (simp add: groups_by_id_def dict_of_distinct comp_def)

text \<open>The index that validation builds is the one the expansion uses.\<close>

lemma validated_index:
  assumes "name_errors lo [] groups = ([], names)" "distinct (map sg_id groups)" "\<forall>g \<in> set groups. sg_name g \<noteq> []"
  shows "names = source_group_name_index lo (groups_by_id groups)"
proof -
  have label: "group_label g = sg_name g" "strip (sg_name g) \<noteq> []" if "g \<in> set groups" for g
    using assms(3) name_errors_labels [of lo "[]" groups g] assms(1) that by (auto simp: group_label_def)
  have "filter (\<lambda>(k, g). strip (sg_name g) \<noteq> []) (map (\<lambda>g. (sg_id g, g)) groups) = map (\<lambda>g. (sg_id g, g)) groups"
    using label(2) by (intro filter_True) auto
  moreover have "names = foldl (\<lambda>d (k, v). dict_set d k v) [] (map (\<lambda>g. (lo (strip (sg_name g)), sg_id g)) groups)"
    using name_errors_names [of lo "[]" groups] assms(1) label(1) by (simp cong: map_cong)
  ultimately show ?thesis
    by (simp add: source_group_name_index_def groups_by_id_distinct [OF assms(2)] dict_of_def comp_def case_prod_beta)
qed

lemma validated_acyclic:
  assumes "validate_source_group_cycles lo groups (groups_by_id groups) names = []"
    "names = source_group_name_index lo (groups_by_id groups)" "lo ANY = ANY"
  shows "\<not> (edge lo (groups_by_id groups))\<^sup>+\<^sup>+ k k"
proof
  assume cycle: "(edge lo (groups_by_id groups))\<^sup>+\<^sup>+ k k"
  then obtain j where "edge lo (groups_by_id groups) j k" by (blast elim: tranclp.cases)
  then have "k \<noteq> []" by (simp add: edge_def)
  moreover obtain t where "edge lo (groups_by_id groups) k t" using cycle by (blast dest: tranclpD)
  then obtain g where "map_of (groups_by_id groups) k = Some g" using edge_from_group [where lo = lo, OF assms(3)] by blast
  then have "(k, g) \<in> set (map (\<lambda>g. (sg_id g, g)) groups)" using dict_of_snd unfolding groups_by_id_def by (blast dest: map_of_SomeD)
  ultimately have "visit lo (groups_by_id groups) names [] k = []"
    using assms(1) by (auto simp: validate_source_group_cycles_def split: if_splits)
  then show False using visit_no_cycle [where lo = lo and names = names, OF _ assms(2,3)] cycle by blast
qed

section \<open>Lists of values\<close>

lemma pieces_not_Nil [simp]: "pieces sep s \<noteq> []"
  by (induction s) (auto split: list.splits)

lemma pieces_append: "sep c \<Longrightarrow> pieces sep (s @ c # t) = pieces sep s @ pieces sep t"
proof (induction s)
  case (Cons x s)
  then show ?case by (cases "pieces sep s") auto
qed simp

lemma pieces_plain: "list_all (\<lambda>c. \<not> sep c) s \<Longrightarrow> pieces sep s = [s]"
  by (induction s) auto

lemma pieces_snoc: "\<not> sep c \<Longrightarrow> pieces sep (s @ [c]) = butlast (pieces sep s) @ [last (pieces sep s) @ [c]]"
proof (induction s)
  case (Cons x s)
  then show ?case by (cases "pieces sep s") auto
qed simp

lemma strip_Nil [simp]: "strip [] = []"
  by (simp add: strip_def lstrip_def rstrip_def)

lemma strip_space_Cons: "is_space c \<Longrightarrow> strip (c # s) = strip s"
  by (simp add: strip_def lstrip_def)

lemma strip_space_snoc: "is_space c \<Longrightarrow> strip (s @ [c]) = strip s"
  by (cases "\<forall>x \<in> set s. is_space x") (auto simp: strip_def lstrip_def rstrip_def dropWhile_append dest: set_dropWhileD)

lemma source_values_Cons: "is_space c \<Longrightarrow> source_values (c # s) = source_values s"
  by (cases "pieces (\<lambda>c. c = 10 \<or> c = 44) s") (auto simp: source_values_def strip_space_Cons)

lemma source_values_snoc: "is_space c \<Longrightarrow> source_values (s @ [c]) = source_values s"
proof -
  let ?p = "pieces (\<lambda>c. c = 10 \<or> c = 44) s"
  assume c: "is_space c"
  obtain ps p where p: "?p = ps @ [p]" using pieces_not_Nil by (metis append_butlast_last_id)
  show ?thesis
  proof (cases "c = 10 \<or> c = 44")
    case True
    then show ?thesis by (auto simp: source_values_def pieces_append)
  next
    case False
    then show ?thesis using c by (simp add: source_values_def pieces_snoc p strip_space_snoc)
  qed
qed

lemma source_values_strip: "source_values (strip s) = source_values s"
proof -
  have l: "source_values (lstrip s) = source_values s" for s
    by (induction s) (auto simp: lstrip_def source_values_Cons)
  have "source_values (rstrip s) = source_values s" for s
    by (induction s rule: rev_induct) (auto simp: rstrip_def source_values_snoc)
  then show ?thesis by (simp add: strip_def l)
qed

lemma source_values_append: "source_values (s @ 10 # t) = source_values s @ source_values t"
  by (simp add: source_values_def pieces_append)

lemma source_values_join: "x \<in> set xs \<Longrightarrow> set (source_values x) \<subseteq> set (source_values (join_with 10 xs))"
  by (induction "10::nat" xs rule: join_with.induct) (auto simp: source_values_append)

lemma concat_map_Nil: "concat (map f xs) = [] \<Longrightarrow> x \<in> set xs \<Longrightarrow> f x = []"
  by (induction xs) auto

lemma accepted_values:
  assumes "validate_address_value lo label (join_with 10 es) = []" "e \<in> set es" "v \<in> set (split_address_values lo (strip e))"
  shows "v = ANY \<or> ip_interface v \<noteq> None"
proof -
  let ?vs = "split_address_values lo (join_with 10 es)"
  have v: "v \<in> set ?vs"
    using assms(2,3) source_values_join [OF assms(2)] by (auto simp: split_address_values_def source_values_strip)
  show ?thesis
  proof (cases "ANY \<in> set ?vs")
    case True
    then have "?vs = [ANY]" using assms(1) v by (simp add: validate_address_value_def Let_def split: if_split_asm)
    then show ?thesis using v by simp
  next
    case False
    have "?vs \<noteq> []" using v by auto
    then have "concat (map (\<lambda>v. if ip_interface v = None then [bad_address_error label] else []) ?vs) = []"
      using assms(1) False by (simp add: validate_address_value_def Let_def)
    then have "(if ip_interface v = None then [bad_address_error label] else []) = []"
      using v by (rule concat_map_Nil)
    then show ?thesis by (simp split: if_split_asm)
  qed
qed

lemma accepted_group:
  assumes "group_errors lo gs names g = []"
  shows "validate_address_value lo (group_label g)
    (join_with 10 (filter (\<lambda>e. source_group_reference_target lo gs names e = []) (source_group_entries lo (Some g)))) = []"
  using assms unfolding group_errors_def Let_def append_is_Nil_conv by (simp only: split: if_split_asm) simp_all

lemma leaf_origin:
  assumes "leaf lo gs es x"
  shows "\<exists>e. x = strip e \<and> own_target lo gs e = [] \<and> (e \<in> set es \<or> (\<exists>k g. map_of gs k = Some g \<and> e \<in> set (source_group_entries lo (Some g))))"
  using assms
proof (induction rule: leaf.induct)
  case (leaf_there e es x)
  obtain g where "map_of gs (own_target lo gs (strip e)) = Some g"
    using reference_target_known [OF refl leaf_there(2)] by (metis map_of_eq_None_iff option.exhaust)
  then show ?case using leaf_there.IH by fastforce
qed auto

text \<open>
  C20: Source Groups that passed validation expand to exactly what they name. The expansion of a group is
  \<open>any\<close> if and only if the group, or a group it refers to directly or through others, has an entry \<open>any\<close>; otherwise
  it lists, once each, exactly the address entries of the group and of all groups it refers to. Every value of
  such an entry is a valid address or network. In particular no expansion is widened to \<open>any\<close> by references
  that lead nowhere or back to themselves.
\<close>

theorem validated_groups_expand_exactly:
  assumes "validate_firewall_source_groups lo groups = []" "distinct (map sg_id groups)" "\<forall>g \<in> set groups. sg_name g \<noteq> []"
    and "lower_ok lo" "g \<in> set groups" "gs = groups_by_id groups" "es = source_group_entries lo (Some g)"
  shows "(expand_source_group_entries lo gs (Some g) = [ANY] \<longleftrightarrow> has_any lo gs es)
    \<and> (\<not> has_any lo gs es \<longrightarrow> distinct (expand_source_group_entries lo gs (Some g))
        \<and> set (expand_source_group_entries lo gs (Some g)) = {x. leaf lo gs es x})
    \<and> (\<forall>x. leaf lo gs es x \<longrightarrow> (\<forall>v \<in> set (split_address_values lo x). v = ANY \<or> ip_interface v \<noteq> None))"
proof -
  have any: "lo ANY = ANY" using assms(4) by (simp add: lower_ok_def is_ascii_def u_def ascii_lower_def)
  obtain names where names: "name_errors lo [] groups = ([], names)"
    and errs: "\<forall>g \<in> set groups. group_errors lo gs names g = []" and cyc: "validate_source_group_cycles lo groups gs names = []"
    using assms(1,6) by (auto simp: validate_firewall_source_groups_def Let_def split: prod.splits)
  have index: "names = source_group_name_index lo gs" using validated_index [OF names assms(2,3)] assms(6) by simp
  have acyclic: "\<not> (edge lo gs)\<^sup>+\<^sup>+ k k" for k
    using validated_acyclic [where lo = lo and names = names and groups = groups] cyc index any assms(6) by simp
  have "expands_to lo gs [] es (expand_source_group_entries lo gs (Some g))"
    unfolding expand_source_group_entries_def assms(7) using any acyclic by (intro expand_exact) auto
  moreover have "v = ANY \<or> ip_interface v \<noteq> None" if l: "leaf lo gs es x" and v: "v \<in> set (split_address_values lo x)" for x v
  proof -
    obtain e h where e: "x = strip e" "own_target lo gs e = []" "h \<in> set groups" "e \<in> set (source_group_entries lo (Some h))"
      using leaf_origin [OF l] assms(5-7) by (auto simp: groups_by_id_distinct [OF assms(2)] dest!: map_of_SomeD)
    have "validate_address_value lo (group_label h) (join_with 10 (filter (\<lambda>e. source_group_reference_target lo gs names e = []) (source_group_entries lo (Some h)))) = []"
      using accepted_group [OF bspec [OF errs e(3)]] .
    then show ?thesis by (rule accepted_values [where e = e]) (use e v index in simp_all)
  qed
  ultimately show ?thesis using any by (auto simp: expands_to_def)
qed

section \<open>Two groups\<close>

definition sample_lab :: source_group where
  "sample_lab = \<lparr> sg_id = u ''b'', sg_name = u ''Lab'', sg_entries = [u ''10.0.0.0/8''] \<rparr>"

definition sample_all :: source_group where
  "sample_all = \<lparr> sg_id = u ''a'', sg_name = u ''All'', sg_entries = [u ''group:b'', u ''192.168.2.0/24''] \<rparr>"

lemmas text_eval = strip_def lstrip_def rstrip_def u_def is_space_def ascii_lower_def startswith_def
  FIREWALL_SOURCE_GROUP_REFERENCE_PREFIX_def

abbreviation sample_table :: group_table where
  "sample_table \<equiv> [(u ''a'', sample_all), (u ''b'', sample_lab)]"

abbreviation sample_names :: "(pystr \<times> pystr) list" where
  "sample_names \<equiv> [(u ''all'', u ''a''), (u ''lab'', u ''b'')]"

lemma sample_entries:
  "source_group_entries (map ascii_lower) (Some sample_all) = [u ''group:b'', u ''192.168.2.0/24'']"
  "source_group_entries (map ascii_lower) (Some sample_lab) = [u ''10.0.0.0/8'']"
  by (simp_all add: source_group_entries_def normal_entry_def sample_all_def sample_lab_def text_eval)

lemma sample_tables:
  "groups_by_id [sample_all, sample_lab] = sample_table"
  "name_errors (map ascii_lower) [] [sample_all, sample_lab] = ([], sample_names)"
  "source_group_name_index (map ascii_lower) sample_table = sample_names"
  by (simp_all add: groups_by_id_def dict_of_def group_label_def source_group_name_index_def sample_all_def sample_lab_def text_eval)

lemma sample_targets:
  "source_group_reference_target (map ascii_lower) sample_table sample_names (u ''group:b'') = u ''b''"
  "source_group_reference_target (map ascii_lower) sample_table sample_names (u ''10.0.0.0/8'') = []"
  "source_group_reference_target (map ascii_lower) sample_table sample_names (u ''192.168.2.0/24'') = []"
  by (simp_all add: source_group_reference_target_def text_eval)

lemma sample_values:
  "split_address_values (map ascii_lower) (u ''10.0.0.0/8'') = [u ''10.0.0.0/8'']"
  "split_address_values (map ascii_lower) (u ''192.168.2.0/24'') = [u ''192.168.2.0/24'']"
  by (simp_all add: split_address_values_def source_values_def text_eval)

lemma sample_networks:
  "ip_interface (u ''10.0.0.0/8'') = Some (V4 [10, 0, 0, 0], 8)" "ip_interface (u ''192.168.2.0/24'') = Some (V4 [192, 168, 2, 0], 24)"
  by code_simp+

lemma sample_group_errors:
  "group_errors (map ascii_lower) sample_table sample_names sample_lab = []"
  "group_errors (map ascii_lower) sample_table sample_names sample_all = []"
  by (simp_all add: group_errors_def Let_def sample_entries sample_targets validate_address_value_def sample_values sample_networks)
    (simp_all add: sample_all_def sample_lab_def looks_like_source_group_reference_def text_eval)

lemma sample_groups_valid: "validate_firewall_source_groups (map ascii_lower) [sample_all, sample_lab] = []"
proof -
  have "validate_source_group_cycles (map ascii_lower) [sample_all, sample_lab] sample_table sample_names = []"
    by (simp add: validate_source_group_cycles_def visit.simps sample_entries sample_targets)
  then show ?thesis
    unfolding validate_firewall_source_groups_def Let_def sample_tables prod.case by (simp add: sample_group_errors)
qed

lemma sample_expansion:
  "expand_source_group_entries (map ascii_lower) sample_table (Some sample_all) = [u ''10.0.0.0/8'', u ''192.168.2.0/24'']"
proof -
  have s: "strip (u ''group:b'') = u ''group:b''" "strip (u ''10.0.0.0/8'') = u ''10.0.0.0/8''" "strip (u ''192.168.2.0/24'') = u ''192.168.2.0/24''"
    "map ascii_lower (u ''group:b'') \<noteq> ANY" "map ascii_lower (u ''10.0.0.0/8'') \<noteq> ANY" "map ascii_lower (u ''192.168.2.0/24'') \<noteq> ANY"
    "u ''b'' \<noteq> []" "map_of sample_table (u ''b'') = Some sample_lab" "[u ''10.0.0.0/8''] \<noteq> [ANY]" "u ''192.168.2.0/24'' \<noteq> u ''10.0.0.0/8''"
    by (simp_all add: text_eval)
  show ?thesis
    by (simp add: expand_source_group_entries_def sample_entries sample_targets sample_tables s add_new_def)
qed

theorem validated_groups_expand_exactly_witness:
  "validate_firewall_source_groups (map ascii_lower) [sample_all, sample_lab] = []
   \<and> expand_source_group_entries (map ascii_lower) sample_table (Some sample_all) = [u ''10.0.0.0/8'', u ''192.168.2.0/24'']
   \<and> leaf (map ascii_lower) sample_table (source_group_entries (map ascii_lower) (Some sample_all)) (u ''10.0.0.0/8'')"
proof -
  have h: "distinct (map sg_id [sample_all, sample_lab])" "\<forall>g \<in> set [sample_all, sample_lab]. sg_name g \<noteq> []" "lower_ok (map ascii_lower)"
    by (simp_all add: sample_all_def sample_lab_def u_def lower_ok_def)
  let ?xs = "[u ''10.0.0.0/8'', u ''192.168.2.0/24'']"
  have "\<not> has_any (map ascii_lower) sample_table (source_group_entries (map ascii_lower) (Some sample_all))
    \<and> set ?xs = {x. leaf (map ascii_lower) sample_table (source_group_entries (map ascii_lower) (Some sample_all)) x}"
    using validated_groups_expand_exactly [OF sample_groups_valid h _ sample_tables(1) [symmetric] refl, of sample_all]
    unfolding sample_expansion by simp
  then show ?thesis using sample_groups_valid sample_expansion by (metis list.set_intros(1) mem_Collect_eq)
qed

end
