(* ===== verification/Traffic_Thms.thy ===== *)
theory Traffic_Thms
  imports Traffic_Publishing Source_Group_Thms
begin

text \<open>
  What the targets of source translation are, what an active rule is confined to, and that the switches of
  source translation have one owner.
\<close>

section \<open>Targets\<close>

lemma target_of_origin:
  assumes "t \<in> set (target_of lo is_vlan parent name role on c4 c6)"
  obtains pa where "parent = Some pa" "pi_admin_state pa = u ''up''" "pi_oper_state pa \<noteq> u ''missing''" "nt_physical t = pi_name pa"
    "nt_role t = role" "role \<in> {u ''access'', u ''route''}" "nt_name t = name" "nt_families t = ip_families c4 c6" "is_vlan \<longrightarrow> on"
    "nt_cidr t = or_empty c4" "nt_cidr6 t = or_empty c6"
  using assms by (auto simp: target_of_def split: option.splits if_splits)

lemma nat_target_origin:
  assumes "t \<in> set (nat_targets lo interfaces vlans)"
  shows "nt_role t \<in> {u ''access'', u ''route''}
    \<and> (\<exists>pa \<in> set interfaces. pi_name pa = nt_physical t \<and> pi_admin_state pa = u ''up'' \<and> pi_oper_state pa \<noteq> u ''missing'')"
proof -
  consider (physical) i where "i \<in> set interfaces" "t \<in> set (target_of lo False (Some i) (pi_name i) (pi_role i) True (pi_cidr i) (pi_cidr6 i))"
    | (vlan) v where "v \<in> set vlans" "t \<in> set (target_of lo True (map_of (rev (map (\<lambda>i. (pi_name i, i)) interfaces)) (vl_parent v)) (vl_name v) (vl_role v) (vl_enabled v) (vl_cidr v) (vl_cidr6 v))"
    using assms by (auto simp: nat_targets_def Let_def)
  then show ?thesis
  proof cases
    case physical
    then show ?thesis by (auto elim!: target_of_origin)
  next
    case vlan
    then show ?thesis by (auto elim!: target_of_origin dest!: map_of_SomeD)
  qed
qed

section \<open>Active rules\<close>

lemma err_if_Nil [simp]: "err_if b e = [] \<longleftrightarrow> \<not> b"
  by (simp add: err_if_def)

lemma all_eligible: "concat (map (\<lambda>name. err_if (eligible name = None) (f name)) names) = [] \<longleftrightarrow> (\<forall>name \<in> set names. eligible name \<noteq> None)"
  by (induction names) auto

lemma eligible_target:
  assumes "map_of (rev (map (\<lambda>t. (nt_name t, t)) (filter P targets))) name = Some t"
  shows "t \<in> set targets" "P t" "nt_name t = name"
  using map_of_SomeD [OF assms] by auto

lemma translation_assigned:
  assumes "translation_accepted egress True r"
  shows "\<exists>t i a. egress = Some t \<and> ip_address (nr_translated r) = Some a
    \<and> ip_interface (if rule_family r = 4 then nt_cidr t else nt_cidr6 t) = Some i \<and> interface_ip (fst i) = a"
  using assms by (auto simp: translation_accepted_def split: option.splits)

text \<open>
  C22: An active source translation stays inside the lab. A rule that validation accepts while it is enabled or
  being created names at least one inbound interface, unless it is a retained legacy row; every inbound interface
  and the outbound one are different, available interfaces or VLANs of the rule's family whose parent is up and
  present and whose role is access or route, so none of them is a management interface; its source resolves to
  any or to networks of the same family only; and a fixed translation is the address of the outbound interface.
\<close>

theorem active_nat_rule_is_confined:
  assumes ok: "validate_nat_rule lo (nat_targets lo interfaces vlans) groups creating allow_legacy r = []" and active: "creating \<or> nr_enabled r"
  shows "\<exists>inbound. inbound_names r = Some inbound \<and> (inbound \<noteq> [] \<or> allow_legacy) \<and> length inbound \<le> 128 \<and> distinct (nr_outbound r # inbound)
    \<and> (\<forall>name \<in> set (nr_outbound r # inbound). \<exists>t \<in> set (nat_targets lo interfaces vlans).
         nt_name t = name \<and> rule_family r \<in> set (nt_families t) \<and> nt_role t \<in> {u ''access'', u ''route''}
       \<and> (\<exists>pa \<in> set interfaces. pi_name pa = nt_physical t \<and> pi_admin_state pa = u ''up'' \<and> pi_oper_state pa \<noteq> u ''missing''))
    \<and> rule_family r \<in> {4, 6} \<and> source_accepted lo groups (nr_source r) (rule_family r)
    \<and> (rule_mode r = u ''snat'' \<longrightarrow> (\<exists>t i a. t \<in> set (nat_targets lo interfaces vlans) \<and> nt_name t = nr_outbound r \<and> ip_address (nr_translated r) = Some a
         \<and> ip_interface (if rule_family r = 4 then nt_cidr t else nt_cidr6 t) = Some i \<and> interface_ip (fst i) = a))
    \<and> (rule_mode r \<noteq> u ''snat'' \<longrightarrow> rule_mode r = u ''masquerade'' \<and> nr_translated r = [])"
proof -
  let ?T = "nat_targets lo interfaces vlans"
  let ?e = "map_of (rev (map (\<lambda>t. (nt_name t, t)) (filter (\<lambda>t. rule_family r \<in> set (nt_families t)) ?T)))"
  obtain inbound where inb: "inbound_names r = Some inbound"
    using ok by (auto simp: validate_nat_rule_def Let_def split: option.splits)
  have act: "(creating \<or> nr_enabled r) = True" using active by simp
  note facts = ok [unfolded validate_nat_rule_def Let_def inb option.case append_is_Nil_conv err_if_Nil act if_True all_eligible]
  have el: "\<forall>name \<in> set (inbound @ [nr_outbound r]). ?e name \<noteq> None" using facts by (elim conjE)
  have each: "\<exists>t \<in> set ?T. nt_name t = name \<and> rule_family r \<in> set (nt_families t) \<and> nt_role t \<in> {u ''access'', u ''route''}
       \<and> (\<exists>pa \<in> set interfaces. pi_name pa = nt_physical t \<and> pi_admin_state pa = u ''up'' \<and> pi_oper_state pa \<noteq> u ''missing'')"
    if n: "name \<in> set (nr_outbound r # inbound)" for name
  proof -
    have "?e name \<noteq> None" by (rule bspec [OF el]) (use n in auto)
    then obtain t where "?e name = Some t" by blast
    from eligible_target [OF this] nat_target_origin [of t lo interfaces vlans] show ?thesis by blast
  qed
  have snat: "\<exists>t i a. t \<in> set ?T \<and> nt_name t = nr_outbound r \<and> ip_address (nr_translated r) = Some a
         \<and> ip_interface (if rule_family r = 4 then nt_cidr t else nt_cidr6 t) = Some i \<and> interface_ip (fst i) = a" if "rule_mode r = u ''snat''"
  proof -
    have "translation_accepted (?e (nr_outbound r)) True r" using facts [unfolded if_P [OF that] err_if_Nil not_not] by (elim conjE)
    from translation_assigned [OF this] eligible_target(1,3) show ?thesis by blast
  qed
  have rest: "inbound \<noteq> [] \<or> allow_legacy" "length inbound \<le> 128" "distinct (nr_outbound r # inbound)" "rule_family r \<in> {4, 6}"
    "source_accepted lo groups (nr_source r) (rule_family r)" "rule_mode r \<in> {u ''masquerade'', u ''snat''}"
    using facts active by auto
  have plain: "nr_translated r = []" if "rule_mode r \<noteq> u ''snat''"
    using facts [unfolded if_not_P [OF that] err_if_Nil not_not] by (elim conjE)
  show ?thesis using inb rest each snat plain by (intro exI [of _ inbound] conjI ballI) (assumption | blast)+
qed

section \<open>The switches\<close>

lemma setting_keys [simp]: "NAT_ENABLED_SETTING_KEY \<noteq> LEGACY_NAT_ENABLED_SETTING_KEY" "LEGACY_NAT_ENABLED_SETTING_KEY \<noteq> NAT_ENABLED_SETTING_KEY"
  "ROUTING_ENABLED_KEY \<noteq> LEGACY_NAT_ENABLED_SETTING_KEY" "ROUTING_ENABLED_KEY \<noteq> NAT_ENABLED_SETTING_KEY"
  by (simp_all add: NAT_ENABLED_SETTING_KEY_def LEGACY_NAT_ENABLED_SETTING_KEY_def ROUTING_ENABLED_KEY_def u_def)

lemma lower_words: "lower_ok lo \<Longrightarrow> lo (bool_text b) = bool_text b" "bool_text b \<in> true_words \<longleftrightarrow> b"
  by (cases b; simp add: lower_ok_def is_ascii_def bool_text_def true_words_def u_def ascii_lower_def)+

lemma ensured:
  assumes "ensure_traffic_publishing_settings lo any_enabled force t = (s, t')"
  shows "t' LEGACY_NAT_ENABLED_SETTING_KEY = None" "\<exists>v. t' NAT_ENABLED_SETTING_KEY = Some v \<and> nat_enabled s = (lo v \<in> true_words)"
    "ensure_traffic_publishing_settings lo any' False t' = (s, t')"
    "k \<notin> {NAT_ENABLED_SETTING_KEY, LEGACY_NAT_ENABLED_SETTING_KEY} \<Longrightarrow> t' k = t k"
  using assms by (auto simp: ensure_traffic_publishing_settings_def Let_def fun_upd_twist)

text \<open>
  The switch of source translation has one owner. Reading the settings moves a legacy value to the canonical
  key once: afterwards the legacy key is gone, reading again changes nothing and reports the same, whatever rules
  are enabled then, and no other setting is touched. Saving reports exactly the saved switch, and translation is
  effective exactly when both it and routing are on.
\<close>

theorem nat_switch_has_one_owner:
  assumes "lower_ok lo" "ensure_traffic_publishing_settings lo any_enabled force t = (s, t')"
    and "save_traffic_publishing_settings lo any_enabled on t = (s2, t2)"
  shows "t' LEGACY_NAT_ENABLED_SETTING_KEY = None \<and> t' NAT_ENABLED_SETTING_KEY \<noteq> None
    \<and> (\<forall>any'. ensure_traffic_publishing_settings lo any' False t' = (s, t'))
    \<and> (\<forall>k. k \<notin> {NAT_ENABLED_SETTING_KEY, LEGACY_NAT_ENABLED_SETTING_KEY} \<longrightarrow> t' k = t k \<and> t2 k = t k)
    \<and> (force \<longrightarrow> \<not> nat_enabled s)
    \<and> nat_enabled s2 = on \<and> t2 NAT_ENABLED_SETTING_KEY = Some (bool_text on) \<and> t2 LEGACY_NAT_ENABLED_SETTING_KEY = None
    \<and> effective_nat_enabled s2 = (on \<and> routing_enabled s) \<and> suspended s2 = (on \<and> \<not> routing_enabled s)"
proof -
  have "force \<longrightarrow> \<not> nat_enabled s"
    using assms(2) lower_words(1) [of lo False] lower_words(2) [of False] assms(1) by (auto simp: ensure_traffic_publishing_settings_def Let_def bool_text_def)
  moreover have "nat_enabled s2 = on \<and> t2 NAT_ENABLED_SETTING_KEY = Some (bool_text on) \<and> t2 LEGACY_NAT_ENABLED_SETTING_KEY = None
      \<and> routing_enabled s2 = routing_enabled s \<and> (\<forall>k. k \<notin> {NAT_ENABLED_SETTING_KEY, LEGACY_NAT_ENABLED_SETTING_KEY} \<longrightarrow> t2 k = t k)"
    using assms(2,3) lower_words(1) [of lo on] lower_words(2) [of on] assms(1)
    by (auto simp: save_traffic_publishing_settings_def ensure_traffic_publishing_settings_def Let_def)
  ultimately show ?thesis using ensured [OF assms(2)] by (auto simp: effective_nat_enabled_def suspended_def)
qed

section \<open>An accepted rule\<close>

definition sample_eth0 :: physical_interface where
  "sample_eth0 = \<lparr> pi_name = u ''eth0'', pi_mac = [], pi_cidr = Some (u ''192.168.1.1/24''), pi_cidr6 = None, pi_admin_state = u ''up'',
     pi_oper_state = u ''up'', pi_role = u ''management'', pi_mode = u ''access'' \<rparr>"

definition sample_eth1 :: physical_interface where
  "sample_eth1 = \<lparr> pi_name = u ''eth1'', pi_mac = [], pi_cidr = Some (u ''10.0.0.2/24''), pi_cidr6 = None, pi_admin_state = u ''up'',
     pi_oper_state = u ''up'', pi_role = u ''access'', pi_mode = u ''access'' \<rparr>"

definition sample_target :: nat_target where
  "sample_target = \<lparr> nt_name = u ''eth1'', nt_kind = u ''physical'', nt_role = u ''access'', nt_physical = u ''eth1'', nt_mac = [],
     nt_cidr = u ''10.0.0.2/24'', nt_cidr6 = [], nt_families = [4] \<rparr>"

definition sample_eth2 :: physical_interface where
  "sample_eth2 = sample_eth1\<lparr>pi_name := u ''eth2'', pi_cidr := Some (u ''10.1.0.2/24''), pi_role := u ''route''\<rparr>"

definition sample_egress :: nat_target where
  "sample_egress = sample_target\<lparr>nt_name := u ''eth2'', nt_physical := u ''eth2'', nt_cidr := u ''10.1.0.2/24'', nt_role := u ''route''\<rparr>"

definition sample_nat :: nat_rule where
  "sample_nat = \<lparr> nr_name = u ''out'', nr_enabled = True, nr_source = u ''any'', nr_inbound = JArr [JStr (u ''eth1'')], nr_family = Some 4,
     nr_outbound = u ''eth2'', nr_mode = u ''snat'', nr_translated = u ''10.1.0.2'', nr_masquerade = False, nr_priority = 100 \<rparr>"

lemma sample_interface_addresses:
  "ip_interface (u ''10.0.0.2/24'') = Some (V4 [10, 0, 0, 2], 24)" "ip_interface (u ''192.168.1.1/24'') = Some (V4 [192, 168, 1, 1], 24)"
  "ip_interface (u ''10.1.0.2/24'') = Some (V4 [10, 1, 0, 2], 24)" "ip_address (u ''10.1.0.2'') = Some (V4 [10, 1, 0, 2])"
  "ip_interface [] = None"
  by code_simp+

lemma sample_families:
  "ip_families (Some (u ''10.0.0.2/24'')) None = [4]" "ip_families (Some (u ''192.168.1.1/24'')) None = [4]" "ip_families (Some (u ''10.1.0.2/24'')) None = [4]"
  by (simp_all add: ip_families_def or_empty_def sample_interface_addresses)

lemma sample_mode: "normalize_interface_mode (map ascii_lower) (u ''access'') = u ''access''"
  by (simp add: normalize_interface_mode_def INTERFACE_MODES_def text_eval)

lemma sample_nat_targets: "nat_targets (map ascii_lower) [sample_eth0, sample_eth1, sample_eth2] [] = [sample_target, sample_egress]"
proof -
  have "(u ''eth1'', k) \<le> (u ''eth2'', k)" for k :: pystr by (simp add: u_def)
  then show ?thesis
    unfolding nat_targets_def target_of_def sample_eth0_def sample_eth1_def sample_eth2_def sample_target_def sample_egress_def
    by (simp add: sample_families sample_mode) (simp add: or_empty_def u_def)
qed

lemma sample_nat_valid: "validate_nat_rule (map ascii_lower) [sample_target, sample_egress] [] False False sample_nat = []"
proof -
  have "source_accepted (map ascii_lower) [] (u ''any'') 4"
    by (simp add: source_accepted_def resolved_nat_source_def text_eval)
  moreover have "canonical_name (u ''eth1'')" "canonical_name (u ''eth2'')" by (simp_all add: canonical_name_def u_def ascii_alnum_def)
  moreover have "u ''eth1'' \<noteq> u ''eth2''" "u ''snat'' \<noteq> []" "u ''snat'' \<noteq> u ''masquerade''" by (simp_all add: u_def)
  ultimately show ?thesis
    by (simp add: validate_nat_rule_def sample_nat_def inbound_names_def rule_family_def rule_mode_def Let_def map_filter_simps
        sample_target_def sample_egress_def translation_accepted_def sample_interface_addresses)
qed

theorem active_nat_rule_is_confined_witness:
  "validate_nat_rule (map ascii_lower) (nat_targets (map ascii_lower) [sample_eth0, sample_eth1, sample_eth2] []) [] False False sample_nat = []
   \<and> nr_enabled sample_nat
   \<and> (\<exists>inbound. inbound_names sample_nat = Some inbound \<and> inbound \<noteq> [] \<and> distinct (nr_outbound sample_nat # inbound))"
proof -
  have v: "validate_nat_rule (map ascii_lower) (nat_targets (map ascii_lower) [sample_eth0, sample_eth1, sample_eth2] []) [] False False sample_nat = []"
    unfolding sample_nat_targets by (rule sample_nat_valid)
  have e: "nr_enabled sample_nat" by (simp add: sample_nat_def)
  then show ?thesis using active_nat_rule_is_confined [OF v] v by blast
qed

theorem nat_switch_has_one_owner_witness:
  "(let t = [LEGACY_NAT_ENABLED_SETTING_KEY \<mapsto> u ''true'', ROUTING_ENABLED_KEY \<mapsto> u ''on''];
        (s, t') = ensure_traffic_publishing_settings (map ascii_lower) False False t
    in nat_enabled s \<and> t' LEGACY_NAT_ENABLED_SETTING_KEY = None
     \<and> effective_nat_enabled (fst (save_traffic_publishing_settings (map ascii_lower) False True t)))"
proof -
  let ?t = "[LEGACY_NAT_ENABLED_SETTING_KEY \<mapsto> u ''true'', ROUTING_ENABLED_KEY \<mapsto> u ''on'']"
  obtain s t' where e: "ensure_traffic_publishing_settings (map ascii_lower) False False ?t = (s, t')" by (cases "ensure_traffic_publishing_settings (map ascii_lower) False False ?t")
  obtain s2 t2 where v: "save_traffic_publishing_settings (map ascii_lower) False True ?t = (s2, t2)" by (cases "save_traffic_publishing_settings (map ascii_lower) False True ?t")
  have "nat_enabled s \<and> routing_enabled s"
    using e by (auto simp: ensure_traffic_publishing_settings_def Let_def true_words_def) (simp_all add: text_eval)
  moreover have "lower_ok (map ascii_lower)" by (simp add: lower_ok_def)
  ultimately show ?thesis using nat_switch_has_one_owner [OF _ e v] e v by simp
qed

end
