(* ===== verification/Port_Forward_Thms.thy ===== *)
theory Port_Forward_Thms
  imports Port_Forwarding Traffic_Thms
begin

text \<open>
  The saved port forwards as a translation: the invariant every transaction keeps, and what it says about
  the endpoint of a packet.
\<close>

section \<open>Invariant\<close>

text \<open>Two enabled rules that would translate the same packet.\<close>

definition conflicting :: "port_forward \<Rightarrow> port_forward \<Rightarrow> bool" where
  "conflicting r p \<longleftrightarrow> pw_enabled r \<and> pw_enabled p \<and> pw_family p = pw_family r \<and> pw_listener p = pw_listener r
     \<and> pw_protocol p = pw_protocol r \<and> pw_ext_start p \<le> pw_ext_end r \<and> pw_ext_start r \<le> pw_ext_end p"

definition total_mapped :: "port_forward list \<Rightarrow> int" where
  "total_mapped rs = sum_list (map mapped_ports (filter pw_enabled rs))"

definition forwards_ok :: "(pystr \<Rightarrow> pystr) \<Rightarrow> port_forward list \<Rightarrow> bool" where
  "forwards_ok tr rs \<longleftrightarrow> length rs \<le> 256 \<and> distinct (map pw_id rs) \<and> distinct (map pw_name rs)
     \<and> (\<forall>r \<in> set rs. (\<exists>k. pw_id r = Some k \<and> 1 \<le> k \<and> k \<le> 0xFFFFFF) \<and> port_forward_create tr r True)
     \<and> (\<forall>r \<in> set rs. \<forall>p \<in> set rs. pw_id r \<noteq> pw_id p \<longrightarrow> \<not> conflicting r p)
     \<and> total_mapped rs \<le> 65535"

lemma conflicting_sym: "conflicting r p \<longleftrightarrow> conflicting p r"
  by (auto simp: conflicting_def)

lemma mapped_positive: "port_forward_create tr r b \<Longrightarrow> 0 < mapped_ports r"
  by (auto simp: port_forward_create_def validate_mapping_def mapped_ports_def Let_def)

text \<open>What an accepted candidate satisfies.\<close>

lemma unique_errors_Nil [simp]: "unique_errors es = [] \<longleftrightarrow> es = []"
  by (simp add: unique_errors_def)

lemma validated:
  assumes "validate_port_forward tr lo c b r peers = Inr []"
  obtains listener target where
    "unicast_address (pw_listener r) (pw_family r) = Some listener" "unicast_address (pw_target r) (pw_family r) = Some target"
    "port_forward_create tr r True" "address_str listener = pw_listener r" "address_str target = pw_target r"
    "\<forall>i \<in> set (fc_interfaces c). interface_errors r listener target i = []"
    "\<forall>l \<in> set (fc_claims c). \<not> claims_port r listener l" "peer_errors r listener peers = []"
    "b \<Longrightarrow> binding_error c r listener = Inr []"
  using assms
  by (auto simp: validate_port_forward_def bindE_eq_Inr review_error_def list_ex_iff split: option.splits if_splits)

lemma peer_errors_Nil:
  assumes "peer_errors r listener peers = []" "address_str listener = pw_listener r"
  shows "p \<in> set peers \<Longrightarrow> pw_id p \<noteq> pw_id r \<or> pw_id r = None \<Longrightarrow> \<not> conflicting r p"
    "pw_enabled r \<Longrightarrow> mapped_ports r + sum_list (map mapped_ports (filter (\<lambda>p. pw_enabled p \<and> (pw_id r = None \<or> pw_id p \<noteq> pw_id r)) peers)) \<le> 65535"
proof -
  show "p \<in> set peers \<Longrightarrow> pw_id p \<noteq> pw_id r \<or> pw_id r = None \<Longrightarrow> \<not> conflicting r p"
    using assms by (auto simp: peer_errors_def list_ex_iff conflicting_def overlapping_def split: if_splits)
  show "pw_enabled r \<Longrightarrow> mapped_ports r + sum_list (map mapped_ports (filter (\<lambda>p. pw_enabled p \<and> (pw_id r = None \<or> pw_id p \<noteq> pw_id r)) peers)) \<le> 65535"
    using assms(1) by (auto simp: peer_errors_def MAX_MAPPED_PORTS_def split: if_splits)
qed

lemma save_steps:
  assumes "save_port_forward tr lo c fresh actor payload rule_id t = (Inr row, t')"
  obtains r where "canonical_values (payload\<lparr>pw_id := rule_id\<rparr>) = Inr r" "pw_id r = rule_id"
    "validate_port_forward tr lo c True r (forwards t) = Inr []" "store_forward actor fresh rule_id r t = (Inr row, t')"
    "rule_id = None \<Longrightarrow> length (forwards t) < 256" "\<And>k. rule_id = Some k \<Longrightarrow> \<exists>p \<in> set (forwards t). pw_id p = Some k"
proof -
  obtain r errors where r: "canonical_values (payload\<lparr>pw_id := rule_id\<rparr>) = Inr r"
    "validate_port_forward tr lo c True r (forwards t) = Inr errors" "errors = []" "store_forward actor fresh rule_id r t = (Inr row, t')"
    "\<not> (rule_id = None \<and> MAX_PORT_FORWARDS \<le> length (forwards t))"
    "case rule_id of None \<Rightarrow> True | Some k \<Rightarrow> forward_by_id k t \<noteq> None"
    using assms by (auto simp: save_port_forward_def bindS_eq_Inr liftS_def getS_def)
  have "pw_id r = rule_id" using r(1) by (auto simp: canonical_values_def split: option.splits)
  moreover have "\<exists>p \<in> set (forwards t). pw_id p = Some k" if "rule_id = Some k" for k
    using r(6) that by (auto simp: forward_by_id_def find_None_iff)
  ultimately show ?thesis using that r by (auto simp: MAX_PORT_FORWARDS_def)
qed

section \<open>Every transaction keeps the invariant\<close>

lemma stored_simps [simp]:
  "port_forward_create tr (r\<lparr>pw_id := k, pw_review := b\<rparr>) a = port_forward_create tr r a"
  "conflicting (r\<lparr>pw_id := k, pw_review := b\<rparr>) p = conflicting r p"
  "mapped_ports (r\<lparr>pw_id := k, pw_review := b\<rparr>) = mapped_ports r"
  by (simp_all add: port_forward_create_def validate_mapping_def conflicting_def mapped_ports_def)

lemma total_mapped_append: "total_mapped (rs @ [r]) = total_mapped rs + (if pw_enabled r then mapped_ports r else 0)"
  by (simp add: total_mapped_def)

lemma total_mapped_replace:
  assumes "distinct (map pw_id rs)" "pw_enabled row \<Longrightarrow> 0 \<le> mapped_ports row"
  shows "total_mapped (map (\<lambda>p. if pw_id p = k then row else p) rs)
    \<le> sum_list (map mapped_ports (filter (\<lambda>p. pw_enabled p \<and> pw_id p \<noteq> k) rs)) + (if pw_enabled row then mapped_ports row else 0)"
  using assms(1)
proof (induction rs)
  case (Cons p rs)
  show ?case
  proof (cases "pw_id p = k")
    case True
    then have "\<forall>q \<in> set rs. pw_id q \<noteq> k" using Cons.prems by (auto simp: rev_image_eqI)
    then have "map (\<lambda>p. if pw_id p = k then row else p) rs = rs" "filter (\<lambda>p. pw_enabled p \<and> pw_id p \<noteq> k) rs = filter pw_enabled rs"
      by (auto intro: map_idI filter_cong)
    then show ?thesis using True by (simp add: total_mapped_def)
  next
    case False
    then show ?thesis using Cons by (auto simp: total_mapped_def split: if_splits)
  qed
qed (use assms(2) in \<open>simp add: total_mapped_def\<close>)

lemma total_others_le:
  "\<forall>p \<in> set rs. 0 < mapped_ports p \<Longrightarrow>
   sum_list (map mapped_ports (filter (\<lambda>p. pw_enabled p \<and> Q p) rs)) \<le> total_mapped rs"
  by (induction rs) (auto simp: total_mapped_def)

lemma replaced_names:
  assumes "distinct (map pw_name rs)" "distinct (map pw_id rs)"
    "\<And>p. p \<in> set rs \<Longrightarrow> pw_id p \<noteq> Some k \<Longrightarrow> pw_name p \<noteq> pw_name row"
  shows "distinct (map pw_name (map (\<lambda>p. if pw_id p = Some k then row else p) rs))"
  using assms
proof (induction rs)
  case (Cons p rs)
  show ?case
  proof (cases "pw_id p = Some k")
    case True
    then have other: "\<forall>q \<in> set rs. pw_id q \<noteq> Some k" using Cons.prems(2) by (auto simp: rev_image_eqI)
    then have "map (\<lambda>p. if pw_id p = Some k then row else p) rs = rs" by (auto intro: map_idI)
    moreover have "pw_name row \<notin> pw_name ` set rs" using Cons.prems(3) other by (metis imageE list.set_intros(2))
    ultimately show ?thesis using True Cons.prems(1) by simp
  next
    case False
    then show ?thesis using Cons by (auto split: if_splits)
  qed
qed simp

lemma store_forward_ok:
  assumes ok: "forwards_ok tr (forwards t)" and v: "validate_port_forward tr lo c b r (forwards t) = Inr []" and id: "pw_id r = rule_id"
    and len: "rule_id = None \<Longrightarrow> length (forwards t) < 256" and st: "store_forward actor fresh rule_id r t = (Inr row, t')"
  shows "forwards_ok tr (forwards t')"
proof -
  obtain listener where r: "port_forward_create tr r True" "peer_errors r listener (forwards t) = []" "address_str listener = pw_listener r"
    by (rule validated [OF v]) blast
  note P = peer_errors_Nil [OF r(2,3)]
  define k where "k = (case rule_id of Some k \<Rightarrow> k | None \<Rightarrow> fresh)"
  have row: "row = r\<lparr>pw_id := Some k, pw_review := False\<rparr>" "1 \<le> k \<and> k \<le> 0xFFFFFF"
    and fresh: "\<And>p. p \<in> set (forwards t) \<Longrightarrow> pw_id p \<noteq> rule_id \<Longrightarrow> pw_name p \<noteq> pw_name r \<and> pw_id p \<noteq> Some k"
    and t': "forwards t' = (if rule_id = None then forwards t @ [row] else map (\<lambda>p. if pw_id p = rule_id then row else p) (forwards t))"
    using st by (auto simp: store_forward_def Let_def k_def list_ex_iff split: if_splits)
  have rowf: "port_forward_create tr row True" "pw_name row = pw_name r" "pw_id row = Some k" "pw_enabled row = pw_enabled r"
    "mapped_ports row = mapped_ports r" "\<And>p. conflicting row p = conflicting r p"
    using r(1) by (simp_all add: row(1))
  have pos: "\<forall>p \<in> set (forwards t). 0 < mapped_ports p" using ok mapped_positive by (auto simp: forwards_ok_def)
  have others: "\<not> conflicting row p" if "p \<in> set (forwards t)" "pw_id p \<noteq> rule_id \<or> rule_id = None" for p
    using P(1) that id rowf(6) by simp
  show ?thesis
  proof (cases rule_id)
    case None
    have ids: "\<forall>p \<in> set (forwards t). pw_id p \<noteq> None" using ok by (auto simp: forwards_ok_def)
    have "total_mapped (forwards t @ [row]) \<le> 65535"
    proof (cases "pw_enabled r")
      case True
      then show ?thesis using P(2) [OF True] None id by (simp add: total_mapped_append rowf total_mapped_def)
    next
      case False
      then show ?thesis using ok by (simp add: total_mapped_append rowf forwards_ok_def)
    qed
    moreover have "pw_name r \<notin> pw_name ` set (forwards t)" "Some k \<notin> pw_id ` set (forwards t)"
      using fresh ids None by (metis imageE)+
    then have "distinct (map pw_id (forwards t @ [row]))" "distinct (map pw_name (forwards t @ [row]))"
      using ok by (simp_all add: forwards_ok_def rowf)
    moreover have "\<forall>p \<in> set (forwards t). \<not> conflicting row p \<and> \<not> conflicting p row"
      using others None conflicting_sym by blast
    ultimately show ?thesis
      using ok len [OF None] row(2) rowf(1,3) None by (auto simp: forwards_ok_def t')
  next
    case (Some k')
    then have k: "k' = k" by (simp add: k_def)
    let ?g = "\<lambda>p. if pw_id p = Some k then row else p"
    have t'': "forwards t' = map ?g (forwards t)" using t' Some k by simp
    have ids: "map pw_id (map ?g (forwards t)) = map pw_id (forwards t)" using rowf(3) by auto
    have names: "distinct (map pw_name (map ?g (forwards t)))"
      using replaced_names [of "forwards t" k row] ok fresh Some k rowf(2) by (simp add: forwards_ok_def)
    have total: "total_mapped (map ?g (forwards t)) \<le> 65535"
    proof (cases "pw_enabled r")
      case True
      have "total_mapped (map ?g (forwards t)) \<le> sum_list (map mapped_ports (filter (\<lambda>p. pw_enabled p \<and> pw_id p \<noteq> Some k) (forwards t))) + mapped_ports r"
        using total_mapped_replace [of "forwards t" row "Some k"] ok mapped_positive [OF r(1)] True rowf by (simp add: forwards_ok_def)
      then show ?thesis using P(2) [OF True] id Some k by simp
    next
      case False
      have "total_mapped (map ?g (forwards t)) \<le> sum_list (map mapped_ports (filter (\<lambda>p. pw_enabled p \<and> pw_id p \<noteq> Some k) (forwards t)))"
        using total_mapped_replace [of "forwards t" row "Some k"] ok False rowf by (simp add: forwards_ok_def)
      then show ?thesis using total_others_le [OF pos, of "\<lambda>p. pw_id p \<noteq> Some k"] ok by (simp add: forwards_ok_def)
    qed
    have conf: "\<not> conflicting p q" if "p \<in> set (map ?g (forwards t))" "q \<in> set (map ?g (forwards t))" "pw_id p \<noteq> pw_id q" for p q
      using that others Some k rowf(3) ok conflicting_sym by (auto simp: forwards_ok_def split: if_splits)
    have each: "\<forall>p \<in> set (map ?g (forwards t)). (\<exists>k. pw_id p = Some k \<and> 1 \<le> k \<and> k \<le> 0xFFFFFF) \<and> port_forward_create tr p True"
      using ok row(2) rowf(1,3) by (auto simp: forwards_ok_def)
    show ?thesis unfolding forwards_ok_def t''
      using ids names total conf each ok by (simp only: forwards_ok_def length_map) blast
  qed
qed

lemma save_ok:
  "save_port_forward tr lo c fresh actor payload rule_id t = (Inr row, t') \<Longrightarrow> forwards_ok tr (forwards t) \<Longrightarrow> forwards_ok tr (forwards t')"
  by (erule save_steps) (rule store_forward_ok)

lemma save_refused: "save_port_forward tr lo c fresh actor payload rule_id t = (Inl e, t') \<Longrightarrow> t' = t"
  by (auto simp: save_port_forward_def bindS_def liftS_def getS_def store_forward_def Let_def split: sum.splits if_splits prod.splits)

lemma forwards_ok_filter:
  assumes "forwards_ok tr rs"
  shows "forwards_ok tr (filter Q rs)"
proof -
  have pos: "\<forall>p \<in> set rs. 0 < mapped_ports p" using assms mapped_positive by (auto simp: forwards_ok_def)
  have "total_mapped (filter Q rs) = sum_list (map mapped_ports (filter (\<lambda>p. pw_enabled p \<and> Q p) rs))"
    by (simp add: total_mapped_def conj_commute)
  then have "total_mapped (filter Q rs) \<le> 65535" using total_others_le [OF pos, of Q] assms by (simp add: forwards_ok_def)
  moreover have "length (filter Q rs) \<le> 256" using assms order_trans [OF length_filter_le] by (auto simp: forwards_ok_def)
  ultimately show ?thesis using assms by (auto simp: forwards_ok_def distinct_map_filter)
qed

section \<open>Reachable tables\<close>

inductive forward_reach :: "(pystr \<Rightarrow> pystr) \<Rightarrow> (pystr \<Rightarrow> pystr) \<Rightarrow> forward_tables \<Rightarrow> bool" for tr lo where
  init: "forward_reach tr lo \<lparr> forwards = [], forward_audits = [] \<rparr>"
| save: "forward_reach tr lo t \<Longrightarrow> save_port_forward tr lo c fresh actor payload rule_id t = (r, t') \<Longrightarrow> forward_reach tr lo t'"
| delete: "forward_reach tr lo t \<Longrightarrow> delete_port_forward k actor t = (r', t') \<Longrightarrow> forward_reach tr lo t'"
| enable: "forward_reach tr lo t \<Longrightarrow> set_port_forward_enabled tr lo c k actor on t = (r, t') \<Longrightarrow> forward_reach tr lo t'"

lemma save_keeps: "save_port_forward tr lo c fresh actor payload rule_id t = (r, t') \<Longrightarrow> forwards_ok tr (forwards t) \<Longrightarrow> forwards_ok tr (forwards t')"
  by (cases r) (auto dest: save_refused save_ok)

lemma forward_reach_ok: "forward_reach tr lo t \<Longrightarrow> forwards_ok tr (forwards t)"
proof (induction rule: forward_reach.induct)
  case init
  show ?case by (simp add: forwards_ok_def total_mapped_def)
next
  case (save t c fresh actor payload rule_id r t')
  then show ?case by (blast intro: save_keeps)
next
  case (delete t k actor r' t')
  then show ?case by (auto simp: delete_port_forward_def forwards_ok_filter split: if_splits)
next
  case (enable t c k actor on r t')
  then show ?case by (auto simp: set_port_forward_enabled_def split: option.splits if_splits intro: save_keeps)
qed

text \<open>The rule that translates a packet to an endpoint, and the port it translates to.\<close>

definition translates :: "port_forward \<Rightarrow> int \<Rightarrow> pystr \<Rightarrow> pystr \<Rightarrow> int \<Rightarrow> bool" where
  "translates r family listener protocol port \<longleftrightarrow>
     pw_enabled r \<and> pw_family r = family \<and> pw_listener r = listener \<and> pw_protocol r = protocol
   \<and> pw_ext_start r \<le> port \<and> port \<le> pw_ext_end r"

definition translated_port :: "port_forward \<Rightarrow> int \<Rightarrow> int" where
  "translated_port r port = pw_tgt_start r + (port - pw_ext_start r)"

text \<open>
  C8: The saved port forwards always define one translation. However rules are created, replaced, switched
  on or off and deleted, and whatever the interfaces and listeners are at each time, at most one enabled
  rule translates a given family, listener address, protocol and port; it translates to a valid port of its
  own target range, different external ports to different target ports. There are never more than 256 rules
  nor more than 65535 mapped ports, and a transaction that fails leaves the table as it was.
\<close>

theorem forwards_define_one_translation:
  assumes "forward_reach tr lo t"
  shows "(\<forall>r \<in> set (forwards t). \<forall>p \<in> set (forwards t). \<forall>f l q x. translates r f l q x \<and> translates p f l q x \<longrightarrow> r = p)
    \<and> (\<forall>r \<in> set (forwards t). \<forall>f l q x. translates r f l q x \<longrightarrow>
          pw_tgt_start r \<le> translated_port r x \<and> translated_port r x \<le> pw_tgt_end r
        \<and> 1 \<le> translated_port r x \<and> translated_port r x \<le> 65535
        \<and> (\<forall>y. translated_port r y = translated_port r x \<longrightarrow> y = x))
    \<and> length (forwards t) \<le> 256 \<and> total_mapped (forwards t) \<le> 65535
    \<and> (\<forall>c fresh actor payload rule_id e t'. save_port_forward tr lo c fresh actor payload rule_id t = (Inl e, t') \<longrightarrow> t' = t)"
proof -
  have ok: "forwards_ok tr (forwards t)" by (rule forward_reach_ok [OF assms])
  have one: "r = p" if "r \<in> set (forwards t)" "p \<in> set (forwards t)" "translates r f l q x" "translates p f l q x" for r p f l q x
  proof -
    have "conflicting r p" using that(3,4) by (auto simp: translates_def conflicting_def)
    then have "pw_id r = pw_id p" using ok that(1,2) by (auto simp: forwards_ok_def)
    then show ?thesis using ok that(1,2) by (auto simp: forwards_ok_def distinct_map inj_on_def)
  qed
  have port: "pw_tgt_start r \<le> translated_port r x \<and> translated_port r x \<le> pw_tgt_end r \<and> 1 \<le> translated_port r x \<and> translated_port r x \<le> 65535"
    if "r \<in> set (forwards t)" "translates r f l q x" for r f l q x
  proof -
    have "port_forward_create tr r True" using ok that(1) by (simp add: forwards_ok_def)
    then show ?thesis using that(2)
      by (auto simp: port_forward_create_def validate_mapping_def port_ok_def translates_def translated_port_def Let_def)
  qed
  show ?thesis using one port ok save_refused by (auto simp: forwards_ok_def translated_port_def)
qed

section \<open>What a saved rule cannot reach\<close>

lemma standard_claims:
  assumes "listener_claims_for_settings settings pxe = Inr claims"
  shows "port \<in> {22, 80, 443, 53, 111, 2049, 20048} \<Longrightarrow> claim_one (u ''*'') (u ''*'') ''tcp'' port \<in> set claims"
    "port \<in> {53, 67, 68, 69, 111, 547} \<Longrightarrow> claim_one (u ''*'') (u ''*'') ''udp'' port \<in> set claims"
  using assms by (auto simp: listener_claims_for_settings_def bindE_eq_Inr)

lemma star_claim: "claims_port r listener (claim_one (u ''*'') (u ''*'') protocol port) \<longleftrightarrow>
    u protocol = pw_protocol r \<and> pw_ext_start r \<le> port \<and> port \<le> pw_ext_end r"
  by (auto simp: claims_port_def claim_one_def)

lemma binding_error_Nil:
  assumes "binding_error c r listener = Inr []"
  shows "\<exists>nt \<in> set (fc_targets c). \<exists>i. nt_name nt = pw_ingress r
    \<and> ip_interface (if pw_family r = 4 then nt_cidr nt else nt_cidr6 nt) = Some i \<and> interface_ip (fst i) = listener"
proof -
  obtain nt where "map_of (rev (map (\<lambda>t. (nt_name t, t)) (fc_targets c))) (pw_ingress r) = Some nt"
    and i: "\<exists>i. ip_interface (if pw_family r = 4 then nt_cidr nt else nt_cidr6 nt) = Some i \<and> interface_ip (fst i) = listener"
    using assms by (auto simp: binding_error_def Let_def split: option.splits if_splits)
  then have "nt \<in> set (fc_targets c)" "nt_name nt = pw_ingress r" by (auto dest!: map_of_SomeD)
  then show ?thesis using i by blast
qed

lemma interface_errors_Nil:
  assumes "interface_errors r listener target ni = []" "Some cidr \<in> {ni_cidr ni, ni_cidr6 ni}" "ip_interface cidr = Some i"
  shows "interface_ip (fst i) \<noteq> target"
    "ni_role ni = u ''management'' \<Longrightarrow> int (address_version (fst i)) = pw_family r \<Longrightarrow> \<not> in_network target i"
  using assms by (auto simp: interface_errors_def assigned_errors_def split: if_splits option.splits)

lemma stored_row:
  assumes "store_forward actor fresh rule_id r t = (Inr row, t')" "\<And>k. rule_id = Some k \<Longrightarrow> \<exists>p \<in> set (forwards t). pw_id p = Some k"
  shows "row = r\<lparr>pw_id := Some (case rule_id of Some k \<Rightarrow> k | None \<Rightarrow> fresh), pw_review := False\<rparr>" "row \<in> set (forwards t')"
  using assms by (auto simp: store_forward_def Let_def split: if_splits option.splits)

text \<open>
  C14: A saved port forward cannot take over the appliance or reach into it. Whenever a rule is saved or
  replaced, its external ports include none of the ports reserved for SSH, the web front doors, DNS, DHCP,
  TFTP and NFS, and none that an enabled service claims on its listener; its listener is exactly an address
  assigned to the chosen ingress interface; its target is a plain unicast address of the same family, is no
  address of any interface of the appliance, and lies in no dedicated management network.
\<close>

theorem saved_forward_is_guarded:
  assumes saved: "save_port_forward tr lo c fresh actor payload rule_id t = (Inr row, t')"
    and ctx: "validation_context lo interfaces vlans groups settings pxe = Inr c"
  shows "row \<in> set (forwards t')
    \<and> (\<forall>x. pw_ext_start row \<le> x \<and> x \<le> pw_ext_end row \<longrightarrow>
          (pw_protocol row = u ''tcp'' \<longrightarrow> x \<notin> {22, 80, 443, 53, 111, 2049, 20048})
        \<and> (pw_protocol row = u ''udp'' \<longrightarrow> x \<notin> {53, 67, 68, 69, 111, 547}))
    \<and> (\<exists>listener target.
          unicast_address (pw_listener row) (pw_family row) = Some listener
        \<and> unicast_address (pw_target row) (pw_family row) = Some target
        \<and> (\<forall>l \<in> set (fc_claims c). \<not> claims_port row listener l)
        \<and> (\<exists>nt \<in> set (fc_targets c). \<exists>i. nt_name nt = pw_ingress row
             \<and> ip_interface (if pw_family row = 4 then nt_cidr nt else nt_cidr6 nt) = Some i \<and> interface_ip (fst i) = listener
             \<and> nt_role nt \<in> {u ''access'', u ''route''}
             \<and> (\<exists>pa \<in> set interfaces. pi_name pa = nt_physical nt \<and> pi_admin_state pa = u ''up'' \<and> pi_oper_state pa \<noteq> u ''missing''))
        \<and> (\<forall>ni \<in> set (fc_interfaces c). \<forall>cidr i. Some cidr \<in> {ni_cidr ni, ni_cidr6 ni} \<and> ip_interface cidr = Some i \<longrightarrow>
             interface_ip (fst i) \<noteq> target
           \<and> (ni_role ni = u ''management'' \<and> int (address_version (fst i)) = pw_family row \<longrightarrow> \<not> in_network target i)))"
proof -
  have claims: "listener_claims_for_settings settings pxe = Inr (fc_claims c)" and targets: "fc_targets c = nat_targets lo interfaces vlans"
    using ctx by (auto simp: validation_context_def bindE_eq_Inr)
  obtain r where v: "validate_port_forward tr lo c True r (forwards t) = Inr []"
    and st: "store_forward actor fresh rule_id r t = (Inr row, t')"
    and ex: "\<And>k. rule_id = Some k \<Longrightarrow> \<exists>p \<in> set (forwards t). pw_id p = Some k"
    by (rule save_steps [OF saved]) blast
  have row: "row = r\<lparr>pw_id := Some (case rule_id of Some k \<Rightarrow> k | None \<Rightarrow> fresh), pw_review := False\<rparr>" "row \<in> set (forwards t')"
    using stored_row [OF st] ex by blast+
  obtain listener target where L: "unicast_address (pw_listener r) (pw_family r) = Some listener"
    "unicast_address (pw_target r) (pw_family r) = Some target"
    and ifs: "\<forall>i \<in> set (fc_interfaces c). interface_errors r listener target i = []"
    and free: "\<forall>l \<in> set (fc_claims c). \<not> claims_port r listener l"
    and bind: "binding_error c r listener = Inr []"
    by (rule validated [OF v]) blast
  have tcp: "u ''tcp'' = pw_protocol r \<Longrightarrow> \<not> (pw_ext_start r \<le> x \<and> x \<le> pw_ext_end r)"
    if "x \<in> {22, 80, 443, 53, 111, 2049, 20048}" for x
    using free standard_claims(1) [OF claims that] star_claim by blast
  have udp: "u ''udp'' = pw_protocol r \<Longrightarrow> \<not> (pw_ext_start r \<le> x \<and> x \<le> pw_ext_end r)"
    if "x \<in> {53, 67, 68, 69, 111, 547}" for x
    using free standard_claims(2) [OF claims that] star_claim by blast
  have same [simp]: "pw_ext_start row = pw_ext_start r" "pw_ext_end row = pw_ext_end r" "pw_protocol row = pw_protocol r"
    "pw_listener row = pw_listener r" "pw_target row = pw_target r" "pw_family row = pw_family r" "pw_ingress row = pw_ingress r"
    "\<And>listener. claims_port row listener = claims_port r listener"
    by (simp_all add: row(1) claims_port_def fun_eq_iff)
  have nis: "interface_ip (fst i) \<noteq> target
           \<and> (ni_role ni = u ''management'' \<and> int (address_version (fst i)) = pw_family r \<longrightarrow> \<not> in_network target i)"
    if "ni \<in> set (fc_interfaces c)" "Some cidr \<in> {ni_cidr ni, ni_cidr6 ni}" "ip_interface cidr = Some i" for ni cidr i
    using interface_errors_Nil [OF bspec [OF ifs that(1)] that(2,3)] by blast
  have ports: "\<forall>x. pw_ext_start r \<le> x \<and> x \<le> pw_ext_end r \<longrightarrow>
          (pw_protocol r = u ''tcp'' \<longrightarrow> x \<notin> {22, 80, 443, 53, 111, 2049, 20048})
        \<and> (pw_protocol r = u ''udp'' \<longrightarrow> x \<notin> {53, 67, 68, 69, 111, 547})"
    using tcp udp by metis
  have ingress: "\<exists>nt \<in> set (fc_targets c). \<exists>i. nt_name nt = pw_ingress r
             \<and> ip_interface (if pw_family r = 4 then nt_cidr nt else nt_cidr6 nt) = Some i \<and> interface_ip (fst i) = listener
             \<and> nt_role nt \<in> {u ''access'', u ''route''}
             \<and> (\<exists>pa \<in> set interfaces. pi_name pa = nt_physical nt \<and> pi_admin_state pa = u ''up'' \<and> pi_oper_state pa \<noteq> u ''missing'')"
    using binding_error_Nil [OF bind] nat_target_origin unfolding targets by meson
  have "\<forall>ni \<in> set (fc_interfaces c). \<forall>cidr i. Some cidr \<in> {ni_cidr ni, ni_cidr6 ni} \<and> ip_interface cidr = Some i \<longrightarrow>
             interface_ip (fst i) \<noteq> target
           \<and> (ni_role ni = u ''management'' \<and> int (address_version (fst i)) = pw_family r \<longrightarrow> \<not> in_network target i)"
    using nis by blast
  then show ?thesis unfolding same
    using row(2) ports L free ingress by (intro conjI exI) assumption+
qed

section \<open>A saved rule\<close>

definition sample_forward :: port_forward where
  "sample_forward = \<lparr> pw_id = None, pw_name = u ''web'', pw_description = [], pw_priority = 100, pw_enabled = True, pw_family = 4,
     pw_ingress = u ''eth1'', pw_listener = u ''10.0.0.2'', pw_protocol = u ''tcp'', pw_ext_start = 8080, pw_ext_end = 8081,
     pw_target = u ''10.0.0.9'', pw_tgt_start = 80, pw_tgt_end = 81, pw_source = u ''any'', pw_reply = u ''preserve'', pw_review = False \<rparr>"

definition sample_claims :: "listener_claim list" where
  "sample_claims = (case listener_claims_for_settings [] \<lparr> px_enabled = False, px_interface = [], px_port = 80 \<rparr> of Inr cs \<Rightarrow> cs | Inl _ \<Rightarrow> [])"

definition sample_context :: forward_context where
  "sample_context = \<lparr> fc_targets = [sample_target],
     fc_interfaces = [interface_row (Inl sample_eth0), interface_row (Inl sample_eth1)], fc_groups = [], fc_claims = sample_claims \<rparr>"

definition no_forwards :: forward_tables where
  "no_forwards = \<lparr> forwards = [], forward_audits = [] \<rparr>"

lemma sample_addresses:
  "ip_address (u ''10.0.0.2'') = Some (V4 [10, 0, 0, 2])" "ip_address (u ''10.0.0.9'') = Some (V4 [10, 0, 0, 9])"
  by code_simp+

lemma sample_unicast:
  "unicast_address (u ''10.0.0.2'') 4 = Some (V4 [10, 0, 0, 2])" "unicast_address (u ''10.0.0.9'') 4 = Some (V4 [10, 0, 0, 9])"
  by (simp_all add: unicast_address_def sample_addresses) (simp_all add: u_def)

lemma sample_source: "source_networks (map ascii_lower) [] (u ''any'') 4 = Some []"
  by code_simp

lemma sample_fields: "port_forward_create strip sample_forward True"
  by (simp add: port_forward_create_def sample_forward_def length_within_def utf16_length_def name_char_def port_ok_def
      validate_mapping_def strip_def lstrip_def rstrip_def u_def is_space_def ascii_alnum_def)

lemma sample_str: "address_str (V4 [10, 0, 0, 2]) = u ''10.0.0.2''" "address_str (V4 [10, 0, 0, 9]) = u ''10.0.0.9''"
  by code_simp+

lemma sample_bound: "binding_error sample_context sample_forward (V4 [10, 0, 0, 2]) = Inr []"
proof -
  have "map_of (rev (map (\<lambda>t. (nt_name t, t)) (fc_targets sample_context))) (pw_ingress sample_forward)
      = Some sample_target"
    by (simp add: sample_context_def sample_forward_def sample_target_def)
  moreover have "u ''10.0.0.2/24'' \<noteq> []" "pw_family sample_forward = 4" by (simp_all add: u_def sample_forward_def)
  ultimately show ?thesis by (simp add: binding_error_def sample_interface_addresses sample_target_def)
qed

lemma sample_interfaces: "concat (map (interface_errors sample_forward (V4 [10, 0, 0, 2]) (V4 [10, 0, 0, 9])) (fc_interfaces sample_context)) = []"
proof -
  have "pw_family sample_forward = 4" by (simp add: sample_forward_def)
  then show ?thesis
    by (simp add: sample_context_def interface_row_def sample_eth0_def sample_eth1_def interface_errors_def sample_interface_addresses assigned_errors_def in_network_def network_value_def
      broadcast_value_def)
qed

lemma sample_claims_eq: "sample_claims = map (claim_one (u ''*'') (u ''*'') ''tcp'') [22, 80, 443]
   @ map (claim_one (u ''*'') (u ''*'') ''udp'') [53, 67, 68, 69, 111, 547] @ map (claim_one (u ''*'') (u ''*'') ''tcp'') [53, 111, 2049, 20048]"
  "listener_claims_for_settings [] \<lparr> px_enabled = False, px_interface = [], px_port = 80 \<rparr> = Inr sample_claims"
  by (simp_all add: sample_claims_def listener_claims_for_settings_def service_claims_def listener_specs_def)

lemma sample_context_valid:
  "validation_context (map ascii_lower) [sample_eth0, sample_eth1] [] [] [] \<lparr> px_enabled = False, px_interface = [], px_port = 80 \<rparr> = Inr sample_context"
proof -
  have "nat_targets (map ascii_lower) [sample_eth0, sample_eth1] [] = [sample_target]"
    unfolding nat_targets_def target_of_def sample_eth0_def sample_eth1_def sample_target_def
    by (simp add: sample_families sample_mode) (simp add: or_empty_def u_def)
  then show ?thesis by (simp add: validation_context_def sample_claims_eq(2) sample_context_def)
qed

lemma sample_no_claim: "\<not> list_ex (claims_port sample_forward (V4 [10, 0, 0, 2])) (fc_claims sample_context)"
  by (simp add: sample_context_def sample_claims_eq star_claim sample_forward_def)

lemma sample_validated: "validate_port_forward strip (map ascii_lower) sample_context True (sample_forward\<lparr>pw_id := None\<rparr>) [] = Inr []"
proof -
  have s: "sample_forward\<lparr>pw_id := None\<rparr> = sample_forward" "pw_family sample_forward = 4" "pw_listener sample_forward = u ''10.0.0.2''"
    "pw_target sample_forward = u ''10.0.0.9''" "pw_source sample_forward = u ''any''" "fc_groups sample_context = []"
    "peer_errors sample_forward (V4 [10, 0, 0, 2]) [] = []"
    by (simp_all add: sample_forward_def sample_context_def peer_errors_def mapped_ports_def MAX_MAPPED_PORTS_def)
  show ?thesis
    unfolding validate_port_forward_def s sample_unicast sample_source option.case prod.case sample_str
    by (simp only: sample_fields sample_bound sample_interfaces sample_no_claim if_True if_False not_True_eq_False simp_thms
        bindE_simps append_Nil append_Nil2) (simp add: unique_errors_def)
qed

definition sample_row :: port_forward where
  "sample_row = sample_forward\<lparr>pw_id := Some 1\<rparr>"

definition one_forward :: forward_tables where
  "one_forward = \<lparr> forwards = [sample_row], forward_audits = [(u ''admin'', ''create_port_forward'', 1)] \<rparr>"

lemma sample_saved: "save_port_forward strip (map ascii_lower) sample_context 1 (u ''admin'') sample_forward None no_forwards
    = (Inr sample_row, one_forward)"
proof -
  have c: "canonical_values (sample_forward\<lparr>pw_id := None\<rparr>) = Inr (sample_forward\<lparr>pw_id := None\<rparr>)"
    by (simp add: canonical_values_def sample_forward_def sample_addresses sample_str del: address_str.simps)
  have st: "store_forward (u ''admin'') 1 None (sample_forward\<lparr>pw_id := None\<rparr>) no_forwards = (Inr sample_row, one_forward)"
    by (simp add: store_forward_def Let_def no_forwards_def sample_row_def one_forward_def sample_forward_def)
  have e: "getS forwards no_forwards = (Inr [], no_forwards)" "\<not> MAX_PORT_FORWARDS \<le> length ([] :: port_forward list)"
    by (simp_all add: getS_def no_forwards_def MAX_PORT_FORWARDS_def)
  show ?thesis
    unfolding save_port_forward_def bindS_def liftS_def e prod.case sum.case c sample_validated
    by (simp add: getS_def st MAX_PORT_FORWARDS_def)
qed

lemma one_forward_reached: "forward_reach strip (map ascii_lower) one_forward"
  by (rule forward_reach.save [OF forward_reach.init, folded no_forwards_def, OF sample_saved])

theorem forwards_define_one_translation_witness:
  "translates sample_row 4 (u ''10.0.0.2'') (u ''tcp'') 8081 \<and> translated_port sample_row 8081 = 81
   \<and> pw_tgt_start sample_row \<le> translated_port sample_row 8081 \<and> translated_port sample_row 8081 \<le> pw_tgt_end sample_row
   \<and> length (forwards one_forward) \<le> 256 \<and> total_mapped (forwards one_forward) \<le> 65535"
proof -
  have t: "translates sample_row 4 (u ''10.0.0.2'') (u ''tcp'') 8081" "translated_port sample_row 8081 = 81"
    by (simp_all add: translates_def translated_port_def sample_row_def sample_forward_def)
  have "sample_row \<in> set (forwards one_forward)" by (simp add: one_forward_def)
  then show ?thesis using forwards_define_one_translation [OF one_forward_reached] t by blast
qed

theorem saved_forward_is_guarded_witness:
  "save_port_forward strip (map ascii_lower) sample_context 1 (u ''admin'') sample_forward None no_forwards = (Inr sample_row, one_forward)
   \<and> sample_row \<in> set (forwards one_forward)
   \<and> (\<exists>listener target. unicast_address (pw_listener sample_row) (pw_family sample_row) = Some listener
        \<and> unicast_address (pw_target sample_row) (pw_family sample_row) = Some target
        \<and> (\<exists>nt \<in> set (fc_targets sample_context). \<exists>i. nt_name nt = pw_ingress sample_row
             \<and> ip_interface (if pw_family sample_row = 4 then nt_cidr nt else nt_cidr6 nt) = Some i \<and> interface_ip (fst i) = listener))"
proof -
  show ?thesis using saved_forward_is_guarded [OF sample_saved sample_context_valid] sample_saved by blast
qed

end
