(* ===== verification/Port_Forward_Apply.thy ===== *)
theory Port_Forward_Apply
  imports Port_Forwarding "HOL-Library.Word"
begin

unbundle bit_operations_syntax

text \<open>
  The second half of \<open>src/atlaso/app/services/port_forwarding.py\<close>: what is handed to the privileged helper
  (\<open>render_port_forward_records\<close>), what a published snapshot says about active forwards
  (\<open>snapshot_has_port_forwards\<close>, \<open>runtime_has_port_forwards\<close>), the firewall lines projected from the rules, and
  the comparison of the rules with the helper's observation. \<open>fr\<close> and \<open>fp\<close> render and read floats, \<open>sha\<close> is
  \<open>hashlib.sha256(text.encode()).hexdigest()\<close> on ASCII text, \<open>lo\<close> is \<open>str.lower\<close>.
\<close>

section \<open>Records for the helper\<close>

definition saved_id :: "port_forward \<Rightarrow> int" where
  "saved_id r = (case pw_id r of Some k \<Rightarrow> k | None \<Rightarrow> 0)"

definition forward_record :: "port_forward \<Rightarrow> pystr list \<Rightarrow> json" where
  "forward_record r networks = JObj
     [(u ''name'', JStr (pw_name r)), (u ''description'', JStr (pw_description r)), (u ''priority'', JInt (pw_priority r)),
      (u ''enabled'', JBool (pw_enabled r)), (u ''ip_family'', JInt (pw_family r)), (u ''ingress_interface'', JStr (pw_ingress r)),
      (u ''listener_address'', JStr (pw_listener r)), (u ''protocol'', JStr (pw_protocol r)),
      (u ''external_port_start'', JInt (pw_ext_start r)), (u ''external_port_end'', JInt (pw_ext_end r)),
      (u ''target_address'', JStr (pw_target r)), (u ''target_port_start'', JInt (pw_tgt_start r)),
      (u ''target_port_end'', JInt (pw_tgt_end r)), (u ''source'', JStr (pw_source r)), (u ''reply_mode'', JStr (pw_reply r)),
      (u ''id'', case pw_id r of Some k \<Rightarrow> JInt k | None \<Rightarrow> JNull),
      (u ''source_networks'', JArr (map JStr networks))]"

text \<open>An unavailable source is an error of an enabled rule only.\<close>

definition record_of :: "(pystr \<Rightarrow> pystr) \<Rightarrow> source_group list \<Rightarrow> port_forward \<Rightarrow> forward_error + json" where
  "record_of lo groups r = (case source_networks lo groups (pw_source r) (pw_family r) of
     Some networks \<Rightarrow> Inr (forward_record r networks)
   | None \<Rightarrow> if pw_enabled r then Inl AddressValueError else Inr (forward_record r []))"

definition records_prefix :: pystr where
  "records_prefix = 10 # u ''[port_forwards]'' @ 10 # u ''json=''"

definition render_port_forward_records ::
  "(rat \<Rightarrow> pystr) \<Rightarrow> (pystr \<Rightarrow> pystr) \<Rightarrow> source_group list \<Rightarrow> port_forward list \<Rightarrow> forward_error + pystr" where
  "render_port_forward_records fr lo groups rules =
     bindE (mapE (record_of lo groups) (sort_key (\<lambda>r. (pw_priority r, saved_id r)) rules)) (\<lambda>records.
     Inr (records_prefix @ json_dumps fr (JArr records) @ [10]))"

section \<open>Published snapshots\<close>

definition false_words :: "pystr set" where
  "false_words = {u ''false'', u ''0'', u ''no'', u ''off''}"

definition row_active :: "json \<Rightarrow> bool" where
  "row_active row = (case row of JObj ms \<Rightarrow> jget ms (u ''enabled'') \<noteq> Some (JBool False) | _ \<Rightarrow> True)"

text \<open>
  The loop over the lines. The pieces between line breaks are the lines of \<open>splitlines\<close> and possibly empty
  ones in addition, which the loop ignores.
\<close>

fun snapshot_lines :: "(pystr \<Rightarrow> json) \<Rightarrow> (pystr \<Rightarrow> pystr) \<Rightarrow> bool \<Rightarrow> bool \<Rightarrow> bool \<Rightarrow> pystr list \<Rightarrow> bool" where
  "snapshot_lines fp lo active features routing [] = active"
| "snapshot_lines fp lo active features routing (l # ls) =
     (let line = strip l
      in if startswith line (u ''['')
         then active \<or> snapshot_lines fp lo (line = u ''[port_forwards]'') (line = u ''[feature_settings]'') routing ls
         else if features \<and> startswith line (u ''routing_enabled='')
         then snapshot_lines fp lo active features (lo (strip (drop 16 line)) \<notin> false_words) ls
         else if active \<and> startswith line (u ''json='')
         then (case json_loads fp (drop 5 line) of
                 Some (JArr rows) \<Rightarrow> routing \<and> list_ex row_active rows
               | _ \<Rightarrow> True)
         else snapshot_lines fp lo active features routing ls)"

definition snapshot_has_port_forwards :: "(pystr \<Rightarrow> json) \<Rightarrow> (pystr \<Rightarrow> pystr) \<Rightarrow> pystr \<Rightarrow> bool" where
  "snapshot_has_port_forwards fp lo preview = snapshot_lines fp lo False False True (pieces line_break preview)"

text \<open>The helper's answer: exit code and standard output, or \<open>None\<close> when it cannot be started.\<close>

type_synonym helper_result = "(int \<times> pystr) option"

definition runtime_has_port_forwards :: "(pystr \<Rightarrow> json) \<Rightarrow> helper_result \<Rightarrow> forward_error + bool" where
  "runtime_has_port_forwards fp result =
     (case (case result of Some (rc, out) \<Rightarrow> if rc = 0 \<and> length out \<le> 2000000 then json_loads fp out else None | None \<Rightarrow> None) of
        Some (JObj ms) \<Rightarrow>
          (case jget ms (u ''runtime_has_port_forwards'') of
             Some (JBool b) \<Rightarrow> Inr b
           | _ \<Rightarrow> Inl (ForwardValueError ''Cannot verify applied forwarding intent; restore helper readiness before submitting appliance changes.''))
      | _ \<Rightarrow> Inl (ForwardValueError ''Cannot verify applied forwarding intent; restore helper readiness before submitting appliance changes.''))"

section \<open>Firewall projection\<close>

definition forward_mark :: "int \<Rightarrow> int" where
  "forward_mark k = 0xa7000000 OR k"

definition hex_mark :: "int \<Rightarrow> pystr" where
  "hex_mark k = u ''0x'' @ hex_digits (nat (forward_mark k))"

text \<open>The rest of the text from each line start, for the multi-line search of the base table.\<close>

fun after_breaks :: "pystr \<Rightarrow> pystr list" where
  "after_breaks [] = []"
| "after_breaks (c # s) = (if c = 10 then s # after_breaks s else after_breaks s)"

definition has_base_table :: "pystr \<Rightarrow> bool" where
  "has_base_table firewall = list_ex (\<lambda>s. startswith s (u ''table inet atlaso'')
       \<and> startswith (dropWhile is_space (drop 17 s)) (u ''{'')) (firewall # after_breaks firewall)"

fun join_text :: "pystr \<Rightarrow> pystr list \<Rightarrow> pystr" where
  "join_text sep [] = []"
| "join_text sep [x] = x"
| "join_text sep (x # y # xs) = x @ sep @ join_text sep (y # xs)"

definition port_range :: "int \<Rightarrow> int \<Rightarrow> pystr" where
  "port_range a b = (if a = b then dec_int a else dec_int a @ u ''-'' @ dec_int b)"

definition family_word :: "port_forward \<Rightarrow> pystr" where
  "family_word r = (if pw_family r = 4 then u ''ip'' else u ''ip6'')"

definition admission_line :: "port_forward \<Rightarrow> pystr list \<Rightarrow> bool \<Rightarrow> pystr" where
  "admission_line r sources reply =
     u ''add rule inet atlaso forward ct mark '' @ hex_mark (saved_id r) @ u '' ct status dnat ct direction ''
   @ (if reply then u ''reply oifname '' else u ''original iifname '') @ render_str (pw_ingress r)
   @ u '' ct original '' @ family_word r @ u '' daddr '' @ pw_listener r @ u '' ''
   @ (if sources = [] then []
      else u ''ct original '' @ family_word r @ u '' saddr { '' @ join_text (u '', '') sources @ u '' } '')
   @ u ''meta l4proto '' @ pw_protocol r @ u '' ct original proto-dst '' @ port_range (pw_ext_start r) (pw_ext_end r)
   @ u '' accept comment \"Atlaso port forward '' @ dec_int (saved_id r) @ u ''\"''"

definition projected_row :: "port_forward \<Rightarrow> pystr list \<Rightarrow> object" where
  "projected_row r sources =
     [(u ''id'', JStr (u ''port-forward:'' @ dec_int (saved_id r))), (u ''name'', JStr (u ''Port forward: '' @ pw_name r)),
      (u ''managed_state'', JStr (u ''generated'')), (u ''managed_status'', JStr (u ''generated'')), (u ''source_group_id'', JStr []),
      (u ''source_group_name'', JStr (pw_source r)), (u ''source_group_sources'', JStr (join_text (u '', '') sources)),
      (u ''direction'', JStr (u ''forward'')), (u ''action'', JStr (u ''accept'')), (u ''protocol'', JStr (pw_protocol r)),
      (u ''destination_port'', JStr (port_range (pw_ext_start r) (pw_ext_end r))), (u ''interface_name'', JStr (pw_ingress r)),
      (u ''priority'', JInt (pw_priority r)), (u ''enabled'', JBool True),
      (u ''description'', JStr (u ''Port forward #'' @ dec_int (saved_id r) @ u '': IPv'' @ dec_int (pw_family r) @ u '' ''
         @ pw_listener r @ u '':'' @ port_range (pw_ext_start r) (pw_ext_end r) @ u '' to '' @ pw_target r @ u '':''
         @ dec_int (pw_tgt_start r) @ u ''-'' @ dec_int (pw_tgt_end r) @ u ''; reply mode '' @ pw_reply r
         @ u ''. Edit this resource in Traffic Publishing.''))]"

definition base_lines :: "pystr list" where
  "base_lines = [u ''table inet atlaso {'', u ''  chain forward {'',
     u ''    type filter hook forward priority filter; policy accept;'', u ''  }'', u ''}'']"

definition active_rules :: "port_forward list \<Rightarrow> bool \<Rightarrow> port_forward list" where
  "active_rules rules routing = sort_key (\<lambda>r. (pw_priority r, saved_id r)) (filter (\<lambda>r. pw_enabled r \<and> routing) rules)"

text \<open>A rule whose source cannot be resolved raises.\<close>

definition with_sources :: "(pystr \<Rightarrow> pystr) \<Rightarrow> source_group list \<Rightarrow> port_forward \<Rightarrow> forward_error + (port_forward \<times> pystr list)" where
  "with_sources lo groups r = (case source_networks lo groups (pw_source r) (pw_family r) of
     Some ns \<Rightarrow> Inr (r, ns) | None \<Rightarrow> Inl AddressValueError)"

definition port_forward_firewall_projection ::
  "(pystr \<Rightarrow> pystr) \<Rightarrow> pystr \<Rightarrow> port_forward list \<Rightarrow> source_group list \<Rightarrow> bool \<Rightarrow> forward_error + pystr \<times> object list" where
  "port_forward_firewall_projection lo firewall rules groups routing =
     bindE (mapE (with_sources lo groups) (active_rules rules routing)) (\<lambda>active.
     Inr (if active = [] then (firewall, [])
          else (join_text [10] (rstrip firewall # u ''# BEGIN ATLASO PORT FORWARD ADMISSION''
                  # (if has_base_table firewall then [] else base_lines)
                  @ concat (map (\<lambda>(r, ns). [admission_line r ns False, admission_line r ns True]) active)
                  @ [u ''# END ATLASO PORT FORWARD ADMISSION'']) @ [10],
                map (\<lambda>(r, ns). projected_row r ns) active)))"

section \<open>Observed status\<close>

datatype forward_state = FDisabled | FPending | FSuspended | FApplied | FDegraded

record forward_status =
  fs_id :: "int option"
  fs_state :: forward_state
  fs_packets :: "int option"
  fs_bytes :: "int option"
  fs_detail :: string

text \<open>The rows an observation offers, or none when it is not a list of at most 256.\<close>

definition observed_rows :: "object \<Rightarrow> json list option" where
  "observed_rows ob = (case jget ob (u ''rules'') of
     None \<Rightarrow> Some []
   | Some (JArr rows) \<Rightarrow> if MAX_PORT_FORWARDS < length rows then None else Some rows
   | Some _ \<Rightarrow> None)"

definition row_entry :: "json \<Rightarrow> (int \<times> object) option" where
  "row_entry row = (case row of
     JObj ms \<Rightarrow> (case jget ms (u ''id'') of Some (JInt k) \<Rightarrow> Some (k, ms) | _ \<Rightarrow> None)
   | _ \<Rightarrow> None)"

definition applied_rows :: "object \<Rightarrow> int \<Rightarrow> object option" where
  "applied_rows ob = map_of (rev (List.map_filter row_entry (case observed_rows ob of Some rows \<Rightarrow> rows | None \<Rightarrow> [])))"

definition observation_available :: "object \<Rightarrow> bool" where
  "observation_available ob \<longleftrightarrow> observed_rows ob \<noteq> None \<and> jget ob (u ''available'') = Some (JBool True)"

text \<open>\<open>text.split("json=", 1)[1]\<close>.\<close>

fun after_first :: "pystr \<Rightarrow> pystr \<Rightarrow> pystr option" where
  "after_first sep [] = (if sep = [] then Some [] else None)"
| "after_first sep (c # s) = (if startswith (c # s) sep then Some (drop (length sep) (c # s)) else after_first sep s)"

text \<open>The empty fingerprint stands for a record that cannot be rendered.\<close>

definition forward_fingerprint ::
  "(rat \<Rightarrow> pystr) \<Rightarrow> (pystr \<Rightarrow> json) \<Rightarrow> (pystr \<Rightarrow> pystr) \<Rightarrow> (pystr \<Rightarrow> pystr) \<Rightarrow> source_group list \<Rightarrow> port_forward \<Rightarrow> pystr" where
  "forward_fingerprint fr fp sha lo groups r = (case render_port_forward_records fr lo groups [r] of
     Inl _ \<Rightarrow> []
   | Inr text \<Rightarrow> (case after_first (u ''json='') text of
       None \<Rightarrow> []
     | Some serialized \<Rightarrow> (case json_loads fp serialized of
         Some (JArr (x # _)) \<Rightarrow> sha (json_dumps fr x)
       | _ \<Rightarrow> [])))"

definition observed_counter :: "object \<Rightarrow> string \<Rightarrow> int option" where
  "observed_counter ob k = (case jget ob (u k) of Some (JInt n) \<Rightarrow> if 0 \<le> n then Some n else None | _ \<Rightarrow> None)"

definition warning_detail :: "object \<Rightarrow> string" where
  "warning_detail runtime =
     (if jget runtime (u ''warning'') = Some (JStr (u ''target_route_missing''))
      then ''The target has no usable lab route. Review Routing & WAN and the target network; translation remains applied.''
      else if jget runtime (u ''warning'') = Some (JStr (u ''target_neighbor_failed''))
      then ''The target or its next-hop neighbor failed resolution. Check its address, power, and network connection; translation remains applied.''
      else if jget runtime (u ''warning'') = Some (JStr (u ''target_observation_unavailable''))
      then ''Target path observations are unavailable. Review appliance runtime readiness and test from a selected client.''
      else ''Applied translation needs runtime or target-readiness review.'')"

definition valid_counters :: "object \<Rightarrow> bool" where
  "valid_counters runtime \<longleftrightarrow> observed_counter runtime ''packets'' \<noteq> None \<and> observed_counter runtime ''bytes'' \<noteq> None"

text \<open>The status of a rule whose applied row has the fingerprint of the saved one.\<close>

definition matching_status :: "port_forward \<Rightarrow> object \<Rightarrow> forward_status" where
  "matching_status r runtime =
     (let applied = valid_counters runtime \<and> jget runtime (u ''state'') = Some (JStr (u ''applied''))
      in \<lparr> fs_id = pw_id r, fs_state = (if applied then FApplied else FDegraded),
           fs_packets = (if valid_counters runtime then observed_counter runtime ''packets'' else None),
           fs_bytes = (if valid_counters runtime then observed_counter runtime ''bytes'' else None),
           fs_detail = (if applied then ''Applied translation matches current intent.'' else warning_detail runtime) \<rparr>)"

definition simple_status :: "port_forward \<Rightarrow> forward_state \<Rightarrow> string \<Rightarrow> forward_status" where
  "simple_status r s detail = \<lparr> fs_id = pw_id r, fs_state = s, fs_packets = None, fs_bytes = None, fs_detail = detail \<rparr>"

definition rule_status :: "(port_forward \<Rightarrow> pystr) \<Rightarrow> bool \<Rightarrow> object \<Rightarrow> port_forward \<Rightarrow> forward_status" where
  "rule_status fingerprint routing ob r =
     (let runtime = (case pw_id r of None \<Rightarrow> None | Some k \<Rightarrow> applied_rows ob k);
          pending = simple_status r FPending ''Desired intent differs from the applied snapshot; submit appliance changes.''
      in if \<not> observation_available ob
         then simple_status r FDegraded ''Applied translation observations are unavailable; review runtime readiness.''
         else if \<not> pw_enabled r \<and> runtime = None
         then simple_status r FDisabled ''This rule is disabled and has no applied translation.''
         else if \<not> routing \<and> runtime = None
         then simple_status r FSuspended ''Routing is disabled; this rule remains saved without active translation.''
         else (case runtime of
           Some row \<Rightarrow>
             if pw_enabled r \<and> routing \<and> fingerprint r \<noteq> [] \<and> jget row (u ''snapshot_hash'') = Some (JStr (fingerprint r))
             then matching_status r row else pending
         | None \<Rightarrow> pending))"

definition port_forward_status :: "(port_forward \<Rightarrow> pystr) \<Rightarrow> bool \<Rightarrow> object \<Rightarrow> port_forward list \<Rightarrow> forward_status list" where
  "port_forward_status fingerprint routing ob rules = map (rule_status fingerprint routing ob) (take MAX_PORT_FORWARDS rules)"

text \<open>\<open>observe_port_forwards\<close>: the helper's answer, the saved rules in their order and the routing setting.\<close>

definition helper_observation :: "(pystr \<Rightarrow> json) \<Rightarrow> int \<times> pystr \<Rightarrow> object" where
  "helper_observation fp result = (case result of (rc, out) \<Rightarrow>
     (case (if rc = 0 \<and> length out \<le> 2000000 then json_loads fp out else None) of
        Some (JObj ms) \<Rightarrow> ms
      | _ \<Rightarrow> [(u ''available'', JBool False), (u ''rules'', JArr [])]))"

definition routing_setting :: "(pystr \<Rightarrow> pystr) \<Rightarrow> pystr option \<Rightarrow> bool" where
  "routing_setting lo v = (case v of None \<Rightarrow> False | Some s \<Rightarrow> lo s \<in> {u ''true'', u ''1'', u ''on'', u ''yes''})"

definition observe_port_forwards ::
  "(rat \<Rightarrow> pystr) \<Rightarrow> (pystr \<Rightarrow> json) \<Rightarrow> (pystr \<Rightarrow> pystr) \<Rightarrow> (pystr \<Rightarrow> pystr) \<Rightarrow> int \<times> pystr \<Rightarrow> source_group list \<Rightarrow>
   pystr option \<Rightarrow> port_forward list \<Rightarrow> forward_status list" where
  "observe_port_forwards fr fp sha lo result groups routing rules =
     port_forward_status (forward_fingerprint fr fp sha lo groups) (routing_setting lo routing) (helper_observation fp result)
       (take MAX_PORT_FORWARDS (sort_key (\<lambda>r. (pw_priority r, pw_name r)) rules))"

end
