(* ===== verification/Port_Forward_Apply_Thms.thy ===== *)
theory Port_Forward_Apply_Thms
  imports Port_Forward_Thms Port_Forward_Apply
begin

unbundle bit_operations_syntax

text \<open>
  What the helper is given and what is read back from it: a published snapshot is recognised as active
  exactly when it is, a rule is reported as applied exactly when the helper applied the record it would be
  given now, and the connection marks of the rules are distinct.
\<close>

section \<open>Lines\<close>

lemma printable_no_break: "list_all printable s \<Longrightarrow> list_all (\<lambda>c. \<not> line_break c) s"
  by (auto simp: list_all_iff printable_def line_break_def)

section \<open>Dumped records\<close>

lemma sorted_row_active: "plain (forward_record r ns) \<Longrightarrow> row_active (sort_keys (forward_record r ns)) = pw_enabled r"
  unfolding forward_record_def
  by (simp add: row_active_def jget_def map_of_sort_key u_def del: sort_key_simps)

lemma record_of_cases: "record_of lo groups r = Inr j \<Longrightarrow> \<exists>ns. j = forward_record r ns"
  by (auto simp: record_of_def split: option.splits if_splits)

lemma dumps_arr: "\<exists>s. json_dumps fr (JArr js) = 91 # s @ [93]"
  by (simp add: json_dumps_def)

section \<open>Snapshots\<close>

text \<open>The routing switch that the \<open>[feature_settings]\<close> section of a snapshot records last.\<close>

fun feature_routing :: "(pystr \<Rightarrow> pystr) \<Rightarrow> bool \<Rightarrow> bool \<Rightarrow> pystr list \<Rightarrow> bool" where
  "feature_routing lo features routing [] = routing"
| "feature_routing lo features routing (l # ls) =
     (if startswith (strip l) (u ''['') then feature_routing lo (strip l = u ''[feature_settings]'') routing ls
      else if features \<and> startswith (strip l) (u ''routing_enabled='')
      then feature_routing lo features (lo (strip (drop 16 (strip l))) \<notin> false_words) ls
      else feature_routing lo features routing ls)"

lemma snapshot_prefix:
  assumes "\<forall>l \<in> set ls. strip l \<noteq> u ''[port_forwards]''"
  shows "\<exists>f. snapshot_lines fp lo False features routing (ls @ ls')
           = snapshot_lines fp lo False f (feature_routing lo features routing ls) ls'"
  using assms by (induction ls arbitrary: features routing) (auto simp: Let_def)

lemma section_line:
  "strip (u ''[port_forwards]'') = u ''[port_forwards]''" "startswith (u ''[port_forwards]'') (u ''['')"
  "u ''[port_forwards]'' \<noteq> u ''[feature_settings]''"
  by (simp_all add: strip_def lstrip_def rstrip_def u_def is_space_def startswith_def)

lemma json_line:
  "strip (u ''json='' @ 91 # s @ [93]) = u ''json='' @ 91 # s @ [93]"
  "\<not> startswith (u ''json='' @ 91 # s @ [93]) (u ''['')" "drop 5 (u ''json='' @ s) = s"
  by (simp_all add: strip_def lstrip_def rstrip_def u_def is_space_def startswith_def)

lemma snapshot_records:
  assumes "plain (JArr js)"
  shows "snapshot_lines fp lo False f routing [u ''[port_forwards]'', u ''json='' @ json_dumps fr (JArr js), []]
     \<longleftrightarrow> routing \<and> list_ex row_active (map sort_keys js)"
proof -
  obtain s where s: "json_dumps fr (JArr js) = 91 # s @ [93]" using dumps_arr by blast
  have l: "json_loads fp (91 # s @ [93]) = Some (JArr (map sort_keys js))"
    using json_loads_dumps [OF assms, of fp fr] s by simp
  show ?thesis by (simp add: s section_line json_line l Let_def)
qed

lemma rendered_pieces:
  assumes "plain (JArr js)"
  shows "pieces line_break (p @ records_prefix @ json_dumps fr (JArr js) @ [10])
    = pieces line_break p @ [u ''[port_forwards]'', u ''json='' @ json_dumps fr (JArr js), []]"
proof -
  let ?d = "json_dumps fr (JArr js)"
  have b: "line_break 10" by (simp add: line_break_def)
  have d: "list_all (\<lambda>c. \<not> line_break c) ?d"
    by (rule printable_no_break [OF json_dumps_ascii [OF plain_float_free [OF assms]]])
  have h: "list_all (\<lambda>c. \<not> line_break c) (u ''[port_forwards]'')" "list_all (\<lambda>c. \<not> line_break c) (u ''json='')"
    by (simp_all add: u_def line_break_def)
  have "p @ records_prefix @ ?d @ [10] = p @ 10 # (u ''[port_forwards]'' @ 10 # ((u ''json='' @ ?d) @ 10 # []))"
    by (simp add: records_prefix_def)
  then show ?thesis
    using d h by (simp only: pieces_append [where sep = line_break, OF b]) (simp add: pieces_plain)
qed

text \<open>The documents of a list of rules.\<close>

lemma rendered_records:
  assumes "render_port_forward_records fr lo groups rules = Inr text"
  obtains js where "text = records_prefix @ json_dumps fr (JArr js) @ [10]"
    "list_all2 (\<lambda>r j. record_of lo groups r = Inr j) (sort_key (\<lambda>r. (pw_priority r, saved_id r)) rules) js"
  using assms by (auto simp: render_port_forward_records_def bindE_eq_Inr mapE_eq_Inr)

lemma active_documents:
  assumes "list_all2 (\<lambda>r j. record_of lo groups r = Inr j) rs js" "\<forall>r \<in> set rs. \<forall>j. record_of lo groups r = Inr j \<longrightarrow> plain j"
  shows "plain (JArr js)" "list_ex row_active (map sort_keys js) \<longleftrightarrow> (\<exists>r \<in> set rs. pw_enabled r)"
  using assms by (induction rule: list_all2_induct) (auto dest!: record_of_cases simp: sorted_row_active)

text \<open>
  What is published is recognised when it is read back. A snapshot that ends with the rendered rules,
  after any text without a section of that name, counts as having active forwards exactly when the routing
  switch it records is on and at least one of the rules is enabled; neither names nor descriptions of the
  rules can change that, whatever they contain.
\<close>

theorem published_forwards_recognised:
  assumes "render_port_forward_records fr lo groups rules = Inr text"
    and "\<forall>r \<in> set rules. \<forall>j. record_of lo groups r = Inr j \<longrightarrow> plain j"
    and "\<forall>l \<in> set (pieces line_break pre). strip l \<noteq> u ''[port_forwards]''"
  shows "snapshot_has_port_forwards fp lo (pre @ text)
    \<longleftrightarrow> feature_routing lo False True (pieces line_break pre) \<and> (\<exists>r \<in> set rules. pw_enabled r)"
proof -
  obtain js where tx: "text = records_prefix @ json_dumps fr (JArr js) @ [10]"
    and js: "list_all2 (\<lambda>r j. record_of lo groups r = Inr j) (sort_key (\<lambda>r. (pw_priority r, saved_id r)) rules) js"
    by (rule rendered_records [OF assms(1)])
  have p: "plain (JArr js)" and e: "list_ex row_active (map sort_keys js) \<longleftrightarrow> (\<exists>r \<in> set rules. pw_enabled r)"
    using active_documents [OF js] assms(2) by simp_all
  obtain f where "snapshot_has_port_forwards fp lo (pre @ text) =
      snapshot_lines fp lo False f (feature_routing lo False True (pieces line_break pre))
        [u ''[port_forwards]'', u ''json='' @ json_dumps fr (JArr js), []]"
    using snapshot_prefix [OF assms(3)] unfolding snapshot_has_port_forwards_def tx rendered_pieces [OF p] by blast
  then show ?thesis unfolding snapshot_records [OF p] e .
qed

section \<open>Status\<close>

text \<open>The fingerprint of a rule is the hash of the record the helper would be given.\<close>

lemma after_prefix: "after_first (u ''json='') (records_prefix @ s) = Some s"
  by (simp add: records_prefix_def u_def startswith_def)

lemma sort_keys_idem: "sort_keys (sort_keys j) = sort_keys j"
proof (induction j)
  case (JObj ms)
  let ?g = "\<lambda>(k, v). (k, sort_keys v)"
  have "?g x = x" if x: "x \<in> set (sort_key fst (map ?g ms))" for x
  proof -
    obtain k v where "x = (k, sort_keys v)" "(k, v) \<in> set ms" using x by auto
    then show ?thesis using JObj.IH [of "(k, v)" v] by (simp add: snds.intros)
  qed
  then have "map ?g (sort_key fst (map ?g ms)) = sort_key fst (map ?g ms)" by (intro map_idI)
  then show ?case by (simp add: sort_key_id_if_sorted)
qed auto

lemma fingerprint_of_record:
  assumes "record_of lo groups r = Inr j" "plain j"
  shows "forward_fingerprint fr fp sha lo groups r = sha (json_dumps fr j)"
proof -
  have p: "plain (JArr [sort_keys j])" using plain_sort_keys [OF assms(2)] by simp
  have "json_loads fp (json_dumps fr (JArr [j]) @ [10]) = Some (JArr [sort_keys j])"
    using json_loads_render_ws [OF p, of "[10]" fp fr] by (simp add: json_dumps_def skip_ws_def is_ws_def)
  then show ?thesis using assms(1)
    by (simp add: forward_fingerprint_def render_port_forward_records_def after_prefix json_dumps_def sort_keys_idem)
qed

lemmas status_defs = rule_status_def simple_status_def matching_status_def Let_def valid_counters_def observed_counter_def

lemma rule_status_applied:
  assumes "pw_id r = Some k" "fingerprint r \<noteq> []"
  shows "fs_state (rule_status fingerprint routing ob r) = FApplied \<longleftrightarrow>
      observation_available ob \<and> pw_enabled r \<and> routing
    \<and> (\<exists>row. applied_rows ob k = Some row \<and> jget row (u ''snapshot_hash'') = Some (JStr (fingerprint r))
          \<and> jget row (u ''state'') = Some (JStr (u ''applied''))
          \<and> (\<exists>n \<ge> 0. jget row (u ''packets'') = Some (JInt n)) \<and> (\<exists>n \<ge> 0. jget row (u ''bytes'') = Some (JInt n)))"
  using assms by (auto simp: status_defs split: option.splits json.splits if_splits)

lemma rule_status_packets:
  assumes "pw_id r = Some k" "fs_packets (rule_status fingerprint routing ob r) = Some n"
  shows "\<exists>row. applied_rows ob k = Some row \<and> jget row (u ''snapshot_hash'') = Some (JStr (fingerprint r))
        \<and> jget row (u ''packets'') = Some (JInt n)"
  using assms by (auto simp: status_defs split: option.splits json.splits if_splits)

text \<open>
  C29: A rule is reported as applied exactly when it is. The states follow the rules one to one, for at
  most 256 of them; a rule is reported as applied if and only if the observation is available, the rule and
  routing are enabled, and the helper reports for its identifier the state applied, two counters that are
  non-negative integers, and the hash of the very record that would be published for the rule now. Packet
  counts are never made up: one that is reported was observed in such a matching row.
\<close>

theorem applied_status_is_exact:
  assumes "i < length rules" "i < 256" "pw_id (rules ! i) = Some k" "record_of lo groups (rules ! i) = Inr j" "plain j" "\<And>s. sha s \<noteq> []"
    and "statuses = port_forward_status (forward_fingerprint fr fp sha lo groups) routing ob rules"
  shows "length statuses = min 256 (length rules) \<and> fs_id (statuses ! i) = Some k
    \<and> (fs_state (statuses ! i) = FApplied \<longleftrightarrow>
        observation_available ob \<and> pw_enabled (rules ! i) \<and> routing
      \<and> (\<exists>row. applied_rows ob k = Some row \<and> jget row (u ''snapshot_hash'') = Some (JStr (sha (json_dumps fr j)))
            \<and> jget row (u ''state'') = Some (JStr (u ''applied''))
            \<and> (\<exists>n \<ge> 0. jget row (u ''packets'') = Some (JInt n)) \<and> (\<exists>n \<ge> 0. jget row (u ''bytes'') = Some (JInt n))))
    \<and> (\<forall>n. fs_packets (statuses ! i) = Some n \<longrightarrow>
        (\<exists>row. applied_rows ob k = Some row \<and> jget row (u ''snapshot_hash'') = Some (JStr (sha (json_dumps fr j)))
            \<and> jget row (u ''packets'') = Some (JInt n)))"
proof -
  let ?f = "forward_fingerprint fr fp sha lo groups"
  have f: "?f (rules ! i) = sha (json_dumps fr j)" by (rule fingerprint_of_record [OF assms(4,5)])
  have st: "statuses ! i = rule_status ?f routing ob (rules ! i)" "length statuses = min 256 (length rules)"
    using assms(1,2,7) by (simp_all add: port_forward_status_def MAX_PORT_FORWARDS_def)
  have "fs_id (rule_status ?f routing ob (rules ! i)) = Some k"
    using assms(3) by (auto simp: status_defs split: option.splits)
  then show ?thesis unfolding st
    using rule_status_applied [OF assms(3), of ?f routing ob] rule_status_packets [OF assms(3), of ?f routing ob] assms(6)
    unfolding f by blast
qed

section \<open>Firewall projection\<close>

lemma forward_mark_sum:
  assumes "0 \<le> k" "k \<le> 0xFFFFFF"
  shows "forward_mark k = 0xa7000000 + k"
proof -
  have "k AND mask 24 = k" using assms by (simp add: take_bit_int_eq_self flip: take_bit_eq_mask)
  then have "(0xa7000000 :: int) AND k = k AND (0xa7000000 AND mask 24)" by (metis and.commute and.assoc)
  also have "\<dots> = 0" by (simp flip: take_bit_eq_mask)
  finally show ?thesis unfolding forward_mark_def by (simp add: disjunctive_add_eq_or)
qed

text \<open>
  Only what is enabled is admitted, and each rule under a mark of its own. For every table of rules that
  transactions can produce, the projection leaves the firewall text as it is when routing is off or no rule
  is enabled; otherwise it describes exactly the enabled rules, in the order of priority and identifier. The
  connection marks of two rules are always different, fit in 32 bits and carry the tag 0xa7 in their top byte,
  so that the identifier never spills into the tag.
\<close>

theorem projection_admits_enabled_only:
  assumes reach: "forward_reach tr lo t"
    and proj: "port_forward_firewall_projection lo firewall (forwards t) groups routing = Inr (out, rows)"
  shows "(\<not> routing \<or> (\<forall>r \<in> set (forwards t). \<not> pw_enabled r) \<longrightarrow> out = firewall \<and> rows = [])
    \<and> map (\<lambda>row. jget row (u ''id'')) rows
        = map (\<lambda>r. Some (JStr (u ''port-forward:'' @ dec_int (saved_id r)))) (active_rules (forwards t) routing)
    \<and> set (active_rules (forwards t) routing) = {r \<in> set (forwards t). pw_enabled r \<and> routing}
    \<and> (\<forall>r \<in> set (forwards t). forward_mark (saved_id r) div 2 ^ 24 = 0xa7 \<and> forward_mark (saved_id r) < 2 ^ 32
        \<and> (\<forall>p \<in> set (forwards t). forward_mark (saved_id p) = forward_mark (saved_id r) \<longrightarrow> p = r))"
proof -
  have ok: "forwards_ok tr (forwards t)" by (rule forward_reach_ok [OF reach])
  have id: "pw_id r = Some (saved_id r)" "1 \<le> saved_id r" "saved_id r \<le> 0xFFFFFF" if "r \<in> set (forwards t)" for r
    using ok that by (auto simp: forwards_ok_def saved_id_def)
  have mark: "forward_mark (saved_id r) = 0xa7000000 + saved_id r" if "r \<in> set (forwards t)" for r
    using id [OF that] by (intro forward_mark_sum) simp_all
  have inj: "p = r" if "r \<in> set (forwards t)" "p \<in> set (forwards t)" "saved_id p = saved_id r" for p r
    using ok that id by (auto simp: forwards_ok_def distinct_map inj_on_def)
  obtain active where active: "list_all2 (\<lambda>r a. with_sources lo groups r = Inr a) (active_rules (forwards t) routing) active"
    and rows: "rows = map (\<lambda>(r, ns). projected_row r ns) active" "active = [] \<Longrightarrow> out = firewall"
    using proj by (auto simp: port_forward_firewall_projection_def bindE_eq_Inr mapE_eq_Inr split: if_splits)
  have fst: "map fst active = active_rules (forwards t) routing"
    using active by (induction rule: list_all2_induct) (auto simp: with_sources_def split: option.splits)
  have "map (\<lambda>row. jget row (u ''id'')) rows = map (\<lambda>r. Some (JStr (u ''port-forward:'' @ dec_int (saved_id r)))) (map fst active)"
    by (auto simp: rows(1) projected_row_def jget_def u_def)
  moreover have members: "set (active_rules (forwards t) routing) = {r \<in> set (forwards t). pw_enabled r \<and> routing}"
    by (auto simp: active_rules_def)
  moreover have "out = firewall \<and> rows = []" if "\<not> routing \<or> (\<forall>r \<in> set (forwards t). \<not> pw_enabled r)"
  proof -
    have "set (map fst active) = {}" unfolding fst members using that by blast
    then show ?thesis using rows by simp
  qed
  moreover have "forward_mark (saved_id r) div 2 ^ 24 = 0xa7 \<and> forward_mark (saved_id r) < 2 ^ 32" if "r \<in> set (forwards t)" for r
    using id [OF that] mark [OF that] by simp
  ultimately show ?thesis using mark inj by (simp add: fst)
qed

section \<open>A published rule\<close>

definition sample_document :: json where
  "sample_document = forward_record sample_row []"

lemma sample_record: "record_of (map ascii_lower) [] sample_row = Inr sample_document"
proof -
  have "pw_source sample_row = u ''any''" "pw_family sample_row = 4" by (simp_all add: sample_row_def sample_forward_def)
  then show ?thesis by (simp add: record_of_def sample_source sample_document_def)
qed

lemma sample_plain: "plain sample_document"
proof -
  have small: "length (dec_digits n) \<le> 4300" if "n < 100000" for n
  proof -
    have "length (dec_digits n) \<le> 5" using that by (simp add: dec_digits.simps [of n] dec_digits.simps [of "n div 10"]
        dec_digits.simps [of "n div 10 div 10"] dec_digits.simps [of "n div 10 div 10 div 10"] dec_digits.simps [of "n div 10 div 10 div 10 div 10"])
    then show ?thesis by simp
  qed
  show ?thesis
    by (simp add: sample_document_def forward_record_def sample_row_def sample_forward_def small) (simp add: u_def is_scalar_def is_surrogate_def)
qed

definition sample_text :: pystr where
  "sample_text = records_prefix @ json_dumps (\<lambda>_. []) (JArr [sample_document]) @ [10]"

lemma sample_rendered: "render_port_forward_records (\<lambda>_. []) (map ascii_lower) [] [sample_row] = Inr sample_text"
  by (simp add: render_port_forward_records_def sample_record sample_text_def)

theorem published_forwards_recognised_witness:
  "render_port_forward_records (\<lambda>_. []) (map ascii_lower) [] [sample_row] = Inr sample_text
   \<and> snapshot_has_port_forwards (\<lambda>_. JNull) (map ascii_lower) sample_text"
proof -
  have "pw_enabled sample_row" by (simp add: sample_row_def sample_forward_def)
  then show ?thesis
    using published_forwards_recognised [OF sample_rendered, of "[]" "\<lambda>_. JNull"] sample_rendered sample_record sample_plain
    by (simp add: u_def)
qed

definition sample_observation :: "json \<Rightarrow> object" where
  "sample_observation hash = [(u ''available'', JBool True), (u ''rules'', JArr [JObj [(u ''id'', JInt 1), (u ''snapshot_hash'', hash),
     (u ''state'', JStr (u ''applied'')), (u ''packets'', JInt 7), (u ''bytes'', JInt 420)]])]"

theorem applied_status_is_exact_witness:
  "(let hash = (\<lambda>s. 104 # s); st = port_forward_status (forward_fingerprint (\<lambda>_. []) (\<lambda>_. JNull) hash (map ascii_lower) []) True
        (sample_observation (JStr (hash (json_dumps (\<lambda>_. []) sample_document)))) [sample_row]
    in length st = 1 \<and> fs_state (st ! 0) = FApplied)"
proof -
  let ?h = "\<lambda>s :: pystr. 104 # s"
  let ?ob = "sample_observation (JStr (?h (json_dumps (\<lambda>_. []) sample_document)))"
  have r: "pw_id sample_row = Some 1" "pw_enabled sample_row" by (simp_all add: sample_row_def sample_forward_def)
  have a: "observation_available ?ob" "applied_rows ?ob 1 = Some [(u ''id'', JInt 1), (u ''snapshot_hash'', JStr (?h (json_dumps (\<lambda>_. []) sample_document))),
     (u ''state'', JStr (u ''applied'')), (u ''packets'', JInt 7), (u ''bytes'', JInt 420)]"
    by (simp_all add: observation_available_def applied_rows_def observed_rows_def sample_observation_def row_entry_def jget_def
        MAX_PORT_FORWARDS_def map_filter_simps u_def)
  show ?thesis
    using applied_status_is_exact [of 0 "[sample_row]" 1 "map ascii_lower" "[]" sample_document ?h, OF _ _ _ _ sample_plain _ refl,
        of "\<lambda>_. []" "\<lambda>_. JNull" True ?ob] r a sample_record
    by (simp add: Let_def jget_def)
qed

theorem projection_admits_enabled_only_witness:
  "\<exists>out rows. port_forward_firewall_projection (map ascii_lower) [] (forwards one_forward) [] True = Inr (out, rows)
     \<and> map (\<lambda>row. jget row (u ''id'')) rows = [Some (JStr (u ''port-forward:1''))] \<and> forward_mark 1 = 0xa7000001"
proof -
  have f: "forwards one_forward = [sample_row]" by (simp add: one_forward_def)
  have act: "active_rules [sample_row] True = [sample_row]" by (simp add: active_rules_def sample_row_def sample_forward_def)
  have "with_sources (map ascii_lower) [] sample_row = Inr (sample_row, [])"
    using sample_source by (simp add: with_sources_def sample_row_def sample_forward_def)
  then obtain out rows where p: "port_forward_firewall_projection (map ascii_lower) [] (forwards one_forward) [] True = Inr (out, rows)"
    by (simp add: port_forward_firewall_projection_def f act)
  have "u ''port-forward:'' @ dec_int (saved_id sample_row) = u ''port-forward:1''"
    by (simp add: saved_id_def sample_row_def dec_int_def dec_digits.simps u_def)
  then show ?thesis
    using projection_admits_enabled_only [OF one_forward_reached p] p forward_mark_sum [of 1] by (simp add: f act)
qed

end
