(* ===== verification/Traffic_Preview.thy ===== *)
theory Traffic_Preview
  imports Port_Forward_Apply_Thms
begin

text \<open>
  \<open>traffic_publishing_context\<close> of \<open>src/atlaso/app/ui.py\<close>: the text that publishes source translation and port
  forwards together, with its validation errors and state, and what \<open>snapshot_has_port_forwards\<close> later reads in it.
\<close>

section \<open>The published text\<close>

definition forward_preview :: "(rat \<Rightarrow> pystr) \<Rightarrow> (pystr \<Rightarrow> pystr) \<Rightarrow> source_group list \<Rightarrow> port_forward list \<Rightarrow> pystr" where
  "forward_preview fr lo groups rules = (case render_port_forward_records fr lo groups rules of
     Inr text \<Rightarrow> text
   | Inl _ \<Rightarrow> 10 # u ''# Port-forward configuration requires source validation.'' @ [10])"

definition nat_config_preview ::
  "(rat \<Rightarrow> pystr) \<Rightarrow> (pystr \<Rightarrow> pystr) \<Rightarrow> nat_rule list \<Rightarrow> nat_target list \<Rightarrow> source_group list \<Rightarrow> traffic_settings \<Rightarrow> port_forward list \<Rightarrow> pystr option" where
  "nat_config_preview fr lo rules targets groups s fws =
     map_option (\<lambda>config. config @ forward_preview fr lo groups fws) (render_nat_config lo rules targets groups s)"

definition nat_rule_errors :: "(pystr \<Rightarrow> pystr) \<Rightarrow> nat_rule list \<Rightarrow> nat_target list \<Rightarrow> source_group list \<Rightarrow> pystr list" where
  "nat_rule_errors lo rules targets groups = concat (map (validate_nat_rule lo targets groups False False) (filter nr_enabled rules))"

definition port_forward_errors ::
  "(pystr \<Rightarrow> pystr) \<Rightarrow> (pystr \<Rightarrow> pystr) \<Rightarrow> forward_context \<Rightarrow> port_forward list \<Rightarrow> forward_error + pystr list" where
  "port_forward_errors tr lo c rules =
     bindE (mapE (\<lambda>r. bindE (validate_port_forward tr lo c True r rules) (\<lambda>es. Inr (map (\<lambda>e. pw_name r @ u '': '' @ u e) es)))
              (filter pw_enabled rules)) (\<lambda>errors. Inr (concat errors))"

text \<open>The errors that count and the state shown for source translation and port forwards.\<close>

definition nat_validation_errors :: "traffic_settings \<Rightarrow> pystr list \<Rightarrow> pystr list \<Rightarrow> pystr list" where
  "nat_validation_errors s errors forward_errors =
     (if effective_nat_enabled s then errors else []) @ (if routing_enabled s then forward_errors else [])"

definition port_forward_effective :: "traffic_settings \<Rightarrow> port_forward list \<Rightarrow> bool" where
  "port_forward_effective s rules \<longleftrightarrow> routing_enabled s \<and> list_ex pw_enabled rules"

definition nat_status :: "traffic_settings \<Rightarrow> port_forward list \<Rightarrow> pystr list \<Rightarrow> string" where
  "nat_status s rules errors =
     (if \<not> (nat_enabled s \<or> list_ex pw_enabled rules) then ''disabled''
      else if \<not> routing_enabled s then ''suspended'' else if errors \<noteq> [] then ''needs attention'' else ''valid'')"

section \<open>Lines of the text\<close>

lemma pieces_join_lines: "ls \<noteq> [] \<Longrightarrow> pieces line_break (join_lines ls) = concat (map (pieces line_break) ls)"
proof (induction ls rule: join_lines.induct)
  case (3 x y xs)
  have "line_break 10" by (simp add: line_break_def)
  then show ?case using 3 by (simp add: pieces_append [where sep = line_break])
qed simp_all

definition one_line :: "pystr \<Rightarrow> bool" where
  "one_line l \<longleftrightarrow> list_all (\<lambda>c. \<not> line_break c) l"

lemma pieces_one_line: "\<forall>l \<in> set ls. one_line l \<Longrightarrow> concat (map (pieces line_break) ls) = ls"
  by (induction ls) (auto simp: one_line_def pieces_plain)

text \<open>A line that is no section header.\<close>

definition ordinary :: "pystr \<Rightarrow> bool" where
  "ordinary l \<longleftrightarrow> \<not> startswith (strip l) (u ''['')"









section \<open>Reading it back\<close>

text \<open>The lines before the targets.\<close>

definition preview_head :: "traffic_settings \<Rightarrow> pystr list" where
  "preview_head s = [u ''# Managed by Atlaso Traffic Publishing.'', u ''[feature_settings]'', u ''routing_enabled='' @ bool_text (routing_enabled s),
     u ''nat_enabled='' @ bool_text (nat_enabled s), u ''wan_simulation_enabled=false'', [], u ''[targets]'']"

lemma head_one_line: "\<forall>l \<in> set (preview_head s). one_line l"
  by (simp add: preview_head_def one_line_def bool_text_def u_def line_break_def)


lemma head_no_forwards: "\<forall>l \<in> set (preview_head s). strip l \<noteq> u ''[port_forwards]''"
  by (cases "routing_enabled s"; cases "nat_enabled s") (simp_all add: preview_head_def bool_text_def text_eval)


lemma nat_section: "ordinary []" "strip (u ''[nat_rules]'') = u ''[nat_rules]''" "one_line (u ''[nat_rules]'')" "one_line []"
  "startswith (u ''[nat_rules]'') (u ''['')" "u ''[nat_rules]'' \<noteq> u ''[feature_settings]''" "u ''[nat_rules]'' \<noteq> u ''[port_forwards]''"
  by (simp_all add: ordinary_def one_line_def line_break_def text_eval)



definition both_on :: traffic_settings where
  "both_on = \<lparr> nat_enabled = True, routing_enabled = True \<rparr>"

definition lower_ascii :: "pystr \<Rightarrow> pystr" where
  "lower_ascii = map ascii_lower"




section \<open>A name that hides the port forwards\<close>

definition hiding_name :: pystr where
  "hiding_name = u ''x'' @ 0x2028 # u ''[port_forwards]'' @ 0x2028 # u ''json=[]''"

definition hiding_rule :: nat_rule where
  "hiding_rule = \<lparr> nr_name = hiding_name, nr_enabled = False, nr_source = u ''any'', nr_inbound = JArr [], nr_family = Some 4,
     nr_outbound = u ''eth1'', nr_mode = u ''masquerade'', nr_translated = [], nr_masquerade = True, nr_priority = 100 \<rparr>"

lemma hiding_rule_valid: "validate_nat_rule lower_ascii [] [] False False hiding_rule = []"
proof -
  have "source_accepted lower_ascii [] (u ''any'') 4"
    by (simp add: source_accepted_def resolved_nat_source_def lower_ascii_def text_eval)
  moreover have "canonical_name (u ''eth1'')" by (simp add: canonical_name_def u_def ascii_alnum_def)
  moreover have "u ''snat'' \<noteq> u ''masquerade''" "u ''masquerade'' \<noteq> []" by (simp_all add: u_def)
  ultimately show ?thesis
    by (simp add: validate_nat_rule_def hiding_rule_def inbound_names_def rule_family_def rule_mode_def Let_def)
qed

lemma hiding_pieces:
  "pieces line_break (u ''nat='' @ replace_char 13 [32] (replace_char 10 [32] hiding_name)) = [u ''nat=x'', u ''[port_forwards]'', u ''json=[]'']"
  by (simp add: replace_char_def hiding_name_def u_def line_break_def)

lemma empty_records: "snapshot_lines fp lo False f routing (u ''[port_forwards]'' # u ''json=[]'' # ls) = False"
proof -
  have e: "json_loads fp (u ''[]'') = Some (JArr [])"
    using json_loads_dumps [of "JArr []" fp "\<lambda>_. []"] by (simp add: json_dumps_def u_def)
  have j: "strip (u ''json=[]'') = u ''json=[]''" "\<not> startswith (u ''json=[]'') (u ''['')" "startswith (u ''json=[]'') (u ''json='')"
    "drop 5 (u ''json=[]'') = u ''[]''"
    by (simp_all add: text_eval)
  show ?thesis by (simp add: section_line j e Let_def)
qed

text \<open>
  The name of a source translation rule can hide every port forward. The line of a rule replaces line feeds and
  carriage returns in its name, while the reader splits at every line separator of \<open>str.splitlines\<close>. A disabled
  rule that validation accepts, with a name of twenty-five characters that contains the separator U+2028, makes a
  published text with an enabled and effective port forward count as having none.
\<close>

theorem nat_name_hides_port_forwards:
  "length hiding_name \<le> 120 \<and> validate_nat_rule lower_ascii [] [] False False hiding_rule = []
   \<and> (\<exists>config. nat_config_preview (\<lambda>_. []) lower_ascii [hiding_rule] [] [] both_on [sample_row] = Some (config @ sample_text)
       \<and> port_forward_effective both_on [sample_row] \<and> \<not> snapshot_has_port_forwards fp lower_ascii (config @ sample_text))"
proof -
  have inb: "inbound_names hiding_rule = Some []" by (simp add: inbound_names_def hiding_rule_def)
  obtain rest where r: "rule_lines lower_ascii [] hiding_rule = Some ((u ''nat='' @ replace_char 13 [32] (replace_char 10 [32] hiding_name)) # rest)"
    by (simp add: rule_lines_def inb) (simp add: hiding_rule_def)
  let ?nat = "u ''nat='' @ replace_char 13 [32] (replace_char 10 [32] hiding_name)"
  let ?ls = "preview_head both_on @ [[], u ''[nat_rules]''] @ (?nat # rest) @ [[]]"
  have c: "render_nat_config lower_ascii [hiding_rule] [] [] both_on = Some (join_lines ?ls)"
    by (simp add: render_nat_config_def r preview_head_def)
  have b: "line_break 10" by (simp add: line_break_def)
  obtain more where tx: "sample_text = 10 # more" by (simp add: sample_text_def records_prefix_def)
  let ?pre = "preview_head both_on @ [[], u ''[nat_rules]'', u ''nat=x'']"
  let ?tl = "concat (map (pieces line_break) rest) @ [[]] @ pieces line_break more"
  have "concat (map (pieces line_break) (preview_head both_on)) = preview_head both_on" "pieces line_break (u ''[nat_rules]'') = [u ''[nat_rules]'']"
    using pieces_one_line [OF head_one_line] nat_section(3) by (simp_all add: one_line_def pieces_plain)
  then have "pieces line_break (join_lines ?ls) = ?pre @ u ''[port_forwards]'' # u ''json=[]'' # concat (map (pieces line_break) rest) @ [[]]"
    by (subst pieces_join_lines) (simp_all add: hiding_pieces)
  then have p: "pieces line_break (join_lines ?ls @ sample_text) = ?pre @ u ''[port_forwards]'' # u ''json=[]'' # ?tl"
    unfolding tx pieces_append [where sep = line_break, OF b] by simp
  have "\<forall>l \<in> set ?pre. strip l \<noteq> u ''[port_forwards]''"
    using head_no_forwards [of both_on] nat_section by (simp add: text_eval)
  from snapshot_prefix [OF this] have "\<not> snapshot_has_port_forwards fp lower_ascii (join_lines ?ls @ sample_text)"
    unfolding snapshot_has_port_forwards_def p by (metis empty_records)
  moreover have "port_forward_effective both_on [sample_row]"
    by (simp add: port_forward_effective_def both_on_def sample_row_def sample_forward_def)
  moreover have "length hiding_name \<le> 120" by (simp add: hiding_name_def u_def)
  ultimately show ?thesis
    using hiding_rule_valid sample_rendered c by (simp add: nat_config_preview_def forward_preview_def lower_ascii_def)
qed

end
