(* ===== verification/Network_Objects.thy ===== *)
theory Network_Objects
  imports Port_Forwarding
begin

text \<open>
  Network Objects: \<open>src/atlaso/app/services/network_objects.py\<close>, the Source Group requests of
  \<open>routers/ui/network_objects.py\<close>, and \<open>validate_nat_source\<close> of \<open>services/routes_wan.py\<close>. The saved rules are arguments;
  \<open>str.lower\<close> is the parameter \<open>lo\<close>.
\<close>

section \<open>Groups\<close>

text \<open>The dictionary of a group: what \<open>Source_Groups\<close> reads of it and the fields that are only kept.\<close>

record network_group = source_group +
  ng_description :: pystr
  ng_builtin :: bool
  ng_bootstrap :: "pystr list option"

abbreviation core :: "network_group \<Rightarrow> source_group" where "core \<equiv> source_group.truncate"

definition default_description :: pystr where
  "default_description = u ''Custom source group.''"

definition bootstrap_id :: pystr where
  "bootstrap_id = u ''custom:bootstrap-management''"

definition normalized_entry :: "(pystr \<Rightarrow> pystr) \<Rightarrow> pystr \<Rightarrow> pystr" where
  "normalized_entry lo entry =
     (if lo entry = ANY then ANY
      else if startswith (lo entry) FIREWALL_SOURCE_GROUP_REFERENCE_PREFIX
      then FIREWALL_SOURCE_GROUP_REFERENCE_PREFIX @ drop (length FIREWALL_SOURCE_GROUP_REFERENCE_PREFIX) entry
      else entry)"

definition normalize_source_group :: "(pystr \<Rightarrow> pystr) \<Rightarrow> network_group \<Rightarrow> network_group" where
  "normalize_source_group lo g =
     (let values = filter (\<lambda>v. v \<noteq> []) (map strip (sg_entries g));
          entries = map (normalized_entry lo) (if values = [] then [ANY] else values)
      in \<lparr> sg_id = sg_id g, sg_name = (if strip (sg_name g) = [] then sg_id g else strip (sg_name g)), sg_entries = entries,
           ng_description = (if ng_description g = [] then default_description else ng_description g),
           ng_builtin = ng_builtin g,
           ng_bootstrap = (if sg_id g = bootstrap_id \<and> ng_bootstrap g = Some entries then Some entries else None) \<rparr>)"

subsection \<open>New identifiers\<close>

definition slug_char :: "nat \<Rightarrow> bool" where
  "slug_char c \<longleftrightarrow> 97 \<le> c \<and> c \<le> 122 \<or> 48 \<le> c \<and> c \<le> 57"

text \<open>
  \<open>re.sub(r"[^a-z0-9]+", "-", name.strip().lower()).strip("-") or "group"\<close>: the runs of letters and digits, joined by
  dashes.
\<close>

definition slug_base :: "(pystr \<Rightarrow> pystr) \<Rightarrow> pystr \<Rightarrow> pystr" where
  "slug_base lo name =
     (let base = join_with 45 (filter (\<lambda>p. p \<noteq> []) (pieces (\<lambda>c. \<not> slug_char c) (lo (strip name))))
      in if base = [] then u ''group'' else base)"

definition numbered :: "pystr \<Rightarrow> nat \<Rightarrow> pystr" where
  "numbered base index = u ''custom:'' @ base @ 45 # dec_digits index"

lemma numbered_inj: "inj (numbered base)"
proof (rule injI)
  fix i j
  assume "numbered base i = numbered base j"
  then have "nat_of_digits (dec_digits i) = nat_of_digits (dec_digits j)" by (simp add: numbered_def)
  then show "i = j" by simp
qed

lemma numbered_later:
  assumes "numbered base i \<in> set existing"
  shows "card {j. i < j \<and> numbered base j \<in> set existing} < card {j. i \<le> j \<and> numbered base j \<in> set existing}"
proof (rule psubset_card_mono)
  have "finite (numbered base -` set existing)" by (rule finite_vimageI [OF finite_set numbered_inj])
  then show "finite {j. i \<le> j \<and> numbered base j \<in> set existing}" by (rule rev_finite_subset) auto
  show "{j. i < j \<and> numbered base j \<in> set existing} \<subset> {j. i \<le> j \<and> numbered base j \<in> set existing}" using assms by auto
qed

text \<open>The loop of \<open>source_group_id\<close>: \<open>candidate\<close> and the number of the next one.\<close>

function free_id :: "pystr list \<Rightarrow> pystr \<Rightarrow> pystr \<Rightarrow> nat \<Rightarrow> pystr" where
  "free_id existing base candidate index =
     (if candidate \<in> set existing then free_id existing base (numbered base index) (index + 1) else candidate)"
  by pat_completeness auto

termination
proof (relation "measure (\<lambda>(existing, base, candidate, index).
    card {j. index \<le> j \<and> numbered base j \<in> set existing} + (if candidate \<in> set existing then 1 else 0))", goal_cases)
  case (2 existing base candidate index)
  have "Suc index \<le> j \<longleftrightarrow> index < j" for j by auto
  then show ?case
  proof (cases "numbered base index \<in> set existing")
    case False
    then have "{j. index < j \<and> numbered base j \<in> set existing} = {j. index \<le> j \<and> numbered base j \<in> set existing}"
      by (auto simp: order_le_less)
    then show ?thesis using 2 False by (simp add: Suc_le_eq)
  qed (use numbered_later [of base index existing] 2 in \<open>simp add: Suc_le_eq\<close>)
qed simp

declare free_id.simps [simp del]

definition source_group_id :: "(pystr \<Rightarrow> pystr) \<Rightarrow> pystr \<Rightarrow> network_group list \<Rightarrow> pystr" where
  "source_group_id lo name groups =
     (let base = slug_base lo name in free_id (map sg_id groups) base (u ''custom:'' @ base) 2)"

section \<open>References\<close>

text \<open>\<open>source_group_reference_target\<close> of \<open>network_objects.py\<close>; the empty text stands for no group.\<close>

definition object_reference_target :: "(pystr \<Rightarrow> pystr) \<Rightarrow> source_group list \<Rightarrow> pystr \<Rightarrow> pystr" where
  "object_reference_target lo groups value =
     (let gs = groups_by_id groups; item = strip value
      in if item \<in> fst ` set gs then item
         else if startswith (lo item) FIREWALL_SOURCE_GROUP_REFERENCE_PREFIX
         then (let k = drop (length FIREWALL_SOURCE_GROUP_REFERENCE_PREFIX) item in if k \<in> fst ` set gs then k else [])
         else if startswith item [64]
         then (case List.find (\<lambda>(k, g). lo (strip (sg_name g)) = lo (strip (tl item))) gs of Some (k, g) \<Rightarrow> k | None \<Rightarrow> [])
         else [])"

subsection \<open>Classification of an entry\<close>

datatype entry_state = Valid | NeedsAttention | Invalid

datatype entry_kind = EntryKind | Reserved | GroupKind | AddressKind | CidrKind | VersionedAddress nat | VersionedCidr nat

text \<open>State, canonical text and kind; the operator messages are left out.\<close>

definition classify_source_group_entry ::
  "(pystr \<Rightarrow> pystr) \<Rightarrow> source_group list \<Rightarrow> pystr \<Rightarrow> pystr \<Rightarrow> entry_state \<times> pystr \<times> entry_kind" where
  "classify_source_group_entry lo groups edited value =
     (let candidate = strip value; target = object_reference_target lo groups candidate;
          canonical_group = FIREWALL_SOURCE_GROUP_REFERENCE_PREFIX @ target
      in if candidate = [] then (Invalid, [], EntryKind)
         else if lo candidate = ANY then (Invalid, ANY, Reserved)
         else if target \<noteq> []
         then (if target = edited then (Invalid, canonical_group, GroupKind)
               else if candidate \<noteq> canonical_group then (NeedsAttention, canonical_group, GroupKind)
               else (Valid, canonical_group, GroupKind))
         else if startswith candidate [64] \<or> startswith (lo candidate) FIREWALL_SOURCE_GROUP_REFERENCE_PREFIX
         then (Invalid, candidate, GroupKind)
         else (case ip_address candidate of
             Some a \<Rightarrow> (if candidate = address_str a then Valid else NeedsAttention, address_str a, VersionedAddress (address_version a))
           | None \<Rightarrow>
               if 47 \<notin> set candidate then (Invalid, candidate, AddressKind)
               else (case ip_interface candidate of
                   None \<Rightarrow> (Invalid, candidate, CidrKind)
                 | Some n \<Rightarrow> (if candidate = network_str n then Valid else NeedsAttention, network_str n,
                              VersionedCidr (address_version (fst n))))))"

section \<open>Consumers\<close>

record firewall_rule =
  fr_name :: pystr
  fr_source :: pystr
  fr_destination :: pystr

text \<open>What a firewall rule's address stands for: \<open>_rule_address_value\<close> of \<open>firewall.py\<close>.\<close>

definition rule_address_value :: "(pystr \<Rightarrow> pystr) \<Rightarrow> group_table \<Rightarrow> pystr \<Rightarrow> pystr" where
  "rule_address_value lo gs value =
     (let raw = strip value; target = own_target lo gs raw
      in if raw = [] then ANY
         else if target \<noteq> [] then join_with 10 (expand_source_group_entries lo gs (map_of gs target))
         else lo raw)"

datatype translation = NatRow nat_rule | ForwardRow port_forward

fun rule_source :: "translation \<Rightarrow> pystr" where
  "rule_source (NatRow r) = nr_source r"
| "rule_source (ForwardRow r) = pw_source r"

fun rule_enabled :: "translation \<Rightarrow> bool" where
  "rule_enabled (NatRow r) = nr_enabled r"
| "rule_enabled (ForwardRow r) = pw_enabled r"

text \<open>Kind, label and detail.\<close>

type_synonym consumer = "pystr \<times> pystr \<times> pystr"

definition nested_consumers :: "(pystr \<Rightarrow> pystr) \<Rightarrow> source_group list \<Rightarrow> pystr \<Rightarrow> consumer list" where
  "nested_consumers lo groups k =
     map (\<lambda>g. (u ''nested_group'', u ''Source Group: '' @ (if sg_name g \<noteq> [] then sg_name g else sg_id g), u ''Nested entry''))
       (filter (\<lambda>g. sg_id g \<noteq> k \<and> list_ex (\<lambda>e. object_reference_target lo groups e = k) (sg_entries g)) groups)"

definition firewall_consumers :: "(pystr \<Rightarrow> pystr) \<Rightarrow> source_group list \<Rightarrow> pystr \<Rightarrow> firewall_rule \<Rightarrow> consumer list" where
  "firewall_consumers lo groups k r =
     map (\<lambda>(value, label). (u ''firewall_rule'', u ''Firewall rule: '' @ fr_name r, label))
       (filter (\<lambda>(value, label). object_reference_target lo groups value = k)
          [(fr_source r, u ''Source''), (fr_destination r, u ''Destination'')])"

fun translation_consumer :: "translation \<Rightarrow> consumer" where
  "translation_consumer (NatRow r) = (u ''nat_rule'', u ''NAT rule: '' @ nr_name r, u ''Source restriction'')"
| "translation_consumer (ForwardRow r) = (u ''port_forward'', u ''Port forward: '' @ pw_name r, u ''Source restriction'')"

definition source_group_consumers ::
  "(pystr \<Rightarrow> pystr) \<Rightarrow> pystr \<Rightarrow> source_group list \<Rightarrow> (pystr \<times> pystr) list \<Rightarrow> firewall_rule list \<Rightarrow> translation list \<Rightarrow> consumer list" where
  "source_group_consumers lo k groups assignments firewall_rules nat_rules =
     sort_key (\<lambda>(kind, label, detail). (kind, lo label, detail))
       (nested_consumers lo groups k
        @ concat (map (firewall_consumers lo groups k) firewall_rules)
        @ map (\<lambda>(name, _). (u ''managed_rule'', u ''Managed Firewall rule: '' @ name, u ''Source Group assignment''))
            (filter (\<lambda>(_, assigned). assigned = k) assignments)
        @ map translation_consumer (filter (\<lambda>r. object_reference_target lo groups (rule_source r) = k) nat_rules))"

section \<open>Validation of the translation rules\<close>

definition nat_required_error :: pystr where
  "nat_required_error = u ''NAT source is required.''"

definition nat_missing_error :: "pystr \<Rightarrow> pystr" where
  "nat_missing_error raw = u ''NAT source references a Source Group that does not exist: '' @ raw @ u ''.''"

definition nat_syntax_error :: pystr where
  "nat_syntax_error = u ''NAT source must be '' @ quoted_any @ u '', a Source Group reference, or valid IPv4 CIDRs.''"

definition nat_family_error :: pystr where
  "nat_family_error = u ''NAT v1 supports IPv4 source CIDRs only.''"

text \<open>The loop over the items stops at the first error.\<close>

fun nat_item_errors :: "pystr list \<Rightarrow> pystr list" where
  "nat_item_errors [] = []"
| "nat_item_errors (source # rest) =
     (case ip_interface source of
        None \<Rightarrow> [nat_syntax_error]
      | Some n \<Rightarrow> if address_version (fst n) \<noteq> 4 then [nat_family_error] else nat_item_errors rest)"

text \<open>\<open>referenced\<close> answers for a group that exists.\<close>

definition nat_source_errors :: "(pystr \<Rightarrow> pystr) \<Rightarrow> pystr set \<Rightarrow> (pystr \<Rightarrow> pystr list) \<Rightarrow> pystr \<Rightarrow> pystr list" where
  "nat_source_errors lo ids referenced value =
     (let raw = strip value
      in if raw = [] then [nat_required_error]
         else if lo raw = ANY then []
         else if startswith (lo raw) FIREWALL_SOURCE_GROUP_REFERENCE_PREFIX
         then (let k = strip (drop (length FIREWALL_SOURCE_GROUP_REFERENCE_PREFIX) raw)
               in if k \<in> ids then referenced k else [nat_missing_error raw])
         else nat_item_errors (source_values raw))"

definition validate_nat_source :: "(pystr \<Rightarrow> pystr) \<Rightarrow> pystr \<Rightarrow> pystr set \<Rightarrow> source_group list option \<Rightarrow> pystr list" where
  "validate_nat_source lo value ids groups = (case groups of
     None \<Rightarrow> nat_source_errors lo ids (\<lambda>k. []) value
   | Some groups \<Rightarrow> nat_source_errors lo ids (\<lambda>k. nat_source_errors lo ids (\<lambda>k. [])
       (join_with 10 (expand_source_group_entries lo (groups_by_id groups) (map_of (groups_by_id groups) k)))) value)"

text \<open>\<open>_nat_consumer_errors\<close>; \<open>why\<close> is the text of the exception of \<open>source_networks\<close>.\<close>

fun nat_consumer_errors :: "(pystr \<Rightarrow> pystr) \<Rightarrow> (port_forward \<Rightarrow> pystr) \<Rightarrow> source_group list \<Rightarrow> translation \<Rightarrow> pystr list" where
  "nat_consumer_errors lo why groups (ForwardRow r) =
     (case source_networks lo groups (pw_source r) (pw_family r) of
        None \<Rightarrow> [u ''Port forward '' @ pw_name r @ u '': '' @ why r] | Some _ \<Rightarrow> [])"
| "nat_consumer_errors lo why groups (NatRow r) =
     map (\<lambda>e. u ''NAT rule '' @ nr_name r @ u '': '' @ e) (validate_nat_source lo (nr_source r) (set (map sg_id groups)) (Some groups))"

definition collect_errors ::
  "(pystr \<Rightarrow> pystr) \<Rightarrow> (port_forward \<Rightarrow> pystr) \<Rightarrow> source_group list \<Rightarrow> bool \<Rightarrow> (pystr \<times> pystr list) list \<Rightarrow> translation \<Rightarrow> (pystr \<times> pystr list) list" where
  "collect_errors lo why groups include_disabled errors r =
     (let k = object_reference_target lo groups (rule_source r); es = nat_consumer_errors lo why groups r
      in if \<not> include_disabled \<and> \<not> rule_enabled r \<or> k = [] \<or> es = [] then errors
         else dict_set errors k ((case map_of errors k of None \<Rightarrow> [] | Some old \<Rightarrow> old) @ es))"

definition source_group_nat_validation_errors ::
  "(pystr \<Rightarrow> pystr) \<Rightarrow> (port_forward \<Rightarrow> pystr) \<Rightarrow> source_group list \<Rightarrow> translation list \<Rightarrow> bool \<Rightarrow> (pystr \<times> pystr list) list" where
  "source_group_nat_validation_errors lo why groups nat_rules include_disabled =
     map (\<lambda>(k, es). (k, add_new [] es)) (sort_key fst (foldl (collect_errors lo why groups include_disabled) [] nat_rules))"

section \<open>Requests\<close>

record objects_state =
  os_groups :: "network_group list"
  os_assignments :: "(pystr \<times> pystr) list"

text \<open>The form of a request: whether \<open>verify_csrf\<close> accepts its token, and the fields, empty for absent ones.\<close>

record mutation_form =
  mf_csrf :: bool
  mf_action :: pystr
  mf_group_id :: pystr
  mf_group_name :: pystr
  mf_entries :: "pystr list"
  mf_description :: "pystr option"

datatype mutation_refusal = HttpError nat string | InUse "consumer list" | NotValid "pystr list"

definition entries_from_form :: "pystr list \<Rightarrow> pystr list" where
  "entries_from_form raw = (let values = concat (map source_values raw) in if values = [] then [ANY] else values)"

definition form_description :: "pystr option \<Rightarrow> pystr" where
  "form_description d = (case d of None \<Rightarrow> default_description | Some s \<Rightarrow> if s = [] then default_description else s)"

definition created_group :: "(pystr \<Rightarrow> pystr) \<Rightarrow> network_group list \<Rightarrow> mutation_form \<Rightarrow> network_group" where
  "created_group lo groups form =
     normalize_source_group lo \<lparr> sg_id = source_group_id lo (strip (mf_group_name form)) groups, sg_name = strip (mf_group_name form),
       sg_entries = entries_from_form (mf_entries form), ng_description = form_description (mf_description form),
       ng_builtin = False, ng_bootstrap = None \<rparr>"

definition edited_group :: "(pystr \<Rightarrow> pystr) \<Rightarrow> mutation_form \<Rightarrow> network_group \<Rightarrow> network_group" where
  "edited_group lo form current =
     (if mf_action form = u ''rename'' then normalize_source_group lo (current \<lparr> sg_name := strip (mf_group_name form) \<rparr>)
      else normalize_source_group lo (current \<lparr> sg_name := strip (mf_group_name form), sg_entries := entries_from_form (mf_entries form),
        ng_description := (if mf_description form = None then ng_description current else form_description (mf_description form)),
        ng_bootstrap := None \<rparr>))"

definition create_groups :: "(pystr \<Rightarrow> pystr) \<Rightarrow> network_group list \<Rightarrow> mutation_form \<Rightarrow> mutation_refusal + network_group list \<times> pystr" where
  "create_groups lo groups form =
     (if strip (mf_group_name form) = [] then Inl (HttpError 422 ''Source Group name is required.'')
      else let g = created_group lo groups form in Inr (groups @ [g], sg_id g))"

definition delete_groups ::
  "(pystr \<Rightarrow> pystr) \<Rightarrow> firewall_rule list \<Rightarrow> translation list \<Rightarrow> (pystr \<times> pystr) list \<Rightarrow> network_group list \<Rightarrow> mutation_form
   \<Rightarrow> mutation_refusal + network_group list \<times> pystr" where
  "delete_groups lo firewall_rules nat_rules assignments groups form =
     (let k = mf_group_id form; consumers = source_group_consumers lo k (map core groups) assignments firewall_rules nat_rules
      in if k = ANY then Inl (HttpError 422 ''Any is built in and cannot be removed.'')
         else if k \<notin> set (map sg_id groups) then Inl (HttpError 404 ''Source Group not found.'')
         else if consumers \<noteq> [] then Inl (InUse consumers)
         else Inr (filter (\<lambda>g. sg_id g \<noteq> k) groups, k))"

text \<open>The first group with the identifier is replaced.\<close>

fun replace_first :: "(network_group \<Rightarrow> network_group) \<Rightarrow> pystr \<Rightarrow> network_group list \<Rightarrow> network_group list" where
  "replace_first f k [] = []"
| "replace_first f k (g # gs) = (if sg_id g = k then f g # gs else g # replace_first f k gs)"

definition edit_groups :: "(pystr \<Rightarrow> pystr) \<Rightarrow> network_group list \<Rightarrow> mutation_form \<Rightarrow> mutation_refusal + network_group list \<times> pystr" where
  "edit_groups lo groups form =
     (let k = mf_group_id form
      in if k \<notin> set (map sg_id groups) then Inl (HttpError 404 ''Source Group not found.'')
         else if k = ANY then Inl (HttpError 422 ''Any is built in and cannot be edited.'')
         else if strip (mf_group_name form) = [] then Inl (HttpError 422 ''Source Group name is required.'')
         else Inr (replace_first (edited_group lo form) k groups, k))"

definition mutation_errors :: "(pystr \<Rightarrow> pystr) \<Rightarrow> (port_forward \<Rightarrow> pystr) \<Rightarrow> translation list \<Rightarrow> network_group list \<Rightarrow> pystr list" where
  "mutation_errors lo why nat_rules groups =
     validate_firewall_source_groups lo (map core groups)
     @ concat (map snd (source_group_nat_validation_errors lo why (map core groups) nat_rules True))"

text \<open>\<open>_mutate_source_groups\<close>: the state after the commit and the identifier of the changed group.\<close>

definition mutate_source_groups ::
  "(pystr \<Rightarrow> pystr) \<Rightarrow> (port_forward \<Rightarrow> pystr) \<Rightarrow> firewall_rule list \<Rightarrow> translation list \<Rightarrow> mutation_form \<Rightarrow> objects_state
   \<Rightarrow> mutation_refusal + objects_state \<times> pystr" where
  "mutate_source_groups lo why firewall_rules nat_rules form st =
     (if \<not> mf_csrf form then Inl (HttpError 403 ''Invalid CSRF token'')
      else let groups = map (normalize_source_group lo) (os_groups st)
      in bindE (if mf_action form = u ''create'' then create_groups lo groups form
                else if mf_action form = u ''delete'' then delete_groups lo firewall_rules nat_rules (os_assignments st) groups form
                else edit_groups lo groups form) (\<lambda>(groups', affected).
         let errors = mutation_errors lo why nat_rules groups'
         in if errors \<noteq> [] then Inl (NotValid errors)
            else Inr (st \<lparr> os_groups := groups' \<rparr>, affected)))"

end
