(* ===== verification/Network_Object_Thms.thy ===== *)
theory Network_Object_Thms
  imports Network_Objects Source_Group_Thms
begin

text \<open>
  The table of Source Groups stays valid under every request, and a group that is deleted was used by nothing.
\<close>

section \<open>Fresh identifiers\<close>




section \<open>The invariant\<close>

text \<open>Identifiers that no text of a reference equals.\<close>

definition plain_id :: "(pystr \<Rightarrow> pystr) \<Rightarrow> pystr \<Rightarrow> bool" where
  "plain_id lo k \<longleftrightarrow> \<not> startswith (lo k) FIREWALL_SOURCE_GROUP_REFERENCE_PREFIX \<and> \<not> startswith k [64] \<and> k \<noteq> []"

definition objects_ok :: "(pystr \<Rightarrow> pystr) \<Rightarrow> network_group list \<Rightarrow> bool" where
  "objects_ok lo groups \<longleftrightarrow> distinct (map sg_id groups) \<and> list_all (\<lambda>g. sg_name g \<noteq> [] \<and> plain_id lo (sg_id g)) groups
     \<and> validate_firewall_source_groups lo (map core groups) = [] \<and> ANY \<in> set (map sg_id groups)"

lemma core_simps [simp]: "sg_id (core g) = sg_id g" "sg_name (core g) = sg_name g" "sg_entries (core g) = sg_entries g"
  by (simp_all add: source_group.defs)

lemma normalize_id [simp]: "sg_id (normalize_source_group lo g) = sg_id g"
  by (simp add: normalize_source_group_def Let_def)

















section \<open>Rules\<close>








section \<open>Reachable tables\<close>




section \<open>Two resolutions of a reference\<close>

abbreviation folded_name :: "(pystr \<Rightarrow> pystr) \<Rightarrow> source_group \<Rightarrow> pystr" where
  "folded_name lo g \<equiv> lo (strip (sg_name g))"

definition named_table :: "(pystr \<Rightarrow> pystr) \<Rightarrow> source_group list \<Rightarrow> bool" where
  "named_table lo groups \<longleftrightarrow> distinct (map sg_id groups) \<and> distinct (map (folded_name lo) groups)
     \<and> (\<forall>g \<in> set groups. strip (sg_name g) \<noteq> [] \<and> plain_id lo (sg_id g))"

lemma name_errors_distinct:
  assumes "fst (name_errors lo names groups) = []" "distinct (map sg_id groups)" "\<forall>g \<in> set groups. sg_id g \<notin> ran (map_of names)"
  shows "distinct (map (\<lambda>g. lo (strip (group_label g))) groups) \<and> (\<forall>g \<in> set groups. map_of names (lo (strip (group_label g))) = None)"
  using assms
proof (induction groups arbitrary: names)
  case (Cons g groups)
  let ?n = "lo (strip (group_label g))"
  have here: "map_of names ?n = None"
    using Cons.prems(1,3) by (auto simp: Let_def case_prod_beta ran_def split: if_splits)
  have "fst (name_errors lo (dict_set names ?n (sg_id g)) groups) = []"
    using Cons.prems(1) by (simp add: Let_def case_prod_beta)
  moreover have "\<forall>h \<in> set groups. sg_id h \<notin> ran (map_of (dict_set names ?n (sg_id g)))"
    using Cons.prems(2,3) here by (simp add: map_of_dict_set) (metis image_eqI)
  ultimately have "distinct (map (\<lambda>g. lo (strip (group_label g))) groups)"
    "\<forall>h \<in> set groups. map_of (dict_set names ?n (sg_id g)) (lo (strip (group_label h))) = None"
    using Cons.IH Cons.prems(2) by simp_all
  then show ?case using here by (auto simp: map_of_dict_set split: if_splits)
qed simp

lemma named_index:
  assumes "named_table lo groups"
  shows "source_group_name_index lo (groups_by_id groups) = map (\<lambda>g. (folded_name lo g, sg_id g)) groups"
proof -
  have t: "groups_by_id groups = map (\<lambda>g. (sg_id g, g)) groups" "distinct (map (folded_name lo) groups)"
    "filter (\<lambda>g. strip (sg_name g) \<noteq> []) groups = groups"
    using assms groups_by_id_distinct by (auto simp: named_table_def intro: filter_True)
  then show ?thesis
    by (simp add: source_group_name_index_def filter_map comp_def dict_of_distinct)
qed

lemma map_of_find: "map_of (map (\<lambda>g. (f g, h g)) xs) n = map_option h (List.find (\<lambda>g. f g = n) xs)"
  by (induction xs) auto

lemma find_pairs: "List.find (\<lambda>(k, g). P g) (map (\<lambda>g. (f g, g)) xs) = map_option (\<lambda>g. (f g, g)) (List.find P xs)"
  by (induction xs) auto

definition resolved_reference :: "(pystr \<Rightarrow> pystr) \<Rightarrow> source_group list \<Rightarrow> pystr \<Rightarrow> pystr" where
  "resolved_reference lo groups item =
     (if startswith (lo item) FIREWALL_SOURCE_GROUP_REFERENCE_PREFIX
      then (let k = drop (length FIREWALL_SOURCE_GROUP_REFERENCE_PREFIX) item in if k \<in> sg_id ` set groups then k else [])
      else if startswith item [64]
      then (case List.find (\<lambda>g. folded_name lo g = lo (strip (tl item))) groups of Some g \<Rightarrow> sg_id g | None \<Rightarrow> [])
      else [])"

lemma own_target_resolved:
  assumes "named_table lo groups"
  shows "own_target lo (groups_by_id groups) v = resolved_reference lo groups (strip v)"
proof -
  have "fst ` set (groups_by_id groups) = sg_id ` set groups"
    using assms by (force simp: named_table_def groups_by_id_distinct)
  then show ?thesis
    unfolding source_group_reference_target_def resolved_reference_def Let_def named_index [OF assms] if_cancel
    by (cases "List.find (\<lambda>g. folded_name lo g = lo (strip (tl (strip v)))) groups") (simp_all add: map_of_find)
qed

lemma object_target_resolved:
  assumes "named_table lo groups"
  shows "object_reference_target lo groups v = (if strip v \<in> sg_id ` set groups then strip v else resolved_reference lo groups (strip v))"
proof -
  have t: "groups_by_id groups = map (\<lambda>g. (sg_id g, g)) groups"
    using assms by (simp add: named_table_def groups_by_id_distinct)
  have "fst ` set (groups_by_id groups) = sg_id ` set groups" by (force simp: t)
  then show ?thesis
    unfolding object_reference_target_def resolved_reference_def Let_def t find_pairs
    by (cases "List.find (\<lambda>g. folded_name lo g = lo (strip (tl (strip v)))) groups") simp_all
qed

text \<open>A reference the firewall follows is one that the search for consumers sees.\<close>

lemma reference_seen:
  assumes "named_table lo groups" "own_target lo (groups_by_id groups) v = k" "k \<noteq> []"
  shows "object_reference_target lo groups v = k"
proof -
  have "startswith (lo (strip v)) FIREWALL_SOURCE_GROUP_REFERENCE_PREFIX \<or> startswith (strip v) [64]"
    using assms(2,3) unfolding own_target_resolved [OF assms(1)] resolved_reference_def by (simp only: split: if_split_asm) simp_all
  then have "strip v \<notin> sg_id ` set groups"
    using assms(1) unfolding named_table_def plain_id_def by (metis imageE)
  then show ?thesis using assms by (simp add: own_target_resolved object_target_resolved)
qed

section \<open>Deletion\<close>

abbreviation without :: "pystr \<Rightarrow> source_group list \<Rightarrow> source_group list" where
  "without k groups \<equiv> filter (\<lambda>g. sg_id g \<noteq> k) groups"

lemma without_named: "named_table lo groups \<Longrightarrow> named_table lo (without k groups)"
  by (auto simp: named_table_def distinct_map inj_on_def)

lemma find_filter: "List.find P xs = r \<Longrightarrow> (\<And>x. r = Some x \<Longrightarrow> Q x) \<Longrightarrow> List.find P (filter Q xs) = r"
  by (induction xs) (auto simp: find_None_iff split: if_splits)

lemma without_resolved:
  assumes "resolved_reference lo groups item \<noteq> k" "k \<noteq> []"
  shows "resolved_reference lo (without k groups) item = resolved_reference lo groups item"
proof (cases "startswith (lo item) FIREWALL_SOURCE_GROUP_REFERENCE_PREFIX")
  case True
  then show ?thesis using assms by (auto simp: resolved_reference_def Let_def)
next
  case False
  let ?f = "List.find (\<lambda>g. folded_name lo g = lo (strip (tl item)))"
  have "?f (without k groups) = ?f groups" if "startswith item [64]"
    using assms(1) False that by (intro find_filter refl) (auto simp: resolved_reference_def)
  then show ?thesis using False by (simp add: resolved_reference_def)
qed

lemma without_map_of: "named_table lo groups \<Longrightarrow> t \<noteq> k \<Longrightarrow> map_of (groups_by_id (without k groups)) t = map_of (groups_by_id groups) t"
proof -
  assume "named_table lo groups" and "t \<noteq> k"
  then have d: "distinct (map sg_id groups)" "distinct (map sg_id (without k groups))"
    using without_named [of lo groups k] by (auto simp: named_table_def)
  have "map_of (map (\<lambda>g. (sg_id g, g)) (without k groups)) t = map_of (map (\<lambda>g. (sg_id g, g)) groups) t" for groups :: "source_group list"
    using \<open>t \<noteq> k\<close> by (induction groups) auto
  then show ?thesis by (simp add: groups_by_id_distinct d)
qed

text \<open>No group but \<open>k\<close> itself has an entry that leads to \<open>k\<close>.\<close>

definition unreferenced :: "(pystr \<Rightarrow> pystr) \<Rightarrow> source_group list \<Rightarrow> pystr \<Rightarrow> bool" where
  "unreferenced lo groups k \<longleftrightarrow> (\<forall>t. t \<noteq> k \<longrightarrow>
     (\<forall>e \<in> set (source_group_entries lo (map_of (groups_by_id groups) t)). own_target lo (groups_by_id groups) e \<noteq> k))"

lemma without_target:
  "named_table lo groups \<Longrightarrow> k \<noteq> [] \<Longrightarrow> own_target lo (groups_by_id groups) v \<noteq> k
   \<Longrightarrow> own_target lo (groups_by_id (without k groups)) v = own_target lo (groups_by_id groups) v"
  by (simp add: own_target_resolved without_named without_resolved)

lemma without_expand:
  assumes "named_table lo groups" "unreferenced lo groups k" "k \<noteq> []" "\<forall>e \<in> set es. own_target lo (groups_by_id groups) e \<noteq> k"
  shows "expand_entries lo (groups_by_id (without k groups)) stack acc es = expand_entries lo (groups_by_id groups) stack acc es"
  using assms
proof (induction lo "groups_by_id groups" stack acc es rule: expand_entries.induct)
  case (2 lo stack acc entry rest)
  let ?gs = "groups_by_id groups" and ?gs' = "groups_by_id (without k groups)"
  let ?t = "own_target lo ?gs (strip entry)"
  have t: "?t \<noteq> k" using "2.prems"(4) by simp
  have same: "own_target lo ?gs' (strip entry) = ?t" using without_target [OF "2.prems"(1,3)] t by simp
  have inner: "source_group_entries lo (map_of ?gs' ?t) = source_group_entries lo (map_of ?gs ?t)"
    using without_map_of [OF "2.prems"(1) t] by simp
  have below: "\<forall>e \<in> set (source_group_entries lo (map_of ?gs ?t)). own_target lo ?gs e \<noteq> k"
    using "2.prems"(2) t unfolding unreferenced_def by blast
  have rest: "\<forall>e \<in> set rest. own_target lo ?gs e \<noteq> k" using "2.prems"(4) by simp
  note IH = "2.hyps"
  note pre = "2.prems"(1-3)
  show ?case
  proof (cases "lo (strip entry) = ANY")
    case False
    show ?thesis
    proof (cases "?t = []")
      case True
      then show ?thesis using IH(4) [OF refl refl False _ pre rest] same False by (simp add: Let_def)
    next
      case ref: False
      show ?thesis
      proof (cases "?t \<in> set stack")
        case True
        then show ?thesis using IH(1) [OF refl refl False _ _ pre rest] same False ref by (simp add: Let_def)
      next
        case new: False
        then show ?thesis
          using IH(2) [OF refl refl False _ _ pre below] IH(3) [OF refl refl False _ _ refl _ pre rest] same inner False ref by (simp add: Let_def)
      qed
    qed
  qed (simp add: Let_def)
qed simp

lemma entry_seen:
  assumes named: "named_table lo groups" and any: "lo ANY = ANY" and t: "own_target lo (groups_by_id groups) (normal_entry lo e) = k" "k \<noteq> []"
  shows "object_reference_target lo groups e = k"
proof -
  let ?item = "strip e" and ?P = FIREWALL_SOURCE_GROUP_REFERENCE_PREFIX
  have strips: "object_reference_target lo groups e = object_reference_target lo groups ?item"
    by (simp add: object_reference_target_def)
  consider (any) "lo ?item = ANY" | (ref) "lo ?item \<noteq> ANY" "startswith (lo ?item) ?P" | (plain) "lo ?item \<noteq> ANY" "\<not> startswith (lo ?item) ?P" by blast
  then show ?thesis
  proof cases
    case any
    then show ?thesis using t no_target_of_any \<open>lo ANY = ANY\<close> by (simp add: normal_entry_def Let_def)
  next
    case ref
    let ?v = "?P @ drop (length ?P) ?item"
    have last: "drop (length ?P) ?item \<noteq> [] \<Longrightarrow> \<not> is_space (last ?item)" by (metis drop_Nil strip_ends(2))
    have v: "strip ?v = ?v"
      using last by (intro strip_id) (auto simp: FIREWALL_SOURCE_GROUP_REFERENCE_PREFIX_def u_def is_space_def)
    have "own_target lo (groups_by_id groups) ?v = k" using t(1) ref by (simp add: normal_entry_def Let_def)
    then have "resolved_reference lo groups ?v = k" by (simp add: own_target_resolved [OF named] v)
    moreover have "\<not> startswith ?v [64]" by (simp add: startswith_def FIREWALL_SOURCE_GROUP_REFERENCE_PREFIX_def u_def)
    ultimately have k: "k = drop (length ?P) ?item" "k \<in> sg_id ` set groups"
      using t(2) unfolding resolved_reference_def Let_def by (simp_all split: if_split_asm)
    moreover have "?item \<notin> sg_id ` set groups" using named ref(2) by (auto simp: named_table_def plain_id_def)
    ultimately show ?thesis using ref(2) by (simp add: object_target_resolved [OF named] resolved_reference_def)
  next
    case plain
    then have "own_target lo (groups_by_id groups) ?item = k" using t(1) by (simp add: normal_entry_def Let_def)
    then show ?thesis unfolding strips by (rule reference_seen [OF named _ t(2)])
  qed
qed

lemma consumers_Nil:
  assumes "source_group_consumers lo k groups assignments fw tr = []"
  shows "nested_consumers lo groups k = []" "\<forall>r \<in> set fw. firewall_consumers lo groups k r = []"
    "\<forall>p \<in> set assignments. snd p \<noteq> k" "\<forall>r \<in> set tr. object_reference_target lo groups (rule_source r) \<noteq> k"
proof -
  have "set (source_group_consumers lo k groups assignments fw tr) = {}" using assms by simp
  note all = this [unfolded source_group_consumers_def set_sort set_append Un_empty set_empty]
  show "nested_consumers lo groups k = []" "\<forall>r \<in> set fw. firewall_consumers lo groups k r = []"
    "\<forall>p \<in> set assignments. snd p \<noteq> k" "\<forall>r \<in> set tr. object_reference_target lo groups (rule_source r) \<noteq> k"
    using all by (auto simp: filter_empty_conv)
qed

lemma unused_unreferenced:
  assumes "named_table lo groups" "lo ANY = ANY" "k \<noteq> []" "nested_consumers lo groups k = []"
  shows "unreferenced lo groups k"
  unfolding unreferenced_def
proof (intro allI impI ballI notI)
  fix t e
  assume t: "t \<noteq> k" and e: "e \<in> set (source_group_entries lo (map_of (groups_by_id groups) t))" and target: "own_target lo (groups_by_id groups) e = k"
  have "\<exists>g e0. map_of (groups_by_id groups) t = Some g \<and> e0 \<in> set (sg_entries g) \<and> e = normal_entry lo (strip e0)"
  proof (rule ccontr)
    assume "\<not> ?thesis"
    then have "e = normal_entry lo ANY"
      using e by (auto simp: source_group_entries_def Let_def split: option.splits if_splits)
    then have "e = ANY" using assms(2) by (simp add: normal_entry_def strip_any)
    then show False using target assms(2,3) no_target_of_any by blast
  qed
  then obtain g e0 where g: "map_of (groups_by_id groups) t = Some g" "e0 \<in> set (sg_entries g)" "e = normal_entry lo (strip e0)" by blast
  then have "object_reference_target lo groups (strip e0) = k" using entry_seen [OF assms(1,2)] target assms(3) by blast
  then have "object_reference_target lo groups e0 = k" by (simp add: object_reference_target_def)
  moreover have "g \<in> set groups" "sg_id g = t"
    using g(1) assms(1) by (auto simp: named_table_def groups_by_id_distinct dest!: map_of_SomeD)
  ultimately show False using assms(4) t g(2) unfolding nested_consumers_def by (auto simp: filter_empty_conv list_ex_iff)
qed

section \<open>Deleted groups were unused\<close>

text \<open>A source of a translation rule in the notation that the search for consumers expects.\<close>

definition canonical_source :: "pystr \<Rightarrow> bool" where
  "canonical_source s \<longleftrightarrow> strip s = s
     \<and> strip (drop (length FIREWALL_SOURCE_GROUP_REFERENCE_PREFIX) s) = drop (length FIREWALL_SOURCE_GROUP_REFERENCE_PREFIX) s"

lemma normalized_named:
  assumes "objects_ok lo groups"
  shows "named_table lo (map (core \<circ> normalize_source_group lo) groups)"
proof -
  have t: "distinct (map sg_id groups)" "\<forall>g \<in> set groups. sg_name g \<noteq> [] \<and> plain_id lo (sg_id g)"
    "validate_firewall_source_groups lo (map core groups) = []"
    using assms by (auto simp: objects_ok_def list_all_iff)
  have errors: "fst (name_errors lo [] (map core groups)) = []"
    using t(3) by (auto simp: validate_firewall_source_groups_def Let_def split: prod.splits)
  have label: "group_label (core g) = sg_name g" if "g \<in> set groups" for g using t(2) that by (simp add: group_label_def)
  have names: "strip (sg_name g) \<noteq> []" if "g \<in> set groups" for g
    using name_errors_labels [OF errors, of "core g"] that label by fastforce
  have norm: "sg_name (normalize_source_group lo g) = strip (sg_name g)" if "g \<in> set groups" for g
    using names [OF that] by (simp add: normalize_source_group_def Let_def)
  have "distinct (map (\<lambda>g. lo (strip (group_label g))) (map core groups))"
    using name_errors_distinct [OF errors] t(1) by (simp add: comp_def)
  then have "distinct (map (\<lambda>g. lo (strip (sg_name g))) groups)" by (simp add: comp_def label cong: map_cong)
  then show ?thesis
    using t names norm by (simp add: named_table_def comp_def cong: map_cong)
qed

lemma unused_rule_value:
  assumes "named_table lo groups" "unreferenced lo groups k" "k \<noteq> []" "object_reference_target lo groups v \<noteq> k"
  shows "rule_address_value lo (groups_by_id (without k groups)) v = rule_address_value lo (groups_by_id groups) v"
proof -
  let ?gs = "groups_by_id groups" and ?gs' = "groups_by_id (without k groups)"
  have t: "own_target lo ?gs (strip v) \<noteq> k" using reference_seen [OF assms(1) _ assms(3)] assms(4) by (metis target_strip)
  have same: "own_target lo ?gs' (strip v) = own_target lo ?gs (strip v)" using without_target [OF assms(1,3) t] .
  have "\<forall>e \<in> set (source_group_entries lo (map_of ?gs (own_target lo ?gs (strip v)))). own_target lo ?gs e \<noteq> k"
    using assms(2) t unfolding unreferenced_def by blast
  then have "expand_source_group_entries lo ?gs' (map_of ?gs (own_target lo ?gs (strip v)))
      = expand_source_group_entries lo ?gs (map_of ?gs (own_target lo ?gs (strip v)))"
    unfolding expand_source_group_entries_def using without_expand [OF assms(1-3)] by blast
  then show ?thesis unfolding rule_address_value_def Let_def same without_map_of [OF assms(1) t] by simp
qed

lemma unused_expansion:
  assumes "named_table lo groups" "unreferenced lo groups k" "k \<noteq> []" "map_of (groups_by_id groups) t = Some g" "t \<noteq> k"
  shows "expand_source_group_entries lo (groups_by_id (without k groups)) (Some g) = expand_source_group_entries lo (groups_by_id groups) (Some g)"
proof -
  have "\<forall>e \<in> set (source_group_entries lo (Some g)). own_target lo (groups_by_id groups) e \<noteq> k"
    using assms(2,4,5) unfolding unreferenced_def by (metis assms(4))
  then show ?thesis unfolding expand_source_group_entries_def using without_expand [OF assms(1-3)] by blast
qed

lemma unused_source:
  assumes "named_table lo groups" "unreferenced lo groups k" "k \<noteq> []" "k \<in> sg_id ` set groups"
    and "canonical_source s" "object_reference_target lo groups s \<noteq> k"
  shows "resolved_nat_source lo (without k groups) s = resolved_nat_source lo groups s"
proof (cases "startswith (lo s) FIREWALL_SOURCE_GROUP_REFERENCE_PREFIX")
  case True
  let ?key = "drop (length FIREWALL_SOURCE_GROUP_REFERENCE_PREFIX) s"
  have s: "strip s = s" "strip ?key = ?key" using assms(5) by (auto simp: canonical_source_def)
  have "s \<notin> sg_id ` set groups" using assms(1) True by (auto simp: named_table_def plain_id_def)
  then have key: "?key \<noteq> k"
    using assms(4,6) True s(1) by (auto simp: object_target_resolved [OF assms(1)] resolved_reference_def)
  have "map_option (source_group_to_rule_source lo (groups_by_id (without k groups))) (map_of (groups_by_id groups) ?key)
      = map_option (source_group_to_rule_source lo (groups_by_id groups)) (map_of (groups_by_id groups) ?key)"
    using unused_expansion [OF assms(1-3) _ key]
    by (cases "map_of (groups_by_id groups) ?key") (simp_all add: source_group_to_rule_source_def)
  then show ?thesis using True s(2) without_map_of [OF assms(1) key] by (simp add: resolved_nat_source_def Let_def)
qed (simp add: resolved_nat_source_def)

text \<open>
  C16: A Source Group is deleted only when nothing changes its meaning. After an accepted deletion every other group expands
  to the same addresses as before, every firewall rule stands for the same source and destination, every translation rule in
  canonical notation has the same source, and no managed rule was assigned to the group.
\<close>

theorem deleted_group_was_unused:
  assumes ok: "objects_ok lo (os_groups st)" and any: "lo ANY = ANY" and act: "mf_action form = u ''delete''"
    and mut: "mutate_source_groups lo why fw tr form st = Inr (st', k)"
    and tables: "groups = map (core \<circ> normalize_source_group lo) (os_groups st)" "groups' = map core (os_groups st')"
  shows "groups' = filter (\<lambda>g. sg_id g \<noteq> k) groups \<and> k \<in> set (map sg_id groups)
       \<and> list_all (\<lambda>g. expand_source_group_entries lo (groups_by_id groups') (Some g)
                        = expand_source_group_entries lo (groups_by_id groups) (Some g)) groups'
       \<and> list_all (\<lambda>r. rule_address_value lo (groups_by_id groups') (fr_source r) = rule_address_value lo (groups_by_id groups) (fr_source r)
            \<and> rule_address_value lo (groups_by_id groups') (fr_destination r) = rule_address_value lo (groups_by_id groups) (fr_destination r)) fw
       \<and> list_all (\<lambda>r. resolved_nat_source lo groups' (rule_source r) = resolved_nat_source lo groups (rule_source r))
            (filter (\<lambda>r. canonical_source (rule_source r)) tr)
       \<and> k \<notin> set (map snd (os_assignments st))"
proof -
  let ?ns = "map (normalize_source_group lo) (os_groups st)"
  have "delete_groups lo fw tr (os_assignments st) ?ns form = Inr (os_groups st', k)"
    using mut act by (auto simp: mutate_source_groups_def Let_def bindE_eq_Inr u_def split: if_splits)
  then have del: "os_groups st' = filter (\<lambda>g. sg_id g \<noteq> k) ?ns" "k \<in> set (map sg_id ?ns)"
    and cons: "source_group_consumers lo k (map core ?ns) (os_assignments st) fw tr = []"
    by (auto simp: delete_groups_def Let_def split: if_splits)
  have groups: "map core ?ns = groups" by (simp add: tables)
  note named = normalized_named [OF ok, folded tables(1)]
  have after: "groups' = without k groups" unfolding tables del(1) by (simp add: filter_map comp_def)
  have k: "k \<in> sg_id ` set groups" using del(2) by (simp add: tables image_image)
  then have "k \<noteq> []" using named by (auto simp: named_table_def plain_id_def)
  note none = consumers_Nil [OF cons [unfolded groups]]
  note free = unused_unreferenced [OF named any \<open>k \<noteq> []\<close> none(1)]
  have d: "distinct (map sg_id groups)" using named by (simp add: named_table_def)
  have "expand_source_group_entries lo (groups_by_id groups') (Some g) = expand_source_group_entries lo (groups_by_id groups) (Some g)" if "g \<in> set groups'" for g
    using that unused_expansion [OF named free \<open>k \<noteq> []\<close>, of "sg_id g" g] unfolding after by (auto simp: groups_by_id_distinct [OF d] map_of_is_SomeI d comp_def)
  moreover have "rule_address_value lo (groups_by_id groups') v = rule_address_value lo (groups_by_id groups) v" if "r \<in> set fw" "v \<in> {fr_source r, fr_destination r}" for r v
    using unused_rule_value [OF named free \<open>k \<noteq> []\<close>, of v] none(2) that unfolding after by (auto simp: firewall_consumers_def split: if_splits)
  moreover have "resolved_nat_source lo groups' (rule_source r) = resolved_nat_source lo groups (rule_source r)" if "r \<in> set tr" "canonical_source (rule_source r)" for r
    using unused_source [OF named free \<open>k \<noteq> []\<close> k that(2)] none(4) that(1) unfolding after by blast
  ultimately show ?thesis using after k none(3) by (auto simp: list_all_iff)
qed

section \<open>A reference with a space\<close>

definition any_group :: network_group where
  "any_group = \<lparr> sg_id = ANY, sg_name = u ''Any'', sg_entries = [ANY], ng_description = u ''Any source'', ng_builtin = True, ng_bootstrap = None \<rparr>"

definition lab_group :: network_group where
  "lab_group = \<lparr> sg_id = u ''custom:lab'', sg_name = u ''Lab'', sg_entries = [u ''10.0.0.0/8''], ng_description = u ''Lab'',
     ng_builtin = False, ng_bootstrap = None \<rparr>"

definition lab_objects :: objects_state where
  "lab_objects = \<lparr> os_groups = [any_group, lab_group], os_assignments = [] \<rparr>"

definition delete_lab :: mutation_form where
  "delete_lab = \<lparr> mf_csrf = True, mf_action = u ''delete'', mf_group_id = u ''custom:lab'', mf_group_name = [], mf_entries = [], mf_description = None \<rparr>"

definition spaced_rule :: nat_rule where
  "spaced_rule = \<lparr> nr_name = u ''lab'', nr_enabled = True, nr_source = u ''group: custom:lab'', nr_inbound = JNull, nr_family = Some 4,
     nr_outbound = u ''eth1'', nr_mode = u ''masquerade'', nr_translated = [], nr_masquerade = True, nr_priority = 1 \<rparr>"

abbreviation low :: "pystr \<Rightarrow> pystr" where "low \<equiv> map ascii_lower"

lemma lab_normalized: "normalize_source_group low any_group = any_group" "normalize_source_group low lab_group = lab_group"
  by (simp_all add: normalize_source_group_def any_group_def lab_group_def normalized_entry_def bootstrap_id_def text_eval)

lemma lab_cores: "core any_group = \<lparr> sg_id = ANY, sg_name = u ''Any'', sg_entries = [ANY] \<rparr>"
  "core lab_group = \<lparr> sg_id = u ''custom:lab'', sg_name = u ''Lab'', sg_entries = [u ''10.0.0.0/8''] \<rparr>"
  by (simp_all add: any_group_def lab_group_def source_group.defs)

lemma lab_tables:
  "groups_by_id [core any_group, core lab_group] = [(ANY, core any_group), (u ''custom:lab'', core lab_group)]"
  "groups_by_id [core any_group] = [(ANY, core any_group)]"
  by (simp_all add: groups_by_id_def dict_of_def lab_cores text_eval)

lemma lab_entries:
  "source_group_entries low (Some (core any_group)) = [ANY]" "source_group_entries low (Some (core lab_group)) = [u ''10.0.0.0/8'']"
  by (simp_all add: source_group_entries_def normal_entry_def lab_cores text_eval)

abbreviation lab_names :: "(pystr \<times> pystr) list" where
  "lab_names \<equiv> [(ANY, ANY), (u ''lab'', u ''custom:lab'')]"

lemma lab_name_errors:
  "name_errors low [] [core any_group, core lab_group] = ([], lab_names)" "name_errors low [] [core any_group] = ([], [(ANY, ANY)])"
  by (simp_all add: group_label_def lab_cores Let_def text_eval)

lemma lab_targets:
  "source_group_reference_target low gs names ANY = []" "source_group_reference_target low gs names (u ''10.0.0.0/8'') = []"
  by (simp_all add: source_group_reference_target_def text_eval)

lemma lab_group_errors:
  "group_errors low gs names (core any_group) = []" "group_errors low gs names (core lab_group) = []"
proof -
  have v: "split_address_values low ANY = [ANY]" by (simp add: split_address_values_def source_values_def text_eval)
  show "group_errors low gs names (core any_group) = []"
    by (simp add: group_errors_def Let_def lab_entries lab_targets validate_address_value_def v) (simp add: text_eval)
  show "group_errors low gs names (core lab_group) = []"
    by (simp add: group_errors_def Let_def lab_entries lab_targets validate_address_value_def sample_values sample_networks)
      (simp add: lab_cores lab_group_def looks_like_source_group_reference_def text_eval)
qed

lemma lab_valid:
  "validate_firewall_source_groups low [core any_group, core lab_group] = []" "validate_firewall_source_groups low [core any_group] = []"
proof -
  have "validate_source_group_cycles low [core any_group, core lab_group] [(ANY, core any_group), (u ''custom:lab'', core lab_group)] lab_names = []"
    "validate_source_group_cycles low [core any_group] [(ANY, core any_group)] [(ANY, ANY)] = []"
    by (simp_all add: validate_source_group_cycles_def visit.simps lab_entries lab_targets)
  then show "validate_firewall_source_groups low [core any_group, core lab_group] = []" "validate_firewall_source_groups low [core any_group] = []"
    unfolding validate_firewall_source_groups_def Let_def lab_tables lab_name_errors prod.case by (simp_all add: lab_group_errors)
qed

lemma lab_ok: "objects_ok low (os_groups lab_objects)"
proof -
  have "plain_id low ANY" "plain_id low (u ''custom:lab'')" by (simp_all add: plain_id_def text_eval)
  moreover have "sg_id any_group = ANY" "sg_id lab_group = u ''custom:lab''" "sg_name any_group \<noteq> []" "sg_name lab_group \<noteq> []" "ANY \<noteq> u ''custom:lab''"
    by (simp_all add: any_group_def lab_group_def u_def)
  ultimately show ?thesis by (simp add: objects_ok_def lab_objects_def lab_valid)
qed

lemma spaced_target: "object_reference_target low [core any_group, core lab_group] (nr_source spaced_rule) = []"
  "object_reference_target low [core any_group] (nr_source spaced_rule) = []"
  by (simp_all add: object_reference_target_def lab_tables spaced_rule_def text_eval)

lemma spaced_delete: "mutate_source_groups low why [] [NatRow spaced_rule] delete_lab lab_objects
   = Inr (\<lparr> os_groups = [any_group], os_assignments = [] \<rparr>, u ''custom:lab'')"
proof -
  have ids: "sg_id any_group = ANY" "sg_id lab_group = u ''custom:lab''" "ANY \<noteq> u ''custom:lab''" "u ''delete'' \<noteq> u ''create''" "u ''custom:lab'' \<noteq> []"
    "sg_entries any_group = [ANY]"
    by (simp_all add: any_group_def lab_group_def u_def)
  have any: "object_reference_target low [core any_group, core lab_group] ANY = ANY"
    by (simp add: object_reference_target_def lab_tables strip_any)
  have "source_group_consumers low (u ''custom:lab'') [core any_group, core lab_group] [] [] [NatRow spaced_rule] = []"
    by (simp add: source_group_consumers_def nested_consumers_def ids any spaced_target ids(5) [symmetric])
  moreover have "mutation_errors low why [NatRow spaced_rule] [any_group] = []"
    by (simp add: mutation_errors_def lab_valid source_group_nat_validation_errors_def collect_errors_def spaced_target)
  ultimately show ?thesis
    by (simp add: mutate_source_groups_def delete_groups_def lab_objects_def delete_lab_def lab_normalized ids ids(3) [symmetric])
qed



theorem deleted_group_was_unused_witness:
  "mutate_source_groups low (\<lambda>_. []) [] [NatRow spaced_rule] delete_lab lab_objects
     = Inr (\<lparr> os_groups = [any_group], os_assignments = [] \<rparr>, u ''custom:lab'')
   \<and> expand_source_group_entries low (groups_by_id [core any_group]) (Some (core any_group))
     = expand_source_group_entries low (groups_by_id [core any_group, core lab_group]) (Some (core any_group))"
proof -
  have "low ANY = ANY" "mf_action delete_lab = u ''delete''" by (simp_all add: delete_lab_def text_eval)
  note d = deleted_group_was_unused [OF lab_ok this spaced_delete [of "\<lambda>_. []"] refl refl]
  have tables: "map (core \<circ> normalize_source_group low) (os_groups lab_objects) = [core any_group, core lab_group]"
    by (simp add: lab_objects_def lab_normalized)
  show ?thesis
    by (rule conjI [OF spaced_delete])
      (use d in \<open>unfold tables objects_state.select_convs list.map list.pred_inject, blast\<close>)
qed

end
