(* ===== verification/Release_Manifests.thy ===== *)
theory Release_Manifests
  imports Ui_Routes Base64
begin

text \<open>
  \<open>src/atlaso/app/services/release_updates.py\<close>: the signed documents that describe a channel, a release and an
  inventory image. Parameters: Ed25519 and the trust directory (\<open>re_trusted\<close>, \<open>re_verify\<close>), \<open>datetime.fromisoformat\<close>
  (\<open>re_iso\<close>: whether it has a time zone, or \<open>None\<close>), \<open>str.lower\<close>, \<open>str\<close> of floats and containers, and the parts of
  \<open>urlsplit\<close> that need Unicode tables.
\<close>

section \<open>Environment\<close>

text \<open>What \<open>load_pem_public_key\<close> makes of the file of a key identifier.\<close>

datatype trusted_key = Missing | Malformed | OtherKey | Ed25519 nat

record release_env =
  re_text :: text_env
  re_lower :: "pystr \<Rightarrow> pystr"
  re_float :: "pystr \<Rightarrow> json"
  re_bad_netloc :: "pystr \<Rightarrow> bool"
  re_iso :: "pystr \<Rightarrow> bool option"
  re_trusted :: "pystr \<Rightarrow> trusted_key"
  re_verify :: "nat \<Rightarrow> bytes \<Rightarrow> bytes \<Rightarrow> bool"

text \<open>\<open>ReleaseManifestError\<close> and the plain \<open>ValueError\<close> of \<open>urlparse\<close> and of an unknown document kind.\<close>

datatype release_error = ReleaseManifestError pystr | PlainValueError

definition manifest_error :: "string \<Rightarrow> release_error" where
  "manifest_error message = ReleaseManifestError (u message)"

definition CHANNEL_MANIFEST_SCHEMA :: int where "CHANNEL_MANIFEST_SCHEMA = 2"

definition RELEASE_MANIFEST_SCHEMA :: int where "RELEASE_MANIFEST_SCHEMA = 2"

definition INVENTORY_RELEASE_MANIFEST_SCHEMA :: int where "INVENTORY_RELEASE_MANIFEST_SCHEMA = 1"

definition SIGNATURE_SCHEMA :: int where "SIGNATURE_SCHEMA = 1"

definition UPDATER_PROTOCOL :: int where "UPDATER_PROTOCOL = 2"

definition SUPPORTED_PYTHON_ABIS :: "pystr list" where "SUPPORTED_PYTHON_ABIS = [u ''cp314'']"

definition INVENTORY_PACKAGE_MAX_BYTES :: int where "INVENTORY_PACKAGE_MAX_BYTES = 2 * 1024 * 1024 * 1024"

definition INVENTORY_RELEASE_REPOSITORY :: pystr where "INVENTORY_RELEASE_REPOSITORY = u ''mdaneri/Atlaso''"

definition RELEASE_NOTES_URL_MAX_LENGTH :: nat where "RELEASE_NOTES_URL_MAX_LENGTH = 2048"

section \<open>Patterns\<close>

definition lower_hex_digit :: "nat \<Rightarrow> bool" where
  "lower_hex_digit c \<longleftrightarrow> c \<in> set (u ''0123456789abcdef'')"

definition COMMIT_RE :: "pystr \<Rightarrow> bool" where
  "COMMIT_RE s \<longleftrightarrow> length s = 40 \<and> list_all lower_hex_digit s"

definition key_id_start :: "nat \<Rightarrow> bool" where
  "key_id_start c \<longleftrightarrow> 97 \<le> c \<and> c \<le> 122 \<or> 48 \<le> c \<and> c \<le> 57"

definition KEY_ID_RE :: "pystr \<Rightarrow> bool" where
  "KEY_ID_RE s \<longleftrightarrow> (case s of [] \<Rightarrow> False
     | c # t \<Rightarrow> key_id_start c \<and> length t \<le> 63 \<and> list_all (\<lambda>x. key_id_start x \<or> x \<in> set (u ''._-'')) t)"

definition digits :: "pystr \<Rightarrow> bool" where
  "digits s \<longleftrightarrow> s \<noteq> [] \<and> list_all is_digit s"

definition VERSION_RE :: "pystr \<Rightarrow> bool" where
  "VERSION_RE s \<longleftrightarrow> (case split_on 46 s of [a, b, c] \<Rightarrow> digits a \<and> digits b \<and> digits c | _ \<Rightarrow> False)"

definition INVENTORY_VERSION_RE :: "pystr \<Rightarrow> bool" where
  "INVENTORY_VERSION_RE s \<longleftrightarrow> (case split_on 43 s of [v, r] \<Rightarrow> VERSION_RE v \<and> digits r | _ \<Rightarrow> False)"

section \<open>Fields\<close>

definition reject :: "string \<Rightarrow> bool \<Rightarrow> release_error + unit" where
  "reject message bad = raise_if bad (manifest_error message)"

definition required_text :: "release_env \<Rightarrow> object \<Rightarrow> string \<Rightarrow> release_error + pystr" where
  "required_text e ob key =
     (let value = (case jget ob (u key) of Some v \<Rightarrow> if truthy v then strip (py_str (re_text e) v) else [] | None \<Rightarrow> [])
      in if value = [] then Inl (manifest_error (''Manifest field '' @ key @ '' is required.'')) else Inr value)"

text \<open>\<open>netloc.rpartition("@")\<close>: the text before the last sign, if there is one, and the text after it.\<close>

definition userinfo :: "pystr \<Rightarrow> pystr" where
  "userinfo netloc = rev (drop 1 (dropWhile (\<lambda>c. c \<noteq> 64) (rev netloc)))"

definition hostinfo :: "pystr \<Rightarrow> pystr" where
  "hostinfo netloc = rev (takeWhile (\<lambda>c. c \<noteq> 64) (rev netloc))"

text \<open>\<open>parsed.username\<close> and \<open>parsed.password\<close>, empty for none.\<close>

definition url_username :: "pystr \<Rightarrow> pystr" where
  "url_username netloc = fst (cut 58 (userinfo netloc))"

definition url_password :: "pystr \<Rightarrow> pystr" where
  "url_password netloc = snd (cut 58 (userinfo netloc))"

text \<open>\<open>_hostinfo\<close>: host and port texts.\<close>

definition host_port :: "pystr \<Rightarrow> pystr \<times> pystr" where
  "host_port netloc =
     (let h = hostinfo netloc
      in if 91 \<in> set h then (let bracketed = snd (cut 91 h); (host, rest) = cut 93 bracketed in (host, snd (cut 58 rest)))
         else cut 58 h)"

definition url_hostname :: "release_env \<Rightarrow> pystr \<Rightarrow> pystr" where
  "url_hostname e netloc =
     (let host = fst (host_port netloc); (name, zone) = cut 37 host
      in re_lower e name @ drop (length name) host)"

text \<open>\<open>parsed.port is not None\<close>; an invalid port raises.\<close>

definition url_has_port :: "pystr \<Rightarrow> release_error + bool" where
  "url_has_port netloc =
     (let port = snd (host_port netloc)
      in if port = [] then Inr False
         else if list_all is_digit port \<and> nat_of_digits port \<le> 65535 then Inr True else Inl PlainValueError)"

definition parse_url :: "release_env \<Rightarrow> pystr \<Rightarrow> release_error + split_url" where
  "parse_url e s = (case urlsplit (re_bad_netloc e) s of Inl _ \<Rightarrow> Inl PlainValueError | Inr r \<Rightarrow> Inr r)"

definition https_url :: "release_env \<Rightarrow> object \<Rightarrow> string \<Rightarrow> release_error + pystr" where
  "https_url e ob key =
     bindE (required_text e ob key) (\<lambda>value.
     bindE (parse_url e value) (\<lambda>parsed.
     if url_scheme parsed \<noteq> u ''https'' \<or> url_netloc parsed = [] \<or> url_username (url_netloc parsed) \<noteq> []
        \<or> url_password (url_netloc parsed) \<noteq> [] \<or> list_ex (\<lambda>c. is_space c \<or> c < 32) value
     then Inl (manifest_error (''Manifest field '' @ key @ '' must be an HTTPS URL without embedded credentials.''))
     else Inr value))"

definition sha256_field :: "release_env \<Rightarrow> object \<Rightarrow> string \<Rightarrow> release_error + pystr" where
  "sha256_field e ob key =
     bindE (required_text e ob key) (\<lambda>value.
     if \<not> lower_hex64 (re_lower e value) then Inl (manifest_error (''Manifest field '' @ key @ '' must be a SHA256 digest.''))
     else Inr (re_lower e value))"

definition timestamp_field :: "release_env \<Rightarrow> object \<Rightarrow> string \<Rightarrow> release_error + pystr" where
  "timestamp_field e ob key =
     bindE (required_text e ob key) (\<lambda>value.
     case re_iso e (concat (map (\<lambda>c. if c = 90 then u ''+00:00'' else [c]) value)) of
       None \<Rightarrow> Inl (manifest_error (''Manifest field '' @ key @ '' must be an ISO 8601 timestamp.''))
     | Some zoned \<Rightarrow> if zoned then Inr value else Inl (manifest_error (''Manifest field '' @ key @ '' must include a timezone.'')))"

text \<open>Schema version and kind.\<close>

definition document_of :: "object \<Rightarrow> int \<Rightarrow> string \<Rightarrow> bool" where
  "document_of ob schema kind \<longleftrightarrow>
     (case jget ob (u ''schema_version'') of Some v \<Rightarrow> equals_int v schema | None \<Rightarrow> False)
   \<and> jget ob (u ''kind'') = Some (JStr (u kind))"

definition commit_and_key :: "release_env \<Rightarrow> object \<Rightarrow> string \<Rightarrow> release_error + unit" where
  "commit_and_key e ob label =
     bindE (required_text e ob ''git_commit'') (\<lambda>commit.
     bindE (reject (label @ '' git_commit must be a full hexadecimal commit.'') (\<not> COMMIT_RE (re_lower e commit))) (\<lambda>_.
     bindE (required_text e ob ''signing_key_id'') (\<lambda>key_id.
     reject (label @ '' signing_key_id is invalid.'') (\<not> KEY_ID_RE key_id))))"

section \<open>Documents\<close>

definition validate_channel_manifest :: "release_env \<Rightarrow> object \<Rightarrow> release_error + object" where
  "validate_channel_manifest e ob =
     bindE (reject ''Unsupported Atlaso channel manifest.'' (\<not> document_of ob CHANNEL_MANIFEST_SCHEMA ''atlaso-channel'')) (\<lambda>_.
     bindE (required_text e ob ''channel'') (\<lambda>channel.
     bindE (reject ''Channel must be stable, preview, or development.''
              (channel \<notin> {u ''stable'', u ''preview'', u ''development''})) (\<lambda>_.
     bindE (commit_and_key e ob ''Channel'') (\<lambda>_.
     bindE (https_url e ob ''release_manifest_url'') (\<lambda>_.
     bindE (required_text e ob ''version'') (\<lambda>version.
     bindE (reject ''Channel version must use X.Y.Z semantic versioning.'' (\<not> VERSION_RE version)) (\<lambda>_.
     bindE (timestamp_field e ob ''issued_at'') (\<lambda>_. Inr ob))))))))"

text \<open>An integer that is not a truth value.\<close>

definition plain_int :: "json option \<Rightarrow> int option" where
  "plain_int v = (case v of Some (JInt i) \<Rightarrow> Some i | _ \<Rightarrow> None)"

text \<open>\<open>isinstance(v, int) and int(v) > 0\<close>, truth values included.\<close>

definition positive_size :: "json option \<Rightarrow> bool" where
  "positive_size v = (case v of Some (JInt i) \<Rightarrow> 0 < i | Some (JBool b) \<Rightarrow> b | _ \<Rightarrow> False)"

definition abis_ok :: "release_env \<Rightarrow> json option \<Rightarrow> bool" where
  "abis_ok e v = (case v of
     Some (JArr js) \<Rightarrow> js \<noteq> [] \<and> list_all (\<lambda>j. py_str (re_text e) j \<in> set SUPPORTED_PYTHON_ABIS) js \<and> distinct js
   | _ \<Rightarrow> False)"

definition path_parts :: "pystr \<Rightarrow> pystr list" where
  "path_parts s = filter (\<lambda>p. p \<noteq> [] \<and> p \<noteq> u ''.'') (split_on 47 s)"

definition unsafe_path :: "pystr \<Rightarrow> bool" where
  "unsafe_path path \<longleftrightarrow> path = [] \<or> startswith path [47] \<or> startswith path [92] \<or> 92 \<in> set path \<or> u ''..'' \<in> set (path_parts path)"

definition check_hash :: "release_env \<Rightarrow> pystr \<times> json \<Rightarrow> release_error + unit" where
  "check_hash e entry = (case entry of (path, digest) \<Rightarrow>
     bindE (reject ''Release content_hashes contains an unsafe path.'' (unsafe_path path)) (\<lambda>_.
     raise_if (case digest of JStr d \<Rightarrow> \<not> lower_hex64 (re_lower e d) | _ \<Rightarrow> True)
       (ReleaseManifestError (u ''Release content hash for '' @ path @ u '' is invalid.''))))"

definition summary_ok :: "json option \<Rightarrow> bool" where
  "summary_ok v = (case v of
     None \<Rightarrow> True
   | Some JNull \<Rightarrow> True
   | Some (JStr s) \<Rightarrow> strip s \<noteq> [] \<and> length s \<le> 240 \<and> 10 \<notin> set s \<and> 13 \<notin> set s
   | _ \<Rightarrow> False)"

definition check_notes_url :: "release_env \<Rightarrow> object \<Rightarrow> release_error + unit" where
  "check_notes_url e ob = (case jget ob (u ''release_notes_url'') of
     None \<Rightarrow> Inr ()
   | Some JNull \<Rightarrow> Inr ()
   | Some v \<Rightarrow>
       bindE (reject ''Release notes URL must be at most 2048 characters.'' (RELEASE_NOTES_URL_MAX_LENGTH < length (strip (py_str (re_text e) v)))) (\<lambda>_.
       bindE (https_url e ob ''release_notes_url'') (\<lambda>_. Inr ())))"

definition check_bundle :: "release_env \<Rightarrow> json option \<Rightarrow> release_error + unit" where
  "check_bundle e v = (case v of
     Some (JObj bundle) \<Rightarrow>
       bindE (https_url e bundle ''url'') (\<lambda>_.
       bindE (sha256_field e bundle ''sha256'') (\<lambda>_.
       reject ''Release bundle size must be a positive integer.'' (\<not> positive_size (jget bundle (u ''size'')))))
   | _ \<Rightarrow> Inl (manifest_error ''Release bundle must be an object.''))"

definition check_hashes :: "release_env \<Rightarrow> json option \<Rightarrow> release_error + unit" where
  "check_hashes e v = (case v of
     Some (JObj hashes) \<Rightarrow>
       if hashes = [] then Inl (manifest_error ''Release content_hashes must be a non-empty object.'')
       else bindE (mapE (check_hash e) hashes) (\<lambda>_. Inr ())
   | _ \<Rightarrow> Inl (manifest_error ''Release content_hashes must be a non-empty object.''))"

definition validate_release_manifest :: "release_env \<Rightarrow> object \<Rightarrow> release_error + object" where
  "validate_release_manifest e ob =
     bindE (reject ''Unsupported Atlaso release manifest.'' (\<not> document_of ob RELEASE_MANIFEST_SCHEMA ''atlaso-release'')) (\<lambda>_.
     bindE (reject ''Release updater_protocol is missing or unsupported.''
              (case plain_int (jget ob (u ''updater_protocol'')) of None \<Rightarrow> True | Some i \<Rightarrow> i < 1 \<or> UPDATER_PROTOCOL < i)) (\<lambda>_.
     bindE (reject ''Release database_schema_version must be a positive integer.''
              (case plain_int (jget ob (u ''database_schema_version'')) of None \<Rightarrow> True | Some i \<Rightarrow> i < 1)) (\<lambda>_.
     bindE (commit_and_key e ob ''Release'') (\<lambda>_.
     bindE (reject ''Release supported_python_abis is invalid.'' (\<not> abis_ok e (jget ob (u ''supported_python_abis'')))) (\<lambda>_.
     bindE (check_bundle e (jget ob (u ''bundle''))) (\<lambda>_.
     bindE (check_hashes e (jget ob (u ''content_hashes''))) (\<lambda>_.
     bindE (required_text e ob ''version'') (\<lambda>version.
     bindE (reject ''Release version must use X.Y.Z semantic versioning.'' (\<not> VERSION_RE version)) (\<lambda>_.
     bindE (reject ''Release summary must be one non-empty line of at most 240 characters.'' (\<not> summary_ok (jget ob (u ''summary'')))) (\<lambda>_.
     bindE (check_notes_url e ob) (\<lambda>_.
     bindE (timestamp_field e ob ''built_at'') (\<lambda>_. Inr ob))))))))))))"

text \<open>An integer text beyond 4300 digits makes \<open>int\<close> raise.\<close>

definition int_text :: "pystr \<Rightarrow> release_error + int" where
  "int_text s = (if 4300 < length s then Inl PlainValueError else Inr (int (nat_of_digits s)))"

definition inventory_version_tuple :: "pystr \<Rightarrow> release_error + int list" where
  "inventory_version_tuple value =
     (if \<not> INVENTORY_VERSION_RE value then Inl (manifest_error ''Inventory Linux version must use X.Y.Z+revision versioning.'')
      else let (release, revision) = cut 43 value in mapE int_text (split_on 46 release @ [revision]))"

text \<open>\<open>urlparse\<close> splits the parameters off the last segment of the path.\<close>

definition without_params :: "pystr \<Rightarrow> pystr" where
  "without_params path =
     (let last_segment = rev (takeWhile (\<lambda>c. c \<noteq> 47) (rev path))
      in take (length path - length last_segment) path @ takeWhile (\<lambda>c. c \<noteq> 59) last_segment)"

text \<open>\<open>unquote\<close>; \<open>None\<close> stands for a text with a character beyond ASCII, which equals no expected path.\<close>

fun unquote_ascii :: "pystr \<Rightarrow> pystr option" where
  "unquote_ascii [] = Some []"
| "unquote_ascii (c # s) =
     (case (c, s) of
        (_, a # b # t) \<Rightarrow>
          if c = 37 \<and> hex_value a \<noteq> None \<and> hex_value b \<noteq> None
          then (let n = 16 * the (hex_value a) + the (hex_value b)
                in if n < 128 then map_option ((#) n) (unquote_ascii t) else None)
          else if c < 128 then map_option ((#) c) (unquote_ascii s) else None
      | _ \<Rightarrow> if c < 128 then map_option ((#) c) (unquote_ascii s) else None)"

definition expected_name :: "pystr \<Rightarrow> pystr" where
  "expected_name version = u ''atlaso-inventory-linux-'' @ version @ u ''.zip''"

definition expected_path :: "pystr \<Rightarrow> pystr" where
  "expected_path version = 47 # INVENTORY_RELEASE_REPOSITORY @ u ''/releases/download/inventory-linux-v'' @ version @ 47 # expected_name version"

definition check_package_url :: "release_env \<Rightarrow> pystr \<Rightarrow> pystr \<Rightarrow> release_error + unit" where
  "check_package_url e version package_url =
     bindE (parse_url e package_url) (\<lambda>parsed.
     if url_hostname e (url_netloc parsed) \<noteq> u ''github.com''
     then Inl (manifest_error ''Inventory Linux package URL must target the matching dedicated Atlaso release tag.'')
     else bindE (url_has_port (url_netloc parsed)) (\<lambda>has_port.
     reject ''Inventory Linux package URL must target the matching dedicated Atlaso release tag.''
       (has_port \<or> url_query parsed \<noteq> [] \<or> url_fragment parsed \<noteq> []
        \<or> unquote_ascii (without_params (url_path parsed)) \<noteq> Some (expected_path version))))"

definition check_package :: "release_env \<Rightarrow> pystr \<Rightarrow> json option \<Rightarrow> release_error + unit" where
  "check_package e version v = (case v of
     Some (JObj package) \<Rightarrow>
       bindE (required_text e package ''name'') (\<lambda>name.
       bindE (reject ''Inventory Linux package name does not match its version.'' (name \<noteq> expected_name version)) (\<lambda>_.
       bindE (https_url e package ''url'') (\<lambda>package_url.
       bindE (check_package_url e version package_url) (\<lambda>_.
       bindE (reject ''Inventory Linux package size is invalid.''
                (case plain_int (jget package (u ''size'')) of None \<Rightarrow> True | Some i \<Rightarrow> i \<le> 0 \<or> INVENTORY_PACKAGE_MAX_BYTES < i)) (\<lambda>_.
       bindE (sha256_field e package ''sha256'') (\<lambda>_. Inr ()))))))
   | _ \<Rightarrow> Inl (manifest_error ''Inventory Linux package must be an object.''))"

definition validate_inventory_release_manifest :: "release_env \<Rightarrow> object \<Rightarrow> release_error + object" where
  "validate_inventory_release_manifest e ob =
     bindE (reject ''Unsupported Atlaso Inventory Linux release manifest.''
              (\<not> document_of ob INVENTORY_RELEASE_MANIFEST_SCHEMA ''atlaso-inventory-linux-release'')) (\<lambda>_.
     bindE (required_text e ob ''version'') (\<lambda>version.
     bindE (inventory_version_tuple version) (\<lambda>_.
     bindE (commit_and_key e ob ''Inventory Linux'') (\<lambda>_.
     bindE (required_text e ob ''architecture'') (\<lambda>architecture.
     bindE (reject ''Inventory Linux architecture must be x86_64.'' (architecture \<noteq> u ''x86_64'')) (\<lambda>_.
     bindE (timestamp_field e ob ''built_at'') (\<lambda>_.
     bindE (check_package e version (jget ob (u ''package''))) (\<lambda>_. Inr ob))))))))"

section \<open>Signatures\<close>

text \<open>
  \<open>json.loads(raw.decode("utf-8"))\<close>. \<open>None\<close> covers the errors that the callers catch and the plain \<open>ValueError\<close> of an
  integer literal of more than 4300 digits, which they do not: the document is refused either way.
\<close>

definition decoded_json :: "release_env \<Rightarrow> bytes \<Rightarrow> json option" where
  "decoded_json e raw = (case utf8_decode raw of Inl _ \<Rightarrow> None | Inr s \<Rightarrow> json_loads (re_float e) s)"

definition signature_document :: "release_env \<Rightarrow> bytes \<Rightarrow> release_error + pystr \<times> pystr" where
  "signature_document e raw_signature = (case decoded_json e raw_signature of
     None \<Rightarrow> Inl (manifest_error ''Detached signature is not valid JSON.'')
   | Some (JObj ob) \<Rightarrow>
       bindE (reject ''Detached signature schema is unsupported.''
                (case jget ob (u ''schema_version'') of Some v \<Rightarrow> \<not> equals_int v SIGNATURE_SCHEMA | None \<Rightarrow> True)) (\<lambda>_.
       bindE (required_text e ob ''key_id'') (\<lambda>key_id.
       bindE (reject ''Detached signature key_id is invalid.'' (\<not> KEY_ID_RE key_id)) (\<lambda>_.
       bindE (required_text e ob ''signature'') (\<lambda>signature.
       case b64decode signature of
         None \<Rightarrow> Inl (manifest_error ''Detached signature is not valid base64.'')
       | Some decoded \<Rightarrow>
           if length decoded \<noteq> 64 then Inl (manifest_error ''Detached Ed25519 signature must be 64 bytes.'')
           else Inr (key_id, signature)))))
   | Some _ \<Rightarrow> Inl (manifest_error ''Detached signature schema is unsupported.''))"

definition validate_document :: "release_env \<Rightarrow> string \<Rightarrow> object \<Rightarrow> release_error + object" where
  "validate_document e kind ob =
     (if kind = ''channel'' then validate_channel_manifest e ob
      else if kind = ''release'' then validate_release_manifest e ob
      else if kind = ''inventory'' then validate_inventory_release_manifest e ob
      else Inl PlainValueError)"

definition verify_signed_json :: "release_env \<Rightarrow> bytes \<Rightarrow> bytes \<Rightarrow> string \<Rightarrow> release_error + object" where
  "verify_signed_json e raw_document raw_signature kind =
     bindE (signature_document e raw_signature) (\<lambda>(key_id, signature).
     case re_trusted e key_id of
       Missing \<Rightarrow> Inl (ReleaseManifestError (u ''Signing key '' @ key_id @ u '' is not trusted.''))
     | Malformed \<Rightarrow> Inl (ReleaseManifestError (u ''Signing key '' @ key_id @ u '' is malformed.''))
     | OtherKey \<Rightarrow> Inl (ReleaseManifestError (u ''Signing key '' @ key_id @ u '' is not Ed25519.''))
     | Ed25519 key \<Rightarrow>
         bindE (reject ''Detached manifest signature is invalid.''
                  (case b64decode signature of None \<Rightarrow> True | Some s \<Rightarrow> \<not> re_verify e key s raw_document)) (\<lambda>_.
         case decoded_json e raw_document of
           None \<Rightarrow> Inl (manifest_error ''Signed manifest is not valid JSON.'')
         | Some (JObj ob) \<Rightarrow>
             bindE (reject ''Manifest and detached signature key IDs do not match.'' (jget ob (u ''signing_key_id'') \<noteq> Some (JStr key_id))) (\<lambda>_.
             validate_document e kind ob)
         | Some _ \<Rightarrow> Inl (manifest_error ''Signed manifest must be a JSON object.'')))"

end
