(* ===== verification/Release_Manifest_Thms.thy ===== *)
theory Release_Manifest_Thms
  imports Release_Manifests
begin

text \<open>
  What an accepted release document guarantees: who signed it and as what, where its files go, and which package an
  inventory document names.
\<close>

section \<open>Accepted documents\<close>

lemma reject_Inr [simp]: "reject message bad = Inr x \<longleftrightarrow> \<not> bad"
  by (simp add: reject_def)

text \<open>The value of the \<open>kind\<close> field that belongs to a requested document kind.\<close>

definition document_name :: "string \<Rightarrow> string" where
  "document_name kind = (if kind = ''channel'' then ''atlaso-channel'' else if kind = ''release'' then ''atlaso-release''
     else ''atlaso-inventory-linux-release'')"

lemma channel_accepted: "validate_channel_manifest e ob = Inr x \<Longrightarrow> x = ob \<and> document_of ob CHANNEL_MANIFEST_SCHEMA ''atlaso-channel''"
  unfolding validate_channel_manifest_def bindE_eq_Inr reject_Inr by blast

lemma release_accepted: "validate_release_manifest e ob = Inr x \<Longrightarrow> x = ob \<and> document_of ob RELEASE_MANIFEST_SCHEMA ''atlaso-release''"
  unfolding validate_release_manifest_def bindE_eq_Inr reject_Inr by blast

lemma inventory_accepted: "validate_inventory_release_manifest e ob = Inr x
   \<Longrightarrow> x = ob \<and> document_of ob INVENTORY_RELEASE_MANIFEST_SCHEMA ''atlaso-inventory-linux-release''"
  unfolding validate_inventory_release_manifest_def bindE_eq_Inr reject_Inr by blast

lemma document_accepted:
  assumes "validate_document e kind ob = Inr x"
  shows "x = ob \<and> kind \<in> {''channel'', ''release'', ''inventory''} \<and> jget ob (u ''kind'') = Some (JStr (u (document_name kind)))"
proof -
  consider "kind = ''channel''" "validate_channel_manifest e ob = Inr x" | "kind = ''release''" "validate_release_manifest e ob = Inr x"
    | "kind = ''inventory''" "validate_inventory_release_manifest e ob = Inr x"
    using assms unfolding validate_document_def by (meson Inl_Inr_False)
  then show ?thesis
    by cases (use channel_accepted release_accepted inventory_accepted in \<open>simp_all add: document_of_def document_name_def\<close>)
qed

lemma u_inj: "u a = u b \<longleftrightarrow> a = b"
  unfolding u_def by (rule inj_map_eq_map) (simp add: inj_on_def)

lemma document_name_inj:
  "a \<in> {''channel'', ''release'', ''inventory''} \<Longrightarrow> b \<in> {''channel'', ''release'', ''inventory''}
   \<Longrightarrow> document_name a = document_name b \<Longrightarrow> a = b"
  by (auto simp: document_name_def)

section \<open>Signatures\<close>

lemma signature_accepted:
  assumes "signature_document e raw = Inr (key_id, signature)"
  shows "KEY_ID_RE key_id \<and> (\<exists>s. b64decode signature = Some s \<and> length s = 64)"
proof -
  obtain ob where "decoded_json e raw = Some (JObj ob)"
    using assms by (auto simp: signature_document_def split: option.splits json.splits)
  then show ?thesis using assms
    by (auto simp: signature_document_def bindE_eq_Inr split: option.splits if_splits)
qed

lemma key_file_name: "KEY_ID_RE s \<Longrightarrow> path_parts (s @ u ''.pem'') = [s @ u ''.pem'']"
proof -
  assume ok: "KEY_ID_RE s"
  then obtain c t where s: "s = c # t" "key_id_start c" by (auto simp: KEY_ID_RE_def split: list.splits)
  have "47 \<notin> set s"
    using ok by (auto simp: s KEY_ID_RE_def key_id_start_def list_all_iff u_def)
  moreover have "c \<noteq> 46" using s(2) by (auto simp: key_id_start_def)
  ultimately show ?thesis
    by (simp add: path_parts_def split_on_single u_def s(1))
qed

lemma verified_document:
  assumes "verify_signed_json e raw_document raw_signature kind = Inr ob"
  shows "\<exists>key_id s key. KEY_ID_RE key_id \<and> re_trusted e key_id = Ed25519 key \<and> length s = 64 \<and> re_verify e key s raw_document
     \<and> decoded_json e raw_document = Some (JObj ob) \<and> jget ob (u ''signing_key_id'') = Some (JStr key_id) \<and> validate_document e kind ob = Inr ob"
proof -
  obtain key_id signature where sig: "signature_document e raw_signature = Inr (key_id, signature)"
    using assms by (auto simp: verify_signed_json_def bindE_eq_Inr)
  then obtain s where s: "KEY_ID_RE key_id" "b64decode signature = Some s" "length s = 64"
    using signature_accepted by blast
  obtain key where key: "re_trusted e key_id = Ed25519 key"
    using assms sig by (auto simp: verify_signed_json_def split: trusted_key.splits)
  have rest: "re_verify e key s raw_document" "\<exists>ob'. decoded_json e raw_document = Some (JObj ob')
      \<and> jget ob' (u ''signing_key_id'') = Some (JStr key_id) \<and> validate_document e kind ob' = Inr ob"
    using assms sig s key
    by (auto simp: verify_signed_json_def bindE_eq_Inr split: option.splits json.splits)
  then show ?thesis using s key document_accepted by blast
qed

text \<open>
  C9: A verified document was signed: an Ed25519 key of the trust directory, in the file that its \<open>signing_key_id\<close>
  names and directly in that directory, verifies a 64-byte signature over exactly the received bytes, and the result is what
  these bytes decode to. The document says which kind it is, so no signature makes the same bytes pass as another kind.
\<close>

theorem verified_manifest_is_trusted:
  assumes ok: "verify_signed_json e raw_document raw_signature kind = Inr ob" and "other \<noteq> kind"
  shows "(\<exists>key_id s key. re_trusted e key_id = Ed25519 key \<and> length s = 64 \<and> re_verify e key s raw_document
            \<and> decoded_json e raw_document = Some (JObj ob)
            \<and> jget ob (u ''signing_key_id'') = Some (JStr key_id) \<and> path_parts (key_id @ u ''.pem'') = [key_id @ u ''.pem''])
       \<and> jget ob (u ''kind'') = Some (JStr (u (document_name kind)))
       \<and> isl (verify_signed_json e raw_document raw_signature' other)"
proof -
  note v = verified_document [OF ok]
  have kind: "jget ob (u ''kind'') = Some (JStr (u (document_name kind)))" "kind \<in> {''channel'', ''release'', ''inventory''}"
    using v document_accepted by blast+
  have "isl (verify_signed_json e raw_document raw_signature' other)"
  proof (rule ccontr)
    assume "\<not> ?thesis"
    then obtain ob' where "verify_signed_json e raw_document raw_signature' other = Inr ob'" by (cases "verify_signed_json e raw_document raw_signature' other") auto
    from verified_document [OF this] v have "validate_document e other ob = Inr ob" by auto
    then show False using document_accepted [of e other ob ob] kind document_name_inj [of other kind] \<open>other \<noteq> kind\<close> by (auto simp: u_inj)
  qed
  moreover have "\<exists>key_id s key. re_trusted e key_id = Ed25519 key \<and> length s = 64 \<and> re_verify e key s raw_document
            \<and> decoded_json e raw_document = Some (JObj ob)
            \<and> jget ob (u ''signing_key_id'') = Some (JStr key_id) \<and> path_parts (key_id @ u ''.pem'') = [key_id @ u ''.pem'']"
    using v key_file_name by blast
  ultimately show ?thesis using kind(1) by simp
qed

section \<open>Installed files\<close>

text \<open>The directory that a relative path leads to, level by level.\<close>

primrec walk :: "pystr list \<Rightarrow> pystr list \<Rightarrow> pystr list" where
  "walk dir [] = dir"
| "walk dir (p # ps) = walk (if p = u ''..'' then butlast dir else dir @ [p]) ps"

lemma walk_down: "u ''..'' \<notin> set ps \<Longrightarrow> walk dir ps = dir @ ps"
  by (induction ps arbitrary: dir) auto

lemma hash_accepted:
  "check_hash e (path, digest) = Inr x \<Longrightarrow> \<not> unsafe_path path \<and> (\<exists>d. digest = JStr d \<and> lower_hex64 (re_lower e d))"
  by (auto simp: check_hash_def bindE_eq_Inr split: json.splits)

lemma hashes_accepted:
  assumes "check_hashes e v = Inr x"
  shows "\<exists>hashes. v = Some (JObj hashes) \<and> hashes \<noteq> []
     \<and> (\<forall>(path, digest) \<in> set hashes. \<not> unsafe_path path \<and> (\<exists>d. digest = JStr d \<and> lower_hex64 (re_lower e d)))"
proof -
  obtain hashes where h: "v = Some (JObj hashes)" "hashes \<noteq> []" "\<exists>ys. mapE (check_hash e) hashes = Inr ys"
    using assms by (auto simp: check_hashes_def bindE_eq_Inr split: option.splits json.splits if_splits)
  from h(3) have "\<forall>(path, digest) \<in> set hashes. \<not> unsafe_path path \<and> (\<exists>d. digest = JStr d \<and> lower_hex64 (re_lower e d))"
    unfolding mapE_unit by (force dest: hash_accepted)
  with h show ?thesis by blast
qed

lemma https_accepted:
  "https_url e ob key = Inr link \<Longrightarrow> \<exists>parsed. required_text e ob key = Inr link \<and> parse_url e link = Inr parsed \<and> url_scheme parsed = u ''https''
     \<and> url_netloc parsed \<noteq> [] \<and> url_username (url_netloc parsed) = [] \<and> url_password (url_netloc parsed) = []"
  by (auto simp: https_url_def bindE_eq_Inr split: if_splits)

lemma bundle_accepted:
  assumes "check_bundle e v = Inr x"
  shows "\<exists>bob link parsed digest. v = Some (JObj bob) \<and> required_text e bob ''url'' = Inr link \<and> parse_url e link = Inr parsed
     \<and> url_scheme parsed = u ''https'' \<and> url_username (url_netloc parsed) = []
     \<and> sha256_field e bob ''sha256'' = Inr digest \<and> lower_hex64 digest"
proof -
  obtain bob link digest where b: "v = Some (JObj bob)" "https_url e bob ''url'' = Inr link" "sha256_field e bob ''sha256'' = Inr digest"
    using assms by (auto simp: check_bundle_def bindE_eq_Inr split: option.splits json.splits)
  moreover have "lower_hex64 digest" using b(3) by (auto simp: sha256_field_def bindE_eq_Inr split: if_splits)
  ultimately show ?thesis using https_accepted [OF b(2)] by blast
qed

text \<open>
  C18: A release that is accepted installs only below its root: every path of \<open>content_hashes\<close>, followed level by level from
  any directory, stays in that directory, is free of backslashes and has a SHA-256 digest; the bob comes from an HTTPS
  URL without user name and has a digest, and the updater protocol is one this appliance speaks.
\<close>

theorem accepted_release_stays_inside:
  assumes ok: "validate_release_manifest e ob = Inr x"
  shows "x = ob
       \<and> (\<exists>hashes. jget ob (u ''content_hashes'') = Some (JObj hashes) \<and> hashes \<noteq> []
            \<and> list_all (\<lambda>(path, digest). walk dir (path_parts path) = dir @ path_parts path \<and> take 1 path \<noteq> [47] \<and> 92 \<notin> set path
                \<and> (\<exists>d. digest = JStr d \<and> lower_hex64 (re_lower e d))) hashes)
       \<and> (\<exists>bob link parsed digest. jget ob (u ''bundle'') = Some (JObj bob) \<and> required_text e bob ''url'' = Inr link
            \<and> parse_url e link = Inr parsed \<and> url_scheme parsed = u ''https'' \<and> url_username (url_netloc parsed) = []
            \<and> sha256_field e bob ''sha256'' = Inr digest \<and> lower_hex64 digest)
       \<and> (\<exists>protocol. jget ob (u ''updater_protocol'') = Some (JInt protocol) \<and> 1 \<le> protocol \<and> protocol \<le> UPDATER_PROTOCOL)"
proof -
  have parts: "\<exists>x. check_hashes e (jget ob (u ''content_hashes'')) = Inr x" "\<exists>x. check_bundle e (jget ob (u ''bundle'')) = Inr x"
    "\<not> (case plain_int (jget ob (u ''updater_protocol'')) of None \<Rightarrow> True | Some i \<Rightarrow> i < 1 \<or> UPDATER_PROTOCOL < i)"
    using ok unfolding validate_release_manifest_def bindE_eq_Inr reject_Inr by blast+
  obtain hashes where h: "jget ob (u ''content_hashes'') = Some (JObj hashes)" "hashes \<noteq> []"
    "\<forall>(path, digest) \<in> set hashes. \<not> unsafe_path path \<and> (\<exists>d. digest = JStr d \<and> lower_hex64 (re_lower e d))"
    using parts(1) hashes_accepted by blast
  have "walk dir (path_parts path) = dir @ path_parts path \<and> take 1 path \<noteq> [47] \<and> 92 \<notin> set path" if "\<not> unsafe_path path" for path
    using that by (cases path) (auto simp: unsafe_path_def walk_down startswith_def)
  then have "list_all (\<lambda>(path, digest). walk dir (path_parts path) = dir @ path_parts path \<and> take 1 path \<noteq> [47] \<and> 92 \<notin> set path
                \<and> (\<exists>d. digest = JStr d \<and> lower_hex64 (re_lower e d))) hashes"
    using h(3) by (fastforce simp: list_all_iff)
  moreover have "\<exists>protocol. jget ob (u ''updater_protocol'') = Some (JInt protocol) \<and> 1 \<le> protocol \<and> protocol \<le> UPDATER_PROTOCOL"
    using parts(3) by (auto simp: plain_int_def not_less split: option.splits json.splits)
  moreover have "\<exists>bob link parsed digest. jget ob (u ''bundle'') = Some (JObj bob) \<and> required_text e bob ''url'' = Inr link
            \<and> parse_url e link = Inr parsed \<and> url_scheme parsed = u ''https'' \<and> url_username (url_netloc parsed) = []
            \<and> sha256_field e bob ''sha256'' = Inr digest \<and> lower_hex64 digest"
    using parts(2) bundle_accepted by blast
  ultimately show ?thesis using h(1,2) release_accepted [OF ok] by blast
qed

section \<open>Inventory packages\<close>

text \<open>
  An accepted inventory release names its package by its version: the file name, the host \<open>github.com\<close>, and the path of
  the release tag of that version in the project's repository, over HTTPS, without port, query, fragment or
  credentials; its size is positive and at most 2 GiB.
\<close>

theorem inventory_package_is_pinned:
  assumes ok: "validate_inventory_release_manifest e ob = Inr x"
  shows "\<exists>version package link parsed n. x = ob \<and> required_text e ob ''version'' = Inr version \<and> INVENTORY_VERSION_RE version
       \<and> jget ob (u ''package'') = Some (JObj package) \<and> required_text e package ''name'' = Inr (expected_name version)
       \<and> required_text e package ''url'' = Inr link \<and> parse_url e link = Inr parsed
       \<and> url_scheme parsed = u ''https'' \<and> url_hostname e (url_netloc parsed) = u ''github.com''
       \<and> url_username (url_netloc parsed) = [] \<and> url_password (url_netloc parsed) = [] \<and> url_has_port (url_netloc parsed) = Inr False
       \<and> unquote_ascii (without_params (url_path parsed)) = Some (expected_path version) \<and> url_query parsed = [] \<and> url_fragment parsed = []
       \<and> jget package (u ''size'') = Some (JInt n) \<and> 0 < n \<and> n \<le> INVENTORY_PACKAGE_MAX_BYTES"
proof -
  obtain version where v: "required_text e ob ''version'' = Inr version" "\<exists>t. inventory_version_tuple version = Inr t"
      "\<exists>y. check_package e version (jget ob (u ''package'')) = Inr y" "x = ob"
    using ok unfolding validate_inventory_release_manifest_def bindE_eq_Inr by blast
  have re: "INVENTORY_VERSION_RE version" using v(2) by (auto simp: inventory_version_tuple_def split: if_splits)
  obtain package where p: "jget ob (u ''package'') = Some (JObj package)"
    using v(3) by (auto simp: check_package_def split: option.splits json.splits)
  obtain link where q: "required_text e package ''name'' = Inr (expected_name version)" "https_url e package ''url'' = Inr link"
      "\<exists>y. check_package_url e version link = Inr y"
      "\<not> (case plain_int (jget package (u ''size'')) of None \<Rightarrow> True | Some i \<Rightarrow> i \<le> 0 \<or> INVENTORY_PACKAGE_MAX_BYTES < i)"
    using v(3) unfolding p check_package_def option.case json.case bindE_eq_Inr reject_Inr by blast
  obtain parsed where r: "required_text e package ''url'' = Inr link" "parse_url e link = Inr parsed" "url_scheme parsed = u ''https''"
      "url_username (url_netloc parsed) = []" "url_password (url_netloc parsed) = []"
    using https_accepted [OF q(2)] by blast
  have url: "url_hostname e (url_netloc parsed) = u ''github.com''" "url_has_port (url_netloc parsed) = Inr False" "url_query parsed = []"
      "url_fragment parsed = []" "unquote_ascii (without_params (url_path parsed)) = Some (expected_path version)"
    using q(3) r(2) by (auto simp: check_package_url_def bindE_eq_Inr split: if_splits)
  obtain n where n: "jget package (u ''size'') = Some (JInt n)" "0 < n" "n \<le> INVENTORY_PACKAGE_MAX_BYTES"
    using q(4) by (auto simp: plain_int_def not_less not_le split: option.splits json.splits)
  show ?thesis by (rule exI [of _ version], rule exI [of _ package], rule exI [of _ link], rule exI [of _ parsed], rule exI [of _ n])
      (use v re p q(1) r url n in simp)
qed

section \<open>Sample documents\<close>

definition release_sample :: release_env where
  "release_sample = \<lparr> re_text = \<lparr> te_casefold = (\<lambda>c. [c]), te_isalnum = (\<lambda>_. False), te_other_str = (\<lambda>_. []) \<rparr>,
     re_lower = map ascii_lower, re_float = (\<lambda>_. JNull), re_bad_netloc = (\<lambda>_. False), re_iso = (\<lambda>_. Some True),
     re_trusted = (\<lambda>k. if k = u ''k1'' then Ed25519 7 else Missing), re_verify = (\<lambda>k s m. k = 7 \<and> s = replicate 64 0) \<rparr>"

definition sample_channel :: object where
  "sample_channel = [(u ''schema_version'', JInt 2), (u ''kind'', JStr (u ''atlaso-channel'')), (u ''channel'', JStr (u ''stable'')),
     (u ''git_commit'', JStr (replicate 40 97)), (u ''signing_key_id'', JStr (u ''k1'')),
     (u ''release_manifest_url'', JStr (u ''https://a/b'')), (u ''version'', JStr (u ''1.2.3'')), (u ''issued_at'', JStr (u ''t''))]"

definition sample_signature :: object where
  "sample_signature = [(u ''schema_version'', JInt 1), (u ''key_id'', JStr (u ''k1'')), (u ''signature'', JStr (b64encode (replicate 64 0)))]"

definition document_bytes :: "object \<Rightarrow> bytes" where
  "document_bytes ob = map byte_of (render (\<lambda>_. []) (JObj ob))"

lemma document_bytes_decode: "plain (JObj ob) \<Longrightarrow> decoded_json e (document_bytes ob) = Some (JObj ob)"
  unfolding decoded_json_def document_bytes_def
  by (simp only: utf8_decode_encode [OF utf8_encode_printable [OF render_ascii [OF plain_float_free]]] json_loads_render sum.case)

lemma field_text:
  "jget ob (u key) = Some (JStr s) \<Longrightarrow> s \<noteq> [] \<Longrightarrow> \<not> is_space (hd s) \<Longrightarrow> \<not> is_space (last s) \<Longrightarrow> required_text e ob key = Inr s"
  by (simp add: required_text_def py_str_def strip_id)

lemma sample_https: "jget ob (u key) = Some (JStr (u ''https://a/b'')) \<Longrightarrow> https_url release_sample ob key = Inr (u ''https://a/b'')"
proof -
  assume "jget ob (u key) = Some (JStr (u ''https://a/b''))"
  then have "required_text release_sample ob key = Inr (u ''https://a/b'')" by (rule field_text) (simp_all add: u_def is_space_def)
  then show ?thesis
    by (simp add: https_url_def release_sample_def parse_url_def urlsplit_def split_scheme_def split_netloc_def cut_def
      unsafe_byte_def netloc_delimiter_def scheme_char_def ascii_alnum_def url_username_def url_password_def userinfo_def u_def is_space_def
      ascii_lower_def)
qed

lemma sample_digest: "lower_hex64 (map ascii_lower (replicate 64 97))"
  by (simp add: lower_hex64_def u_def ascii_lower_def list_all_iff)

lemma sample_sha256:
  "jget ob (u key) = Some (JStr (replicate 64 97)) \<Longrightarrow> sha256_field release_sample ob key = Inr (map ascii_lower (replicate 64 97))"
  using field_text [of ob key "replicate 64 97" release_sample] sample_digest by (simp add: sha256_field_def release_sample_def is_space_def)

lemma sample_commit_and_key:
  assumes "jget ob (u ''git_commit'') = Some (JStr (replicate 40 97))" "jget ob (u ''signing_key_id'') = Some (JStr (u ''k1''))"
  shows "commit_and_key release_sample ob label = Inr ()"
proof -
  have c: "COMMIT_RE (re_lower release_sample (replicate 40 97))"
    by (simp add: COMMIT_RE_def release_sample_def list_all_iff lower_hex_digit_def u_def ascii_lower_def)
  have k: "KEY_ID_RE (u ''k1'')" by (simp add: KEY_ID_RE_def key_id_start_def u_def)
  have "required_text release_sample ob ''git_commit'' = Inr (replicate 40 97)"
    using assms(1) by (rule field_text) (simp_all add: is_space_def)
  moreover have "required_text release_sample ob ''signing_key_id'' = Inr (u ''k1'')"
    using assms(2) by (rule field_text) (simp_all add: u_def is_space_def)
  ultimately show ?thesis using c k by (simp add: commit_and_key_def reject_def)
qed

lemma sample_timestamp:
  assumes "jget ob (u key) = Some (JStr (u ''t''))"
  shows "timestamp_field release_sample ob key = Inr (u ''t'')"
proof -
  have "required_text release_sample ob key = Inr (u ''t'')" using assms by (rule field_text) (simp_all add: u_def is_space_def)
  then show ?thesis by (simp add: timestamp_field_def release_sample_def)
qed

lemma sample_version: "VERSION_RE (u ''1.2.3'')"
  by (simp add: VERSION_RE_def digits_def is_digit_def u_def)

lemma sample_channel_fields:
  "required_text e sample_channel ''channel'' = Inr (u ''stable'')"
  "required_text e sample_channel ''version'' = Inr (u ''1.2.3'')"
  by (rule field_text; simp add: sample_channel_def jget_def u_def is_space_def)+

lemma sample_channel_plain: "plain (JObj sample_channel)"
  by (simp add: sample_channel_def) (simp add: u_def is_scalar_def is_surrogate_def dec_digits.simps list_all_iff)

lemma sample_signature_plain: "plain (JObj sample_signature)"
  using b64encode_printable by (fastforce simp add: sample_signature_def u_def is_scalar_def is_surrogate_def dec_digits.simps list_all_iff)

lemma sample_channel_valid: "validate_channel_manifest release_sample sample_channel = Inr sample_channel"
proof -
  have d: "document_of sample_channel CHANNEL_MANIFEST_SCHEMA ''atlaso-channel''"
    by (simp add: document_of_def sample_channel_def jget_def u_inj equals_int_def CHANNEL_MANIFEST_SCHEMA_def)
  have g: "jget sample_channel (u ''git_commit'') = Some (JStr (replicate 40 97))" "jget sample_channel (u ''signing_key_id'') = Some (JStr (u ''k1''))"
    "jget sample_channel (u ''release_manifest_url'') = Some (JStr (u ''https://a/b''))" "jget sample_channel (u ''issued_at'') = Some (JStr (u ''t''))"
    by (simp_all add: sample_channel_def jget_def u_inj)
  show ?thesis
    by (simp add: validate_channel_manifest_def sample_channel_fields d sample_version sample_timestamp [OF g(4)] sample_https [OF g(3)]
        sample_commit_and_key [OF g(1,2)] reject_def)
qed

lemma sample_signature_accepted: "signature_document release_sample (document_bytes sample_signature) = Inr (u ''k1'', b64encode (replicate 64 0))"
proof -
  have enc: "b64encode (replicate 64 0) = replicate 86 65 @ [61, 61]" by code_simp
  have f: "required_text release_sample sample_signature ''key_id'' = Inr (u ''k1'')"
    by (rule field_text) (simp_all add: sample_signature_def jget_def u_def is_space_def)
  have g: "required_text release_sample sample_signature ''signature'' = Inr (b64encode (replicate 64 0))"
    by (rule field_text) (simp_all add: sample_signature_def jget_def u_def enc is_space_def)
  have k: "KEY_ID_RE (u ''k1'')" by (simp add: KEY_ID_RE_def key_id_start_def u_def)
  have sc: "jget sample_signature (u ''schema_version'') = Some (JInt 1)" by (simp add: sample_signature_def jget_def)
  show ?thesis
    by (simp add: signature_document_def document_bytes_decode [OF sample_signature_plain] sc f g k reject_def equals_int_def
        SIGNATURE_SCHEMA_def b64decode_encode)
qed

lemma sample_channel_verified:
  "verify_signed_json release_sample (document_bytes sample_channel) (document_bytes sample_signature) ''channel'' = Inr sample_channel"
proof -
  have env: "re_trusted release_sample (u ''k1'') = Ed25519 7" "re_verify release_sample 7 (replicate 64 0) raw" for raw
    by (simp_all add: release_sample_def)
  have id: "jget sample_channel (u ''signing_key_id'') = Some (JStr (u ''k1''))" by (simp add: sample_channel_def jget_def u_def)
  show ?thesis
    by (simp add: verify_signed_json_def sample_signature_accepted env id b64decode_encode reject_def
        document_bytes_decode [OF sample_channel_plain] validate_document_def sample_channel_valid)
qed

theorem verified_manifest_is_trusted_witness:
  "verify_signed_json release_sample (document_bytes sample_channel) (document_bytes sample_signature) ''channel'' = Inr sample_channel
   \<and> jget sample_channel (u ''kind'') = Some (JStr (u (document_name ''channel'')))
   \<and> isl (verify_signed_json release_sample (document_bytes sample_channel) (document_bytes sample_signature) ''release'')"
  using verified_manifest_is_trusted [OF sample_channel_verified, of "''release''"] sample_channel_verified by simp

definition sample_release :: object where
  "sample_release = [(u ''schema_version'', JInt 2), (u ''kind'', JStr (u ''atlaso-release'')), (u ''updater_protocol'', JInt 1),
     (u ''database_schema_version'', JInt 4), (u ''git_commit'', JStr (replicate 40 97)), (u ''signing_key_id'', JStr (u ''k1'')),
     (u ''supported_python_abis'', JArr [JStr (u ''cp314'')]),
     (u ''bundle'', JObj [(u ''url'', JStr (u ''https://a/b'')), (u ''sha256'', JStr (replicate 64 97)), (u ''size'', JInt 9)]),
     (u ''content_hashes'', JObj [(u ''app/x'', JStr (replicate 64 97))]),
     (u ''version'', JStr (u ''1.2.3'')), (u ''built_at'', JStr (u ''t''))]"

lemma sample_release_valid: "validate_release_manifest release_sample sample_release = Inr sample_release"
proof -
  let ?bob = "[(u ''url'', JStr (u ''https://a/b'')), (u ''sha256'', JStr (replicate 64 97)), (u ''size'', JInt 9)]"
  have g: "jget sample_release (u ''git_commit'') = Some (JStr (replicate 40 97))" "jget sample_release (u ''signing_key_id'') = Some (JStr (u ''k1''))"
    "jget sample_release (u ''bundle'') = Some (JObj ?bob)" "jget sample_release (u ''built_at'') = Some (JStr (u ''t''))"
    "jget sample_release (u ''content_hashes'') = Some (JObj [(u ''app/x'', JStr (replicate 64 97))])"
    "jget sample_release (u ''version'') = Some (JStr (u ''1.2.3''))" "jget sample_release (u ''summary'') = None"
    "jget sample_release (u ''release_notes_url'') = None" "jget sample_release (u ''updater_protocol'') = Some (JInt 1)"
    "jget sample_release (u ''database_schema_version'') = Some (JInt 4)"
    "jget sample_release (u ''supported_python_abis'') = Some (JArr [JStr (u ''cp314'')])"
    "jget ?bob (u ''url'') = Some (JStr (u ''https://a/b''))" "jget ?bob (u ''sha256'') = Some (JStr (replicate 64 97))"
    "jget ?bob (u ''size'') = Some (JInt 9)"
    by (simp_all add: sample_release_def jget_def u_inj)
  have d: "document_of sample_release RELEASE_MANIFEST_SCHEMA ''atlaso-release''"
    by (simp add: document_of_def sample_release_def jget_def u_inj equals_int_def RELEASE_MANIFEST_SCHEMA_def)
  have b: "check_bundle release_sample (Some (JObj ?bob)) = Inr ()"
    by (simp add: check_bundle_def sample_https sample_sha256 g positive_size_def reject_def)
  have "unsafe_path (u ''app/x'') = False" by (simp add: unsafe_path_def path_parts_def u_def startswith_def)
  then have h: "check_hashes release_sample (Some (JObj [(u ''app/x'', JStr (replicate 64 97))])) = Inr ()"
    using sample_digest by (simp add: check_hashes_def check_hash_def reject_def release_sample_def)
  have v: "required_text release_sample sample_release ''version'' = Inr (u ''1.2.3'')"
    using g(6) by (rule field_text) (simp_all add: u_def is_space_def)
  show ?thesis
    by (simp add: validate_release_manifest_def d g b h v sample_commit_and_key sample_timestamp sample_version plain_int_def UPDATER_PROTOCOL_def
        abis_ok_def SUPPORTED_PYTHON_ABIS_def py_str_def summary_ok_def check_notes_url_def reject_def)
qed

theorem accepted_release_stays_inside_witness:
  "validate_release_manifest release_sample sample_release = Inr sample_release
   \<and> (\<exists>hashes. jget sample_release (u ''content_hashes'') = Some (JObj hashes)
        \<and> list_all (\<lambda>(path, digest). walk [u ''opt'', u ''atlaso''] (path_parts path) = [u ''opt'', u ''atlaso''] @ path_parts path) hashes)"
proof -
  have "\<exists>hashes. jget sample_release (u ''content_hashes'') = Some (JObj hashes)
        \<and> list_all (\<lambda>(path, digest). walk [u ''opt'', u ''atlaso''] (path_parts path) = [u ''opt'', u ''atlaso''] @ path_parts path) hashes"
    using accepted_release_stays_inside [OF sample_release_valid, of "[u ''opt'', u ''atlaso'']"] by (fastforce simp: list_all_iff)
  then show ?thesis using sample_release_valid by simp
qed

definition sample_package :: object where
  "sample_package = [(u ''name'', JStr (expected_name (u ''1.0.0+2''))),
     (u ''url'', JStr (u ''https://github.com'' @ expected_path (u ''1.0.0+2''))), (u ''size'', JInt 9), (u ''sha256'', JStr (replicate 64 97))]"

definition sample_inventory :: object where
  "sample_inventory = [(u ''schema_version'', JInt 1), (u ''kind'', JStr (u ''atlaso-inventory-linux-release'')),
     (u ''version'', JStr (u ''1.0.0+2'')), (u ''git_commit'', JStr (replicate 40 97)), (u ''signing_key_id'', JStr (u ''k1'')),
     (u ''architecture'', JStr (u ''x86_64'')), (u ''built_at'', JStr (u ''t'')), (u ''package'', JObj sample_package)]"

lemma sample_inventory_fields:
  "jget sample_inventory (u ''version'') = Some (JStr (u ''1.0.0+2''))"
  "jget sample_inventory (u ''git_commit'') = Some (JStr (replicate 40 97))"
  "jget sample_inventory (u ''signing_key_id'') = Some (JStr (u ''k1''))"
  "jget sample_inventory (u ''architecture'') = Some (JStr (u ''x86_64''))"
  "jget sample_inventory (u ''built_at'') = Some (JStr (u ''t''))"
  "jget sample_inventory (u ''package'') = Some (JObj sample_package)"
  "jget sample_package (u ''name'') = Some (JStr (expected_name (u ''1.0.0+2'')))"
  "jget sample_package (u ''url'') = Some (JStr (u ''https://github.com'' @ expected_path (u ''1.0.0+2'')))"
  "jget sample_package (u ''size'') = Some (JInt 9)"
  "jget sample_package (u ''sha256'') = Some (JStr (replicate 64 97))"
  by (simp_all add: sample_inventory_def sample_package_def jget_def u_inj)

lemma sample_inventory_texts:
  "required_text e sample_inventory ''version'' = Inr (u ''1.0.0+2'')"
  "required_text e sample_inventory ''architecture'' = Inr (u ''x86_64'')"
  "required_text e sample_package ''name'' = Inr (expected_name (u ''1.0.0+2''))"
  "required_text e sample_package ''url'' = Inr (u ''https://github.com'' @ expected_path (u ''1.0.0+2''))"
  by (rule field_text, rule sample_inventory_fields; simp add: u_def is_space_def expected_name_def expected_path_def)+

definition sample_parsed :: split_url where
  "sample_parsed = \<lparr> url_scheme = u ''https'', url_netloc = u ''github.com'', url_path = expected_path (u ''1.0.0+2''), url_query = [], url_fragment = [] \<rparr>"

lemma sample_parse: "parse_url release_sample (u ''https://github.com'' @ expected_path (u ''1.0.0+2'')) = Inr sample_parsed"
  by (simp add: parse_url_def sample_parsed_def expected_path_def expected_name_def INVENTORY_RELEASE_REPOSITORY_def release_sample_def urlsplit_def
      split_scheme_def split_netloc_def cut_def unsafe_byte_def netloc_delimiter_def scheme_char_def ascii_alnum_def u_def ascii_lower_def)

lemma sample_host: "userinfo (u ''github.com'') = []" "host_port (u ''github.com'') = (u ''github.com'', [])"
  "url_hostname release_sample (u ''github.com'') = u ''github.com''"
  by (simp_all add: userinfo_def host_port_def hostinfo_def cut_def url_hostname_def release_sample_def ascii_lower_def u_def)

lemma unquote_step: "c < 128 \<Longrightarrow> c \<noteq> 37 \<Longrightarrow> unquote_ascii (c # s) = map_option ((#) c) (unquote_ascii s)"
  unfolding unquote_ascii.simps(2) [of c s] by (cases s; cases "tl s") simp_all

lemma unquote_plain: "list_all (\<lambda>c. c < 128 \<and> c \<noteq> 37) s \<Longrightarrow> unquote_ascii s = Some s"
  by (induction s) (simp_all del: unquote_ascii.simps(2) add: unquote_step)

lemma without_params_plain:
  assumes "59 \<notin> set path"
  shows "without_params path = path"
proof -
  define w where "w = rev (takeWhile (\<lambda>c. c \<noteq> 47) (rev path))"
  have "path = rev (dropWhile (\<lambda>c. c \<noteq> 47) (rev path)) @ w"
    unfolding w_def by (metis rev_append rev_rev_ident takeWhile_dropWhile_id)
  then obtain a where a: "path = a @ w" ..
  have "takeWhile (\<lambda>c. c \<noteq> 59) w = w" using assms unfolding a takeWhile_eq_all_conv by auto
  then show ?thesis unfolding without_params_def w_def [symmetric] Let_def using a by simp
qed

lemma sample_package_url: "check_package_url release_sample (u ''1.0.0+2'') (u ''https://github.com'' @ expected_path (u ''1.0.0+2'')) = Inr ()"
proof -
  have plain_path: "list_all (\<lambda>c. c < 128 \<and> c \<noteq> 37) (expected_path (u ''1.0.0+2''))" "59 \<notin> set (expected_path (u ''1.0.0+2''))"
    by (simp_all add: expected_path_def expected_name_def INVENTORY_RELEASE_REPOSITORY_def u_def)
  have p: "url_netloc sample_parsed = u ''github.com''" "url_query sample_parsed = []" "url_fragment sample_parsed = []"
    "unquote_ascii (without_params (url_path sample_parsed)) = Some (expected_path (u ''1.0.0+2''))"
    by (simp_all add: sample_parsed_def unquote_plain without_params_plain plain_path)
  show ?thesis
    by (simp add: check_package_url_def sample_parse p sample_host url_has_port_def reject_def)
qed

lemma sample_package_https: "https_url release_sample sample_package ''url'' = Inr (u ''https://github.com'' @ expected_path (u ''1.0.0+2''))"
proof -
  have ok: "\<not> list_ex (\<lambda>c. is_space c \<or> c < 32) (u ''https://github.com'' @ expected_path (u ''1.0.0+2''))"
    by (simp add: expected_path_def expected_name_def INVENTORY_RELEASE_REPOSITORY_def u_def is_space_def)
  have "url_scheme sample_parsed = u ''https''" "url_netloc sample_parsed = u ''github.com''" "u ''github.com'' \<noteq> []"
    by (simp_all add: sample_parsed_def u_def)
  then show ?thesis using ok
    by (simp add: https_url_def sample_inventory_texts sample_parse url_username_def url_password_def sample_host cut_def)
qed

lemma sample_inventory_valid: "validate_inventory_release_manifest release_sample sample_inventory = Inr sample_inventory"
proof -
  have d: "document_of sample_inventory INVENTORY_RELEASE_MANIFEST_SCHEMA ''atlaso-inventory-linux-release''"
    by (simp add: document_of_def sample_inventory_def jget_def u_inj equals_int_def INVENTORY_RELEASE_MANIFEST_SCHEMA_def)
  obtain t where v: "inventory_version_tuple (u ''1.0.0+2'') = Inr t"
    by (simp add: inventory_version_tuple_def INVENTORY_VERSION_RE_def VERSION_RE_def digits_def is_digit_def u_def cut_def int_text_def)
  have p: "check_package release_sample (u ''1.0.0+2'') (Some (JObj sample_package)) = Inr ()"
    by (simp add: check_package_def sample_inventory_texts sample_package_https sample_package_url plain_int_def INVENTORY_PACKAGE_MAX_BYTES_def
        sample_inventory_fields sample_sha256 reject_def)
  show ?thesis
    by (simp add: validate_inventory_release_manifest_def d v sample_inventory_texts sample_commit_and_key sample_timestamp
        sample_inventory_fields p reject_def)
qed

theorem inventory_package_is_pinned_witness:
  "validate_inventory_release_manifest release_sample sample_inventory = Inr sample_inventory
   \<and> (\<exists>version package. required_text release_sample sample_inventory ''version'' = Inr version \<and> INVENTORY_VERSION_RE version
        \<and> jget sample_inventory (u ''package'') = Some (JObj package) \<and> required_text release_sample package ''name'' = Inr (expected_name version))"
  using inventory_package_is_pinned [OF sample_inventory_valid] sample_inventory_valid by blast

end
