(* ===== verification/Spec2Isabelle.thy ===== *)
theory Spec2Isabelle
  imports Kmip_Protocol_Thms Kmip_Server_Thms Security_Thms Ui_Routes Chunk_Router_Thms Task_Thms
    Traffic_Preview Network_Object_Thms Release_Manifest_Thms
begin

text \<open>
  \<^bold>\<open>Verification of the Atlaso appliance's services\<close>

  Atlaso is a lab appliance: a web application and its background worker manage the services of one
  host (networking, certificates, directories, boot images, VMware depots), and a separate process, the
  KMIP server, hands out the keys of vSphere key providers. The development models the parts of it in
  which a mistake costs keys, access or data, in the order a request meets them.

  \<^bold>\<open>The KMIP service\<close> (\<open>src/atlaso/app/kmip\<close>). A TLS client whose certificate is mapped to a provider
  sends TTLV messages; each is decoded, dispatched item by item to the key store of the provider, and
  answered; on request the exchange is recorded in a trace file that an offline validator accepts or
  rejects.
  \<^item> \<open>Kmip_Ttlv\<close> is \<open>ttlv.py\<close>: nodes, encoder, strict decoder. It instantiates the locale
    \<open>strict_codec\<close>: the decoder accepts exactly the encodings of bounded nodes. Bounds of the source:
    \<open>MAX_MESSAGE_BYTES\<close>, 16 levels, 4096 nodes; they are the fuel of the recursive decoder, so it is total.
  \<^item> \<open>Kmip_Store\<close> is \<open>store.py\<close>: the KEK file, the SQLite table of wrapped keys, and the commitments
    that tie them. \<open>Kmip_Store_Envelope\<close> (round trip of the KEK file), \<open>Kmip_Store_Inv\<close> (the invariant, kept
    by every operation, failing writes and commits included), \<open>Kmip_Store_Refine\<close> (the abstract store: a
    map from provider and identifier to a key), \<open>Kmip_Store_Live\<close> (operations succeed on a healthy
    platform), \<open>Kmip_Store_Props\<close> (the theorems).
  \<^item> \<open>Kmip_Protocol\<close> is \<open>protocol.py\<close>: one definition per request handler, and the batch loop with its
    \<open>except\<close> clauses. \<open>Kmip_Protocol_Props\<close> and \<open>Kmip_Protocol_Thms\<close> show what a response can contain and that
    requests of one provider do not touch the keys of another.
  \<^item> \<open>Kmip_Trace\<close> is \<open>trace.py\<close> with the contract \<open>vcf_9_1.json\<close>; \<open>Kmip_Trace_Props\<close> characterises the
    accepted traces.
  \<^item> \<open>Kmip_Server\<close> is \<open>server.py\<close>: configuration, trace recorder, connection handler, connection limit
    and the modes of \<open>main\<close>. \<open>Kmip_Server_Props\<close> and \<open>Kmip_Server_Thms\<close> compose it with the dispatcher, the
    store and the trace validator.

  \<^bold>\<open>Access to the web application\<close> (\<open>src/atlaso/app/security.py\<close> and its neighbours).
  \<^item> \<open>Security\<close>: roles, scopes, the table of page permissions, browser sessions (login, idle expiry,
    logout) and audit records. \<open>Security_Props\<close>: normal forms of roles, the permission table has no
    shadowed entry, ended sessions stay ended.
  \<^item> \<open>Token_Service\<close>: API tokens (\<open>token_service.py\<close>, the bearer authentication of \<open>security.py\<close>, the
    endpoints of \<open>routers/api_v1/identity.py\<close>) and the bootstrap login. \<open>Token_Props\<close>: the step relation
    \<open>auth_step\<close> of all these operations and what they keep. \<open>Security_Thms\<close>: the theorems.
  \<^item> \<open>Ui_Routes\<close> is \<open>ui_routes.py\<close>: namespaces, redirection of retired paths, and the return target of a
    login.

  \<^bold>\<open>Uploads.\<close> \<open>Upload_Publication\<close> is \<open>services/upload_publication.py\<close>: a validated upload replaces a
  destination that is still the approved one, or nothing changes, over a file system with hard links in
  which every system call may fail. \<open>Chunk_Uploads\<close> is \<open>services/chunk_uploads.py\<close>: the sessions that stage a
  file chunk by chunk, one transition per method of \<open>UploadStore\<close>, with failing writes. \<open>Chunk_Router\<close> is
  \<open>routers/chunk_uploads.py\<close>: permission table, reservation, chunks, cancellation and the route class that hands
  complete files to an endpoint. \<open>Chunk_Upload_Thms\<close> (a claimed upload is exactly what was acknowledged, the
  store stays within its limits, sessions of different owners do not interfere) and \<open>Chunk_Router_Thms\<close> (every
  reservation and finalisation was authorised).

  \<^bold>\<open>Tasks.\<close> \<open>Task_Cancellation\<close> is \<open>services/task_cancellation.py\<close> and the worker's \<open>claim_next_job\<close>, over a session
  with pending and committed tables and with the commits of other sessions between the steps. \<open>Task_Thms\<close>:
  finished tasks and recorded requests are never rewritten, accepted requests were allowed at that moment,
  queued tasks are cancelled, claims are sound.

  \<^bold>\<open>Traffic.\<close> \<open>Source_Groups\<close>: the named address groups of \<open>services/firewall.py\<close>, their references, expansion
  and validation; \<open>Source_Group_Thms\<close> characterises the expansion of a validated table by reachability.
  \<open>Network_Objects\<close>: \<open>services/network_objects.py\<close> and the request of \<open>routers/ui/network_objects.py\<close> that creates, edits and
  deletes groups; \<open>Network_Object_Thms\<close>: the table stays valid along \<open>objects_reach\<close>, a deleted group was used by no group
  and no rule in canonical notation, and a reference with a space escapes that check.
  \<open>Traffic_Publishing\<close>: the switches, targets, rules and text of source translation
  (\<open>services/traffic_publishing.py\<close>); \<open>Traffic_Thms\<close>: active rules never touch a management interface, and the
  switch has one owner. \<open>Port_Forwarding\<close>: request schema, validation and transactions of \<open>services/port_forwarding.py\<close>;
  \<open>Port_Forward_Thms\<close>: the invariant of the saved rules (\<open>forwards_ok\<close>, kept along \<open>forward_reach\<close>) and what a saved
  rule cannot reach. \<open>Port_Forward_Apply\<close>: the records for the privileged helper, the firewall projection and the
  comparison with observations; \<open>Port_Forward_Apply_Thms\<close>: published records are recognised, reported states are
  exact, connection marks are distinct. \<open>Traffic_Preview\<close> composes the two into the text that
  \<open>traffic_publishing_context\<close> of \<open>ui.py\<close> publishes: it is read back as it was meant as long as no line of it contains a
  line separator, and a rule name with such a separator can hide every port forward.

  \<^bold>\<open>Releases.\<close> \<open>Release_Manifests\<close> is \<open>services/release_updates.py\<close>: the channel, release and inventory documents an
  appliance updates from, their detached Ed25519 signatures and the URLs, paths, digests and versions in them.
  \<open>Release_Manifest_Thms\<close>: a verified document was signed by the trusted key it names and passes as one kind only, the
  files of an accepted release stay below its root, and the version of an inventory release fixes its package.

  \<^bold>\<open>The library.\<close> \<open>Atlaso_Prelude\<close> (results and stateful programs, the contract \<open>keeps\<close> of an operation, the
  locales \<open>strict_codec\<close> and \<open>transition_preorder\<close>, bytes and big-endian integers), \<open>Kmip_Exceptions\<close>,
  and the parts of Python the code uses: \<open>Utf8\<close>, \<open>Json\<close> (rendering, parsing and their round trip),
  \<open>Base64\<close>, \<open>Py_Uuid\<close>, \<open>Py_Text\<close>, \<open>Py_Ipaddress\<close>, \<open>Py_Ipnetwork\<close>, \<open>Py_Repr\<close>, \<open>Web_Text\<close>.

  \<^bold>\<open>How code becomes definitions.\<close> A function that may raise returns \<open>error + value\<close>; a method that
  changes state is a program \<open>state \<Rightarrow> (error + value) \<times> state\<close>, so that what was changed before an
  exception stays changed. Database sessions keep the pending and the committed tables apart. What is
  not code of the repository is a parameter: cryptography, clocks, random bytes, the outcome of writes
  (\<open>platform\<close>, \<open>server_env\<close>, \<open>security_env\<close>, \<open>release_env\<close>), Unicode tables (\<open>text_env\<close>), signed tokens (\<open>jwt_encode\<close>,
  \<open>jwt_decode\<close>). What a theorem needs of a parameter is a named hypothesis (\<open>platform_ok\<close>,
  \<open>text_env_ok\<close>, \<open>lower_ok\<close>, \<open>jwt_ok\<close>, \<open>calm\<close>) that states its documented behaviour, and the witness of the
  theorem instantiates it. Decimal integers are bounded by CPython's limit of 4300 digits. The request
  loop of a connection runs at most \<open>max_requests_per_connection\<close> times, which is its fuel.

  \<^bold>\<open>Not modelled.\<close> Sockets, TLS and thread scheduling; argument parsing and log lines; the operational
  log of audit events; HTML pages and their templates; the parts of the web application that drive
  host tools through subprocesses (interfaces, firewall rendering, DNS, DHCP, LDAP, boot and depot services)
  and the build and release scripts. Their decisions are made by programs outside the repository, or they are
  rendering code whose correctness is visual. Of the database queries only the tables that a modelled
  service reads are kept; the rows that a validation reads are its arguments.
\<close>

end
